(* ===== verification/Spoke_Prelude.thy ===== *)
theory Spoke_Prelude
  imports Main "HOL-Library.AList" "HOL-Library.List_Lexorder" "HOL-Library.Char_ord"
    "HOL-Library.Multiset" "HOL-Library.Sublist"
begin

text \<open>
  Shared ground of the development: how Go's values are represented, and the lemmas every
  component uses.

  \<^item> A Go string is a sequence of bytes, a \<open>string\<close> (list of 8-bit characters); Go's \<open><\<close> on
    strings is the lexicographic order of their bytes, the order of \<open>List_Lexorder\<close>.
  \<^item> A Go map is an association list with distinct keys. Its order stands for the order in
    which one run of the program ranges over the map; Go leaves that order open, so theorems
    about ranging hold for every list that represents the map. Reading is \<open>map_of\<close>, writing
    is \<open>AList.update\<close>, \<open>delete\<close> is \<open>AList.delete\<close>.
  \<^item> A call that returns \<open>(T, error)\<close>, or that may panic, is a value of \<open>'e + 'a\<close>, with
    \<open>Inl\<close> for the error; \<open>rbind\<close> is the early return after \<open>if err != nil\<close>.
\<close>

section \<open>Go maps as association lists\<close>

type_synonym ('k, 'v) gomap = "('k \<times> 'v) list"

abbreviation gm_get :: "('k, 'v) gomap \<Rightarrow> 'k \<Rightarrow> 'v option" where
  "gm_get m k \<equiv> map_of m k"

abbreviation gm_put :: "'k \<Rightarrow> 'v \<Rightarrow> ('k, 'v) gomap \<Rightarrow> ('k, 'v) gomap" where
  "gm_put k v m \<equiv> AList.update k v m"

abbreviation gm_del :: "'k \<Rightarrow> ('k, 'v) gomap \<Rightarrow> ('k, 'v) gomap" where
  "gm_del k m \<equiv> AList.delete k m"

definition gm_ok :: "('k, 'v) gomap \<Rightarrow> bool" where
  "gm_ok m \<longleftrightarrow> distinct (map fst m)"

named_theorems gomap \<comment> \<open>how the map operations act on lookups, keys and well-formedness\<close>

lemma gm_ok_Nil [gomap, simp]: "gm_ok []"
  by (simp add: gm_ok_def)

lemma gm_ok_Cons [gomap]: "gm_ok ((k, v) # m) \<longleftrightarrow> k \<notin> fst ` set m \<and> gm_ok m"
  by (simp add: gm_ok_def)

lemma gm_ok_put [gomap, simp, intro]: "gm_ok m \<Longrightarrow> gm_ok (gm_put k v m)"
  by (simp add: gm_ok_def distinct_update)

lemma gm_ok_del [gomap, simp, intro]: "gm_ok m \<Longrightarrow> gm_ok (gm_del k m)"
  by (simp add: gm_ok_def distinct_delete)

lemma gm_get_put [gomap]: "gm_get (gm_put k v m) k' = (if k' = k then Some v else gm_get m k')"
  by (simp add: update_conv')

lemma gm_get_del [gomap]: "gm_get (gm_del k m) k' = (if k' = k then None else gm_get m k')"
  by (simp add: delete_conv')

lemma gm_get_iff [gomap]: "gm_ok m \<Longrightarrow> gm_get m k = Some v \<longleftrightarrow> (k, v) \<in> set m"
  by (simp add: gm_ok_def)

lemma gm_get_perm:
  assumes "gm_ok m" and "mset m = mset m'"
  shows "gm_get m' = gm_get m"
proof -
  have "distinct (map fst m')"
    using assms by (metis gm_ok_def mset_eq_imp_distinct_iff mset_map)
  then show ?thesis
    using assms by (metis gm_ok_def map_of_eqI mset_eq_setD set_map map_of_eq_Some_iff
        ext option.exhaust)
qed

lemma gm_ok_perm: "gm_ok m \<Longrightarrow> mset m = mset m' \<Longrightarrow> gm_ok m'"
  by (metis gm_ok_def mset_eq_imp_distinct_iff mset_map)

text \<open>
  Filling a map from a list, each value under a key of its own (a later value with the same key
  replaces an earlier one), and what such a map satisfies.
\<close>

definition gm_store :: "('v \<Rightarrow> 'k) \<Rightarrow> 'v list \<Rightarrow> ('k, 'v) gomap" where
  "gm_store key vs = fold (\<lambda>v m. gm_put (key v) v m) vs []"

definition keyed_by :: "('v \<Rightarrow> 'k) \<Rightarrow> ('k, 'v) gomap \<Rightarrow> bool" where
  "keyed_by key m \<longleftrightarrow> gm_ok m \<and> list_all (\<lambda>(k, v). k = key v) m"

lemma keyed_by_ok [dest]: "keyed_by key m \<Longrightarrow> gm_ok m"
  by (simp add: keyed_by_def)

lemma keyed_by_elem: "keyed_by key m \<Longrightarrow> (k, v) \<in> set m \<Longrightarrow> k = key v"
  by (auto simp: keyed_by_def list_all_iff)

lemma set_gm_put: "set (gm_put k v m) \<subseteq> insert (k, v) (set m)"
  by (induction m) auto

lemma keyed_by_put [intro]: "keyed_by key m \<Longrightarrow> keyed_by key (gm_put (key v) v m)"
  using set_gm_put [of "key v" v m] by (fastforce simp: keyed_by_def list_all_iff)

lemma keyed_by_fold:
  "keyed_by key m \<Longrightarrow> keyed_by key (fold (\<lambda>v m. gm_put (key v) v m) vs m)"
  by (induction vs arbitrary: m) auto

lemma keyed_by_store [simp, intro]: "keyed_by key (gm_store key vs)"
  unfolding gm_store_def by (rule keyed_by_fold) (simp add: keyed_by_def)

lemma set_fold_put:
  "set (fold (\<lambda>v m. gm_put (key v) v m) vs m) \<subseteq> set m \<union> (\<lambda>v. (key v, v)) ` set vs"
proof (induction vs arbitrary: m)
  case (Cons v vs)
  then show ?case using set_gm_put [of "key v" v m] by fastforce
qed simp

lemma gm_store_elem: "(k, v) \<in> set (gm_store key vs) \<Longrightarrow> v \<in> set vs \<and> k = key v"
  unfolding gm_store_def using set_fold_put [of key vs "[]"] by auto

lemma list_all_store:
  "(\<And>v. v \<in> set vs \<Longrightarrow> P v) \<Longrightarrow> list_all (\<lambda>(k, v). P v) (gm_store key vs)"
  by (auto simp: list_all_iff dest: gm_store_elem)

lemma gm_get_fold_put:
  "gm_get (fold (\<lambda>v m. gm_put (key v) v m) vs m) k =
     (case find (\<lambda>v. key v = k) (rev vs) of Some v \<Rightarrow> Some v | None \<Rightarrow> gm_get m k)"
  by (induction vs rule: rev_induct) (auto simp: update_conv')

lemma gm_get_store: "gm_get (gm_store key vs) k = find (\<lambda>v. key v = k) (rev vs)"
  by (cases "find (\<lambda>v. key v = k) (rev vs)") (simp_all add: gm_store_def gm_get_fold_put)

text \<open>Without a repeated key, filling a map keeps the list.\<close>

lemma gm_put_fresh: "k \<notin> fst ` set m \<Longrightarrow> gm_put k v m = m @ [(k, v)]"
  by (induction m) auto

lemma gm_store_distinct: "distinct (map key vs) \<Longrightarrow> gm_store key vs = map (\<lambda>v. (key v, v)) vs"
proof (induction vs rule: rev_induct)
  case (snoc v vs)
  then have "gm_store key (vs @ [v]) = gm_put (key v) v (map (\<lambda>v. (key v, v)) vs)" by (simp add: gm_store_def)
  moreover have "key v \<notin> fst ` set (map (\<lambda>v. (key v, v)) vs)" using snoc.prems by force
  ultimately show ?case by (simp add: gm_put_fresh)
qed (simp add: gm_store_def)

section \<open>Results: values or errors\<close>

definition rbind :: "'e + 'a \<Rightarrow> ('a \<Rightarrow> 'e + 'b) \<Rightarrow> 'e + 'b" where
  "rbind r f = (case r of Inl e \<Rightarrow> Inl e | Inr a \<Rightarrow> f a)"

lemma rbind_simps [simp]: "rbind (Inl e) f = Inl e" "rbind (Inr a) f = f a"
  by (simp_all add: rbind_def)

lemma rbind_Inr_iff: "rbind r f = Inr b \<longleftrightarrow> (\<exists>a. r = Inr a \<and> f a = Inr b)"
  by (cases r) auto

lemma rbind_Inl_iff: "rbind r f = Inl e \<longleftrightarrow> r = Inl e \<or> (\<exists>a. r = Inr a \<and> f a = Inl e)"
  by (cases r) auto

lemma rbind_cong [fundef_cong]:
  "r = r' \<Longrightarrow> (\<And>a. r' = Inr a \<Longrightarrow> f a = f' a) \<Longrightarrow> rbind r f = rbind r' f'"
  by (cases r') auto

definition is_ok :: "'e + 'a \<Rightarrow> bool" where
  "is_ok r \<longleftrightarrow> (case r of Inl _ \<Rightarrow> False | Inr _ \<Rightarrow> True)"

lemma is_ok_simps [simp]: "\<not> is_ok (Inl e)" "is_ok (Inr a)"
  by (simp_all add: is_ok_def)

lemma is_ok_iff: "is_ok r \<longleftrightarrow> (\<exists>a. r = Inr a)"
  by (cases r) auto

lemma is_ok_rbind: "is_ok (rbind r f) \<longleftrightarrow> (\<exists>a. r = Inr a \<and> is_ok (f a))"
  by (cases r) auto

lemma is_ok_rbind_Inr [simp]: "is_ok (rbind r (\<lambda>a. Inr (g a))) \<longleftrightarrow> is_ok r"
  by (cases r) auto

text \<open>
  A loop that appends to a result and stops at the first error or panic: \<open>collect f xs\<close> runs
  \<open>f\<close> over \<open>xs\<close> in order and concatenates what it appends.
\<close>

fun collect :: "('x \<Rightarrow> 'e + 'a list) \<Rightarrow> 'x list \<Rightarrow> 'e + 'a list" where
  "collect f [] = Inr []"
| "collect f (x # xs) = rbind (f x) (\<lambda>a. rbind (collect f xs) (\<lambda>b. Inr (a @ b)))"

lemma collect_cong [fundef_cong]:
  "xs = ys \<Longrightarrow> (\<And>y. y \<in> set ys \<Longrightarrow> f y = g y) \<Longrightarrow> collect f xs = collect g ys"
proof (induction xs arbitrary: ys)
  case (Cons x xs)
  then show ?case by (cases ys) (auto simp: rbind_def split: sum.splits)
qed simp

lemma collect_append: "collect f (xs @ ys) =
    rbind (collect f xs) (\<lambda>a. rbind (collect f ys) (\<lambda>b. Inr (a @ b)))"
  by (induction xs) (auto simp: rbind_def split: sum.splits)

lemma collect_Inr_set:
  "collect f xs = Inr vs \<Longrightarrow> set vs = (\<Union>x \<in> set xs. set (projr (f x)))"
  by (induction xs arbitrary: vs) (auto simp: rbind_Inr_iff)

lemma collect_ok: "is_ok (collect f xs) \<longleftrightarrow> (\<forall>x \<in> set xs. is_ok (f x))"
  by (induction xs) (auto simp: is_ok_def rbind_def split: sum.splits)

lemma collect_Inr_elem:
  assumes "collect f xs = Inr vs" and "x \<in> set xs"
  obtains ws where "f x = Inr ws" and "set ws \<subseteq> set vs"
proof -
  have "is_ok (f x)" using assms by (metis collect_ok is_ok_simps(2))
  then obtain ws where "f x = Inr ws" by (auto simp: is_ok_iff)
  moreover from this have "set ws \<subseteq> set vs"
    using collect_Inr_set [OF assms(1)] assms(2) by force
  ultimately show thesis by (rule that)
qed

lemma collect_Inr_mset:
  "collect f xs = Inr vs \<Longrightarrow> mset vs = (\<Sum>x \<in># mset xs. mset (projr (f x)))"
  by (induction xs arbitrary: vs) (auto simp: rbind_Inr_iff)

lemma collect_perm:
  assumes "mset xs = mset ys" and "collect f xs = Inr vs"
  obtains ws where "collect f ys = Inr ws" and "mset ws = mset vs"
proof -
  have "is_ok (collect f ys)"
    using assms by (metis collect_ok is_ok_simps(2) mset_eq_setD)
  then obtain ws where ws: "collect f ys = Inr ws" by (auto simp: is_ok_iff)
  moreover have "mset ws = mset vs"
    using assms ws by (simp add: collect_Inr_mset)
  ultimately show thesis by (rule that)
qed

text \<open>Run-time panics of Go that a model reaches, and the bounds check of an index expression.\<close>

datatype go_panic = IndexOutOfRange | NilDereference

definition go_index :: "'a list \<Rightarrow> nat \<Rightarrow> go_panic + 'a" where
  "go_index xs i = (if i < length xs then Inr (xs ! i) else Inl IndexOutOfRange)"

section \<open>Strings\<close>

text \<open>\<open>strings.HasPrefix\<close>, \<open>strings.Join\<close>, and \<open>fmt\<close>'s \<open>%d\<close> and \<open>%v\<close> on integers and booleans.\<close>

definition has_prefix :: "string \<Rightarrow> string \<Rightarrow> bool" where
  "has_prefix s p \<longleftrightarrow> take (length p) s = p"

lemma has_prefix_iff: "has_prefix s p \<longleftrightarrow> (\<exists>t. s = p @ t)"
  unfolding has_prefix_def by (metis append_eq_conv_conj append_take_drop_id)

text \<open>\<open>strings.Split\<close> at a character: the parts before, between and after its occurrences.\<close>

fun split_on :: "char \<Rightarrow> string \<Rightarrow> string list" where
  "split_on sep [] = [[]]"
| "split_on sep (c # s) =
     (if c = sep then [] # split_on sep s
      else (case split_on sep s of p # ps \<Rightarrow> (c # p) # ps | [] \<Rightarrow> [[c]]))"

lemma split_on_not_Nil [simp]: "split_on sep s \<noteq> []"
  by (cases "(sep, s)" rule: split_on.cases) (auto split: list.splits)

lemma split_on_single: "sep \<notin> set s \<Longrightarrow> split_on sep s = [s]"
  by (induction s) auto

lemma split_on_join: "sep \<notin> set a \<Longrightarrow> split_on sep (a @ sep # s) = a # split_on sep s"
  by (induction a) auto

text \<open>Reading an \<open>int\<close> result in 64 bits.\<close>

definition wrap64 :: "int \<Rightarrow> int" where
  "wrap64 i = (i + 2 ^ 63) mod 2 ^ 64 - 2 ^ 63"

lemma wrap64_id: "- (2 ^ 63) \<le> i \<Longrightarrow> i < 2 ^ 63 \<Longrightarrow> wrap64 i = i"
  by (simp add: wrap64_def)

lemma wrap64_over: "2 ^ 63 \<le> i \<Longrightarrow> i < 3 * 2 ^ 63 \<Longrightarrow> wrap64 i = i - 2 ^ 64"
proof -
  assume i: "2 ^ 63 \<le> i" "i < 3 * 2 ^ 63"
  have "(i + 2 ^ 63) mod 2 ^ 64 = (i + 2 ^ 63 - 2 ^ 64) mod (2 ^ 64 :: int)"
    by (metis minus_mod_self2)
  also have "\<dots> = i + 2 ^ 63 - 2 ^ 64" using i by simp
  finally show ?thesis by (simp add: wrap64_def)
qed

text \<open>A character range of a regular expression or of a Unicode class.\<close>

definition in_range :: "char \<Rightarrow> char \<Rightarrow> char \<Rightarrow> bool" where
  "in_range a b c \<longleftrightarrow> a \<le> c \<and> c \<le> b"

definition is_digit :: "char \<Rightarrow> bool" where
  "is_digit c = in_range (CHR ''0'') (CHR ''9'') c"

text \<open>\<open>strconv.Atoi\<close>: an optional sign and decimal digits, within 64 bits.\<close>

definition digits_value :: "string \<Rightarrow> int" where
  "digits_value s = foldl (\<lambda>n c. 10 * n + (of_char c - 48)) 0 s"

definition atoi :: "string \<Rightarrow> int option" where
  "atoi s =
     (let (neg, ds) = (case s of [] \<Rightarrow> (False, []) | c # t \<Rightarrow>
            if c = CHR ''-'' then (True, t) else if c = CHR ''+'' then (False, t) else (False, s));
          n = (if neg then - digits_value ds else digits_value ds)
      in if ds = [] \<or> \<not> list_all is_digit ds then None
         else if n < - (2 ^ 63) \<or> n \<ge> 2 ^ 63 then None else Some n)"

text \<open>A name between single quotes.\<close>

definition in_quotes :: "string \<Rightarrow> string" where
  "in_quotes s = CHR 0x27 # s @ [CHR 0x27]"

fun join_strings :: "string \<Rightarrow> string list \<Rightarrow> string" where
  "join_strings sep [] = []"
| "join_strings sep [s] = s"
| "join_strings sep (s # t # ss) = s @ sep @ join_strings sep (t # ss)"

fun nat_to_dec :: "nat \<Rightarrow> string" where
  "nat_to_dec n =
     (if n < 10 then [char_of (48 + n)] else nat_to_dec (n div 10) @ [char_of (48 + n mod 10)])"

declare nat_to_dec.simps [simp del]

definition fmt_d :: "int \<Rightarrow> string" where
  "fmt_d i = (if i < 0 then ''-'' @ nat_to_dec (nat (- i)) else nat_to_dec (nat i))"

definition fmt_bool :: "bool \<Rightarrow> string" where
  "fmt_bool b = (if b then ''true'' else ''false'')"

text \<open>\<open>hex.EncodeToString\<close>.\<close>

definition hex_digit :: "nat \<Rightarrow> char" where
  "hex_digit n = (if n < 10 then char_of (48 + n) else char_of (87 + n))"

definition hex_encode :: "string \<Rightarrow> string" where
  "hex_encode s = concat (map (\<lambda>c. [hex_digit (of_char c div 16), hex_digit (of_char c mod 16)]) s)"

section \<open>White space\<close>

text \<open>The UTF-8 encodings of the characters with \<open>unicode.IsSpace\<close>; one starts or ends a string exactly when
  its encoding does.\<close>

definition space_codes :: "string list" where
  "space_codes = map (\<lambda>c. [c]) [CHR 0x09, CHR 0x0A, CHR 0x0B, CHR 0x0C, CHR 0x0D, CHR 0x20] @
     [[CHR 0xC2, CHR 0x85], [CHR 0xC2, CHR 0xA0], [CHR 0xE1, CHR 0x9A, CHR 0x80]] @
     map (\<lambda>n. [CHR 0xE2, CHR 0x80, char_of n]) ([128..<139] @ [168, 169, 175 :: nat]) @
     [[CHR 0xE2, CHR 0x81, CHR 0x9F], [CHR 0xE3, CHR 0x80, CHR 0x80]]"

text \<open>How many bytes of white space a string starts with, given the encodings: 0 for none.\<close>

definition space_width :: "string list \<Rightarrow> string \<Rightarrow> nat" where
  "space_width codes s = (case find (has_prefix s) codes of Some c \<Rightarrow> length c | None \<Rightarrow> 0)"

function trim_left :: "string list \<Rightarrow> string \<Rightarrow> string" where
  "trim_left codes s =
     (if 0 < space_width codes s \<and> s \<noteq> [] then trim_left codes (drop (space_width codes s) s) else s)"
  by auto

termination trim_left
  by (relation "measure (\<lambda>(codes, s). length s)") auto

declare trim_left.simps [simp del]

definition trim_space :: "string \<Rightarrow> string" where
  "trim_space s = rev (trim_left (map rev space_codes) (rev (trim_left space_codes s)))"

text \<open>A text that neither starts nor ends like white space.\<close>

lemma trim_left_id: "s = [] \<or> hd s \<notin> set (map hd codes) \<Longrightarrow> [] \<notin> set codes \<Longrightarrow> trim_left codes s = s"
proof -
  assume s: "s = [] \<or> hd s \<notin> set (map hd codes)" and codes: "[] \<notin> set codes"
  have "space_width codes s = 0" if "s \<noteq> []"
  proof -
    have "\<not> has_prefix s c" if "c \<in> set codes" for c
    proof
      assume "has_prefix s c"
      then obtain t where "s = c @ t" by (auto simp: has_prefix_iff)
      moreover have "c \<noteq> []" using codes that by blast
      ultimately have "hd s = hd c" by simp
      then show False using s that \<open>s \<noteq> []\<close> by auto
    qed
    then have "find (has_prefix s) codes = None" by (simp add: find_None_iff)
    then show ?thesis by (simp add: space_width_def)
  qed
  then have "\<not> (0 < space_width codes s \<and> s \<noteq> [])" by auto
  then show ?thesis by (subst trim_left.simps) (rule if_not_P)
qed

definition solid_ascii :: "char \<Rightarrow> bool" where
  "solid_ascii c \<longleftrightarrow> (of_char c :: nat) < 128 \<and> c \<notin> {CHR 0x09, CHR 0x0A, CHR 0x0B, CHR 0x0C, CHR 0x0D, CHR 0x20}"

lemma space_not_solid: "list_all (\<lambda>c. \<not> solid_ascii (hd c) \<and> \<not> solid_ascii (last c)) space_codes"
  by code_simp

lemma trim_space_id: "s = [] \<or> solid_ascii (hd s) \<and> solid_ascii (last s) \<Longrightarrow> trim_space s = s"
proof -
  assume s: "s = [] \<or> solid_ascii (hd s) \<and> solid_ascii (last s)"
  have codes: "[] \<notin> set space_codes" "[] \<notin> set (map rev space_codes)" by (auto simp: space_codes_def)
  have "hd s \<notin> set (map hd space_codes)" "hd (rev s) \<notin> set (map hd (map rev space_codes))" if "s \<noteq> []"
    using s that space_not_solid by (auto simp: list_all_iff hd_rev)
  then have "trim_left space_codes s = s" "trim_left (map rev space_codes) (rev s) = rev s"
    using codes by (intro trim_left_id; auto)+
  then show ?thesis by (simp add: trim_space_def)
qed

text \<open>\<open>strings.Fields\<close>, with the field read so far.\<close>

function fields_loop :: "string \<Rightarrow> string \<Rightarrow> string list" where
  "fields_loop cur [] = (if cur \<noteq> [] then [cur] else [])"
| "fields_loop cur (c # s) =
     (let n = space_width space_codes (c # s) in
      if 0 < n then (if cur \<noteq> [] then [cur] else []) @ fields_loop [] (drop n (c # s))
      else fields_loop (cur @ [c]) s)"
  by pat_completeness auto

termination fields_loop
  by (relation "measure (\<lambda>(cur, s). length s)") (auto simp: Let_def)

definition go_fields :: "string \<Rightarrow> string list" where
  "go_fields s = fields_loop [] s"

section \<open>Text\<close>

text \<open>\<open>strings.Index\<close>, \<open>Contains\<close>, \<open>HasSuffix\<close>, \<open>TrimPrefix\<close>, \<open>TrimSuffix\<close>, and \<open>Count\<close> and \<open>ReplaceAll\<close> of one
  character.\<close>

fun index_of :: "string \<Rightarrow> string \<Rightarrow> nat option" where
  "index_of sub [] = (if sub = [] then Some 0 else None)"
| "index_of sub (c # s) = (if has_prefix (c # s) sub then Some 0 else map_option Suc (index_of sub s))"

definition contains_text :: "string \<Rightarrow> string \<Rightarrow> bool" where
  "contains_text s sub \<longleftrightarrow> index_of sub s \<noteq> None"

definition has_suffix :: "string \<Rightarrow> string \<Rightarrow> bool" where
  "has_suffix s p \<longleftrightarrow> length p \<le> length s \<and> drop (length s - length p) s = p"

definition trim_prefix :: "string \<Rightarrow> string \<Rightarrow> string" where
  "trim_prefix s p = (if has_prefix s p then drop (length p) s else s)"

definition trim_suffix :: "string \<Rightarrow> string \<Rightarrow> string" where
  "trim_suffix s p = (if has_suffix s p then take (length s - length p) s else s)"

definition count_char :: "char \<Rightarrow> string \<Rightarrow> nat" where
  "count_char c s = length (filter (\<lambda>d. d = c) s)"

definition replace_char :: "char \<Rightarrow> char \<Rightarrow> string \<Rightarrow> string" where
  "replace_char a b s = map (\<lambda>c. if c = a then b else c) s"

definition newline :: string where
  "newline = [CHR 0x0A]"

text \<open>A line and the newline after it, and a text between double quotes.\<close>

definition line_of :: "string \<Rightarrow> string" where
  "line_of s = s @ newline"

definition in_double_quotes :: "string \<Rightarrow> string" where
  "in_double_quotes s = CHR 0x22 # s @ [CHR 0x22]"

text \<open>A loop over a list that changes a state and replaces every element.\<close>

fun thread_map :: "('a \<Rightarrow> 's \<Rightarrow> 'b \<times> 's) \<Rightarrow> 'a list \<Rightarrow> 's \<Rightarrow> 'b list \<times> 's" where
  "thread_map f [] s = ([], s)"
| "thread_map f (x # xs) s = (let (y, s) = f x s; (ys, s) = thread_map f xs s in (y # ys, s))"

lemma thread_map_cong [fundef_cong]:
  "xs = ys \<Longrightarrow> s = t \<Longrightarrow> (\<And>y u. y \<in> set ys \<Longrightarrow> f y u = g y u) \<Longrightarrow> thread_map f xs s = thread_map g ys t"
proof (induction xs arbitrary: ys s t)
  case (Cons x xs)
  then show ?case by (cases ys) (auto simp: split_beta Let_def)
qed simp

end
