(* ===== verification/Proto_AST.thy ===== *)
theory Proto_AST
  imports Spoke_Prelude
begin

text \<open>
  The syntax tree of a protobuf file (\<open>pkg/api/protobuf/ast.go\<close>): one record per node type,
  with the fields of the Go structs in their order. A message node contains message nodes, so
  it is a datatype with the struct's fields as selectors. A nil pointer is \<open>None\<close>.
\<close>

record ast_position =
  pos_line :: int
  pos_column :: int
  pos_offset :: int

record comment_node =
  cm_text :: string
  cm_leading :: bool
  cm_trailing :: bool
  cm_pos :: ast_position
  cm_end :: ast_position

record spoke_directive_node =
  sd_option :: string
  sd_value :: string
  sd_comments :: "comment_node list"
  sd_pos :: ast_position
  sd_end :: ast_position

record syntax_node =
  sx_value :: string
  sx_comments :: "comment_node list"
  sx_directives :: "spoke_directive_node list"
  sx_pos :: ast_position
  sx_end :: ast_position

record package_node =
  pk_name :: string
  pk_comments :: "comment_node list"
  pk_directives :: "spoke_directive_node list"
  pk_pos :: ast_position
  pk_end :: ast_position

record import_node =
  im_path :: string
  im_public :: bool
  im_weak :: bool
  im_comments :: "comment_node list"
  im_directives :: "spoke_directive_node list"
  im_pos :: ast_position
  im_end :: ast_position

record option_node =
  op_name :: string
  op_value :: string
  op_comments :: "comment_node list"
  op_directives :: "spoke_directive_node list"
  op_pos :: ast_position
  op_end :: ast_position

record field_node =
  fn_name :: string
  fn_type :: string
  fn_number :: int
  fn_repeated :: bool
  fn_optional :: bool
  fn_required :: bool
  fn_options :: "option_node list"
  fn_comments :: "comment_node list"
  fn_directives :: "spoke_directive_node list"
  fn_pos :: ast_position
  fn_end :: ast_position

record enum_value_node =
  ev_name :: string
  ev_number :: int
  ev_options :: "option_node list"
  ev_comments :: "comment_node list"
  ev_directives :: "spoke_directive_node list"
  ev_pos :: ast_position
  ev_end :: ast_position

record enum_node =
  en_name :: string
  en_values :: "enum_value_node list"
  en_options :: "option_node list"
  en_comments :: "comment_node list"
  en_directives :: "spoke_directive_node list"
  en_pos :: ast_position
  en_end :: ast_position

record rpc_node =
  rpc_name :: string
  rpc_input :: string
  rpc_output :: string
  rpc_client_streaming :: bool
  rpc_server_streaming :: bool
  rpc_options :: "option_node list"
  rpc_comments :: "comment_node list"
  rpc_directives :: "spoke_directive_node list"
  rpc_pos :: ast_position
  rpc_end :: ast_position

record service_node =
  sv_name :: string
  sv_rpcs :: "rpc_node list"
  sv_options :: "option_node list"
  sv_comments :: "comment_node list"
  sv_directives :: "spoke_directive_node list"
  sv_pos :: ast_position
  sv_end :: ast_position

record oneof_node =
  oo_name :: string
  oo_fields :: "field_node list"
  oo_comments :: "comment_node list"
  oo_directives :: "spoke_directive_node list"
  oo_pos :: ast_position
  oo_end :: ast_position

datatype message_node =
  MessageNode (mn_name: string) (mn_fields: "field_node list") (mn_nested: "message_node list")
    (mn_enums: "enum_node list") (mn_oneofs: "oneof_node list") (mn_options: "option_node list")
    (mn_comments: "comment_node list") (mn_directives: "spoke_directive_node list")
    (mn_pos: ast_position) (mn_end: ast_position)

record root_node =
  rn_syntax :: "syntax_node option"
  rn_package :: "package_node option"
  rn_imports :: "import_node list"
  rn_options :: "option_node list"
  rn_messages :: "message_node list"
  rn_enums :: "enum_node list"
  rn_services :: "service_node list"
  rn_comments :: "comment_node list"
  rn_directives :: "spoke_directive_node list"
  rn_pos :: ast_position
  rn_end :: ast_position

text \<open>Small nodes for concrete inputs: every node at the zero position, without comments.\<close>

definition pos0 :: ast_position where
  "pos0 = \<lparr>pos_line = 0, pos_column = 0, pos_offset = 0\<rparr>"

definition mk_import :: "string \<Rightarrow> import_node" where
  "mk_import p = \<lparr>im_path = p, im_public = False, im_weak = False, im_comments = [],
     im_directives = [], im_pos = pos0, im_end = pos0\<rparr>"

definition mk_field :: "string \<Rightarrow> string \<Rightarrow> int \<Rightarrow> field_node" where
  "mk_field n t i = \<lparr>fn_name = n, fn_type = t, fn_number = i, fn_repeated = False,
     fn_optional = False, fn_required = False, fn_options = [], fn_comments = [],
     fn_directives = [], fn_pos = pos0, fn_end = pos0\<rparr>"

definition mk_message :: "string \<Rightarrow> field_node list \<Rightarrow> message_node list \<Rightarrow> message_node" where
  "mk_message n fs ms = MessageNode n fs ms [] [] [] [] [] pos0 pos0"

definition mk_root :: "string \<Rightarrow> import_node list \<Rightarrow> message_node list \<Rightarrow> root_node" where
  "mk_root pkg is ms = \<lparr>rn_syntax = None,
     rn_package = Some \<lparr>pk_name = pkg, pk_comments = [], pk_directives = [], pk_pos = pos0, pk_end = pos0\<rparr>,
     rn_imports = is, rn_options = [], rn_messages = ms, rn_enums = [], rn_services = [],
     rn_comments = [], rn_directives = [], rn_pos = pos0, rn_end = pos0\<rparr>"

end
