(* ===== verification/Compat_Schema.thy ===== *)
theory Compat_Schema
  imports Proto_AST
begin

text \<open>
  The schema graph of \<open>pkg/compatibility/schema.go\<close>: its types, and the builder that turns a
  syntax tree into a graph. The builder's field \<open>currentPackage\<close>, set once before the
  messages are built, is the argument \<open>pkg\<close>; its field \<open>imports\<close> is never read. Field numbers
  are only stored and compared, so they are \<open>int\<close>.
\<close>

section \<open>The graph's types\<close>

datatype field_type = FT_Unknown | FT_Double | FT_Float | FT_Int32 | FT_Int64 | FT_Uint32
  | FT_Uint64 | FT_Sint32 | FT_Sint64 | FT_Fixed32 | FT_Fixed64 | FT_Sfixed32 | FT_Sfixed64
  | FT_Bool | FT_String | FT_Bytes | FT_Message | FT_Enum | FT_Map

text \<open>The value of the \<open>iota\<close> constant; \<open>String\<close> indexes its slice of names by it.\<close>

fun field_type_code :: "field_type \<Rightarrow> nat" where
  "field_type_code FT_Unknown = 0"
| "field_type_code FT_Double = 1"
| "field_type_code FT_Float = 2"
| "field_type_code FT_Int32 = 3"
| "field_type_code FT_Int64 = 4"
| "field_type_code FT_Uint32 = 5"
| "field_type_code FT_Uint64 = 6"
| "field_type_code FT_Sint32 = 7"
| "field_type_code FT_Sint64 = 8"
| "field_type_code FT_Fixed32 = 9"
| "field_type_code FT_Fixed64 = 10"
| "field_type_code FT_Sfixed32 = 11"
| "field_type_code FT_Sfixed64 = 12"
| "field_type_code FT_Bool = 13"
| "field_type_code FT_String = 14"
| "field_type_code FT_Bytes = 15"
| "field_type_code FT_Message = 16"
| "field_type_code FT_Enum = 17"
| "field_type_code FT_Map = 18"

definition field_type_names :: "string list" where
  "field_type_names = [''unknown'', ''double'', ''float'', ''int32'', ''int64'', ''uint32'',
     ''uint64'', ''sint32'', ''sint64'', ''fixed32'', ''fixed64'', ''sfixed32'', ''sfixed64'',
     ''bool'', ''string'', ''bytes'', ''message'', ''enum'']"

definition field_type_string :: "field_type \<Rightarrow> go_panic + string" where
  "field_type_string ft = go_index field_type_names (field_type_code ft)"

datatype field_label = FL_Optional | FL_Required | FL_Repeated

fun field_label_string :: "field_label \<Rightarrow> string" where
  "field_label_string FL_Optional = ''optional''"
| "field_label_string FL_Required = ''required''"
| "field_label_string FL_Repeated = ''repeated''"

record schema_import =
  imp_path :: string
  imp_public :: bool
  imp_weak :: bool

record field =
  fd_name :: string
  fd_number :: int
  fd_type :: field_type
  fd_label :: field_label
  fd_type_name :: string
  fd_is_map :: bool
  fd_map_key_type :: string
  fd_map_value_type :: string
  fd_in_oneof :: string
  fd_deprecated :: bool
  fd_packed :: "bool option"
  fd_default_value :: string

record reserved =
  rs_numbers :: "int list"
  rs_ranges :: "(int \<times> int) list"
  rs_names :: "string list"

record enum_value =
  evl_name :: string
  evl_number :: int
  evl_deprecated :: bool

record schema_enum =
  se_name :: string
  se_full_name :: string
  se_values :: "(int, enum_value) gomap"
  se_values_by_name :: "(string, enum_value) gomap"
  se_reserved :: "reserved option"
  se_options :: "(string, string) gomap"

record oneof =
  of_name :: string
  of_fields :: "int list"

datatype message =
  Message (ms_name: string) (ms_full_name: string) (ms_fields: "(int, field) gomap")
    (ms_fields_by_name: "(string, field) gomap") (ms_reserved: "reserved option")
    (ms_nested: "(string \<times> message) list") (ms_nested_enums: "(string, schema_enum) gomap")
    (ms_oneofs: "(string, oneof) gomap") (ms_options: "(string, string) gomap")

record schema_method =
  mt_name :: string
  mt_input :: string
  mt_output :: string
  mt_client_streaming :: bool
  mt_server_streaming :: bool
  mt_deprecated :: bool

record schema_service =
  ss_name :: string
  ss_full_name :: string
  ss_methods :: "(string, schema_method) gomap"

record schema_graph =
  sg_package :: string
  sg_syntax :: string
  sg_imports :: "schema_import list"
  sg_messages :: "(string, message) gomap"
  sg_enums :: "(string, schema_enum) gomap"
  sg_services :: "(string, schema_service) gomap"

text \<open>
  The struct's last field, \<open>Dependencies\<close>, is left out of the record: the builder leaves it nil
  and nothing reads it.
\<close>

section \<open>The builder\<close>

definition make_full_name :: "string \<Rightarrow> string \<Rightarrow> string \<Rightarrow> string" where
  "make_full_name pkg parent nm =
     (if parent = [] then (if pkg = [] then nm else pkg @ ''.'' @ nm) else parent @ ''.'' @ nm)"

definition parse_field_type :: "string \<Rightarrow> field_type" where
  "parse_field_type t =
     (if t = ''double'' then FT_Double else if t = ''float'' then FT_Float
      else if t = ''int32'' then FT_Int32 else if t = ''int64'' then FT_Int64
      else if t = ''uint32'' then FT_Uint32 else if t = ''uint64'' then FT_Uint64
      else if t = ''sint32'' then FT_Sint32 else if t = ''sint64'' then FT_Sint64
      else if t = ''fixed32'' then FT_Fixed32 else if t = ''fixed64'' then FT_Fixed64
      else if t = ''sfixed32'' then FT_Sfixed32 else if t = ''sfixed64'' then FT_Sfixed64
      else if t = ''bool'' then FT_Bool else if t = ''string'' then FT_String
      else if t = ''bytes'' then FT_Bytes
      else if has_prefix t ''map<'' then FT_Map else FT_Message)"

definition parse_field_label :: "field_node \<Rightarrow> field_label" where
  "parse_field_label f =
     (if fn_repeated f then FL_Repeated else if fn_optional f then FL_Optional
      else if fn_required f then FL_Required else FL_Optional)"

definition has_deprecated_option :: "option_node list \<Rightarrow> bool" where
  "has_deprecated_option opts =
     list_ex (\<lambda>o'. op_name o' = ''deprecated'' \<and> op_value o' = ''true'') opts"

definition build_field :: "field_node \<Rightarrow> string \<Rightarrow> field" where
  "build_field f oneof_nm =
     \<lparr>fd_name = fn_name f, fd_number = fn_number f, fd_type = parse_field_type (fn_type f),
      fd_label = parse_field_label f, fd_type_name = fn_type f,
      fd_is_map = has_prefix (fn_type f) ''map<'', fd_map_key_type = [], fd_map_value_type = [],
      fd_in_oneof = oneof_nm, fd_deprecated = has_deprecated_option (fn_options f),
      fd_packed = None, fd_default_value = []\<rparr>"

definition build_enum_value :: "enum_value_node \<Rightarrow> enum_value" where
  "build_enum_value v = \<lparr>evl_name = ev_name v, evl_number = ev_number v,
     evl_deprecated = has_deprecated_option (ev_options v)\<rparr>"

definition build_enum :: "string \<Rightarrow> enum_node \<Rightarrow> string \<Rightarrow> schema_enum" where
  "build_enum pkg e parent =
     (let vals = map build_enum_value (en_values e) in
      \<lparr>se_name = en_name e, se_full_name = make_full_name pkg parent (en_name e),
       se_values = gm_store evl_number vals,
       se_values_by_name = gm_store evl_name vals,
       se_reserved = None, se_options = []\<rparr>)"

definition build_method :: "rpc_node \<Rightarrow> schema_method" where
  "build_method r = \<lparr>mt_name = rpc_name r, mt_input = rpc_input r, mt_output = rpc_output r,
     mt_client_streaming = rpc_client_streaming r, mt_server_streaming = rpc_server_streaming r,
     mt_deprecated = has_deprecated_option (rpc_options r)\<rparr>"

definition build_service :: "string \<Rightarrow> service_node \<Rightarrow> schema_service" where
  "build_service pkg s =
     \<lparr>ss_name = sv_name s, ss_full_name = make_full_name pkg pkg (sv_name s),
      ss_methods = gm_store mt_name (map build_method (sv_rpcs s))\<rparr>"

text \<open>
  All fields of a message in the order the builder stores them: its own, then those of its
  oneofs. Storing them is a fold over the two maps.
\<close>

definition all_fields :: "message_node \<Rightarrow> field list" where
  "all_fields m = map (\<lambda>f. build_field f []) (mn_fields m) @
     concat (map (\<lambda>oo. map (\<lambda>f. build_field f (oo_name oo)) (oo_fields oo)) (mn_oneofs m))"

definition build_oneof :: "oneof_node \<Rightarrow> oneof" where
  "build_oneof oo = \<lparr>of_name = oo_name oo, of_fields = map fn_number (oo_fields oo)\<rparr>"

fun build_message :: "string \<Rightarrow> message_node \<Rightarrow> string \<Rightarrow> message" where
  "build_message pkg (MessageNode nm fs nested enums oneofs opts cs ds p e) parent =
     (let full = make_full_name pkg parent nm;
          flds = all_fields (MessageNode nm fs nested enums oneofs opts cs ds p e)
      in Message nm full
           (gm_store fd_number flds)
           (gm_store fd_name flds)
           None
           (gm_store ms_name (map (\<lambda>n. build_message pkg n full) nested))
           (gm_store se_name (map (\<lambda>n. build_enum pkg n full) enums))
           (gm_store of_name (map build_oneof oneofs))
           [])"

definition extract_package :: "root_node \<Rightarrow> string" where
  "extract_package r = (case rn_package r of Some p \<Rightarrow> pk_name p | None \<Rightarrow> [])"

definition extract_syntax :: "root_node \<Rightarrow> string" where
  "extract_syntax r = (case rn_syntax r of Some s \<Rightarrow> sx_value s | None \<Rightarrow> ''proto2'')"

definition extract_imports :: "root_node \<Rightarrow> schema_import list" where
  "extract_imports r = map (\<lambda>i. \<lparr>imp_path = im_path i, imp_public = im_public i,
     imp_weak = im_weak i\<rparr>) (rn_imports r)"

definition build_from_ast :: "root_node \<Rightarrow> schema_graph" where
  "build_from_ast r =
     (let pkg = extract_package r in
      \<lparr>sg_package = pkg, sg_syntax = extract_syntax r, sg_imports = extract_imports r,
       sg_messages = gm_store ms_name
                       (map (\<lambda>n. build_message pkg n []) (rn_messages r)),
       sg_enums = gm_store se_name
                       (map (\<lambda>n. build_enum pkg n []) (rn_enums r)),
       sg_services = gm_store ss_name
                       (map (build_service pkg) (rn_services r))\<rparr>)"

section \<open>Well-formed graphs\<close>

text \<open>
  What the builder establishes and the comparator relies on: every map has distinct keys, a
  field is stored under its own number and its own name, a nested message under its own name.
\<close>

definition enum_wf :: "schema_enum \<Rightarrow> bool" where
  "enum_wf e \<longleftrightarrow> keyed_by evl_number (se_values e) \<and> keyed_by evl_name (se_values_by_name e)"

fun message_wf :: "message \<Rightarrow> bool" where
  "message_wf (Message nm full fs fbn rs nested enums oneofs opts) \<longleftrightarrow>
     keyed_by fd_number fs \<and> keyed_by fd_name fbn \<and> keyed_by ms_name nested \<and>
     keyed_by se_name enums \<and> keyed_by of_name oneofs \<and>
     list_all (\<lambda>(k, e). enum_wf e) enums \<and> list_all (\<lambda>(k, m). message_wf m) nested"

definition service_wf :: "schema_service \<Rightarrow> bool" where
  "service_wf s \<longleftrightarrow> keyed_by mt_name (ss_methods s)"

definition schema_wf :: "schema_graph \<Rightarrow> bool" where
  "schema_wf g \<longleftrightarrow>
     keyed_by ms_name (sg_messages g) \<and> list_all (\<lambda>(k, m). message_wf m) (sg_messages g) \<and>
     keyed_by se_name (sg_enums g) \<and> list_all (\<lambda>(k, e). enum_wf e) (sg_enums g) \<and>
     keyed_by ss_name (sg_services g) \<and> list_all (\<lambda>(k, s). service_wf s) (sg_services g)"

lemma build_enum_wf [simp]: "enum_wf (build_enum pkg e parent)"
  by (simp add: enum_wf_def build_enum_def Let_def)

lemma build_service_wf [simp]: "service_wf (build_service pkg s)"
  by (simp add: service_wf_def build_service_def)

lemma build_message_wf: "message_wf (build_message pkg m parent)"
  by (induction pkg m parent rule: build_message.induct)
    (auto simp: Let_def intro!: list_all_store)

text \<open>Whatever the syntax tree, the builder returns a well-formed graph: at every nesting
  level each map has distinct keys and every field, enum value, oneof, method and nested type is
  stored under its own number or name.\<close>
lemma build_from_ast_wf: "schema_wf (build_from_ast r)"
  unfolding schema_wf_def build_from_ast_def Let_def
  by (auto intro!: list_all_store build_message_wf)

text \<open>A protobuf number that occurs twice in a message: the field stored last is kept.\<close>

lemma build_message_fields:
  "gm_get (ms_fields (build_message pkg m parent)) n =
     find (\<lambda>f. fd_number f = n) (rev (all_fields m))"
  by (cases m) (simp add: Let_def gm_get_store)

text \<open>Which names denote a scalar type, and when \<open>String\<close> is in bounds.\<close>

lemma field_type_string_panic_iff: "is_ok (field_type_string ft) \<longleftrightarrow> ft \<noteq> FT_Map"
  by (cases ft) (simp_all add: field_type_string_def go_index_def field_type_names_def)

lemma field_type_string_ok: "ft \<noteq> FT_Map \<Longrightarrow> \<exists>s. field_type_string ft = Inr s"
  using field_type_string_panic_iff is_ok_iff by blast

lemma field_type_string_Map [simp]: "field_type_string FT_Map = Inl IndexOutOfRange"
  by (simp add: field_type_string_def go_index_def field_type_names_def)

lemma parse_field_type_map:
  assumes "has_prefix t ''map<''"
  shows "parse_field_type t = FT_Map"
proof -
  obtain u where "t = ''map<'' @ u" using assms by (auto simp: has_prefix_iff)
  then show ?thesis by (simp add: parse_field_type_def has_prefix_def)
qed

end
