(* ===== verification/Compat_Violations.thy ===== *)
theory Compat_Violations
  imports Compat_Schema
begin

text \<open>
  The modes, the violations and the result type of \<open>pkg/compatibility/comparator.go\<close>. Every
  violation literal of the code has a definition of its own (\<open>v_\<close> and the rule's name), so that
  proofs treat it as a symbol with a known level.
\<close>

section \<open>Modes, violations, results\<close>

datatype compat_mode = Mode_None | Mode_Backward | Mode_Forward | Mode_Full
  | Mode_Backward_Transitive | Mode_Forward_Transitive | Mode_Full_Transitive

fun mode_string :: "compat_mode \<Rightarrow> string" where
  "mode_string Mode_None = ''NONE''"
| "mode_string Mode_Backward = ''BACKWARD''"
| "mode_string Mode_Forward = ''FORWARD''"
| "mode_string Mode_Full = ''FULL''"
| "mode_string Mode_Backward_Transitive = ''BACKWARD_TRANSITIVE''"
| "mode_string Mode_Forward_Transitive = ''FORWARD_TRANSITIVE''"
| "mode_string Mode_Full_Transitive = ''FULL_TRANSITIVE''"

datatype compat_error = Unknown_Mode string

definition parse_compatibility_mode :: "string \<Rightarrow> compat_error + compat_mode" where
  "parse_compatibility_mode s =
     (if s = ''NONE'' then Inr Mode_None
      else if s = ''BACKWARD'' then Inr Mode_Backward
      else if s = ''FORWARD'' then Inr Mode_Forward
      else if s = ''FULL'' then Inr Mode_Full
      else if s = ''BACKWARD_TRANSITIVE'' then Inr Mode_Backward_Transitive
      else if s = ''FORWARD_TRANSITIVE'' then Inr Mode_Forward_Transitive
      else if s = ''FULL_TRANSITIVE'' then Inr Mode_Full_Transitive
      else Inl (Unknown_Mode s))"

datatype violation_level = Level_Info | Level_Warning | Level_Error

datatype violation_category = Cat_Field_Change | Cat_Type_Change | Cat_Enum_Change
  | Cat_Service_Change | Cat_Reserved_Change | Cat_Package_Change | Cat_Import_Change

record violation =
  v_rule :: string
  v_level :: violation_level
  v_category :: violation_category
  v_message :: string
  v_location :: string
  v_old_value :: string
  v_new_value :: string
  v_wire_breaking :: bool
  v_source_breaking :: bool
  v_suggestion :: string

record check_summary =
  sm_total :: int
  sm_errors :: int
  sm_warnings :: int
  sm_infos :: int
  sm_wire_breaking :: int
  sm_source_breaking :: int

record check_result =
  cr_compatible :: bool
  cr_mode :: string
  cr_violations :: "violation list"
  cr_summary :: check_summary

definition forward_mode :: "compat_mode \<Rightarrow> bool" where
  "forward_mode m \<longleftrightarrow> m = Mode_Forward \<or> m = Mode_Forward_Transitive"

definition removal_level :: "compat_mode \<Rightarrow> violation_level" where
  "removal_level m = (if forward_mode m then Level_Warning else Level_Error)"

section \<open>The violations\<close>

definition v_package_changed :: "string \<Rightarrow> string \<Rightarrow> violation" where
  "v_package_changed o' n = \<lparr>v_rule = ''PACKAGE_CHANGED'', v_level = Level_Error,
     v_category = Cat_Package_Change, v_message = ''Package name changed - breaks all imports'',
     v_location = ''package'', v_old_value = o', v_new_value = n, v_wire_breaking = False,
     v_source_breaking = True, v_suggestion = ''Create a new package instead of renaming. Consider backward compatibility aliases.''\<rparr>"

definition v_message_removed :: "string \<Rightarrow> violation" where
  "v_message_removed nm = \<lparr>v_rule = ''MESSAGE_REMOVED'', v_level = Level_Error,
     v_category = Cat_Type_Change, v_message = ''Message '' @ nm @ '' was removed'',
     v_location = nm, v_old_value = [], v_new_value = [], v_wire_breaking = True,
     v_source_breaking = True, v_suggestion = ''Do not remove messages. Mark as deprecated instead.''\<rparr>"

definition v_message_added :: "string \<Rightarrow> violation" where
  "v_message_added nm = \<lparr>v_rule = ''MESSAGE_ADDED'', v_level = Level_Info,
     v_category = Cat_Type_Change, v_message = ''Message '' @ nm @ '' was added'',
     v_location = nm, v_old_value = [], v_new_value = [], v_wire_breaking = False,
     v_source_breaking = False, v_suggestion = []\<rparr>"

definition v_field_removed :: "compat_mode \<Rightarrow> string \<Rightarrow> int \<Rightarrow> field \<Rightarrow> violation" where
  "v_field_removed m full num f = \<lparr>v_rule = ''FIELD_REMOVED'', v_level = removal_level m,
     v_category = Cat_Field_Change,
     v_message = ''Field '' @ fmt_d num @ '' ('' @ fd_name f @ '') was removed'',
     v_location = full @ ''.'' @ fd_name f, v_old_value = [], v_new_value = [],
     v_wire_breaking = False, v_source_breaking = True,
     v_suggestion = ''Mark field as reserved instead of removing it.''\<rparr>"

definition v_required_field_added :: "string \<Rightarrow> int \<Rightarrow> field \<Rightarrow> violation" where
  "v_required_field_added full num f = \<lparr>v_rule = ''REQUIRED_FIELD_ADDED'', v_level = Level_Error,
     v_category = Cat_Field_Change,
     v_message = ''Required field '' @ fmt_d num @ '' ('' @ fd_name f @ '') was added'',
     v_location = full @ ''.'' @ fd_name f, v_old_value = [], v_new_value = [],
     v_wire_breaking = True, v_source_breaking = True,
     v_suggestion = ''New fields must be optional or repeated.''\<rparr>"

definition v_field_added :: "string \<Rightarrow> int \<Rightarrow> field \<Rightarrow> violation" where
  "v_field_added full num f = \<lparr>v_rule = ''FIELD_ADDED'', v_level = Level_Info,
     v_category = Cat_Field_Change,
     v_message = ''Field '' @ fmt_d num @ '' ('' @ fd_name f @ '') was added'',
     v_location = full @ ''.'' @ fd_name f, v_old_value = [], v_new_value = [],
     v_wire_breaking = False, v_source_breaking = False, v_suggestion = []\<rparr>"

definition v_field_name_changed :: "string \<Rightarrow> field \<Rightarrow> field \<Rightarrow> violation" where
  "v_field_name_changed loc o' n = \<lparr>v_rule = ''FIELD_NAME_CHANGED'', v_level = Level_Warning,
     v_category = Cat_Field_Change,
     v_message = ''Field '' @ fmt_d (fd_number o') @ '' name changed from '' @ fd_name o' @ '' to '' @ fd_name n,
     v_location = loc, v_old_value = fd_name o', v_new_value = fd_name n,
     v_wire_breaking = False, v_source_breaking = True,
     v_suggestion = ''Field name changes break source code compatibility.''\<rparr>"

text \<open>The suggestion holds two double arrows, each the three bytes \<open>E2 86 94\<close> of UTF-8.\<close>

definition v_field_type_changed :: "string \<Rightarrow> field \<Rightarrow> string \<Rightarrow> string \<Rightarrow> violation" where
  "v_field_type_changed loc o' os ns = (let arrow = [CHR 0xE2, CHR 0x86, CHR 0x94] in
     \<lparr>v_rule = ''FIELD_TYPE_CHANGED'', v_level = Level_Error, v_category = Cat_Type_Change,
     v_message = ''Field '' @ fd_name o' @ '' type changed from '' @ os @ '' to '' @ ns @ '' (incompatible)'',
     v_location = loc, v_old_value = os, v_new_value = ns, v_wire_breaking = True,
     v_source_breaking = True,
     v_suggestion = ''Type changes must be wire-compatible (e.g., int32 '' @ arrow @ '' int64, sint32 '' @ arrow @ '' sint64).''\<rparr>)"

definition v_field_label_changed :: "string \<Rightarrow> field \<Rightarrow> field \<Rightarrow> violation" where
  "v_field_label_changed loc o' n =
     (let relaxed = (fd_label o' = FL_Optional \<and> fd_label n = FL_Repeated) in
     \<lparr>v_rule = ''FIELD_LABEL_CHANGED'', v_level = (if relaxed then Level_Warning else Level_Error),
     v_category = Cat_Field_Change,
     v_message = ''Field '' @ fd_name o' @ '' label changed from '' @ field_label_string (fd_label o')
       @ '' to '' @ field_label_string (fd_label n),
     v_location = loc, v_old_value = field_label_string (fd_label o'),
     v_new_value = field_label_string (fd_label n), v_wire_breaking = \<not> relaxed,
     v_source_breaking = True,
     v_suggestion = ''Avoid changing field labels. Use new field numbers instead.''\<rparr>)"

definition v_field_oneof_changed :: "string \<Rightarrow> field \<Rightarrow> field \<Rightarrow> violation" where
  "v_field_oneof_changed loc o' n = \<lparr>v_rule = ''FIELD_ONEOF_CHANGED'', v_level = Level_Error,
     v_category = Cat_Field_Change,
     v_message = ''Field '' @ fd_name o' @ '' oneof membership changed'',
     v_location = loc, v_old_value = fd_in_oneof o', v_new_value = fd_in_oneof n,
     v_wire_breaking = True, v_source_breaking = True,
     v_suggestion = ''Do not move fields in/out of oneofs.''\<rparr>"

definition v_enum_removed :: "string \<Rightarrow> violation" where
  "v_enum_removed nm = \<lparr>v_rule = ''ENUM_REMOVED'', v_level = Level_Error,
     v_category = Cat_Enum_Change, v_message = ''Enum '' @ nm @ '' was removed'',
     v_location = nm, v_old_value = [], v_new_value = [], v_wire_breaking = True,
     v_source_breaking = True, v_suggestion = ''Do not remove enums. Mark as deprecated instead.''\<rparr>"

definition v_enum_added :: "string \<Rightarrow> violation" where
  "v_enum_added nm = \<lparr>v_rule = ''ENUM_ADDED'', v_level = Level_Info,
     v_category = Cat_Enum_Change, v_message = ''Enum '' @ nm @ '' was added'',
     v_location = nm, v_old_value = [], v_new_value = [], v_wire_breaking = False,
     v_source_breaking = False, v_suggestion = []\<rparr>"

definition v_enum_value_removed :: "compat_mode \<Rightarrow> string \<Rightarrow> int \<Rightarrow> enum_value \<Rightarrow> violation" where
  "v_enum_value_removed m full num v = \<lparr>v_rule = ''ENUM_VALUE_REMOVED'', v_level = removal_level m,
     v_category = Cat_Enum_Change,
     v_message = ''Enum value '' @ fmt_d num @ '' ('' @ evl_name v @ '') was removed'',
     v_location = full @ ''.'' @ evl_name v, v_old_value = [], v_new_value = [],
     v_wire_breaking = False, v_source_breaking = True,
     v_suggestion = ''Do not remove enum values. Mark as deprecated or reserve the number.''\<rparr>"

definition v_enum_value_number_changed :: "string \<Rightarrow> string \<Rightarrow> enum_value \<Rightarrow> enum_value \<Rightarrow> violation" where
  "v_enum_value_number_changed full nm o' n = \<lparr>v_rule = ''ENUM_VALUE_NUMBER_CHANGED'',
     v_level = Level_Error, v_category = Cat_Enum_Change,
     v_message = ''Enum value '' @ nm @ '' number changed from '' @ fmt_d (evl_number o')
       @ '' to '' @ fmt_d (evl_number n),
     v_location = full @ ''.'' @ nm, v_old_value = fmt_d (evl_number o'),
     v_new_value = fmt_d (evl_number n), v_wire_breaking = True, v_source_breaking = True,
     v_suggestion = ''Never change enum value numbers.''\<rparr>"

definition v_enum_value_added :: "string \<Rightarrow> int \<Rightarrow> enum_value \<Rightarrow> violation" where
  "v_enum_value_added full num v = \<lparr>v_rule = ''ENUM_VALUE_ADDED'', v_level = Level_Info,
     v_category = Cat_Enum_Change,
     v_message = ''Enum value '' @ fmt_d num @ '' ('' @ evl_name v @ '') was added'',
     v_location = full @ ''.'' @ evl_name v, v_old_value = [], v_new_value = [],
     v_wire_breaking = False, v_source_breaking = False, v_suggestion = []\<rparr>"

definition v_service_removed :: "string \<Rightarrow> violation" where
  "v_service_removed nm = \<lparr>v_rule = ''SERVICE_REMOVED'', v_level = Level_Error,
     v_category = Cat_Service_Change, v_message = ''Service '' @ nm @ '' was removed'',
     v_location = nm, v_old_value = [], v_new_value = [], v_wire_breaking = True,
     v_source_breaking = True, v_suggestion = ''Do not remove services. Mark as deprecated instead.''\<rparr>"

definition v_service_added :: "string \<Rightarrow> violation" where
  "v_service_added nm = \<lparr>v_rule = ''SERVICE_ADDED'', v_level = Level_Info,
     v_category = Cat_Service_Change, v_message = ''Service '' @ nm @ '' was added'',
     v_location = nm, v_old_value = [], v_new_value = [], v_wire_breaking = False,
     v_source_breaking = False, v_suggestion = []\<rparr>"

definition v_rpc_removed :: "string \<Rightarrow> string \<Rightarrow> violation" where
  "v_rpc_removed full nm = \<lparr>v_rule = ''RPC_REMOVED'', v_level = Level_Error,
     v_category = Cat_Service_Change, v_message = ''RPC method '' @ nm @ '' was removed'',
     v_location = full @ ''.'' @ nm, v_old_value = [], v_new_value = [], v_wire_breaking = True,
     v_source_breaking = True, v_suggestion = ''Do not remove RPC methods. Mark as deprecated instead.''\<rparr>"

definition v_rpc_added :: "string \<Rightarrow> string \<Rightarrow> violation" where
  "v_rpc_added full nm = \<lparr>v_rule = ''RPC_ADDED'', v_level = Level_Info,
     v_category = Cat_Service_Change, v_message = ''RPC method '' @ nm @ '' was added'',
     v_location = full @ ''.'' @ nm, v_old_value = [], v_new_value = [], v_wire_breaking = False,
     v_source_breaking = False, v_suggestion = []\<rparr>"

definition v_rpc_input_changed :: "string \<Rightarrow> schema_method \<Rightarrow> schema_method \<Rightarrow> violation" where
  "v_rpc_input_changed loc o' n = \<lparr>v_rule = ''RPC_INPUT_TYPE_CHANGED'', v_level = Level_Error,
     v_category = Cat_Service_Change,
     v_message = ''RPC '' @ mt_name o' @ '' input type changed from '' @ mt_input o' @ '' to '' @ mt_input n,
     v_location = loc, v_old_value = mt_input o', v_new_value = mt_input n,
     v_wire_breaking = True, v_source_breaking = True,
     v_suggestion = ''Create a new RPC method instead of changing types.''\<rparr>"

definition v_rpc_output_changed :: "string \<Rightarrow> schema_method \<Rightarrow> schema_method \<Rightarrow> violation" where
  "v_rpc_output_changed loc o' n = \<lparr>v_rule = ''RPC_OUTPUT_TYPE_CHANGED'', v_level = Level_Error,
     v_category = Cat_Service_Change,
     v_message = ''RPC '' @ mt_name o' @ '' output type changed from '' @ mt_output o' @ '' to '' @ mt_output n,
     v_location = loc, v_old_value = mt_output o', v_new_value = mt_output n,
     v_wire_breaking = True, v_source_breaking = True,
     v_suggestion = ''Create a new RPC method instead of changing types.''\<rparr>"

definition v_rpc_client_streaming_changed :: "string \<Rightarrow> schema_method \<Rightarrow> schema_method \<Rightarrow> violation" where
  "v_rpc_client_streaming_changed loc o' n = \<lparr>v_rule = ''RPC_CLIENT_STREAMING_CHANGED'',
     v_level = Level_Error, v_category = Cat_Service_Change,
     v_message = ''RPC '' @ mt_name o' @ '' client streaming changed'', v_location = loc,
     v_old_value = fmt_bool (mt_client_streaming o'), v_new_value = fmt_bool (mt_client_streaming n),
     v_wire_breaking = True, v_source_breaking = True,
     v_suggestion = ''Cannot change streaming behavior. Create a new RPC method.''\<rparr>"

definition v_rpc_server_streaming_changed :: "string \<Rightarrow> schema_method \<Rightarrow> schema_method \<Rightarrow> violation" where
  "v_rpc_server_streaming_changed loc o' n = \<lparr>v_rule = ''RPC_SERVER_STREAMING_CHANGED'',
     v_level = Level_Error, v_category = Cat_Service_Change,
     v_message = ''RPC '' @ mt_name o' @ '' server streaming changed'', v_location = loc,
     v_old_value = fmt_bool (mt_server_streaming o'), v_new_value = fmt_bool (mt_server_streaming n),
     v_wire_breaking = True, v_source_breaking = True,
     v_suggestion = ''Cannot change streaming behavior. Create a new RPC method.''\<rparr>"

text \<open>What proofs need of a violation: its level.\<close>

lemma violation_levels [simp]:
  "v_level (v_package_changed s t) = Level_Error"
  "v_level (v_message_removed s) = Level_Error"
  "v_level (v_message_added s) = Level_Info"
  "v_level (v_field_removed m s i f) = removal_level m"
  "v_level (v_required_field_added s i f) = Level_Error"
  "v_level (v_field_added s i f) = Level_Info"
  "v_level (v_field_name_changed s f g) = Level_Warning"
  "v_level (v_field_type_changed s f t u) = Level_Error"
  "v_level (v_field_label_changed s f g) =
     (if fd_label f = FL_Optional \<and> fd_label g = FL_Repeated then Level_Warning else Level_Error)"
  "v_level (v_field_oneof_changed s f g) = Level_Error"
  by (simp_all add: v_package_changed_def v_message_removed_def v_message_added_def
      v_field_removed_def v_required_field_added_def v_field_added_def v_field_name_changed_def
      v_field_type_changed_def v_field_label_changed_def v_field_oneof_changed_def)

lemma violation_levels_enum_service [simp]:
  "v_level (v_enum_removed s) = Level_Error"
  "v_level (v_enum_added s) = Level_Info"
  "v_level (v_enum_value_removed m s i e) = removal_level m"
  "v_level (v_enum_value_number_changed s t e e') = Level_Error"
  "v_level (v_enum_value_added s i e) = Level_Info"
  "v_level (v_service_removed s) = Level_Error"
  "v_level (v_service_added s) = Level_Info"
  "v_level (v_rpc_removed s t) = Level_Error"
  "v_level (v_rpc_added s t) = Level_Info"
  "v_level (v_rpc_input_changed s r r') = Level_Error"
  "v_level (v_rpc_output_changed s r r') = Level_Error"
  "v_level (v_rpc_client_streaming_changed s r r') = Level_Error"
  "v_level (v_rpc_server_streaming_changed s r r') = Level_Error"
  by (simp_all add: v_enum_removed_def v_enum_added_def v_enum_value_removed_def
      v_enum_value_number_changed_def v_enum_value_added_def v_service_removed_def
      v_service_added_def v_rpc_removed_def v_rpc_added_def v_rpc_input_changed_def
      v_rpc_output_changed_def v_rpc_client_streaming_changed_def v_rpc_server_streaming_changed_def)

lemma removal_level_error [simp]: "removal_level m = Level_Error \<longleftrightarrow> \<not> forward_mode m"
  by (simp add: removal_level_def)

end
