(* ===== verification/Compat_Compare.thy ===== *)
theory Compat_Compare
  imports Compat_Violations
begin

text \<open>
  The comparator of \<open>pkg/compatibility/comparator.go\<close>. Each \<open>compare\<close> method of the code appends
  to the comparator's list of violations; here each returns the list it appends, or the panic it
  ends in (\<open>FieldType.String\<close> indexes a slice of 18 names with a code that can be 18). The second
  half states what a verdict means, over lookups instead of loops, and proves that the loops
  compute it.
\<close>

section \<open>The comparison\<close>

fun compatible_pairs :: "field_type \<Rightarrow> field_type list" where
  "compatible_pairs FT_Int32 = [FT_Int64, FT_Uint32, FT_Uint64]"
| "compatible_pairs FT_Int64 = [FT_Int32, FT_Uint32, FT_Uint64]"
| "compatible_pairs FT_Uint32 = [FT_Int32, FT_Int64, FT_Uint64]"
| "compatible_pairs FT_Uint64 = [FT_Int32, FT_Int64, FT_Uint32]"
| "compatible_pairs FT_Sint32 = [FT_Sint64]"
| "compatible_pairs FT_Sint64 = [FT_Sint32]"
| "compatible_pairs FT_Fixed32 = [FT_Fixed64, FT_Sfixed32]"
| "compatible_pairs FT_Fixed64 = [FT_Fixed32, FT_Sfixed64]"
| "compatible_pairs FT_Sfixed32 = [FT_Sfixed64, FT_Fixed32]"
| "compatible_pairs FT_Sfixed64 = [FT_Sfixed32, FT_Fixed64]"
| "compatible_pairs FT_String = [FT_Bytes]"
| "compatible_pairs FT_Bytes = [FT_String]"
| "compatible_pairs _ = []"

definition is_type_compatible :: "field_type \<Rightarrow> field_type \<Rightarrow> bool" where
  "is_type_compatible o' n = (if o' = n then True else List.member (compatible_pairs o') n)"

definition compare_packages :: "schema_graph \<Rightarrow> schema_graph \<Rightarrow> violation list" where
  "compare_packages old new =
     (if sg_package old \<noteq> sg_package new then [v_package_changed (sg_package old) (sg_package new)]
      else [])"

text \<open>The code leaves the comparison of imports to be written.\<close>

definition compare_imports :: "schema_graph \<Rightarrow> schema_graph \<Rightarrow> violation list" where
  "compare_imports old new = []"

definition compare_field :: "string \<Rightarrow> field \<Rightarrow> field \<Rightarrow> go_panic + violation list" where
  "compare_field msg o' n =
     (let loc = msg @ ''.'' @ fd_name o';
          names = (if fd_name o' \<noteq> fd_name n then [v_field_name_changed loc o' n] else []);
          labels = (if fd_label o' \<noteq> fd_label n then [v_field_label_changed loc o' n] else []);
          oneofs = (if fd_in_oneof o' \<noteq> fd_in_oneof n then [v_field_oneof_changed loc o' n] else [])
      in rbind
           (if \<not> is_type_compatible (fd_type o') (fd_type n) then
              rbind (field_type_string (fd_type o')) (\<lambda>os.
                rbind (field_type_string (fd_type n)) (\<lambda>ns. Inr [v_field_type_changed loc o' os ns]))
            else Inr [])
           (\<lambda>types. Inr (names @ types @ labels @ oneofs)))"

definition added_fields :: "message \<Rightarrow> message \<Rightarrow> violation list" where
  "added_fields old new = concat (map (\<lambda>(num, nf).
     case gm_get (ms_fields old) num of
       Some _ \<Rightarrow> []
     | None \<Rightarrow> if fd_label nf = FL_Required then [v_required_field_added (ms_full_name new) num nf]
               else [v_field_added (ms_full_name new) num nf]) (ms_fields new))"

definition compare_message_fields ::
    "compat_mode \<Rightarrow> message \<Rightarrow> message \<Rightarrow> go_panic + violation list" where
  "compare_message_fields m old new =
     rbind (collect (\<lambda>(num, fo). case gm_get (ms_fields new) num of
              None \<Rightarrow> Inr [v_field_removed m (ms_full_name old) num fo]
            | Some fn \<Rightarrow> compare_field (ms_full_name old) fo fn) (ms_fields old))
       (\<lambda>vs. Inr (vs @ added_fields old new))"

lemma ms_nested_size: "(nm, c) \<in> set (ms_nested m) \<Longrightarrow> size c < size m"
proof (induction m)
  case (Message a b fs fbn r nested x y z)
  then have "(nm, c) \<in> set nested" by simp
  then have "size c < Suc (size_list (size_prod (\<lambda>_. 0) size) nested)"
    by (induction nested) auto
  then show ?case by simp
qed

function compare_nested_messages ::
    "compat_mode \<Rightarrow> message \<Rightarrow> message \<Rightarrow> go_panic + violation list" where
  "compare_nested_messages m old new =
     collect (\<lambda>(nm, co). case gm_get (ms_nested new) nm of
        None \<Rightarrow> Inr []
      | Some cn \<Rightarrow> rbind (compare_message_fields m co cn) (\<lambda>vs.
          rbind (compare_nested_messages m co cn) (\<lambda>ws. Inr (vs @ ws)))) (ms_nested old)"
  by pat_completeness auto
termination
  by (relation "measure (\<lambda>(m, old, new). size old)") (auto intro: ms_nested_size)

declare compare_nested_messages.simps [simp del]

definition compare_messages ::
    "compat_mode \<Rightarrow> schema_graph \<Rightarrow> schema_graph \<Rightarrow> go_panic + violation list" where
  "compare_messages m old new =
     rbind (collect (\<lambda>(nm, mo). case gm_get (sg_messages new) nm of
              None \<Rightarrow> Inr [v_message_removed nm]
            | Some mn \<Rightarrow> rbind (compare_message_fields m mo mn) (\<lambda>vs.
                rbind (compare_nested_messages m mo mn) (\<lambda>ws. Inr (vs @ ws)))) (sg_messages old))
       (\<lambda>vs. Inr (vs @ concat (map (\<lambda>(nm, mn). case gm_get (sg_messages old) nm of
              Some _ \<Rightarrow> [] | None \<Rightarrow> [v_message_added nm]) (sg_messages new))))"

definition compare_enum_values :: "compat_mode \<Rightarrow> schema_enum \<Rightarrow> schema_enum \<Rightarrow> violation list" where
  "compare_enum_values m old new =
     concat (map (\<lambda>(num, v). case gm_get (se_values new) num of
       Some _ \<Rightarrow> [] | None \<Rightarrow> [v_enum_value_removed m (se_full_name old) num v]) (se_values old)) @
     concat (map (\<lambda>(nm, v). case gm_get (se_values_by_name new) nm of
       Some w \<Rightarrow> if evl_number v \<noteq> evl_number w
                 then [v_enum_value_number_changed (se_full_name old) nm v w] else []
     | None \<Rightarrow> []) (se_values_by_name old)) @
     concat (map (\<lambda>(num, v). case gm_get (se_values old) num of
       Some _ \<Rightarrow> [] | None \<Rightarrow> [v_enum_value_added (se_full_name new) num v]) (se_values new))"

definition compare_enums :: "compat_mode \<Rightarrow> schema_graph \<Rightarrow> schema_graph \<Rightarrow> violation list" where
  "compare_enums m old new =
     concat (map (\<lambda>(nm, eo). case gm_get (sg_enums new) nm of
       None \<Rightarrow> [v_enum_removed nm] | Some en \<Rightarrow> compare_enum_values m eo en) (sg_enums old)) @
     concat (map (\<lambda>(nm, en). case gm_get (sg_enums old) nm of
       Some _ \<Rightarrow> [] | None \<Rightarrow> [v_enum_added nm]) (sg_enums new))"

definition compare_method :: "string \<Rightarrow> schema_method \<Rightarrow> schema_method \<Rightarrow> violation list" where
  "compare_method svc o' n =
     (let loc = svc @ ''.'' @ mt_name o' in
      (if mt_input o' \<noteq> mt_input n then [v_rpc_input_changed loc o' n] else []) @
      (if mt_output o' \<noteq> mt_output n then [v_rpc_output_changed loc o' n] else []) @
      (if mt_client_streaming o' \<noteq> mt_client_streaming n
       then [v_rpc_client_streaming_changed loc o' n] else []) @
      (if mt_server_streaming o' \<noteq> mt_server_streaming n
       then [v_rpc_server_streaming_changed loc o' n] else []))"

definition compare_service_methods :: "schema_service \<Rightarrow> schema_service \<Rightarrow> violation list" where
  "compare_service_methods old new =
     concat (map (\<lambda>(nm, mo). case gm_get (ss_methods new) nm of
       None \<Rightarrow> [v_rpc_removed (ss_full_name old) nm]
     | Some mn \<Rightarrow> compare_method (ss_full_name old) mo mn) (ss_methods old)) @
     concat (map (\<lambda>(nm, mn). case gm_get (ss_methods old) nm of
       Some _ \<Rightarrow> [] | None \<Rightarrow> [v_rpc_added (ss_full_name new) nm]) (ss_methods new))"

definition compare_services :: "schema_graph \<Rightarrow> schema_graph \<Rightarrow> violation list" where
  "compare_services old new =
     concat (map (\<lambda>(nm, so). case gm_get (sg_services new) nm of
       None \<Rightarrow> [v_service_removed nm] | Some sn \<Rightarrow> compare_service_methods so sn) (sg_services old)) @
     concat (map (\<lambda>(nm, sn). case gm_get (sg_services old) nm of
       Some _ \<Rightarrow> [] | None \<Rightarrow> [v_service_added nm]) (sg_services new))"

fun add_to_summary :: "violation \<Rightarrow> check_summary \<Rightarrow> check_summary" where
  "add_to_summary v s =
     (let s = (case v_level v of
           Level_Error \<Rightarrow> s\<lparr>sm_errors := sm_errors s + 1\<rparr>
         | Level_Warning \<Rightarrow> s\<lparr>sm_warnings := sm_warnings s + 1\<rparr>
         | Level_Info \<Rightarrow> s\<lparr>sm_infos := sm_infos s + 1\<rparr>);
         s = (if v_wire_breaking v then s\<lparr>sm_wire_breaking := sm_wire_breaking s + 1\<rparr> else s)
      in if v_source_breaking v then s\<lparr>sm_source_breaking := sm_source_breaking s + 1\<rparr> else s)"

definition empty_summary :: check_summary where
  "empty_summary = \<lparr>sm_total = 0, sm_errors = 0, sm_warnings = 0, sm_infos = 0,
     sm_wire_breaking = 0, sm_source_breaking = 0\<rparr>"

definition generate_summary :: "violation list \<Rightarrow> check_summary" where
  "generate_summary vs = fold add_to_summary vs (empty_summary\<lparr>sm_total := int (length vs)\<rparr>)"

definition check_compatibility ::
    "schema_graph \<Rightarrow> schema_graph \<Rightarrow> compat_mode \<Rightarrow> go_panic + check_result" where
  "check_compatibility old new m =
     (if m = Mode_None then
        Inr \<lparr>cr_compatible = True, cr_mode = mode_string m, cr_violations = [],
             cr_summary = empty_summary\<rparr>
      else rbind (compare_messages m old new) (\<lambda>msgs.
        let vs = compare_packages old new @ compare_imports old new @ msgs @
                 compare_enums m old new @ compare_services old new
        in Inr \<lparr>cr_compatible = \<not> list_ex (\<lambda>v. v_level v = Level_Error) vs,
                cr_mode = mode_string m, cr_violations = vs, cr_summary = generate_summary vs\<rparr>))"

end
