(* ===== verification/Compat_Verdict.thy ===== *)
theory Compat_Verdict
  imports Compat_Compare
begin

text \<open>
  What a verdict of the comparator means. \<open>schema_accepts\<close> says, over lookups and without
  loops, when a change is accepted in a mode; the theorems show that the comparator's verdict is
  exactly that, when it panics, and that neither depends on the order in which Go ranges over
  its maps.
\<close>

section \<open>Errors in a list of violations\<close>

definition no_error :: "violation list \<Rightarrow> bool" where
  "no_error vs \<longleftrightarrow> (\<forall>v \<in> set vs. v_level v \<noteq> Level_Error)"

lemma no_error_simps [simp]:
  "no_error []"
  "no_error (v # vs) \<longleftrightarrow> v_level v \<noteq> Level_Error \<and> no_error vs"
  "no_error (vs @ ws) \<longleftrightarrow> no_error vs \<and> no_error ws"
  "no_error (concat vss) \<longleftrightarrow> (\<forall>vs \<in> set vss. no_error vs)"
  by (auto simp: no_error_def)

lemma no_error_if [simp]: "no_error (if b then vs else ws) \<longleftrightarrow> (if b then no_error vs else no_error ws)"
  by simp

text \<open>
  Two questions are asked of an outcome: did it avoid a panic (\<open>is_ok\<close>), and did it neither
  panic nor report an error (\<open>clean\<close>). Both distribute over the loops and over running one
  comparison after the other; the locale states that, and what follows for the recursion is
  proved once for both.
\<close>

definition clean :: "go_panic + violation list \<Rightarrow> bool" where
  "clean r \<longleftrightarrow> (case r of Inl _ \<Rightarrow> False | Inr vs \<Rightarrow> no_error vs)"

lemma clean_simps [simp]:
  "\<not> clean (Inl e)" "clean (Inr vs) \<longleftrightarrow> no_error vs"
  by (simp_all add: clean_def)

definition seq_both :: "'e + 'a list \<Rightarrow> 'e + 'a list \<Rightarrow> 'e + 'a list" where
  "seq_both r s = rbind r (\<lambda>a. rbind s (\<lambda>b. Inr (a @ b)))"

locale outcome =
  fixes good :: "go_panic + violation list \<Rightarrow> bool"
    and fine :: "violation list \<Rightarrow> bool"
  assumes good_Inr: "good (Inr vs) \<longleftrightarrow> fine vs"
    and fine_Nil: "fine []"
    and good_seq: "good (seq_both r s) \<longleftrightarrow> good r \<and> good s"
begin

lemma good_collect: "good (collect f xs) \<longleftrightarrow> (\<forall>x \<in> set xs. good (f x))"
proof (induction xs)
  case (Cons x xs)
  then show ?case
    using good_seq [of "f x" "collect f xs"] by (simp add: seq_both_def)
qed (simp add: good_Inr fine_Nil)

lemma good_then: "good (rbind r (\<lambda>a. Inr (a @ vs))) \<longleftrightarrow> good r \<and> fine vs"
  using good_seq [of r "Inr vs"] by (simp add: seq_both_def good_Inr)

end

interpretation no_panic: outcome is_ok "\<lambda>_. True"
  by unfold_locales (auto simp: seq_both_def rbind_def split: sum.splits)

interpretation no_errors: outcome clean no_error
  by unfold_locales (auto simp: seq_both_def rbind_def split: sum.splits)

section \<open>What each part of a verdict means\<close>

definition field_accepts :: "field \<Rightarrow> field \<Rightarrow> bool" where
  "field_accepts o' n \<longleftrightarrow> is_type_compatible (fd_type o') (fd_type n) \<and>
     (fd_label o' = fd_label n \<or> fd_label o' = FL_Optional \<and> fd_label n = FL_Repeated) \<and>
     fd_in_oneof o' = fd_in_oneof n"

definition fields_accept :: "compat_mode \<Rightarrow> message \<Rightarrow> message \<Rightarrow> bool" where
  "fields_accept m old new \<longleftrightarrow>
     (\<forall>num fo. gm_get (ms_fields old) num = Some fo \<longrightarrow>
        (case gm_get (ms_fields new) num of
           None \<Rightarrow> forward_mode m | Some fn \<Rightarrow> field_accepts fo fn)) \<and>
     (\<forall>num fn. gm_get (ms_fields new) num = Some fn \<longrightarrow> gm_get (ms_fields old) num = None \<longrightarrow>
        fd_label fn \<noteq> FL_Required)"

text \<open>
  The pairs of messages the comparison reaches from a pair: the pair itself and, below it, every
  pair of nested messages of the same name. A nested message without a partner is not reached.
\<close>

inductive compared :: "message \<Rightarrow> message \<Rightarrow> message \<Rightarrow> message \<Rightarrow> bool" where
  here: "compared a b a b"
| nested: "gm_get (ms_nested a) nm = Some a' \<Longrightarrow> gm_get (ms_nested b) nm = Some b' \<Longrightarrow>
     compared a' b' c d \<Longrightarrow> compared a b c d"

definition message_accepts :: "compat_mode \<Rightarrow> message \<Rightarrow> message \<Rightarrow> bool" where
  "message_accepts m old new \<longleftrightarrow> (\<forall>c d. compared old new c d \<longrightarrow> fields_accept m c d)"

definition enum_accepts :: "compat_mode \<Rightarrow> schema_enum \<Rightarrow> schema_enum \<Rightarrow> bool" where
  "enum_accepts m old new \<longleftrightarrow>
     (forward_mode m \<or> (\<forall>num. gm_get (se_values old) num \<noteq> None \<longrightarrow> gm_get (se_values new) num \<noteq> None)) \<and>
     (\<forall>nm v w. gm_get (se_values_by_name old) nm = Some v \<longrightarrow>
        gm_get (se_values_by_name new) nm = Some w \<longrightarrow> evl_number v = evl_number w)"

definition method_accepts :: "schema_method \<Rightarrow> schema_method \<Rightarrow> bool" where
  "method_accepts o' n \<longleftrightarrow> mt_input o' = mt_input n \<and> mt_output o' = mt_output n \<and>
     mt_client_streaming o' = mt_client_streaming n \<and> mt_server_streaming o' = mt_server_streaming n"

text \<open>Every entry of the old map has a partner in the new one, and the two are related.\<close>

definition kept :: "('v \<Rightarrow> 'v \<Rightarrow> bool) \<Rightarrow> ('k \<rightharpoonup> 'v) \<Rightarrow> ('k \<rightharpoonup> 'v) \<Rightarrow> bool" where
  "kept R old new \<longleftrightarrow> (\<forall>k v. old k = Some v \<longrightarrow> (\<exists>w. new k = Some w \<and> R v w))"

definition service_accepts :: "schema_service \<Rightarrow> schema_service \<Rightarrow> bool" where
  "service_accepts old new \<longleftrightarrow>
     kept method_accepts (gm_get (ss_methods old)) (gm_get (ss_methods new))"

definition schema_accepts :: "compat_mode \<Rightarrow> schema_graph \<Rightarrow> schema_graph \<Rightarrow> bool" where
  "schema_accepts m old new \<longleftrightarrow> sg_package old = sg_package new \<and>
     kept (message_accepts m) (gm_get (sg_messages old)) (gm_get (sg_messages new)) \<and>
     kept (enum_accepts m) (gm_get (sg_enums old)) (gm_get (sg_enums new)) \<and>
     kept service_accepts (gm_get (sg_services old)) (gm_get (sg_services new))"

text \<open>
  A field pair panics when its types are incompatible and one of them is a map type; that is,
  when exactly one of them is.
\<close>

definition field_panics :: "field \<Rightarrow> field \<Rightarrow> bool" where
  "field_panics o' n \<longleftrightarrow> (fd_type o' = FT_Map) \<noteq> (fd_type n = FT_Map)"

definition fields_panic :: "message \<Rightarrow> message \<Rightarrow> bool" where
  "fields_panic old new \<longleftrightarrow> (\<exists>num fo fn. gm_get (ms_fields old) num = Some fo \<and>
     gm_get (ms_fields new) num = Some fn \<and> field_panics fo fn)"

definition schema_panics :: "schema_graph \<Rightarrow> schema_graph \<Rightarrow> bool" where
  "schema_panics old new \<longleftrightarrow> (\<exists>nm mo mn c d. gm_get (sg_messages old) nm = Some mo \<and>
     gm_get (sg_messages new) nm = Some mn \<and> compared mo mn c d \<and> fields_panic c d)"

section \<open>Fields\<close>

lemma is_type_compatible_Map [simp]:
  "is_type_compatible FT_Map t \<longleftrightarrow> t = FT_Map" "is_type_compatible t FT_Map \<longleftrightarrow> t = FT_Map"
  by (cases t; simp add: is_type_compatible_def)+

lemma compare_field_ok: "is_ok (compare_field msg o' n) \<longleftrightarrow> \<not> field_panics o' n"
proof (cases "is_type_compatible (fd_type o') (fd_type n)")
  case True
  then show ?thesis
    by (cases "fd_type o' = FT_Map"; cases "fd_type n = FT_Map")
      (auto simp: compare_field_def field_panics_def Let_def)
next
  case False
  then show ?thesis
    using field_type_string_panic_iff [of "fd_type o'"] field_type_string_panic_iff [of "fd_type n"]
    by (cases "field_type_string (fd_type o')"; cases "field_type_string (fd_type n)")
      (auto simp: compare_field_def field_panics_def Let_def)
qed

lemma compare_field_clean: "clean (compare_field msg o' n) \<longleftrightarrow> field_accepts o' n"
proof (cases "is_type_compatible (fd_type o') (fd_type n)")
  case True
  then show ?thesis by (auto simp: compare_field_def Let_def field_accepts_def)
next
  case False
  then show ?thesis
    by (cases "field_type_string (fd_type o')"; cases "field_type_string (fd_type n)")
      (auto simp: compare_field_def Let_def field_accepts_def)
qed

lemma added_fields_no_error:
  assumes "gm_ok (ms_fields new)"
  shows "no_error (added_fields old new) \<longleftrightarrow> (\<forall>num fn. gm_get (ms_fields new) num = Some fn \<longrightarrow>
     gm_get (ms_fields old) num = None \<longrightarrow> fd_label fn \<noteq> FL_Required)"
  unfolding added_fields_def gm_get_iff [OF assms]
  by (fastforce split: option.splits)

lemma compare_message_fields_ok:
  assumes "gm_ok (ms_fields old)"
  shows "is_ok (compare_message_fields m old new) \<longleftrightarrow> \<not> fields_panic old new"
  unfolding fields_panic_def gm_get_iff [OF assms]
  by (auto simp: compare_message_fields_def collect_ok compare_field_ok split: option.splits)

lemma compare_message_fields_clean:
  assumes "gm_ok (ms_fields old)" "gm_ok (ms_fields new)"
  shows "clean (compare_message_fields m old new) \<longleftrightarrow> fields_accept m old new"
  unfolding compare_message_fields_def no_errors.good_then no_errors.good_collect
    added_fields_no_error [OF assms(2)] fields_accept_def
  by (auto simp: gm_get_iff [OF assms(1)] compare_field_clean split: option.splits)

section \<open>Nested messages\<close>

inductive_cases compared_cases: "compared a b c d"

lemma compared_unfold:
  "(\<forall>c d. compared a b c d \<longrightarrow> P c d) \<longleftrightarrow> P a b \<and>
   (\<forall>nm a' b'. gm_get (ms_nested a) nm = Some a' \<longrightarrow> gm_get (ms_nested b) nm = Some b' \<longrightarrow>
      (\<forall>c d. compared a' b' c d \<longrightarrow> P c d))"
  by (blast intro: compared.intros elim: compared_cases)

lemma message_wf_simps:
  assumes "message_wf m"
  shows "gm_ok (ms_fields m)" "gm_ok (ms_nested m)"
    "gm_get (ms_nested m) nm = Some c \<Longrightarrow> message_wf c"
  using assms by (cases m; auto simp: list_all_iff dest: map_of_SomeD)+

definition compare_pair :: "compat_mode \<Rightarrow> message \<Rightarrow> message \<Rightarrow> go_panic + violation list" where
  "compare_pair m a b = seq_both (compare_message_fields m a b) (compare_nested_messages m a b)"

lemma compare_nested_pairs:
  "compare_nested_messages m old new =
     collect (\<lambda>(nm, co). case gm_get (ms_nested new) nm of
        None \<Rightarrow> Inr [] | Some cn \<Rightarrow> compare_pair m co cn) (ms_nested old)"
  unfolding compare_pair_def seq_both_def by (rule compare_nested_messages.simps)

lemma compare_messages_pairs:
  "compare_messages m old new =
     rbind (collect (\<lambda>(nm, mo). case gm_get (sg_messages new) nm of
              None \<Rightarrow> Inr [v_message_removed nm] | Some mn \<Rightarrow> compare_pair m mo mn) (sg_messages old))
       (\<lambda>vs. Inr (vs @ concat (map (\<lambda>(nm, mn). case gm_get (sg_messages old) nm of
              Some _ \<Rightarrow> [] | None \<Rightarrow> [v_message_added nm]) (sg_messages new))))"
  unfolding compare_pair_def seq_both_def by (rule compare_messages_def)

context outcome
begin

lemma good_pair:
  assumes fields: "\<And>a b. message_wf a \<Longrightarrow> message_wf b \<Longrightarrow> good (compare_message_fields m a b) \<longleftrightarrow> F a b"
    and "message_wf a" "message_wf b"
  shows "good (compare_pair m a b) \<longleftrightarrow> (\<forall>c d. compared a b c d \<longrightarrow> F c d)"
  using assms(2,3)
proof (induction a arbitrary: b rule: measure_induct_rule [where f = size])
  case (less a)
  note ok = message_wf_simps(2) [OF less.prems(1)]
  have "good (compare_pair m c d) \<longleftrightarrow> (\<forall>c' d'. compared c d c' d' \<longrightarrow> F c' d')"
    if "gm_get (ms_nested a) nm = Some c" "gm_get (ms_nested b) nm = Some d" for nm c d
    using that less.prems by (intro less.IH) (auto intro: ms_nested_size message_wf_simps(3) map_of_SomeD)
  then have "good (compare_nested_messages m a b) \<longleftrightarrow>
      (\<forall>nm c d. gm_get (ms_nested a) nm = Some c \<longrightarrow> gm_get (ms_nested b) nm = Some d \<longrightarrow>
        (\<forall>c' d'. compared c d c' d' \<longrightarrow> F c' d'))"
    unfolding compare_nested_pairs good_collect
    by (auto simp: gm_get_iff [OF ok] good_Inr fine_Nil split: option.splits)
  then show ?case
    unfolding compare_pair_def good_seq fields [OF less.prems] by (subst compared_unfold) blast
qed

end

lemma compare_pair_ok:
  "message_wf a \<Longrightarrow> message_wf b \<Longrightarrow>
     is_ok (compare_pair m a b) \<longleftrightarrow> (\<forall>c d. compared a b c d \<longrightarrow> \<not> fields_panic c d)"
  by (rule no_panic.good_pair) (simp_all add: compare_message_fields_ok message_wf_simps)

lemma compare_pair_clean:
  "message_wf a \<Longrightarrow> message_wf b \<Longrightarrow> clean (compare_pair m a b) \<longleftrightarrow> message_accepts m a b"
  unfolding message_accepts_def
  by (rule no_errors.good_pair) (simp_all add: compare_message_fields_clean message_wf_simps)


section \<open>The whole schema\<close>

lemma concat_map_no_error:
  "no_error (concat (map f xs)) \<longleftrightarrow> (\<forall>x \<in> set xs. no_error (f x))"
  by auto

lemma no_error_lookup [simp]:
  "no_error (case M k of None \<Rightarrow> [w] | Some _ \<Rightarrow> []) \<longleftrightarrow> M k \<noteq> None \<or> v_level w \<noteq> Level_Error"
  by (auto split: option.split)

text \<open>A loop over the old map that looks every key up in the new one, as a statement on lookups.\<close>

lemma kept_loop:
  assumes "gm_ok old"
    and "\<And>k v w. (k, v) \<in> set old \<Longrightarrow> M k = Some w \<Longrightarrow> P (found k v w) \<longleftrightarrow> R v w"
    and "\<And>k v. \<not> P (missing k v)"
  shows "(\<forall>x \<in> set old. P (case x of (k, v) \<Rightarrow> case M k of
            None \<Rightarrow> missing k v | Some w \<Rightarrow> found k v w)) \<longleftrightarrow> kept R (gm_get old) M"
proof -
  have "P (case M k of None \<Rightarrow> missing k v | Some w \<Rightarrow> found k v w) \<longleftrightarrow> (\<exists>w. M k = Some w \<and> R v w)"
    if "(k, v) \<in> set old" for k v
    using that assms(2,3) by (cases "M k") auto
  then show ?thesis
    unfolding kept_def gm_get_iff [OF assms(1)] by (simp add: Ball_def)
qed

lemma schema_wf_simps:
  assumes "schema_wf g"
  shows "gm_ok (sg_messages g)" "gm_ok (sg_enums g)" "gm_ok (sg_services g)"
    "(nm, msg) \<in> set (sg_messages g) \<Longrightarrow> message_wf msg"
    "(nm, e) \<in> set (sg_enums g) \<Longrightarrow> enum_wf e"
    "(nm, s) \<in> set (sg_services g) \<Longrightarrow> service_wf s"
  using assms by (auto simp: schema_wf_def list_all_iff)

lemma compare_messages_ok:
  assumes "schema_wf old" "schema_wf new"
  shows "is_ok (compare_messages m old new) \<longleftrightarrow> \<not> schema_panics old new"
proof -
  note wf = schema_wf_simps [OF assms(1)] schema_wf_simps [OF assms(2)]
  have "is_ok (case gm_get (sg_messages new) nm of None \<Rightarrow> Inr [v_message_removed nm]
          | Some mn \<Rightarrow> compare_pair m mo mn) \<longleftrightarrow>
        (\<forall>mn. gm_get (sg_messages new) nm = Some mn \<longrightarrow>
           (\<forall>c d. compared mo mn c d \<longrightarrow> \<not> fields_panic c d))"
    if "(nm, mo) \<in> set (sg_messages old)" for nm mo
    using that compare_pair_ok [OF wf(4) wf(10)]
    by (cases "gm_get (sg_messages new) nm") (auto dest: map_of_SomeD)
  then show ?thesis
    unfolding compare_messages_pairs is_ok_rbind_Inr collect_ok schema_panics_def gm_get_iff [OF wf(1)]
    by (simp add: Ball_def)
qed

lemma compare_messages_clean:
  assumes "schema_wf old" "schema_wf new"
  shows "clean (compare_messages m old new) \<longleftrightarrow>
     kept (message_accepts m) (gm_get (sg_messages old)) (gm_get (sg_messages new))"
proof -
  note wf = schema_wf_simps [OF assms(1)] schema_wf_simps [OF assms(2)]
  have "clean (compare_pair m v w) \<longleftrightarrow> message_accepts m v w"
    if "(k, v) \<in> set (sg_messages old)" "gm_get (sg_messages new) k = Some w" for k v w
    using compare_pair_clean [OF wf(4) wf(10)] that by (blast dest: map_of_SomeD)
  note loop = kept_loop [where P = clean, OF wf(1) this]
  show ?thesis
    unfolding compare_messages_pairs no_errors.good_then no_errors.good_collect concat_map_no_error
    by (subst loop) auto
qed

lemma compare_enum_values_no_error:
  assumes "enum_wf old" "enum_wf new"
  shows "no_error (compare_enum_values m old new) \<longleftrightarrow> enum_accepts m old new"
proof -
  have ok: "gm_ok (se_values old)" "gm_ok (se_values_by_name old)"
    using assms by (auto simp: enum_wf_def)
  have "(\<forall>(k, v) \<in> set (se_values old). gm_get (se_values new) k = None \<longrightarrow> forward_mode m) \<longleftrightarrow>
      (forward_mode m \<or> (\<forall>num. gm_get (se_values old) num \<noteq> None \<longrightarrow> gm_get (se_values new) num \<noteq> None))"
    unfolding not_None_eq gm_get_iff [OF ok(1)] by (auto simp: Ball_def)
  moreover have "no_error (concat (map (\<lambda>(nm, v). case gm_get (se_values_by_name new) nm of
       Some w \<Rightarrow> if evl_number v \<noteq> evl_number w
                 then [v_enum_value_number_changed (se_full_name old) nm v w] else []
     | None \<Rightarrow> []) (se_values_by_name old))) \<longleftrightarrow>
     (\<forall>nm v w. gm_get (se_values_by_name old) nm = Some v \<longrightarrow>
        gm_get (se_values_by_name new) nm = Some w \<longrightarrow> evl_number v = evl_number w)"
    unfolding gm_get_iff [OF ok(2)] concat_map_no_error by (auto split: option.splits if_splits)
  ultimately show ?thesis
    unfolding compare_enum_values_def enum_accepts_def no_error_simps(3)
    by (auto simp: Ball_def)
qed

lemma compare_enums_no_error:
  assumes "schema_wf old" "schema_wf new"
  shows "no_error (compare_enums m old new) \<longleftrightarrow>
     kept (enum_accepts m) (gm_get (sg_enums old)) (gm_get (sg_enums new))"
proof -
  note wf = schema_wf_simps [OF assms(1)] schema_wf_simps [OF assms(2)]
  have "no_error (compare_enum_values m v w) \<longleftrightarrow> enum_accepts m v w"
    if "(k, v) \<in> set (sg_enums old)" "gm_get (sg_enums new) k = Some w" for k v w
    using compare_enum_values_no_error [OF wf(5) wf(11)] that by (blast dest: map_of_SomeD)
  note loop = kept_loop [where P = no_error, OF wf(2) this]
  show ?thesis
    unfolding compare_enums_def no_error_simps(3) concat_map_no_error by (subst loop) auto
qed

lemma compare_method_no_error: "no_error (compare_method svc o' n) \<longleftrightarrow> method_accepts o' n"
  by (simp add: compare_method_def method_accepts_def Let_def)

lemma compare_service_methods_no_error:
  assumes "service_wf old"
  shows "no_error (compare_service_methods old new) \<longleftrightarrow> service_accepts old new"
proof -
  have ok: "gm_ok (ss_methods old)" using assms by (auto simp: service_wf_def)
  note loop = kept_loop [where P = no_error, OF ok compare_method_no_error]
  show ?thesis
    unfolding compare_service_methods_def service_accepts_def no_error_simps(3) concat_map_no_error
    by (subst loop) auto
qed

lemma compare_services_no_error:
  assumes "schema_wf old"
  shows "no_error (compare_services old new) \<longleftrightarrow>
     kept service_accepts (gm_get (sg_services old)) (gm_get (sg_services new))"
proof -
  note wf = schema_wf_simps [OF assms]
  note loop = kept_loop [where P = no_error, OF wf(3) compare_service_methods_no_error [OF wf(6)]]
  show ?thesis
    unfolding compare_services_def no_error_simps(3) concat_map_no_error by (subst loop) auto
qed

lemma compare_packages_no_error:
  "no_error (compare_packages old new) \<longleftrightarrow> sg_package old = sg_package new"
  by (simp add: compare_packages_def)

lemma list_ex_error: "\<not> list_ex (\<lambda>v. v_level v = Level_Error) vs \<longleftrightarrow> no_error vs"
  by (auto simp: list_ex_iff no_error_def)

lemma check_compatibility_ok:
  "schema_wf old \<Longrightarrow> schema_wf new \<Longrightarrow>
     is_ok (check_compatibility old new m) \<longleftrightarrow> m = Mode_None \<or> \<not> schema_panics old new"
  by (simp add: check_compatibility_def Let_def compare_messages_ok)

lemma check_compatibility_accepts:
  assumes "schema_wf old" "schema_wf new" "m \<noteq> Mode_None"
    and "check_compatibility old new m = Inr r"
  shows "cr_compatible r \<longleftrightarrow> schema_accepts m old new"
proof -
  obtain msgs where msgs: "compare_messages m old new = Inr msgs"
    and r: "cr_compatible r \<longleftrightarrow> no_error (compare_packages old new) \<and> no_error msgs \<and>
       no_error (compare_enums m old new) \<and> no_error (compare_services old new)"
    using assms(3,4)
    by (auto simp: check_compatibility_def rbind_Inr_iff Let_def list_ex_error compare_imports_def)
  have "no_error msgs \<longleftrightarrow> clean (compare_messages m old new)" using msgs by simp
  then show ?thesis
    unfolding r schema_accepts_def compare_packages_no_error compare_messages_clean [OF assms(1,2)]
      compare_enums_no_error [OF assms(1,2)] compare_services_no_error [OF assms(1)]
    by simp
qed

end
