(* ===== verification/Compat_Props.thy ===== *)
theory Compat_Props
  imports Compat_Verdict
begin

text \<open>The properties of the compatibility check.\<close>

section \<open>Range order\<close>

text \<open>
  Two graphs are the same up to the order of their maps: equal lookups, at every nesting level.
\<close>

definition same_map :: "('v \<Rightarrow> 'v \<Rightarrow> bool) \<Rightarrow> ('k \<rightharpoonup> 'v) \<Rightarrow> ('k \<rightharpoonup> 'v) \<Rightarrow> bool" where
  "same_map R M N \<longleftrightarrow> (\<forall>k. (M k = None \<longleftrightarrow> N k = None) \<and>
     (\<forall>v w. M k = Some v \<longrightarrow> N k = Some w \<longrightarrow> R v w))"

lemma same_map_mono [mono]: "R \<le> S \<Longrightarrow> same_map R M N \<longrightarrow> same_map S M N"
  by (auto simp: same_map_def)

inductive same_message :: "message \<Rightarrow> message \<Rightarrow> bool" where
  "gm_get (ms_fields a) = gm_get (ms_fields b) \<Longrightarrow>
   same_map same_message (gm_get (ms_nested a)) (gm_get (ms_nested b)) \<Longrightarrow> same_message a b"

definition same_enum :: "schema_enum \<Rightarrow> schema_enum \<Rightarrow> bool" where
  "same_enum a b \<longleftrightarrow> gm_get (se_values a) = gm_get (se_values b) \<and>
     gm_get (se_values_by_name a) = gm_get (se_values_by_name b)"

definition same_service :: "schema_service \<Rightarrow> schema_service \<Rightarrow> bool" where
  "same_service a b \<longleftrightarrow> gm_get (ss_methods a) = gm_get (ss_methods b)"

definition same_schema :: "schema_graph \<Rightarrow> schema_graph \<Rightarrow> bool" where
  "same_schema g h \<longleftrightarrow> sg_package g = sg_package h \<and>
     same_map same_message (gm_get (sg_messages g)) (gm_get (sg_messages h)) \<and>
     same_map same_enum (gm_get (sg_enums g)) (gm_get (sg_enums h)) \<and>
     same_map same_service (gm_get (sg_services g)) (gm_get (sg_services h))"

inductive_cases same_message_cases: "same_message a b"

lemma same_map_sym: "same_map R M N \<Longrightarrow> (\<And>v w. R v w \<Longrightarrow> S w v) \<Longrightarrow> same_map S N M"
  by (auto simp: same_map_def)

lemma same_message_sym: "same_message a b \<Longrightarrow> same_message b a"
proof (induction rule: same_message.induct)
  case (1 a b)
  then have "same_map same_message (gm_get (ms_nested b)) (gm_get (ms_nested a))"
    by (auto simp: same_map_def)
  with 1 show ?case by (intro same_message.intros) simp_all
qed

lemma same_schema_sym: "same_schema g h \<Longrightarrow> same_schema h g"
  unfolding same_schema_def
  by (intro conjI; elim conjE; (rule sym, assumption | erule same_map_sym))
    (simp_all add: same_message_sym same_enum_def same_service_def)

lemma same_map_Some:
  "same_map R M N \<Longrightarrow> M k = Some v \<Longrightarrow> \<exists>w. N k = Some w \<and> R v w"
  unfolding same_map_def by (metis option.exhaust)

lemma same_map_refl_on: "(\<And>k v. M k = Some v \<Longrightarrow> R v v) \<Longrightarrow> same_map R M M"
  by (auto simp: same_map_def)

lemma same_message_refl: "same_message a a"
proof (induction a rule: measure_induct_rule [where f = size])
  case (less a)
  have "same_map same_message (gm_get (ms_nested a)) (gm_get (ms_nested a))"
    by (rule same_map_refl_on, rule less.IH) (erule ms_nested_size [OF map_of_SomeD])
  then show ?case by (rule same_message.intros [OF refl])
qed

lemma compared_same:
  "compared a b c d \<Longrightarrow> same_message a a' \<Longrightarrow> same_message b b' \<Longrightarrow>
     \<exists>c' d'. compared a' b' c' d' \<and> same_message c c' \<and> same_message d d'"
proof (induction arbitrary: a' b' rule: compared.induct)
  case (here a b)
  then show ?case by (blast intro: compared.here)
next
  case (nested a nm x b y c d)
  obtain x' where x': "gm_get (ms_nested a') nm = Some x'" "same_message x x'"
    using nested.hyps(1) nested.prems(1) by (blast elim: same_message_cases dest: same_map_Some)
  obtain y' where y': "gm_get (ms_nested b') nm = Some y'" "same_message y y'"
    using nested.hyps(2) nested.prems(2) by (blast elim: same_message_cases dest: same_map_Some)
  from nested.IH [OF x'(2) y'(2)] show ?case
    by (blast intro: compared.nested [OF x'(1) y'(1)])
qed

lemma same_message_fields: "same_message a b \<Longrightarrow> gm_get (ms_fields a) = gm_get (ms_fields b)"
  by (erule same_message_cases)

lemma fields_accept_same:
  "same_message a a' \<Longrightarrow> same_message b b' \<Longrightarrow> fields_accept m a b \<longleftrightarrow> fields_accept m a' b'"
  by (simp add: fields_accept_def same_message_fields)

lemma fields_panic_same:
  "same_message a a' \<Longrightarrow> same_message b b' \<Longrightarrow> fields_panic a b \<longleftrightarrow> fields_panic a' b'"
  by (simp add: fields_panic_def same_message_fields)

lemma message_accepts_same:
  "same_message a a' \<Longrightarrow> same_message b b' \<Longrightarrow> message_accepts m a' b' \<Longrightarrow> message_accepts m a b"
  unfolding message_accepts_def
proof (intro allI impI)
  fix c d
  assume same: "same_message a a'" "same_message b b'" and "compared a b c d"
    and accepts: "\<forall>c d. compared a' b' c d \<longrightarrow> fields_accept m c d"
  then obtain c' d' where "compared a' b' c' d'" "same_message c c'" "same_message d d'"
    using compared_same by blast
  then show "fields_accept m c d" using accepts fields_accept_same by blast
qed

lemma enum_accepts_same:
  "same_enum a a' \<Longrightarrow> same_enum b b' \<Longrightarrow> enum_accepts m a' b' \<Longrightarrow> enum_accepts m a b"
  by (simp add: enum_accepts_def same_enum_def)

lemma service_accepts_same:
  "same_service a a' \<Longrightarrow> same_service b b' \<Longrightarrow> service_accepts a' b' \<Longrightarrow> service_accepts a b"
  by (simp add: service_accepts_def same_service_def)

lemma kept_same:
  assumes "same_map S M M'" "same_map S N N'" "kept R M' N'"
    and "\<And>v v' w w'. S v v' \<Longrightarrow> S w w' \<Longrightarrow> R v' w' \<Longrightarrow> R v w"
  shows "kept R M N"
  unfolding kept_def
proof (intro allI impI)
  fix k v assume "M k = Some v"
  then obtain v' where v': "M' k = Some v'" "S v v'" using same_map_Some [OF assms(1)] by blast
  then obtain w' where w': "N' k = Some w'" "R v' w'" using assms(3) by (auto simp: kept_def)
  then obtain w where w: "N k = Some w" using assms(2) by (metis option.exhaust option.simps(3) same_map_def)
  then have "S w w'" using assms(2) w'(1) by (auto simp: same_map_def)
  then show "\<exists>w. N k = Some w \<and> R v w" using assms(4) v'(2) w' w by blast
qed

lemma schema_accepts_same:
  assumes "same_schema old old'" "same_schema new new'" "schema_accepts m old' new'"
  shows "schema_accepts m old new"
proof -
  note old = assms(1) [unfolded same_schema_def] and new = assms(2) [unfolded same_schema_def]
    and acc = assms(3) [unfolded schema_accepts_def]
  note messages = kept_same [OF old [THEN conjunct2, THEN conjunct1]
      new [THEN conjunct2, THEN conjunct1] acc [THEN conjunct2, THEN conjunct1] message_accepts_same]
  note enums = kept_same [OF old [THEN conjunct2, THEN conjunct2, THEN conjunct1]
      new [THEN conjunct2, THEN conjunct2, THEN conjunct1]
      acc [THEN conjunct2, THEN conjunct2, THEN conjunct1] enum_accepts_same]
  note services = kept_same [OF old [THEN conjunct2, THEN conjunct2, THEN conjunct2]
      new [THEN conjunct2, THEN conjunct2, THEN conjunct2]
      acc [THEN conjunct2, THEN conjunct2, THEN conjunct2] service_accepts_same]
  show ?thesis
    unfolding schema_accepts_def using old new acc messages enums services by simp
qed

lemma schema_panics_same:
  assumes "same_schema old old'" "same_schema new new'" "schema_panics old new"
  shows "schema_panics old' new'"
proof -
  obtain nm mo mn c d where *: "gm_get (sg_messages old) nm = Some mo"
    "gm_get (sg_messages new) nm = Some mn" "compared mo mn c d" "fields_panic c d"
    using assms(3) by (auto simp: schema_panics_def)
  obtain mo' mn' where "gm_get (sg_messages old') nm = Some mo'" "same_message mo mo'"
    "gm_get (sg_messages new') nm = Some mn'" "same_message mn mn'"
    using assms(1,2) *(1,2) unfolding same_schema_def by (meson same_map_Some)
  moreover from this obtain c' d' where "compared mo' mn' c' d'" "fields_panic c' d'"
    using *(3,4) compared_same fields_panic_same by blast
  ultimately show ?thesis unfolding schema_panics_def by blast
qed


section \<open>The properties\<close>


text \<open>C2. When a check panics: for graphs built from any two syntax trees, exactly when the mode
  is not NONE and some compared pair of fields has a map type on one side only, because
  \<open>FieldType.String\<close> has no name for the map type.\<close>
theorem check_compatibility_panics:
  "\<not> is_ok (check_compatibility (build_from_ast a) (build_from_ast b) m) \<longleftrightarrow>
     m \<noteq> Mode_None \<and> schema_panics (build_from_ast a) (build_from_ast b)"
  by (simp add: check_compatibility_ok build_from_ast_wf)

lemma check_compatibility_same:
  assumes "schema_wf old" "schema_wf new" "schema_wf old'" "schema_wf new'"
    and "same_schema old old'" "same_schema new new'"
  shows "map_sum (\<lambda>_. ()) cr_compatible (check_compatibility old new m) =
         map_sum (\<lambda>_. ()) cr_compatible (check_compatibility old' new' m)"
proof (cases "m = Mode_None")
  case True
  then show ?thesis by (simp add: check_compatibility_def)
next
  case False
  have panics: "schema_panics old new \<longleftrightarrow> schema_panics old' new'"
    using assms(5,6) schema_panics_same same_schema_sym by blast
  have accepts: "schema_accepts m old new \<longleftrightarrow> schema_accepts m old' new'"
    using assms(5,6) schema_accepts_same same_schema_sym by blast
  have ok: "is_ok (check_compatibility old new m) \<longleftrightarrow> is_ok (check_compatibility old' new' m)"
    using check_compatibility_ok [OF assms(1,2)] check_compatibility_ok [OF assms(3,4)] panics
    by blast
  show ?thesis
  proof (cases "check_compatibility old new m")
    case (Inl e)
    then have "\<not> is_ok (check_compatibility old' new' m)" using ok by (metis is_ok_simps(1))
    with Inl show ?thesis by (auto simp: is_ok_def split: sum.splits)
  next
    case (Inr r)
    then obtain r' where r': "check_compatibility old' new' m = Inr r'"
      using ok by (metis is_ok_iff)
    have "cr_compatible r \<longleftrightarrow> cr_compatible r'"
      using check_compatibility_accepts [OF assms(1,2) False Inr]
        check_compatibility_accepts [OF assms(3,4) False r'] accepts by blast
    with Inr r' show ?thesis by simp
  qed
qed

text \<open>C3. The order in which Go ranges over maps does not matter: graphs that agree on every
  lookup, at every level, give the same verdict and panic together.\<close>
theorem check_compatibility_order:
  assumes "schema_wf old" "schema_wf new" "schema_wf old'" "schema_wf new'"
    and "same_schema old old'" "same_schema new new'"
  shows "map_sum (\<lambda>_. ()) cr_compatible (check_compatibility old new m) =
         map_sum (\<lambda>_. ()) cr_compatible (check_compatibility old' new' m)"
  using assms by (rule check_compatibility_same)

lemma collect_all_Nil: "(\<And>x. x \<in> set xs \<Longrightarrow> f x = Inr []) \<Longrightarrow> collect f xs = Inr []"
  by (induction xs) simp_all

lemma concat_map_Nil: "(\<And>x. x \<in> set xs \<Longrightarrow> f x = []) \<Longrightarrow> concat (map f xs) = []"
  by simp

lemma gm_get_elem: "gm_ok m \<Longrightarrow> (k, v) \<in> set m \<Longrightarrow> gm_get m k = Some v"
  by (simp add: gm_get_iff)

lemma compare_field_self: "compare_field msg f f = Inr []"
  by (simp add: compare_field_def is_type_compatible_def Let_def)

lemma compare_same_fields:
  assumes "gm_ok (ms_fields a)" "ms_fields b = ms_fields a"
  shows "compare_message_fields m a b = Inr []"
proof -
  have "added_fields a b = []"
    unfolding added_fields_def using assms by (intro concat_map_Nil) (auto simp: gm_get_elem)
  moreover have "collect (\<lambda>(num, fo). case gm_get (ms_fields b) num of
              None \<Rightarrow> Inr [v_field_removed m (ms_full_name a) num fo]
            | Some fn \<Rightarrow> compare_field (ms_full_name a) fo fn) (ms_fields a) = Inr []"
    using assms by (intro collect_all_Nil) (auto simp: gm_get_elem compare_field_self)
  ultimately show ?thesis by (simp add: compare_message_fields_def)
qed

lemma compare_pair_self: "message_wf a \<Longrightarrow> compare_pair m a a = Inr []"
proof (induction a rule: measure_induct_rule [where f = size])
  case (less a)
  note wf = message_wf_simps [OF less.prems]
  have "compare_nested_messages m a a = Inr []"
    unfolding compare_nested_pairs
  proof (rule collect_all_Nil, clarify)
    fix nm c assume c: "(nm, c) \<in> set (ms_nested a)"
    then have get: "gm_get (ms_nested a) nm = Some c" using wf(2) by (simp add: gm_get_elem)
    have "compare_pair m c c = Inr []" using less.IH [OF ms_nested_size [OF c] wf(3) [OF get]] .
    then show "(case gm_get (ms_nested a) nm of None \<Rightarrow> Inr [] | Some cn \<Rightarrow> compare_pair m c cn) = Inr []"
      using get by simp
  qed
  then show ?case using compare_same_fields [OF wf(1) refl] by (simp add: compare_pair_def seq_both_def)
qed

lemma compare_method_self: "compare_method svc x x = []"
  by (simp add: compare_method_def Let_def)

lemma compare_messages_self:
  assumes "schema_wf g"
  shows "compare_messages m g g = Inr []"
proof -
  note wf = schema_wf_simps [OF assms]
  have "collect (\<lambda>(nm, mo). case gm_get (sg_messages g) nm of
              None \<Rightarrow> Inr [v_message_removed nm] | Some mn \<Rightarrow> compare_pair m mo mn) (sg_messages g) = Inr []"
    using wf by (intro collect_all_Nil) (auto simp: gm_get_elem compare_pair_self)
  moreover have "concat (map (\<lambda>(nm, mn). case gm_get (sg_messages g) nm of
              Some _ \<Rightarrow> [] | None \<Rightarrow> [v_message_added nm]) (sg_messages g)) = []"
    using wf by (intro concat_map_Nil) (auto simp: gm_get_elem)
  ultimately show ?thesis unfolding compare_messages_pairs by simp
qed

lemma compare_enum_values_self: "enum_wf e \<Longrightarrow> compare_enum_values m e e = []"
  unfolding compare_enum_values_def enum_wf_def by (auto simp: gm_get_elem dest!: keyed_by_ok)

lemma compare_enums_self: "schema_wf g \<Longrightarrow> compare_enums m g g = []"
  unfolding compare_enums_def
  by (auto simp: gm_get_elem schema_wf_simps compare_enum_values_self dest: schema_wf_simps(5))

lemma compare_service_methods_self: "service_wf s \<Longrightarrow> compare_service_methods s s = []"
  unfolding compare_service_methods_def service_wf_def
  by (auto simp: gm_get_elem compare_method_self dest!: keyed_by_ok)

lemma compare_services_self: "schema_wf g \<Longrightarrow> compare_services g g = []"
  unfolding compare_services_def
  by (auto simp: gm_get_elem schema_wf_simps compare_service_methods_self dest: schema_wf_simps(6))

text \<open>A schema is compatible with itself: for the graph built from any syntax tree, in every
  mode, the check returns and reports nothing.\<close>
lemma check_compatibility_self:
  "check_compatibility (build_from_ast a) (build_from_ast a) m =
     Inr \<lparr>cr_compatible = True, cr_mode = mode_string m, cr_violations = [], cr_summary = empty_summary\<rparr>"
proof -
  have wf: "schema_wf (build_from_ast a)" by (rule build_from_ast_wf)
  show ?thesis
    by (simp add: check_compatibility_def Let_def compare_messages_self [OF wf]
        compare_enums_self [OF wf] compare_services_self [OF wf] compare_packages_def
        compare_imports_def generate_summary_def empty_summary_def)
qed

lemma summary_step:
  "sm_total (add_to_summary v s) = sm_total s"
  "sm_errors (add_to_summary v s) = sm_errors s + (if v_level v = Level_Error then 1 else 0)"
  "sm_warnings (add_to_summary v s) = sm_warnings s + (if v_level v = Level_Warning then 1 else 0)"
  "sm_infos (add_to_summary v s) = sm_infos s + (if v_level v = Level_Info then 1 else 0)"
  "sm_wire_breaking (add_to_summary v s) = sm_wire_breaking s + (if v_wire_breaking v then 1 else 0)"
  "sm_source_breaking (add_to_summary v s) = sm_source_breaking s + (if v_source_breaking v then 1 else 0)"
  by (auto simp: Let_def split: violation_level.split)

lemma summary_fold:
  "sm_total (fold add_to_summary vs s) = sm_total s"
  "sm_errors (fold add_to_summary vs s) = sm_errors s + int (length (filter (\<lambda>v. v_level v = Level_Error) vs))"
  "sm_warnings (fold add_to_summary vs s) = sm_warnings s + int (length (filter (\<lambda>v. v_level v = Level_Warning) vs))"
  "sm_infos (fold add_to_summary vs s) = sm_infos s + int (length (filter (\<lambda>v. v_level v = Level_Info) vs))"
  "sm_wire_breaking (fold add_to_summary vs s) = sm_wire_breaking s + int (length (filter v_wire_breaking vs))"
  "sm_source_breaking (fold add_to_summary vs s) = sm_source_breaking s + int (length (filter v_source_breaking vs))"
  by (induction vs arbitrary: s) (simp_all add: summary_step del: add_to_summary.simps)

lemma filter_levels:
  "length (filter (\<lambda>v. v_level v = Level_Error) vs) + length (filter (\<lambda>v. v_level v = Level_Warning) vs)
     + length (filter (\<lambda>v. v_level v = Level_Info) vs) = length vs"
proof (induction vs)
  case (Cons v vs)
  then show ?case by (cases "v_level v") simp_all
qed simp

text \<open>The summary counts what it says: errors, warnings and infos are the numbers of
  violations of each level and add up to the total, and \<open>Compatible\<close> is the absence of errors.\<close>
lemma check_compatibility_summary:
  assumes "check_compatibility old new m = Inr r"
  shows "sm_errors (cr_summary r) = int (length (filter (\<lambda>v. v_level v = Level_Error) (cr_violations r)))
    \<and> sm_errors (cr_summary r) + sm_warnings (cr_summary r) + sm_infos (cr_summary r) = sm_total (cr_summary r)
    \<and> sm_total (cr_summary r) = int (length (cr_violations r))
    \<and> (cr_compatible r \<longleftrightarrow> sm_errors (cr_summary r) = 0)"
proof -
  consider (none) "cr_violations r = []" "cr_summary r = empty_summary" "cr_compatible r"
    | (some) "cr_summary r = generate_summary (cr_violations r)"
        "cr_compatible r \<longleftrightarrow> no_error (cr_violations r)"
    using assms by (auto simp: check_compatibility_def Let_def rbind_Inr_iff list_ex_error split: if_splits)
  then show ?thesis
  proof cases
    case none
    then show ?thesis by (simp add: empty_summary_def)
  next
    case some
    have "int (length (filter (\<lambda>v. v_level v = Level_Error) (cr_violations r))) = 0 \<longleftrightarrow> no_error (cr_violations r)"
      by (simp add: filter_empty_conv no_error_def)
    with some filter_levels [of "cr_violations r"] show ?thesis
      by (simp add: generate_summary_def summary_fold empty_summary_def)
  qed
qed

lemma compare_field_mode: "forward_mode m \<longleftrightarrow> forward_mode m' \<Longrightarrow> removal_level m = removal_level m'"
  by (simp add: removal_level_def)

lemma compare_message_fields_mode:
  "forward_mode m \<longleftrightarrow> forward_mode m' \<Longrightarrow> compare_message_fields m a b = compare_message_fields m' a b"
  unfolding compare_message_fields_def v_field_removed_def by (simp only: compare_field_mode [of m m'])

lemma compare_pair_mode:
  assumes "forward_mode m \<longleftrightarrow> forward_mode m'"
  shows "compare_pair m a b = compare_pair m' a b"
proof (induction a arbitrary: b rule: measure_induct_rule [where f = size])
  case (less a)
  have "(case gm_get (ms_nested b) nm of None \<Rightarrow> Inr [] | Some d \<Rightarrow> compare_pair m c d) =
        (case gm_get (ms_nested b) nm of None \<Rightarrow> Inr [] | Some d \<Rightarrow> compare_pair m' c d)"
    if "(nm, c) \<in> set (ms_nested a)" for nm c
    using less.IH [OF ms_nested_size [OF that]] by (simp split: option.split)
  then have "compare_nested_messages m a b = compare_nested_messages m' a b"
    unfolding compare_nested_pairs by (intro collect_cong refl) auto
  then show ?case
    by (simp add: compare_pair_def compare_message_fields_mode [OF assms])
qed

lemma compare_messages_mode:
  assumes "forward_mode m \<longleftrightarrow> forward_mode m'"
  shows "compare_messages m g h = compare_messages m' g h"
proof -
  have "compare_pair m = compare_pair m'" by (intro ext compare_pair_mode [OF assms])
  then show ?thesis unfolding compare_messages_pairs by (rule ssubst) (rule refl)
qed

lemma compare_enums_mode:
  assumes "forward_mode m \<longleftrightarrow> forward_mode m'"
  shows "compare_enums m g h = compare_enums m' g h"
proof -
  have "compare_enum_values m = compare_enum_values m'"
    by (intro ext) (simp only: compare_enum_values_def v_enum_value_removed_def compare_field_mode [OF assms])
  then show ?thesis unfolding compare_enums_def by (rule ssubst) (rule refl)
qed

text \<open>Only two of the six checking modes differ from the rest: two modes that are both forward
  or both not forward report the same violations and the same verdict. So FULL is BACKWARD, and
  a transitive mode is the mode without the suffix, applied to one pair of versions.\<close>
lemma check_compatibility_modes:
  assumes "m \<noteq> Mode_None" "m' \<noteq> Mode_None" "forward_mode m \<longleftrightarrow> forward_mode m'"
  shows "check_compatibility old new m' =
         map_sum id (\<lambda>r. r\<lparr>cr_mode := mode_string m'\<rparr>) (check_compatibility old new m)"
  using assms(1,2)
  by (cases "compare_messages m' old new")
    (simp_all add: check_compatibility_def Let_def compare_messages_mode [OF assms(3)]
      compare_enums_mode [OF assms(3)])

lemma fields_accept_forward: "fields_accept m a b \<Longrightarrow> forward_mode m' \<Longrightarrow> fields_accept m' a b"
  by (simp add: fields_accept_def split: option.splits)

lemma kept_mono: "kept R M N \<Longrightarrow> (\<And>v w. R v w \<Longrightarrow> S v w) \<Longrightarrow> kept S M N"
  by (fastforce simp: kept_def)

lemma schema_accepts_forward:
  "schema_accepts m g h \<Longrightarrow> forward_mode m' \<Longrightarrow> schema_accepts m' g h"
  unfolding schema_accepts_def
  using fields_accept_forward [of m _ _ m']
  by (auto elim!: kept_mono simp: message_accepts_def enum_accepts_def)

text \<open>FORWARD is the weaker check: whenever a check in any mode accepts a change, so does the
  check in a forward mode.\<close>
lemma check_compatibility_forward_weaker:
  assumes "schema_wf old" "schema_wf new" "m \<noteq> Mode_None" "forward_mode m'"
    and "check_compatibility old new m = Inr r" "cr_compatible r"
  shows "\<exists>r'. check_compatibility old new m' = Inr r' \<and> cr_compatible r'"
proof -
  have m': "m' \<noteq> Mode_None" using assms(4) by (auto simp: forward_mode_def)
  have "is_ok (check_compatibility old new m')"
    using check_compatibility_ok [OF assms(1,2), of m] check_compatibility_ok [OF assms(1,2), of m']
      assms(3,5) by simp
  then obtain r' where r': "check_compatibility old new m' = Inr r'" by (auto simp: is_ok_iff)
  have "schema_accepts m' old new"
    using check_compatibility_accepts [OF assms(1,2,3,5)] assms(4,6) schema_accepts_forward by blast
  then show ?thesis using check_compatibility_accepts [OF assms(1,2) m' r'] r' by blast
qed

text \<open>Removing a nested message type is never reported: a message keeps its fields and loses
  every type declared inside it, and the check reports nothing, in every mode.\<close>
lemma nested_removal_unreported:
  "check_compatibility (build_from_ast (mk_root pkg is [mk_message nm fs ns]))
                       (build_from_ast (mk_root pkg is [mk_message nm fs []])) m =
     Inr \<lparr>cr_compatible = True, cr_mode = mode_string m, cr_violations = [], cr_summary = empty_summary\<rparr>"
proof -
  define a where "a = build_message pkg (mk_message nm fs ns) []"
  define b where "b = build_message pkg (mk_message nm fs []) []"
  have names: "ms_name a = nm" "ms_name b = nm" "ms_nested b = []"
    by (simp_all add: a_def b_def mk_message_def Let_def gm_store_def)
  have fields: "ms_fields b = ms_fields a"
    by (simp add: a_def b_def mk_message_def Let_def all_fields_def)
  have "compare_message_fields m a b = Inr []"
    using fields message_wf_simps(1) [OF build_message_wf] by (intro compare_same_fields) (simp_all add: a_def)
  moreover have "compare_nested_messages m a b = Inr []"
    unfolding compare_nested_pairs names by (rule collect_all_Nil) auto
  ultimately have pair: "compare_pair m a b = Inr []" by (simp add: compare_pair_def seq_both_def)
  have graph: "build_from_ast (mk_root pkg is [mk_message nm fs ns]) =
      \<lparr>sg_package = pkg, sg_syntax = ''proto2'', sg_imports = extract_imports (mk_root pkg is []),
       sg_messages = [(nm, build_message pkg (mk_message nm fs ns) [])], sg_enums = [], sg_services = []\<rparr>" for ns
    by (simp add: build_from_ast_def mk_root_def extract_package_def extract_syntax_def Let_def
        gm_store_def mk_message_def extract_imports_def)
  show ?thesis
    unfolding graph a_def [symmetric] b_def [symmetric]
    by (simp add: check_compatibility_def compare_packages_def compare_imports_def compare_enums_def
        compare_services_def compare_messages_pairs pair Let_def generate_summary_def empty_summary_def)
qed


section \<open>Concrete checks\<close>

definition demo :: "string \<Rightarrow> schema_graph" where
  "demo t = build_from_ast (mk_root ''shop'' []
     [mk_message ''Order'' [mk_field ''id'' ''int64'' 1, mk_field ''total'' t 2] [],
      mk_message ''Item'' [mk_field ''sku'' ''string'' 1] []])"

definition demo_swapped :: "string \<Rightarrow> schema_graph" where
  "demo_swapped t = build_from_ast (mk_root ''shop'' []
     [mk_message ''Item'' [mk_field ''sku'' ''string'' 1] [],
      mk_message ''Order'' [mk_field ''total'' t 2, mk_field ''id'' ''int64'' 1] []])"

lemma demo_wf: "schema_wf (demo t)" "schema_wf (demo_swapped t)"
  by (simp_all add: demo_def demo_swapped_def build_from_ast_wf)

lemma demo_verdicts:
  "map_sum id cr_compatible (check_compatibility (demo ''fixed32'') (demo ''fixed64'') Mode_Backward_Transitive) = Inr True"
  "map_sum id cr_compatible (check_compatibility (demo ''fixed64'') (demo ''sfixed64'') Mode_Backward_Transitive) = Inr True"
  "map_sum id cr_compatible (check_compatibility (demo ''fixed32'') (demo ''sfixed64'') Mode_Backward_Transitive) = Inr False"
  by code_simp+

lemma map_sum_Inr: "map_sum id f r = Inr b \<Longrightarrow> \<exists>x. r = Inr x \<and> f x = b"
  by (cases r) auto


lemma ms_name_mk: "ms_name (build_message pkg (mk_message n fs ns) parent) = n"
  by (simp add: mk_message_def Let_def)

lemma graph_mk_root:
  "sg_package (build_from_ast (mk_root pkg is ms)) = pkg"
  "sg_messages (build_from_ast (mk_root pkg is ms)) = gm_store ms_name (map (\<lambda>n. build_message pkg n []) ms)"
  "sg_enums (build_from_ast (mk_root pkg is ms)) = []"
  "sg_services (build_from_ast (mk_root pkg is ms)) = []"
  by (simp_all add: build_from_ast_def mk_root_def extract_package_def gm_store_def)

lemma same_message_swap:
  assumes "fn_number f \<noteq> fn_number g"
  shows "same_message (build_message p (mk_message n [f, g] []) []) (build_message p (mk_message n [g, f] []) [])"
  using assms by (intro same_message.intros)
    (auto simp: mk_message_def all_fields_def gm_store_def same_map_def build_field_def Let_def)

lemma demo_same: "same_schema (demo t) (demo_swapped t)"
  unfolding same_schema_def demo_def demo_swapped_def graph_mk_root
  using same_message_swap [of "mk_field ''id'' ''int64'' 1" "mk_field ''total'' t 2"] same_message_refl
  by (simp add: gm_store_def ms_name_mk same_map_def mk_field_def)

theorem check_compatibility_order_witness:
  "map_sum (\<lambda>_. ()) cr_compatible (check_compatibility (demo ''int32'') (demo ''string'') Mode_Full) =
   map_sum (\<lambda>_. ()) cr_compatible (check_compatibility (demo_swapped ''int32'') (demo_swapped ''string'') Mode_Full)"
  by (rule check_compatibility_order [OF demo_wf(1) demo_wf(1) demo_wf(2) demo_wf(2) demo_same demo_same])

text \<open>A transitive mode does not make compatibility transitive: there are three versions, each
  accepted against the one before it in BACKWARD_TRANSITIVE mode, of which the last is rejected
  against the first.\<close>
lemma transitive_mode_not_transitive:
  "\<exists>a b c. map_sum id cr_compatible (check_compatibility a b Mode_Backward_Transitive) = Inr True
     \<and> map_sum id cr_compatible (check_compatibility b c Mode_Backward_Transitive) = Inr True
     \<and> map_sum id cr_compatible (check_compatibility a c Mode_Backward_Transitive) = Inr False"
  using demo_verdicts by blast

end
