(* ===== verification/Deps_Graph.thy ===== *)
theory Deps_Graph
  imports Spoke_Prelude
begin

text \<open>
  The dependency graph of \<open>pkg/dependencies/graph.go\<close>: its nodes and edges, and the four
  depth-first searches over it. A recursive closure of the code that calls itself once per
  element of a list is one function over that list: the closure's body for the head, then the
  rest of the loop. The captured variables are its state. The searches terminate because every
  call from a node marks that node visited: the number of unvisited keys of the edge map falls.
\<close>

section \<open>The graph\<close>

record dependency =
  dep_module :: string
  dep_version :: string
  dep_type :: string

record dep_node =
  nd_module :: string
  nd_version :: string
  nd_dependencies :: "dependency list"

record dep_graph =
  dg_nodes :: "(string, dep_node) gomap"
  dg_edges :: "(string, string list) gomap"

definition module_version_key :: "string \<Rightarrow> string \<Rightarrow> string" where
  "module_version_key m v = m @ ''@'' @ v"

abbreviation dep_key :: "dependency \<Rightarrow> string" where
  "dep_key d \<equiv> module_version_key (dep_module d) (dep_version d)"

abbreviation node_key :: "dep_node \<Rightarrow> string" where
  "node_key n \<equiv> module_version_key (nd_module n) (nd_version n)"

definition new_dependency_graph :: dep_graph where
  "new_dependency_graph = \<lparr>dg_nodes = [], dg_edges = []\<rparr>"

definition add_node :: "dep_graph \<Rightarrow> string \<Rightarrow> string \<Rightarrow> dependency list \<Rightarrow> dep_graph" where
  "add_node g m v deps =
     (let key = module_version_key m v in
      g\<lparr>dg_nodes := gm_put key \<lparr>nd_module = m, nd_version = v, nd_dependencies = deps\<rparr> (dg_nodes g),
        dg_edges := gm_put key (map dep_key deps) (dg_edges g)\<rparr>)"

definition get_node :: "dep_graph \<Rightarrow> string \<Rightarrow> string \<Rightarrow> dep_node option" where
  "get_node g m v = gm_get (dg_nodes g) (module_version_key m v)"

definition get_dependencies :: "dep_graph \<Rightarrow> string \<Rightarrow> string \<Rightarrow> dependency list" where
  "get_dependencies g m v = (case get_node g m v of None \<Rightarrow> [] | Some n \<Rightarrow> nd_dependencies n)"

text \<open>Reading a missing key of the edge map gives the nil slice.\<close>

definition edges_of :: "(string, string list) gomap \<Rightarrow> string \<Rightarrow> string list" where
  "edges_of es k = (case gm_get es k of None \<Rightarrow> [] | Some ks \<Rightarrow> ks)"

section \<open>Searches\<close>

text \<open>How many of the keys that can have successors are left to visit.\<close>

definition unvisited :: "'k list \<Rightarrow> 'k set \<Rightarrow> nat" where
  "unvisited ks V = card (set ks - V)"

lemma unvisited_mono: "V \<subseteq> W \<Longrightarrow> unvisited ks W \<le> unvisited ks V"
  unfolding unvisited_def by (intro card_mono) auto

lemma unvisited_less: "k \<in> set ks \<Longrightarrow> k \<notin> V \<Longrightarrow> unvisited ks (insert k V) < unvisited ks V"
  unfolding unvisited_def by (intro psubset_card_mono) auto

text \<open>
  One call of a search: from an unvisited \<open>k\<close>, with its successors as the next list. Only keys of
  \<open>ks\<close> have successors, so either fewer keys are left or the list is empty.
\<close>

lemma search_call:
  assumes "k \<notin> V" and "ds \<noteq> [] \<Longrightarrow> k \<in> set ks"
  shows "unvisited ks (insert k V) < unvisited ks V \<or>
    unvisited ks (insert k V) = unvisited ks V \<and> length ds < Suc n"
  using assms unvisited_less [of k ks V] unvisited_mono [of V "insert k V" ks]
  by (cases "ds = []") (auto simp: le_less)

lemma search_rest:
  "insert k V \<subseteq> W \<Longrightarrow> unvisited ks W < unvisited ks V \<or> unvisited ks W = unvisited ks V \<and> n < Suc n"
  using unvisited_mono [of V W ks] by (auto simp: le_less)

lemma edges_of_nonempty: "edges_of es k \<noteq> [] \<Longrightarrow> k \<in> set (map fst es)"
  by (auto simp: edges_of_def dest: map_of_SomeD split: option.splits intro: rev_image_eqI)

subsection \<open>Cycle detection\<close>

text \<open>
  \<open>hasCycle\<close>: the state is \<open>(visited, recStack, path)\<close>. \<open>Inl path\<close> is a cycle found, with the
  path at that moment; \<open>Inr\<close> the state after the loop.
\<close>

type_synonym cycle_state = "string set \<times> string set \<times> string list"

function has_cycle ::
    "(string, string list) gomap \<Rightarrow> string list \<Rightarrow> cycle_state \<Rightarrow> string list + cycle_state" where
  "has_cycle es [] st = Inr st"
| "has_cycle es (d # ds) (V, R, p) =
     (if d \<notin> V then
        (case has_cycle es (edges_of es d) (insert d V, insert d R, p @ [d]) of
           Inl q \<Rightarrow> Inl q
         | Inr (V', R', p') \<Rightarrow> has_cycle es ds (V', R' - {d}, butlast p'))
      else if d \<in> R then Inl p
      else has_cycle es ds (V, R, p))"
  by pat_completeness auto

lemma has_cycle_grows:
  "has_cycle_dom (es, ds, st) \<Longrightarrow> has_cycle es ds st = Inr st' \<Longrightarrow> fst st \<subseteq> fst st'"
proof (induction es ds st arbitrary: st' rule: has_cycle.pinduct)
  case (1 es st)
  then show ?case by (simp add: has_cycle.psimps)
next
  case (2 es d ds V R p)
  note unfold = has_cycle.psimps(2) [OF "2.hyps"]
  show ?case
  proof (cases "d \<in> V")
    case True
    with 2 show ?thesis unfolding unfold by (auto split: if_splits)
  next
    case False
    obtain V' R' p' where first: "has_cycle es (edges_of es d) (insert d V, insert d R, p @ [d]) = Inr (V', R', p')"
      and rest: "has_cycle es ds (V', R' - {d}, butlast p') = Inr st'"
      using False "2.prems" unfolding unfold by (auto split: sum.splits)
    have "insert d V \<subseteq> V'" using "2.IH"(1) [OF False first] by simp
    moreover have "V' \<subseteq> fst st'"
      using "2.IH"(2) [OF False first _ _ rest] by simp
    ultimately show ?thesis by auto
  qed
qed

termination has_cycle
  apply (relation "measures [\<lambda>(es, ds, st). unvisited (map fst es) (fst st), \<lambda>(es, ds, st). length ds]")
     apply simp
  subgoal for es d ds V R p
    using search_call [of d V "edges_of es d" "map fst es" "length ds", OF _ edges_of_nonempty]
    by auto
  subgoal for es d ds V R p s
    using has_cycle_grows [of es "edges_of es d" "(insert d V, insert d R, p @ [d])" s]
      search_rest [of d V "fst s" "map fst es" "length ds"] by auto
  apply simp
  done

text \<open>\<open>DetectCircularDependencies\<close>: the path when there is a cycle, nothing otherwise.\<close>

definition detect_circular :: "dep_graph \<Rightarrow> string \<Rightarrow> string \<Rightarrow> string list option" where
  "detect_circular g m v =
     (case has_cycle (dg_edges g) [module_version_key m v] ({}, {}, []) of
        Inl p \<Rightarrow> Some p | Inr _ \<Rightarrow> None)"

subsection \<open>Topological sort\<close>

datatype dep_error = Circular string | Version_Not_Found string string | Parse_Failed string

type_synonym sort_state = "string set \<times> string set \<times> dependency list"

definition emit_node :: "(string, dep_node) gomap \<Rightarrow> string \<Rightarrow> dependency list \<Rightarrow> dependency list" where
  "emit_node ns k res = (case gm_get ns k of
     Some n \<Rightarrow> res @ [\<lparr>dep_module = nd_module n, dep_version = nd_version n, dep_type = ''direct''\<rparr>]
   | None \<Rightarrow> res)"

function topo_visit :: "dep_graph \<Rightarrow> string list \<Rightarrow> sort_state \<Rightarrow> dep_error + sort_state" where
  "topo_visit g [] st = Inr st"
| "topo_visit g (k # ks) (V, R, res) =
     (if k \<in> R then Inl (Circular k)
      else if k \<in> V then topo_visit g ks (V, R, res)
      else (case topo_visit g (edges_of (dg_edges g) k) (insert k V, insert k R, res) of
              Inl e \<Rightarrow> Inl e
            | Inr (V', R', res') \<Rightarrow>
                topo_visit g ks (V', R' - {k}, emit_node (dg_nodes g) k res')))"
  by pat_completeness auto

lemma topo_visit_grows:
  "topo_visit_dom (g, ks, st) \<Longrightarrow> topo_visit g ks st = Inr st' \<Longrightarrow> fst st \<subseteq> fst st'"
proof (induction g ks st arbitrary: st' rule: topo_visit.pinduct)
  case (1 g st)
  then show ?case by (simp add: topo_visit.psimps)
next
  case (2 g k ks V R res)
  note unfold = topo_visit.psimps(2) [OF "2.hyps"]
  show ?case
  proof (cases "k \<in> V")
    case True
    with 2 show ?thesis unfolding unfold by (auto split: if_splits)
  next
    case False
    have R: "k \<notin> R" using "2.prems" unfolding unfold by (auto split: if_splits)
    obtain V' R' res' where
      first: "topo_visit g (edges_of (dg_edges g) k) (insert k V, insert k R, res) = Inr (V', R', res')"
      and rest: "topo_visit g ks (V', R' - {k}, emit_node (dg_nodes g) k res') = Inr st'"
      using False R "2.prems" unfolding unfold by (auto split: sum.splits)
    have "insert k V \<subseteq> V'" using "2.IH"(2) [OF R False first] by simp
    moreover have "V' \<subseteq> fst st'" using "2.IH"(3) [OF R False first _ _ rest] by simp
    ultimately show ?thesis by auto
  qed
qed

termination topo_visit
  apply (relation "measures [\<lambda>(g, ks, st). unvisited (map fst (dg_edges g)) (fst st), \<lambda>(g, ks, st). length ks]")
     apply simp
    apply simp
  subgoal for g k ks V R res
    using search_call [of k V "edges_of (dg_edges g) k" "map fst (dg_edges g)" "length ks", OF _ edges_of_nonempty]
    by auto
  subgoal for g k ks V R res s
    using topo_visit_grows [of g "edges_of (dg_edges g) k" "(insert k V, insert k R, res)" s]
      search_rest [of k V "fst s" "map fst (dg_edges g)" "length ks"] by auto
  done

definition topological_sort :: "dep_graph \<Rightarrow> string \<Rightarrow> string \<Rightarrow> dep_error + dependency list" where
  "topological_sort g m v =
     rbind (topo_visit g [module_version_key m v] ({}, {}, [])) (\<lambda>(V, R, res). Inr res)"

subsection \<open>Transitive dependencies and dependents\<close>

text \<open>
  Both searches append every successor they meet, then follow those not yet visited. The state
  is \<open>(visited, result)\<close>.
\<close>

type_synonym gather_state = "string set \<times> dependency list"

definition node_deps :: "dep_graph \<Rightarrow> string \<Rightarrow> dependency list" where
  "node_deps g k = (case gm_get (dg_nodes g) k of None \<Rightarrow> [] | Some n \<Rightarrow> nd_dependencies n)"

lemma node_deps_nonempty: "node_deps g k \<noteq> [] \<Longrightarrow> k \<in> set (map fst (dg_nodes g))"
  by (auto simp: node_deps_def dest: map_of_SomeD split: option.splits intro: rev_image_eqI)

function gather_deps :: "dep_graph \<Rightarrow> dependency list \<Rightarrow> gather_state \<Rightarrow> gather_state" where
  "gather_deps g [] st = st"
| "gather_deps g (d # ds) (V, res) =
     (let res = res @ [d\<lparr>dep_type := ''transitive''\<rparr>] in
      if dep_key d \<in> V then gather_deps g ds (V, res)
      else gather_deps g ds (gather_deps g (node_deps g (dep_key d)) (insert (dep_key d) V, res)))"
  by pat_completeness auto

lemma gather_deps_grows:
  "gather_deps_dom (g, ds, st) \<Longrightarrow> fst st \<subseteq> fst (gather_deps g ds st)"
proof (induction g ds st rule: gather_deps.pinduct)
  case (1 g st)
  then show ?case by (simp add: gather_deps.psimps)
next
  case (2 g d ds V res)
  note unfold = gather_deps.psimps(2) [OF "2.hyps"]
  show ?case
    using "2.IH" unfolding unfold by (cases "dep_key d \<in> V") (force simp: Let_def)+
qed

termination gather_deps
  apply (relation "measures [\<lambda>(g, ds, st). unvisited (map fst (dg_nodes g)) (fst st), \<lambda>(g, ds, st). length ds]")
     apply simp
    apply simp
  subgoal for g d ds V res x
    using search_call [of "dep_key d" V "node_deps g (dep_key d)" "map fst (dg_nodes g)" "length ds",
      OF _ node_deps_nonempty] by auto
  subgoal for g d ds V res x
    using gather_deps_grows [of g "node_deps g (dep_key d)" "(insert (dep_key d) V, x)"]
      search_rest [of "dep_key d" V "fst (gather_deps g (node_deps g (dep_key d)) (insert (dep_key d) V, x))"
        "map fst (dg_nodes g)" "length ds"] by simp
  done

definition get_transitive_dependencies :: "dep_graph \<Rightarrow> string \<Rightarrow> string \<Rightarrow> dependency list" where
  "get_transitive_dependencies g m v =
     (let k = module_version_key m v in snd (gather_deps g (node_deps g k) ({k}, [])))"

definition dependents_of :: "dep_graph \<Rightarrow> string \<Rightarrow> dependency list" where
  "dependents_of g target =
     concat (map (\<lambda>(k, es). if List.member es target
                then (case gm_get (dg_nodes g) k of
                        Some n \<Rightarrow> [\<lparr>dep_module = nd_module n, dep_version = nd_version n, dep_type = ''direct''\<rparr>]
                      | None \<Rightarrow> [])
                else []) (dg_edges g))"

definition get_dependents :: "dep_graph \<Rightarrow> string \<Rightarrow> string \<Rightarrow> dependency list" where
  "get_dependents g m v = dependents_of g (module_version_key m v)"

lemma dependents_of_iff:
  "x \<in> set (dependents_of g k) \<longleftrightarrow> (\<exists>a es n. (a, es) \<in> set (dg_edges g) \<and> k \<in> set es \<and>
     gm_get (dg_nodes g) a = Some n \<and>
     x = \<lparr>dep_module = nd_module n, dep_version = nd_version n, dep_type = ''direct''\<rparr>)"
proof -
  have one: "x \<in> set (case r of None \<Rightarrow> [] | Some n \<Rightarrow> [f n]) \<longleftrightarrow> (\<exists>n. r = Some n \<and> x = f n)"
    for r :: "dep_node option" and f
    by (auto split: option.splits)
  define dep where "dep n = \<lparr>dep_module = nd_module n, dep_version = nd_version n, dep_type = ''direct''\<rparr>"
    for n :: dep_node
  have "dependents_of g k = concat (map (\<lambda>e. if k \<in> set (snd e) then
      (case gm_get (dg_nodes g) (fst e) of None \<Rightarrow> [] | Some n \<Rightarrow> [dep n]) else []) (dg_edges g))"
    unfolding dependents_of_def dep_def by (intro arg_cong [where f = concat] map_cong) auto
  then have "x \<in> set (dependents_of g k) \<longleftrightarrow> (\<exists>e \<in> set (dg_edges g). k \<in> set (snd e) \<and>
      (\<exists>n. gm_get (dg_nodes g) (fst e) = Some n \<and> x = dep n))"
    by (auto simp: one split: if_splits; force)
  then show ?thesis unfolding dep_def by force
qed

lemma dependents_of_nonempty: "dependents_of g k \<noteq> [] \<Longrightarrow> k \<in> set (concat (map snd (dg_edges g)))"
  using dependents_of_iff [of "hd (dependents_of g k)" g k] by (force simp: hd_in_set)

function gather_dependents :: "dep_graph \<Rightarrow> dependency list \<Rightarrow> gather_state \<Rightarrow> gather_state" where
  "gather_dependents g [] st = st"
| "gather_dependents g (d # ds) (V, res) =
     (let res = res @ [d\<lparr>dep_type := ''transitive''\<rparr>] in
      if dep_key d \<in> V then gather_dependents g ds (V, res)
      else gather_dependents g ds
        (gather_dependents g (dependents_of g (dep_key d)) (insert (dep_key d) V, res)))"
  by pat_completeness auto

lemma gather_dependents_grows:
  "gather_dependents_dom (g, ds, st) \<Longrightarrow> fst st \<subseteq> fst (gather_dependents g ds st)"
proof (induction g ds st rule: gather_dependents.pinduct)
  case (1 g st)
  then show ?case by (simp add: gather_dependents.psimps)
next
  case (2 g d ds V res)
  note unfold = gather_dependents.psimps(2) [OF "2.hyps"]
  show ?case
    using "2.IH" unfolding unfold by (cases "dep_key d \<in> V") (force simp: Let_def)+
qed

termination gather_dependents
  apply (relation "measures [\<lambda>(g, ds, st). unvisited (concat (map snd (dg_edges g))) (fst st),
      \<lambda>(g, ds, st). length ds]")
     apply simp
    apply simp
  subgoal for g d ds V res x
    using search_call [of "dep_key d" V "dependents_of g (dep_key d)" "concat (map snd (dg_edges g))" "length ds",
      OF _ dependents_of_nonempty] by auto
  subgoal for g d ds V res x
    using gather_dependents_grows [of g "dependents_of g (dep_key d)" "(insert (dep_key d) V, x)"]
      search_rest [of "dep_key d" V
        "fst (gather_dependents g (dependents_of g (dep_key d)) (insert (dep_key d) V, x))"
        "concat (map snd (dg_edges g))" "length ds"] by simp
  done

record impact_analysis =
  ia_module :: string
  ia_version :: string
  ia_direct :: "dependency list"
  ia_transitive :: "dependency list"
  ia_total :: int

text \<open>The outer loop follows each direct dependent without appending it.\<close>

definition follow_dependent :: "dep_graph \<Rightarrow> dependency \<Rightarrow> gather_state \<Rightarrow> gather_state" where
  "follow_dependent g d st =
     (if dep_key d \<in> fst st then st
      else gather_dependents g (dependents_of g (dep_key d)) (insert (dep_key d) (fst st), snd st))"

definition get_impact_analysis :: "dep_graph \<Rightarrow> string \<Rightarrow> string \<Rightarrow> impact_analysis" where
  "get_impact_analysis g m v =
     (let direct = get_dependents g m v;
          all_dependents = snd (fold (follow_dependent g) direct ({}, []))
      in \<lparr>ia_module = m, ia_version = v, ia_direct = direct, ia_transitive = all_dependents,
          ia_total = int (length direct) + int (length all_dependents)\<rparr>)"

end
