(* ===== verification/Deps_Search.thy ===== *)
theory Deps_Search
  imports Deps_Graph
begin

text \<open>
  The cycle test and the topological sort of \<open>graph.go\<close> are depth-first searches with three
  colours: unseen, on the current path (\<open>R\<close>), finished (\<open>V - R\<close>). This theory shows that each
  computes what it is for: an error exactly when a cycle can be reached, and an order in which
  every dependency comes before what needs it.
\<close>

definition edge_rel :: "dep_graph \<Rightarrow> (string \<times> string) set" where
  "edge_rel g = {(a, b). b \<in> set (edges_of (dg_edges g) a)}"

lemma edge_rel_Image: "edge_rel g `` {a} = set (edges_of (dg_edges g) a)"
  by (auto simp: edge_rel_def)

lemma edge_rel_iff: "(a, b) \<in> edge_rel g \<longleftrightarrow> b \<in> set (edges_of (dg_edges g) a)"
  by (simp add: edge_rel_def)

section \<open>Orders of finishing\<close>

text \<open>
  \<open>finishing E B ys\<close>: the nodes \<open>ys\<close> may finish in this order after those of \<open>B\<close>, every
  successor before its node.
\<close>

fun finishing :: "('k \<times> 'k) set \<Rightarrow> 'k set \<Rightarrow> 'k list \<Rightarrow> bool" where
  "finishing E B [] \<longleftrightarrow> True"
| "finishing E B (y # ys) \<longleftrightarrow> E `` {y} \<subseteq> B \<and> y \<notin> B \<and> finishing E (insert y B) ys"

lemma finishing_append:
  "finishing E B (xs @ ys) \<longleftrightarrow> finishing E B xs \<and> finishing E (B \<union> set xs) ys"
  by (induction xs arbitrary: B) auto

lemma finishing_distinct: "finishing E B ys \<Longrightarrow> distinct ys \<and> set ys \<inter> B = {}"
  by (induction ys arbitrary: B) auto

lemma finishing_closed: "finishing E B ys \<Longrightarrow> E `` B \<subseteq> B \<Longrightarrow> E `` (B \<union> set ys) \<subseteq> B \<union> set ys"
proof (induction ys arbitrary: B)
  case (Cons y ys)
  have "E `` insert y B \<subseteq> insert y B" using Cons.prems by auto
  with Cons.prems Cons.IH [of "insert y B"] show ?case by simp
qed simp

lemma finishing_acyclic:
  "finishing E B ys \<Longrightarrow> E `` B \<subseteq> B \<Longrightarrow> x \<in> set ys \<Longrightarrow> (x, x) \<notin> E\<^sup>+"
proof (induction ys arbitrary: B)
  case (Cons y ys)
  show ?case
  proof (cases "x = y")
    case True
    show ?thesis
    proof
      assume "(x, x) \<in> E\<^sup>+"
      then obtain z where "(x, z) \<in> E" and z: "(z, x) \<in> E\<^sup>*" by (meson tranclD)
      then have "z \<in> B" using Cons.prems True by auto
      with z have "x \<in> B" using Cons.prems(2) by (induction) auto
      then show False using Cons.prems True by simp
    qed
  next
    case False
    then show ?thesis using Cons.IH [of "insert y B"] Cons.prems by auto
  qed
qed simp

lemma finishing_before:
  assumes "finishing E B ys" and "i < length ys" and "(ys ! i, z) \<in> E"
  shows "z \<in> B \<or> (\<exists>j < i. ys ! j = z)"
proof -
  have "finishing E B (take i ys @ ys ! i # drop (Suc i) ys)"
    using assms by (simp add: id_take_nth_drop [symmetric])
  then have "z \<in> B \<union> set (take i ys)"
    using assms(3) by (auto simp: finishing_append)
  then show ?thesis using assms(2) by (auto simp: in_set_conv_nth)
qed

section \<open>The topological sort\<close>

text \<open>What finishing \<open>k\<close> appends: its node, when the graph has one.\<close>

definition emitted :: "dep_graph \<Rightarrow> string \<Rightarrow> dependency list" where
  "emitted g k = emit_node (dg_nodes g) k []"

lemma emit_node_append: "emit_node (dg_nodes g) k res = res @ emitted g k"
  by (simp add: emitted_def emit_node_def split: option.splits)

definition colours :: "dep_graph \<Rightarrow> string set \<Rightarrow> string set \<Rightarrow> bool" where
  "colours g V R \<longleftrightarrow> R \<subseteq> V \<and> edge_rel g `` (V - R) \<subseteq> V - R"

lemma topo_visit_Inr:
  assumes "topo_visit g ks (V, R, res) = Inr (V', R', res')" and "colours g V R"
  shows "R' = R \<and> (\<exists>ys. finishing (edge_rel g) (V - R) ys \<and> V' = V \<union> set ys \<and> set ys \<inter> V = {} \<and>
    set ks \<subseteq> (V - R) \<union> set ys \<and> set ys \<subseteq> (edge_rel g)\<^sup>* `` set ks \<and>
    res' = res @ concat (map (emitted g) ys))"
  using assms
proof (induction g ks "(V, R, res)" arbitrary: V R res V' R' res' rule: topo_visit.induct)
  case (1 g)
  then show ?case by (auto intro: exI [of _ "[]"])
next
  case (2 g k ks V R res)
  have R: "k \<notin> R" using "2.prems" by (auto split: if_splits)
  show ?case
  proof (cases "k \<in> V")
    case True
    then have "topo_visit g ks (V, R, res) = Inr (V', R', res')" using "2.prems" R by simp
    from "2.hyps"(1) [OF R True this "2.prems"(2)] obtain ys where
      "R' = R" and ys: "finishing (edge_rel g) (V - R) ys" "V' = V \<union> set ys" "set ys \<inter> V = {}"
      "set ks \<subseteq> (V - R) \<union> set ys" "set ys \<subseteq> (edge_rel g)\<^sup>* `` set ks"
      "res' = res @ concat (map (emitted g) ys)" by blast
    then show ?thesis using R True by (intro conjI exI [of _ ys]) auto
  next
    case False
    obtain V1 R1 res1 where
      first: "topo_visit g (edges_of (dg_edges g) k) (insert k V, insert k R, res) = Inr (V1, R1, res1)"
      and rest: "topo_visit g ks (V1, R1 - {k}, emit_node (dg_nodes g) k res1) = Inr (V', R', res')"
      using False R "2.prems" by (auto split: sum.splits)
    have black: "insert k V - insert k R = V - R" using False by auto
    have "colours g (insert k V) (insert k R)"
      using "2.prems"(2) unfolding colours_def black by auto
    from "2.hyps"(2) [OF R False first this] black obtain ys where
      R1: "R1 = insert k R" and ys: "finishing (edge_rel g) (V - R) ys" "V1 = insert k V \<union> set ys"
      "set ys \<inter> insert k V = {}" "set (edges_of (dg_edges g) k) \<subseteq> (V - R) \<union> set ys"
      "set ys \<subseteq> (edge_rel g)\<^sup>* `` set (edges_of (dg_edges g) k)"
      "res1 = res @ concat (map (emitted g) ys)" by auto
    have R1k: "R1 - {k} = R" using R1 R by auto
    have fin: "finishing (edge_rel g) (V - R) (ys @ [k])"
      using ys False by (auto simp: finishing_append edge_rel_Image)
    have black1: "V1 - R = (V - R) \<union> set (ys @ [k])"
      using ys "2.prems"(2) R unfolding colours_def by auto
    have "colours g V1 (R1 - {k})"
      using finishing_closed [OF fin] "2.prems"(2) ys(2)
      unfolding colours_def R1k black1 by auto
    from "2.hyps"(3) [OF R False first refl refl rest this] obtain zs where
      "R' = R" and zs: "finishing (edge_rel g) (V1 - R) zs" "V' = V1 \<union> set zs" "set zs \<inter> V1 = {}"
      "set ks \<subseteq> (V1 - R) \<union> set zs" "set zs \<subseteq> (edge_rel g)\<^sup>* `` set ks"
      "res' = emit_node (dg_nodes g) k res1 @ concat (map (emitted g) zs)"
      unfolding R1k by auto
    have reach: "(edge_rel g)\<^sup>* `` set (edges_of (dg_edges g) k) \<subseteq> (edge_rel g)\<^sup>* `` {k}"
      by (auto simp: edge_rel_iff [symmetric] intro: converse_rtrancl_into_rtrancl)
    have "finishing (edge_rel g) (V - R) ((ys @ [k]) @ zs)"
      using fin zs(1) unfolding black1 by (simp only: finishing_append)
    moreover have "set ((ys @ [k]) @ zs) \<subseteq> (edge_rel g)\<^sup>* `` set (k # ks)"
      using ys(5) reach zs(5) by auto
    moreover have "set (k # ks) \<subseteq> (V - R) \<union> set ((ys @ [k]) @ zs)"
      using zs(4) unfolding black1 by auto
    moreover have "res' = res @ concat (map (emitted g) ((ys @ [k]) @ zs))"
      using zs(6) ys(6) by (simp add: emit_node_append)
    moreover have "V' = V \<union> set ((ys @ [k]) @ zs)" and "set ((ys @ [k]) @ zs) \<inter> V = {}"
      using ys zs False by auto
    ultimately show ?thesis using \<open>R' = R\<close> by blast
  qed
qed


text \<open>An error means a cycle: the node met again is one that reaches itself.\<close>

lemma topo_visit_Inl:
  assumes "topo_visit g ks (V, R, res) = Inl e" and "colours g V R"
    and "\<And>r k. r \<in> R \<Longrightarrow> k \<in> set ks \<Longrightarrow> (r, k) \<in> (edge_rel g)\<^sup>+"
  shows "\<exists>x. e = Circular x \<and> (x, x) \<in> (edge_rel g)\<^sup>+ \<and> x \<in> (edge_rel g)\<^sup>* `` set ks"
  using assms
proof (induction g ks "(V, R, res)" arbitrary: V R res rule: topo_visit.induct)
  case (1 g)
  then show ?case by simp
next
  case (2 g k ks V R res)
  consider (grey) "k \<in> R" | (black) "k \<notin> R" "k \<in> V" | (new) "k \<notin> R" "k \<notin> V" by blast
  then show ?case
  proof cases
    case grey
    then show ?thesis using "2.prems"(1,3) by auto
  next
    case black
    then have "topo_visit g ks (V, R, res) = Inl e" using "2.prems"(1) by simp
    from "2.hyps"(1) [OF black this "2.prems"(2)] "2.prems"(3) show ?thesis by auto
  next
    case new
    have black: "insert k V - insert k R = V - R" using new by auto
    have inner_colours: "colours g (insert k V) (insert k R)"
      using "2.prems"(2) unfolding colours_def black by auto
    have inner_grey: "(r, d) \<in> (edge_rel g)\<^sup>+"
      if "r \<in> insert k R" and "d \<in> set (edges_of (dg_edges g) k)" for r d
    proof -
      have "(k, d) \<in> edge_rel g" using that(2) by (simp add: edge_rel_iff)
      then show ?thesis using that(1) "2.prems"(3) [of r k] by (auto intro: trancl_into_trancl)
    qed
    show ?thesis
    proof (cases "topo_visit g (edges_of (dg_edges g) k) (insert k V, insert k R, res)")
      case (Inl e')
      with "2.prems"(1) new have "topo_visit g (edges_of (dg_edges g) k) (insert k V, insert k R, res) = Inl e"
        by simp
      from "2.hyps"(2) [OF new this inner_colours inner_grey]
      obtain x d where "e = Circular x" "(x, x) \<in> (edge_rel g)\<^sup>+"
        and d: "(k, d) \<in> edge_rel g" "(d, x) \<in> (edge_rel g)\<^sup>*"
        by (auto simp: edge_rel_iff [symmetric])
      moreover have "(k, x) \<in> (edge_rel g)\<^sup>*" using d by (rule converse_rtrancl_into_rtrancl)
      ultimately show ?thesis by auto
    next
      case (Inr st)
      obtain V1 R1 res1 where
        first: "topo_visit g (edges_of (dg_edges g) k) (insert k V, insert k R, res) = Inr (V1, R1, res1)"
        using Inr by (cases st) auto
      have rest: "topo_visit g ks (V1, R1 - {k}, emit_node (dg_nodes g) k res1) = Inl e"
        using "2.prems"(1) new first by simp
      have after: "topo_visit g [k] (V, R, res) = Inr (V1, R1 - {k}, emit_node (dg_nodes g) k res1)"
        using new first by simp
      from topo_visit_Inr [OF after "2.prems"(2)] obtain ys where
        R1: "R1 - {k} = R" and fin: "finishing (edge_rel g) (V - R) ys"
        and V1: "V1 = V \<union> set ys" "set ys \<inter> V = {}" by blast
      have "V1 - R = (V - R) \<union> set ys" using V1 "2.prems"(2) unfolding colours_def by auto
      then have "colours g V1 (R1 - {k})"
        using finishing_closed [OF fin] "2.prems"(2) V1 unfolding colours_def R1 by auto
      from "2.hyps"(3) [OF new first refl refl rest this] "2.prems"(3) show ?thesis
        unfolding R1 by auto
    qed
  qed
qed

abbreviation root_key :: "string \<Rightarrow> string \<Rightarrow> string" where
  "root_key \<equiv> module_version_key"

definition reachable :: "dep_graph \<Rightarrow> string \<Rightarrow> string set" where
  "reachable g k = (edge_rel g)\<^sup>* `` {k}"

definition cycle_reachable :: "dep_graph \<Rightarrow> string \<Rightarrow> bool" where
  "cycle_reachable g k \<longleftrightarrow> (\<exists>x \<in> reachable g k. (x, x) \<in> (edge_rel g)\<^sup>+)"

lemma colours_start: "colours g {} {}"
  by (simp add: colours_def)

lemma closed_reachable: "E `` B \<subseteq> B \<Longrightarrow> k \<in> B \<Longrightarrow> E\<^sup>* `` {k} \<subseteq> B"
proof
  fix x assume "E `` B \<subseteq> B" "k \<in> B" "x \<in> E\<^sup>* `` {k}"
  then have "(k, x) \<in> E\<^sup>*" by simp
  then show "x \<in> B" using \<open>E `` B \<subseteq> B\<close> \<open>k \<in> B\<close> by induction auto
qed

lemma topological_sort_Inr:
  assumes "topological_sort g m v = Inr res"
  obtains ys where "finishing (edge_rel g) {} ys" and "set ys = reachable g (root_key m v)"
    and "ys \<noteq> []" and "last ys = root_key m v" and "res = concat (map (emitted g) ys)"
proof -
  let ?k = "module_version_key m v"
  obtain V1 R1 res1 where
    first: "topo_visit g (edges_of (dg_edges g) ?k) ({?k}, {?k}, []) = Inr (V1, R1, res1)"
    and res: "res = emit_node (dg_nodes g) ?k res1"
    using assms by (auto simp: topological_sort_def rbind_Inr_iff split: sum.splits)
  have "colours g {?k} {?k}" by (simp add: colours_def)
  from topo_visit_Inr [OF first this] obtain ys where
    fin: "finishing (edge_rel g) {} ys" and new: "set ys \<inter> {?k} = {}"
    and incl: "set (edges_of (dg_edges g) ?k) \<subseteq> set ys"
    and reach: "set ys \<subseteq> (edge_rel g)\<^sup>* `` set (edges_of (dg_edges g) ?k)"
    and res1: "res1 = concat (map (emitted g) ys)" by auto
  have fin': "finishing (edge_rel g) {} (ys @ [?k])"
    using fin incl new by (auto simp: finishing_append edge_rel_Image)
  have "edge_rel g `` set (ys @ [?k]) \<subseteq> set (ys @ [?k])"
    using finishing_closed [OF fin'] by simp
  then have "reachable g ?k \<subseteq> set (ys @ [?k])"
    unfolding reachable_def by (rule closed_reachable) simp
  moreover have "set (ys @ [?k]) \<subseteq> reachable g ?k"
    using reach unfolding reachable_def
    by (auto simp: edge_rel_iff [symmetric] intro: converse_rtrancl_into_rtrancl)
  ultimately have "set (ys @ [?k]) = reachable g ?k" by blast
  moreover have "res = concat (map (emitted g) (ys @ [?k]))"
    using res res1 by (simp add: emit_node_append)
  ultimately show thesis using that fin' by simp
qed

lemma topological_sort_ok_iff:
  "is_ok (topological_sort g m v) \<longleftrightarrow> \<not> cycle_reachable g (root_key m v)"
proof (cases "topological_sort g m v")
  case (Inl e)
  then have "topo_visit g [root_key m v] ({}, {}, []) = Inl e"
    by (simp add: topological_sort_def rbind_def del: topo_visit.simps split: sum.splits prod.splits)
  from topo_visit_Inl [OF this colours_start] obtain x where
    "(x, x) \<in> (edge_rel g)\<^sup>+" "x \<in> reachable g (root_key m v)"
    unfolding reachable_def by auto
  then have "cycle_reachable g (root_key m v)" unfolding cycle_reachable_def by blast
  then show ?thesis using Inl by simp
next
  case (Inr res)
  then obtain ys where fin: "finishing (edge_rel g) {} ys" and "set ys = reachable g (root_key m v)"
    and "ys \<noteq> []" "last ys = root_key m v" "res = concat (map (emitted g) ys)"
    by (rule topological_sort_Inr)
  then have "\<not> cycle_reachable g (root_key m v)"
    using finishing_acyclic [OF fin] by (auto simp: cycle_reachable_def)
  then show ?thesis using Inr by simp
qed

section \<open>Cycle detection\<close>

text \<open>The test follows the same search as the sort: same colours, same outcome.\<close>

lemma has_cycle_topo:
  assumes "R \<subseteq> V"
  shows "case has_cycle (dg_edges g) ks (V, R, p) of
      Inl q \<Rightarrow> \<exists>e. topo_visit g ks (V, R, res) = Inl e
    | Inr (V', R', p') \<Rightarrow> R' = R \<and> V \<subseteq> V' \<and> p' = p \<and> (\<exists>res'. topo_visit g ks (V, R, res) = Inr (V', R', res'))"
  using assms
proof (induction g ks "(V, R, res)" arbitrary: V R res p rule: topo_visit.induct)
  case (1 g)
  then show ?case by simp
next
  case (2 g k ks V R res)
  consider (grey) "k \<in> R" "k \<in> V" | (black) "k \<notin> R" "k \<in> V" | (new) "k \<notin> R" "k \<notin> V"
    using "2.prems" by blast
  then show ?case
  proof cases
    case grey
    then show ?thesis by simp
  next
    case black
    then have "topo_visit g (k # ks) (V, R, res) = topo_visit g ks (V, R, res)"
      and "has_cycle (dg_edges g) (k # ks) (V, R, p) = has_cycle (dg_edges g) ks (V, R, p)" by simp_all
    then show ?thesis using "2.hyps"(1) [OF black "2.prems", of p] by (simp only:)
  next
    case new
    have sub: "insert k R \<subseteq> insert k V" using "2.prems" by auto
    note inner = "2.hyps"(2) [OF new sub, of "p @ [k]"]
    show ?thesis
    proof (cases "has_cycle (dg_edges g) (edges_of (dg_edges g) k) (insert k V, insert k R, p @ [k])")
      case (Inl q)
      then show ?thesis using inner new by auto
    next
      case (Inr st)
      obtain V1 res1 where hc: "has_cycle (dg_edges g) (edges_of (dg_edges g) k)
          (insert k V, insert k R, p @ [k]) = Inr (V1, insert k R, p @ [k])"
        and V1: "insert k V \<subseteq> V1"
        and tv: "topo_visit g (edges_of (dg_edges g) k) (insert k V, insert k R, res) = Inr (V1, insert k R, res1)"
        using Inr inner by (cases st) auto
      have "insert k R - {k} \<subseteq> V1" using V1 "2.prems" by auto
      from "2.hyps"(3) [OF new tv refl refl this, of p] show ?thesis
        using new hc tv V1 by (auto split: sum.splits)
    qed
  qed
qed

lemma detect_circular_iff: "detect_circular g m v = None \<longleftrightarrow> \<not> cycle_reachable g (root_key m v)"
proof -
  have "detect_circular g m v = None \<longleftrightarrow> is_ok (topological_sort g m v)"
    using has_cycle_topo [of "{}" "{}" g "[root_key m v]" "[]" "[]"]
    unfolding detect_circular_def topological_sort_def is_ok_rbind
    by (auto simp del: topo_visit.simps has_cycle.simps split: sum.splits)
  then show ?thesis by (simp add: topological_sort_ok_iff)
qed

text \<open>The path returned is a walk of the graph, and its last node points back into it.\<close>

lemma has_cycle_path:
  assumes "has_cycle es ks (V, R, p) = Inl q" and "R \<subseteq> V" and "set p = R" and "distinct p"
    and "\<And>k. k \<in> set ks \<Longrightarrow> successively (\<lambda>a b. b \<in> set (edges_of es a)) (p @ [k])"
  shows "distinct q \<and> successively (\<lambda>a b. b \<in> set (edges_of es a)) q \<and> prefix p q \<and> q \<noteq> [] \<and>
    (\<exists>x \<in> set q. x \<in> set (edges_of es (last q)))"
  using assms
proof (induction es ks "(V, R, p)" arbitrary: V R p rule: has_cycle.induct)
  case (1 es)
  then show ?case by simp
next
  case (2 es d ds V R p)
  have walk: "successively (\<lambda>a b. b \<in> set (edges_of es a)) (p @ [d])" using "2.prems"(5) by simp
  show ?case
  proof (cases "d \<in> V")
    case True
    show ?thesis
    proof (cases "d \<in> R")
      case True
      with \<open>d \<in> V\<close> "2.prems" have "q = p" and "d \<in> set p" by auto
      then show ?thesis using walk "2.prems"(4) by (auto simp: successively_append_iff)
    next
      case False
      then show ?thesis using "2.hyps"(3) [OF _ False] True "2.prems" by auto
    qed
  next
    case False
    have d: "d \<notin> set p" using False "2.prems" by auto
    let ?inner = "has_cycle es (edges_of es d) (insert d V, insert d R, p @ [d])"
    show ?thesis
    proof (cases ?inner)
      case (Inl q')
      then have "?inner = Inl q" using False "2.prems"(1) by simp
      from "2.hyps"(1) [OF False this] d walk "2.prems" show ?thesis
        by (auto simp: successively_append_iff dest: append_prefixD)
    next
      case (Inr st)
      then obtain V1 where inner: "?inner = Inr (V1, insert d R, p @ [d])" and V1: "insert d V \<subseteq> V1"
        using has_cycle_topo [of "insert d R" "insert d V" "\<lparr>dg_nodes = [], dg_edges = es\<rparr>"
            "edges_of es d" _ "p @ [d]"] "2.prems"(2)
        by (cases st) auto
      have R: "insert d R - {d} = R" using d "2.prems"(3) by auto
      have "has_cycle es ds (V1, R, p) = Inl q"
        using "2.prems"(1) False inner R by simp
      with "2.hyps"(2) [OF False inner refl refl] R V1 "2.prems" show ?thesis by auto
    qed
  qed
qed

end
