(* ===== verification/Deps_Reach.thy ===== *)
theory Deps_Reach
  imports Deps_Search
begin

text \<open>
  The two gathering searches of \<open>graph.go\<close>, over dependencies and over dependents, are one
  algorithm on two successor functions. The locale states it by its equations; its lemmas give
  what a search visits and what it appends.
\<close>

abbreviation as_transitive :: "dependency \<Rightarrow> dependency" where
  "as_transitive d \<equiv> d\<lparr>dep_type := ''transitive''\<rparr>"

definition succ_rel :: "(string \<Rightarrow> dependency list) \<Rightarrow> (string \<times> string) set" where
  "succ_rel succs = {(a, b). b \<in> dep_key ` set (succs a)}"

lemma succ_rel_iff: "(a, b) \<in> succ_rel succs \<longleftrightarrow> b \<in> dep_key ` set (succs a)"
  by (simp add: succ_rel_def)

lemma succ_rel_Image: "succ_rel succs `` {k} = dep_key ` set (succs k)"
  by (auto simp: succ_rel_def)

lemma succ_reach: "(succ_rel succs)\<^sup>* `` (dep_key ` set (succs k)) \<subseteq> (succ_rel succs)\<^sup>* `` {k}"
  unfolding succ_rel_Image [symmetric] by (auto intro: converse_rtrancl_into_rtrancl)

text \<open>Entering a node: skip it when visited, else mark it and go through its successors.\<close>

definition enter :: "(string \<Rightarrow> dependency list) \<Rightarrow> (dependency list \<Rightarrow> gather_state \<Rightarrow> gather_state) \<Rightarrow>
    string \<Rightarrow> gather_state \<Rightarrow> gather_state" where
  "enter succs gather k st = (if k \<in> fst st then st else gather (succs k) (insert k (fst st), snd st))"

locale gather_search =
  fixes succs :: "string \<Rightarrow> dependency list"
    and gather :: "dependency list \<Rightarrow> gather_state \<Rightarrow> gather_state"
  assumes gather_Nil: "gather [] st = st"
    and gather_Cons: "gather (d # ds) (V, res) =
      gather ds (enter succs gather (dep_key d) (V, res @ [as_transitive d]))"
    and gather_induct: "(\<And>st. P [] st) \<Longrightarrow>
      (\<And>d ds V res. (dep_key d \<notin> V \<Longrightarrow> P (succs (dep_key d)) (insert (dep_key d) V, res @ [as_transitive d])) \<Longrightarrow>
         P ds (enter succs gather (dep_key d) (V, res @ [as_transitive d])) \<Longrightarrow> P (d # ds) (V, res)) \<Longrightarrow>
      P ds st"
begin

definition gathers :: "dependency list \<Rightarrow> gather_state \<Rightarrow> gather_state \<Rightarrow> string list \<Rightarrow> bool" where
  "gathers ds st st' ys \<longleftrightarrow> fst st' = fst st \<union> set ys \<and> distinct ys \<and> set ys \<inter> fst st = {} \<and>
     dep_key ` set ds \<subseteq> fst st' \<and> succ_rel succs `` set ys \<subseteq> fst st' \<and>
     set ys \<subseteq> (succ_rel succs)\<^sup>* `` (dep_key ` set ds) \<and>
     mset (snd st') = mset (snd st) + mset (map as_transitive (ds @ concat (map succs ys)))"

lemma gather_gathers: "\<exists>ys. gathers ds st (gather ds st) ys"
proof (induction ds st rule: gather_induct)
  case (1 st)
  show ?case by (rule exI [of _ "[]"]) (simp add: gathers_def gather_Nil)
next
  case (2 d ds V res)
  let ?k = "dep_key d" let ?E = "succ_rel succs"
  let ?mid = "enter succs gather ?k (V, res @ [as_transitive d])"
  obtain zs where zs: "gathers ds ?mid (gather ds ?mid) zs" using 2(2) by blast
  show ?case
  proof (cases "?k \<in> V")
    case True
    then have "?mid = (V, res @ [as_transitive d])" by (simp add: enter_def)
    moreover have "?E\<^sup>* `` (dep_key ` set ds) \<subseteq> ?E\<^sup>* `` (dep_key ` set (d # ds))" by auto
    ultimately have "gathers (d # ds) (V, res) (gather ds ?mid) zs"
      using zs True unfolding gathers_def by (simp del: image_insert) blast
    then show ?thesis unfolding gather_Cons by blast
  next
    case False
    then have mid: "?mid = gather (succs ?k) (insert ?k V, res @ [as_transitive d])"
      by (simp add: enter_def)
    obtain ys where ys: "gathers (succs ?k) (insert ?k V, res @ [as_transitive d]) ?mid ys"
      using 2(1) [OF False] unfolding mid by blast
    note reach = succ_reach [of succs ?k]
    have "gathers (d # ds) (V, res) (gather ds ?mid) (?k # ys @ zs)"
      unfolding gathers_def
    proof (intro conjI)
      have "?E `` set (?k # ys @ zs) = dep_key ` set (succs ?k) \<union> ?E `` set ys \<union> ?E `` set zs"
        unfolding succ_rel_Image [symmetric] by auto
      moreover have "dep_key ` set (succs ?k) \<subseteq> fst ?mid" "?E `` set ys \<subseteq> fst ?mid"
        using ys unfolding gathers_def by blast+
      moreover have "fst ?mid \<subseteq> fst (gather ds ?mid)" "?E `` set zs \<subseteq> fst (gather ds ?mid)"
        using zs unfolding gathers_def by blast+
      ultimately show "?E `` set (?k # ys @ zs) \<subseteq> fst (gather ds ?mid)" by blast
      have "set ys \<subseteq> ?E\<^sup>* `` {?k}" "set zs \<subseteq> ?E\<^sup>* `` (dep_key ` set ds)"
        using ys zs reach unfolding gathers_def by (meson subset_trans)+
      moreover have "?E\<^sup>* `` (dep_key ` set (d # ds)) = ?E\<^sup>* `` {?k} \<union> ?E\<^sup>* `` (dep_key ` set ds)"
        by (simp add: Image_Un [symmetric])
      moreover have "?k \<in> ?E\<^sup>* `` {?k}" by simp
      ultimately show "set (?k # ys @ zs) \<subseteq> ?E\<^sup>* `` (dep_key ` set (d # ds))"
        by (simp del: Image_singleton_iff) blast
      show "mset (snd (gather ds ?mid)) = mset (snd (V, res)) +
          mset (map as_transitive ((d # ds) @ concat (map succs (?k # ys @ zs))))"
        using ys zs unfolding gathers_def by (simp add: ac_simps)
    qed (use ys zs False in \<open>auto simp: gathers_def\<close>)
    then show ?thesis unfolding gather_Cons by blast
  qed
qed

text \<open>Entering a node from a visited set that is closed under successors.\<close>

definition closed :: "string set \<Rightarrow> bool" where
  "closed V \<longleftrightarrow> succ_rel succs `` V \<subseteq> V"

lemma enter_gathers:
  assumes "closed V" and "enter succs gather k (V, res) = (V', res')"
  shows "closed V' \<and> V' = V \<union> (succ_rel succs)\<^sup>* `` {k} \<and>
    (\<exists>ys. distinct ys \<and> set ys = V' - V \<and>
      mset res' = mset res + mset (map as_transitive (concat (map succs ys))))"
proof (cases "k \<in> V")
  case True
  moreover from True have "(succ_rel succs)\<^sup>* `` {k} \<subseteq> V"
    using assms(1) unfolding closed_def by (intro closed_reachable)
  ultimately show ?thesis using assms by (auto simp: enter_def intro: exI [of _ "[]"])
next
  case False
  let ?E = "succ_rel succs"
  have "gather (succs k) (insert k V, res) = (V', res')"
    using assms(2) False by (simp add: enter_def)
  then obtain ys where ys: "gathers (succs k) (insert k V, res) (V', res') ys"
    by (metis gather_gathers)
  have closed': "closed V'"
  proof -
    have "?E `` {k} \<subseteq> V'" using ys unfolding gathers_def succ_rel_Image by (simp only: fst_conv) blast
    moreover have "?E `` V' = ?E `` V \<union> ?E `` {k} \<union> ?E `` set ys"
      using ys unfolding gathers_def by auto
    ultimately show ?thesis using ys assms(1) unfolding gathers_def closed_def by auto
  qed
  have "k \<in> V'" using ys by (simp add: gathers_def)
  then have "?E\<^sup>* `` {k} \<subseteq> V'"
    using closed' unfolding closed_def by (intro closed_reachable)
  moreover have "set ys \<subseteq> ?E\<^sup>* `` {k}"
    using ys succ_reach [of succs k] unfolding gathers_def by blast
  ultimately have "V' = V \<union> ?E\<^sup>* `` {k}" using ys unfolding gathers_def by auto
  moreover have "distinct (k # ys)" "set (k # ys) = V' - V"
    "mset res' = mset res + mset (map as_transitive (concat (map succs (k # ys))))"
    using ys False unfolding gathers_def by (auto simp: ac_simps)
  ultimately show ?thesis using closed' by blast
qed

lemma fold_enter_gathers:
  assumes "closed V" and "fold (enter succs gather) ks (V, res) = (V', res')"
  shows "V' = V \<union> (succ_rel succs)\<^sup>* `` set ks \<and>
    (\<exists>ys. distinct ys \<and> set ys = V' - V \<and>
      mset res' = mset res + mset (map as_transitive (concat (map succs ys))))"
  using assms
proof (induction ks arbitrary: V res)
  case Nil
  then show ?case by (auto intro: exI [of _ "[]"])
next
  case (Cons k ks)
  obtain V1 res1 where first: "enter succs gather k (V, res) = (V1, res1)" by fastforce
  from enter_gathers [OF Cons.prems(1) this] obtain ys where
    V1: "closed V1" "V1 = V \<union> (succ_rel succs)\<^sup>* `` {k}" and
    ys: "distinct ys" "set ys = V1 - V"
      "mset res1 = mset res + mset (map as_transitive (concat (map succs ys)))" by blast
  have "fold (enter succs gather) ks (V1, res1) = (V', res')" using Cons.prems(2) first by simp
  from Cons.IH [OF V1(1) this] obtain zs where
    V': "V' = V1 \<union> (succ_rel succs)\<^sup>* `` set ks" and
    zs: "distinct zs" "set zs = V' - V1"
      "mset res' = mset res1 + mset (map as_transitive (concat (map succs zs)))" by blast
  have "distinct (ys @ zs)" "set (ys @ zs) = V' - V"
    "mset res' = mset res + mset (map as_transitive (concat (map succs (ys @ zs))))"
    using ys zs V' V1(2) by (auto simp: ac_simps)
  moreover have "V' = V \<union> (succ_rel succs)\<^sup>* `` set (k # ks)" using V' V1(2) by auto
  ultimately show ?case by blast
qed

text \<open>What a run from the empty state lists: every successor entry of every node reached, once.\<close>

lemma fold_enter_lists:
  assumes "fold (enter succs gather) ks ({}, []) = (V', res')"
  obtains ys where "distinct ys" and "set ys = (succ_rel succs)\<^sup>* `` set ks"
    and "mset res' = mset (map as_transitive (concat (map succs ys)))"
  using fold_enter_gathers [OF _ assms] by (auto simp: closed_def)

lemma fold_enter_keys:
  assumes "fold (enter succs gather) ks ({}, []) = (V', res')"
  shows "dep_key ` set res' = (succ_rel succs)\<^sup>+ `` set ks"
proof -
  obtain ys where ys: "set ys = (succ_rel succs)\<^sup>* `` set ks"
    and res: "mset res' = mset (map as_transitive (concat (map succs ys)))"
    using assms by (rule fold_enter_lists)
  have "set res' = as_transitive ` (\<Union>k \<in> set ys. set (succs k))"
    using mset_eq_setD [OF res] by simp
  then have "dep_key ` set res' = dep_key ` (\<Union>k \<in> set ys. set (succs k))"
    by (simp add: image_image)
  also have "\<dots> = succ_rel succs `` set ys" unfolding succ_rel_def by blast
  also have "\<dots> = (succ_rel succs)\<^sup>+ `` set ks"
    unfolding ys by (auto simp: trancl_unfold_right relcomp_Image [symmetric])
  finally show ?thesis .
qed

end

section \<open>The two searches of the code\<close>

interpretation forward: gather_search "node_deps g" "gather_deps g" for g
proof unfold_locales
  show "gather_deps g [] st = st" for st by simp
  show "gather_deps g (d # ds) (V, res) =
    gather_deps g ds (enter (node_deps g) (gather_deps g) (dep_key d) (V, res @ [as_transitive d]))"
    for d ds V res by (simp add: enter_def)
  show "P ds st" if "\<And>st. P [] st" and
    "\<And>d ds V res. (dep_key d \<notin> V \<Longrightarrow> P (node_deps g (dep_key d)) (insert (dep_key d) V, res @ [as_transitive d])) \<Longrightarrow>
       P ds (enter (node_deps g) (gather_deps g) (dep_key d) (V, res @ [as_transitive d])) \<Longrightarrow> P (d # ds) (V, res)"
    for P and ds :: "dependency list" and st
    using that by (induction g ds st rule: gather_deps.induct) (auto simp: enter_def)
qed

interpretation backward: gather_search "dependents_of g" "gather_dependents g" for g
proof unfold_locales
  show "gather_dependents g [] st = st" for st by simp
  show "gather_dependents g (d # ds) (V, res) =
    gather_dependents g ds (enter (dependents_of g) (gather_dependents g) (dep_key d) (V, res @ [as_transitive d]))"
    for d ds V res by (simp add: enter_def)
  show "P ds st" if "\<And>st. P [] st" and
    "\<And>d ds V res. (dep_key d \<notin> V \<Longrightarrow> P (dependents_of g (dep_key d)) (insert (dep_key d) V, res @ [as_transitive d])) \<Longrightarrow>
       P ds (enter (dependents_of g) (gather_dependents g) (dep_key d) (V, res @ [as_transitive d])) \<Longrightarrow> P (d # ds) (V, res)"
    for P and ds :: "dependency list" and st
    using that by (induction g ds st rule: gather_dependents.induct) (auto simp: enter_def)
qed

lemma transitive_enter:
  "get_transitive_dependencies g m v =
     snd (fold (enter (node_deps g) (gather_deps g)) [module_version_key m v] ({}, []))"
  by (simp add: get_transitive_dependencies_def enter_def Let_def)

lemma impact_enter:
  "ia_transitive (get_impact_analysis g m v) =
     snd (fold (enter (dependents_of g) (gather_dependents g)) (map dep_key (get_dependents g m v)) ({}, []))"
proof -
  have "follow_dependent g = enter (dependents_of g) (gather_dependents g) \<circ> dep_key"
    by (simp add: follow_dependent_def enter_def fun_eq_iff)
  then show ?thesis by (simp add: get_impact_analysis_def fold_map Let_def)
qed

section \<open>Graphs built by AddNode\<close>

text \<open>Every node is stored under its own key, with the keys of its dependencies as its edges.\<close>

definition graph_wf :: "dep_graph \<Rightarrow> bool" where
  "graph_wf g \<longleftrightarrow> gm_ok (dg_nodes g) \<and> gm_ok (dg_edges g) \<and>
     (\<forall>k n. gm_get (dg_nodes g) k = Some n \<longrightarrow> node_key n = k) \<and>
     gm_get (dg_edges g) = map_option (\<lambda>n. map dep_key (nd_dependencies n)) \<circ> gm_get (dg_nodes g)"

lemma graph_wf_new: "graph_wf new_dependency_graph"
  by (simp add: graph_wf_def new_dependency_graph_def fun_eq_iff)

lemma graph_wf_add_node: "graph_wf g \<Longrightarrow> graph_wf (add_node g m v deps)"
  unfolding graph_wf_def add_node_def by (auto simp: Let_def gm_get_put fun_eq_iff)

lemma graph_wf_succ: "graph_wf g \<Longrightarrow> succ_rel (node_deps g) = edge_rel g"
  by (auto simp: graph_wf_def succ_rel_def edge_rel_def edges_of_def node_deps_def split: option.splits)

lemma graph_wf_dependents:
  assumes "graph_wf g"
  shows "succ_rel (dependents_of g) = (edge_rel g)\<inverse>"
proof -
  have "a \<in> dep_key ` set (dependents_of g b) \<longleftrightarrow> b \<in> set (edges_of (dg_edges g) a)" for a b
  proof
    assume "a \<in> dep_key ` set (dependents_of g b)"
    then obtain k es n where "(k, es) \<in> set (dg_edges g)" "b \<in> set es" "gm_get (dg_nodes g) k = Some n"
      "a = node_key n" by (auto simp: dependents_of_iff)
    then show "b \<in> set (edges_of (dg_edges g) a)"
      using assms by (auto simp: graph_wf_def edges_of_def simp flip: gm_get_iff)
  next
    assume "b \<in> set (edges_of (dg_edges g) a)"
    then obtain es where es: "gm_get (dg_edges g) a = Some es" "b \<in> set es"
      by (cases "gm_get (dg_edges g) a") (auto simp: edges_of_def)
    then obtain n where n: "gm_get (dg_nodes g) a = Some n" and "node_key n = a"
      using assms by (auto simp: graph_wf_def)
    then have "\<lparr>dep_module = nd_module n, dep_version = nd_version n, dep_type = ''direct''\<rparr>
        \<in> set (dependents_of g b)"
      using es by (auto simp: dependents_of_iff dest: map_of_SomeD)
    then show "a \<in> dep_key ` set (dependents_of g b)"
      using \<open>node_key n = a\<close> by force
  qed
  then show ?thesis by (auto simp: succ_rel_def edge_rel_def)
qed

end
