(* ===== verification/Deps_Resolve.thy ===== *)
theory Deps_Resolve
  imports Deps_Reach Proto_AST
begin

text \<open>
  The resolver of \<open>pkg/dependencies/graph.go\<close>: reading module and version out of import paths,
  resolving the direct dependencies of a version, building the graph, writing a lockfile and
  validating one. The storage is a finite map from (module, version) to the contents of the
  version's files; the parser, whose work a third-party compiler does, is the parameter \<open>parse\<close>.
\<close>

section \<open>Import paths\<close>

fun index_from :: "nat \<Rightarrow> string \<Rightarrow> char \<Rightarrow> int" where
  "index_from i [] c = -1"
| "index_from i (x # s) c = (if x = c then int i else index_from (Suc i) s c)"

definition index_byte :: "string \<Rightarrow> char \<Rightarrow> int" where
  "index_byte s c = index_from 0 s c"

text \<open>\<open>cur\<close> is the slice from \<open>start\<close> to the current position.\<close>

fun split_loop :: "string \<Rightarrow> string \<Rightarrow> string list" where
  "split_loop cur [] = (if cur \<noteq> [] then [cur] else [])"
| "split_loop cur (c # s) =
     (if c = CHR ''/'' then (if cur \<noteq> [] then cur # split_loop [] s else split_loop [] s)
      else split_loop (cur @ [c]) s)"

definition split_path :: "string \<Rightarrow> string list" where
  "split_path path = split_loop [] path"

definition parse_import_path :: "string \<Rightarrow> string \<times> string" where
  "parse_import_path path =
     (let i0 = index_byte path (CHR ''@'');
          idx = (if i0 = -1 then index_byte path (CHR ''-'') else i0)
      in if idx \<noteq> -1 then
           (let m = take (nat idx) path; version_part = drop (nat idx + 1) path;
                slash = index_byte version_part (CHR ''/'')
            in if slash \<noteq> -1 then (m, take (nat slash) version_part)
               else if length version_part > 6 \<and> drop (length version_part - 6) version_part = ''.proto''
               then (m, take (length version_part - 6) version_part)
               else (m, version_part))
         else
           (let parts = split_path path
            in if length parts \<ge> 2 \<and> length (parts ! 1) > 0 \<and> parts ! 1 ! 0 = CHR ''v''
               then (parts ! 0, parts ! 1) else ([], [])))"

section \<open>Resolving and building\<close>

type_synonym version_store = "(string \<times> string, string list) gomap"
type_synonym proto_parser = "string \<Rightarrow> dep_error + root_node"

fun extract_dependencies :: "string list \<Rightarrow> string set \<Rightarrow> dependency list" where
  "extract_dependencies [] seen = []"
| "extract_dependencies (p # ps) seen =
     (let (m, v) = parse_import_path p; key = module_version_key m v
      in if m = [] then extract_dependencies ps seen
         else if key \<notin> seen
         then \<lparr>dep_module = m, dep_version = v, dep_type = ''direct''\<rparr> # extract_dependencies ps (insert key seen)
         else extract_dependencies ps seen)"

definition get_version :: "version_store \<Rightarrow> string \<Rightarrow> string \<Rightarrow> dep_error + string list" where
  "get_version st m v = (case gm_get st (m, v) of None \<Rightarrow> Inl (Version_Not_Found m v) | Some fs \<Rightarrow> Inr fs)"

definition resolve_dependencies ::
    "version_store \<Rightarrow> proto_parser \<Rightarrow> string \<Rightarrow> string \<Rightarrow> dep_error + dependency list" where
  "resolve_dependencies st parse m v =
     rbind (get_version st m v) (\<lambda>fs.
       case fs of [] \<Rightarrow> Inr []
       | f # _ \<Rightarrow> rbind (parse f) (\<lambda>ast. Inr (extract_dependencies (map im_path (rn_imports ast)) {})))"

definition store_keys :: "version_store \<Rightarrow> string list" where
  "store_keys st = map (\<lambda>((m, v), fs). module_version_key m v) st"

lemma resolve_in_store:
  "resolve_dependencies st parse m v = Inr ds \<Longrightarrow> module_version_key m v \<in> set (store_keys st)"
  unfolding resolve_dependencies_def get_version_def store_keys_def
  by (auto split: option.splits dest!: map_of_SomeD intro!: rev_image_eqI)

type_synonym build_state = "string set \<times> dep_graph"

function build_graph :: "version_store \<Rightarrow> proto_parser \<Rightarrow> dependency list \<Rightarrow> build_state \<Rightarrow> dep_error + build_state" where
  "build_graph st parse [] s = Inr s"
| "build_graph st parse (d # ds) (V, g) =
     (if dep_key d \<in> V then build_graph st parse ds (V, g)
      else (case resolve_dependencies st parse (dep_module d) (dep_version d) of
              Inl e \<Rightarrow> Inl e
            | Inr deps \<Rightarrow>
                (case build_graph st parse deps
                        (insert (dep_key d) V, add_node g (dep_module d) (dep_version d) deps) of
                   Inl e \<Rightarrow> Inl e
                 | Inr (V', g') \<Rightarrow> build_graph st parse ds (V', g'))))"
  by pat_completeness auto

lemma build_graph_grows:
  "build_graph_dom (st, parse, ds, s) \<Longrightarrow> build_graph st parse ds s = Inr s' \<Longrightarrow> fst s \<subseteq> fst s'"
proof (induction st parse ds s arbitrary: s' rule: build_graph.pinduct)
  case (1 st parse s)
  then show ?case by (simp add: build_graph.psimps)
next
  case (2 st parse d ds V g)
  note unfold = build_graph.psimps(2) [OF "2.hyps"]
  show ?case
  proof (cases "dep_key d \<in> V")
    case True
    with 2 show ?thesis unfolding unfold by simp
  next
    case False
    obtain deps V1 g1 where r: "resolve_dependencies st parse (dep_module d) (dep_version d) = Inr deps"
      and first: "build_graph st parse deps
        (insert (dep_key d) V, add_node g (dep_module d) (dep_version d) deps) = Inr (V1, g1)"
      and rest: "build_graph st parse ds (V1, g1) = Inr s'"
      using False "2.prems" unfolding unfold by (auto split: sum.splits)
    have "insert (dep_key d) V \<subseteq> V1" using "2.IH"(2) [OF False r first] by simp
    moreover have "V1 \<subseteq> fst s'" using "2.IH"(3) [OF False r first refl rest] by simp
    ultimately show ?thesis by auto
  qed
qed

termination build_graph
  apply (relation "measures [\<lambda>(st, parse, ds, s). unvisited (store_keys st) (fst s), \<lambda>(st, parse, ds, s). length ds]")
     apply simp
    apply simp
  subgoal for st parse d ds V g deps
    using unvisited_less [of "dep_key d" "store_keys st" V] resolve_in_store [of st parse _ _ deps] by simp
  subgoal for st parse d ds V g deps s
    using build_graph_grows [of st parse deps "(insert (dep_key d) V, add_node g (dep_module d) (dep_version d) deps)" s]
      search_rest [of "dep_key d" V "fst s" "store_keys st" "length ds"] by auto
  done

definition build_dependency_graph :: "version_store \<Rightarrow> proto_parser \<Rightarrow> string \<Rightarrow> string \<Rightarrow> dep_error + dep_graph" where
  "build_dependency_graph st parse m v =
     rbind (build_graph st parse [\<lparr>dep_module = m, dep_version = v, dep_type = []\<rparr>]
              ({}, new_dependency_graph)) (\<lambda>(V, g). Inr g)"

section \<open>Lockfiles\<close>

record lockfile =
  lf_module :: string
  lf_version :: string
  lf_dependencies :: "dependency list"

definition generate_lockfile :: "version_store \<Rightarrow> proto_parser \<Rightarrow> string \<Rightarrow> string \<Rightarrow> dep_error + lockfile" where
  "generate_lockfile st parse m v =
     rbind (build_dependency_graph st parse m v) (\<lambda>g.
     rbind (topological_sort g m v) (\<lambda>sorted.
       Inr \<lparr>lf_module = m, lf_version = v, lf_dependencies = sorted\<rparr>))"

definition current_map :: "dependency list \<Rightarrow> (string, string) gomap" where
  "current_map ds = fold (\<lambda>d. gm_put (dep_module d) (dep_version d)) ds []"

definition diff_changed :: "dependency \<Rightarrow> string \<Rightarrow> string" where
  "diff_changed d cur = dep_module d @ '': lockfile has '' @ dep_version d @ '', current has '' @ cur"

definition diff_extra :: "dependency \<Rightarrow> string" where
  "diff_extra d = dep_module d @ ''@'' @ dep_version d @ '': in lockfile but not in current dependencies''"

definition diff_missing :: "string \<times> string \<Rightarrow> string" where
  "diff_missing e = fst e @ ''@'' @ snd e @ '': in current dependencies but not in lockfile''"

text \<open>The loop over the lockfile: each entry found is taken out of the map of current versions.\<close>

fun check_locked :: "dependency list \<Rightarrow> (string, string) gomap \<Rightarrow> string list \<times> (string, string) gomap" where
  "check_locked [] cm = ([], cm)"
| "check_locked (d # ds) cm =
     (case gm_get cm (dep_module d) of
        Some cur \<Rightarrow>
          (let (diffs, cm') = check_locked ds (gm_del (dep_module d) cm)
           in (if cur \<noteq> dep_version d then diff_changed d cur # diffs else diffs, cm'))
      | None \<Rightarrow> (let (diffs, cm') = check_locked ds cm in (diff_extra d # diffs, cm')))"

definition validate_lockfile ::
    "version_store \<Rightarrow> proto_parser \<Rightarrow> lockfile \<Rightarrow> dep_error + bool \<times> string list" where
  "validate_lockfile st parse lf =
     rbind (resolve_dependencies st parse (lf_module lf) (lf_version lf)) (\<lambda>current.
       (let (diffs, cm) = check_locked (lf_dependencies lf) (current_map current);
            differences = diffs @ map diff_missing cm
        in Inr (differences = [], sort differences)))"

end
