(* ===== verification/Deps_Props.thy ===== *)
theory Deps_Props
  imports Deps_Resolve
begin

text \<open>
  What the dependency component guarantees: import paths read back, graphs that are complete and
  well formed, searches that compute reachability, and lockfiles that never validate.
\<close>

section \<open>The graph that is built\<close>

definition build_inv :: "version_store \<Rightarrow> proto_parser \<Rightarrow> build_state \<Rightarrow> bool" where
  "build_inv st parse s \<longleftrightarrow> graph_wf (snd s) \<and> dom (gm_get (dg_nodes (snd s))) = fst s \<and>
     (\<forall>k n. gm_get (dg_nodes (snd s)) k = Some n \<longrightarrow>
        resolve_dependencies st parse (nd_module n) (nd_version n) = Inr (nd_dependencies n))"

lemma build_inv_new: "build_inv st parse ({}, new_dependency_graph)"
  by (simp add: build_inv_def graph_wf_new) (simp add: new_dependency_graph_def)

lemma build_inv_add:
  assumes "build_inv st parse (V, g)" and "resolve_dependencies st parse m v = Inr deps"
  shows "build_inv st parse (insert (module_version_key m v) V, add_node g m v deps)"
  using assms graph_wf_add_node unfolding build_inv_def
  by (auto simp: add_node_def Let_def gm_get_put)

lemma edges_of_add_node:
  "edges_of (dg_edges (add_node g m v deps)) k =
     (if k = module_version_key m v then map dep_key deps else edges_of (dg_edges g) k)"
  by (simp add: add_node_def edges_of_def gm_get_put Let_def)

lemma nodes_edges:
  assumes "graph_wf g" "graph_wf g'" and "gm_get (dg_nodes g') k = gm_get (dg_nodes g) k"
  shows "edges_of (dg_edges g') k = edges_of (dg_edges g) k"
  using assms by (simp add: graph_wf_def edges_of_def)

lemma build_graph_Inr:
  assumes "build_graph st parse ds (V, g) = Inr (V', g')" and "build_inv st parse (V, g)"
  shows "build_inv st parse (V', g') \<and> V \<subseteq> V' \<and> dep_key ` set ds \<subseteq> V' \<and>
    gm_get (dg_nodes g) \<subseteq>\<^sub>m gm_get (dg_nodes g') \<and> edge_rel g' `` (V' - V) \<subseteq> V'"
  using assms
proof (induction st parse ds "(V, g)" arbitrary: V g V' g' rule: build_graph.induct)
  case (1 st parse)
  then show ?case by simp
next
  case (2 st parse d ds V g)
  show ?case
  proof (cases "dep_key d \<in> V")
    case True
    then have "build_graph st parse ds (V, g) = Inr (V', g')" using "2.prems"(1) by simp
    from "2.hyps"(1) [OF True this "2.prems"(2)] True show ?thesis by auto
  next
    case False
    let ?k = "dep_key d"
    obtain deps V1 g1 where r: "resolve_dependencies st parse (dep_module d) (dep_version d) = Inr deps"
      and first: "build_graph st parse deps
        (insert ?k V, add_node g (dep_module d) (dep_version d) deps) = Inr (V1, g1)"
      and rest: "build_graph st parse ds (V1, g1) = Inr (V', g')"
      using False "2.prems"(1) by (auto split: sum.splits)
    let ?h = "add_node g (dep_module d) (dep_version d) deps"
    have h: "build_inv st parse (insert ?k V, ?h)" using "2.prems"(2) r by (rule build_inv_add)
    from "2.hyps"(2) [OF False r first h] have
      V1: "build_inv st parse (V1, g1)" "insert ?k V \<subseteq> V1" "dep_key ` set deps \<subseteq> V1"
      "gm_get (dg_nodes ?h) \<subseteq>\<^sub>m gm_get (dg_nodes g1)" "edge_rel g1 `` (V1 - insert ?k V) \<subseteq> V1" by blast+
    from "2.hyps"(3) [OF False r first refl rest V1(1)] have
      V': "build_inv st parse (V', g')" "V1 \<subseteq> V'" "dep_key ` set ds \<subseteq> V'"
      "gm_get (dg_nodes g1) \<subseteq>\<^sub>m gm_get (dg_nodes g')" "edge_rel g' `` (V' - V1) \<subseteq> V'" by blast+
    have same: "gm_get (dg_nodes g') x = gm_get (dg_nodes g1) x" if "x \<in> V1" for x
      using that V'(4) V1(1) unfolding build_inv_def map_le_def by auto
    have old: "edge_rel g' `` {x} = edge_rel g1 `` {x}" if "x \<in> V1" for x
      using nodes_edges [of g1 g' x] same [OF that] V1(1) V'(1)
      unfolding build_inv_def by (simp add: edge_rel_Image)
    have "gm_get (dg_nodes g1) ?k = gm_get (dg_nodes ?h) ?k"
      using V1(4) h unfolding build_inv_def map_le_def by auto
    then have "edges_of (dg_edges g1) ?k = map dep_key deps"
      using nodes_edges [of ?h g1 ?k] h V1(1) unfolding build_inv_def by (simp add: edges_of_add_node)
    then have "edge_rel g1 `` {?k} \<subseteq> V1" using V1(3) by (simp add: edge_rel_Image)
    then have "edge_rel g' `` {?k} \<subseteq> V'" using old [of ?k] V1(2) V'(2) by simp
    moreover have "edge_rel g' `` (V1 - insert ?k V) = edge_rel g1 `` (V1 - insert ?k V)"
      using old by blast
    then have "edge_rel g' `` (V1 - insert ?k V) \<subseteq> V'"
      using V1(5) V'(2) by (simp only:)
    ultimately have "edge_rel g' `` (V' - V1) \<union> edge_rel g' `` (V1 - insert ?k V) \<union> edge_rel g' `` {?k} \<subseteq> V'"
      using V'(5) by simp
    moreover have "edge_rel g' `` (V' - V) \<subseteq>
        edge_rel g' `` (V' - V1) \<union> edge_rel g' `` (V1 - insert ?k V) \<union> edge_rel g' `` {?k}"
      by blast
    ultimately have "edge_rel g' `` (V' - V) \<subseteq> V'" by (rule subset_trans [rotated])
    moreover have "gm_get (dg_nodes g) \<subseteq>\<^sub>m gm_get (dg_nodes ?h)"
      using False "2.prems"(2) unfolding build_inv_def
      by (auto simp: map_le_def add_node_def Let_def gm_get_put)
    then have "gm_get (dg_nodes g) \<subseteq>\<^sub>m gm_get (dg_nodes g')"
      using V1(4) V'(4) by (meson map_le_trans)
    moreover have "dep_key ` set (d # ds) \<subseteq> V'" "V \<subseteq> V'" using V1(2) V'(2,3) by auto
    ultimately show ?thesis using V'(1) by blast
  qed
qed

lemma build_dependency_graph_Inr:
  assumes "build_dependency_graph st parse m v = Inr g"
  shows "graph_wf g" and "edge_rel g `` dom (gm_get (dg_nodes g)) \<subseteq> dom (gm_get (dg_nodes g))"
    and "\<exists>deps. gm_get (dg_nodes g) (module_version_key m v) =
           Some \<lparr>nd_module = m, nd_version = v, nd_dependencies = deps\<rparr> \<and>
         resolve_dependencies st parse m v = Inr deps"
    and "\<And>k n. gm_get (dg_nodes g) k = Some n \<Longrightarrow>
           resolve_dependencies st parse (nd_module n) (nd_version n) = Inr (nd_dependencies n)"
proof -
  let ?k = "module_version_key m v"
  obtain V deps where r: "resolve_dependencies st parse m v = Inr deps" and
    b: "build_graph st parse deps ({?k}, add_node new_dependency_graph m v deps) = Inr (V, g)"
    using assms by (auto simp: build_dependency_graph_def rbind_Inr_iff split: sum.splits)
  have whole: "build_graph st parse [\<lparr>dep_module = m, dep_version = v, dep_type = []\<rparr>]
      ({}, new_dependency_graph) = Inr (V, g)"
    using r b by simp
  from build_graph_Inr [OF this build_inv_new] have inv: "build_inv st parse (V, g)"
    and closed: "edge_rel g `` V \<subseteq> V" by auto
  from inv show "graph_wf g" and "\<And>k n. gm_get (dg_nodes g) k = Some n \<Longrightarrow>
      resolve_dependencies st parse (nd_module n) (nd_version n) = Inr (nd_dependencies n)"
    by (auto simp: build_inv_def)
  from inv closed show "edge_rel g `` dom (gm_get (dg_nodes g)) \<subseteq> dom (gm_get (dg_nodes g))"
    by (simp add: build_inv_def)
  have "build_inv st parse ({?k}, add_node new_dependency_graph m v deps)"
    using build_inv_add [OF build_inv_new r] by simp
  from build_graph_Inr [OF b this]
  have "gm_get (dg_nodes (add_node new_dependency_graph m v deps)) \<subseteq>\<^sub>m gm_get (dg_nodes g)" by blast
  then have "gm_get (dg_nodes g) ?k = Some \<lparr>nd_module = m, nd_version = v, nd_dependencies = deps\<rparr>"
    by (auto simp: map_le_def add_node_def Let_def gm_get_put dest!: bspec [of _ _ ?k])
  with r show "\<exists>deps. gm_get (dg_nodes g) ?k =
      Some \<lparr>nd_module = m, nd_version = v, nd_dependencies = deps\<rparr> \<and>
      resolve_dependencies st parse m v = Inr deps" by blast
qed

section \<open>Searches\<close>

lemma finishing_sorted:
  assumes "finishing E B ys" and "E `` B \<subseteq> B"
  shows "sorted_wrt (\<lambda>a b. (a, b) \<notin> E) ys"
  using assms
proof (induction ys arbitrary: B)
  case (Cons y ys)
  have "E `` insert y B \<subseteq> insert y B" using Cons.prems by auto
  then have "sorted_wrt (\<lambda>a b. (a, b) \<notin> E) ys" using Cons by auto
  moreover have "set ys \<inter> insert y B = {}" using Cons.prems finishing_distinct by fastforce
  ultimately show ?case using Cons.prems by auto
qed simp

text \<open>C4. \<open>TopologicalSort\<close> fails exactly when a dependency cycle can be reached from the root,
  naming a node on one; otherwise it lists the nodes reachable from the root, each once, no node
  before one of its dependencies, the root last.\<close>

theorem topological_sort_correct:
  "is_ok (topological_sort g m v) = (\<not> cycle_reachable g (module_version_key m v)) \<and>
   (case topological_sort g m v of
      Inl e \<Rightarrow> \<exists>x. e = Circular x \<and> x \<in> reachable g (module_version_key m v) \<and> (x, x) \<in> (edge_rel g)\<^sup>+
    | Inr res \<Rightarrow> \<exists>ys. res = concat (map (emitted g) ys) \<and> distinct ys \<and>
        set ys = reachable g (module_version_key m v) \<and> last ys = module_version_key m v \<and>
        sorted_wrt (\<lambda>a b. (a, b) \<notin> edge_rel g) ys)"
proof (cases "topological_sort g m v")
  case (Inl e)
  then have "topo_visit g [root_key m v] ({}, {}, []) = Inl e"
    by (simp add: topological_sort_def rbind_def del: topo_visit.simps split: sum.splits prod.splits)
  from topo_visit_Inl [OF this colours_start] show ?thesis
    using topological_sort_ok_iff [of g m v] Inl by (auto simp: reachable_def)
next
  case (Inr res)
  then obtain ys where ys: "finishing (edge_rel g) {} ys" "set ys = reachable g (root_key m v)"
    "ys \<noteq> []" "last ys = root_key m v" "res = concat (map (emitted g) ys)"
    by (rule topological_sort_Inr)
  then have "distinct ys" "sorted_wrt (\<lambda>a b. (a, b) \<notin> edge_rel g) ys"
    using finishing_distinct finishing_sorted [of "edge_rel g" "{}"] by (blast, simp)
  then show ?thesis using ys topological_sort_ok_iff [of g m v] Inr by auto
qed

text \<open>C5. \<open>DetectCircularDependencies\<close> and \<open>TopologicalSort\<close> agree on what is circular; the path
  returned is a walk from the root without repetition whose last node depends on one of its nodes.\<close>

theorem detect_circular_correct:
  "is_ok (topological_sort g m v) = (detect_circular g m v = None) \<and>
   (case detect_circular g m v of None \<Rightarrow> \<not> cycle_reachable g (module_version_key m v)
    | Some q \<Rightarrow> q \<noteq> [] \<and> hd q = module_version_key m v \<and> distinct q \<and>
        successively (\<lambda>a b. (a, b) \<in> edge_rel g) q \<and> (\<exists>x. x \<in> set q \<and> (last q, x) \<in> edge_rel g))"
proof (cases "detect_circular g m v")
  case None
  then show ?thesis using detect_circular_iff [of g m v] topological_sort_ok_iff [of g m v] by simp
next
  case (Some q)
  let ?k = "module_version_key m v"
  have "has_cycle (dg_edges g) (edges_of (dg_edges g) ?k) ({?k}, {?k}, [?k]) = Inl q"
    using Some by (auto simp: detect_circular_def split: sum.splits)
  from has_cycle_path [OF this]
  have "distinct q \<and> successively (\<lambda>a b. b \<in> set (edges_of (dg_edges g) a)) q \<and> prefix [?k] q \<and> q \<noteq> [] \<and>
    (\<exists>x \<in> set q. x \<in> set (edges_of (dg_edges g) (last q)))" by simp
  then show ?thesis
    using Some detect_circular_iff [of g m v] topological_sort_ok_iff [of g m v]
    by (auto simp: edge_rel_iff prefix_def)
qed

text \<open>The graph that a sequence of \<open>AddNode\<close> calls leaves.\<close>

definition graph_of :: "(string \<times> string \<times> dependency list) list \<Rightarrow> dep_graph" where
  "graph_of adds = fold (\<lambda>(m, v, deps) g. add_node g m v deps) adds new_dependency_graph"

lemma graph_of_wf: "graph_wf (graph_of adds)"
  unfolding graph_of_def
  by (rule fold_invariant [where P = graph_wf and Q = "\<lambda>_. True"])
    (auto simp: graph_wf_new graph_wf_add_node)

text \<open>C6. \<open>GetTransitiveDependencies\<close> lists the nodes that can be reached by one or more
  dependency edges, and lists each dependency entry of each node reached exactly once: a module
  reached over two edges appears twice.\<close>

theorem transitive_dependencies_correct:
  "dep_key ` set (get_transitive_dependencies (graph_of adds) m v) =
     (edge_rel (graph_of adds))\<^sup>+ `` {module_version_key m v} \<and>
   (\<exists>ys. distinct ys \<and> set ys = reachable (graph_of adds) (module_version_key m v) \<and>
      mset (get_transitive_dependencies (graph_of adds) m v) =
      mset (map as_transitive (concat (map (node_deps (graph_of adds)) ys))))"
proof -
  let ?g = "graph_of adds" and ?k = "module_version_key m v"
  note rel = graph_wf_succ [OF graph_of_wf, of adds]
  obtain V res where run: "fold (enter (node_deps ?g) (gather_deps ?g)) [?k] ({}, []) = (V, res)"
    by fastforce
  then have res: "get_transitive_dependencies ?g m v = res"
    unfolding transitive_enter by simp
  obtain ys where "distinct ys" "set ys = reachable ?g ?k"
    "mset res = mset (map as_transitive (concat (map (node_deps ?g) ys)))"
    using forward.fold_enter_lists [OF run] unfolding rel reachable_def by auto
  then show ?thesis
    using forward.fold_enter_keys [OF run] unfolding res rel by auto
qed

lemma impact_keys:
  assumes "graph_wf g"
  shows "dep_key ` set (ia_direct (get_impact_analysis g m v)) = (edge_rel g)\<inverse> `` {module_version_key m v}"
    and "dep_key ` set (ia_transitive (get_impact_analysis g m v)) =
      ((edge_rel g)\<inverse>)\<^sup>+ `` ((edge_rel g)\<inverse> `` {module_version_key m v})"
proof -
  let ?k = "module_version_key m v"
  show direct: "dep_key ` set (ia_direct (get_impact_analysis g m v)) = (edge_rel g)\<inverse> `` {?k}"
    using succ_rel_Image [of "dependents_of g" ?k] graph_wf_dependents [OF assms]
    by (simp add: get_impact_analysis_def get_dependents_def Let_def)
  obtain V res where run: "fold (enter (dependents_of g) (gather_dependents g))
      (map dep_key (get_dependents g m v)) ({}, []) = (V, res)" by fastforce
  have "ia_direct (get_impact_analysis g m v) = get_dependents g m v"
    by (simp add: get_impact_analysis_def Let_def)
  then show "dep_key ` set (ia_transitive (get_impact_analysis g m v)) =
      ((edge_rel g)\<inverse>)\<^sup>+ `` ((edge_rel g)\<inverse> `` {?k})"
    using backward.fold_enter_keys [OF run] direct graph_wf_dependents [OF assms]
    unfolding impact_enter run by simp
qed

text \<open>Impact analysis is the converse of transitive dependency: a module version is listed as
  a direct or transitive dependent of another exactly when it has the other among its transitive
  dependencies.\<close>

lemma impact_converse:
  "module_version_key m' v' \<in> dep_key `
      (set (ia_direct (get_impact_analysis (graph_of adds) m v)) \<union>
       set (ia_transitive (get_impact_analysis (graph_of adds) m v))) \<longleftrightarrow>
   module_version_key m v \<in> dep_key ` set (get_transitive_dependencies (graph_of adds) m' v')"
proof -
  let ?g = "graph_of adds" and ?k = "module_version_key m v" and ?k' = "module_version_key m' v'"
  have "dep_key ` (set (ia_direct (get_impact_analysis ?g m v)) \<union> set (ia_transitive (get_impact_analysis ?g m v))) =
      ((edge_rel ?g)\<inverse>)\<^sup>+ `` {?k}"
    using impact_keys [OF graph_of_wf, of adds m v]
    by (auto simp: image_Un intro: trancl_into_trancl2 elim: converse_tranclE)
  moreover obtain V res where run: "fold (enter (node_deps ?g) (gather_deps ?g)) [?k'] ({}, []) = (V, res)"
    by fastforce
  then have "dep_key ` set (get_transitive_dependencies ?g m' v') = (edge_rel ?g)\<^sup>+ `` {?k'}"
    using forward.fold_enter_keys [OF run] graph_wf_succ [OF graph_of_wf, of adds]
    unfolding transitive_enter run by simp
  ultimately show ?thesis by (simp add: trancl_converse)
qed

section \<open>Lockfiles\<close>

lemma generate_lockfile_Inr:
  assumes "generate_lockfile st parse m v = Inr lf"
  obtains g ys where "build_dependency_graph st parse m v = Inr g"
    and "lf = \<lparr>lf_module = m, lf_version = v, lf_dependencies = concat (map (emitted g) ys)\<rparr>"
    and "\<not> cycle_reachable g (module_version_key m v)"
    and "distinct ys" and "set ys = reachable g (module_version_key m v)" and "ys \<noteq> []"
    and "last ys = module_version_key m v"
proof -
  obtain g res where g: "build_dependency_graph st parse m v = Inr g"
    and sort: "topological_sort g m v = Inr res"
    and lf: "lf = \<lparr>lf_module = m, lf_version = v, lf_dependencies = res\<rparr>"
    using assms by (auto simp: generate_lockfile_def rbind_Inr_iff)
  obtain ys where "finishing (edge_rel g) {} ys" "set ys = reachable g (module_version_key m v)"
    "ys \<noteq> []" "last ys = module_version_key m v" "res = concat (map (emitted g) ys)"
    using sort by (rule topological_sort_Inr)
  moreover have "\<not> cycle_reachable g (module_version_key m v)"
    using topological_sort_ok_iff [of g m v] sort by simp
  ultimately show thesis using that g lf finishing_distinct by blast
qed

lemma emitted_node:
  assumes "graph_wf g" and "k \<in> dom (gm_get (dg_nodes g))"
  shows "map dep_key (emitted g k) = [k]"
  using assms by (auto simp: emitted_def emit_node_def graph_wf_def)

lemma reachable_nodes:
  assumes "build_dependency_graph st parse m v = Inr g"
  shows "reachable g (module_version_key m v) \<subseteq> dom (gm_get (dg_nodes g))"
  using build_dependency_graph_Inr(2,3) [OF assms] unfolding reachable_def
  by (intro closed_reachable) auto

lemma lockfile_complete_last:
  assumes "generate_lockfile st parse m v = Inr lf"
  shows "lf_dependencies lf \<noteq> [] \<and>
    last (lf_dependencies lf) = \<lparr>dep_module = m, dep_version = v, dep_type = ''direct''\<rparr>"
proof -
  obtain g ys where g: "build_dependency_graph st parse m v = Inr g"
    and lf: "lf = \<lparr>lf_module = m, lf_version = v, lf_dependencies = concat (map (emitted g) ys)\<rparr>"
    and "\<not> cycle_reachable g (module_version_key m v)" and
    ys: "distinct ys" "set ys = reachable g (module_version_key m v)" "ys \<noteq> []"
      "last ys = module_version_key m v"
    using assms by (rule generate_lockfile_Inr)
  obtain deps where "gm_get (dg_nodes g) (module_version_key m v) =
      Some \<lparr>nd_module = m, nd_version = v, nd_dependencies = deps\<rparr>"
    using build_dependency_graph_Inr(3) [OF g] by blast
  then have "emitted g (last ys) = [\<lparr>dep_module = m, dep_version = v, dep_type = ''direct''\<rparr>]"
    using ys(4) by (simp add: emitted_def emit_node_def)
  moreover have "concat (map (emitted g) ys) = concat (map (emitted g) (butlast ys)) @ emitted g (last ys)"
    using ys(3) by (cases ys rule: rev_cases) auto
  ultimately show ?thesis unfolding lf by simp
qed

text \<open>C7. A generated lockfile pins every module version the root needs, directly or not, exactly
  once, and ends with the root itself.\<close>

theorem lockfile_complete:
  assumes "generate_lockfile st parse m v = Inr lf"
  shows "distinct (map dep_key (lf_dependencies lf)) \<and>
    (\<exists>g. build_dependency_graph st parse m v = Inr g \<and>
       dep_key ` set (lf_dependencies lf) = reachable g (module_version_key m v)) \<and>
    lf_dependencies lf \<noteq> [] \<and>
    last (lf_dependencies lf) = \<lparr>dep_module = m, dep_version = v, dep_type = ''direct''\<rparr>"
proof -
  obtain g ys where g: "build_dependency_graph st parse m v = Inr g"
    and lf: "lf = \<lparr>lf_module = m, lf_version = v, lf_dependencies = concat (map (emitted g) ys)\<rparr>"
    and "\<not> cycle_reachable g (module_version_key m v)" and
    ys: "distinct ys" "set ys = reachable g (module_version_key m v)" "ys \<noteq> []"
      "last ys = module_version_key m v"
    using assms by (rule generate_lockfile_Inr)
  note wf = build_dependency_graph_Inr(1) [OF g]
  have "\<forall>k \<in> set ys. map dep_key (emitted g k) = [k]"
    using reachable_nodes [OF g] ys(2) emitted_node [OF wf] by blast
  then have "map dep_key (concat (map (emitted g) ys)) = ys"
    by (induction ys) auto
  then have keys: "map dep_key (lf_dependencies lf) = ys" by (simp add: lf)
  then have "dep_key ` set (lf_dependencies lf) = set ys" by (metis list.set_map)
  then show ?thesis using g ys keys lockfile_complete_last [OF assms] by simp
qed

lemma current_map_get:
  "gm_get (fold (\<lambda>d. gm_put (dep_module d) (dep_version d)) ds cm) m = Some v \<Longrightarrow>
     gm_get cm m = Some v \<or> (\<exists>d \<in> set ds. dep_module d = m \<and> dep_version d = v)"
  by (induction ds arbitrary: cm) (fastforce simp: gm_get_put split: if_splits)+

lemma check_locked_last:
  assumes "fst (check_locked (ds @ [d]) cm) = []"
  shows "gm_get cm (dep_module d) = Some (dep_version d)"
  using assms
proof (induction ds arbitrary: cm)
  case Nil
  then show ?case by (auto split: option.splits if_splits)
next
  case (Cons a ds)
  then have "fst (check_locked (ds @ [d]) (gm_del (dep_module a) cm)) = []"
    by (auto split: option.splits prod.splits if_splits)
  from Cons.IH [OF this] show ?case by (simp add: gm_get_del split: if_splits)
qed

text \<open>Validating a lockfile just generated, against the same store, always reports it as out of
  date: the lockfile lists the root itself, which is not one of its own dependencies.\<close>

lemma fresh_lockfile_rejected:
  assumes "generate_lockfile st parse m v = Inr lf"
  shows "\<exists>diffs. validate_lockfile st parse lf = Inr (False, diffs) \<and> diffs \<noteq> []"
proof -
  obtain g ys where g: "build_dependency_graph st parse m v = Inr g"
    and lf: "lf = \<lparr>lf_module = m, lf_version = v, lf_dependencies = concat (map (emitted g) ys)\<rparr>"
    and acyclic: "\<not> cycle_reachable g (module_version_key m v)"
    and "distinct ys" "set ys = reachable g (module_version_key m v)" "ys \<noteq> []"
      "last ys = module_version_key m v"
    using assms by (rule generate_lockfile_Inr)
  obtain deps where root: "gm_get (dg_nodes g) (module_version_key m v) =
      Some \<lparr>nd_module = m, nd_version = v, nd_dependencies = deps\<rparr>"
    and r: "resolve_dependencies st parse m v = Inr deps"
    using build_dependency_graph_Inr(3) [OF g] by blast
  define ds where "ds = butlast (lf_dependencies lf)"
  have last: "lf_dependencies lf = ds @ [\<lparr>dep_module = m, dep_version = v, dep_type = ''direct''\<rparr>]"
    using lockfile_complete_last [OF assms] unfolding ds_def by (metis append_butlast_last_id)
  have "fst (check_locked (lf_dependencies lf) (current_map deps)) \<noteq> []"
  proof
    assume "fst (check_locked (lf_dependencies lf) (current_map deps)) = []"
    then have "gm_get (current_map deps) m = Some v"
      using check_locked_last [of ds "\<lparr>dep_module = m, dep_version = v, dep_type = ''direct''\<rparr>" "current_map deps"]
      unfolding last by simp
    then obtain d where "d \<in> set deps" "dep_key d = module_version_key m v"
      using current_map_get [of deps "[]" m v] by (auto simp: current_map_def)
    then have "(module_version_key m v, module_version_key m v) \<in> edge_rel g"
      using root build_dependency_graph_Inr(1) [OF g]
      by (force simp: edge_rel_iff edges_of_def graph_wf_def)
    then show False using acyclic by (auto simp: cycle_reachable_def reachable_def)
  qed
  moreover obtain diffs cm where
    "check_locked (lf_dependencies lf) (current_map deps) = (diffs, cm)" by fastforce
  moreover have "resolve_dependencies st parse (lf_module lf) (lf_version lf) = Inr deps"
    using r by (simp add: lf)
  moreover have "sort xs \<noteq> []" if "xs \<noteq> []" for xs :: "string list"
    using that by (metis length_0_conv length_sort)
  ultimately show ?thesis by (simp add: validate_lockfile_def)
qed

section \<open>Import paths\<close>

lemma index_from_append:
  "c \<notin> set a \<Longrightarrow> index_from i (a @ s) c = index_from (i + length a) s c"
  by (induction a arbitrary: i) auto

lemma index_byte_append: "c \<notin> set a \<Longrightarrow> index_byte (a @ c # s) c = int (length a)"
  by (simp add: index_byte_def index_from_append)

lemma index_byte_none: "c \<notin> set s \<Longrightarrow> index_byte s c = -1"
  using index_from_append [of c s 0 "[]"] by (simp add: index_byte_def)

lemma split_loop_segment:
  "CHR ''/'' \<notin> set a \<Longrightarrow> split_loop cur (a @ CHR ''/'' # s) =
     (if cur @ a \<noteq> [] then (cur @ a) # split_loop [] s else split_loop [] s)"
  by (induction a arbitrary: cur) auto

text \<open>Explicit versions read back: from \<open>module@version/file\<close> and from
  \<open>module@version.proto\<close> the parser recovers module and version, hyphens included.\<close>

lemma parse_explicit_version:
  assumes "CHR ''@'' \<notin> set m" and "CHR ''/'' \<notin> set v"
  shows "parse_import_path (m @ ''@'' @ v @ ''/'' @ f) = (m, v) \<and>
    (v = [] \<or> parse_import_path (m @ ''@'' @ v @ ''.proto'') = (m, v))"
proof
  have "index_byte (m @ ''@'' @ v @ ''/'' @ f) (CHR ''@'') = int (length m)"
    "index_byte (v @ ''/'' @ f) (CHR ''/'') = int (length v)"
    using index_byte_append assms by fastforce+
  then show "parse_import_path (m @ ''@'' @ v @ ''/'' @ f) = (m, v)"
    by (simp add: parse_import_path_def Let_def)
  have "index_byte (m @ ''@'' @ v @ ''.proto'') (CHR ''@'') = int (length m)"
    "index_byte (v @ ''.proto'') (CHR ''/'') = -1"
    using index_byte_append assms by (fastforce intro: index_byte_none)+
  then show "v = [] \<or> parse_import_path (m @ ''@'' @ v @ ''.proto'') = (m, v)"
    by (simp add: parse_import_path_def Let_def)
qed

text \<open>Path-based versions: \<open>module/vX/file\<close> is read back when the path holds no hyphen; with
  one, module and version are cut at the hyphen instead and the version is lost.\<close>

lemma parse_path_version:
  assumes "CHR ''@'' \<notin> set (m @ v @ f)" and "CHR ''/'' \<notin> set m" and "CHR ''/'' \<notin> set v"
    and "CHR ''-'' \<notin> set (m @ v @ f)" and "m \<noteq> []"
    and "CHR ''@'' \<notin> set m'" and "CHR ''/'' \<notin> set m'"
  shows "parse_import_path (m @ ''/v'' @ v @ ''/'' @ f) = (m, ''v'' @ v) \<and>
    parse_import_path (m @ ''-'' @ m' @ ''/v'' @ v @ ''/'' @ f) = (m, m')"
proof
  have "index_byte (m @ ''/v'' @ v @ ''/'' @ f) (CHR ''@'') = -1"
    "index_byte (m @ ''/v'' @ v @ ''/'' @ f) (CHR ''-'') = -1"
    using assms by (auto intro!: index_byte_none)
  moreover obtain ps where "split_path (m @ ''/v'' @ v @ ''/'' @ f) = m # (''v'' @ v) # ps"
    using assms split_loop_segment [of m "[]" "''v'' @ v @ ''/'' @ f"] split_loop_segment [of "''v'' @ v" "[]" f]
    by (auto simp: split_path_def)
  ultimately show "parse_import_path (m @ ''/v'' @ v @ ''/'' @ f) = (m, ''v'' @ v)"
    by (simp add: parse_import_path_def Let_def)
  have "index_byte (m @ ''-'' @ m' @ ''/v'' @ v @ ''/'' @ f) (CHR ''@'') = -1"
    using assms by (auto intro!: index_byte_none)
  moreover have "index_byte (m @ ''-'' @ m' @ ''/v'' @ v @ ''/'' @ f) (CHR ''-'') = int (length m)"
    "index_byte (m' @ ''/v'' @ v @ ''/'' @ f) (CHR ''/'') = int (length m')"
    using assms index_byte_append [of _ m] index_byte_append [of _ m'] by auto
  ultimately show "parse_import_path (m @ ''-'' @ m' @ ''/v'' @ v @ ''/'' @ f) = (m, m')"
    by (simp add: parse_import_path_def Let_def)
qed

section \<open>Witnesses\<close>

text \<open>
  A store of three modules, each importing the next: \<open>app\<close>, \<open>lib\<close>, \<open>base\<close>. The parser of the
  witness takes a file's content as its only import.
\<close>

definition demo_store :: version_store where
  "demo_store = [((''app'', ''v1''), [''lib@v1/l.proto'']), ((''lib'', ''v1''), [''base@v1/b.proto'']),
                 ((''base'', ''v1''), [''google/protobuf/any.proto''])]"

definition demo_parse :: proto_parser where
  "demo_parse s = Inr (mk_root [] [mk_import s] [])"

lemma demo_lockfile: "generate_lockfile demo_store demo_parse ''app'' ''v1'' = Inr
    \<lparr>lf_module = ''app'', lf_version = ''v1'', lf_dependencies =
      map (\<lambda>m. \<lparr>dep_module = m, dep_version = ''v1'', dep_type = ''direct''\<rparr>) [''base'', ''lib'', ''app'']\<rparr>"
  by code_simp

theorem lockfile_complete_witness:
  "\<exists>lf. generate_lockfile demo_store demo_parse ''app'' ''v1'' = Inr lf \<and>
     distinct (map dep_key (lf_dependencies lf))"
  using demo_lockfile lockfile_complete [OF demo_lockfile] by blast

end
