(* ===== verification/Codegen_Keys.thy ===== *)
theory Codegen_Keys
  imports Spoke_Prelude
begin

text \<open>
  Compilation cache keys: \<open>pkg/codegen/types.go\<close>, \<open>pkg/codegen/cache.go\<close> and
  \<open>pkg/codegen/cache/keys.go\<close>. SHA-256 is the parameter \<open>sha\<close>, from the bytes written to its
  digest; a sequence of \<open>Write\<close>s is their concatenation. \<open>sort.Slice\<close> is modelled by a stable
  sort; Go leaves the order of equal elements open, so the theorems ask for distinct sort keys.
\<close>

section \<open>Types\<close>

record proto_file =
  pf_path :: string
  pf_content :: string
  pf_hash :: string

record cg_dependency =
  cd_module :: string
  cd_version :: string
  cd_files :: "proto_file list"

record generated_file =
  gf_path :: string
  gf_content :: string
  gf_size :: int

record compilation_result =
  cr_success :: bool
  cr_language :: string
  cr_generated :: "generated_file list"
  cr_packages :: "generated_file list"
  cr_cache_hit :: bool
  cr_duration :: int
  cr_error :: string
  cr_s3_key :: string
  cr_s3_bucket :: string
  cr_artifact_hash :: string

record cache_key =
  ck_module :: string
  ck_version :: string
  ck_language :: string
  ck_plugin :: string
  ck_proto_hash :: string
  ck_options :: "(string, string) gomap"

type_synonym sha_fun = "string \<Rightarrow> string"

section \<open>Hashing\<close>

definition nul :: string where
  "nul = [CHR 0x00]"

definition file_bytes :: "proto_file \<Rightarrow> string" where
  "file_bytes f = pf_path f @ nul @ pf_content f @ nul"

definition files_bytes :: "proto_file list \<Rightarrow> string" where
  "files_bytes fs = concat (map file_bytes (sort_key pf_path fs))"

text \<open>The comparison of two dependencies: by module name, then by version.\<close>

abbreviation dep_order :: "cg_dependency \<Rightarrow> string list" where
  "dep_order d \<equiv> [cd_module d, cd_version d]"

definition dep_bytes :: "cg_dependency \<Rightarrow> string" where
  "dep_bytes d = cd_module d @ nul @ cd_version d @ nul @ files_bytes (cd_files d)"

definition generate_proto_hash :: "sha_fun \<Rightarrow> proto_file list \<Rightarrow> cg_dependency list \<Rightarrow> string" where
  "generate_proto_hash sha fs ds =
     hex_encode (sha (files_bytes fs @ concat (map dep_bytes (sort_key dep_order ds))))"

definition hash_proto_files :: "sha_fun \<Rightarrow> proto_file list \<Rightarrow> cg_dependency list \<Rightarrow> string" where
  "hash_proto_files sha fs ds =
     hex_encode (sha (files_bytes fs @ concat (map dep_bytes (sort_key dep_order ds))))"

definition hash_options :: "sha_fun \<Rightarrow> (string, string) gomap \<Rightarrow> string" where
  "hash_options sha opts =
     (if opts = [] then []
      else take 16 (hex_encode (sha (concat (map (\<lambda>k.
             k @ nul @ (case gm_get opts k of Some v \<Rightarrow> v | None \<Rightarrow> []) @ nul)
           (sort (map fst opts)))))))"

section \<open>Keys\<close>

definition generate_cache_key :: "sha_fun \<Rightarrow> string \<Rightarrow> string \<Rightarrow> string \<Rightarrow> string \<Rightarrow>
    proto_file list \<Rightarrow> cg_dependency list \<Rightarrow> (string, string) gomap \<Rightarrow> cache_key" where
  "generate_cache_key sha mo v lang plugin fs ds opts =
     \<lparr>ck_module = mo, ck_version = v, ck_language = lang, ck_plugin = plugin,
      ck_proto_hash = generate_proto_hash sha fs ds, ck_options = opts\<rparr>"

definition key_parts :: "cache_key \<Rightarrow> string list" where
  "key_parts k = [ck_module k, ck_version k, ck_language k, ck_plugin k, ck_proto_hash k]"

definition format_cache_key :: "sha_fun \<Rightarrow> cache_key \<Rightarrow> string" where
  "format_cache_key sha k =
     join_strings '':'' (key_parts k @ (if ck_options k \<noteq> [] then [hash_options sha (ck_options k)] else []))"

definition get_key_string :: "sha_fun \<Rightarrow> cache_key \<Rightarrow> string" where
  "get_key_string sha k = format_cache_key sha k"

text \<open>\<open>CacheKey.String\<close> ranges over the options map and keeps 16 bytes of what it gathers.\<close>

definition option_string :: "(string, string) gomap \<Rightarrow> string" where
  "option_string opts = concat (map (\<lambda>(k, v). k @ ''='' @ v @ '';'') opts)"

definition cache_key_string :: "cache_key \<Rightarrow> string" where
  "cache_key_string k =
     (let parts = key_parts k @ (if ck_options k \<noteq> [] then [take 16 (option_string (ck_options k))] else [])
      in hd parts @ concat (map (\<lambda>p. '':'' @ p) (tl parts)))"

datatype cache_error =
  Cache_Miss | Invalid_Cache_Key | Key_Is_Nil | Module_Required | Version_Required
| Language_Required | Hash_Required | Result_Is_Nil | Module_And_Version_Required

definition validate_cache_key :: "cache_key option \<Rightarrow> cache_error + unit" where
  "validate_cache_key key = (case key of
     None \<Rightarrow> Inl Key_Is_Nil
   | Some k \<Rightarrow>
       if ck_module k = [] then Inl Module_Required
       else if ck_version k = [] then Inl Version_Required
       else if ck_language k = [] then Inl Language_Required
       else if ck_proto_hash k = [] then Inl Hash_Required
       else Inr ())"

section \<open>Lemmas\<close>

lemma sort_key_perm:
  assumes "mset xs = mset ys" and "distinct (map f xs)"
  shows "sort_key f xs = sort_key f ys"
proof (rule properties_for_sort_key)
  show "mset (sort_key f ys) = mset xs" using assms(1) by simp
  show "sorted (map f (sort_key f ys))" by simp
  show "filter (\<lambda>x. f k = f x) (sort_key f ys) = filter (\<lambda>x. f k = f x) xs" if "k \<in> set (sort_key f ys)" for k
  proof -
    have "k \<in> set xs" using that assms(1) by (metis mset_eq_setD set_sort)
    have inj: "inj_on f (set xs)" using assms(2) by (simp add: distinct_map)
    have one: "filter (\<lambda>x. f k = f x) zs = filter (\<lambda>x. x = k) zs" if "set zs = set xs" for zs
      using inj \<open>k \<in> set xs\<close> that by (intro filter_cong) (auto dest: inj_onD)
    have "mset (filter (\<lambda>x. x = k) (sort_key f ys)) = mset (filter (\<lambda>x. x = k) xs)"
      using assms(1) by simp
    moreover have "filter (\<lambda>x. x = k) zs = replicate (count (mset zs) k) k" for zs
      by (induction zs) auto
    ultimately have "filter (\<lambda>x. x = k) (sort_key f ys) = filter (\<lambda>x. x = k) xs"
      using assms(1) by (simp add: mset_filter)
    moreover have "set (sort_key f ys) = set xs" using assms(1) by (metis mset_eq_setD set_sort)
    ultimately show ?thesis using one by simp
  qed
qed

lemma files_bytes_perm:
  "mset fs = mset fs' \<Longrightarrow> distinct (map pf_path fs) \<Longrightarrow> files_bytes fs = files_bytes fs'"
  unfolding files_bytes_def by (metis sort_key_perm)

lemma hash_options_perm:
  assumes "gm_ok o1" and "mset o1 = mset o2"
  shows "hash_options sha o1 = hash_options sha o2"
proof -
  have "mset (map fst o1) = mset (map fst o2)" using assms(2) by (metis mset_map)
  then have "sort (map fst o1) = sort (map fst o2)" by (metis properties_for_sort mset_sort sorted_sort)
  moreover have "gm_get o2 = gm_get o1" using assms by (rule gm_get_perm)
  moreover have "o1 = [] \<longleftrightarrow> o2 = []" using assms(2) by auto
  ultimately show ?thesis by (simp add: hash_options_def)
qed

lemma join_strings_Cons: "ss \<noteq> [] \<Longrightarrow> join_strings sep (s # ss) = s @ sep @ join_strings sep ss"
  by (cases ss) auto

text \<open>\<open>CacheKey.String\<close> joins its parts with colons too.\<close>

lemma join_strings_concat: "ss \<noteq> [] \<Longrightarrow> join_strings sep ss = hd ss @ concat (map (\<lambda>p. sep @ p) (tl ss))"
proof (induction ss)
  case (Cons s ss)
  then show ?case by (cases ss) auto
qed simp

lemma cut_at:
  "a @ c # s = b @ c # t \<Longrightarrow> c \<notin> set a \<Longrightarrow> c \<notin> set b \<Longrightarrow> a = b \<and> s = t"
proof (induction a arbitrary: b)
  case Nil
  then show ?case by (cases b) auto
next
  case (Cons x a)
  then show ?case by (cases b) auto
qed

text \<open>Joining with a separator that no part contains can be undone.\<close>

lemma join_strings_inj:
  assumes "join_strings [c] xs = join_strings [c] ys" and "xs \<noteq> []" "ys \<noteq> []"
    and "\<forall>x \<in> set xs \<union> set ys. c \<notin> set x"
  shows "xs = ys"
  using assms
proof (induction xs arbitrary: ys)
  case (Cons x xs)
  obtain y ys' where ys: "ys = y # ys'" using Cons.prems(3) by (cases ys) auto
  show ?case
  proof (cases "xs = []")
    case True
    have "ys' = []"
    proof (rule ccontr)
      assume "ys' \<noteq> []"
      then have "x = y @ c # join_strings [c] ys'" using Cons.prems(1) True ys by (simp add: join_strings_Cons)
      then show False using Cons.prems(4) by (auto simp: ys)
    qed
    then show ?thesis using Cons.prems True ys by simp
  next
    case False
    have "ys' \<noteq> []"
    proof
      assume "ys' = []"
      then have "y = x @ c # join_strings [c] xs" using Cons.prems(1) False ys by (simp add: join_strings_Cons)
      then show False using Cons.prems(4) by (auto simp: ys)
    qed
    then have "x = y" "join_strings [c] xs = join_strings [c] ys'"
      using cut_at [of x c "join_strings [c] xs" y "join_strings [c] ys'"] Cons.prems False ys
      by (auto simp: join_strings_Cons)
    then show ?thesis using Cons.IH [of ys'] False \<open>ys' \<noteq> []\<close> Cons.prems(4) ys by auto
  qed
qed simp

lemma hex_digit_no_colon: "n < 16 \<Longrightarrow> hex_digit n \<noteq> CHR '':''"
proof -
  have "\<forall>n \<in> set [0..<16]. hex_digit n \<noteq> CHR '':''" by code_simp
  then show "n < 16 \<Longrightarrow> ?thesis" by simp
qed

lemma hex_no_colon: "CHR '':'' \<notin> set (hex_encode s)"
proof
  assume "CHR '':'' \<in> set (hex_encode s)"
  then obtain c where "CHR '':'' \<in> {hex_digit (of_char c div 16), hex_digit (of_char c mod 16)}"
    by (fastforce simp: hex_encode_def)
  moreover have "(of_char c :: nat) < 256" by simp
  then have "(of_char c :: nat) div 16 < 16" "(of_char c :: nat) mod 16 < 16"
    by (simp_all add: less_mult_imp_div_less)
  ultimately show False using hex_digit_no_colon by (metis insertE singletonD)
qed

lemma hash_options_no_colon: "CHR '':'' \<notin> set (hash_options sha o1)"
  unfolding hash_options_def using hex_no_colon by (auto dest: in_set_takeD)

section \<open>Properties\<close>

text \<open>Keys are order-independent: the formatted key of a compilation is the same for every order
  of its files, of its dependencies and of its options.\<close>

lemma cache_key_order:
  assumes "mset fs = mset fs'" and "distinct (map pf_path fs)"
    and "mset ds = mset ds'" and "distinct (map dep_order ds)"
    and "gm_ok opts" and "mset opts = mset opts'"
  shows "format_cache_key sha (generate_cache_key sha mo v lang plugin fs ds opts) =
    format_cache_key sha (generate_cache_key sha mo v lang plugin fs' ds' opts')"
proof -
  have "sort_key dep_order ds = sort_key dep_order ds'" using assms(3,4) by (rule sort_key_perm)
  moreover have "opts = [] \<longleftrightarrow> opts' = []" using assms(6) by auto
  ultimately show ?thesis
    using files_bytes_perm [OF assms(1,2)] hash_options_perm [OF assms(5,6)]
    by (simp add: format_cache_key_def generate_cache_key_def key_parts_def generate_proto_hash_def)
qed

text \<open>Formatted keys do not collide: names without a colon are recovered from the string, and with
  them the two hashes.\<close>

lemma format_cache_key_inj:
  assumes "format_cache_key sha (generate_cache_key sha mo v lang plugin fs ds opts) =
      format_cache_key sha (generate_cache_key sha mo' v' lang' plugin' fs' ds' opts')"
    and "CHR '':'' \<notin> set (mo @ v @ lang @ plugin @ mo' @ v' @ lang' @ plugin')"
  shows "mo = mo' \<and> v = v' \<and> lang = lang' \<and> plugin = plugin' \<and>
    generate_proto_hash sha fs ds = generate_proto_hash sha fs' ds' \<and>
    hash_options sha opts = hash_options sha opts'"
proof -
  let ?parts = "\<lambda>mo v lang plugin fs ds opts. [mo, v, lang, plugin, generate_proto_hash sha fs ds] @
      (if opts \<noteq> [] then [hash_options sha opts] else [])"
  have hash: "CHR '':'' \<notin> set (generate_proto_hash sha fs ds)" for fs ds
    by (simp add: generate_proto_hash_def hex_no_colon)
  have "?parts mo v lang plugin fs ds opts = ?parts mo' v' lang' plugin' fs' ds' opts'"
  proof (rule join_strings_inj)
    show "join_strings [CHR '':''] (?parts mo v lang plugin fs ds opts) =
        join_strings [CHR '':''] (?parts mo' v' lang' plugin' fs' ds' opts')"
      using assms(1) unfolding format_cache_key_def generate_cache_key_def key_parts_def
      by (simp only: cache_key.select_convs)
  qed (use assms(2) hash hash_options_no_colon in \<open>auto split: if_splits\<close>)
  then show ?thesis by (auto simp: hash_options_def split: if_splits)
qed

text \<open>The proto hash does not separate files from dependencies: a file with path \<open>m\<close> and content
  \<open>v\<close> hashes like a dependency on module \<open>m\<close>, version \<open>v\<close>, without files.\<close>

lemma proto_hash_ambiguous:
  "generate_proto_hash sha [\<lparr>pf_path = m, pf_content = v, pf_hash = h\<rparr>] [] =
   generate_proto_hash sha [] [\<lparr>cd_module = m, cd_version = v, cd_files = []\<rparr>]"
  by (simp add: generate_proto_hash_def files_bytes_def file_bytes_def dep_bytes_def)

text \<open>\<open>CacheKey.String\<close>, which the caches use, is not the formatted key: two orders of the same
  options map give different strings, and different options give the same one.\<close>

lemma cache_key_string_unstable:
  "cache_key_string (generate_cache_key sha mo v lang plugin fs ds [(''a'', ''1''), (''b'', ''2'')]) \<noteq>
     cache_key_string (generate_cache_key sha mo v lang plugin fs ds [(''b'', ''2''), (''a'', ''1'')]) \<and>
   cache_key_string (generate_cache_key sha mo v lang plugin fs ds [(''output_directory'', ''x'')]) =
     cache_key_string (generate_cache_key sha mo v lang plugin fs ds [(''output_directory'', ''y'')])"
  by (simp add: cache_key_string_def generate_cache_key_def key_parts_def option_string_def)

end
