(* ===== verification/Codegen_Generator.thy ===== *)
theory Codegen_Generator
  imports Codegen_Keys
begin

text \<open>
  The code generator of \<open>pkg/codegen/generator.go\<close> with the language and package registries of
  \<open>languages.go\<close> and \<open>packages.go\<close>. Results are pointers in the code and the cache keeps the
  pointer that the first caller got, so results live in a heap and are named by addresses. Docker
  and the package generators are parameters of the environment, as is the time a call has taken.
\<close>

section \<open>Registries\<close>

record package_manager_spec =
  pm_name :: string
  pm_enabled :: bool

record language_spec =
  ls_id :: string
  ls_name :: string
  ls_enabled :: bool
  ls_docker_image :: string
  ls_docker_tag :: string
  ls_protoc_flags :: "string list"
  ls_supports_grpc :: bool
  ls_grpc_flags :: "string list"
  ls_plugin_version :: string
  ls_package_manager :: "package_manager_spec option"

type_synonym language_registry = "(string, language_spec) gomap"

definition register_language :: "language_spec \<Rightarrow> language_registry \<Rightarrow> language_registry" where
  "register_language spec reg = gm_put (ls_id spec) spec reg"

datatype gen_error =
  Request_Nil | No_Module_Name | No_Version | No_Proto_Files | No_Language
| Language_Not_Found string | Language_Disabled string | Compilation_Failed string
| Generator_Not_Found string | Package_Generator_Failed string | No_Languages | Language_Not_Supported string

fun gen_error_text :: "gen_error \<Rightarrow> string" where
  "gen_error_text Request_Nil = ''request cannot be nil''"
| "gen_error_text No_Module_Name = ''module name is required''"
| "gen_error_text No_Version = ''version is required''"
| "gen_error_text No_Proto_Files = ''no proto files provided''"
| "gen_error_text No_Language = ''language is required''"
| "gen_error_text (Language_Not_Found l) = ''language not found: '' @ l"
| "gen_error_text (Language_Disabled l) = ''language '' @ l @ '' is disabled''"
| "gen_error_text (Compilation_Failed e) = e"
| "gen_error_text (Generator_Not_Found n) = ''package generator not found: '' @ n"
| "gen_error_text (Package_Generator_Failed e) = e"
| "gen_error_text No_Languages = ''no languages specified''"
| "gen_error_text (Language_Not_Supported l) = ''language not supported: '' @ l"

definition get_language_spec :: "language_registry \<Rightarrow> string \<Rightarrow> gen_error + language_spec" where
  "get_language_spec reg l = (case gm_get reg l of None \<Rightarrow> Inl (Language_Not_Found l) | Some spec \<Rightarrow> Inr spec)"

definition default_language :: "string \<Rightarrow> string \<Rightarrow> string list \<Rightarrow> string list \<Rightarrow> string \<Rightarrow> string \<Rightarrow> language_spec" where
  "default_language i name pflags gflags plugin pm =
     \<lparr>ls_id = i, ls_name = name, ls_enabled = True, ls_docker_image = ''bufbuild/buf'',
      ls_docker_tag = ''latest'', ls_protoc_flags = pflags, ls_supports_grpc = True,
      ls_grpc_flags = gflags, ls_plugin_version = plugin,
      ls_package_manager = Some \<lparr>pm_name = pm, pm_enabled = True\<rparr>\<rparr>"

definition default_languages :: language_registry where
  "default_languages =
     fold register_language
       [default_language ''go'' ''Go'' [''--go_opt=paths=source_relative'']
          [''--go-grpc_opt=paths=source_relative''] ''v1.28.0'' ''gomod'',
        default_language ''python'' ''Python'' [] [] ''v4.21.0'' ''pip'',
        default_language ''java'' ''Java'' [] [] ''v3.21.0'' ''maven'',
        default_language ''typescript'' ''TypeScript'' [] [] ''v0.8.0'' ''npm''] []"

section \<open>Requests\<close>

record generate_request =
  gr_module :: string
  gr_version :: string
  gr_proto_files :: "proto_file list"
  gr_dependencies :: "cg_dependency list"
  gr_language :: string
  gr_include_grpc :: bool
  gr_options :: "(string, string) gomap"

record gen_config =
  gc_max_workers :: int
  gc_timeout :: int
  gc_enable_cache :: bool

definition default_gen_config :: gen_config where
  "default_gen_config = \<lparr>gc_max_workers = 5, gc_timeout = 5 * 60 * 10 ^ 9, gc_enable_cache = True\<rparr>"

record docker_request =
  dr_image :: string
  dr_tag :: string
  dr_proto_files :: "proto_file list"
  dr_flags :: "string list"
  dr_timeout :: int

record package_request =
  pr_module :: string
  pr_version :: string
  pr_language :: string
  pr_include_grpc :: bool
  pr_options :: "(string, string) gomap"

record gen_env =
  ge_languages :: language_registry
  ge_packages :: "(string, package_request \<Rightarrow> gen_error + generated_file list) gomap"
  ge_docker :: "docker_request \<Rightarrow> string + generated_file list \<times> int"
  ge_since :: int

definition register_package_generator ::
    "string \<Rightarrow> (package_request \<Rightarrow> gen_error + generated_file list) \<Rightarrow>
     (string, package_request \<Rightarrow> gen_error + generated_file list) gomap \<Rightarrow>
     (string, package_request \<Rightarrow> gen_error + generated_file list) gomap" where
  "register_package_generator name gen reg = gm_put name gen reg"

definition validate_request :: "generate_request option \<Rightarrow> gen_error + generate_request" where
  "validate_request req = (case req of
     None \<Rightarrow> Inl Request_Nil
   | Some r \<Rightarrow>
       if gr_module r = [] then Inl No_Module_Name
       else if gr_version r = [] then Inl No_Version
       else if gr_proto_files r = [] then Inl No_Proto_Files
       else if gr_language r = [] then Inl No_Language
       else Inr r)"

definition build_cache_key :: "sha_fun \<Rightarrow> generate_request \<Rightarrow> string" where
  "build_cache_key sha r = cache_key_string
     \<lparr>ck_module = gr_module r, ck_version = gr_version r, ck_language = gr_language r, ck_plugin = [],
      ck_proto_hash = hash_proto_files sha (gr_proto_files r) (gr_dependencies r),
      ck_options = gr_options r\<rparr>"

definition build_protoc_flags :: "language_spec \<Rightarrow> generate_request \<Rightarrow> string list" where
  "build_protoc_flags spec r =
     (let grpc = gr_include_grpc r \<and> ls_supports_grpc spec in
      if ls_id spec = ''go'' then
        ''--go_out=/output'' # ls_protoc_flags spec @
          (if grpc then ''--go-grpc_out=/output'' # ls_grpc_flags spec else [])
      else if ls_id spec = ''python'' then
        ''--python_out=/output'' # (if grpc then [''--grpc_python_out=/output''] else [])
      else if ls_id spec = ''java'' then
        ''--java_out=/output'' # (if grpc then [''--grpc-java_out=/output''] else [])
      else (''--'' @ ls_id spec @ ''_out=/output'') # ls_protoc_flags spec)"

definition generate_package_files :: "gen_env \<Rightarrow> language_spec \<Rightarrow> generate_request \<Rightarrow> gen_error + generated_file list" where
  "generate_package_files env spec r = (case ls_package_manager spec of
     None \<Rightarrow> Inr []
   | Some pm \<Rightarrow>
       (case gm_get (ge_packages env) (pm_name pm) of
          None \<Rightarrow> Inl (Generator_Not_Found (pm_name pm))
        | Some gen \<Rightarrow> gen \<lparr>pr_module = gr_module r, pr_version = gr_version r, pr_language = ls_id spec,
            pr_include_grpc = gr_include_grpc r, pr_options = gr_options r\<rparr>))"

section \<open>Generating\<close>

record gen_state =
  gs_heap :: "compilation_result list"
  gs_cache :: "(string, nat) gomap"

definition new_generator :: gen_state where
  "new_generator = \<lparr>gs_heap = [], gs_cache = []\<rparr>"

definition empty_result :: "string \<Rightarrow> compilation_result" where
  "empty_result lang = \<lparr>cr_success = False, cr_language = lang, cr_generated = [], cr_packages = [],
     cr_cache_hit = False, cr_duration = 0, cr_error = [], cr_s3_key = [], cr_s3_bucket = [],
     cr_artifact_hash = []\<rparr>"

type_synonym gen_outcome = "gen_state \<times> nat option \<times> gen_error option"

text \<open>Return a new result object, with or without an error.\<close>

definition give_result :: "compilation_result \<Rightarrow> gen_error option \<Rightarrow> gen_state \<Rightarrow> gen_outcome" where
  "give_result r err st = (st\<lparr>gs_heap := gs_heap st @ [r]\<rparr>, Some (length (gs_heap st)), err)"

definition add_packages :: "gen_env \<Rightarrow> language_spec \<Rightarrow> generate_request \<Rightarrow> compilation_result \<Rightarrow> compilation_result" where
  "add_packages env spec r res = (case ls_package_manager spec of
     None \<Rightarrow> res
   | Some _ \<Rightarrow>
       (case generate_package_files env spec r of
          Inl e \<Rightarrow> res\<lparr>cr_error := ''package generation warning: '' @ gen_error_text e\<rparr>
        | Inr fs \<Rightarrow> res\<lparr>cr_packages := fs\<rparr>))"

definition compile_request :: "sha_fun \<Rightarrow> gen_env \<Rightarrow> gen_config \<Rightarrow> generate_request \<Rightarrow> gen_state \<Rightarrow> gen_outcome" where
  "compile_request sha env cfg r st =
     (let res = empty_result (gr_language r) in
      case get_language_spec (ge_languages env) (gr_language r) of
        Inl e \<Rightarrow> give_result (res\<lparr>cr_error := ''language not supported: '' @ gr_language r,
                    cr_duration := ge_since env\<rparr>) (Some e) st
      | Inr spec \<Rightarrow>
          if \<not> ls_enabled spec then
            give_result (res\<lparr>cr_error := ''language '' @ gr_language r @ '' is disabled'',
              cr_duration := ge_since env\<rparr>) (Some (Language_Disabled (gr_language r))) st
          else
            (case ge_docker env \<lparr>dr_image = ls_docker_image spec, dr_tag = ls_docker_tag spec,
                   dr_proto_files = gr_proto_files r, dr_flags = build_protoc_flags spec r,
                   dr_timeout = gc_timeout cfg\<rparr> of
               Inl e \<Rightarrow> give_result (res\<lparr>cr_error := ''compilation failed: '' @ e,
                           cr_duration := ge_since env\<rparr>) (Some (Compilation_Failed e)) st
             | Inr (files, d) \<Rightarrow>
                 (let (st', a, err) = give_result (add_packages env spec r
                        (res\<lparr>cr_generated := files, cr_duration := d, cr_success := True\<rparr>)) None st
                  in if gc_enable_cache cfg
                     then (st'\<lparr>gs_cache := gm_put (build_cache_key sha r) (the a) (gs_cache st')\<rparr>, a, err)
                     else (st', a, err))))"

definition cache_hit :: "gen_env \<Rightarrow> nat \<Rightarrow> gen_state \<Rightarrow> gen_outcome" where
  "cache_hit env a st =
     (st\<lparr>gs_heap := (gs_heap st)[a := (gs_heap st ! a)\<lparr>cr_cache_hit := True, cr_duration := ge_since env\<rparr>]\<rparr>,
      Some a, None)"

definition generate_code ::
    "sha_fun \<Rightarrow> gen_env \<Rightarrow> gen_config option \<Rightarrow> generate_request option \<Rightarrow> gen_state \<Rightarrow> gen_outcome" where
  "generate_code sha env config req st =
     (let cfg = (case config of None \<Rightarrow> default_gen_config | Some c \<Rightarrow> c) in
      case validate_request req of
        Inl e \<Rightarrow> (st, None, Some e)
      | Inr r \<Rightarrow>
          (case (if gc_enable_cache cfg then gm_get (gs_cache st) (build_cache_key sha r) else None) of
             Some a \<Rightarrow> cache_hit env a st
           | None \<Rightarrow> compile_request sha env cfg r st))"

text \<open>
  Several languages at once: the third-party \<open>errgroup\<close> runs one call per language and returns the first error.
  The calls take effect one after the other, in an order of their positions that is an argument.
\<close>

definition run_language :: "sha_fun \<Rightarrow> gen_env \<Rightarrow> gen_config option \<Rightarrow> generate_request \<Rightarrow> string list \<Rightarrow> nat \<Rightarrow>
    gen_state \<times> nat option list \<times> gen_error option \<Rightarrow> gen_state \<times> nat option list \<times> gen_error option" where
  "run_language sha env config req languages i = (\<lambda>(st, results, first).
     let (st, a, e) = generate_code sha env config (Some (req\<lparr>gr_language := languages ! i\<rparr>)) st in
     (st, results[i := a], if first = None then e else first))"

definition generate_code_parallel :: "sha_fun \<Rightarrow> gen_env \<Rightarrow> gen_config option \<Rightarrow> generate_request \<Rightarrow> string list \<Rightarrow>
    nat list \<Rightarrow> gen_state \<Rightarrow> gen_state \<times> nat option list \<times> gen_error option" where
  "generate_code_parallel sha env config req languages order st =
     (if languages = [] then (st, [], Some No_Languages)
      else (case find (\<lambda>l. gm_get (ge_languages env) l = None) languages of
          Some l \<Rightarrow> (st, [], Some (Language_Not_Supported l))
        | None \<Rightarrow> fold (run_language sha env config req languages) order (st, replicate (length languages) None, None)))"

section \<open>Properties\<close>

text \<open>What the cache holds: addresses of successful results.\<close>

definition cache_sound :: "gen_state \<Rightarrow> bool" where
  "cache_sound st \<longleftrightarrow> gm_ok (gs_cache st) \<and>
     list_all (\<lambda>(k, a). a < length (gs_heap st) \<and> cr_success (gs_heap st ! a)) (gs_cache st)"

lemma cache_sound_get:
  "cache_sound st \<Longrightarrow> gm_get (gs_cache st) k = Some a \<Longrightarrow> a < length (gs_heap st) \<and> cr_success (gs_heap st ! a)"
  by (auto simp: cache_sound_def list_all_iff dest!: map_of_SomeD)

lemma cache_sound_iff: "cache_sound st \<longleftrightarrow> gm_ok (gs_cache st) \<and>
    (\<forall>k a. gm_get (gs_cache st) k = Some a \<longrightarrow> a < length (gs_heap st) \<and> cr_success (gs_heap st ! a))"
  by (auto simp: cache_sound_def list_all_iff gm_get_iff)

lemma add_packages_success: "cr_success (add_packages env spec r res) = cr_success res"
  by (simp add: add_packages_def split: option.splits sum.splits)

lemma cache_sound_give:
  assumes "cache_sound st" and "give_result r err st = (st', a, e)"
  shows "cache_sound st' \<and> a = Some (length (gs_heap st)) \<and> gs_heap st' = gs_heap st @ [r] \<and> gs_cache st' = gs_cache st"
proof -
  have "cache_sound (st\<lparr>gs_heap := gs_heap st @ [r]\<rparr>)"
    using assms(1) cache_sound_get [OF assms(1)]
    unfolding cache_sound_iff [of "st\<lparr>gs_heap := gs_heap st @ [r]\<rparr>"]
    by (simp add: cache_sound_def nth_append) (meson less_SucI)
  then show ?thesis using assms(2) by (auto simp: give_result_def)
qed

lemma cache_sound_store:
  assumes "cache_sound st" and "a < length (gs_heap st)" and "cr_success (gs_heap st ! a)"
  shows "cache_sound (st\<lparr>gs_cache := gm_put k a (gs_cache st)\<rparr>)"
  using assms cache_sound_get [OF assms(1)] unfolding cache_sound_iff [of "st\<lparr>gs_cache := _\<rparr>"]
  by (simp add: cache_sound_def gm_get_put)

lemma compile_request_sound:
  assumes "cache_sound st" and "compile_request sha env cfg r st = (st', a, err)"
  shows "cache_sound st'"
proof -
  have given: "cache_sound s" if "give_result res e st = (s, b, e')" for res e s b e'
    using cache_sound_give [OF assms(1) that] by simp
  have stored: "cache_sound (s\<lparr>gs_cache := gm_put k (the b) (gs_cache s)\<rparr>)"
    if "give_result res e st = (s, b, e')" and "cr_success res" for res e s b e' k
    using cache_sound_give [OF assms(1) that(1)] that(2) by (intro cache_sound_store) auto
  show ?thesis
    using assms(2) unfolding compile_request_def Let_def
    by (auto split: sum.splits if_splits prod.splits dest: given
        intro: stored simp: add_packages_success)
qed

lemma cache_hit_sound:
  assumes "cache_sound st" and "gm_get (gs_cache st) k = Some a0" and "cache_hit env a0 st = (st', a, err)"
  shows "cache_sound st'"
  using assms cache_sound_get [OF assms(1,2)]
  by (auto simp: cache_hit_def cache_sound_iff nth_list_update)

lemma generate_code_sound:
  assumes "cache_sound st"
  shows "cache_sound (fst (generate_code sha env config req st))"
proof (cases "generate_code sha env config req st")
  case (fields st' a err)
  then show ?thesis
    using assms compile_request_sound [OF assms] cache_hit_sound [OF assms]
    unfolding generate_code_def Let_def
    by (auto split: sum.splits option.splits if_splits)
qed

text \<open>Whatever calls a generator serves, its cache only ever holds results of successful
  compilations: no failure and no disabled language is replayed.\<close>

lemma generator_cache_sound:
  "cache_sound (fold (\<lambda>(env, config, req) st. fst (generate_code sha env config req st)) calls new_generator)"
proof -
  have "cache_sound new_generator" by (simp add: cache_sound_def new_generator_def)
  then show ?thesis
    by (rule fold_invariant [where P = cache_sound and Q = "\<lambda>_. True", rotated])
      (auto simp: generate_code_sound)
qed

lemma cached_entry_served:
  assumes "generate_code sha env config (Some r) st = (st', Some a, None)" and "cache_sound st"
    and "config = None \<or> gc_enable_cache (the config)"
    and "validate_request (Some r') = Inr r'" and "build_cache_key sha r' = build_cache_key sha r"
  shows "generate_code sha env' config (Some r') st' =
    (st'\<lparr>gs_heap := (gs_heap st')[a := (gs_heap st' ! a)\<lparr>cr_cache_hit := True, cr_duration := ge_since env'\<rparr>]\<rparr>,
     Some a, None)"
proof -
  let ?cfg = "case config of None \<Rightarrow> default_gen_config | Some c \<Rightarrow> c"
  have on: "gc_enable_cache ?cfg" using assms(3) by (auto simp: default_gen_config_def split: option.splits)
  have valid: "validate_request (Some r) = Inr r"
    using assms(1) by (auto simp: generate_code_def validate_request_def split: if_splits)
  have "gm_get (gs_cache st') (build_cache_key sha r) = Some a"
  proof (cases "gm_get (gs_cache st) (build_cache_key sha r)")
    case (Some a0)
    then show ?thesis using assms(1) on valid by (auto simp: generate_code_def cache_hit_def)
  next
    case None
    then have "compile_request sha env ?cfg r st = (st', Some a, None)"
      using assms(1) on valid by (auto simp: generate_code_def Let_def)
    then show ?thesis
      using on by (auto simp: compile_request_def give_result_def Let_def gm_get_put
          split: sum.splits if_splits prod.splits)
  qed
  then show ?thesis using on assms(4,5) by (simp add: generate_code_def cache_hit_def)
qed

text \<open>The key leaves out whether gRPC code was asked for: once a request is cached, the request for
  the same module with the flag flipped gets the result that was compiled without (or with) it.\<close>

lemma grpc_flag_ignored_by_cache:
  assumes "generate_code sha env None (Some r) st = (st', Some a, None)" and "cache_sound st"
  shows "\<exists>st''. generate_code sha env' None (Some (r\<lparr>gr_include_grpc := \<not> gr_include_grpc r\<rparr>)) st' = (st'', Some a, None) \<and>
    cr_generated (gs_heap st'' ! a) = cr_generated (gs_heap st' ! a)"
proof -
  let ?r = "r\<lparr>gr_include_grpc := \<not> gr_include_grpc r\<rparr>"
  have "validate_request (Some r) = Inr r"
    using assms(1) by (auto simp: generate_code_def validate_request_def split: if_splits)
  then have valid: "validate_request (Some ?r) = Inr ?r"
    by (auto simp: validate_request_def split: if_splits)
  have key: "build_cache_key sha ?r = build_cache_key sha r" by (simp add: build_cache_key_def)
  show ?thesis
    using cached_entry_served [OF assms _ valid key, of env']
    by (cases "a < length (gs_heap st')") (auto simp: list_update_beyond)
qed

end
