(* ===== verification/Codegen_Cache.thy ===== *)
theory Codegen_Cache
  imports Codegen_Keys "HOL-Library.Word"
begin

text \<open>
  The in-memory result cache of \<open>pkg/codegen/cache/cache.go\<close>. The expirable LRU of a third-party
  library is the parameter \<open>ops\<close>; the counters are 64-bit and wrap.
\<close>

record 'l lru_ops =
  lru_get :: "'l \<Rightarrow> string \<Rightarrow> compilation_result option \<times> 'l"
  lru_add :: "'l \<Rightarrow> string \<Rightarrow> compilation_result \<Rightarrow> 'l"
  lru_remove :: "'l \<Rightarrow> string \<Rightarrow> 'l"
  lru_purge :: "'l \<Rightarrow> 'l"
  lru_len :: "'l \<Rightarrow> nat"
  lru_new :: "int \<Rightarrow> int \<Rightarrow> 'l"

record cache_config =
  cc_max_size :: int
  cc_ttl :: int

record cache_stats =
  cs_hits :: "64 word"
  cs_misses :: "64 word"
  cs_item_count :: int

record 'l memory_cache =
  mc_config :: cache_config
  mc_lru :: 'l
  mc_hits :: "64 word"
  mc_misses :: "64 word"

definition default_cache_config :: cache_config where
  "default_cache_config = \<lparr>cc_max_size = 100 * 1024 * 1024, cc_ttl = 5 * 60 * 10 ^ 9\<rparr>"

text \<open>Sizes are not negative, where Go's truncating division is \<open>div\<close>.\<close>

definition max_entries :: "cache_config \<Rightarrow> int" where
  "max_entries c = (let n = cc_max_size c div (100 * 1024) in if n < 10 then 10 else n)"

definition new_cache :: "'l lru_ops \<Rightarrow> cache_config option \<Rightarrow> 'l memory_cache" where
  "new_cache ops config =
     (let c = (case config of None \<Rightarrow> default_cache_config | Some c \<Rightarrow> c)
      in \<lparr>mc_config = c, mc_lru = lru_new ops (max_entries c) (cc_ttl c), mc_hits = 0, mc_misses = 0\<rparr>)"

definition mc_get :: "'l lru_ops \<Rightarrow> cache_key option \<Rightarrow> 'l memory_cache \<Rightarrow>
    'l memory_cache \<times> (cache_error + compilation_result)" where
  "mc_get ops key c = (case key of
     None \<Rightarrow> (c, Inl Invalid_Cache_Key)
   | Some k \<Rightarrow>
       (case lru_get ops (mc_lru c) (cache_key_string k) of
          (None, l) \<Rightarrow> (c\<lparr>mc_lru := l, mc_misses := mc_misses c + 1\<rparr>, Inl Cache_Miss)
        | (Some r, l) \<Rightarrow> (c\<lparr>mc_lru := l, mc_hits := mc_hits c + 1\<rparr>, Inr r)))"

definition mc_set :: "'l lru_ops \<Rightarrow> cache_key option \<Rightarrow> compilation_result option \<Rightarrow> 'l memory_cache \<Rightarrow>
    'l memory_cache \<times> (cache_error + unit)" where
  "mc_set ops key result c = (case key of
     None \<Rightarrow> (c, Inl Invalid_Cache_Key)
   | Some k \<Rightarrow>
       (case result of
          None \<Rightarrow> (c, Inl Result_Is_Nil)
        | Some r \<Rightarrow> (c\<lparr>mc_lru := lru_add ops (mc_lru c) (cache_key_string k) r\<rparr>, Inr ())))"

definition mc_delete :: "'l lru_ops \<Rightarrow> cache_key option \<Rightarrow> 'l memory_cache \<Rightarrow>
    'l memory_cache \<times> (cache_error + unit)" where
  "mc_delete ops key c = (case key of
     None \<Rightarrow> (c, Inl Invalid_Cache_Key)
   | Some k \<Rightarrow> (c\<lparr>mc_lru := lru_remove ops (mc_lru c) (cache_key_string k)\<rparr>, Inr ()))"

definition mc_invalidate :: "'l lru_ops \<Rightarrow> string \<Rightarrow> string \<Rightarrow> 'l memory_cache \<Rightarrow>
    'l memory_cache \<times> (cache_error + unit)" where
  "mc_invalidate ops m v c =
     (if m = [] \<or> v = [] then (c, Inl Module_And_Version_Required)
      else (c\<lparr>mc_lru := lru_purge ops (mc_lru c)\<rparr>, Inr ()))"

definition mc_close :: "'l lru_ops \<Rightarrow> 'l memory_cache \<Rightarrow> 'l memory_cache" where
  "mc_close ops c = c\<lparr>mc_lru := lru_purge ops (mc_lru c)\<rparr>"

definition mc_stats :: "'l lru_ops \<Rightarrow> 'l memory_cache \<Rightarrow> cache_stats" where
  "mc_stats ops c = \<lparr>cs_hits = mc_hits c, cs_misses = mc_misses c, cs_item_count = int (lru_len ops (mc_lru c))\<rparr>"

section \<open>Properties\<close>

datatype cache_call =
  Call_Get "cache_key option" | Call_Set "cache_key option" "compilation_result option"
| Call_Delete "cache_key option" | Call_Invalidate string string | Call_Close

fun cache_step :: "'l lru_ops \<Rightarrow> cache_call \<Rightarrow> 'l memory_cache \<Rightarrow> 'l memory_cache" where
  "cache_step ops (Call_Get k) c = fst (mc_get ops k c)"
| "cache_step ops (Call_Set k r) c = fst (mc_set ops k r c)"
| "cache_step ops (Call_Delete k) c = fst (mc_delete ops k c)"
| "cache_step ops (Call_Invalidate m v) c = fst (mc_invalidate ops m v c)"
| "cache_step ops Call_Close c = mc_close ops c"

fun is_lookup :: "cache_call \<Rightarrow> bool" where
  "is_lookup (Call_Get (Some k)) = True"
| "is_lookup c = False"

lemma cache_step_counts:
  "mc_hits (cache_step ops call c) + mc_misses (cache_step ops call c) =
     mc_hits c + mc_misses c + (if is_lookup call then 1 else 0)"
  by (cases "(ops, call, c)" rule: cache_step.cases)
    (auto simp: mc_get_def mc_set_def mc_delete_def mc_invalidate_def mc_close_def
      split: option.splits prod.splits)

text \<open>The counters account for every lookup: after any sequence of calls, hits plus misses is the
  number of lookups with a key, modulo 2 to the 64th, whatever the LRU evicts.\<close>

lemma cache_stats_account:
  "cs_hits (mc_stats ops (fold (cache_step ops) calls (new_cache ops config))) +
   cs_misses (mc_stats ops (fold (cache_step ops) calls (new_cache ops config))) =
   of_nat (length (filter is_lookup calls))"
proof -
  have "mc_hits (fold (cache_step ops) calls c) + mc_misses (fold (cache_step ops) calls c) =
      mc_hits c + mc_misses c + of_nat (length (filter is_lookup calls))" for c
    by (induction calls arbitrary: c) (auto simp: cache_step_counts)
  then show ?thesis by (simp add: mc_stats_def new_cache_def Let_def)
qed

end
