(* ===== verification/Rbac_Types.thy ===== *)
theory Rbac_Types
  imports Spoke_Prelude
begin

text \<open>
  The data of access control (\<open>pkg/rbac/types.go\<close>): permissions, roles, assignments, and the
  built-in roles and role templates. Identifiers are integers, times are nanoseconds.
\<close>

record permission =
  pm_resource :: string
  pm_action :: string

definition permission_string :: "permission \<Rightarrow> string" where
  "permission_string p = pm_resource p @ '':'' @ pm_action p"

datatype permission_scope = Scope_Organization | Scope_Module | Scope_Global

record rbac_role =
  rl_id :: int
  rl_name :: string
  rl_display :: string
  rl_description :: string
  rl_org :: "int option"
  rl_permissions :: "permission list"
  rl_parent :: "int option"
  rl_built_in :: bool
  rl_custom :: bool
  rl_created_at :: int
  rl_updated_at :: int
  rl_created_by :: "int option"

record user_role =
  ur_id :: int
  ur_user :: int
  ur_role :: int
  ur_scope :: permission_scope
  ur_resource :: "string option"
  ur_org :: "int option"
  ur_granted_by :: "int option"
  ur_granted_at :: int
  ur_expires :: "int option"

record team_member =
  tm_id :: int
  tm_team :: int
  tm_user :: int
  tm_role :: "int option"
  tm_added_at :: int
  tm_added_by :: "int option"

record team_role =
  tr_id :: int
  tr_team :: int
  tr_role :: int
  tr_scope :: permission_scope
  tr_resource :: "string option"
  tr_org :: "int option"
  tr_granted_by :: "int option"
  tr_granted_at :: int

record permission_check =
  pc_user :: int
  pc_permission :: permission
  pc_scope :: permission_scope
  pc_resource :: "string option"
  pc_org :: "int option"

record check_outcome =
  co_allowed :: bool
  co_reason :: string
  co_matched :: "string list"
  co_checked_at :: int

record permission_cache_entry =
  pe_user :: int
  pe_permission :: string
  pe_scope :: permission_scope
  pe_resource :: "string option"
  pe_org :: "int option"
  pe_allowed :: bool
  pe_expires :: int
  pe_created :: int

record role_template =
  rt_name :: string
  rt_display :: string
  rt_description :: string
  rt_permissions :: "permission list"

section \<open>Built-in roles\<close>

definition perms :: "(string \<times> string list) list \<Rightarrow> permission list" where
  "perms table = concat (map (\<lambda>(r, as). map (\<lambda>a. \<lparr>pm_resource = r, pm_action = a\<rparr>) as) table)"

definition built_in_role :: "string \<Rightarrow> string \<Rightarrow> string \<Rightarrow> permission list \<Rightarrow> rbac_role" where
  "built_in_role n display descr ps =
     \<lparr>rl_id = 0, rl_name = n, rl_display = display, rl_description = descr, rl_org = None,
      rl_permissions = ps, rl_parent = None, rl_built_in = True, rl_custom = False,
      rl_created_at = 0, rl_updated_at = 0, rl_created_by = None\<rparr>"

definition org_admin :: rbac_role where
  "org_admin = built_in_role ''org:admin'' ''Organization Admin'' ''Full access to organization resources''
     (perms [(''module'', [''create'', ''read'', ''update'', ''delete'']),
             (''version'', [''publish'', ''read'', ''deprecate'']),
             (''documentation'', [''read'', ''update'']), (''settings'', [''read'', ''update'']),
             (''user'', [''invite'', ''remove'', ''update_role'']),
             (''role'', [''create'', ''read'', ''update'', ''delete'']),
             (''team'', [''create'', ''read'', ''update'', ''delete''])])"

definition org_developer :: rbac_role where
  "org_developer = built_in_role ''org:developer'' ''Organization Developer'' ''Can create and update modules''
     (perms [(''module'', [''create'', ''read'', ''update'']), (''version'', [''publish'', ''read'']),
             (''documentation'', [''read'', ''update''])])"

definition org_viewer :: rbac_role where
  "org_viewer = built_in_role ''org:viewer'' ''Organization Viewer'' ''Read-only access to organization resources''
     (perms [(''module'', [''read'']), (''version'', [''read'']), (''documentation'', [''read''])])"

definition module_owner :: rbac_role where
  "module_owner = built_in_role ''module:owner'' ''Module Owner'' ''Full access to a specific module''
     (perms [(''module'', [''read'', ''update'', ''delete'']), (''version'', [''publish'', ''read'', ''deprecate'']),
             (''documentation'', [''read'', ''update''])])"

definition module_contributor :: rbac_role where
  "module_contributor = built_in_role ''module:contributor'' ''Module Contributor''
     ''Can push versions to a specific module''
     (perms [(''module'', [''read'']), (''version'', [''publish'', ''read'']), (''documentation'', [''read''])])"

definition module_viewer :: rbac_role where
  "module_viewer = built_in_role ''module:viewer'' ''Module Viewer'' ''Read-only access to a specific module''
     (perms [(''module'', [''read'']), (''version'', [''read'']), (''documentation'', [''read''])])"

definition built_in_roles :: "rbac_role list" where
  "built_in_roles = [org_admin, org_developer, org_viewer, module_owner, module_contributor, module_viewer]"

definition common_role_templates :: "role_template list" where
  "common_role_templates =
     [\<lparr>rt_name = ''ci-bot'', rt_display = ''CI/CD Bot'', rt_description = ''Automated CI/CD pipeline access'',
       rt_permissions = perms [(''module'', [''read'']), (''version'', [''publish'', ''read''])]\<rparr>,
      \<lparr>rt_name = ''auditor'', rt_display = ''Auditor'', rt_description = ''Read-only access for auditing purposes'',
       rt_permissions = perms [(''module'', [''read'']), (''version'', [''read'']),
         (''documentation'', [''read'']), (''settings'', [''read''])]\<rparr>,
      \<lparr>rt_name = ''docs-manager'', rt_display = ''Documentation Manager'',
       rt_description = ''Can manage documentation for modules'',
       rt_permissions = perms [(''module'', [''read'']), (''version'', [''read'']),
         (''documentation'', [''read'', ''update''])]\<rparr>]"

end
