(* ===== verification/Rbac_Checker.thy ===== *)
theory Rbac_Checker
  imports Rbac_Types
begin

text \<open>
  Permission checking (\<open>pkg/rbac/checker.go\<close> and the reads of \<open>store.go\<close> it uses). The database is
  a record of tables; a query is the filter its SQL text describes, with SQL's rule that nothing
  equals NULL. The database is taken to answer every query. Resolving role inheritance recurses on
  the parent without a bound, so its value is \<open>None\<close> when the code would not return.
\<close>

record rbac_db =
  db_roles :: "rbac_role list"
  db_user_roles :: "user_role list"
  db_team_members :: "team_member list"
  db_team_roles :: "team_role list"
  db_cache :: "permission_cache_entry list"

datatype rbac_error = Role_Not_Found int | Parent_Role rbac_error | Inheritance rbac_error

text \<open>\<open>column = $n\<close> for nullable values, which is not true when either is NULL.\<close>

definition sql_eq :: "'a option \<Rightarrow> 'a option \<Rightarrow> bool" where
  "sql_eq a b \<longleftrightarrow> a \<noteq> None \<and> a = b"

definition get_role :: "rbac_db \<Rightarrow> int \<Rightarrow> rbac_error + rbac_role" where
  "get_role db i = (case find (\<lambda>r. rl_id r = i) (db_roles db) of
     None \<Rightarrow> Inl (Role_Not_Found i) | Some r \<Rightarrow> Inr r)"

text \<open>\<open>ORDER BY granted_at DESC\<close>.\<close>

definition store_get_user_roles :: "rbac_db \<Rightarrow> int \<Rightarrow> int \<Rightarrow> int option \<Rightarrow> user_role list" where
  "store_get_user_roles db now user org =
     sort_key (\<lambda>u. - ur_granted_at u)
       (filter (\<lambda>u. ur_user u = user \<and> (sql_eq (ur_org u) org \<or> ur_org u = None) \<and>
                   (case ur_expires u of None \<Rightarrow> True | Some t \<Rightarrow> t > now)) (db_user_roles db))"

definition get_user_team_roles :: "rbac_db \<Rightarrow> int \<Rightarrow> int option \<Rightarrow> rbac_role list" where
  "get_user_team_roles db user org =
     remdups (concat (map (\<lambda>r. concat (map (\<lambda>t. if tr_role t = rl_id r then
          concat (map (\<lambda>m. if tm_team m = tr_team t \<and> tm_user m = user \<and>
              (org = None \<or> sql_eq (rl_org r) org \<or> rl_org r = None) then [r] else []) (db_team_members db))
        else []) (db_team_roles db))) (db_roles db)))"

definition role_has_permission :: "rbac_role \<Rightarrow> permission \<Rightarrow> bool" where
  "role_has_permission role p \<longleftrightarrow>
     list_ex (\<lambda>q. pm_resource q = pm_resource p \<and> pm_action q = pm_action p) (rl_permissions role)"

definition role_scope_matches :: "rbac_role \<Rightarrow> permission_check \<Rightarrow> bool" where
  "role_scope_matches role check = True"

partial_function (option) resolve_role_inheritance ::
    "rbac_db \<Rightarrow> rbac_role \<Rightarrow> (rbac_error + rbac_role list) option" where
  "resolve_role_inheritance db role = (case rl_parent role of
     None \<Rightarrow> Some (Inr [role])
   | Some pid \<Rightarrow>
       (case get_role db pid of
          Inl e \<Rightarrow> Some (Inl (Parent_Role e))
        | Inr parent \<Rightarrow>
            Option.bind (resolve_role_inheritance db parent) (\<lambda>r.
              Some (rbind r (\<lambda>parents. Inr (role # parents))))))"

text \<open>The role map: roles assigned directly, those that exist, then those of the user's teams.\<close>

definition role_map :: "rbac_db \<Rightarrow> int \<Rightarrow> int \<Rightarrow> int option \<Rightarrow> (int, rbac_role) gomap" where
  "role_map db now user org =
     (let m = fold (\<lambda>u m. case get_role db (ur_role u) of Inl _ \<Rightarrow> m | Inr r \<Rightarrow> gm_put (rl_id r) r m)
                (store_get_user_roles db now user org) []
      in fold (\<lambda>r. gm_put (rl_id r) r) (get_user_team_roles db user org) m)"

fun resolve_all :: "rbac_db \<Rightarrow> rbac_role list \<Rightarrow> (rbac_error + rbac_role list) option" where
  "resolve_all db [] = Some (Inr [])"
| "resolve_all db (r # rs) =
     Option.bind (resolve_role_inheritance db r) (\<lambda>x.
       case x of Inl e \<Rightarrow> Some (Inl (Inheritance e))
       | Inr xs \<Rightarrow> Option.bind (resolve_all db rs) (\<lambda>y. Some (rbind y (\<lambda>ys. Inr (xs @ ys)))))"

definition get_user_roles :: "rbac_db \<Rightarrow> int \<Rightarrow> int \<Rightarrow> int option \<Rightarrow> (rbac_error + rbac_role list) option" where
  "get_user_roles db now user org = resolve_all db (map snd (role_map db now user org))"

definition permission_map :: "rbac_role list \<Rightarrow> (string, permission) gomap" where
  "permission_map roles = fold (\<lambda>p. gm_put (permission_string p) p) (concat (map rl_permissions roles)) []"

definition get_effective_permissions ::
    "rbac_db \<Rightarrow> int \<Rightarrow> int \<Rightarrow> int option \<Rightarrow> (rbac_error + permission list) option" where
  "get_effective_permissions db now user org =
     map_option (\<lambda>r. rbind r (\<lambda>roles. Inr (map snd (permission_map roles)))) (get_user_roles db now user org)"

section \<open>The cache of checks\<close>

record checker =
  ck_enabled :: bool
  ck_ttl :: int

definition new_permission_checker :: "int \<Rightarrow> checker" where
  "new_permission_checker ttl = \<lparr>ck_enabled = (ttl > 0), ck_ttl = ttl\<rparr>"

definition get_cached_permission :: "rbac_db \<Rightarrow> int \<Rightarrow> permission_check \<Rightarrow> permission_cache_entry option" where
  "get_cached_permission db now c =
     find (\<lambda>e. pe_user e = pc_user c \<and> pe_permission e = permission_string (pc_permission c) \<and>
               pe_scope e = pc_scope c \<and>
               (sql_eq (pe_resource e) (pc_resource c) \<or> pe_resource e = None \<and> pc_resource c = None) \<and>
               (sql_eq (pe_org e) (pc_org c) \<or> pe_org e = None \<and> pc_org c = None) \<and>
               pe_expires e > now) (db_cache db)"

definition same_cache_key :: "permission_cache_entry \<Rightarrow> permission_cache_entry \<Rightarrow> bool" where
  "same_cache_key e f \<longleftrightarrow> pe_user e = pe_user f \<and> pe_permission e = pe_permission f \<and> pe_scope e = pe_scope f \<and>
     (case pe_resource e of None \<Rightarrow> [] | Some s \<Rightarrow> s) = (case pe_resource f of None \<Rightarrow> [] | Some s \<Rightarrow> s) \<and>
     (case pe_org e of None \<Rightarrow> 0 | Some i \<Rightarrow> i) = (case pe_org f of None \<Rightarrow> 0 | Some i \<Rightarrow> i)"

text \<open>\<open>INSERT .. ON CONFLICT DO UPDATE\<close>.\<close>

definition upsert_cache :: "permission_cache_entry \<Rightarrow> permission_cache_entry list \<Rightarrow> permission_cache_entry list" where
  "upsert_cache e es =
     (if list_ex (same_cache_key e) es
      then map (\<lambda>f. if same_cache_key e f
              then f\<lparr>pe_allowed := pe_allowed e, pe_expires := pe_expires e, pe_created := pe_created e\<rparr> else f) es
      else es @ [e])"

definition cache_permission_result :: "checker \<Rightarrow> rbac_db \<Rightarrow> int \<Rightarrow> permission_check \<Rightarrow> bool \<Rightarrow> rbac_db" where
  "cache_permission_result pc db now c allowed =
     db\<lparr>db_cache := upsert_cache
          \<lparr>pe_user = pc_user c, pe_permission = permission_string (pc_permission c), pe_scope = pc_scope c,
           pe_resource = pc_resource c, pe_org = pc_org c, pe_allowed = allowed,
           pe_expires = now + ck_ttl pc, pe_created = now\<rparr> (db_cache db)\<rparr>"

definition invalidate_cache :: "checker \<Rightarrow> rbac_db \<Rightarrow> int \<Rightarrow> rbac_db" where
  "invalidate_cache pc db user =
     (if \<not> ck_enabled pc then db else db\<lparr>db_cache := filter (\<lambda>e. pe_user e \<noteq> user) (db_cache db)\<rparr>)"

definition decide :: "rbac_role list \<Rightarrow> permission_check \<Rightarrow> int \<Rightarrow> check_outcome" where
  "decide roles c now =
     (let matched = map rl_name (filter (\<lambda>r. role_has_permission r (pc_permission c) \<and> role_scope_matches r c) roles)
      in \<lparr>co_allowed = (matched \<noteq> []),
          co_reason = (if matched \<noteq> [] then ''granted by roles: ['' @ join_strings '' '' matched @ '']''
                       else ''no matching role found''),
          co_matched = matched, co_checked_at = now\<rparr>)"

definition check_permission ::
    "checker \<Rightarrow> rbac_db \<Rightarrow> int \<Rightarrow> permission_check \<Rightarrow> (rbac_error + check_outcome \<times> rbac_db) option" where
  "check_permission pc db now c =
     (case (if ck_enabled pc then get_cached_permission db now c else None) of
        Some e \<Rightarrow> Some (Inr (\<lparr>co_allowed = pe_allowed e, co_reason = ''cached result'', co_matched = [],
                              co_checked_at = now\<rparr>, db))
      | None \<Rightarrow>
          Option.bind (get_user_roles db now (pc_user c) (pc_org c)) (\<lambda>r.
            Some (rbind r (\<lambda>roles.
              let out = decide roles c now in
              Inr (out, if ck_enabled pc then cache_permission_result pc db now c (co_allowed out) else db)))))"

end
