(* ===== verification/Rbac_Props.thy ===== *)
theory Rbac_Props
  imports Rbac_Checker
begin

text \<open>What permission checks decide, when they return, and what the cache of checks changes.\<close>

section \<open>Inheritance\<close>

text \<open>The \<open>n\<close>-th ancestor of a role, if its parents exist that far.\<close>

fun ancestor :: "rbac_db \<Rightarrow> nat \<Rightarrow> rbac_role \<Rightarrow> rbac_role option" where
  "ancestor db 0 r = Some r"
| "ancestor db (Suc n) r = (case rl_parent r of
     None \<Rightarrow> None
   | Some pid \<Rightarrow> (case get_role db pid of Inl _ \<Rightarrow> None | Inr p \<Rightarrow> ancestor db n p))"

lemma bind_Some_None: "Option.bind x (\<lambda>r. Some (f r)) = None \<longleftrightarrow> x = None"
  by (cases x) auto

lemma resolve_returns: "ancestor db n r = None \<Longrightarrow> resolve_role_inheritance db r \<noteq> None"
proof (induction n arbitrary: r)
  case (Suc n)
  then show ?case
    by (subst resolve_role_inheritance.simps)
      (simp add: bind_Some_None del: not_None_eq split: option.splits sum.splits)
qed simp

lemma resolve_stops: "resolve_role_inheritance db r = Some x \<Longrightarrow> \<exists>n. ancestor db n r = None"
proof (induction rule: resolve_role_inheritance.raw_induct [rotated, consumes 1])
  case (1 rec db role r)
  then show ?case
  proof (cases "rl_parent role")
    case None
    then have "ancestor db (Suc 0) role = None" by simp
    then show ?thesis by blast
  next
    case (Some pid)
    show ?thesis
    proof (cases "get_role db pid")
      case (Inl e)
      then have "ancestor db (Suc 0) role = None" using Some by simp
      then show ?thesis by blast
    next
      case (Inr p)
      then obtain y where "rec db p = Some y" using 1 Some by (auto simp: bind_eq_Some_conv)
      then obtain n where "ancestor db n p = None" using 1 by blast
      then have "ancestor db (Suc n) role = None" using Some Inr by simp
      then show ?thesis by blast
    qed
  qed
qed

text \<open>Resolving a role's inheritance does not return exactly when its chain of parents never ends,
  as it does after a role has been made its own ancestor.\<close>

lemma resolve_diverges_iff:
  "resolve_role_inheritance db r = None \<longleftrightarrow> (\<forall>n. ancestor db n r \<noteq> None)"
  using resolve_returns resolve_stops by (cases "resolve_role_inheritance db r") blast+

lemma resolve_same:
  assumes "get_role db = get_role db'"
  shows "resolve_role_inheritance db r = resolve_role_inheritance db' r"
proof -
  have anc: "ancestor db n q = ancestor db' n q" for n q
    using assms by (induction n arbitrary: q) (auto split: option.splits sum.splits)
  show ?thesis
  proof (cases "\<exists>n. ancestor db n r = None")
    case True
    then obtain n where "ancestor db n r = None" by blast
    then show ?thesis
    proof (induction n arbitrary: r)
      case (Suc n)
      then show ?case
        using assms by (subst (1 2) resolve_role_inheritance.simps) (auto split: option.splits sum.splits)
    qed simp
  next
    case False
    then have "resolve_role_inheritance db r = None" "resolve_role_inheritance db' r = None"
      using resolve_stops anc by (metis not_None_eq)+
    then show ?thesis by simp
  qed
qed

text \<open>Roles a role stands for: itself and its ancestors.\<close>

lemma ancestor_split:
  "(\<exists>n. ancestor db n r = Some q) \<longleftrightarrow> q = r \<or> (\<exists>n. ancestor db (Suc n) r = Some q)"
  by (metis ancestor.simps(1) not0_implies_Suc option.inject)

lemma resolve_roles:
  assumes "resolve_role_inheritance db r = Some (Inr rs)"
  shows "set rs = {q. \<exists>n. ancestor db n r = Some q}"
proof -
  obtain n where "ancestor db n r = None" using resolve_stops [OF assms] by blast
  then show ?thesis using assms
  proof (induction n arbitrary: r rs)
    case (Suc n)
    note unfold = resolve_role_inheritance.simps [of db r]
    show ?case
    proof (cases "rl_parent r")
      case None
      then show ?thesis using Suc.prems unfolding ancestor_split [of db r] by (auto simp: unfold)
    next
      case (Some pid)
      then obtain p where p: "get_role db pid = Inr p" using Suc.prems by (auto simp: unfold split: sum.splits)
      then obtain ps where ps: "resolve_role_inheritance db p = Some (Inr ps)" "rs = r # ps"
        using Suc.prems Some by (auto simp: unfold bind_eq_Some_conv rbind_Inr_iff)
      moreover have "ancestor db n p = None" using Suc.prems(1) Some p by simp
      ultimately have "set ps = {q. \<exists>n. ancestor db n p = Some q}" using Suc.IH by blast
      then show ?thesis using ps(2) Some p unfolding ancestor_split [of db r] by auto
    qed
  qed simp
qed

section \<open>Decisions\<close>

text \<open>The roles a user holds: assigned and neither expired nor of another organization, or held by one
  of the user's teams.\<close>

definition assigned_roles :: "rbac_db \<Rightarrow> int \<Rightarrow> int \<Rightarrow> int option \<Rightarrow> rbac_role set" where
  "assigned_roles db now user org =
     {r. \<exists>u \<in> set (store_get_user_roles db now user org). get_role db (ur_role u) = Inr r} \<union>
     set (get_user_team_roles db user org)"

definition effective_roles :: "rbac_db \<Rightarrow> int \<Rightarrow> int \<Rightarrow> int option \<Rightarrow> rbac_role set" where
  "effective_roles db now user org = {q. \<exists>r \<in> assigned_roles db now user org. \<exists>n. ancestor db n r = Some q}"

lemma get_role_elem: "get_role db i = Inr r \<Longrightarrow> r \<in> set (db_roles db) \<and> rl_id r = i"
  by (auto simp: get_role_def find_Some_iff split: option.splits)

lemma team_roles_elem: "set (get_user_team_roles db user org) \<subseteq> set (db_roles db)"
  by (auto simp: get_user_team_roles_def split: if_splits)

text \<open>Storing roles under their ids loses none when ids are distinct.\<close>

lemma put_roles:
  assumes "inj_on rl_id S" and "set rs \<subseteq> S" and "gm_ok m" and "snd ` set m \<subseteq> S"
    and "list_all (\<lambda>(k, r). rl_id r = k) m"
  shows "let m' = fold (\<lambda>r. gm_put (rl_id r) r) rs m in gm_ok m' \<and> snd ` set m' = snd ` set m \<union> set rs \<and>
    list_all (\<lambda>(k, r). rl_id r = k) m'"
  using assms(2-5)
proof (induction rs arbitrary: m)
  case (Cons r rs)
  let ?m = "gm_put (rl_id r) r m"
  have ok: "gm_ok ?m" using Cons.prems by simp
  have mem: "(k, q) \<in> set ?m \<longleftrightarrow> (k, q) = (rl_id r, r) \<or> k \<noteq> rl_id r \<and> (k, q) \<in> set m" for k q
    unfolding gm_get_iff [OF ok, symmetric] using Cons.prems by (auto simp: gm_get_put gm_get_iff)
  have keys: "list_all (\<lambda>(k, r). rl_id r = k) ?m"
    using Cons.prems(4) by (auto simp: list_all_iff mem)
  have "q = r" if "(rl_id r, q) \<in> set m" for q
  proof -
    have "rl_id q = rl_id r" "q \<in> S" "r \<in> S"
      using that Cons.prems by (force simp: list_all_iff)+
    then show ?thesis using assms(1) by (simp add: inj_on_eq_iff)
  qed
  then have vals: "snd ` set ?m = insert r (snd ` set m)"
    using mem by (auto simp: image_iff) (metis snd_conv)+
  with Cons.IH [OF _ ok _ keys] Cons.prems show ?case by auto
qed simp

lemma role_map_roles:
  assumes "distinct (map rl_id (db_roles db))"
  shows "set (map snd (role_map db now user org)) = assigned_roles db now user org"
proof -
  let ?us = "store_get_user_roles db now user org"
  let ?direct = "concat (map (\<lambda>u. case get_role db (ur_role u) of Inl _ \<Rightarrow> [] | Inr r \<Rightarrow> [r]) ?us)"
  let ?put = "\<lambda>r. gm_put (rl_id r) r"
  have "fold (\<lambda>u m. case get_role db (ur_role u) of Inl _ \<Rightarrow> m | Inr r \<Rightarrow> ?put r m) us m =
      fold ?put (concat (map (\<lambda>u. case get_role db (ur_role u) of Inl _ \<Rightarrow> [] | Inr r \<Rightarrow> [r]) us)) m"
    for us :: "user_role list" and m
    by (induction us arbitrary: m) (auto split: sum.splits)
  then have "role_map db now user org = fold ?put (?direct @ get_user_team_roles db user org) []"
    unfolding role_map_def Let_def fold_append comp_apply by (simp only:)
  moreover have "inj_on rl_id (set (db_roles db))" using assms by (simp add: distinct_map)
  moreover have "set (?direct @ get_user_team_roles db user org) \<subseteq> set (db_roles db)"
    using team_roles_elem get_role_elem by (fastforce split: sum.splits)
  ultimately have "snd ` set (role_map db now user org) = set (?direct @ get_user_team_roles db user org)"
    using put_roles [of "set (db_roles db)" "?direct @ get_user_team_roles db user org" "[]"]
    by (simp add: Let_def)
  also have "\<dots> = assigned_roles db now user org"
    by (auto simp: assigned_roles_def split: sum.splits)
  finally show ?thesis by simp
qed

lemma resolve_all_roles:
  "resolve_all db rs = Some (Inr qs) \<Longrightarrow> set qs = {q. \<exists>r \<in> set rs. \<exists>n. ancestor db n r = Some q}"
proof (induction rs arbitrary: qs)
  case (Cons r rs)
  obtain xs ys where "resolve_role_inheritance db r = Some (Inr xs)" "resolve_all db rs = Some (Inr ys)"
    "qs = xs @ ys"
  proof -
    obtain y where y: "resolve_role_inheritance db r = Some y" using Cons.prems by (auto simp: bind_eq_Some_conv)
    then obtain xs where "y = Inr xs" using Cons.prems by (cases y) auto
    with y show thesis using Cons.prems that by (auto simp: bind_eq_Some_conv rbind_Inr_iff)
  qed
  with Cons.IH resolve_roles [of db r xs] show ?case by auto
qed simp


lemma sort_key_map:
  assumes "\<And>x. f (g x) = f x"
  shows "sort_key f (map g xs) = map g (sort_key f xs)"
proof -
  have "insort_key f (g x) (map g ys) = map g (insort_key f x ys)" for x ys
    using assms by (induction ys) auto
  then show ?thesis by (induction xs) auto
qed

text \<open>Scopes are not enforced: neither the scope and resource asked about nor those of any assignment
  change a computed decision, so a role granted for one module counts for every module.\<close>

lemma check_permission_ignores_scope:
  "ck_enabled pc = False \<Longrightarrow>
   map_option (map_sum id fst) (check_permission pc
     (db\<lparr>db_user_roles := map (\<lambda>u. u\<lparr>ur_scope := sc (ur_id u), ur_resource := re (ur_id u)\<rparr>) (db_user_roles db)\<rparr>)
     now (c\<lparr>pc_scope := s, pc_resource := rs\<rparr>)) =
   map_option (map_sum id fst) (check_permission pc db now c)"
proof -
  let ?f = "\<lambda>u. u\<lparr>ur_scope := sc (ur_id u), ur_resource := re (ur_id u)\<rparr>"
  let ?db = "db\<lparr>db_user_roles := map ?f (db_user_roles db)\<rparr>"
  assume off: "ck_enabled pc = False"
  have roles: "get_role ?db = get_role db" "get_user_team_roles ?db = get_user_team_roles db"
    by (simp_all add: get_role_def get_user_team_roles_def fun_eq_iff cong: if_cong)
  have users: "store_get_user_roles ?db t u o' = map ?f (store_get_user_roles db t u o')" for t u o'
    unfolding store_get_user_roles_def by (simp add: filter_map comp_def sort_key_map)
  have "fold (\<lambda>u m. case get_role db (ur_role u) of Inl _ \<Rightarrow> m | Inr r \<Rightarrow> gm_put (rl_id r) r m) (map ?f us) m =
      fold (\<lambda>u m. case get_role db (ur_role u) of Inl _ \<Rightarrow> m | Inr r \<Rightarrow> gm_put (rl_id r) r m) us m"
    for us :: "user_role list" and m
    by (induction us arbitrary: m) auto
  then have "role_map ?db t u o' = role_map db t u o'" for t u o'
    unfolding role_map_def users roles by simp
  moreover have "resolve_role_inheritance ?db r = resolve_role_inheritance db r" for r
    by (rule resolve_same [OF roles(1)])
  then have "resolve_all ?db rs = resolve_all db rs" for rs
    by (induction rs) auto
  ultimately have "get_user_roles ?db t u o' = get_user_roles db t u o'" for t u o'
    by (simp add: get_user_roles_def)
  moreover have "decide roles (c\<lparr>pc_scope := s, pc_resource := rs\<rparr>) now = decide roles c now" for roles
    by (simp add: decide_def role_scope_matches_def)
  ultimately show ?thesis
    using off by (cases "get_user_roles db now (pc_user c) (pc_org c)")
      (auto simp: check_permission_def rbind_def Let_def split: sum.splits)
qed

section \<open>The cache\<close>

text \<open>No entry uses the two values that stand for NULL in the index of the cache table.\<close>

definition plain_scope :: "string option \<Rightarrow> int option \<Rightarrow> bool" where
  "plain_scope r i \<longleftrightarrow> r \<noteq> Some [] \<and> i \<noteq> Some 0"

definition plain_cache :: "rbac_db \<Rightarrow> bool" where
  "plain_cache db \<longleftrightarrow> list_all (\<lambda>e. plain_scope (pe_resource e) (pe_org e)) (db_cache db)"

lemma plain_key:
  "plain_scope (pe_resource e) (pe_org e) \<Longrightarrow> plain_scope (pe_resource f) (pe_org f) \<Longrightarrow>
   same_cache_key e f \<longleftrightarrow> pe_user e = pe_user f \<and> pe_permission e = pe_permission f \<and> pe_scope e = pe_scope f \<and>
     pe_resource e = pe_resource f \<and> pe_org e = pe_org f"
  by (auto simp: same_cache_key_def plain_scope_def split: option.splits)

lemma sql_eq_or_null: "sql_eq a b \<or> a = None \<and> b = None \<longleftrightarrow> a = b"
  by (auto simp: sql_eq_def)

lemma get_cached_after:
  assumes "plain_cache db" and "plain_scope (pc_resource c) (pc_org c)"
    and "now' < now + ck_ttl pc"
  shows "\<exists>e. get_cached_permission (cache_permission_result pc db now c allowed) now' c = Some e \<and> pe_allowed e = allowed"
proof -
  let ?e = "\<lparr>pe_user = pc_user c, pe_permission = permission_string (pc_permission c), pe_scope = pc_scope c,
           pe_resource = pc_resource c, pe_org = pc_org c, pe_allowed = allowed,
           pe_expires = now + ck_ttl pc, pe_created = now\<rparr>"
  let ?match = "\<lambda>f. pe_user f = pc_user c \<and> pe_permission f = permission_string (pc_permission c) \<and>
    pe_scope f = pc_scope c \<and> pe_resource f = pc_resource c \<and> pe_org f = pc_org c"
  have key: "same_cache_key ?e f \<longleftrightarrow> ?match f" if "f \<in> set (db_cache db)" for f
    using plain_key [of ?e f] that assms(1,2) by (auto simp: plain_cache_def list_all_iff)
  let ?es = "upsert_cache ?e (db_cache db)"
  have all: "pe_allowed f = allowed \<and> pe_expires f = now + ck_ttl pc" if "f \<in> set ?es" "?match f" for f
    using that key by (auto simp: upsert_cache_def list_ex_iff split: if_splits)
  have "\<exists>f \<in> set ?es. ?match f"
  proof (cases "list_ex (same_cache_key ?e) (db_cache db)")
    case True
    then obtain f where f: "f \<in> set (db_cache db)" "same_cache_key ?e f" by (auto simp: list_ex_iff)
    then have "?match (f\<lparr>pe_allowed := allowed, pe_expires := now + ck_ttl pc, pe_created := now\<rparr>)"
      using key by simp
    moreover have "f\<lparr>pe_allowed := allowed, pe_expires := now + ck_ttl pc, pe_created := now\<rparr> \<in> set ?es"
      using f True by (force simp: upsert_cache_def)
    ultimately show ?thesis by blast
  next
    case False
    then show ?thesis by (simp add: upsert_cache_def)
  qed
  then have "\<exists>f \<in> set ?es. ?match f \<and> pe_expires f > now'"
    using all assms(3) by metis
  then have "find (\<lambda>f. ?match f \<and> pe_expires f > now') ?es \<noteq> None"
    by (auto simp only: find_None_iff)
  then obtain e where e: "find (\<lambda>f. ?match f \<and> pe_expires f > now') ?es = Some e" by blast
  then have "e \<in> set ?es" "?match e" by (auto simp: find_Some_iff)
  then have "pe_allowed e = allowed" using all by blast
  moreover have "get_cached_permission (cache_permission_result pc db now c allowed) now' c = Some e"
    using e by (simp add: get_cached_permission_def cache_permission_result_def sql_eq_or_null conj_assoc)
  ultimately show ?thesis by blast
qed

text \<open>A decision stays in force for the cache's lifetime: after a check, the same check gives the same
  answer from the cache until it expires, whatever happened to roles and assignments meanwhile;
  invalidating the user's entries makes the next check compute its answer again.\<close>

lemma cached_decision_stale:
  assumes "ck_enabled pc" and "plain_cache db" and "plain_scope (pc_resource c) (pc_org c)"
    and "get_cached_permission db now c = None"
    and "check_permission pc db now c = Some (Inr (out, db'))"
    and "db_cache db'' = db_cache db'" and "now' < now + ck_ttl pc"
  shows "check_permission pc db'' now' c = Some (Inr (\<lparr>co_allowed = co_allowed out,
      co_reason = ''cached result'', co_matched = [], co_checked_at = now'\<rparr>, db'')) \<and>
    get_cached_permission (invalidate_cache pc db'' (pc_user c)) now' c = None"
proof
  have db': "db' = cache_permission_result pc db now c (co_allowed out)"
    using assms(1,4,5) by (auto simp: check_permission_def bind_eq_Some_conv rbind_Inr_iff Let_def)
  obtain e where "get_cached_permission db' now' c = Some e" "pe_allowed e = co_allowed out"
    using get_cached_after [OF assms(2,3,7), of "co_allowed out"] db' by blast
  moreover have "get_cached_permission db'' now' c = get_cached_permission db' now' c"
    using assms(6) by (simp add: get_cached_permission_def)
  ultimately show "check_permission pc db'' now' c = Some (Inr (\<lparr>co_allowed = co_allowed out,
      co_reason = ''cached result'', co_matched = [], co_checked_at = now'\<rparr>, db''))"
    using assms(1) by (simp add: check_permission_def)
  show "get_cached_permission (invalidate_cache pc db'' (pc_user c)) now' c = None"
    using assms(1) by (auto simp: get_cached_permission_def invalidate_cache_def find_None_iff)
qed

section \<open>Built-in roles\<close>

text \<open>The built-in roles form the documented hierarchy, with distinct names; the super-administrator
  role that the package names is not among them.\<close>

lemma built_in_hierarchy:
  "set (rl_permissions org_viewer) \<subseteq> set (rl_permissions org_developer) \<and>
   set (rl_permissions org_developer) \<subseteq> set (rl_permissions org_admin) \<and>
   set (rl_permissions module_viewer) \<subseteq> set (rl_permissions module_contributor) \<and>
   set (rl_permissions module_contributor) \<subseteq> set (rl_permissions module_owner) \<and>
   set (rl_permissions module_owner) \<subseteq> set (rl_permissions org_admin) \<and>
   distinct (map rl_name built_in_roles) \<and> ''system:superadmin'' \<notin> set (map rl_name built_in_roles)"
  by code_simp

section \<open>Witnesses\<close>

definition demo_user_role :: user_role where
  "demo_user_role = \<lparr>ur_id = 1, ur_user = 7, ur_role = 0, ur_scope = Scope_Module, ur_resource = Some ''billing'',
     ur_org = None, ur_granted_by = None, ur_granted_at = 0, ur_expires = None\<rparr>"

definition demo_db :: rbac_db where
  "demo_db = \<lparr>db_roles = [module_owner], db_user_roles = [demo_user_role], db_team_members = [],
     db_team_roles = [], db_cache = []\<rparr>"

definition demo_check :: permission_check where
  "demo_check = \<lparr>pc_user = 7, pc_permission = \<lparr>pm_resource = ''module'', pm_action = ''delete''\<rparr>,
     pc_scope = Scope_Module, pc_resource = Some ''payments'', pc_org = None\<rparr>"

lemma demo_roles: "get_user_roles demo_db now 7 None = Some (Inr [module_owner])"
proof -
  have "get_user_team_roles demo_db 7 None = []" by (simp add: get_user_team_roles_def demo_db_def)
  then have "role_map demo_db now 7 None = [(0, module_owner)]"
    by (simp add: role_map_def store_get_user_roles_def demo_db_def demo_user_role_def get_role_def
        module_owner_def built_in_role_def Let_def)
  moreover have "resolve_role_inheritance demo_db module_owner = Some (Inr [module_owner])"
    by (subst resolve_role_inheritance.simps) (simp add: module_owner_def built_in_role_def)
  ultimately show ?thesis by (simp add: get_user_roles_def)
qed

lemma demo_check_run:
  "\<exists>out db'. check_permission (new_permission_checker ttl) demo_db now demo_check = Some (Inr (out, db')) \<and> co_allowed out"
proof -
  have "co_allowed (decide [module_owner] demo_check now)"
    by (simp add: decide_def demo_check_def module_owner_def built_in_role_def perms_def role_has_permission_def
        role_scope_matches_def Let_def)
  moreover have "get_cached_permission demo_db now demo_check = None"
    by (simp add: get_cached_permission_def demo_db_def)
  ultimately show ?thesis
    using demo_roles [of now] by (simp add: check_permission_def demo_check_def Let_def)
qed


end
