(* ===== verification/Webhook_Delivery.thy ===== *)
theory Webhook_Delivery
  imports Spoke_Prelude
begin

text \<open>
  The delivery logs of \<open>pkg/webhooks/delivery.go\<close>: the bounded store, its eviction, its queries and
  statistics. The double loop that sorts by creation time is \<open>exchange_sort\<close>, with the comparison
  as its argument.
\<close>

section \<open>Logs\<close>

datatype delivery_status = Delivery_Pending | Delivery_Success | Delivery_Failed | Delivery_Retrying

record delivery_log =
  dl_id :: string
  dl_webhook :: string
  dl_event :: string
  dl_event_type :: string
  dl_url :: string
  dl_status :: delivery_status
  dl_status_code :: int
  dl_error :: string
  dl_attempts :: int
  dl_next_retry :: "int option"
  dl_created :: int
  dl_completed :: "int option"
  dl_duration :: int
  dl_headers :: "(string, string) gomap"
  dl_body :: string

record delivery_store =
  ds_logs :: "(string, delivery_log) gomap"
  ds_max :: int

definition new_delivery_store :: "int \<Rightarrow> delivery_store" where
  "new_delivery_store max_logs = \<lparr>ds_logs = [], ds_max = (if max_logs \<le> 0 then 1000 else max_logs)\<rparr>"

section \<open>Sorting by exchange\<close>

text \<open>One round of the outer loop: \<open>x\<close> is the element at position \<open>i\<close>, the list what follows it.\<close>

fun exchange :: "('a \<Rightarrow> 'a \<Rightarrow> bool) \<Rightarrow> 'a \<Rightarrow> 'a list \<Rightarrow> 'a \<times> 'a list" where
  "exchange swap x [] = (x, [])"
| "exchange swap x (y # ys) =
     (if swap x y then (let (z, zs) = exchange swap y ys in (z, x # zs))
      else (let (z, zs) = exchange swap x ys in (z, y # zs)))"

lemma exchange_length: "length (snd (exchange swap x ys)) = length ys"
  by (induction swap x ys rule: exchange.induct) (auto split: prod.splits)

function exchange_sort :: "('a \<Rightarrow> 'a \<Rightarrow> bool) \<Rightarrow> 'a list \<Rightarrow> 'a list" where
  "exchange_sort swap [] = []"
| "exchange_sort swap (x # xs) = (let (z, zs) = exchange swap x xs in z # exchange_sort swap zs)"
  by pat_completeness auto

termination exchange_sort
  by (relation "measure (\<lambda>(swap, xs). length xs)") (auto, metis exchange_length lessI snd_conv)

section \<open>The store\<close>

definition evict_count :: "delivery_log list \<Rightarrow> nat" where
  "evict_count logs = (let n = length logs div 10 in if n = 0 then 1 else n)"

definition evict_oldest :: "delivery_store \<Rightarrow> delivery_store" where
  "evict_oldest s =
     (let logs = exchange_sort (\<lambda>a b. dl_created a > dl_created b) (map snd (ds_logs s))
      in s\<lparr>ds_logs := fold (\<lambda>l. gm_del (dl_id l)) (take (evict_count logs) logs) (ds_logs s)\<rparr>)"

definition add_log :: "delivery_log \<Rightarrow> delivery_store \<Rightarrow> delivery_store" where
  "add_log l s =
     (let s = (if int (length (ds_logs s)) \<ge> ds_max s then evict_oldest s else s)
      in s\<lparr>ds_logs := gm_put (dl_id l) l (ds_logs s)\<rparr>)"

definition get_log :: "delivery_store \<Rightarrow> string \<Rightarrow> delivery_log option" where
  "get_log s i = gm_get (ds_logs s) i"

definition update_log :: "delivery_log \<Rightarrow> delivery_store \<Rightarrow> delivery_store" where
  "update_log l s = s\<lparr>ds_logs := gm_put (dl_id l) l (ds_logs s)\<rparr>"

definition get_by_webhook :: "delivery_store \<Rightarrow> string \<Rightarrow> int \<Rightarrow> delivery_log list" where
  "get_by_webhook s w limit =
     (let result = exchange_sort (\<lambda>a b. dl_created a < dl_created b)
                     (filter (\<lambda>l. dl_webhook l = w) (map snd (ds_logs s)))
      in if limit > 0 \<and> int (length result) > limit then take (nat limit) result else result)"

definition get_by_event :: "delivery_store \<Rightarrow> string \<Rightarrow> delivery_log list" where
  "get_by_event s e = filter (\<lambda>l. dl_event l = e) (map snd (ds_logs s))"

definition get_pending_retries :: "int \<Rightarrow> delivery_store \<Rightarrow> delivery_log list" where
  "get_pending_retries now s =
     filter (\<lambda>l. dl_status l = Delivery_Retrying \<and>
                 (case dl_next_retry l of None \<Rightarrow> False | Some t \<Rightarrow> t < now)) (map snd (ds_logs s))"

record delivery_stats =
  st_webhook :: string
  st_total :: int
  st_successful :: int
  st_failed :: int
  st_retrying :: int
  st_average :: int
  st_total_duration :: int

definition count_log :: "delivery_log \<Rightarrow> delivery_stats \<Rightarrow> delivery_stats" where
  "count_log l st =
     (let st = st\<lparr>st_total := st_total st + 1\<rparr>;
          st = (case dl_status l of
                  Delivery_Success \<Rightarrow> st\<lparr>st_successful := st_successful st + 1\<rparr>
                | Delivery_Failed \<Rightarrow> st\<lparr>st_failed := st_failed st + 1\<rparr>
                | Delivery_Retrying \<Rightarrow> st\<lparr>st_retrying := st_retrying st + 1\<rparr>
                | Delivery_Pending \<Rightarrow> st)
      in if dl_completed l \<noteq> None then st\<lparr>st_total_duration := st_total_duration st + dl_duration l\<rparr> else st)"

text \<open>Durations are not negative, where Go's division is \<open>div\<close>.\<close>

definition get_stats :: "delivery_store \<Rightarrow> string \<Rightarrow> delivery_stats" where
  "get_stats s w =
     (let st = fold count_log (filter (\<lambda>l. dl_webhook l = w) (map snd (ds_logs s)))
                 \<lparr>st_webhook = w, st_total = 0, st_successful = 0, st_failed = 0, st_retrying = 0,
                  st_average = 0, st_total_duration = 0\<rparr>
      in if st_successful st > 0 then st\<lparr>st_average := st_total_duration st div st_successful st\<rparr> else st)"

section \<open>Lemmas\<close>

lemma exchange_mset: "exchange swap x ys = (z, zs) \<Longrightarrow> mset (z # zs) = mset (x # ys)"
  by (induction swap x ys arbitrary: z zs rule: exchange.induct) (auto split: prod.splits if_splits)

lemma exchange_min:
  fixes f :: "'a \<Rightarrow> 'b :: linorder"
  shows "exchange (\<lambda>a b. f b < f a) x ys = (z, zs) \<Longrightarrow> \<forall>y \<in> set zs. f z \<le> f y"
proof (induction ys arbitrary: x z zs)
  case (Cons y ys)
  obtain u us where u: "exchange (\<lambda>a b. f b < f a) (if f y < f x then y else x) ys = (u, us)" by fastforce
  have "(if f y < f x then y else x) \<in> set (u # us)"
    using exchange_mset [OF u] by (metis list.set_intros(1) set_mset_mset)
  then have "f u \<le> f (if f y < f x then y else x)"
    using Cons.IH [OF u] by auto
  then show ?case using Cons.prems Cons.IH [OF u] u by (auto split: if_splits)
qed simp

lemma exchange_sort_mset: "mset (exchange_sort swap xs) = mset xs"
  by (induction swap xs rule: exchange_sort.induct) (auto split: prod.splits dest: exchange_mset)

lemma exchange_sort_sorted:
  fixes f :: "'a \<Rightarrow> 'b :: linorder"
  shows "sorted (map f (exchange_sort (\<lambda>a b. f b < f a) xs))"
proof (induction "\<lambda>a b. f b < f a" xs rule: exchange_sort.induct)
  case (2 x xs)
  obtain z zs where ex: "exchange (\<lambda>a b. f b < f a) x xs = (z, zs)" by fastforce
  have "set (exchange_sort (\<lambda>a b. f b < f a) zs) = set zs"
    by (metis exchange_sort_mset set_mset_mset)
  then show ?case using 2 ex exchange_min [OF ex] by auto
qed simp

definition store_wf :: "delivery_store \<Rightarrow> bool" where
  "store_wf s \<longleftrightarrow> gm_ok (ds_logs s) \<and> list_all (\<lambda>(k, l). dl_id l = k) (ds_logs s) \<and> ds_max s > 0"

lemma gm_get_dels: "gm_get (fold (\<lambda>l. gm_del (dl_id l)) ls m) k = (if k \<in> dl_id ` set ls then None else gm_get m k)"
  by (induction ls arbitrary: m) (auto simp: gm_get_del)

lemma gm_ok_dels: "gm_ok m \<Longrightarrow> gm_ok (fold (\<lambda>l. gm_del (dl_id l)) ls m)"
  by (induction ls arbitrary: m) auto

lemma store_wf_iff: "store_wf s \<longleftrightarrow> gm_ok (ds_logs s) \<and> ds_max s > 0 \<and>
    (\<forall>k l. gm_get (ds_logs s) k = Some l \<longrightarrow> dl_id l = k)"
  by (auto simp: store_wf_def list_all_iff gm_get_iff)

lemma store_wf_evict: "store_wf s \<Longrightarrow> store_wf (evict_oldest s)"
  by (auto simp: store_wf_iff evict_oldest_def Let_def gm_ok_dels gm_get_dels)

lemma store_wf_put: "store_wf s \<Longrightarrow> store_wf (s\<lparr>ds_logs := gm_put (dl_id l) l (ds_logs s)\<rparr>)"
  by (auto simp: store_wf_iff gm_get_put)

lemma length_put_le: "length (gm_put k v m) \<le> Suc (length m)"
  by (induction m) auto

lemma length_dels_le: "length (fold (\<lambda>l. gm_del (dl_id l)) ls m) \<le> length m"
proof (induction ls arbitrary: m)
  case (Cons a ls)
  then show ?case using length_delete_le [of "dl_id a" m] by (metis fold_simps(2) order_trans)
qed simp

lemma evict_shorter:
  assumes "store_wf s" and "ds_logs s \<noteq> []"
  shows "length (ds_logs (evict_oldest s)) < length (ds_logs s)"
proof -
  let ?logs = "exchange_sort (\<lambda>a b. dl_created a > dl_created b) (map snd (ds_logs s))"
  have "set ?logs = set (map snd (ds_logs s))" by (metis exchange_sort_mset set_mset_mset)
  moreover have "?logs \<noteq> []" using assms(2) exchange_sort_mset [of _ "map snd (ds_logs s)"] by (metis map_is_Nil_conv mset_zero_iff)
  moreover have "evict_count ?logs > 0" by (simp add: evict_count_def Let_def)
  ultimately obtain o1 os where old: "take (evict_count ?logs) ?logs = o1 # os" and "o1 \<in> set (map snd (ds_logs s))"
    by (cases ?logs; cases "evict_count ?logs") auto
  then have "dl_id o1 \<in> set (map fst (ds_logs s))"
    using assms(1) by (force simp: store_wf_def list_all_iff)
  then have "length (gm_del (dl_id o1) (ds_logs s)) < length (ds_logs s)"
    by (auto simp: AList.delete_eq intro!: length_filter_less)
  moreover have "ds_logs (evict_oldest s) = fold (\<lambda>l. gm_del (dl_id l)) os (gm_del (dl_id o1) (ds_logs s))"
    using old by (simp add: evict_oldest_def Let_def)
  ultimately show ?thesis using length_dels_le by (metis le_less_trans)
qed

lemma evict_oldest_get:
  assumes "store_wf s"
  obtains old where "set old \<subseteq> set (map snd (ds_logs s))" and "distinct (map dl_id old)"
    and "\<And>k. gm_get (ds_logs (evict_oldest s)) k = (if k \<in> dl_id ` set old then None else gm_get (ds_logs s) k)"
    and "\<And>o' l. o' \<in> set old \<Longrightarrow> l \<in> set (map snd (ds_logs s)) \<Longrightarrow> l \<notin> set old \<Longrightarrow> dl_created o' \<le> dl_created l"
proof -
  let ?logs = "exchange_sort (\<lambda>a b. dl_created a > dl_created b) (map snd (ds_logs s))"
  let ?old = "take (evict_count ?logs) ?logs"
  have perm: "mset ?logs = mset (map snd (ds_logs s))" by (rule exchange_sort_mset)
  then have set: "set ?logs = set (map snd (ds_logs s))" by (metis set_mset_mset)
  have ids: "map dl_id (map snd (ds_logs s)) = map fst (ds_logs s)"
    using assms by (auto simp: store_wf_def list_all_iff)
  have "mset (map dl_id ?logs) = mset (map dl_id (map snd (ds_logs s)))" using perm by (metis mset_map)
  then have dist: "distinct (map dl_id ?logs)"
    using ids assms unfolding store_wf_def gm_ok_def by (metis mset_eq_imp_distinct_iff)
  have sorted: "sorted (map dl_created ?logs)" by (rule exchange_sort_sorted)
  show thesis
  proof (rule that [of ?old])
    show "set ?old \<subseteq> set (map snd (ds_logs s))" using set set_take_subset by metis
    show "distinct (map dl_id ?old)" using dist by (metis distinct_take take_map)
    show "gm_get (ds_logs (evict_oldest s)) k = (if k \<in> dl_id ` set ?old then None else gm_get (ds_logs s) k)" for k
      by (simp add: evict_oldest_def Let_def gm_get_dels)
    show "dl_created o' \<le> dl_created l"
      if "o' \<in> set ?old" "l \<in> set (map snd (ds_logs s))" "l \<notin> set ?old" for o' l
    proof -
      have "sorted (map dl_created ?old @ map dl_created (drop (evict_count ?logs) ?logs))"
        using sorted by (simp flip: map_append)
      moreover have "l \<in> set (drop (evict_count ?logs) ?logs)"
        using that(2,3) set by (metis Un_iff append_take_drop_id set_append)
      ultimately show ?thesis using that(1) by (auto simp: sorted_append)
    qed
  qed
qed

section \<open>Properties\<close>

text \<open>Adding a log keeps the store within its capacity: the new log is stored, the store holds no more
  than its maximum, and a log that had to go is no newer than any log that stays.\<close>

lemma add_log_bounded:
  assumes "store_wf s" and "int (length (ds_logs s)) \<le> ds_max s" and "get_log s (dl_id l) = None"
  shows "store_wf (add_log l s) \<and> get_log (add_log l s) (dl_id l) = Some l \<and>
    int (length (ds_logs (add_log l s))) \<le> ds_max s \<and>
    (\<forall>k1 k2 l1 l2. get_log s k1 = Some l1 \<longrightarrow> get_log (add_log l s) k1 = None \<longrightarrow>
       get_log s k2 = Some l2 \<longrightarrow> get_log (add_log l s) k2 \<noteq> None \<longrightarrow> dl_created l1 \<le> dl_created l2)"
proof (cases "int (length (ds_logs s)) \<ge> ds_max s")
  case False
  then have add: "add_log l s = s\<lparr>ds_logs := gm_put (dl_id l) l (ds_logs s)\<rparr>" by (simp add: add_log_def)
  have "length (gm_put (dl_id l) l (ds_logs s)) \<le> Suc (length (ds_logs s))" by (rule length_put_le)
  then show ?thesis
    using False assms store_wf_put [OF assms(1)] unfolding add get_log_def by (auto simp: gm_get_put)
next
  case True
  let ?e = "evict_oldest s"
  obtain old where old: "set old \<subseteq> set (map snd (ds_logs s))" "distinct (map dl_id old)" and
    get: "\<And>k. gm_get (ds_logs ?e) k = (if k \<in> dl_id ` set old then None else gm_get (ds_logs s) k)" and
    oldest: "\<And>o' l. o' \<in> set old \<Longrightarrow> l \<in> set (map snd (ds_logs s)) \<Longrightarrow> l \<notin> set old \<Longrightarrow> dl_created o' \<le> dl_created l"
    using evict_oldest_get [OF assms(1)] by metis
  have wf: "store_wf ?e" using assms(1) by (rule store_wf_evict)
  have add: "add_log l s = ?e\<lparr>ds_logs := gm_put (dl_id l) l (ds_logs ?e)\<rparr>" using True by (simp add: add_log_def Let_def)
  have "ds_logs s \<noteq> []" using True assms(1) by (auto simp: store_wf_def)
  with assms(1) have "length (ds_logs ?e) + 1 \<le> length (ds_logs s)" by (simp add: evict_shorter Suc_le_eq)
  moreover have "length (gm_put (dl_id l) l (ds_logs ?e)) \<le> Suc (length (ds_logs ?e))" by (rule length_put_le)
  moreover have "dl_created l1 \<le> dl_created l2"
    if "get_log s k1 = Some l1" "get_log (add_log l s) k1 = None" "get_log s k2 = Some l2"
      "get_log (add_log l s) k2 \<noteq> None" for k1 k2 l1 l2
  proof -
    have k: "dl_id l1 = k1" "dl_id l2 = k2" and mem: "l1 \<in> set (map snd (ds_logs s))" "l2 \<in> set (map snd (ds_logs s))"
      using that assms(1) by (force simp: get_log_def store_wf_iff dest: map_of_SomeD)+
    have "k1 \<in> dl_id ` set old" using that(1,2) unfolding add get_log_def by (auto simp: gm_get_put get split: if_splits)
    then obtain o1 where o1: "o1 \<in> set old" "dl_id o1 = k1" by auto
    then have "gm_get (ds_logs s) k1 = Some o1"
      using old(1) assms(1) by (fastforce simp: store_wf_def list_all_iff gm_get_iff)
    then have "l1 \<in> set old" using that(1) o1 by (simp add: get_log_def)
    moreover have "l2 \<notin> set old"
      using that(3,4) assms(3) k unfolding add get_log_def by (auto simp: gm_get_put get split: if_splits)
    ultimately show ?thesis using oldest mem by blast
  qed
  ultimately show ?thesis
    using wf store_wf_put [OF wf] assms(2) unfolding add get_log_def by (auto simp: gm_get_put)
qed

text \<open>Listing a webhook's logs gives its newest ones, newest first: what is returned, followed by what the
  limit cuts off, is all of them in descending order of creation.\<close>

lemma get_by_webhook_newest:
  "\<exists>rest. mset (get_by_webhook s w limit @ rest) = mset (filter (\<lambda>l. dl_webhook l = w) (map snd (ds_logs s))) \<and>
     sorted_wrt (\<lambda>a b. dl_created a \<ge> dl_created b) (get_by_webhook s w limit @ rest) \<and>
     length (get_by_webhook s w limit) =
       (let n = length (filter (\<lambda>l. dl_webhook l = w) (map snd (ds_logs s)))
        in if limit > 0 then min (nat limit) n else n)"
proof -
  let ?mine = "filter (\<lambda>l. dl_webhook l = w) (map snd (ds_logs s))"
  let ?all = "exchange_sort (\<lambda>a b. dl_created a < dl_created b) ?mine"
  have "(\<lambda>a b. dl_created a < dl_created b) = (\<lambda>a b. - dl_created b < - dl_created a)" by simp
  then have "sorted (map (\<lambda>l. - dl_created l) ?all)"
    using exchange_sort_sorted [of "\<lambda>l. - dl_created l" ?mine] by simp
  then have sorted: "sorted_wrt (\<lambda>a b. dl_created a \<ge> dl_created b) ?all"
    by (simp add: sorted_map)
  have perm: "mset ?all = mset ?mine" by (rule exchange_sort_mset)
  then have len: "length ?all = length ?mine" by (metis size_mset)
  show ?thesis
  proof (cases "limit > 0 \<and> int (length ?all) > limit")
    case True
    then have "get_by_webhook s w limit = take (nat limit) ?all" by (simp add: get_by_webhook_def Let_def)
    then show ?thesis using perm sorted len True
      by (intro exI [of _ "drop (nat limit) ?all"]) (simp add: Let_def min_def)
  next
    case False
    then have "get_by_webhook s w limit = ?all" by (simp only: get_by_webhook_def Let_def if_False)
    then show ?thesis using perm sorted len False by (intro exI [of _ "[]"]) (auto simp: Let_def)
  qed
qed

definition demo_log :: "string \<Rightarrow> int \<Rightarrow> delivery_log" where
  "demo_log i t = \<lparr>dl_id = i, dl_webhook = ''w'', dl_event = ''e'', dl_event_type = ''module.created'',
     dl_url = [], dl_status = Delivery_Pending, dl_status_code = 0, dl_error = [], dl_attempts = 0,
     dl_next_retry = None, dl_created = t, dl_completed = None, dl_duration = 0, dl_headers = [], dl_body = []\<rparr>"

end
