(* ===== verification/Webhook_Limiter.thy ===== *)
theory Webhook_Limiter
  imports Spoke_Prelude "HOL-Library.Signed_Division"
begin

text \<open>
  The per-webhook token buckets of \<open>pkg/webhooks/ratelimiter.go\<close>. Times are nanoseconds; the
  current time is an argument of every operation that reads the clock. \<open>None\<close> is the run-time
  panic of a division by a zero refill period.
\<close>

record token_bucket =
  tb_tokens :: int
  tb_max :: int
  tb_period :: int
  tb_last :: int

record rate_limiter =
  wr_buckets :: "(string, token_bucket) gomap"
  wr_max :: int
  wr_period :: int

definition new_rate_limiter :: "int \<Rightarrow> int \<Rightarrow> rate_limiter" where
  "new_rate_limiter max_requests period = \<lparr>wr_buckets = [], wr_max = max_requests, wr_period = period\<rparr>"

definition refill :: "int \<Rightarrow> token_bucket \<Rightarrow> token_bucket option" where
  "refill now b =
     (let elapsed = now - tb_last b in
      if elapsed \<ge> tb_period b then
        (if tb_period b = 0 then None
         else let periods = elapsed sdiv tb_period b
              in Some (b\<lparr>tb_tokens := min (tb_tokens b + periods) (tb_max b),
                         tb_last := tb_last b + periods * tb_period b\<rparr>))
      else Some b)"

definition take_token :: "int \<Rightarrow> token_bucket \<Rightarrow> (bool \<times> token_bucket) option" where
  "take_token now b = map_option (\<lambda>b.
     if tb_tokens b > 0 then (True, b\<lparr>tb_tokens := tb_tokens b - 1\<rparr>) else (False, b)) (refill now b)"

text \<open>The bucket a webhook gets on its first request.\<close>

definition bucket_for :: "int \<Rightarrow> rate_limiter \<Rightarrow> string \<Rightarrow> token_bucket" where
  "bucket_for now rl i = (case gm_get (wr_buckets rl) i of
     Some b \<Rightarrow> b
   | None \<Rightarrow> \<lparr>tb_tokens = wr_max rl, tb_max = wr_max rl, tb_period = wr_period rl, tb_last = now\<rparr>)"

definition allow_request :: "int \<Rightarrow> string \<Rightarrow> rate_limiter \<Rightarrow> (bool \<times> rate_limiter) option" where
  "allow_request now i rl = map_option (\<lambda>(ok, b). (ok, rl\<lparr>wr_buckets := gm_put i b (wr_buckets rl)\<rparr>))
     (take_token now (bucket_for now rl i))"

definition reset_limit :: "string \<Rightarrow> rate_limiter \<Rightarrow> rate_limiter" where
  "reset_limit i rl = rl\<lparr>wr_buckets := gm_del i (wr_buckets rl)\<rparr>"

definition get_remaining :: "int \<Rightarrow> string \<Rightarrow> rate_limiter \<Rightarrow> (int \<times> rate_limiter) option" where
  "get_remaining now i rl = (case gm_get (wr_buckets rl) i of
     None \<Rightarrow> Some (wr_max rl, rl)
   | Some b \<Rightarrow> map_option (\<lambda>b. (tb_tokens b, rl\<lparr>wr_buckets := gm_put i b (wr_buckets rl)\<rparr>)) (refill now b))"

section \<open>Requests over time\<close>

text \<open>Requests of one webhook at the given times: which are allowed.\<close>

fun run_requests :: "string \<Rightarrow> int list \<Rightarrow> rate_limiter \<Rightarrow> (bool list \<times> rate_limiter) option" where
  "run_requests i [] rl = Some ([], rl)"
| "run_requests i (t # ts) rl =
     Option.bind (allow_request t i rl) (\<lambda>(ok, rl').
       map_option (\<lambda>(oks, rl''). (ok # oks, rl'')) (run_requests i ts rl'))"

text \<open>What holds of a bucket opened at \<open>t0\<close> that has granted \<open>n\<close> requests by \<open>now\<close>.\<close>

definition bucket_inv :: "int \<Rightarrow> int \<Rightarrow> int \<Rightarrow> int \<Rightarrow> int \<Rightarrow> token_bucket \<Rightarrow> bool" where
  "bucket_inv m p t0 n now b \<longleftrightarrow> tb_max b = m \<and> tb_period b = p \<and> 0 \<le> tb_tokens b \<and> tb_tokens b \<le> m \<and>
     tb_last b \<le> now \<and> (\<exists>k \<ge> 0. tb_last b = t0 + k * p \<and> n + tb_tokens b \<le> m + k)"

lemma refill_inv:
  assumes "bucket_inv m p t0 n now b" and "now \<le> now'" and "0 < p" and "0 \<le> m"
  shows "\<exists>b'. refill now' b = Some b' \<and> bucket_inv m p t0 n now' b'"
proof (cases "now' - tb_last b \<ge> p")
  case False
  then show ?thesis using assms by (auto simp: refill_def bucket_inv_def Let_def)
next
  case True
  let ?q = "(now' - tb_last b) div p"
  have div: "(now' - tb_last b) sdiv tb_period b = ?q"
    using assms True by (simp add: bucket_inv_def signed_divide_int_def)
  have q: "0 \<le> ?q" using True assms(3) by (simp add: pos_imp_zdiv_nonneg_iff)
  have le: "tb_last b + ?q * p \<le> now'" using assms(3) mult_div_mod_eq [of p "now' - tb_last b"]
    by (smt (verit) mult.commute pos_mod_sign)
  obtain k where k: "k \<ge> 0" "tb_last b = t0 + k * p" "n + tb_tokens b \<le> m + k"
    using assms(1) by (auto simp: bucket_inv_def)
  have "refill now' b = Some (b\<lparr>tb_tokens := min (tb_tokens b + ?q) m, tb_last := tb_last b + ?q * p\<rparr>)"
    using assms True div by (simp add: refill_def bucket_inv_def Let_def)
  moreover have "bucket_inv m p t0 n now' (b\<lparr>tb_tokens := min (tb_tokens b + ?q) m, tb_last := tb_last b + ?q * p\<rparr>)"
    using assms q le k unfolding bucket_inv_def
    by (auto intro!: exI [of _ "k + ?q"] simp: distrib_right)
  ultimately show ?thesis by blast
qed

lemma take_token_inv:
  assumes "bucket_inv m p t0 n now b" and "now \<le> now'" and "0 < p" and "0 \<le> m"
  shows "\<exists>ok b'. take_token now' b = Some (ok, b') \<and> bucket_inv m p t0 (n + (if ok then 1 else 0)) now' b'"
proof -
  obtain b' where b': "refill now' b = Some b'" "bucket_inv m p t0 n now' b'"
    using refill_inv [OF assms] by blast
  show ?thesis
  proof (cases "tb_tokens b' > 0")
    case True
    then show ?thesis using b' by (auto simp: take_token_def bucket_inv_def)
  next
    case False
    then show ?thesis using b' by (auto simp: take_token_def)
  qed
qed

lemma run_requests_inv:
  assumes "gm_get (wr_buckets rl) i = Some b" and "bucket_inv m p t0 n now b"
    and "sorted (now # ts)" and "0 < p" and "0 \<le> m"
  shows "\<exists>oks rl' b'. run_requests i ts rl = Some (oks, rl') \<and> length oks = length ts \<and>
    bucket_inv m p t0 (n + int (length (filter (\<lambda>ok. ok) oks))) (last (now # ts)) b'"
  using assms
proof (induction ts arbitrary: rl b n now)
  case Nil
  then show ?case by auto
next
  case (Cons t ts)
  obtain ok b1 where take: "take_token t b = Some (ok, b1)"
    and b1: "bucket_inv m p t0 (n + (if ok then 1 else 0)) t b1"
    using take_token_inv [OF Cons.prems(2), of t] Cons.prems by auto
  let ?rl = "rl\<lparr>wr_buckets := gm_put i b1 (wr_buckets rl)\<rparr>"
  have allow: "allow_request t i rl = Some (ok, ?rl)"
    using Cons.prems(1) take by (simp add: allow_request_def bucket_for_def)
  have "gm_get (wr_buckets ?rl) i = Some b1" by (simp add: gm_get_put)
  from Cons.IH [OF this b1] Cons.prems(3-5) obtain oks rl' b' where
    "run_requests i ts ?rl = Some (oks, rl')" "length oks = length ts"
    "bucket_inv m p t0 (n + (if ok then 1 else 0) + int (length (filter (\<lambda>ok. ok) oks))) (last (t # ts)) b'"
    by (auto simp del: last.simps)
  then show ?case using allow by (auto simp: algebra_simps intro!: exI [of _ b'] split: if_splits)
qed

section \<open>Properties\<close>

text \<open>C12. The rate is one request per refill period, after an initial burst: requests of a webhook at
  times \<open>t, t1, .., tn\<close> are all answered, and at most the bucket size plus one per full period since
  the first are allowed.\<close>

theorem limiter_bound:
  assumes "0 < period" and "0 \<le> max_requests" and "sorted (t # ts)"
  shows "\<exists>oks rl. run_requests i (t # ts) (new_rate_limiter max_requests period) = Some (oks, rl) \<and>
    length oks = Suc (length ts) \<and>
    int (length (filter (\<lambda>ok. ok) oks)) \<le> max_requests + (last (t # ts) - t) div period"
proof -
  let ?rl = "new_rate_limiter max_requests period"
  let ?b = "bucket_for t ?rl i"
  have "bucket_inv max_requests period t 0 t ?b"
    using assms by (auto simp: bucket_inv_def bucket_for_def new_rate_limiter_def)
  then obtain ok b1 where take: "take_token t ?b = Some (ok, b1)"
    and b1: "bucket_inv max_requests period t (0 + (if ok then 1 else 0)) t b1"
    using take_token_inv [of max_requests period t 0 t ?b t] assms by blast
  let ?rl1 = "?rl\<lparr>wr_buckets := gm_put i b1 (wr_buckets ?rl)\<rparr>"
  have allow: "allow_request t i ?rl = Some (ok, ?rl1)"
    using take by (simp add: allow_request_def)
  have "gm_get (wr_buckets ?rl1) i = Some b1" by (simp add: gm_get_put)
  from run_requests_inv [OF this b1 assms(3,1,2)] obtain oks rl' b' where
    rest: "run_requests i ts ?rl1 = Some (oks, rl')" "length oks = length ts" and
    inv: "bucket_inv max_requests period t (0 + (if ok then 1 else 0) + int (length (filter (\<lambda>ok. ok) oks))) (last (t # ts)) b'"
    by blast
  let ?n = "int (length (filter (\<lambda>ok. ok) (ok # oks)))"
  obtain k where k: "tb_last b' = t + k * period" "tb_last b' \<le> last (t # ts)" "?n + tb_tokens b' \<le> max_requests + k"
    "0 \<le> tb_tokens b'"
    using inv by (auto simp: bucket_inv_def split: if_splits)
  have "k \<le> (last (t # ts) - t) div period"
    using k(1,2) assms(1) zdiv_mono1 [of "k * period" "last (t # ts) - t" period] by simp
  with k rest allow show ?thesis by auto
qed

text \<open>Webhooks do not share tokens: a request of one leaves what any other can still send as it was.\<close>

lemma limiter_isolation:
  assumes "allow_request now i rl = Some (ok, rl')" and "j \<noteq> i"
  shows "map_option fst (get_remaining t j rl') = map_option fst (get_remaining t j rl)"
  using assms by (auto simp: allow_request_def get_remaining_def gm_get_put option.map_comp comp_def
      split: option.splits)

theorem limiter_bound_witness:
  "\<exists>oks rl. run_requests ''w'' [0, 5, 61] (new_rate_limiter 1 60) = Some (oks, rl) \<and>
     int (length (filter (\<lambda>ok. ok) oks)) \<le> 2"
  using limiter_bound [of 60 1 0 "[5, 61]" "''w''"] by auto

end
