(* ===== verification/Webhook_Manager.thy ===== *)
theory Webhook_Manager
  imports Complex_Main Codegen_Keys Webhook_Delivery Webhook_Limiter
begin

text \<open>
  The webhook manager and the retry worker (\<open>pkg/webhooks/webhooks.go\<close>, \<open>retry.go\<close>). HTTP, JSON,
  HMAC and time formatting are the environment. One attempt to deliver is a function of the log;
  the goroutines of \<open>Dispatch\<close> are the list of attempts it starts. The float arithmetic of the
  back-off is exact rational arithmetic here, which it is for the default multiplier 2.
\<close>

section \<open>Retry policy\<close>

record retry_config =
  rc_max_attempts :: int
  rc_initial :: int
  rc_max_delay :: int
  rc_multiplier :: rat

definition second :: int where
  "second = 10 ^ 9"

definition default_retry_config :: retry_config where
  "default_retry_config = \<lparr>rc_max_attempts = 5, rc_initial = second, rc_max_delay = 5 * 60 * second, rc_multiplier = 2\<rparr>"

definition new_retry_policy :: "retry_config \<Rightarrow> retry_config" where
  "new_retry_policy c =
     (let c = (if rc_max_attempts c \<le> 0 then c\<lparr>rc_max_attempts := 5\<rparr> else c);
          c = (if rc_initial c \<le> 0 then c\<lparr>rc_initial := second\<rparr> else c);
          c = (if rc_max_delay c \<le> 0 then c\<lparr>rc_max_delay := 5 * 60 * second\<rparr> else c)
      in if rc_multiplier c \<le> 1 then c\<lparr>rc_multiplier := 2\<rparr> else c)"

definition should_retry :: "retry_config \<Rightarrow> int \<Rightarrow> string option \<Rightarrow> bool" where
  "should_retry p attempts err = (if err = None then False else if attempts \<ge> rc_max_attempts p then False else True)"

definition next_retry_delay :: "retry_config \<Rightarrow> int \<Rightarrow> int" where
  "next_retry_delay p attempts =
     (if attempts \<le> 0 then rc_initial p
      else let delay = of_int (rc_initial p) * rc_multiplier p ^ nat (attempts - 1)
           in if delay > of_int (rc_max_delay p) then rc_max_delay p else \<lfloor>delay\<rfloor>)"

definition next_retry_time :: "retry_config \<Rightarrow> int \<Rightarrow> int \<Rightarrow> int" where
  "next_retry_time p now attempts = now + next_retry_delay p attempts"

section \<open>Webhooks and events\<close>

record webhook =
  wh_id :: string
  wh_url :: string
  wh_events :: "string list"
  wh_secret :: string
  wh_active :: bool
  wh_description :: string
  wh_created :: int
  wh_updated :: int

record event =
  ev_id :: string
  ev_type :: string
  ev_timestamp :: int
  ev_data :: string

record webhook_manager =
  wm_webhooks :: "(string, webhook) gomap"
  wm_store :: delivery_store
  wm_limiter :: rate_limiter
  wm_counter :: int

record http_env =
  he_json :: "event \<Rightarrow> string + string"
  he_request :: "string \<Rightarrow> (string, string) gomap \<Rightarrow> string \<Rightarrow> string + int"
  he_hmac :: "string \<Rightarrow> string \<Rightarrow> string"
  he_time :: "int \<Rightarrow> string"
  he_took :: int

datatype webhook_error = Url_Required | Event_Type_Required | Webhook_Not_Found

definition new_webhook_manager :: webhook_manager where
  "new_webhook_manager = \<lparr>wm_webhooks = [], wm_store = new_delivery_store 1000,
     wm_limiter = new_rate_limiter 100 (60 * second), wm_counter = 0\<rparr>"

definition generate_id :: "int \<Rightarrow> webhook_manager \<Rightarrow> string \<times> webhook_manager" where
  "generate_id now wm = (fmt_d now @ ''-'' @ fmt_d (wm_counter wm + 1), wm\<lparr>wm_counter := wm_counter wm + 1\<rparr>)"

definition register_webhook :: "int \<Rightarrow> webhook \<Rightarrow> webhook_manager \<Rightarrow> webhook_error + webhook \<times> webhook_manager" where
  "register_webhook now w wm =
     (if wh_url w = [] then Inl Url_Required
      else if wh_events w = [] then Inl Event_Type_Required
      else let (i, wm) = generate_id now wm;
               w = w\<lparr>wh_id := i, wh_active := True, wh_created := now, wh_updated := now\<rparr>
           in Inr (w, wm\<lparr>wm_webhooks := gm_put i w (wm_webhooks wm)\<rparr>))"

definition unregister_webhook :: "string \<Rightarrow> webhook_manager \<Rightarrow> webhook_error + webhook_manager" where
  "unregister_webhook i wm = (case gm_get (wm_webhooks wm) i of
     None \<Rightarrow> Inl Webhook_Not_Found | Some _ \<Rightarrow> Inr (wm\<lparr>wm_webhooks := gm_del i (wm_webhooks wm)\<rparr>))"

definition update_webhook :: "int \<Rightarrow> string \<Rightarrow> webhook \<Rightarrow> webhook_manager \<Rightarrow> webhook_error + webhook_manager" where
  "update_webhook now i u wm = (case gm_get (wm_webhooks wm) i of
     None \<Rightarrow> Inl Webhook_Not_Found
   | Some w \<Rightarrow>
       (let w = (if wh_url u \<noteq> [] then w\<lparr>wh_url := wh_url u\<rparr> else w);
            w = (if wh_events u \<noteq> [] then w\<lparr>wh_events := wh_events u\<rparr> else w);
            w = (if wh_secret u \<noteq> [] then w\<lparr>wh_secret := wh_secret u\<rparr> else w)
        in Inr (wm\<lparr>wm_webhooks := gm_put i (w\<lparr>wh_updated := now\<rparr>) (wm_webhooks wm)\<rparr>)))"

definition set_active :: "int \<Rightarrow> bool \<Rightarrow> string \<Rightarrow> webhook_manager \<Rightarrow> webhook_error + webhook_manager" where
  "set_active now active i wm = (case gm_get (wm_webhooks wm) i of
     None \<Rightarrow> Inl Webhook_Not_Found
   | Some w \<Rightarrow> Inr (wm\<lparr>wm_webhooks := gm_put i (w\<lparr>wh_active := active, wh_updated := now\<rparr>) (wm_webhooks wm)\<rparr>))"

definition deactivate_webhook :: "int \<Rightarrow> string \<Rightarrow> webhook_manager \<Rightarrow> webhook_error + webhook_manager" where
  "deactivate_webhook now i wm = set_active now False i wm"

definition activate_webhook :: "int \<Rightarrow> string \<Rightarrow> webhook_manager \<Rightarrow> webhook_error + webhook_manager" where
  "activate_webhook now i wm = set_active now True i wm"

definition get_webhook :: "string \<Rightarrow> webhook_manager \<Rightarrow> webhook_error + webhook" where
  "get_webhook i wm = (case gm_get (wm_webhooks wm) i of None \<Rightarrow> Inl Webhook_Not_Found | Some w \<Rightarrow> Inr w)"

definition list_webhooks :: "webhook_manager \<Rightarrow> webhook list" where
  "list_webhooks wm = map snd (wm_webhooks wm)"

section \<open>Sending\<close>

definition generate_signature :: "http_env \<Rightarrow> string \<Rightarrow> string \<Rightarrow> string" where
  "generate_signature env payload secret = ''sha256='' @ hex_encode (he_hmac env secret payload)"

definition verify_signature :: "http_env \<Rightarrow> string \<Rightarrow> string \<Rightarrow> string \<Rightarrow> bool" where
  "verify_signature env payload signature secret \<longleftrightarrow> generate_signature env payload secret = signature"

text \<open>Header names are stored in canonical form.\<close>

definition request_headers :: "http_env \<Rightarrow> int \<Rightarrow> webhook \<Rightarrow> event \<Rightarrow> string \<Rightarrow> (string, string) gomap" where
  "request_headers env now w e payload =
     [(''Content-Type'', ''application/json''), (''X-Spoke-Event'', ev_type e),
      (''X-Spoke-Event-Id'', ev_id e), (''X-Spoke-Delivery'', he_time env now)] @
     (if wh_secret w \<noteq> [] then [(''X-Spoke-Signature'', generate_signature env payload (wh_secret w))] else [])"

text \<open>The error of an attempt, if any, with the log and the limiter it leaves; \<open>None\<close> is the limiter's
  panic.\<close>

definition send_webhook :: "http_env \<Rightarrow> int \<Rightarrow> webhook \<Rightarrow> event \<Rightarrow> delivery_log \<Rightarrow> rate_limiter \<Rightarrow>
    (string option \<times> delivery_log \<times> rate_limiter) option" where
  "send_webhook env now w e l rl = map_option (\<lambda>(ok, rl).
     if \<not> ok then (Some (''rate limit exceeded for webhook '' @ wh_id w), l, rl)
     else
       (case he_json env e of
          Inl err \<Rightarrow> (Some (''failed to marshal event: '' @ err), l, rl)
        | Inr payload \<Rightarrow>
            (let headers = request_headers env now w e payload; l = l\<lparr>dl_headers := headers\<rparr> in
             case he_request env (wh_url w) headers payload of
               Inl err \<Rightarrow> (Some (''failed to send webhook: '' @ err), l, rl)
             | Inr code \<Rightarrow>
                 (let l = l\<lparr>dl_status_code := code\<rparr> in
                  if code < 200 \<or> code \<ge> 300
                  then (Some (''webhook returned non-2xx status: '' @ fmt_d code), l, rl)
                  else (None, l, rl)))))
     (allow_request now (wh_id w) rl)"

text \<open>What the first attempt and a retry make of the log once its outcome is known.\<close>

definition first_outcome :: "int \<Rightarrow> string option \<Rightarrow> delivery_log \<Rightarrow> delivery_log" where
  "first_outcome now err l =
     (let policy = new_retry_policy default_retry_config in
      case err of
        Some msg \<Rightarrow>
          if should_retry policy (dl_attempts l) err
          then l\<lparr>dl_status := Delivery_Retrying, dl_next_retry := Some (next_retry_time policy now (dl_attempts l)),
                 dl_error := msg\<rparr>
          else l\<lparr>dl_status := Delivery_Failed, dl_error := msg, dl_completed := Some now\<rparr>
      | None \<Rightarrow> l\<lparr>dl_status := Delivery_Success, dl_completed := Some now\<rparr>)"

definition retry_outcome :: "retry_config \<Rightarrow> int \<Rightarrow> string option \<Rightarrow> delivery_log \<Rightarrow> delivery_log" where
  "retry_outcome policy now err l = (case err of
     Some msg \<Rightarrow>
       if should_retry policy (dl_attempts l) err
       then l\<lparr>dl_status := Delivery_Retrying, dl_next_retry := Some (next_retry_time policy now (dl_attempts l)),
              dl_error := msg\<rparr>
       else l\<lparr>dl_status := Delivery_Failed, dl_error := ''max retries exceeded: '' @ msg, dl_completed := Some now\<rparr>
   | None \<Rightarrow> l\<lparr>dl_status := Delivery_Success, dl_error := [], dl_completed := Some now\<rparr>)"

definition attempt_delivery :: "http_env \<Rightarrow> int \<Rightarrow> (string option \<Rightarrow> delivery_log \<Rightarrow> delivery_log) \<Rightarrow> webhook \<Rightarrow> event \<Rightarrow>
    delivery_log \<Rightarrow> webhook_manager \<Rightarrow> webhook_manager option" where
  "attempt_delivery env now outcome w e l wm = map_option (\<lambda>(err, l, rl).
     let l = outcome err (l\<lparr>dl_duration := he_took env\<rparr>)
     in wm\<lparr>wm_limiter := rl, wm_store := update_log l (wm_store wm)\<rparr>)
     (send_webhook env now w e (l\<lparr>dl_attempts := dl_attempts l + 1\<rparr>) (wm_limiter wm))"

definition send_webhook_with_delivery_log ::
    "http_env \<Rightarrow> int \<Rightarrow> webhook \<Rightarrow> event \<Rightarrow> delivery_log \<Rightarrow> webhook_manager \<Rightarrow> webhook_manager option" where
  "send_webhook_with_delivery_log env now w e l wm = attempt_delivery env now (first_outcome now) w e l wm"

definition retry_delivery ::
    "http_env \<Rightarrow> retry_config \<Rightarrow> int \<Rightarrow> webhook \<Rightarrow> delivery_log \<Rightarrow> webhook_manager \<Rightarrow> webhook_manager option" where
  "retry_delivery env policy now w l wm = attempt_delivery env now (retry_outcome policy now) w
     \<lparr>ev_id = dl_event l, ev_type = dl_event_type l, ev_timestamp = dl_created l, ev_data = ''{}''\<rparr> l wm"

definition process_retry :: "http_env \<Rightarrow> retry_config \<Rightarrow> int \<Rightarrow> delivery_log \<Rightarrow> webhook_manager \<Rightarrow> webhook_manager option" where
  "process_retry env policy now l wm = (case get_webhook (dl_webhook l) wm of
     Inl _ \<Rightarrow> Some (wm\<lparr>wm_store := update_log (l\<lparr>dl_status := Delivery_Failed,
                dl_error := ''webhook not found: webhook not found'', dl_completed := Some now\<rparr>) (wm_store wm)\<rparr>)
   | Inr w \<Rightarrow>
       if \<not> wh_active w
       then Some (wm\<lparr>wm_store := update_log (l\<lparr>dl_status := Delivery_Failed,
                dl_error := ''webhook is inactive'', dl_completed := Some now\<rparr>) (wm_store wm)\<rparr>)
       else retry_delivery env policy now w l wm)"

fun process_all :: "http_env \<Rightarrow> retry_config \<Rightarrow> int \<Rightarrow> delivery_log list \<Rightarrow> webhook_manager \<Rightarrow> webhook_manager option" where
  "process_all env policy now [] wm = Some wm"
| "process_all env policy now (l # ls) wm =
     Option.bind (process_retry env policy now l wm) (process_all env policy now ls)"

definition process_retries :: "http_env \<Rightarrow> retry_config \<Rightarrow> int \<Rightarrow> webhook_manager \<Rightarrow> webhook_manager option" where
  "process_retries env policy now wm = process_all env policy now (get_pending_retries now (wm_store wm)) wm"

text \<open>\<open>Dispatch\<close>: a log per active webhook that listens to the event, and the attempts it starts.\<close>

definition dispatch_to :: "int \<Rightarrow> event \<Rightarrow> webhook \<Rightarrow> webhook_manager \<times> (webhook \<times> delivery_log) list \<Rightarrow>
    webhook_manager \<times> (webhook \<times> delivery_log) list" where
  "dispatch_to now e w acc =
     (let (wm, tasks) = acc in
      if \<not> wh_active w then (wm, tasks)
      else if \<not> list_ex (\<lambda>t. t = ev_type e) (wh_events w) then (wm, tasks)
      else let (i, wm) = generate_id now wm;
               l = \<lparr>dl_id = i, dl_webhook = wh_id w, dl_event = ev_id e, dl_event_type = ev_type e,
                    dl_url = wh_url w, dl_status = Delivery_Pending, dl_status_code = 0, dl_error = [],
                    dl_attempts = 0, dl_next_retry = None, dl_created = now, dl_completed = None,
                    dl_duration = 0, dl_headers = [], dl_body = []\<rparr>
           in (wm\<lparr>wm_store := add_log l (wm_store wm)\<rparr>, tasks @ [(w, l)]))"

definition dispatch :: "int \<Rightarrow> event \<Rightarrow> webhook_manager \<Rightarrow> event \<times> webhook_manager \<times> (webhook \<times> delivery_log) list" where
  "dispatch now e wm =
     (let (i, wm) = generate_id now wm; e = e\<lparr>ev_id := i, ev_timestamp := now\<rparr>
      in (e, fold (dispatch_to now e) (map snd (wm_webhooks wm)) (wm, [])))"

end
