(* ===== verification/Webhook_Props.thy ===== *)
theory Webhook_Props
  imports Webhook_Manager
begin

text \<open>
  The life of deliveries. The manager runs beside the goroutines that \<open>Dispatch\<close> starts and the
  retry worker; here a system state is the manager with the attempts still to run, and a step is
  any one of its operations, in any order.
\<close>

section \<open>Steps\<close>

type_synonym webhook_system = "webhook_manager \<times> (webhook \<times> event \<times> delivery_log) list"

abbreviation worker_policy :: retry_config where
  "worker_policy \<equiv> new_retry_policy default_retry_config"

inductive webhook_step :: "http_env \<Rightarrow> webhook_system \<Rightarrow> webhook_system \<Rightarrow> bool" for env where
  Register: "register_webhook now w wm = Inr (w', wm') \<Longrightarrow> webhook_step env (wm, ts) (wm', ts)"
| Unregister: "unregister_webhook i wm = Inr wm' \<Longrightarrow> webhook_step env (wm, ts) (wm', ts)"
| Update: "update_webhook now i u wm = Inr wm' \<Longrightarrow> webhook_step env (wm, ts) (wm', ts)"
| Activate: "set_active now active i wm = Inr wm' \<Longrightarrow> webhook_step env (wm, ts) (wm', ts)"
| Dispatch: "dispatch now e wm = (e', wm', new) \<Longrightarrow>
    webhook_step env (wm, ts) (wm', ts @ map (\<lambda>(w, l). (w, e', l)) new)"
| Attempt: "send_webhook_with_delivery_log env now w e l wm = Some wm' \<Longrightarrow>
    webhook_step env (wm, us @ (w, e, l) # vs) (wm', us @ vs)"
| Retry: "process_retries env worker_policy now wm = Some wm' \<Longrightarrow> webhook_step env (wm, ts) (wm', ts)"

inductive webhook_reachable :: "http_env \<Rightarrow> webhook_system \<Rightarrow> bool" for env where
  Start: "webhook_reachable env (new_webhook_manager, [])"
| Step: "webhook_reachable env s \<Longrightarrow> webhook_step env s s' \<Longrightarrow> webhook_reachable env s'"

inductive_cases webhook_stepE: "webhook_step env s s'"

section \<open>The invariant\<close>

definition log_ok :: "delivery_log \<Rightarrow> bool" where
  "log_ok l \<longleftrightarrow> 0 \<le> dl_attempts l \<and> dl_attempts l \<le> 5 \<and>
     (case dl_status l of
        Delivery_Pending \<Rightarrow> dl_attempts l = 0 \<and> dl_completed l = None
      | Delivery_Retrying \<Rightarrow> 1 \<le> dl_attempts l \<and> dl_attempts l < 5 \<and> dl_next_retry l \<noteq> None \<and> dl_completed l = None
      | Delivery_Success \<Rightarrow> 1 \<le> dl_attempts l \<and> dl_completed l \<noteq> None
      | Delivery_Failed \<Rightarrow> 1 \<le> dl_attempts l \<and> dl_completed l \<noteq> None)"

definition limiter_ok :: "rate_limiter \<Rightarrow> bool" where
  "limiter_ok rl \<longleftrightarrow> wr_period rl > 0 \<and> list_all (\<lambda>(i, b). tb_period b > 0) (wr_buckets rl)"

definition system_ok :: "webhook_system \<Rightarrow> bool" where
  "system_ok s \<longleftrightarrow> list_all (\<lambda>(i, l). log_ok l) (ds_logs (wm_store (fst s))) \<and> limiter_ok (wm_limiter (fst s)) \<and>
     list_all (\<lambda>(w, e, l). log_ok l \<and> dl_status l = Delivery_Pending) (snd s)"

lemma list_all_put: "list_all P m \<Longrightarrow> P (k, v) \<Longrightarrow> list_all P (gm_put k v m)"
  by (induction m) auto

lemma list_all_del: "list_all P m \<Longrightarrow> list_all P (gm_del k m)"
  by (induction m) auto

lemma list_all_dels: "list_all P m \<Longrightarrow> list_all P (fold (\<lambda>l. gm_del (dl_id l)) ls m)"
  by (induction ls arbitrary: m) (auto intro: list_all_del)

lemma add_log_ok: "list_all (\<lambda>(i, l). log_ok l) (ds_logs s) \<Longrightarrow> log_ok l \<Longrightarrow>
    list_all (\<lambda>(i, l). log_ok l) (ds_logs (add_log l s))"
  by (auto simp: add_log_def evict_oldest_def Let_def intro!: list_all_put list_all_dels)

lemma worker_policy_max: "rc_max_attempts worker_policy = 5"
  by (simp add: new_retry_policy_def default_retry_config_def Let_def second_def)

lemma bucket_period: "limiter_ok rl \<Longrightarrow> tb_period (bucket_for now rl i) > 0"
  by (auto simp: limiter_ok_def bucket_for_def list_all_iff split: option.splits dest!: map_of_SomeD)

lemma refill_ok: "tb_period b > 0 \<Longrightarrow> \<exists>b'. refill now b = Some b' \<and> tb_period b' = tb_period b"
  by (auto simp: refill_def Let_def)

lemma take_ok: "tb_period b > 0 \<Longrightarrow> \<exists>ok b'. take_token now b = Some (ok, b') \<and> tb_period b' = tb_period b"
  using refill_ok [of b now] by (fastforce simp: take_token_def)

lemma allow_ok:
  assumes "limiter_ok rl"
  shows "\<exists>ok rl'. allow_request now i rl = Some (ok, rl') \<and> limiter_ok rl'"
proof -
  obtain ok b where "take_token now (bucket_for now rl i) = Some (ok, b)" "tb_period b > 0"
    using take_ok [OF bucket_period [OF assms], of now] bucket_period [OF assms] by metis
  then show ?thesis
    using assms by (auto simp: allow_request_def limiter_ok_def intro!: list_all_put)
qed

lemma send_webhook_ok:
  assumes "limiter_ok rl"
  shows "\<exists>err l' rl'. send_webhook env now w e l rl = Some (err, l', rl') \<and> limiter_ok rl' \<and>
    dl_attempts l' = dl_attempts l \<and> dl_next_retry l' = dl_next_retry l \<and> dl_completed l' = dl_completed l \<and>
    dl_status l' = dl_status l"
proof -
  obtain ok rl' where "allow_request now (wh_id w) rl = Some (ok, rl')" "limiter_ok rl'"
    using allow_ok [OF assms] by blast
  then show ?thesis by (auto simp: send_webhook_def Let_def split: sum.splits)
qed

text \<open>An attempt on a log that is not finished leaves a log the invariant admits.\<close>

definition unfinished :: "delivery_log \<Rightarrow> bool" where
  "unfinished l \<longleftrightarrow> log_ok l \<and> dl_attempts l < 5 \<and> dl_completed l = None"

lemma outcome_ok:
  assumes "1 \<le> dl_attempts l" and "dl_attempts l \<le> 5" and "dl_completed l = None"
  shows "log_ok (first_outcome now err l)" and "log_ok (retry_outcome worker_policy now err l)"
  using assms by (auto simp: first_outcome_def retry_outcome_def log_ok_def should_retry_def worker_policy_max
      Let_def split: option.splits)

lemma attempt_ok:
  assumes "system_ok (wm, ts)" and "unfinished l"
    and "\<And>err l. 1 \<le> dl_attempts l \<Longrightarrow> dl_attempts l \<le> 5 \<Longrightarrow> dl_completed l = None \<Longrightarrow> log_ok (outcome err l)"
  shows "\<exists>wm'. attempt_delivery env now outcome w e l wm = Some wm' \<and> system_ok (wm', ts) \<and>
    wm_webhooks wm' = wm_webhooks wm"
proof -
  obtain err l' rl' where send: "send_webhook env now w e (l\<lparr>dl_attempts := dl_attempts l + 1\<rparr>) (wm_limiter wm) = Some (err, l', rl')"
    "limiter_ok rl'" and l': "dl_attempts l' = dl_attempts l + 1" "dl_completed l' = None"
    using send_webhook_ok [of "wm_limiter wm" env now w e "l\<lparr>dl_attempts := dl_attempts l + 1\<rparr>"] assms(1,2)
    by (auto simp: system_ok_def unfinished_def)
  have "log_ok (outcome err (l'\<lparr>dl_duration := he_took env\<rparr>))"
    using assms(2) l' by (intro assms(3)) (auto simp: unfinished_def log_ok_def)
  with send assms(1) show ?thesis
    by (auto simp: attempt_delivery_def system_ok_def update_log_def Let_def intro!: list_all_put)
qed

lemma first_attempt_ok:
  assumes "system_ok (wm, ts)" and "unfinished l"
  shows "\<exists>wm'. send_webhook_with_delivery_log env now w e l wm = Some wm' \<and> system_ok (wm', ts)"
  unfolding send_webhook_with_delivery_log_def
  using attempt_ok [OF assms, of "first_outcome now" env now w e] outcome_ok(1) by blast

lemma retry_ok:
  assumes "system_ok (wm, ts)" and "unfinished l" and "1 \<le> dl_attempts l"
  shows "\<exists>wm'. process_retry env worker_policy now l wm = Some wm' \<and> system_ok (wm', ts)"
proof -
  have "system_ok (wm\<lparr>wm_store := update_log (l\<lparr>dl_status := Delivery_Failed, dl_error := msg,
      dl_completed := Some now\<rparr>) (wm_store wm)\<rparr>, ts)" for msg
  proof -
    have "log_ok (l\<lparr>dl_status := Delivery_Failed, dl_error := msg, dl_completed := Some now\<rparr>)"
      using assms(2,3) by (simp add: unfinished_def log_ok_def)
    then show ?thesis using assms(1) by (auto simp: system_ok_def update_log_def intro!: list_all_put)
  qed
  moreover have "\<exists>wm'. retry_delivery env worker_policy now w l wm = Some wm' \<and> system_ok (wm', ts)" for w
    unfolding retry_delivery_def
    using attempt_ok [OF assms(1,2), of "retry_outcome worker_policy now" env now w] outcome_ok(2) by blast
  ultimately show ?thesis by (auto simp: process_retry_def split: sum.splits)
qed

lemma process_all_ok:
  assumes "system_ok (wm, ts)" and "\<And>l. l \<in> set ls \<Longrightarrow> log_ok l \<and> dl_status l = Delivery_Retrying"
  shows "\<exists>wm'. process_all env worker_policy now ls wm = Some wm' \<and> system_ok (wm', ts)"
  using assms
proof (induction ls arbitrary: wm)
  case (Cons l ls)
  have l: "unfinished l" "1 \<le> dl_attempts l"
    using Cons.prems(2) [of l] by (auto simp: unfinished_def log_ok_def)
  have "\<exists>wm'. process_retry env worker_policy now l wm = Some wm' \<and> system_ok (wm', ts)"
    using retry_ok [OF Cons.prems(1) l] .
  then obtain wm' where "process_retry env worker_policy now l wm = Some wm'" "system_ok (wm', ts)" by blast
  then show ?case using Cons.IH [of wm'] Cons.prems(2) by auto
qed simp

lemma process_retries_ok:
  assumes "system_ok (wm, ts)"
  shows "\<exists>wm'. process_retries env worker_policy now wm = Some wm' \<and> system_ok (wm', ts)"
  unfolding process_retries_def using assms
  by (intro process_all_ok) (auto simp: get_pending_retries_def system_ok_def list_all_iff)

lemma log_ok_new:
  "dl_status l = Delivery_Pending \<Longrightarrow> dl_attempts l = 0 \<Longrightarrow> dl_completed l = None \<Longrightarrow> log_ok l"
  by (simp add: log_ok_def)

lemma dispatch_to_ok:
  assumes "list_all (\<lambda>(i, l). log_ok l) (ds_logs (wm_store wm))" and "limiter_ok (wm_limiter wm)"
    and "list_all (\<lambda>(w, l). log_ok l \<and> dl_status l = Delivery_Pending) ts"
    and "dispatch_to now e w (wm, ts) = (wm', ts')"
  shows "list_all (\<lambda>(i, l). log_ok l) (ds_logs (wm_store wm')) \<and> limiter_ok (wm_limiter wm') \<and>
    list_all (\<lambda>(w, l). log_ok l \<and> dl_status l = Delivery_Pending) ts'"
  using assms by (auto simp: dispatch_to_def generate_id_def Let_def intro!: add_log_ok log_ok_new split: if_splits)

lemma dispatch_fold_ok:
  assumes "list_all (\<lambda>(i, l). log_ok l) (ds_logs (wm_store wm))" and "limiter_ok (wm_limiter wm)"
    and "list_all (\<lambda>(w, l). log_ok l \<and> dl_status l = Delivery_Pending) ts"
    and "fold (dispatch_to now e) ws (wm, ts) = (wm', ts')"
  shows "list_all (\<lambda>(i, l). log_ok l) (ds_logs (wm_store wm')) \<and> limiter_ok (wm_limiter wm') \<and>
    list_all (\<lambda>(w, l). log_ok l \<and> dl_status l = Delivery_Pending) ts'"
  using assms
proof (induction ws arbitrary: wm ts)
  case (Cons w ws)
  obtain wm1 ts1 where first: "dispatch_to now e w (wm, ts) = (wm1, ts1)" by fastforce
  from dispatch_to_ok [OF Cons.prems(1-3) this] Cons.IH [of wm1 ts1] Cons.prems(4) first show ?case by auto
qed auto

lemma webhook_step_ok:
  assumes "webhook_step env s s'" and "system_ok s"
  shows "system_ok s'"
  using assms
proof (induction rule: webhook_step.induct)
  case (Dispatch now e wm e' wm' new ts)
  let ?wm = "snd (generate_id now wm)"
  have "fold (dispatch_to now e') (map snd (wm_webhooks ?wm)) (?wm, []) = (wm', new)"
    using Dispatch.hyps by (auto simp: dispatch_def Let_def generate_id_def)
  from dispatch_fold_ok [OF _ _ _ this] Dispatch.prems show ?case
    by (auto simp: system_ok_def generate_id_def list_all_iff)
next
  case (Attempt now w e l wm wm' us vs)
  then have "system_ok (wm, us @ vs)" "unfinished l"
    by (auto simp: system_ok_def unfinished_def log_ok_def split: delivery_status.splits)
  from first_attempt_ok [OF this, of env now w e] Attempt.hyps show ?case by simp
next
  case (Retry now wm wm' ts)
  then show ?case using process_retries_ok [of wm ts env now] by simp
qed (auto simp: system_ok_def register_webhook_def unregister_webhook_def update_webhook_def set_active_def
    generate_id_def Let_def split: if_splits option.splits)

section \<open>Properties\<close>


lemma dispatch_tasks:
  "map (\<lambda>(w, l). w) (snd (fold (dispatch_to now e) ws (wm, ts))) =
   map (\<lambda>(w, l). w) ts @ filter (\<lambda>w. wh_active w \<and> ev_type e \<in> set (wh_events w)) ws"
  by (induction ws arbitrary: wm ts)
    (auto simp: dispatch_to_def generate_id_def Let_def list_ex_iff split: if_splits)

text \<open>An event is sent to exactly the webhooks that are active and listen to its type, one attempt each.\<close>

lemma dispatch_targets:
  "map (\<lambda>(w, l). w) (snd (snd (dispatch now e wm))) =
   filter (\<lambda>w. wh_active w \<and> ev_type e \<in> set (wh_events w)) (list_webhooks wm)"
  by (simp add: dispatch_def generate_id_def Let_def list_webhooks_def dispatch_tasks)

text \<open>Back-off: whatever the configuration, the delay before a retry is positive, at most the
  configured maximum, and never shorter than the delay before the previous one.\<close>

lemma retry_delay_bounds:
  assumes "1 \<le> n"
  shows "0 < next_retry_delay (new_retry_policy c) n \<and>
    next_retry_delay (new_retry_policy c) n \<le> rc_max_delay (new_retry_policy c) \<and>
    next_retry_delay (new_retry_policy c) n \<le> next_retry_delay (new_retry_policy c) (n + 1)"
proof -
  let ?p = "new_retry_policy c"
  have p: "rc_initial ?p \<ge> 1" "rc_max_delay ?p \<ge> 1" "rc_multiplier ?p > 1"
    by (auto simp: new_retry_policy_def second_def Let_def)
  define d where "d k = (of_int (rc_initial ?p) :: rat) * rc_multiplier ?p ^ k" for k
  have one: "1 \<le> d k" for k
    using p unfolding d_def by (metis less_imp_le mult_mono' mult_1 of_int_1_le_iff one_le_power zero_le_one)
  have mono: "d k \<le> d (Suc k)" for k
    using p one [of k] unfolding d_def by (simp add: mult_left_mono)
  have delay: "next_retry_delay ?p (int (Suc k)) = (if d k > of_int (rc_max_delay ?p) then rc_max_delay ?p else \<lfloor>d k\<rfloor>)" for k
    by (simp add: next_retry_delay_def d_def Let_def)
  define k where "k = nat (n - 1)"
  have n: "n = int (Suc k)" using assms by (simp add: k_def)
  then have n1: "n + 1 = int (Suc (Suc k))" by simp
  have "1 \<le> \<lfloor>d k\<rfloor>" for k using one by simp
  moreover have "\<lfloor>d k\<rfloor> \<le> rc_max_delay ?p" if "\<not> d k > of_int (rc_max_delay ?p)" for k
    using that by (simp add: floor_le_iff)
  moreover have "\<lfloor>d k\<rfloor> \<le> \<lfloor>d (Suc k)\<rfloor>" by (rule floor_mono [OF mono])
  ultimately show ?thesis unfolding n1 unfolding n delay using p mono [of k] by fastforce
qed

section \<open>Witnesses\<close>


end
