(* ===== verification/Validate_Normalize.thy ===== *)
theory Validate_Normalize
  imports Proto_AST
begin

text \<open>
  Schema normalization (\<open>pkg/validation/normalizer.go\<close>): sorting fields, enum values and imports,
  and canonical import paths. \<open>sort.Slice\<close> is modelled by a stable sort; Go leaves the order of
  equal elements open.
\<close>

record normalization_config =
  nc_sort_fields :: bool
  nc_sort_enum_values :: bool
  nc_sort_imports :: bool
  nc_canonicalize_imports :: bool
  nc_preserve_comments :: bool
  nc_standardize_whitespace :: bool
  nc_remove_trailing :: bool

definition default_normalization_config :: normalization_config where
  "default_normalization_config = \<lparr>nc_sort_fields = True, nc_sort_enum_values = True, nc_sort_imports = True,
     nc_canonicalize_imports = True, nc_preserve_comments = True, nc_standardize_whitespace = True,
     nc_remove_trailing = True\<rparr>"

definition new_normalizer :: "normalization_config option \<Rightarrow> normalization_config" where
  "new_normalizer config = (case config of None \<Rightarrow> default_normalization_config | Some c \<Rightarrow> c)"

section \<open>Import paths\<close>

text \<open>\<open>strings.Trim\<close> with a double quote.\<close>

definition trim_quotes :: "string \<Rightarrow> string" where
  "trim_quotes s = rev (dropWhile (\<lambda>c. c = CHR 0x22) (rev (dropWhile (\<lambda>c. c = CHR 0x22) s)))"

definition forward_slashes :: "string \<Rightarrow> string" where
  "forward_slashes s = map (\<lambda>c. if c = CHR 0x5C then CHR ''/'' else c) s"

fun contains_double :: "string \<Rightarrow> bool" where
  "contains_double (a # b # s) \<longleftrightarrow> a = CHR ''/'' \<and> b = CHR ''/'' \<or> contains_double (b # s)"
| "contains_double s \<longleftrightarrow> False"

fun replace_double :: "string \<Rightarrow> string" where
  "replace_double (a # b # s) =
     (if a = CHR ''/'' \<and> b = CHR ''/'' then CHR ''/'' # replace_double s else a # replace_double (b # s))"
| "replace_double s = s"

lemma replace_double_length: "length (replace_double s) \<le> length s"
  by (induction s rule: replace_double.induct) auto

lemma replace_double_shorter: "contains_double s \<Longrightarrow> length (replace_double s) < length s"
proof (induction s rule: replace_double.induct)
  case (1 a b s)
  then show ?case using replace_double_length [of s] by auto
qed auto

function collapse_slashes :: "string \<Rightarrow> string" where
  "collapse_slashes s = (if contains_double s then collapse_slashes (replace_double s) else s)"
  by auto

termination collapse_slashes
  by (relation "measure length") (simp_all add: replace_double_shorter)

declare collapse_slashes.simps [simp del]

definition canonicalize_import_path :: "normalization_config \<Rightarrow> string \<Rightarrow> string" where
  "canonicalize_import_path c path =
     (if \<not> nc_canonicalize_imports c then path else collapse_slashes (forward_slashes (trim_quotes path)))"

section \<open>Normalizing\<close>

definition normalize_imports :: "normalization_config \<Rightarrow> import_node list \<Rightarrow> import_node list" where
  "normalize_imports c is =
     (if \<not> nc_sort_imports c \<and> \<not> nc_canonicalize_imports c then is
      else let normalized = map (\<lambda>i. i\<lparr>im_path := canonicalize_import_path c (im_path i)\<rparr>) is
           in if nc_sort_imports c then sort_key im_path normalized else normalized)"

definition normalize_fields :: "normalization_config \<Rightarrow> field_node list \<Rightarrow> field_node list" where
  "normalize_fields c fs = (if nc_sort_fields c then sort_key fn_number fs else fs)"

definition normalize_oneofs :: "normalization_config \<Rightarrow> oneof_node list \<Rightarrow> oneof_node list" where
  "normalize_oneofs c os = map (\<lambda>oo. oo\<lparr>oo_fields := normalize_fields c (oo_fields oo)\<rparr>) os"

definition normalize_enum_values :: "normalization_config \<Rightarrow> enum_value_node list \<Rightarrow> enum_value_node list" where
  "normalize_enum_values c vs = (if nc_sort_enum_values c then sort_key ev_number vs else vs)"

definition normalize_enums :: "normalization_config \<Rightarrow> enum_node list \<Rightarrow> enum_node list" where
  "normalize_enums c es = map (\<lambda>e. e\<lparr>en_values := normalize_enum_values c (en_values e)\<rparr>) es"

definition normalize_services :: "normalization_config \<Rightarrow> service_node list \<Rightarrow> service_node list" where
  "normalize_services c ss = ss"

primrec normalize_message :: "normalization_config \<Rightarrow> message_node \<Rightarrow> message_node" where
  "normalize_message c (MessageNode nm fs nested enums oneofs opts cs ds p e) =
     MessageNode nm (normalize_fields c fs) (map (normalize_message c) nested) (normalize_enums c enums)
       (normalize_oneofs c oneofs) opts cs ds p e"

definition normalize_messages :: "normalization_config \<Rightarrow> message_node list \<Rightarrow> message_node list" where
  "normalize_messages c ms = map (normalize_message c) ms"

definition normalize :: "normalization_config \<Rightarrow> root_node \<Rightarrow> root_node" where
  "normalize c ast = ast\<lparr>rn_imports := normalize_imports c (rn_imports ast),
     rn_messages := normalize_messages c (rn_messages ast), rn_enums := normalize_enums c (rn_enums ast),
     rn_services := normalize_services c (rn_services ast)\<rparr>"

section \<open>Lemmas\<close>

lemma sort_key_again: "sort_key f (sort_key f xs) = sort_key f xs"
  by (rule properties_for_sort_key) (auto simp: sort_key_stable)

lemma collapse_done: "\<not> contains_double (collapse_slashes s)"
  by (induction s rule: collapse_slashes.induct) (subst collapse_slashes.simps, simp)

lemma collapse_fixed: "\<not> contains_double s \<Longrightarrow> collapse_slashes s = s"
  by (subst collapse_slashes.simps) simp

lemma replace_double_ends:
  "s \<noteq> [] \<Longrightarrow> replace_double s \<noteq> [] \<and> hd (replace_double s) = hd s \<and> last (replace_double s) = last s"
proof (induction s rule: replace_double.induct)
  case (1 a b s)
  then show ?case by (cases "a = CHR ''/'' \<and> b = CHR ''/''"; cases "s = []") auto
qed simp_all

lemma replace_double_set: "set (replace_double s) \<subseteq> set s"
  by (induction s rule: replace_double.induct) auto

lemma collapse_ends:
  "s \<noteq> [] \<Longrightarrow> collapse_slashes s \<noteq> [] \<and> hd (collapse_slashes s) = hd s \<and> last (collapse_slashes s) = last s"
proof (induction s rule: collapse_slashes.induct)
  case (1 s)
  then show ?case using replace_double_ends [of s] by (subst (1 2 3) collapse_slashes.simps) auto
qed

lemma collapse_set: "set (collapse_slashes s) \<subseteq> set s"
proof (induction s rule: collapse_slashes.induct)
  case (1 s)
  then show ?case using replace_double_set [of s] by (subst collapse_slashes.simps) auto
qed

definition unquoted :: "string \<Rightarrow> bool" where
  "unquoted s \<longleftrightarrow> s = [] \<or> hd s \<noteq> CHR 0x22 \<and> last s \<noteq> CHR 0x22"

lemma trim_unquoted: "unquoted (trim_quotes s)"
proof -
  let ?q = "\<lambda>c. c = CHR 0x22"
  let ?t = "dropWhile ?q s"
  have "last (trim_quotes s) \<noteq> CHR 0x22" if "trim_quotes s \<noteq> []"
    using that hd_dropWhile [of ?q "rev ?t"] unfolding trim_quotes_def by (simp add: last_rev)
  moreover have "hd (trim_quotes s) \<noteq> CHR 0x22" if "trim_quotes s \<noteq> []"
  proof -
    have "trim_quotes s @ rev (takeWhile ?q (rev ?t)) = ?t"
      unfolding trim_quotes_def by (metis rev_append rev_rev_ident takeWhile_dropWhile_id)
    then have "?t \<noteq> []" "hd ?t = hd (trim_quotes s)" using that by (metis append_is_Nil_conv, metis hd_append2)
    then show ?thesis using hd_dropWhile [of ?q s] by simp
  qed
  ultimately show ?thesis by (auto simp: unquoted_def)
qed

lemma dropWhile_kept: "xs = [] \<or> \<not> P (hd xs) \<Longrightarrow> dropWhile P xs = xs"
  by (cases xs) auto

lemma trim_fixed: "unquoted s \<Longrightarrow> trim_quotes s = s"
  unfolding unquoted_def trim_quotes_def by (auto simp: dropWhile_kept hd_rev)

lemma forward_fixed: "CHR 0x5C \<notin> set s \<Longrightarrow> forward_slashes s = s"
  unfolding forward_slashes_def by (induction s) auto

lemma forward_ends: "s \<noteq> [] \<Longrightarrow> unquoted s \<Longrightarrow> unquoted (forward_slashes s)"
  by (simp add: unquoted_def forward_slashes_def hd_map last_map)

lemma canonicalize_fixed:
  "canonicalize_import_path c (canonicalize_import_path c p) = canonicalize_import_path c p"
proof (cases "nc_canonicalize_imports c")
  case True
  let ?f = "forward_slashes (trim_quotes p)"
  have "unquoted ?f" using trim_unquoted [of p] forward_ends
    by (cases "trim_quotes p = []") (auto simp: unquoted_def forward_slashes_def)
  then have "unquoted (collapse_slashes ?f)"
    using collapse_ends [of ?f] collapse_set [of ?f] by (cases "?f = []") (auto simp: unquoted_def)
  moreover have "CHR 0x5C \<notin> set (collapse_slashes ?f)"
    using collapse_set [of ?f] by (auto simp: forward_slashes_def split: if_splits)
  ultimately show ?thesis
    using True collapse_done [of ?f]
    by (simp add: canonicalize_import_path_def trim_fixed forward_fixed collapse_fixed)
qed (simp add: canonicalize_import_path_def)

lemma sort_imports_fixed:
  "sort_key im_path (map (\<lambda>i. i\<lparr>im_path := canonicalize_import_path c (im_path i)\<rparr>)
     (sort_key im_path (map (\<lambda>i. i\<lparr>im_path := canonicalize_import_path c (im_path i)\<rparr>) is))) =
   sort_key im_path (map (\<lambda>i. i\<lparr>im_path := canonicalize_import_path c (im_path i)\<rparr>) is)"
proof -
  let ?g = "\<lambda>i. i\<lparr>im_path := canonicalize_import_path c (im_path i)\<rparr>"
  have "map ?g (sort_key im_path (map ?g is)) = sort_key im_path (map ?g is)"
    by (rule map_idI) (auto simp: canonicalize_fixed)
  then show ?thesis by (simp add: sort_key_again)
qed

lemma normalize_imports_fixed: "normalize_imports c (normalize_imports c is) = normalize_imports c is"
  by (auto simp: normalize_imports_def Let_def sort_imports_fixed canonicalize_fixed)

lemma normalize_fields_fixed: "normalize_fields c (normalize_fields c fs) = normalize_fields c fs"
  by (simp add: normalize_fields_def sort_key_again)

lemma normalize_enums_fixed: "normalize_enums c (normalize_enums c es) = normalize_enums c es"
  by (simp add: normalize_enums_def normalize_enum_values_def sort_key_again)

lemma normalize_oneofs_fixed: "normalize_oneofs c (normalize_oneofs c es) = normalize_oneofs c es"
  by (simp add: normalize_oneofs_def normalize_fields_fixed)

lemma normalize_message_fixed: "normalize_message c (normalize_message c m) = normalize_message c m"
  by (induction m) (simp add: normalize_fields_fixed normalize_enums_fixed normalize_oneofs_fixed)

section \<open>Properties\<close>

text \<open>Normalizing is idempotent, under every configuration: what has been normalized is in normal form,
  import paths included.\<close>

lemma normalize_idempotent: "normalize c (normalize c ast) = normalize c ast"
  by (simp add: normalize_def normalize_imports_fixed normalize_enums_fixed normalize_messages_def
      normalize_message_fixed normalize_services_def)

end
