(* ===== verification/Normalize_Compat.thy ===== *)
theory Normalize_Compat
  imports Validate_Normalize Compat_Props
begin

text \<open>
  Normalization and the compatibility check: the schema graph of a normalized file answers every
  lookup as the graph of the file itself, so normalizing never changes a verdict.
\<close>

text \<open>An enum for a concrete input.\<close>

definition two_values :: enum_node where
  "two_values = \<lparr>en_name = ''E'', en_values = map (\<lambda>(n, i). \<lparr>ev_name = n, ev_number = i, ev_options = [],
       ev_comments = [], ev_directives = [], ev_pos = pos0, ev_end = pos0\<rparr>) [(''B'', 1), (''A'', 0)],
     en_options = [], en_comments = [], en_directives = [], en_pos = pos0, en_end = pos0\<rparr>"

lemma find_filter: "find P (rev xs) = (if filter P xs = [] then None else Some (last (filter P xs)))"
  by (induction xs rule: rev_induct) auto

lemma store_sorted:
  "gm_get (gm_store key (map g (sort_key f xs))) k = gm_get (gm_store key (map g xs)) k"
  if "\<And>x. key (g x) = f x"
proof -
  have "filter (\<lambda>v. key v = k) (map g (sort_key f xs)) = filter (\<lambda>v. key v = k) (map g xs)"
    using that sort_key_stable [of f k xs] by (simp add: filter_map comp_def eq_commute)
  then show ?thesis by (simp add: gm_get_store find_filter)
qed

lemma mset_eq_short: "mset us = mset vs \<Longrightarrow> length us \<le> 1 \<Longrightarrow> us = vs"
  by (cases us) auto

lemma store_perm:
  assumes "distinct (map key xs)" and "mset xs = mset ys"
  shows "gm_get (gm_store key xs) = gm_get (gm_store key ys)"
proof
  fix k
  have "mset (filter (\<lambda>v. key v = k) xs) = mset (filter (\<lambda>v. key v = k) ys)" using assms(2) by simp
  moreover have "length (filter (\<lambda>v. key v = k) xs) \<le> 1"
    using assms(1) by (induction xs) (auto simp: filter_empty_conv image_iff)
  ultimately have "filter (\<lambda>v. key v = k) xs = filter (\<lambda>v. key v = k) ys" by (rule mset_eq_short)
  then show "gm_get (gm_store key xs) k = gm_get (gm_store key ys) k" by (simp add: gm_get_store find_filter)
qed

lemma filter_fields:
  "filter (\<lambda>f. fd_number f = k) (map (\<lambda>f. build_field f o') (normalize_fields c fs)) =
   filter (\<lambda>f. fd_number f = k) (map (\<lambda>f. build_field f o') fs)"
  using sort_key_stable [of fn_number k fs]
  by (simp add: normalize_fields_def filter_map comp_def build_field_def eq_commute)

lemma all_fields_normalized:
  "gm_get (gm_store fd_number (all_fields (normalize_message c m))) = gm_get (gm_store fd_number (all_fields m))"
proof
  fix k
  have "filter (\<lambda>f. fd_number f = k) (all_fields (normalize_message c m)) =
      filter (\<lambda>f. fd_number f = k) (all_fields m)"
    by (cases m) (simp add: all_fields_def filter_fields normalize_oneofs_def filter_concat comp_def)
  then show "gm_get (gm_store fd_number (all_fields (normalize_message c m))) k =
      gm_get (gm_store fd_number (all_fields m)) k"
    by (simp add: gm_get_store find_filter)
qed

lemma build_message_nested:
  "ms_fields (build_message pkg m parent) = gm_store fd_number (all_fields m)"
  "ms_nested (build_message pkg m parent) =
     gm_store ms_name (map (\<lambda>n. build_message pkg n (make_full_name pkg parent (mn_name m))) (mn_nested m))"
  "ms_name (build_message pkg m parent) = mn_name m"
  by (cases m; simp add: Let_def)+

text \<open>Two stores filled element by element with related values, under the same keys.\<close>

lemma same_map_store:
  assumes "\<And>x. x \<in> set xs \<Longrightarrow> key (f x) = key (g x) \<and> R (f x) (g x)"
  shows "same_map R (gm_get (gm_store key (map f xs))) (gm_get (gm_store key (map g xs)))"
proof -
  have "filter (\<lambda>v. key v = k) (map f xs) = map f (filter (\<lambda>x. key (f x) = k) xs)"
    "filter (\<lambda>v. key v = k) (map g xs) = map g (filter (\<lambda>x. key (f x) = k) xs)" for k
    using assms by (induction xs) auto
  moreover have "last (map h ys) = h (last ys) \<and> last ys \<in> set ys" if "ys \<noteq> []" for h :: "'a \<Rightarrow> 'c" and ys
    using that by (simp add: last_map)
  ultimately show ?thesis
    using assms by (simp add: same_map_def gm_get_store find_filter)
      (metis (mono_tags, lifting) last_in_set last_map map_is_Nil_conv set_filter mem_Collect_eq)
qed

lemma same_message_normalized: "same_message (build_message pkg m parent) (build_message pkg (normalize_message c m) parent)"
proof (induction m arbitrary: parent rule: measure_induct_rule [where f = size])
  case (less m)
  have nested: "size n < size m" if "n \<in> set (mn_nested m)" for n
    using that by (cases m) (auto dest: size_list_estimation' [of n _ "size n" size])
  show ?case
  proof (rule same_message.intros)
    show "gm_get (ms_fields (build_message pkg m parent)) =
        gm_get (ms_fields (build_message pkg (normalize_message c m) parent))"
      by (simp add: build_message_nested all_fields_normalized)
    have parts: "mn_name (normalize_message c m) = mn_name m"
      "mn_nested (normalize_message c m) = map (normalize_message c) (mn_nested m)" by (cases m; simp)+
    let ?full = "make_full_name pkg parent (mn_name m)"
    have "same_map same_message
        (gm_get (gm_store ms_name (map (\<lambda>n. build_message pkg n ?full) (mn_nested m))))
        (gm_get (gm_store ms_name (map (\<lambda>n. build_message pkg (normalize_message c n) ?full) (mn_nested m))))"
    proof (rule same_map_store)
      fix n assume n: "n \<in> set (mn_nested m)"
      have "mn_name (normalize_message c n) = mn_name n" by (cases n) simp
      then show "ms_name (build_message pkg n ?full) = ms_name (build_message pkg (normalize_message c n) ?full) \<and>
          same_message (build_message pkg n ?full) (build_message pkg (normalize_message c n) ?full)"
        using less [OF nested [OF n]] by (simp add: build_message_nested)
    qed
    then show "same_map same_message (gm_get (ms_nested (build_message pkg m parent)))
        (gm_get (ms_nested (build_message pkg (normalize_message c m) parent)))"
      by (simp add: build_message_nested parts comp_def)
  qed
qed

lemma same_enum_normalized:
  assumes "distinct (map ev_name (en_values e))"
  shows "same_enum (build_enum pkg e parent)
    (build_enum pkg (e\<lparr>en_values := normalize_enum_values c (en_values e)\<rparr>) parent)"
proof -
  have "distinct (map evl_name (map build_enum_value (en_values e)))"
    using assms by (simp add: comp_def build_enum_value_def)
  moreover have "mset (map build_enum_value (sort_key ev_number (en_values e))) = mset (map build_enum_value (en_values e))"
    by simp
  ultimately have "gm_get (gm_store evl_name (map build_enum_value (en_values e))) =
      gm_get (gm_store evl_name (map build_enum_value (sort_key ev_number (en_values e))))"
    by (metis store_perm)
  moreover have "gm_get (gm_store evl_number (map build_enum_value (sort_key ev_number (en_values e)))) =
      gm_get (gm_store evl_number (map build_enum_value (en_values e)))"
    by (rule ext, rule store_sorted) (simp add: build_enum_value_def)
  ultimately show ?thesis
    by (simp add: same_enum_def build_enum_def normalize_enum_values_def Let_def)
qed

lemma same_schema_normalized:
  assumes "list_all (\<lambda>e. distinct (map ev_name (en_values e))) (rn_enums ast)"
  shows "same_schema (build_from_ast ast) (build_from_ast (normalize c ast))"
proof -
  let ?pkg = "extract_package ast"
  have pkg: "extract_package (normalize c ast) = ?pkg" by (simp add: extract_package_def normalize_def)
  have "same_map same_message (gm_get (gm_store ms_name (map (\<lambda>n. build_message ?pkg n []) (rn_messages ast))))
      (gm_get (gm_store ms_name (map (\<lambda>n. build_message ?pkg (normalize_message c n) []) (rn_messages ast))))"
  proof (rule same_map_store)
    fix n
    have "mn_name (normalize_message c n) = mn_name n" by (cases n) simp
    then show "ms_name (build_message ?pkg n []) = ms_name (build_message ?pkg (normalize_message c n) []) \<and>
        same_message (build_message ?pkg n []) (build_message ?pkg (normalize_message c n) [])"
      by (simp add: build_message_nested same_message_normalized)
  qed
  moreover have "same_map same_enum (gm_get (gm_store se_name (map (\<lambda>n. build_enum ?pkg n []) (rn_enums ast))))
      (gm_get (gm_store se_name (map (\<lambda>e. build_enum ?pkg (e\<lparr>en_values := normalize_enum_values c (en_values e)\<rparr>) [])
        (rn_enums ast))))"
    using assms by (intro same_map_store) (simp add: list_all_iff same_enum_normalized, simp add: build_enum_def Let_def)
  moreover have "same_map same_service M M" for M
    by (rule same_map_refl_on) (simp add: same_service_def)
  ultimately show ?thesis
    by (simp add: same_schema_def build_from_ast_def pkg Let_def)
      (simp add: normalize_def normalize_messages_def normalize_enums_def normalize_services_def comp_def)
qed

text \<open>C14. Normalizing schemas does not change their compatibility: in every mode the check of two normalized
  files returns the verdict of the check of the files, or panics as it does.\<close>

theorem normalize_keeps_verdict:
  assumes "list_all (\<lambda>e. distinct (map ev_name (en_values e))) (rn_enums old @ rn_enums new)"
  shows "map_sum (\<lambda>_. ()) cr_compatible
      (check_compatibility (build_from_ast (normalize c old)) (build_from_ast (normalize c new)) m) =
    map_sum (\<lambda>_. ()) cr_compatible (check_compatibility (build_from_ast old) (build_from_ast new) m)"
  using assms same_schema_normalized [of old c] same_schema_normalized [of new c] same_schema_sym
  by (intro check_compatibility_same) (auto simp: build_from_ast_wf)

theorem normalize_keeps_verdict_witness:
  "map_sum (\<lambda>_. ()) cr_compatible (check_compatibility
      (build_from_ast (normalize default_normalization_config
        ((mk_root ''p'' [] [mk_message ''M'' [mk_field ''b'' ''int32'' 2, mk_field ''a'' ''bool'' 1] []])\<lparr>rn_enums := [two_values]\<rparr>)))
      (build_from_ast (normalize default_normalization_config (mk_root ''p'' [] []))) Mode_Backward) =
   map_sum (\<lambda>_. ()) cr_compatible (check_compatibility
      (build_from_ast
        ((mk_root ''p'' [] [mk_message ''M'' [mk_field ''b'' ''int32'' 2, mk_field ''a'' ''bool'' 1] []])\<lparr>rn_enums := [two_values]\<rparr>))
      (build_from_ast (mk_root ''p'' [] [])) Mode_Backward)"
  by (rule normalize_keeps_verdict) (simp add: mk_root_def two_values_def)

end
