(* ===== verification/Validate_Check.thy ===== *)
theory Validate_Check
  imports Proto_AST
begin

text \<open>
  The validator of \<open>pkg/validation/validator.go\<close>. The result is threaded through the methods that
  append to it. Names are taken to be ASCII, as the protobuf grammar has them: on other names the
  Unicode classes of package names and the escapes of \<open>%q\<close> would differ.
\<close>

section \<open>Names\<close>

definition is_valid_package_name :: "string \<Rightarrow> bool" where
  "is_valid_package_name name = list_all (\<lambda>part. part \<noteq> [] \<and>
     list_all (\<lambda>ch. in_range (CHR ''a'') (CHR ''z'') ch \<or> in_range (CHR ''0'') (CHR ''9'') ch \<or> ch = CHR ''_'') part)
     (split_on (CHR ''.'') name)"

text \<open>\<open>unicode.IsUpper\<close> of a byte as a code point: Latin-1 has upper-case letters above ASCII too.\<close>

definition is_upper_byte :: "char \<Rightarrow> bool" where
  "is_upper_byte c \<longleftrightarrow> in_range (CHR ''A'') (CHR ''Z'') c \<or> in_range (CHR 0xC0) (CHR 0xDE) c \<and> c \<noteq> CHR 0xD7"

definition is_pascal_case :: "string \<Rightarrow> bool" where
  "is_pascal_case name = (case name of [] \<Rightarrow> False
     | c # _ \<Rightarrow> if \<not> is_upper_byte c then False else CHR ''_'' \<notin> set name)"

definition is_snake_case :: "string \<Rightarrow> bool" where
  "is_snake_case name = (case name of [] \<Rightarrow> False
     | c # s \<Rightarrow> in_range (CHR ''a'') (CHR ''z'') c \<and>
         list_all (\<lambda>d. in_range (CHR ''a'') (CHR ''z'') d \<or> in_range (CHR ''0'') (CHR ''9'') d \<or> d = CHR ''_'') s)"

definition is_upper_snake_case :: "string \<Rightarrow> bool" where
  "is_upper_snake_case name = (case name of [] \<Rightarrow> False
     | c # s \<Rightarrow> in_range (CHR ''A'') (CHR ''Z'') c \<and>
         list_all (\<lambda>d. in_range (CHR ''A'') (CHR ''Z'') d \<or> in_range (CHR ''0'') (CHR ''9'') d \<or> d = CHR ''_'') s)"

text \<open>\<open>%q\<close> of an ASCII string.\<close>

definition quote_char :: "char \<Rightarrow> string" where
  "quote_char c =
     (if c = CHR 0x22 \<or> c = CHR 0x5C then [CHR 0x5C, c]
      else if c = CHR 0x07 then [CHR 0x5C, CHR ''a''] else if c = CHR 0x08 then [CHR 0x5C, CHR ''b'']
      else if c = CHR 0x0C then [CHR 0x5C, CHR ''f''] else if c = CHR 0x0A then [CHR 0x5C, CHR ''n'']
      else if c = CHR 0x0D then [CHR 0x5C, CHR ''r''] else if c = CHR 0x09 then [CHR 0x5C, CHR ''t'']
      else if c = CHR 0x0B then [CHR 0x5C, CHR ''v'']
      else if in_range (CHR '' '') (CHR ''~'') c then [c]
      else let d = (\<lambda>n :: nat. if n < 10 then char_of (48 + n) else char_of (87 + n))
           in [CHR 0x5C, CHR ''x'', d (of_char c div 16), d (of_char c mod 16)])"

definition fmt_q :: "string \<Rightarrow> string" where
  "fmt_q s = [CHR 0x22] @ concat (map quote_char s) @ [CHR 0x22]"

section \<open>Configuration and results\<close>

record validation_config =
  vc_number_ranges :: bool
  vc_enum_zero :: bool
  vc_naming :: bool
  vc_circular :: bool
  vc_unused_imports :: bool
  vc_reserved :: bool
  vc_max_number :: int

definition default_validation_config :: validation_config where
  "default_validation_config = \<lparr>vc_number_ranges = True, vc_enum_zero = True, vc_naming = True,
     vc_circular = True, vc_unused_imports = True, vc_reserved = True, vc_max_number = 536870911\<rparr>"

definition new_validator :: "validation_config option \<Rightarrow> validation_config" where
  "new_validator config = (case config of None \<Rightarrow> default_validation_config | Some c \<Rightarrow> c)"

datatype severity = Severity_Error | Severity_Warning | Severity_Info

fun severity_string :: "severity \<Rightarrow> string" where
  "severity_string Severity_Error = ''ERROR''"
| "severity_string Severity_Warning = ''WARNING''"
| "severity_string Severity_Info = ''INFO''"

record validation_error =
  ve_location :: string
  ve_rule :: string
  ve_message :: string
  ve_severity :: severity

record validation_result =
  vr_errors :: "validation_error list"
  vr_warnings :: "validation_error list"
  vr_valid :: bool

definition add_error :: "string \<Rightarrow> string \<Rightarrow> string \<Rightarrow> validation_result \<Rightarrow> validation_result" where
  "add_error location rule msg r = r\<lparr>vr_errors := vr_errors r @
     [\<lparr>ve_location = location, ve_rule = rule, ve_message = msg, ve_severity = Severity_Error\<rparr>]\<rparr>"

definition add_warning :: "string \<Rightarrow> string \<Rightarrow> string \<Rightarrow> validation_result \<Rightarrow> validation_result" where
  "add_warning location rule msg r = r\<lparr>vr_warnings := vr_warnings r @
     [\<lparr>ve_location = location, ve_rule = rule, ve_message = msg, ve_severity = Severity_Warning\<rparr>]\<rparr>"

section \<open>Checks\<close>

definition validate_package_name :: "validation_config \<Rightarrow> package_node \<Rightarrow> validation_result \<Rightarrow> validation_result" where
  "validate_package_name c pkg r =
     (if \<not> vc_naming c then r
      else if \<not> is_valid_package_name (pk_name pkg) then
        add_error ''package'' ''INVALID_PACKAGE_NAME''
          (''Package name '' @ fmt_q (pk_name pkg) @ '' should be lowercase with dots (e.g., com.example.api)'') r
      else r)"

definition check_number_range :: "validation_config \<Rightarrow> string \<Rightarrow> int \<Rightarrow> validation_result \<Rightarrow> validation_result" where
  "check_number_range c location n r =
     (let r = (if n < 1 then add_error location ''INVALID_FIELD_NUMBER''
                 (''Field number '' @ fmt_d n @ '' is invalid (must be >= 1)'') r else r);
          r = (if n > vc_max_number c then add_error location ''INVALID_FIELD_NUMBER''
                 (''Field number '' @ fmt_d n @ '' exceeds maximum '' @ fmt_d (vc_max_number c)) r else r)
      in if n \<ge> 19000 \<and> n \<le> 19999 then add_error location ''RESERVED_FIELD_NUMBER''
           (''Field number '' @ fmt_d n @ '' is in reserved range (19000-19999)'') r else r)"

definition validate_field :: "validation_config \<Rightarrow> string \<Rightarrow> field_node \<Rightarrow>
    (int, string) gomap \<times> validation_result \<Rightarrow> (int, string) gomap \<times> validation_result" where
  "validate_field c parent f = (\<lambda>(nums, r).
     let location = parent @ ''.'' @ fn_name f;
         r = (if vc_naming c \<and> \<not> is_snake_case (fn_name f) then add_warning location ''FIELD_NAME_CONVENTION''
                (''Field name '' @ fmt_q (fn_name f) @ '' should be snake_case'') r else r);
         r = (if vc_number_ranges c then check_number_range c location (fn_number f) r else r)
     in case gm_get nums (fn_number f) of
          Some ex \<Rightarrow> (nums, add_error location ''DUPLICATE_FIELD_NUMBER''
            (''Field number '' @ fmt_d (fn_number f) @ '' is already used by field '' @ fmt_q ex) r)
        | None \<Rightarrow> (gm_put (fn_number f) (fn_name f) nums, r))"

definition validate_value :: "validation_config \<Rightarrow> string \<Rightarrow> enum_value_node \<Rightarrow>
    (int, string) gomap \<times> validation_result \<Rightarrow> (int, string) gomap \<times> validation_result" where
  "validate_value c full v = (\<lambda>(nums, r).
     let location = full @ ''.'' @ ev_name v;
         r = (if vc_naming c \<and> \<not> is_upper_snake_case (ev_name v) then
                add_warning location ''ENUM_VALUE_NAME_CONVENTION''
                  (''Enum value '' @ fmt_q (ev_name v) @ '' should be UPPER_SNAKE_CASE'') r else r)
     in case gm_get nums (ev_number v) of
          Some ex \<Rightarrow> (nums, add_error location ''DUPLICATE_ENUM_VALUE_NUMBER''
            (''Enum value number '' @ fmt_d (ev_number v) @ '' is already used by '' @ fmt_q ex) r)
        | None \<Rightarrow> (gm_put (ev_number v) (ev_name v) nums, r))"

definition qualify :: "string \<Rightarrow> string \<Rightarrow> string" where
  "qualify parent name = (if parent \<noteq> [] then parent @ ''.'' @ name else name)"

definition validate_enum :: "validation_config \<Rightarrow> string \<Rightarrow> enum_node \<Rightarrow> validation_result \<Rightarrow> validation_result" where
  "validate_enum c parent e r =
     (let full = qualify parent (en_name e);
          r = (if vc_naming c \<and> \<not> is_pascal_case (en_name e) then add_warning full ''ENUM_NAME_CONVENTION''
                 (''Enum name '' @ fmt_q (en_name e) @ '' should be PascalCase'') r else r);
          r = (if vc_enum_zero c \<and> \<not> list_ex (\<lambda>v. ev_number v = 0) (en_values e) then
                 add_error full ''MISSING_ENUM_ZERO_VALUE'' ''Enum must have a zero value (required in proto3)'' r else r)
      in snd (fold (validate_value c full) (en_values e) ([], r)))"

fun validate_message :: "validation_config \<Rightarrow> string \<Rightarrow> message_node \<Rightarrow> validation_result \<Rightarrow> validation_result" where
  "validate_message c parent (MessageNode nm fs nested enums oneofs opts cs ds p e) r =
     (let full = qualify parent nm;
          r = (if vc_naming c \<and> \<not> is_pascal_case nm then add_warning full ''MESSAGE_NAME_CONVENTION''
                 (''Message name '' @ fmt_q nm @ '' should be PascalCase'') r else r);
          r = snd (fold (\<lambda>oo. fold (validate_field c (full @ ''.'' @ oo_name oo)) (oo_fields oo)) oneofs
                 (fold (validate_field c full) fs ([], r)));
          r = fold (validate_message c full) nested r
      in fold (validate_enum c full) enums r)"

definition validate_rpc :: "validation_config \<Rightarrow> string \<Rightarrow> rpc_node \<Rightarrow> validation_result \<Rightarrow> validation_result" where
  "validate_rpc c svc rpc r =
     (if vc_naming c \<and> \<not> is_pascal_case (rpc_name rpc) then
        add_warning (svc @ ''.'' @ rpc_name rpc) ''RPC_NAME_CONVENTION''
          (''RPC method name '' @ fmt_q (rpc_name rpc) @ '' should be PascalCase'') r
      else r)"

definition validate_service :: "validation_config \<Rightarrow> service_node \<Rightarrow> validation_result \<Rightarrow> validation_result" where
  "validate_service c svc r =
     (let r = (if vc_naming c \<and> \<not> is_pascal_case (sv_name svc) then
                 add_warning (sv_name svc) ''SERVICE_NAME_CONVENTION''
                   (''Service name '' @ fmt_q (sv_name svc) @ '' should be PascalCase'') r else r)
      in fold (validate_rpc c (sv_name svc)) (sv_rpcs svc) r)"

text \<open>The code leaves the detection of unused imports to be written.\<close>

definition detect_unused_imports :: "root_node \<Rightarrow> validation_result \<Rightarrow> validation_result" where
  "detect_unused_imports ast r = r"

definition validate :: "validation_config \<Rightarrow> root_node \<Rightarrow> validation_result" where
  "validate c ast =
     (let r = \<lparr>vr_errors = [], vr_warnings = [], vr_valid = True\<rparr>;
          r = (case rn_package ast of Some pkg \<Rightarrow> validate_package_name c pkg r | None \<Rightarrow> r);
          r = fold (validate_message c []) (rn_messages ast) r;
          r = fold (validate_enum c []) (rn_enums ast) r;
          r = fold (validate_service c) (rn_services ast) r;
          r = (if vc_unused_imports c then detect_unused_imports ast r else r)
      in r\<lparr>vr_valid := (vr_errors r = [])\<rparr>)"

end
