(* ===== verification/Validate_Props.thy ===== *)
theory Validate_Props
  imports Validate_Check Validate_Normalize Compat_Schema
begin

text \<open>
  What a valid schema is, and what follows for the components that read one: the schema graph of a
  valid file keeps every field and enum value, and normalizing keeps validity.
\<close>

section \<open>Valid schemas\<close>

definition number_ok :: "validation_config \<Rightarrow> int \<Rightarrow> bool" where
  "number_ok c n \<longleftrightarrow>
     (vc_number_ranges c \<longrightarrow> 1 \<le> n \<and> n \<le> vc_max_number c \<and> \<not> (19000 \<le> n \<and> n \<le> 19999))"

definition message_numbers :: "message_node \<Rightarrow> int list" where
  "message_numbers m = map fn_number (mn_fields m @ concat (map oo_fields (mn_oneofs m)))"

definition enum_valid :: "validation_config \<Rightarrow> enum_node \<Rightarrow> bool" where
  "enum_valid c e \<longleftrightarrow> (vc_enum_zero c \<longrightarrow> 0 \<in> set (map ev_number (en_values e))) \<and>
     distinct (map ev_number (en_values e))"

fun message_valid :: "validation_config \<Rightarrow> message_node \<Rightarrow> bool" where
  "message_valid c (MessageNode nm fs nested enums oneofs opts cs ds p e) \<longleftrightarrow>
     (let ns = map fn_number (fs @ concat (map oo_fields oneofs)) in list_all (number_ok c) ns \<and> distinct ns) \<and>
     list_all (message_valid c) nested \<and> list_all (enum_valid c) enums"

definition package_valid :: "validation_config \<Rightarrow> root_node \<Rightarrow> bool" where
  "package_valid c ast \<longleftrightarrow> (vc_naming c \<longrightarrow> pred_option (\<lambda>p. is_valid_package_name (pk_name p)) (rn_package ast))"

section \<open>Errors\<close>

lemma errors_add [simp]:
  "vr_errors (add_error l u m r) \<noteq> []" "vr_errors (add_warning l u m r) = vr_errors r"
  by (simp_all add: add_error_def add_warning_def)

text \<open>A loop over numbered things that reports each number used before.\<close>

locale numbering =
  fixes num :: "'x \<Rightarrow> int"
    and fine :: "'x \<Rightarrow> bool"
    and step :: "'x \<Rightarrow> (int, string) gomap \<times> validation_result \<Rightarrow> (int, string) gomap \<times> validation_result"
  assumes step_dom: "dom (gm_get (fst (step x st))) = insert (num x) (dom (gm_get (fst st)))"
    and step_errors: "vr_errors (snd (step x st)) = [] \<longleftrightarrow>
      vr_errors (snd st) = [] \<and> fine x \<and> num x \<notin> dom (gm_get (fst st))"
begin

lemma fold_dom: "dom (gm_get (fst (fold step xs st))) = dom (gm_get (fst st)) \<union> num ` set xs"
  by (induction xs arbitrary: st) (auto simp: step_dom)

lemma fold_errors:
  "vr_errors (snd (fold step xs st)) = [] \<longleftrightarrow> vr_errors (snd st) = [] \<and> list_all fine xs \<and>
     distinct (map num xs) \<and> num ` set xs \<inter> dom (gm_get (fst st)) = {}"
  by (induction xs arbitrary: st) (auto simp: step_dom step_errors)

end

lemma check_number_errors: "vr_errors (check_number_range c l n r) = [] \<longleftrightarrow>
    vr_errors r = [] \<and> 1 \<le> n \<and> n \<le> vc_max_number c \<and> \<not> (19000 \<le> n \<and> n \<le> 19999)"
  by (simp add: check_number_range_def Let_def)

interpretation fields: numbering "\<lambda>(p, f). fn_number f" "\<lambda>(p, f). number_ok c (fn_number f)"
    "\<lambda>(p, f). validate_field c p f" for c
  by unfold_locales (auto simp: validate_field_def Let_def gm_get_put check_number_errors number_ok_def
      split: option.splits if_splits)

interpretation enum_values: numbering ev_number "\<lambda>_. True" "validate_value c p" for c p
  by unfold_locales (auto simp: validate_value_def Let_def gm_get_put split: option.splits if_splits)

text \<open>The fields of a message, each with the name its location starts with, are one loop.\<close>

definition located :: "string \<Rightarrow> message_node \<Rightarrow> (string \<times> field_node) list" where
  "located full m = map (Pair full) (mn_fields m) @
     concat (map (\<lambda>oo. map (Pair (full @ ''.'' @ oo_name oo)) (oo_fields oo)) (mn_oneofs m))"

lemma located_numbers: "map (\<lambda>(p, f). fn_number f) (located full m) = message_numbers m"
  by (simp add: located_def message_numbers_def map_concat comp_def)

lemma located_loop:
  "fold (\<lambda>oo. fold (validate_field c (full @ ''.'' @ oo_name oo)) (oo_fields oo)) (mn_oneofs m)
     (fold (validate_field c full) (mn_fields m) st) = fold (\<lambda>(p, f). validate_field c p f) (located full m) st"
proof -
  have pairs: "fold (validate_field c q) fs st' = fold (\<lambda>(p, f). validate_field c p f) (map (Pair q) fs) st'" for q fs st'
    by (induction fs arbitrary: st') auto
  have "fold (\<lambda>oo. fold (validate_field c (q oo)) (oo_fields oo)) os st' =
      fold (\<lambda>(p, f). validate_field c p f) (concat (map (\<lambda>oo. map (Pair (q oo)) (oo_fields oo)) os)) st'" for q os st'
    by (induction os arbitrary: st') (simp_all add: pairs)
  then show ?thesis by (simp add: pairs located_def)
qed

lemma located_errors:
  "vr_errors (snd (fold (\<lambda>(p, f). validate_field c p f) (located full m) ([], r))) = [] \<longleftrightarrow>
   vr_errors r = [] \<and> list_all (number_ok c) (message_numbers m) \<and> distinct (message_numbers m)"
proof -
  have "list_all (\<lambda>(p, f). number_ok c (fn_number f)) (located full m) = list_all (number_ok c) (message_numbers m)"
    by (simp add: list.pred_map comp_def case_prod_unfold flip: located_numbers [of full])
  then show ?thesis by (simp add: fields.fold_errors located_numbers)
qed

lemma fold_errors_iff:
  assumes "\<And>x r. x \<in> set xs \<Longrightarrow> vr_errors (f x r) = [] \<longleftrightarrow> vr_errors r = [] \<and> P x"
  shows "vr_errors (fold f xs r) = [] \<longleftrightarrow> vr_errors r = [] \<and> list_all P xs"
  using assms by (induction xs arbitrary: r) auto

lemma validate_enum_errors: "vr_errors (validate_enum c p e r) = [] \<longleftrightarrow> vr_errors r = [] \<and> enum_valid c e"
  by (auto simp: validate_enum_def Let_def enum_values.fold_errors enum_valid_def list_ex_iff list_all_iff image_iff)

lemma validate_message_errors:
  "vr_errors (validate_message c p m r) = [] \<longleftrightarrow> vr_errors r = [] \<and> message_valid c m"
proof (induction m arbitrary: p r)
  case (MessageNode nm fs nested enums oneofs opts cs ds s e)
  have nested: "vr_errors (fold (validate_message c q) nested r') = [] \<longleftrightarrow>
      vr_errors r' = [] \<and> list_all (message_valid c) nested" for q r'
    using MessageNode by (intro fold_errors_iff) auto
  have enums: "vr_errors (fold (validate_enum c q) enums r') = [] \<longleftrightarrow>
      vr_errors r' = [] \<and> list_all (enum_valid c) enums" for q r'
    by (intro fold_errors_iff validate_enum_errors)
  let ?m = "MessageNode nm fs nested enums oneofs opts cs ds s e"
  show ?case
    using located_loop [where m = ?m] located_errors [where m = ?m]
    by (simp add: Let_def enums nested message_numbers_def)
qed

lemma validate_service_errors [simp]: "vr_errors (validate_service c s r) = vr_errors r"
proof -
  have "vr_errors (fold (validate_rpc c n) rpcs r') = vr_errors r'" for n rpcs r'
    by (induction rpcs arbitrary: r') (auto simp: validate_rpc_def)
  then show ?thesis by (simp add: validate_service_def Let_def)
qed

lemma validate_errors:
  "vr_errors (validate c ast) = [] \<longleftrightarrow> package_valid c ast \<and>
     list_all (message_valid c) (rn_messages ast) \<and> list_all (enum_valid c) (rn_enums ast)"
proof -
  have services: "vr_errors (fold (validate_service c) ss r) = vr_errors r" for ss r
    by (induction ss arbitrary: r) auto
  show ?thesis
    by (auto simp: validate_def Let_def detect_unused_imports_def services package_valid_def
        validate_package_name_def fold_errors_iff [OF validate_enum_errors]
        fold_errors_iff [OF validate_message_errors] split: option.splits)
qed

section \<open>What validity gives the other components\<close>

text \<open>A message with all messages nested in it, at any depth.\<close>

primrec submessages :: "message_node \<Rightarrow> message_node list" where
  "submessages (MessageNode nm fs nested enums oneofs opts cs ds p e) =
     MessageNode nm fs nested enums oneofs opts cs ds p e # concat (map submessages nested)"

lemma message_valid_sub: "message_valid c m \<Longrightarrow> n \<in> set (submessages m) \<Longrightarrow> message_valid c n"
  by (induction m) (auto simp: list_all_iff Let_def)

lemma message_valid_numbers: "message_valid c m \<Longrightarrow> distinct (message_numbers m) \<and> list_all (enum_valid c) (mn_enums m)"
  by (cases m) (simp add: message_numbers_def Let_def)

lemma all_fields_numbers: "map fd_number (all_fields m) = message_numbers m"
  by (simp add: all_fields_def message_numbers_def build_field_def map_concat comp_def)

lemma mset_normalize_fields: "mset (map fn_number (normalize_fields nc fs)) = mset (map fn_number fs)"
  by (simp add: normalize_fields_def)

lemma message_numbers_normalized:
  "mset (map fn_number (normalize_fields nc fs @ concat (map oo_fields (normalize_oneofs nc os)))) =
   mset (map fn_number (fs @ concat (map oo_fields os)))"
  by (induction os) (use mset_normalize_fields in \<open>auto simp: normalize_oneofs_def\<close>)

lemma enum_valid_normalized:
  "enum_valid c (e\<lparr>en_values := normalize_enum_values nc (en_values e)\<rparr>) = enum_valid c e"
proof -
  have "mset (map ev_number (normalize_enum_values nc (en_values e))) = mset (map ev_number (en_values e))"
    by (simp add: normalize_enum_values_def)
  then have "distinct (map ev_number (normalize_enum_values nc (en_values e))) = distinct (map ev_number (en_values e))"
    "set (map ev_number (normalize_enum_values nc (en_values e))) = set (map ev_number (en_values e))"
    by (rule mset_eq_imp_distinct_iff, rule mset_eq_setD)
  then show ?thesis by (cases e) (simp add: enum_valid_def del: set_map)
qed

lemma enums_valid_normalized: "list_all (enum_valid c) (normalize_enums nc es) = list_all (enum_valid c) es"
  by (simp add: normalize_enums_def list.pred_map comp_def enum_valid_normalized)

lemma message_valid_normalized: "message_valid c (normalize_message nc m) = message_valid c m"
proof (induction m)
  case (MessageNode nm fs nested enums oneofs opts cs ds s e)
  let ?ns = "map fn_number (fs @ concat (map oo_fields oneofs))"
  let ?ns' = "map fn_number (normalize_fields nc fs @ concat (map oo_fields (normalize_oneofs nc oneofs)))"
  have "distinct ?ns' = distinct ?ns" "set ?ns' = set ?ns"
    by (rule mset_eq_imp_distinct_iff [OF message_numbers_normalized], rule mset_eq_setD [OF message_numbers_normalized])
  moreover have "list_all (message_valid c) (map (normalize_message nc) nested) = list_all (message_valid c) nested"
    using MessageNode by (auto simp: list_all_iff)
  ultimately show ?case
    unfolding normalize_message.simps message_valid.simps Let_def list_all_iff enums_valid_normalized [unfolded list_all_iff]
    by (simp only: )
qed

section \<open>Properties\<close>

text \<open>C15. The validator decides validity: \<open>Valid\<close> holds exactly when the package name is well-formed, every
  message at every depth uses each number once, over its fields and oneofs, and only numbers in range,
  and every enum has a zero and no number twice, each rule as far as it is switched on.\<close>

theorem validate_correct:
  "vr_valid (validate c ast) = (package_valid c ast \<and> list_all (message_valid c) (rn_messages ast) \<and>
     list_all (enum_valid c) (rn_enums ast))"
  using validate_errors by (simp add: validate_def Let_def)

text \<open>C16. The schema graph of a valid file loses nothing: every message at every depth keeps all its fields
  in order, oneof fields included, and every enum all its values, each under its number.\<close>

theorem valid_schema_lossless:
  assumes "vr_valid (validate c ast)" and "n \<in> set (concat (map submessages (rn_messages ast)))"
  shows "ms_fields (build_message pkg n parent) = map (\<lambda>f. (fd_number f, f)) (all_fields n) \<and>
    list_all (\<lambda>e. se_values (build_enum pkg e parent) =
      map (\<lambda>v. (ev_number v, build_enum_value v)) (en_values e)) (rn_enums ast @ mn_enums n)"
proof -
  have errs: "vr_errors (validate c ast) = []" using assms(1) by (simp add: validate_def Let_def)
  then have valid: "message_valid c n"
    using assms(2) message_valid_sub by (auto simp: validate_errors list_all_iff)
  then have "distinct (map fd_number (all_fields n))"
    using message_valid_numbers by (simp add: all_fields_numbers)
  then have "ms_fields (build_message pkg n parent) = map (\<lambda>f. (fd_number f, f)) (all_fields n)"
    by (cases n) (simp add: Let_def gm_store_distinct)
  moreover have "list_all (enum_valid c) (rn_enums ast @ mn_enums n)"
    using errs message_valid_numbers [OF valid] by (simp add: validate_errors)
  ultimately show ?thesis
    by (auto simp: list_all_iff enum_valid_def build_enum_def build_enum_value_def Let_def gm_store_distinct comp_def)
qed

text \<open>Normalizing a file keeps it valid, or invalid, under every validator and normalizer configuration.\<close>

lemma normalize_keeps_validity: "vr_valid (validate c (normalize nc ast)) = vr_valid (validate c ast)"
proof -
  have "vr_valid (validate c a) = (vr_errors (validate c a) = [])" for a by (simp add: validate_def Let_def)
  moreover have "list_all (message_valid c) (normalize_messages nc ms) = list_all (message_valid c) ms" for ms
    by (simp add: normalize_messages_def list.pred_map comp_def message_valid_normalized)
  ultimately show ?thesis
    by (simp add: validate_errors normalize_def package_valid_def enums_valid_normalized)
qed

theorem valid_schema_lossless_witness:
  "ms_fields (build_message ''p'' (mk_message ''N'' [mk_field ''b'' ''int32'' 2, mk_field ''a'' ''bool'' 1] []) ''M'') =
     [(2, build_field (mk_field ''b'' ''int32'' 2) []), (1, build_field (mk_field ''a'' ''bool'' 1) [])]"
proof -
  let ?n = "mk_message ''N'' [mk_field ''b'' ''int32'' 2, mk_field ''a'' ''bool'' 1] []"
  let ?ast = "mk_root ''p'' [] [mk_message ''M'' [] [?n]]"
  have "vr_valid (validate default_validation_config ?ast)" by code_simp
  moreover have "?n \<in> set (concat (map submessages (rn_messages ?ast)))"
    by (simp add: mk_root_def mk_message_def)
  ultimately show ?thesis
    using valid_schema_lossless [of default_validation_config ?ast ?n "''p''" "''M''"]
    by (simp add: mk_message_def all_fields_def mk_field_def build_field_def)
qed

end
