(* ===== verification/Search_Query.thy ===== *)
theory Search_Query
  imports Spoke_Prelude
begin

text \<open>
  The search query parser of \<open>pkg/search/query_parser.go\<close>: filters \<open>key:value\<close> and \<open>key:"value"\<close>, free
  words, operators, and the text query sent to PostgreSQL. The regular expression is a function:
  its key class excludes the colon, so a greedy run of key characters followed by a colon is the only
  way to match, and a quoted value is tried before an unquoted one. \<open>filterPositions\<close>, which the code
  fills and never reads, is left out.
\<close>

record parsed_query =
  pq_terms :: "string list"
  pq_entity_types :: "string list"
  pq_field_types :: "string list"
  pq_module_pattern :: string
  pq_version_constraint :: string
  pq_imports :: "string list"
  pq_depends_on :: "string list"
  pq_has_comment :: bool
  pq_operators :: "string list"
  pq_raw :: string

definition empty_query :: "string \<Rightarrow> parsed_query" where
  "empty_query raw = \<lparr>pq_terms = [], pq_entity_types = [], pq_field_types = [], pq_module_pattern = [],
     pq_version_constraint = [], pq_imports = [], pq_depends_on = [], pq_has_comment = False,
     pq_operators = [], pq_raw = raw\<rparr>"

section \<open>Filters\<close>

text \<open>The class \<open>[\w-]\<close>, and white space of \<open>\S\<close>, which is ASCII only and without the vertical tab.\<close>

definition is_key_char :: "char \<Rightarrow> bool" where
  "is_key_char c \<longleftrightarrow> in_range (CHR ''a'') (CHR ''z'') c \<or> in_range (CHR ''A'') (CHR ''Z'') c \<or>
     in_range (CHR ''0'') (CHR ''9'') c \<or> c = CHR ''_'' \<or> c = CHR ''-''"

definition is_regex_space :: "char \<Rightarrow> bool" where
  "is_regex_space c \<longleftrightarrow> c \<in> {CHR 0x09, CHR 0x0A, CHR 0x0C, CHR 0x0D, CHR 0x20}"

text \<open>The match at the start of a string: key, value and what follows.\<close>

definition match_filter :: "string \<Rightarrow> (string \<times> string \<times> string) option" where
  "match_filter s =
     (let key = takeWhile is_key_char s; rest = dropWhile is_key_char s in
      if key = [] then None
      else (case rest of [] \<Rightarrow> None
        | c # t \<Rightarrow>
            if c \<noteq> CHR '':'' then None
            else
              let body = takeWhile (\<lambda>d. d \<noteq> CHR 0x22) (tl t); after = dropWhile (\<lambda>d. d \<noteq> CHR 0x22) (tl t);
                  plain = takeWhile (\<lambda>d. \<not> is_regex_space d) t
              in if t \<noteq> [] \<and> hd t = CHR 0x22 \<and> body \<noteq> [] \<and> after \<noteq> [] then Some (key, body, tl after)
                 else if plain \<noteq> [] then Some (key, plain, dropWhile (\<lambda>d. \<not> is_regex_space d) t)
                 else None))"

lemma match_filter_shorter: "match_filter s = Some (k, v, r) \<Longrightarrow> length r < length s"
proof -
  assume m: "match_filter s = Some (k, v, r)"
  let ?rest = "dropWhile is_key_char s"
  obtain t where rest: "?rest = CHR '':'' # t"
    using m by (auto simp: match_filter_def Let_def split: list.splits if_splits)
  have "length r \<le> length t"
    using m rest length_dropWhile_le [of "\<lambda>d. d \<noteq> CHR 0x22" "tl t"]
      length_dropWhile_le [of "\<lambda>d. \<not> is_regex_space d" t]
    by (auto simp: match_filter_def Let_def split: list.splits if_splits)
  moreover have "length ?rest \<le> length s" by (rule length_dropWhile_le)
  ultimately show ?thesis using rest by simp
qed

text \<open>\<open>FindAllStringSubmatch\<close> and \<open>ReplaceAllString\<close>: the filters from left to right, and what is left.\<close>

function scan_filters :: "string \<Rightarrow> (string \<times> string) list \<times> string" where
  "scan_filters [] = ([], [])"
| "scan_filters (c # s) = (case match_filter (c # s) of
     Some (k, v, r) \<Rightarrow> (let (fs, clean) = scan_filters r in ((k, v) # fs, clean))
   | None \<Rightarrow> (let (fs, clean) = scan_filters s in (fs, c # clean)))"
  by pat_completeness auto

termination scan_filters
  by (relation "measure length") (auto dest: match_filter_shorter)

definition ascii_lower :: "string \<Rightarrow> string" where
  "ascii_lower s = map (\<lambda>c. if in_range (CHR ''A'') (CHR ''Z'') c then char_of (of_char c + 32 :: nat) else c) s"

definition ascii_upper :: "string \<Rightarrow> string" where
  "ascii_upper s = map (\<lambda>c. if in_range (CHR ''a'') (CHR ''z'') c then char_of (of_char c - 32 :: nat) else c) s"

datatype query_error = Invalid_Entity_Type string

definition parse_filter :: "string \<times> string \<Rightarrow> parsed_query \<Rightarrow> query_error + parsed_query" where
  "parse_filter = (\<lambda>(key, v) q.
     let k = ascii_lower key in
     if k = ''type'' then Inr (q\<lparr>pq_field_types := pq_field_types q @ [v]\<rparr>)
     else if k = ''entity'' then
       (if v \<notin> {''message'', ''field'', ''enum'', ''enum_value'', ''service'', ''method''} then Inl (Invalid_Entity_Type v)
        else Inr (q\<lparr>pq_entity_types := pq_entity_types q @ [v]\<rparr>))
     else if k = ''module'' then Inr (q\<lparr>pq_module_pattern := v\<rparr>)
     else if k = ''version'' then Inr (q\<lparr>pq_version_constraint := v\<rparr>)
     else if k = ''imports'' then Inr (q\<lparr>pq_imports := pq_imports q @ [v]\<rparr>)
     else if k = ''depends-on'' \<or> k = ''depends_on'' then Inr (q\<lparr>pq_depends_on := pq_depends_on q @ [v]\<rparr>)
     else if k = ''has-comment'' \<or> k = ''has_comment'' then
       Inr (q\<lparr>pq_has_comment := (v = ''true'' \<or> v = ''1'' \<or> v = ''yes'')\<rparr>)
     else Inr (q\<lparr>pq_terms := pq_terms q @ [key @ '':'' @ v]\<rparr>))"

primrec parse_filters :: "(string \<times> string) list \<Rightarrow> parsed_query \<Rightarrow> query_error + parsed_query" where
  "parse_filters [] q = Inr q"
| "parse_filters (f # fs) q = rbind (parse_filter f q) (parse_filters fs)"

definition add_word :: "string \<Rightarrow> parsed_query \<Rightarrow> parsed_query" where
  "add_word w q =
     (let upper = ascii_upper w in
      if upper = ''AND'' \<or> upper = ''OR'' \<or> upper = ''NOT'' then q\<lparr>pq_operators := pq_operators q @ [upper]\<rparr>
      else q\<lparr>pq_terms := pq_terms q @ [w]\<rparr>)"

definition parse_query :: "string \<Rightarrow> query_error + parsed_query" where
  "parse_query s =
     (let (fs, clean) = scan_filters s
      in rbind (parse_filters fs (empty_query s)) (\<lambda>q. Inr (fold add_word (go_fields clean) q)))"

section \<open>The text query\<close>

definition sanitize_term :: "string \<Rightarrow> string" where
  "sanitize_term term =
     (let t = trim_space term in
      if t = [] then []
      else let t = concat (map (\<lambda>c. if c = CHR 0x27 then [c, c] else [c]) t)
           in if t = ''&'' \<or> t = ''|'' \<or> t = ''!'' \<or> t = ''<->'' then []
              else if \<not> suffix '':*'' t then t @ '':*'' else t)"

definition operator_at :: "string list \<Rightarrow> nat \<Rightarrow> string" where
  "operator_at ops i =
     (if i < length ops then
        (if ops ! i = ''OR'' then ''|'' else if ops ! i = ''NOT'' then ''&!'' else if ops ! i = ''AND'' then ''&'' else ''&'')
      else ''&'')"

text \<open>The parts from term \<open>i\<close> on.\<close>

fun query_parts :: "string list \<Rightarrow> nat \<Rightarrow> string list \<Rightarrow> string list" where
  "query_parts ops i [] = []"
| "query_parts ops i (t # ts) =
     (let s = sanitize_term t in
      if s = [] then query_parts ops (i + 1) ts
      else s # (if ts \<noteq> [] then [operator_at ops i] else []) @ query_parts ops (i + 1) ts)"

definition to_ts_query :: "parsed_query \<Rightarrow> string" where
  "to_ts_query q =
     (if pq_terms q = [] then [] else join_strings '' '' (query_parts (pq_operators q) 0 (pq_terms q)))"

definition has_filters :: "parsed_query \<Rightarrow> bool" where
  "has_filters q \<longleftrightarrow> length (pq_entity_types q) > 0 \<or> length (pq_field_types q) > 0 \<or> pq_module_pattern q \<noteq> [] \<or>
     pq_version_constraint q \<noteq> [] \<or> length (pq_imports q) > 0 \<or> length (pq_depends_on q) > 0 \<or> pq_has_comment q"

text \<open>\<open>%v\<close> of a slice of strings.\<close>

definition fmt_strings :: "string list \<Rightarrow> string" where
  "fmt_strings ss = ''['' @ join_strings '' '' ss @ '']''"

definition query_string :: "parsed_query \<Rightarrow> string" where
  "query_string q = join_strings '', '' (
     (if length (pq_terms q) > 0 then [''terms:'' @ fmt_strings (pq_terms q)] else []) @
     (if length (pq_entity_types q) > 0 then [''entity:'' @ fmt_strings (pq_entity_types q)] else []) @
     (if length (pq_field_types q) > 0 then [''type:'' @ fmt_strings (pq_field_types q)] else []) @
     (if pq_module_pattern q \<noteq> [] then [''module:'' @ pq_module_pattern q] else []) @
     (if pq_version_constraint q \<noteq> [] then [''version:'' @ pq_version_constraint q] else []) @
     (if length (pq_imports q) > 0 then [''imports:'' @ fmt_strings (pq_imports q)] else []) @
     (if length (pq_depends_on q) > 0 then [''depends-on:'' @ fmt_strings (pq_depends_on q)] else []) @
     (if pq_has_comment q then [''has-comment:true''] else []))"

end
