(* ===== verification/Search_Props.thy ===== *)
theory Search_Props
  imports Search_Query
begin

text \<open>
  What the query parser reads back from a query written item by item, and the shape of the text query.
\<close>

section \<open>Queries written item by item\<close>

datatype query_item = Word string | Filter string string | Quoted string string

fun item_text :: "query_item \<Rightarrow> string" where
  "item_text (Word w) = w"
| "item_text (Filter k v) = k @ '':'' @ v"
| "item_text (Quoted k v) = k @ '':'' @ [CHR 0x22] @ v @ [CHR 0x22]"

text \<open>A byte that starts no white-space character.\<close>

definition solid :: "char \<Rightarrow> bool" where
  "solid c \<longleftrightarrow> c \<notin> set (map hd space_codes)"

fun item_ok :: "query_item \<Rightarrow> bool" where
  "item_ok (Word w) \<longleftrightarrow> w \<noteq> [] \<and> list_all solid w \<and> CHR '':'' \<notin> set w"
| "item_ok (Filter k v) \<longleftrightarrow> k \<noteq> [] \<and> list_all is_key_char k \<and> v \<noteq> [] \<and> hd v \<noteq> CHR 0x22 \<and>
     list_all (\<lambda>c. \<not> is_regex_space c) v"
| "item_ok (Quoted k v) \<longleftrightarrow> k \<noteq> [] \<and> list_all is_key_char k \<and> v \<noteq> [] \<and> CHR 0x22 \<notin> set v"

fun item_filters :: "query_item \<Rightarrow> (string \<times> string) list" where
  "item_filters (Word w) = []"
| "item_filters (Filter k v) = [(k, v)]"
| "item_filters (Quoted k v) = [(k, v)]"

fun item_word :: "query_item \<Rightarrow> string" where
  "item_word (Word w) = w"
| "item_word (Filter k v) = []"
| "item_word (Quoted k v) = []"

definition items_text :: "query_item list \<Rightarrow> string" where
  "items_text items = join_strings '' '' (map item_text items)"

definition items_filters :: "query_item list \<Rightarrow> (string \<times> string) list" where
  "items_filters items = concat (map item_filters items)"

definition items_words :: "query_item list \<Rightarrow> string list" where
  "items_words items = filter (\<lambda>w. w \<noteq> []) (map item_word items)"

section \<open>Scanning\<close>

lemma not_key_char [simp]: "\<not> is_key_char (CHR '' '')" "\<not> is_key_char (CHR '':'')"
  by code_simp+

text \<open>What may follow an item: nothing, or a blank.\<close>

definition ends :: "string \<Rightarrow> bool" where
  "ends rest \<longleftrightarrow> rest = [] \<or> hd rest = CHR '' ''"

lemma match_filter_none:
  assumes "dropWhile is_key_char s = [] \<or> hd (dropWhile is_key_char s) \<noteq> CHR '':''"
  shows "match_filter s = None"
  using assms by (cases "dropWhile is_key_char s") (auto simp: match_filter_def Let_def simp del: dropWhile_eq_Nil_conv)

lemma dropWhile_both: "dropWhile P (w @ r) = (if dropWhile P w = [] then dropWhile P r else dropWhile P w @ r)"
  by (induction w) auto

lemma until_mark:
  "c \<notin> set v \<Longrightarrow> takeWhile (\<lambda>d. d \<noteq> c) (v @ c # r) = v"
  "c \<notin> set v \<Longrightarrow> dropWhile (\<lambda>d. d \<noteq> c) (v @ c # r) = c # r"
  by (induction v) auto

lemma match_filter_word: "CHR '':'' \<notin> set w \<Longrightarrow> ends rest \<Longrightarrow> match_filter (w @ rest) = None"
proof (rule match_filter_none)
  assume w: "CHR '':'' \<notin> set w" and rest: "ends rest"
  show "dropWhile is_key_char (w @ rest) = [] \<or> hd (dropWhile is_key_char (w @ rest)) \<noteq> CHR '':''"
  proof (cases "dropWhile is_key_char w")
    case Nil
    then have "dropWhile is_key_char (w @ rest) = rest"
      using rest by (cases rest) (auto simp: ends_def dropWhile_eq_Nil_conv)
    then show ?thesis using rest by (auto simp: ends_def)
  next
    case (Cons c u)
    then have "c \<in> set w" by (metis list.set_intros(1) set_dropWhileD)
    then show ?thesis using w Cons by (auto simp: dropWhile_both)
  qed
qed

lemma scan_word:
  "CHR '':'' \<notin> set w \<Longrightarrow> ends rest \<Longrightarrow> scan_filters (w @ rest) = map_prod id ((@) w) (scan_filters rest)"
proof (induction w)
  case (Cons c w)
  then show ?case
    using match_filter_word [of "c # w" rest] by (simp add: case_prod_unfold map_prod_def Let_def)
next
  case Nil
  then show ?case by (cases "scan_filters rest") simp
qed

lemma scan_blank: "scan_filters (CHR '' '' # s) = map_prod id ((#) (CHR '' '')) (scan_filters s)"
  using match_filter_none [of "CHR '' '' # s"] by (simp add: case_prod_unfold map_prod_def Let_def)

lemma key_parts_of:
  assumes "list_all is_key_char k"
  shows "takeWhile is_key_char (k @ CHR '':'' # t) = k" "dropWhile is_key_char (k @ CHR '':'' # t) = CHR '':'' # t"
  using assms by (auto simp: list_all_iff takeWhile_append2 dropWhile_append2)

lemma match_filter_plain:
  assumes "item_ok (Filter k v)" and "ends rest"
  shows "match_filter (item_text (Filter k v) @ rest) = Some (k, v, rest)"
proof -
  have "takeWhile (\<lambda>d. \<not> is_regex_space d) (v @ rest) = v" "dropWhile (\<lambda>d. \<not> is_regex_space d) (v @ rest) = rest"
    using assms by (cases rest; auto simp: ends_def is_regex_space_def list_all_iff takeWhile_append2 dropWhile_append2)+
  moreover have "hd (v @ rest) \<noteq> CHR 0x22" using assms by simp
  ultimately show ?thesis using assms by (simp add: match_filter_def key_parts_of Let_def)
qed

lemma match_filter_quoted:
  assumes "item_ok (Quoted k v)"
  shows "match_filter (item_text (Quoted k v) @ rest) = Some (k, v, rest)"
  using assms by (simp add: match_filter_def key_parts_of Let_def until_mark)

lemma scan_item:
  assumes "item_ok it" and "ends rest"
  shows "scan_filters (item_text it @ rest) =
    map_prod ((@) (item_filters it)) ((@) (item_word it)) (scan_filters rest)"
proof -
  have match: "scan_filters s = map_prod ((#) (k, v)) id (scan_filters r)"
    if m: "match_filter s = Some (k, v, r)" for s k v r
  proof -
    obtain c t where "s = c # t" using match_filter_shorter [OF m] by (cases s) auto
    with m show ?thesis by (simp add: case_prod_unfold map_prod_def Let_def)
  qed
  show ?thesis
  proof (cases it)
    case (Word w)
    then show ?thesis using assms scan_word [of w rest] by (cases "scan_filters rest") simp
  next
    case (Filter k v)
    then show ?thesis using match [OF match_filter_plain [of k v rest]] assms by (cases "scan_filters rest") simp
  next
    case (Quoted k v)
    then show ?thesis using match [OF match_filter_quoted [of k v rest]] assms by (cases "scan_filters rest") simp
  qed
qed

lemma scan_items:
  "list_all item_ok items \<Longrightarrow>
   scan_filters (items_text items) = (items_filters items, join_strings '' '' (map item_word items))"
proof (induction items rule: induct_list012)
  case (3 x y zs)
  have "scan_filters (items_text (x # y # zs)) = scan_filters (item_text x @ CHR '' '' # items_text (y # zs))"
    by (simp add: items_text_def)
  also have "\<dots> = map_prod ((@) (item_filters x)) ((@) (item_word x)) (scan_filters (CHR '' '' # items_text (y # zs)))"
    by (rule scan_item) (use "3.prems" in \<open>auto simp: ends_def\<close>)
  finally show ?case using 3 by (simp add: scan_blank items_filters_def del: scan_filters.simps)
next
  case (2 x)
  then show ?case using scan_item [of x "[]"] by (simp add: items_text_def items_filters_def ends_def)
qed (simp add: items_text_def items_filters_def)

section \<open>Words\<close>

lemma space_width_solid: "solid c \<Longrightarrow> space_width space_codes (c # s) = 0"
proof -
  assume c: "solid c"
  have "\<not> has_prefix (c # s) code" if "code \<in> set space_codes" for code
  proof -
    have "code \<noteq> []" using that by (auto simp: space_codes_def)
    moreover have "hd code \<noteq> c" using c that by (auto simp: solid_def)
    ultimately show ?thesis by (cases code) (auto simp: has_prefix_def)
  qed
  then have "find (has_prefix (c # s)) space_codes = None" by (simp add: find_None_iff)
  then show ?thesis by (simp add: space_width_def)
qed

lemma space_width_blank: "space_width space_codes (CHR '' '' # s) = 1"
  by (simp add: space_width_def space_codes_def has_prefix_def)

lemma fields_solid: "list_all solid w \<Longrightarrow> fields_loop cur (w @ s) = fields_loop (cur @ w) s"
  by (induction w arbitrary: cur) (simp_all add: space_width_solid)

lemma fields_blank: "fields_loop cur (CHR '' '' # s) = (if cur \<noteq> [] then [cur] else []) @ fields_loop [] s"
  by (simp add: space_width_blank)

lemma fields_words:
  "list_all (list_all solid) ws \<Longrightarrow> go_fields (join_strings '' '' ws) = filter (\<lambda>w. w \<noteq> []) ws"
proof (induction ws rule: induct_list012)
  case (2 w)
  then show ?case using fields_solid [of w "[]" "[]"] by (simp add: go_fields_def)
next
  case (3 w v ws)
  then have "go_fields (join_strings '' '' (w # v # ws)) = fields_loop [] (w @ CHR '' '' # join_strings '' '' (v # ws))"
    by (simp add: go_fields_def)
  also have "\<dots> = fields_loop w (CHR '' '' # join_strings '' '' (v # ws))" using "3.prems" by (simp add: fields_solid)
  finally show ?case using 3 by (simp add: fields_blank go_fields_def del: fields_loop.simps)
qed (simp add: go_fields_def)

lemma items_words_solid: "list_all item_ok items \<Longrightarrow> list_all (list_all solid) (map item_word items)"
proof (induction items)
  case (Cons it items)
  then show ?case by (cases it) auto
qed simp

lemma parse_items:
  "list_all item_ok items \<Longrightarrow> parse_query (items_text items) =
     rbind (parse_filters (items_filters items) (empty_query (items_text items)))
       (\<lambda>q. Inr (fold add_word (items_words items) q))"
  by (simp add: parse_query_def scan_items fields_words items_words_solid items_words_def)

definition is_operator :: "string \<Rightarrow> bool" where
  "is_operator w \<longleftrightarrow> ascii_upper w \<in> {''AND'', ''OR'', ''NOT''}"

lemma add_words: "fold add_word ws q = q\<lparr>pq_terms := pq_terms q @ filter (\<lambda>w. \<not> is_operator w) ws,
    pq_operators := pq_operators q @ map ascii_upper (filter is_operator ws)\<rparr>"
  by (induction ws arbitrary: q) (auto simp: add_word_def is_operator_def Let_def)

text \<open>The text as typed is only recorded.\<close>

lemma parse_filters_raw:
  "parse_filters fs (q\<lparr>pq_raw := r\<rparr>) = map_sum id (\<lambda>q. q\<lparr>pq_raw := r\<rparr>) (parse_filters fs q)"
proof -
  have step: "parse_filter f (q\<lparr>pq_raw := r\<rparr>) = map_sum id (\<lambda>q. q\<lparr>pq_raw := r\<rparr>) (parse_filter f q)" for f q
    by (cases f) (auto simp: parse_filter_def Let_def)
  show ?thesis
  proof (induction fs arbitrary: q)
    case (Cons f fs)
    then show ?case by (cases "parse_filter f q") (simp_all add: step)
  qed simp
qed

section \<open>The text query\<close>

text \<open>Operands and operators take turns, an operand first.\<close>

definition operand :: "string \<Rightarrow> bool" where
  "operand p \<longleftrightarrow> suffix '':*'' p"

fun alternating :: "string list \<Rightarrow> bool" where
  "alternating [] \<longleftrightarrow> True"
| "alternating [p] \<longleftrightarrow> operand p"
| "alternating (p # op # ps) \<longleftrightarrow> operand p \<and> \<not> operand op \<and> alternating ps"

lemma sanitized_operand: "sanitize_term t \<noteq> [] \<Longrightarrow> operand (sanitize_term t)"
  by (auto simp: sanitize_term_def Let_def operand_def suffix_def)

lemma operator_not_operand: "\<not> operand (operator_at ops i)"
  by (auto simp: operator_at_def operand_def suffix_def append_eq_Cons_conv)

lemma parts_shape:
  "alternating (query_parts ops i ts) \<and>
   (even (length (query_parts ops i ts)) \<longleftrightarrow> ts = [] \<or> sanitize_term (last ts) = [])"
proof (induction ts arbitrary: i)
  case (Cons t ts)
  show ?case using Cons [of "i + 1"] operator_not_operand [of ops i] sanitized_operand [of t] by (auto simp: Let_def)
qed simp

section \<open>The query that filters and words make\<close>

text \<open>The values given for some keys, in order.\<close>

definition filter_values :: "string list \<Rightarrow> (string \<times> string) list \<Rightarrow> string list" where
  "filter_values ks fs = map snd (filter (\<lambda>(k, v). ascii_lower k \<in> set ks) fs)"

definition known_keys :: "string list" where
  "known_keys = [''type'', ''entity'', ''module'', ''version'', ''imports'', ''depends-on'', ''depends_on'',
     ''has-comment'', ''has_comment'']"

definition last_value :: "string \<Rightarrow> string list \<Rightarrow> string" where
  "last_value d vs = (if vs = [] then d else last vs)"

definition comment_value :: "bool \<Rightarrow> string list \<Rightarrow> bool" where
  "comment_value d vs = (if vs = [] then d else last vs \<in> {''true'', ''1'', ''yes''})"

definition entity_names :: "string set" where
  "entity_names = {''message'', ''field'', ''enum'', ''enum_value'', ''service'', ''method''}"

text \<open>A query with more filters; a later module, version or comment filter replaces an earlier one.\<close>

definition with_filters :: "(string \<times> string) list \<Rightarrow> parsed_query \<Rightarrow> parsed_query" where
  "with_filters fs q = \<lparr>
     pq_terms = pq_terms q @ map (\<lambda>(k, v). k @ '':'' @ v) (filter (\<lambda>(k, v). ascii_lower k \<notin> set known_keys) fs),
     pq_entity_types = pq_entity_types q @ filter_values [''entity''] fs,
     pq_field_types = pq_field_types q @ filter_values [''type''] fs,
     pq_module_pattern = last_value (pq_module_pattern q) (filter_values [''module''] fs),
     pq_version_constraint = last_value (pq_version_constraint q) (filter_values [''version''] fs),
     pq_imports = pq_imports q @ filter_values [''imports''] fs,
     pq_depends_on = pq_depends_on q @ filter_values [''depends-on'', ''depends_on''] fs,
     pq_has_comment = comment_value (pq_has_comment q) (filter_values [''has-comment'', ''has_comment''] fs),
     pq_operators = pq_operators q, pq_raw = pq_raw q\<rparr>"

definition with_words :: "string list \<Rightarrow> parsed_query \<Rightarrow> parsed_query" where
  "with_words ws q = q\<lparr>pq_terms := pq_terms q @ filter (\<lambda>w. \<not> is_operator w) ws,
     pq_operators := pq_operators q @ map ascii_upper (filter is_operator ws)\<rparr>"

definition bad_entity :: "string \<times> string \<Rightarrow> bool" where
  "bad_entity f \<longleftrightarrow> ascii_lower (fst f) = ''entity'' \<and> snd f \<notin> entity_names"

lemma with_filters_Cons:
  "map_sum id (with_filters fs) (parse_filter (k, v) q) =
     (if bad_entity (k, v) then Inl (Invalid_Entity_Type v) else Inr (with_filters ((k, v) # fs) q))"
proof (cases "ascii_lower k \<in> set known_keys")
  case True
  then consider "ascii_lower k = ''type''" | "ascii_lower k = ''entity''" | "ascii_lower k = ''module''"
    | "ascii_lower k = ''version''" | "ascii_lower k = ''imports''" | "ascii_lower k = ''depends-on''"
    | "ascii_lower k = ''depends_on''" | "ascii_lower k = ''has-comment''" | "ascii_lower k = ''has_comment''"
    unfolding known_keys_def list.set insert_iff by blast
  then show ?thesis
    unfolding with_filters_def filter_values_def known_keys_def last_value_def comment_value_def parse_filter_def
      bad_entity_def entity_names_def
    by cases simp_all
next
  case False
  then have "parse_filter (k, v) q = Inr (q\<lparr>pq_terms := pq_terms q @ [k @ '':'' @ v]\<rparr>)" and "\<not> bad_entity (k, v)"
    by (simp_all add: parse_filter_def known_keys_def bad_entity_def)
  moreover have "filter_values ks ((k, v) # fs) = filter_values ks fs" if "set ks \<subseteq> set known_keys" for ks
    using False that by (auto simp: filter_values_def)
  ultimately show ?thesis
    using False by (simp add: with_filters_def) (simp add: known_keys_def)
qed

lemma parse_filters_with:
  "parse_filters fs q = (case find bad_entity fs of
     Some f \<Rightarrow> Inl (Invalid_Entity_Type (snd f)) | None \<Rightarrow> Inr (with_filters fs q))"
proof (induction fs arbitrary: q)
  case (Cons f fs)
  obtain k v where f: "f = (k, v)" by (cases f)
  show ?case
    using with_filters_Cons [of "[]" k v q] with_filters_Cons [of fs k v q]
    by (cases "parse_filter f q") (auto simp: f Cons split: if_splits option.splits)
qed (simp add: filter_values_def with_filters_def last_value_def comment_value_def)

section \<open>Properties\<close>

text \<open>C17. A query written item by item is read back: for any sequence of words, filters and quoted filters,
  separated by blanks, parsing either names the first entity type that is none, or returns exactly the
  filters' values by key, unknown filters as terms, then the words that are no operators, and the operators.\<close>

theorem parse_query_items:
  assumes "list_all item_ok items"
  shows "parse_query (items_text items) =
    (case find bad_entity (items_filters items) of
       Some f \<Rightarrow> Inl (Invalid_Entity_Type (snd f))
     | None \<Rightarrow> Inr (with_words (items_words items) (with_filters (items_filters items) (empty_query (items_text items)))))"
  using assms by (simp add: parse_items parse_filters_with add_words with_words_def split: option.split)

text \<open>Where the operators stand is lost: two queries with the same filters, the same terms and the same
  operators, each in the same order, parse to the same result, whichever terms the operators stood between.\<close>

lemma operator_position_lost:
  assumes "list_all item_ok items" and "list_all item_ok items'"
    and "items_filters items = items_filters items'"
    and "filter (\<lambda>w. \<not> is_operator w) (items_words items) = filter (\<lambda>w. \<not> is_operator w) (items_words items')"
    and "filter is_operator (items_words items) = filter is_operator (items_words items')"
  shows "map_sum id (\<lambda>q. (to_ts_query q, q\<lparr>pq_raw := []\<rparr>)) (parse_query (items_text items)) =
    map_sum id (\<lambda>q. (to_ts_query q, q\<lparr>pq_raw := []\<rparr>)) (parse_query (items_text items'))"
  using assms by (simp add: parse_items parse_filters_with add_words with_filters_def empty_query_def to_ts_query_def
      split: option.split)

text \<open>The shape of the text query: its parts are operands and operators in turn, beginning with an operand,
  and the last part is an operator, which PostgreSQL rejects, exactly when the last term is dropped while
  sanitizing and an earlier one is not.\<close>

lemma text_query_shape:
  "\<exists>ps. to_ts_query q = join_strings '' '' ps \<and> alternating ps \<and>
     (ps \<noteq> [] \<and> \<not> operand (last ps) \<longleftrightarrow>
       list_ex (\<lambda>t. sanitize_term t \<noteq> []) (pq_terms q) \<and> sanitize_term (last (pq_terms q)) = [])"
proof -
  let ?ps = "query_parts (pq_operators q) 0 (pq_terms q)"
  have ends: "operand (last ps) \<longleftrightarrow> odd (length ps)" if "alternating ps" "ps \<noteq> []" for ps
    using that by (induction ps rule: alternating.induct) auto
  have empty: "query_parts ops i ts = [] \<longleftrightarrow> list_all (\<lambda>t. sanitize_term t = []) ts" for ops i ts
    by (induction ts arbitrary: i) (auto simp: Let_def)
  have "to_ts_query q = join_strings '' '' ?ps" by (simp add: to_ts_query_def)
  moreover have "?ps \<noteq> [] \<and> \<not> operand (last ?ps) \<longleftrightarrow>
      list_ex (\<lambda>t. sanitize_term t \<noteq> []) (pq_terms q) \<and> sanitize_term (last (pq_terms q)) = []"
    using ends [of ?ps] empty [of "pq_operators q" 0 "pq_terms q"] parts_shape [of "pq_operators q" 0 "pq_terms q"]
    by (cases "pq_terms q = []") (auto simp: list_ex_iff list_all_iff)
  ultimately show ?thesis using parts_shape by blast
qed

section \<open>Witnesses\<close>

theorem parse_query_items_witness:
  "parse_query ''user entity:field OR module:\"a b\" x:y'' =
     Inr ((empty_query ''user entity:field OR module:\"a b\" x:y'')\<lparr>pq_terms := [''x:y'', ''user''],
       pq_entity_types := [''field''], pq_module_pattern := ''a b'', pq_operators := [''OR'']\<rparr>)"
proof -
  let ?items = "[Word ''user'', Filter ''entity'' ''field'', Word ''OR'', Quoted ''module'' ''a b'', Filter ''x'' ''y'']"
  have "list_all item_ok ?items" by (simp add: solid_def space_codes_def is_key_char_def in_range_def is_regex_space_def)
  moreover have "items_text ?items = ''user entity:field OR module:\"a b\" x:y''" by code_simp
  moreover have "find bad_entity (items_filters ?items) = None" by code_simp
  moreover have "with_words (items_words ?items) (with_filters (items_filters ?items) (empty_query raw)) =
      (empty_query raw)\<lparr>pq_terms := [''x:y'', ''user''], pq_entity_types := [''field''],
        pq_module_pattern := ''a b'', pq_operators := [''OR'']\<rparr>" for raw
    by code_simp
  ultimately show ?thesis using parse_query_items [of ?items] by simp
qed

end
