(* ===== verification/Storage_Files.thy ===== *)
theory Storage_Files
  imports Spoke_Prelude
begin

text \<open>
  The file system that \<open>pkg/storage/filesystem.go\<close> works on, and the functions of \<open>os\<close> and
  \<open>path/filepath\<close> it calls. A path is the list of its components from the root directory; the storage's
  own root is an absolute path. There are no symbolic links, and an operation fails only for what it
  finds in the tree: a missing entry, a file where a directory should be, or the reverse.
\<close>

section \<open>Paths\<close>

type_synonym path = "string list"

text \<open>\<open>filepath.Clean\<close> on the components of an absolute path, and \<open>filepath.Join\<close>.\<close>

definition clean_step :: "path \<Rightarrow> string \<Rightarrow> path" where
  "clean_step p c = (if c = [] \<or> c = ''.'' then p else if c = ''..'' then butlast p else p @ [c])"

definition join_path :: "path \<Rightarrow> string list \<Rightarrow> path" where
  "join_path p elems = foldl clean_step p (concat (map (split_on (CHR ''/'')) elems))"

text \<open>A name that stands for one directory entry, and a path that stays below where it starts.\<close>

definition plain_name :: "string \<Rightarrow> bool" where
  "plain_name n \<longleftrightarrow> n \<noteq> [] \<and> n \<noteq> ''.'' \<and> n \<noteq> ''..'' \<and> CHR ''/'' \<notin> set n"

definition plain_path :: "string \<Rightarrow> bool" where
  "plain_path s \<longleftrightarrow> list_all (\<lambda>c. c \<noteq> [] \<and> c \<noteq> ''.'' \<and> c \<noteq> ''..'') (split_on (CHR ''/'') s)"

lemma foldl_clean_plain: "list_all (\<lambda>c. c \<noteq> [] \<and> c \<noteq> ''.'' \<and> c \<noteq> ''..'') cs \<Longrightarrow> foldl clean_step p cs = p @ cs"
  by (induction cs arbitrary: p) (auto simp: clean_step_def)

lemma join_path_Nil [simp]: "join_path p [] = p"
  by (simp add: join_path_def)

lemma join_path_Cons: "join_path p (e # es) = join_path (join_path p [e]) es"
  by (simp add: join_path_def)

lemma join_plain_path: "plain_path s \<Longrightarrow> join_path p [s] = p @ split_on (CHR ''/'') s"
  by (simp add: join_path_def plain_path_def foldl_clean_plain)

lemma join_plain_name: "plain_name n \<Longrightarrow> join_path p [n] = p @ [n]"
  by (simp add: join_path_def plain_name_def split_on_single clean_step_def)

section \<open>Files and directories\<close>

datatype fs_node = Directory | Regular string

type_synonym file_system = "(path, fs_node) gomap"

datatype os_error = Not_Exist | Not_Directory | Is_Directory

definition node_at :: "file_system \<Rightarrow> path \<Rightarrow> fs_node option" where
  "node_at fs p = (if p = [] then Some Directory else gm_get fs p)"

definition is_regular :: "file_system \<Rightarrow> path \<Rightarrow> bool" where
  "is_regular fs p = (case node_at fs p of Some (Regular _) \<Rightarrow> True | _ \<Rightarrow> False)"

definition ancestors :: "path \<Rightarrow> path list" where
  "ancestors p = map (\<lambda>n. take n p) [1..<length p]"

definition chain :: "path \<Rightarrow> path list" where
  "chain p = ancestors p @ [p]"

text \<open>The error for a path with no entry.\<close>

definition missing :: "file_system \<Rightarrow> path \<Rightarrow> os_error" where
  "missing fs p = (if list_ex (is_regular fs) (ancestors p) then Not_Directory else Not_Exist)"

definition read_file :: "file_system \<Rightarrow> path \<Rightarrow> os_error + string" where
  "read_file fs p = (case node_at fs p of
     Some (Regular d) \<Rightarrow> Inr d | Some Directory \<Rightarrow> Inl Is_Directory | None \<Rightarrow> Inl (missing fs p))"

definition make_dir :: "path \<Rightarrow> file_system \<Rightarrow> file_system" where
  "make_dir p fs = (if node_at fs p = None then gm_put p Directory fs else fs)"

definition mkdir_all :: "path \<Rightarrow> file_system \<Rightarrow> os_error + file_system" where
  "mkdir_all p fs =
     (if list_ex (is_regular fs) (chain p) then Inl Not_Directory
      else Inr (fold make_dir (chain p) fs))"

definition write_file :: "path \<Rightarrow> string \<Rightarrow> file_system \<Rightarrow> os_error + file_system" where
  "write_file p d fs = (case node_at fs p of
     Some Directory \<Rightarrow> Inl Is_Directory
   | Some (Regular _) \<Rightarrow> Inr (gm_put p (Regular d) fs)
   | None \<Rightarrow> if node_at fs (butlast p) = Some Directory then Inr (gm_put p (Regular d) fs) else Inl (missing fs p))"

text \<open>\<open>os.ReadDir\<close>: the entries' names in order, each with whether it is a directory.\<close>

definition read_dir :: "file_system \<Rightarrow> path \<Rightarrow> os_error + (string \<times> bool) list" where
  "read_dir fs p = (case node_at fs p of
     Some Directory \<Rightarrow>
       Inr (sort_key fst (map (\<lambda>(q, n). (last q, n = Directory)) (filter (\<lambda>(q, n). q \<noteq> [] \<and> butlast q = p) fs)))
   | Some (Regular _) \<Rightarrow> Inl Not_Directory
   | None \<Rightarrow> Inl (missing fs p))"

text \<open>A tree: every entry is in a directory.\<close>

definition fs_wf :: "file_system \<Rightarrow> bool" where
  "fs_wf fs \<longleftrightarrow> gm_ok fs \<and> list_all (\<lambda>(p, n). p \<noteq> [] \<and> node_at fs (butlast p) = Some Directory) fs"

section \<open>Lookups after writes\<close>

lemma node_at_put: "p \<noteq> [] \<Longrightarrow> node_at (gm_put p n fs) q = (if q = p then Some n else node_at fs q)"
  by (simp add: node_at_def gm_get_put)

lemma node_at_make_dir: "node_at (make_dir p fs) q = (if q = p \<and> node_at fs q = None then Some Directory else node_at fs q)"
  by (cases "p = []") (auto simp: make_dir_def node_at_put, auto simp: node_at_def)

lemma node_at_make_dirs:
  "node_at (fold make_dir ps fs) q = (if q \<in> set ps \<and> node_at fs q = None then Some Directory else node_at fs q)"
  by (induction ps arbitrary: fs) (auto simp: node_at_make_dir)

lemma node_at_mkdir_all:
  "mkdir_all p fs = Inr fs' \<Longrightarrow>
   node_at fs' q = (if q \<in> set (chain p) \<and> node_at fs q = None then Some Directory else node_at fs q)"
  by (auto simp: mkdir_all_def node_at_make_dirs split: if_splits)

lemma node_at_write_file:
  "write_file p d fs = Inr fs' \<Longrightarrow> node_at fs' q = (if q = p then Some (Regular d) else node_at fs q)"
  by (cases "p = []") (auto simp: write_file_def node_at_put split: option.splits fs_node.splits if_splits,
      auto simp: node_at_def)

lemma ancestors_prefix: "q \<in> set (ancestors p) \<longleftrightarrow> (\<exists>r. r \<noteq> [] \<and> q \<noteq> [] \<and> p = q @ r)"
proof
  assume "q \<in> set (ancestors p)"
  then obtain n where "1 \<le> n" "n < length p" "q = take n p" by (auto simp: ancestors_def)
  then show "\<exists>r. r \<noteq> [] \<and> q \<noteq> [] \<and> p = q @ r" by (intro exI [of _ "drop n p"]) auto
next
  assume "\<exists>r. r \<noteq> [] \<and> q \<noteq> [] \<and> p = q @ r"
  then obtain r where "r \<noteq> []" "q \<noteq> []" "p = q @ r" by blast
  then have "length q \<in> set [1..<length p]" "q = take (length q) p" by (auto simp: Suc_leI)
  then show "q \<in> set (ancestors p)" unfolding ancestors_def by (metis image_eqI list.set_map)
qed

text \<open>In a tree a file has nothing below it, and everything above an entry is a directory.\<close>

lemma wf_above: "fs_wf fs \<Longrightarrow> node_at fs (q @ r) \<noteq> None \<Longrightarrow> r \<noteq> [] \<Longrightarrow> node_at fs q = Some Directory"
proof (induction r rule: rev_induct)
  case (snoc x r)
  obtain n where "node_at fs (q @ r @ [x]) = Some n" using snoc.prems(2) by auto
  then have "(q @ r @ [x], n) \<in> set fs" by (simp add: node_at_def map_of_SomeD)
  then have "node_at fs (butlast (q @ r @ [x])) = Some Directory"
    using snoc.prems(1) unfolding fs_wf_def list_all_iff by blast
  then have up: "node_at fs (q @ r) = Some Directory" by (simp add: butlast_append)
  then show ?case using snoc by (cases "r = []") auto
qed simp

lemma wf_put:
  assumes "fs_wf fs" and "p \<noteq> []" and "node_at fs (butlast p) = Some Directory"
    and "node_at fs p = Some Directory \<longrightarrow> n = Directory"
  shows "fs_wf (gm_put p n fs)"
proof -
  have up: "node_at (gm_put p n fs) q = Some Directory" if "node_at fs q = Some Directory" for q
    using that assms(2,4) by (auto simp: node_at_put)
  have "q \<noteq> [] \<and> node_at fs (butlast q) = Some Directory" if "(q, m) \<in> set (gm_put p n fs)" for q m
    using that set_gm_put [of p n fs] assms(1-3) by (auto simp: fs_wf_def list_all_iff)
  then show ?thesis using assms(1) up by (auto simp: fs_wf_def list_all_iff)
qed

lemma wf_write_file: "fs_wf fs \<Longrightarrow> write_file p d fs = Inr fs' \<Longrightarrow> fs_wf fs'"
proof -
  assume wf: "fs_wf fs" and w: "write_file p d fs = Inr fs'"
  have p: "p \<noteq> []" using w by (auto simp: write_file_def node_at_def)
  have "node_at fs (butlast p) = Some Directory"
  proof (cases "node_at fs p")
    case (Some n)
    then have "node_at fs (butlast p @ [last p]) \<noteq> None" using p by simp
    then show ?thesis using wf_above [OF wf] by blast
  qed (use w in \<open>auto simp: write_file_def split: if_splits\<close>)
  moreover have "node_at fs p \<noteq> Some Directory" "fs' = gm_put p (Regular d) fs"
    using w by (auto simp: write_file_def split: option.splits fs_node.splits if_splits)
  ultimately show ?thesis using wf_put [OF wf p, of "Regular d"] by simp
qed

lemma wf_make_dir: "fs_wf fs \<Longrightarrow> node_at fs (butlast p) = Some Directory \<Longrightarrow> fs_wf (make_dir p fs)"
proof (cases "node_at fs p")
  case None
  moreover assume "fs_wf fs" "node_at fs (butlast p) = Some Directory"
  moreover have "p \<noteq> []" using None by (auto simp: node_at_def)
  ultimately show ?thesis by (simp add: make_dir_def wf_put)
qed (simp add: make_dir_def)

end
