(* ===== verification/Storage_Versions.thy ===== *)
theory Storage_Versions
  imports Storage_Files
begin

text \<open>
  The storage of modules and versions (\<open>pkg/storage/filesystem.go\<close>, with the types of
  \<open>pkg/api/types.go\<close>). Every write returns the file system it leaves, also when it fails half-way. JSON is a
  parameter. \<open>GetVersion\<close> of \<open>latest\<close> lists the versions, and listing reads every one, so listing a module
  that has a version named \<open>latest\<close> calls itself: \<open>None\<close> is not returning.
\<close>

section \<open>Modules and versions\<close>

record api_module =
  am_name :: string
  am_description :: string
  am_created :: int
  am_updated :: int

record source_info =
  si_repository :: string
  si_commit :: string
  si_branch :: string

record api_file =
  af_path :: string
  af_content :: string

record compilation_info =
  ci_language :: string
  ci_package :: string
  ci_version :: string
  ci_files :: "api_file list"

record api_version =
  av_module :: string
  av_version :: string
  av_files :: "api_file list"
  av_created :: int
  av_dependencies :: "string list"
  av_source :: source_info
  av_compilation :: "compilation_info list"

record json_codec =
  jc_put_module :: "api_module \<Rightarrow> string"
  jc_get_module :: "string \<Rightarrow> api_module option"
  jc_put_version :: "api_version \<Rightarrow> string"
  jc_get_version :: "string \<Rightarrow> api_version option"

datatype store_error = Os os_error | Bad_Json | Wrap string store_error | Problem string | Not_Found

section \<open>Writing\<close>

text \<open>A step on the file system that may fail, and the steps after it.\<close>

definition fs_try :: "string \<Rightarrow> (file_system \<Rightarrow> os_error + file_system) \<Rightarrow>
    (file_system \<Rightarrow> file_system \<times> (store_error + 'a)) \<Rightarrow> file_system \<Rightarrow> file_system \<times> (store_error + 'a)" where
  "fs_try what step cont fs = (case step fs of Inl e \<Rightarrow> (fs, Inl (Wrap what (Os e))) | Inr fs' \<Rightarrow> cont fs')"

definition new_file_system_storage :: "path \<Rightarrow> file_system \<Rightarrow> file_system \<times> (store_error + path)" where
  "new_file_system_storage root =
     fs_try ''failed to create root directory'' (mkdir_all root) (\<lambda>fs. (fs, Inr root))"

definition create_module :: "json_codec \<Rightarrow> path \<Rightarrow> api_module \<Rightarrow> file_system \<Rightarrow> file_system \<times> (store_error + unit)" where
  "create_module jc root m =
     (let dir = join_path root [am_name m] in
      fs_try ''failed to create module directory'' (mkdir_all dir)
        (fs_try ''failed to write module file'' (write_file (join_path dir [''module.json'']) (jc_put_module jc m))
          (\<lambda>fs. (fs, Inr ()))))"

definition version_dir :: "path \<Rightarrow> string \<Rightarrow> string \<Rightarrow> path" where
  "version_dir root m v = join_path root [m, ''versions'', v]"

definition with_source_defaults :: "api_version \<Rightarrow> api_version" where
  "with_source_defaults v =
     (let s = av_source v;
          s = (if si_repository s = [] then s\<lparr>si_repository := ''unknown''\<rparr> else s);
          s = (if si_commit s = [] then s\<lparr>si_commit := ''unknown''\<rparr> else s);
          s = (if si_branch s = [] then s\<lparr>si_branch := ''unknown''\<rparr> else s)
      in v\<lparr>av_source := s\<rparr>)"

fun write_files :: "path \<Rightarrow> api_file list \<Rightarrow> file_system \<Rightarrow> file_system \<times> (store_error + unit)" where
  "write_files dir [] fs = (fs, Inr ())"
| "write_files dir (f # files) fs =
     (let p = join_path dir [af_path f] in
      fs_try ''failed to create file directory'' (mkdir_all (butlast p))
        (fs_try ''failed to write proto file'' (write_file p (af_content f)) (write_files dir files)) fs)"

text \<open>The version is changed in place: the defaults reach the caller.\<close>

definition create_version :: "json_codec \<Rightarrow> path \<Rightarrow> api_version \<Rightarrow> file_system \<Rightarrow>
    file_system \<times> (store_error + unit) \<times> api_version" where
  "create_version jc root v fs =
     (let dir = version_dir root (av_module v) (av_version v) in
      case mkdir_all dir fs of
        Inl e \<Rightarrow> (fs, Inl (Wrap ''failed to create version directory'' (Os e)), v)
      | Inr fs \<Rightarrow>
          (let v = with_source_defaults v;
               (fs, r) = fs_try ''failed to write version file''
                 (write_file (join_path dir [''version.json'']) (jc_put_version jc v))
                 (write_files dir (av_files v)) fs
           in (fs, r, v)))"

definition update_version :: "json_codec \<Rightarrow> path \<Rightarrow> api_version \<Rightarrow> file_system \<Rightarrow> file_system \<times> (store_error + unit)" where
  "update_version jc root v =
     (let dir = version_dir root (av_module v) (av_version v) in
      fs_try ''failed to create version directory'' (mkdir_all dir)
        (fs_try ''failed to write version file''
          (write_file (join_path dir [''version.json'']) (jc_put_version jc v)) (\<lambda>fs. (fs, Inr ()))))"

section \<open>Reading\<close>

definition fs_read :: "string \<Rightarrow> os_error + 'a \<Rightarrow> store_error + 'a" where
  "fs_read what r = (case r of Inl e \<Rightarrow> Inl (Wrap what (Os e)) | Inr d \<Rightarrow> Inr d)"

definition get_module :: "json_codec \<Rightarrow> path \<Rightarrow> file_system \<Rightarrow> string \<Rightarrow> store_error + api_module" where
  "get_module jc root fs name =
     rbind (fs_read ''failed to read module file'' (read_file fs (join_path root [name, ''module.json'']))) (\<lambda>d.
     case jc_get_module jc d of None \<Rightarrow> Inl (Wrap ''failed to unmarshal module'' Bad_Json) | Some m \<Rightarrow> Inr m)"

fun get_modules :: "json_codec \<Rightarrow> path \<Rightarrow> file_system \<Rightarrow> string list \<Rightarrow> store_error + api_module list" where
  "get_modules jc root fs [] = Inr []"
| "get_modules jc root fs (n # ns) = (case get_module jc root fs n of
     Inl e \<Rightarrow> Inl (Wrap (''failed to get module '' @ n) e)
   | Inr m \<Rightarrow> rbind (get_modules jc root fs ns) (\<lambda>ms. Inr (m # ms)))"

definition list_modules :: "json_codec \<Rightarrow> path \<Rightarrow> file_system \<Rightarrow> store_error + api_module list" where
  "list_modules jc root fs =
     rbind (fs_read ''failed to read root directory'' (read_dir fs root)) (\<lambda>entries.
     get_modules jc root fs (map fst (filter snd entries)))"

text \<open>\<open>GetVersion\<close> of any name but \<open>latest\<close>.\<close>

definition read_version :: "json_codec \<Rightarrow> path \<Rightarrow> file_system \<Rightarrow> string \<Rightarrow> string \<Rightarrow> store_error + api_version" where
  "read_version jc root fs m v =
     rbind (fs_read ''failed to read version file'' (read_file fs (join_path root [m, ''versions'', v, ''version.json'']))) (\<lambda>d.
     case jc_get_version jc d of None \<Rightarrow> Inl (Wrap ''failed to unmarshal version'' Bad_Json) | Some ver \<Rightarrow> Inr ver)"

definition version_parts :: "string \<Rightarrow> string list" where
  "version_parts v = split_on (CHR ''.'') (if v \<noteq> [] \<and> hd v = CHR ''v'' then tl v else v)"

text \<open>The loop over the common parts: which side the first difference puts first, if there is one.\<close>

fun compare_parts :: "string list \<Rightarrow> string list \<Rightarrow> bool option" where
  "compare_parts (a # as) (b # bs) = (case (atoi a, atoi b) of
     (Some x, Some y) \<Rightarrow> if x \<noteq> y then Some (x > y) else compare_parts as bs
   | _ \<Rightarrow> if a \<noteq> b then Some (a > b) else compare_parts as bs)"
| "compare_parts as bs = None"

definition newer :: "api_version \<Rightarrow> api_version \<Rightarrow> bool" where
  "newer vi vj =
     (let ps = version_parts (av_version vi); qs = version_parts (av_version vj) in
      case compare_parts ps qs of
        Some b \<Rightarrow> b
      | None \<Rightarrow> if length ps \<noteq> length qs then length ps > length qs else av_created vi > av_created vj)"

text \<open>
  \<open>sort.Slice\<close> as insertion sort, which it is for up to twelve elements; for more, any order that agrees
  with a consistent comparison. \<open>insert_back\<close> moves an element left past those it is less than; it sees the
  sorted part reversed.
\<close>

fun insert_back :: "('a \<Rightarrow> 'a \<Rightarrow> bool) \<Rightarrow> 'a \<Rightarrow> 'a list \<Rightarrow> 'a list" where
  "insert_back lt x [] = [x]"
| "insert_back lt x (y # ys) = (if lt x y then y # insert_back lt x ys else x # y # ys)"

definition sort_slice :: "('a \<Rightarrow> 'a \<Rightarrow> bool) \<Rightarrow> 'a list \<Rightarrow> 'a list" where
  "sort_slice lt xs = rev (foldl (\<lambda>ys x. insert_back lt x ys) [] xs)"

definition latest_of :: "string \<Rightarrow> store_error + api_version list \<Rightarrow> store_error + api_version" where
  "latest_of m r = (case r of
     Inl e \<Rightarrow> Inl (Wrap (''failed to list versions for module '' @ m) e)
   | Inr vs \<Rightarrow> if vs = [] then Inl (Problem (''no versions found for module '' @ m))
               else Inr (hd (sort_slice newer vs)))"

text \<open>The loop of \<open>ListVersions\<close> over the directories found, given \<open>GetVersion\<close>.\<close>

fun load_versions :: "(string \<Rightarrow> (store_error + api_version) option) \<Rightarrow> string list \<Rightarrow>
    (store_error + api_version list) option" where
  "load_versions get [] = Some (Inr [])"
| "load_versions get (n # ns) = Option.bind (get n) (\<lambda>r. case r of
     Inl e \<Rightarrow> Some (Inl (Wrap (''failed to get version '' @ n) e))
   | Inr v \<Rightarrow> Option.bind (load_versions get ns) (\<lambda>rs. Some (rbind rs (\<lambda>vs. Inr (v # vs)))))"

lemma load_versions_mono [partial_function_mono]:
  assumes "\<And>n. mono_option (\<lambda>f. get f n)"
  shows "mono_option (\<lambda>f. load_versions (get f) ns)"
proof (induction ns)
  case (Cons n ns)
  show ?case
    unfolding load_versions.simps
    by (intro bind_mono assms, rename_tac r, case_tac r)
      (simp_all add: option.const_mono bind_mono Cons)
qed (simp add: option.const_mono)

definition versions_dir :: "path \<Rightarrow> string \<Rightarrow> path" where
  "versions_dir root m = join_path root [m, ''versions'']"

partial_function (option) list_versions ::
    "json_codec \<Rightarrow> path \<Rightarrow> file_system \<Rightarrow> string \<Rightarrow> (store_error + api_version list) option" where
  "list_versions jc root fs m =
     (case fs_read ''failed to read versions directory'' (read_dir fs (versions_dir root m)) of
        Inl e \<Rightarrow> Some (Inl e)
      | Inr entries \<Rightarrow>
          load_versions (\<lambda>v. if v = ''latest''
              then Option.bind (list_versions jc root fs m) (\<lambda>r. Some (latest_of m r))
              else Some (read_version jc root fs m v))
            (map fst (filter snd entries)))"

definition get_latest_version :: "json_codec \<Rightarrow> path \<Rightarrow> file_system \<Rightarrow> string \<Rightarrow> (store_error + api_version) option" where
  "get_latest_version jc root fs m = Option.bind (list_versions jc root fs m) (\<lambda>r. Some (latest_of m r))"

definition fs_get_version :: "json_codec \<Rightarrow> path \<Rightarrow> file_system \<Rightarrow> string \<Rightarrow> string \<Rightarrow> (store_error + api_version) option" where
  "fs_get_version jc root fs m v =
     (if v = ''latest'' then get_latest_version jc root fs m else Some (read_version jc root fs m v))"

definition get_file :: "path \<Rightarrow> file_system \<Rightarrow> string \<Rightarrow> string \<Rightarrow> string \<Rightarrow> store_error + api_file" where
  "get_file root fs m v path =
     rbind (fs_read ''failed to read file'' (read_file fs (join_path root [m, ''versions'', v, path]))) (\<lambda>d.
     Inr \<lparr>af_path = path, af_content = d\<rparr>)"

section \<open>Pages and compiled artifacts\<close>

text \<open>The slice of a page, with the sum of start and limit in 64 bits; bounds out of order panic.\<close>

definition page :: "int \<Rightarrow> int \<Rightarrow> 'a list \<Rightarrow> go_panic + 'a list \<times> int" where
  "page limit offset xs =
     (let len = int (length xs);
          start = (if offset > len then len else offset);
          stop = wrap64 (start + limit);
          stop = (if stop > len then len else stop)
      in if start < 0 \<or> stop < start then Inl IndexOutOfRange
         else Inr (take (nat (stop - start)) (drop (nat start) xs), len))"

definition list_modules_paginated ::
    "json_codec \<Rightarrow> path \<Rightarrow> file_system \<Rightarrow> int \<Rightarrow> int \<Rightarrow> go_panic + (store_error + api_module list \<times> int)" where
  "list_modules_paginated jc root fs limit offset = (case list_modules jc root fs of
     Inl e \<Rightarrow> Inr (Inl e) | Inr ms \<Rightarrow> rbind (page limit offset ms) (\<lambda>r. Inr (Inr r)))"

definition list_versions_paginated ::
    "json_codec \<Rightarrow> path \<Rightarrow> file_system \<Rightarrow> string \<Rightarrow> int \<Rightarrow> int \<Rightarrow>
     (go_panic + (store_error + api_version list \<times> int)) option" where
  "list_versions_paginated jc root fs m limit offset = Option.bind (list_versions jc root fs m) (\<lambda>r. Some (case r of
     Inl e \<Rightarrow> Inr (Inl e) | Inr vs \<Rightarrow> rbind (page limit offset vs) (\<lambda>p. Inr (Inr p))))"

definition artifact_path :: "path \<Rightarrow> string \<Rightarrow> string \<Rightarrow> string \<Rightarrow> path" where
  "artifact_path root m v language = join_path root [m, ''versions'', v, ''compiled'', language @ ''.tar.gz'']"

text \<open>What is opened may be a directory: only reading it fails.\<close>

definition get_compiled_artifact :: "path \<Rightarrow> file_system \<Rightarrow> string \<Rightarrow> string \<Rightarrow> string \<Rightarrow> store_error + fs_node" where
  "get_compiled_artifact root fs m v language =
     (let p = artifact_path root m v language in
      case node_at fs p of
        Some n \<Rightarrow> Inr n
      | None \<Rightarrow> if missing fs p = Not_Exist then Inl Not_Found
                else Inl (Wrap ''failed to open compiled artifact'' (Os (missing fs p))))"

definition put_compiled_artifact :: "path \<Rightarrow> string \<Rightarrow> string \<Rightarrow> string \<Rightarrow> string \<Rightarrow> file_system \<Rightarrow>
    file_system \<times> (store_error + unit)" where
  "put_compiled_artifact root m v language artifact =
     (let dir = join_path root [m, ''versions'', v, ''compiled''] in
      fs_try ''failed to create compiled directory'' (mkdir_all dir)
        (fs_try ''failed to create artifact file'' (write_file (join_path dir [language @ ''.tar.gz'']) artifact)
          (\<lambda>fs. (fs, Inr ()))))"

definition health_check :: "path \<Rightarrow> file_system \<Rightarrow> store_error + unit" where
  "health_check root fs = (case node_at fs root of
     None \<Rightarrow> Inl (Wrap ''filesystem storage health check failed'' (Os (missing fs root))) | Some _ \<Rightarrow> Inr ())"

end
