(* ===== verification/Storage_Props.thy ===== *)
theory Storage_Props
  imports Storage_Versions
begin

text \<open>What the file storage guarantees: versions read back, untouched neighbours, and which version is latest.\<close>

section \<open>Creating a version\<close>

text \<open>The files written below a directory: a file at its own path, directories at the prefixes of it.\<close>

definition tree_of :: "(path \<times> string) list \<Rightarrow> path \<Rightarrow> fs_node option" where
  "tree_of done r = (case map_of done r of Some d \<Rightarrow> Some (Regular d)
     | None \<Rightarrow> if list_ex (\<lambda>(c, d). strict_prefix r c) done then Some Directory else None)"

text \<open>Paths that can be files side by side: none is at or above another.\<close>

definition apart :: "path list \<Rightarrow> bool" where
  "apart cs \<longleftrightarrow> distinct cs \<and> list_all (\<lambda>c. list_all (\<lambda>c'. \<not> strict_prefix c c') cs) cs"

definition holds_tree :: "file_system \<Rightarrow> path \<Rightarrow> (path \<times> string) list \<Rightarrow> bool" where
  "holds_tree fs dir done \<longleftrightarrow> dir \<noteq> [] \<and> (\<forall>q \<in> set (chain dir). node_at fs q = Some Directory) \<and>
     (\<forall>r. r \<noteq> [] \<longrightarrow> node_at fs (dir @ r) = tree_of done r)"

definition same_outside :: "path \<Rightarrow> file_system \<Rightarrow> file_system \<Rightarrow> bool" where
  "same_outside dir fs fs' \<longleftrightarrow> (\<forall>q. \<not> prefix dir q \<longrightarrow> node_at fs' q = node_at fs q)"

lemma chain_prefix: "q \<in> set (chain p) \<longleftrightarrow> prefix q p \<and> q \<noteq> [] \<or> q = p"
  by (auto simp: chain_def ancestors_prefix prefix_def)

lemma chain_below: "q \<in> set (chain (dir @ r)) \<Longrightarrow> q \<in> set (chain dir) \<or> (\<exists>r'. r' \<noteq> [] \<and> prefix r' r \<and> q = dir @ r')"
  by (cases "dir = []") (auto simp: chain_prefix prefix_append)

lemma holds_tree_dir: "holds_tree fs dir done \<Longrightarrow> node_at fs dir = Some Directory"
  by (simp add: holds_tree_def chain_def)

lemma mkdir_in_tree:
  assumes tree: "holds_tree fs dir done"
    and free: "\<And>c d. (c, d) \<in> set done \<Longrightarrow> \<not> prefix c r"
  shows "\<exists>fs'. mkdir_all (dir @ r) fs = Inr fs' \<and> same_outside dir fs fs' \<and>
    (\<forall>q \<in> set (chain dir). node_at fs' q = Some Directory) \<and>
    (\<forall>r'. r' \<noteq> [] \<longrightarrow> node_at fs' (dir @ r') = (if prefix r' r then Some Directory else tree_of done r'))"
proof -
  have not_file: "tree_of done r' \<in> {None, Some Directory}" if "prefix r' r" for r'
  proof -
    have "map_of done r' = None" using free that map_of_SomeD [of "done" r'] by (cases "map_of done r'") auto
    then show ?thesis by (simp add: tree_of_def)
  qed
  have "\<not> is_regular fs q" if "q \<in> set (chain (dir @ r))" for q
    using chain_below [OF that] tree not_file by (fastforce simp: is_regular_def holds_tree_def split: option.split fs_node.split)
  then obtain fs' where mk: "mkdir_all (dir @ r) fs = Inr fs'"
    by (auto simp: mkdir_all_def list_ex_iff)
  have below: "dir @ r' \<in> set (chain (dir @ r)) \<longleftrightarrow> prefix r' r" if "r' \<noteq> []" for r'
    using that by (auto simp: chain_prefix)
  have "node_at fs' q = node_at fs q" if "\<not> prefix dir q" for q
  proof (cases "q \<in> set (chain (dir @ r))")
    case True
    then have "q \<in> set (chain dir)" using chain_below that by (metis prefixI)
    then show ?thesis using tree by (simp add: node_at_mkdir_all [OF mk] holds_tree_def)
  qed (simp add: node_at_mkdir_all [OF mk])
  then have "same_outside dir fs fs'" by (simp add: same_outside_def)
  moreover have "\<forall>q \<in> set (chain dir). node_at fs' q = Some Directory"
    using tree by (simp add: node_at_mkdir_all [OF mk] holds_tree_def)
  moreover have "node_at fs' (dir @ r') = (if prefix r' r then Some Directory else tree_of done r')" if "r' \<noteq> []" for r'
    using tree not_file [of r'] that by (auto simp: node_at_mkdir_all [OF mk] below holds_tree_def)
  ultimately show ?thesis using mk by blast
qed

lemma add_file_in_tree:
  assumes tree: "holds_tree fs dir done" and apart: "apart (map fst done @ [c])" and c: "c \<noteq> []"
  shows "\<exists>fs1 fs2. mkdir_all (butlast (dir @ c)) fs = Inr fs1 \<and> write_file (dir @ c) d fs1 = Inr fs2 \<and>
    holds_tree fs2 dir (done @ [(c, d)]) \<and> same_outside dir fs fs2"
proof -
  have free: "\<not> prefix c' (butlast c)" "\<not> prefix c c'" if "(c', d') \<in> set done" for c' d'
  proof -
    have "c' \<in> set (map fst done)" using that by force
    then have n: "c' \<noteq> c" "\<not> strict_prefix c' c" "\<not> strict_prefix c c'"
      using apart by (auto simp: apart_def list_all_iff)
    have "strict_prefix (butlast c) c" using c by (metis append_butlast_last_id prefix_snoc strict_prefixI' strict_prefix_def append_self_conv not_Cons_self2 prefixI)
    then show "\<not> prefix c' (butlast c)" using n prefix_order.le_less_trans by blast
    show "\<not> prefix c c'" using n by (simp add: strict_prefix_def)
  qed
  obtain fs1 where mk: "mkdir_all (dir @ butlast c) fs = Inr fs1" and out1: "same_outside dir fs fs1"
    and up1: "\<forall>q \<in> set (chain dir). node_at fs1 q = Some Directory"
    and below1: "\<And>r. r \<noteq> [] \<Longrightarrow> node_at fs1 (dir @ r) = (if prefix r (butlast c) then Some Directory else tree_of done r)"
    using mkdir_in_tree [OF tree, of "butlast c"] free by blast
  have fresh: "map_of done c = None"
    using apart by (auto simp: apart_def map_of_eq_None_iff)
  have "\<not> list_ex (\<lambda>(c', d'). strict_prefix c c') done"
    using free by (auto simp: list_ex_iff strict_prefix_def)
  then have "tree_of done c = None" using fresh by (simp add: tree_of_def)
  moreover have not_up: "\<not> prefix c (butlast c)" using c by (metis length_butlast prefix_length_le not_less diff_less length_greater_0_conv zero_less_one)
  ultimately have none: "node_at fs1 (dir @ c) = None" using below1 [OF c] by simp
  have "node_at fs1 (dir @ butlast c) = Some Directory"
    using below1 [of "butlast c"] up1 by (cases "butlast c = []") (auto simp: chain_def)
  then obtain fs2 where w: "write_file (dir @ c) d fs1 = Inr fs2"
    using none c by (simp add: write_file_def butlast_append)
  have dir: "dir \<noteq> []" using tree by (simp add: holds_tree_def)
  have "same_outside dir fs fs2" using out1 by (auto simp: same_outside_def node_at_write_file [OF w])
  moreover have "node_at fs2 q = Some Directory" if "q \<in> set (chain dir)" for q
    using that up1 c by (auto simp: node_at_write_file [OF w] chain_prefix)
  moreover have "node_at fs2 (dir @ r) = tree_of (done @ [(c, d)]) r" if r: "r \<noteq> []" for r
  proof (cases "r = c")
    case True
    then show ?thesis using fresh by (simp add: node_at_write_file [OF w] tree_of_def map_add_def)
  next
    case False
    then have "strict_prefix r c \<longleftrightarrow> prefix r (butlast c)"
      using c by (metis append_butlast_last_id prefix_snoc strict_prefix_def not_up)
    then show ?thesis
      using False below1 [OF r] free by (auto simp: node_at_write_file [OF w] tree_of_def map_add_def
          split: option.split dest!: map_of_SomeD)
  qed
  ultimately show ?thesis using mk w dir c by (auto simp: holds_tree_def butlast_append)
qed

lemma holds_tree_lookup:
  "holds_tree fs dir done \<Longrightarrow> c \<noteq> [] \<Longrightarrow> map_of done c = Some d \<Longrightarrow> node_at fs (dir @ c) = Some (Regular d)"
  by (simp add: holds_tree_def tree_of_def)

abbreviation file_path :: "api_file \<Rightarrow> path" where
  "file_path f \<equiv> split_on (CHR ''/'') (af_path f)"

lemma apart_take: "apart (xs @ ys) \<Longrightarrow> apart xs"
  by (auto simp: apart_def list_all_iff)

lemma write_files_tree:
  assumes "holds_tree fs dir done" and "apart (map fst done @ map file_path files)"
    and "list_all (\<lambda>f. plain_path (af_path f)) files"
  shows "\<exists>fs'. write_files dir files fs = (fs', Inr ()) \<and>
    holds_tree fs' dir (done @ map (\<lambda>f. (file_path f, af_content f)) files) \<and> same_outside dir fs fs'"
  using assms
proof (induction files arbitrary: fs "done")
  case Nil
  then show ?case by (simp add: same_outside_def)
next
  case (Cons f files)
  have p: "join_path dir [af_path f] = dir @ file_path f" using Cons.prems by (simp add: join_plain_path)
  have "apart (map fst done @ [file_path f])"
    using Cons.prems(2) apart_take [of "map fst done @ [file_path f]" "map file_path files"] by simp
  then obtain fs1 fs2 where mk: "mkdir_all (butlast (dir @ file_path f)) fs = Inr fs1"
    and w: "write_file (dir @ file_path f) (af_content f) fs1 = Inr fs2"
    and t: "holds_tree fs2 dir (done @ [(file_path f, af_content f)])" and o: "same_outside dir fs fs2"
    using add_file_in_tree [OF Cons.prems(1), of "file_path f" "af_content f"] by auto
  obtain fs' where "write_files dir files fs2 = (fs', Inr ())"
    and "holds_tree fs' dir ((done @ [(file_path f, af_content f)]) @ map (\<lambda>f. (file_path f, af_content f)) files)"
    and "same_outside dir fs2 fs'"
    using Cons.IH [OF t] Cons.prems by auto
  then show ?case using o by (auto simp: p Let_def fs_try_def mk w same_outside_def)
qed

text \<open>A new directory, with what is above it.\<close>

lemma mkdir_fresh:
  assumes wf: "fs_wf fs" and new: "node_at fs dir = None" and clear: "\<not> list_ex (is_regular fs) (chain dir)"
  shows "\<exists>fs'. mkdir_all dir fs = Inr fs' \<and> holds_tree fs' dir [] \<and>
    (\<forall>q. node_at fs' q = (if q \<in> set (chain dir) then Some Directory else node_at fs q))"
proof -
  obtain fs' where mk: "mkdir_all dir fs = Inr fs'" using clear by (auto simp: mkdir_all_def)
  have dir: "dir \<noteq> []" using new by (auto simp: node_at_def)
  have old: "node_at fs q \<in> {None, Some Directory}" if "q \<in> set (chain dir)" for q
  proof -
    have "\<not> is_regular fs q" using clear that by (simp add: list_ex_iff)
    then show ?thesis by (auto simp: is_regular_def split: option.splits fs_node.splits)
  qed
  have all: "node_at fs' q = (if q \<in> set (chain dir) then Some Directory else node_at fs q)" for q
    using old [of q] by (cases "q \<in> set (chain dir)") (auto simp: node_at_mkdir_all [OF mk])
  have "node_at fs' (dir @ r) = None" if "r \<noteq> []" for r
    using wf_above [OF wf, of dir r] new that by (cases "node_at fs (dir @ r)") (auto simp: all chain_prefix)
  then show ?thesis using mk dir all by (auto simp: holds_tree_def tree_of_def)
qed

text \<open>A version's directory is new, no file is in the way, and its files have plain paths side by side.\<close>

definition can_create :: "path \<Rightarrow> api_version \<Rightarrow> file_system \<Rightarrow> bool" where
  "can_create root v fs \<longleftrightarrow> plain_name (av_module v) \<and> plain_name (av_version v) \<and>
     node_at fs (version_dir root (av_module v) (av_version v)) = None \<and>
     \<not> list_ex (is_regular fs) (chain (version_dir root (av_module v) (av_version v))) \<and>
     list_all (\<lambda>f. plain_path (af_path f)) (av_files v) \<and>
     apart ([''version.json''] # map file_path (av_files v))"

lemma version_dir_plain:
  "plain_name m \<Longrightarrow> plain_name v \<Longrightarrow> version_dir root m v = root @ [m, ''versions'', v]"
proof -
  have "plain_name ''versions''" by (simp add: plain_name_def)
  then show "plain_name m \<Longrightarrow> plain_name v \<Longrightarrow> ?thesis"
    by (simp add: version_dir_def join_path_Cons [of _ _ "_ # _"] join_plain_name)
qed

lemma split_version_json: "split_on (CHR ''/'') ''version.json'' = [''version.json'']"
  by (simp add: split_on_single)

lemma join_version_json: "join_path p [''version.json''] = p @ [''version.json'']"
  by (simp add: join_plain_name plain_name_def)

lemma create_version_tree:
  assumes wf: "fs_wf fs" and can: "can_create root v fs"
  defines "dir \<equiv> version_dir root (av_module v) (av_version v)" and "v' \<equiv> with_source_defaults v"
  shows "\<exists>fs'. create_version jc root v fs = (fs', Inr (), v') \<and>
    holds_tree fs' dir (([''version.json''], jc_put_version jc v') # map (\<lambda>f. (file_path f, af_content f)) (av_files v)) \<and>
    (\<forall>q. \<not> prefix dir q \<longrightarrow> node_at fs' q = (if q \<in> set (chain dir) then Some Directory else node_at fs q))"
proof -
  have ok: "node_at fs dir = None" "\<not> list_ex (is_regular fs) (chain dir)"
    "list_all (\<lambda>f. plain_path (af_path f)) (av_files v)" "apart ([''version.json''] # map file_path (av_files v))"
    using can by (simp_all add: can_create_def dir_def)
  obtain fs1 where mk: "mkdir_all dir fs = Inr fs1" and t1: "holds_tree fs1 dir []"
    and o1: "\<And>q. node_at fs1 q = (if q \<in> set (chain dir) then Some Directory else node_at fs q)"
    using mkdir_fresh [OF wf ok(1,2)] by auto
  have "mkdir_all dir fs1 = Inr fs1"
  proof -
    have "\<And>q. q \<in> set (chain dir) \<Longrightarrow> node_at fs1 q = Some Directory" by (simp add: o1)
    then have "fold make_dir ps fs1 = fs1" if "set ps \<subseteq> set (chain dir)" for ps
      using that by (induction ps) (auto simp: make_dir_def)
    then show ?thesis by (auto simp: mkdir_all_def o1 list_ex_iff is_regular_def)
  qed
  then obtain fs2 where w: "write_file (dir @ [''version.json'']) (jc_put_version jc v') fs1 = Inr fs2"
    and t2: "holds_tree fs2 dir [([''version.json''], jc_put_version jc v')]" and o2: "same_outside dir fs1 fs2"
    using add_file_in_tree [OF t1, of "[''version.json'']" "jc_put_version jc v'"] apart_take [of "[_]"] ok(4) by fastforce
  obtain fs' where "write_files dir (av_files v) fs2 = (fs', Inr ())"
    and "holds_tree fs' dir ([([''version.json''], jc_put_version jc v')] @ map (\<lambda>f. (file_path f, af_content f)) (av_files v))"
    and "same_outside dir fs2 fs'"
    using write_files_tree [OF t2, of "av_files v"] ok by auto
  moreover have "av_files v' = av_files v" by (simp add: v'_def with_source_defaults_def Let_def)
  ultimately show ?thesis
    using o1 o2 by (auto simp: create_version_def dir_def [symmetric] v'_def [symmetric] Let_def mk fs_try_def
        join_version_json w same_outside_def)
qed

text \<open>Reading another version's file does not see the new directory.\<close>

lemma read_file_outside:
  assumes above: "\<And>q. \<not> prefix dir q \<Longrightarrow> node_at fs' q = (if q \<in> set (chain dir) then Some Directory else node_at fs q)"
    and clear: "\<not> list_ex (is_regular fs) (chain dir)"
    and p: "\<not> prefix dir p" "p \<notin> set (chain dir)"
  shows "read_file fs' p = read_file fs p"
proof -
  have "is_regular fs' q = is_regular fs q" if "q \<in> set (ancestors p)" for q
  proof -
    have "\<not> prefix dir q" using p that by (auto simp: ancestors_prefix prefix_def)
    then show ?thesis using above clear by (auto simp: is_regular_def list_ex_iff)
  qed
  then have "missing fs' p = missing fs p" by (simp add: missing_def list_ex_iff)
  then show ?thesis using above p by (simp add: read_file_def split: option.split)
qed

lemma version_json_path:
  "plain_name m \<Longrightarrow> plain_name v \<Longrightarrow>
   join_path root [m, ''versions'', v, ''version.json''] = root @ [m, ''versions'', v, ''version.json'']"
  using version_dir_plain [of m v root] join_version_json [of "version_dir root m v"]
  by (simp add: version_dir_def join_path_Cons [of _ _ "_ # _"])

lemma other_version_json:
  assumes "plain_name m" "plain_name v" "plain_name m'" "plain_name v'" "(m', v') \<noteq> (m, v)"
  shows "\<not> prefix (version_dir root m v) (join_path root [m', ''versions'', v', ''version.json''])"
    and "join_path root [m', ''versions'', v', ''version.json''] \<notin> set (chain (version_dir root m v))"
  using assms by (auto simp: version_json_path version_dir_plain chain_prefix prefix_def append_eq_append_conv2 Cons_eq_append_conv)

text \<open>
  A version whose module and version names are single directory names, whose directory does not exist yet
  and whose files have paths that can lie side by side beside \<open>version.json\<close>, is created without an error; it is
  then read back, with the defaults of its source filled in, and so is the content of each of its files.
\<close>
lemma create_version_reads_back:
  assumes "fs_wf fs" and can: "can_create root v fs" and v: "av_version v \<noteq> ''latest''"
    and codec: "jc_get_version jc (jc_put_version jc (with_source_defaults v)) = Some (with_source_defaults v)"
  shows "\<exists>fs'. create_version jc root v fs = (fs', Inr (), with_source_defaults v) \<and>
    fs_get_version jc root fs' (av_module v) (av_version v) = Some (Inr (with_source_defaults v)) \<and>
    (\<forall>f \<in> set (av_files v). get_file root fs' (av_module v) (av_version v) (af_path f) = Inr f)"
proof -
  define dir where "dir = version_dir root (av_module v) (av_version v)"
  define data where "data = ([''version.json''], jc_put_version jc (with_source_defaults v)) #
    map (\<lambda>f. (file_path f, af_content f)) (av_files v)"
  obtain fs' where c: "create_version jc root v fs = (fs', Inr (), with_source_defaults v)"
    and t: "holds_tree fs' dir data"
    using create_version_tree [OF assms(1) can, of jc] by (auto simp: dir_def data_def)
  have names: "plain_name (av_module v)" "plain_name (av_version v)"
    and files: "list_all (\<lambda>f. plain_path (af_path f)) (av_files v)"
    and d: "distinct (map fst data)"
    using can by (auto simp: can_create_def apart_def data_def comp_def)
  have "node_at fs' (dir @ [''version.json'']) = Some (Regular (jc_put_version jc (with_source_defaults v)))"
    using holds_tree_lookup [OF t] by (simp add: data_def)
  then have 1: "fs_get_version jc root fs' (av_module v) (av_version v) = Some (Inr (with_source_defaults v))"
    using v by (simp add: fs_get_version_def read_version_def version_json_path [OF names] dir_def
        version_dir_plain [OF names] read_file_def fs_read_def rbind_def codec)
  have "get_file root fs' (av_module v) (av_version v) (af_path f) = Inr f" if f: "f \<in> set (av_files v)" for f
  proof -
    have "join_path root [av_module v, ''versions'', av_version v, af_path f] = dir @ file_path f"
      using files f join_plain_path [of "af_path f" dir]
      by (simp add: list_all_iff dir_def version_dir_def join_path_Cons [of _ _ "_ # _"])
    moreover have "node_at fs' (dir @ file_path f) = Some (Regular (af_content f))"
    proof (rule holds_tree_lookup [OF t])
      show "file_path f \<noteq> []" by simp
      have "(file_path f, af_content f) \<in> set data" using f by (auto simp: data_def)
      then show "map_of data (file_path f) = Some (af_content f)" using d by (simp add: map_of_eq_Some_iff)
    qed
    ultimately show ?thesis by (simp add: get_file_def read_file_def fs_read_def rbind_def)
  qed
  then show ?thesis using c 1 by blast
qed

text \<open>The storage as a map from a module's and a version's name to the version.\<close>

definition stored :: "json_codec \<Rightarrow> path \<Rightarrow> file_system \<Rightarrow> (string \<times> string) \<Rightarrow> api_version option" where
  "stored jc root fs k = (if plain_name (fst k) \<and> plain_name (snd k)
     then (case read_version jc root fs (fst k) (snd k) of Inl _ \<Rightarrow> None | Inr v \<Rightarrow> Some v) else None)"

text \<open>Seen as a map from names to versions, the file storage is updated at the one version created.\<close>
lemma create_version_refines_update:
  assumes "fs_wf fs" and can: "can_create root v fs"
    and codec: "jc_get_version jc (jc_put_version jc (with_source_defaults v)) = Some (with_source_defaults v)"
  shows "stored jc root (fst (create_version jc root v fs)) =
    (stored jc root fs)((av_module v, av_version v) \<mapsto> with_source_defaults v)"
proof
  fix k
  define dir where "dir = version_dir root (av_module v) (av_version v)"
  obtain fs' where c: "create_version jc root v fs = (fs', Inr (), with_source_defaults v)"
    and t: "holds_tree fs' dir (([''version.json''], jc_put_version jc (with_source_defaults v)) #
      map (\<lambda>f. (file_path f, af_content f)) (av_files v))"
    and o: "\<forall>q. \<not> prefix dir q \<longrightarrow> node_at fs' q = (if q \<in> set (chain dir) then Some Directory else node_at fs q)"
    using create_version_tree [OF assms(1) can, of jc] by (auto simp: dir_def)
  have names: "plain_name (av_module v)" "plain_name (av_version v)"
    and clear: "\<not> list_ex (is_regular fs) (chain dir)"
    using can by (auto simp: can_create_def dir_def)
  have new: "node_at fs' (dir @ [''version.json'']) = Some (Regular (jc_put_version jc (with_source_defaults v)))"
    using holds_tree_lookup [OF t] by simp
  show "stored jc root (fst (create_version jc root v fs)) k =
    ((stored jc root fs)((av_module v, av_version v) \<mapsto> with_source_defaults v)) k"
  proof (cases "plain_name (fst k) \<and> plain_name (snd k) \<and> k \<noteq> (av_module v, av_version v)")
    case True
    then have k: "plain_name (fst k)" "plain_name (snd k)" "(fst k, snd k) \<noteq> (av_module v, av_version v)"
      by auto
    have "read_version jc root fs' (fst k) (snd k) = read_version jc root fs (fst k) (snd k)"
      using read_file_outside [OF o [rule_format] clear] other_version_json [OF names k]
      by (simp add: read_version_def dir_def)
    then show ?thesis using True c by (simp add: stored_def)
  next
    case False
    have "read_version jc root fs' (av_module v) (av_version v) = Inr (with_source_defaults v)"
      using new by (simp add: read_version_def version_json_path [OF names] dir_def version_dir_plain [OF names]
          read_file_def fs_read_def rbind_def codec)
    then have "stored jc root fs' (av_module v, av_version v) = Some (with_source_defaults v)"
      using names by (simp add: stored_def)
    moreover have "k = (av_module v, av_version v) \<or> (\<forall>fs. stored jc root fs k = None)"
      using False unfolding stored_def by meson
    ultimately show ?thesis by (auto simp: c)
  qed
qed

section \<open>Every write leaves a tree\<close>

lemma chain_take: "p \<noteq> [] \<Longrightarrow> chain p = map (\<lambda>n. take n p) [1..<Suc (length p)]"
  by (simp add: chain_def ancestors_def Suc_leI)

lemma fs_wf_mkdir_all: "fs_wf fs \<Longrightarrow> mkdir_all p fs = Inr fs' \<Longrightarrow> fs_wf fs'"
proof -
  assume wf: "fs_wf fs" and mk: "mkdir_all p fs = Inr fs'"
  let ?ps = "\<lambda>n. map (\<lambda>n. take n p) [1..<n]"
  have no: "\<not> is_regular fs q" if "q \<in> set (chain p)" for q
    using mk that by (auto simp: mkdir_all_def list_ex_iff split: if_splits)
  have loop: "fs_wf (fold make_dir (?ps n) fs)" if "n \<le> Suc (length p)" "p \<noteq> []" for n
    using that(1)
  proof (induction n)
    case (Suc n)
    show ?case
    proof (cases "n = 0")
      case False
      have up: "node_at (fold make_dir (?ps n) fs) (butlast (take n p)) = Some Directory"
      proof (cases "n = 1")
        case True
        then show ?thesis by (cases p) (simp_all add: node_at_def)
      next
        case n: False
        have b: "butlast (take n p) = take (n - 1) p" using Suc.prems by (simp add: butlast_take)
        have c: "take (n - 1) p \<in> set (chain p)" using Suc.prems that(2) n False by (auto simp: chain_take)
        have "take (n - 1) p \<in> set (?ps n)" using n False by auto
        moreover have "node_at fs (take (n - 1) p) \<in> {None, Some Directory}"
          using no [OF c] by (auto simp: is_regular_def split: option.splits fs_node.splits)
        ultimately show ?thesis unfolding b by (auto simp: node_at_make_dirs)
      qed
      show ?thesis using Suc wf_make_dir [OF _ up] False by simp
    qed (use wf in simp)
  qed (use wf in simp)
  show ?thesis
  proof (cases "p = []")
    case True
    then show ?thesis using mk wf by (auto simp: mkdir_all_def chain_def ancestors_def make_dir_def node_at_def split: if_splits)
  next
    case False
    then show ?thesis using mk loop [of "Suc (length p)"]
      by (auto simp: mkdir_all_def chain_take simp del: upt_Suc split: if_splits)
  qed
qed

lemma wf_fs_try:
  assumes "\<And>fs'. step fs = Inr fs' \<Longrightarrow> fs_wf fs'" and "\<And>fs'. fs_wf fs' \<Longrightarrow> fs_wf (fst (cont fs'))" and "fs_wf fs"
  shows "fs_wf (fst (fs_try what step cont fs))"
  using assms by (auto simp: fs_try_def split: sum.split)

lemmas fs_wf_steps = fs_wf_mkdir_all wf_write_file

lemma wf_write_files: "fs_wf fs \<Longrightarrow> fs_wf (fst (write_files dir files fs))"
  by (induction files arbitrary: fs) (auto simp: Let_def intro!: wf_fs_try intro: fs_wf_steps)

text \<open>
  Every write of the file storage, whatever the names and the file paths it is given and whether or not it
  fails half-way, leaves a tree: no entry below a file or below nothing.
\<close>
lemma storage_writes_keep_tree:
  assumes "fs_wf fs"
  shows "fs_wf (fst (new_file_system_storage root fs)) \<and> fs_wf (fst (create_module jc root m fs)) \<and>
    fs_wf (fst (create_version jc root v fs)) \<and> fs_wf (fst (update_version jc root v fs)) \<and>
    fs_wf (fst (put_compiled_artifact root mn vn language artifact fs))"
proof (intro conjI)
  show "fs_wf (fst (create_version jc root v fs))"
    using assms by (auto simp: create_version_def Let_def split_beta split: sum.split
        intro!: wf_fs_try wf_write_files intro: fs_wf_steps)
qed (use assms in \<open>auto simp: new_file_system_storage_def create_module_def update_version_def
    put_compiled_artifact_def Let_def intro!: wf_fs_try intro: fs_wf_steps\<close>)

section \<open>Listing the modules\<close>

text \<open>
  Modules are listed all or none: the list is that of every directory's module file when each can be read, and
  one directory without a readable \<open>module.json\<close> (a version was created for a module that was not) fails the
  listing of all.
\<close>
lemma list_modules_all_or_none:
  assumes "read_dir fs root = Inr es"
  defines "ns \<equiv> map fst (filter snd es)"
  shows "(if \<forall>n \<in> set ns. is_ok (get_module jc root fs n)
     then list_modules jc root fs = Inr (map (\<lambda>n. projr (get_module jc root fs n)) ns)
     else \<exists>n \<in> set ns. \<exists>e. get_module jc root fs n = Inl e \<and>
       list_modules jc root fs = Inl (Wrap (''failed to get module '' @ n) e))"
proof -
  have "if \<forall>n \<in> set ns. is_ok (get_module jc root fs n)
     then get_modules jc root fs ns = Inr (map (\<lambda>n. projr (get_module jc root fs n)) ns)
     else \<exists>n \<in> set ns. \<exists>e. get_module jc root fs n = Inl e \<and>
       get_modules jc root fs ns = Inl (Wrap (''failed to get module '' @ n) e)" for ns
  proof (induction ns)
    case (Cons n ns)
    then show ?case by (cases "get_module jc root fs n") (auto split: if_splits)
  qed simp
  note main = this
  have l: "list_modules jc root fs = get_modules jc root fs ns"
    using assms by (simp add: list_modules_def fs_read_def)
  show ?thesis unfolding l by (rule main)
qed

section \<open>Paths that leave the directory\<close>

definition climb :: "nat \<Rightarrow> string \<Rightarrow> string" where
  "climb n p = concat (replicate n ''../'') @ p"

lemma split_climb: "split_on (CHR ''/'') (climb n p) = replicate n ''..'' @ split_on (CHR ''/'') p"
  by (induction n) (simp_all add: climb_def)

lemma foldl_up: "foldl clean_step p (replicate n ''..'') = take (length p - n) p"
proof (induction n arbitrary: p)
  case (Suc n)
  then show ?case by (simp add: clean_step_def butlast_conv_take min_def)
qed simp

lemma join_climb: "plain_path p \<Longrightarrow> join_path dir [climb (length dir) p] = split_on (CHR ''/'') p"
  by (simp add: join_path_def split_climb foldl_up plain_path_def foldl_clean_plain)

lemma write_files_last:
  "write_files dir (files @ [f]) fs = (fs', Inr ()) \<Longrightarrow>
   read_file fs' (join_path dir [af_path f]) = Inr (af_content f)"
proof (induction files arbitrary: fs)
  case Nil
  then show ?case by (auto simp: Let_def fs_try_def read_file_def node_at_write_file split: sum.splits)
next
  case (Cons g files)
  then show ?case by (auto simp: Let_def fs_try_def split: sum.splits)
qed

lemma create_version_files:
  "create_version jc root v fs = (fs', Inr (), v') \<Longrightarrow>
   \<exists>fs2. write_files (version_dir root (av_module v) (av_version v)) (av_files v) fs2 = (fs', Inr ())"
proof -
  have "av_files (with_source_defaults v) = av_files v" by (simp add: with_source_defaults_def Let_def)
  then show "create_version jc root v fs = (fs', Inr (), v') \<Longrightarrow> ?thesis"
    by (auto simp: create_version_def Let_def fs_try_def split: sum.splits prod.splits)
qed

text \<open>
  A version's files are not kept in its directory: a file whose path climbs out of it is written where the
  path leads, so a version that is created can put any content at any path of the machine.
\<close>
lemma create_version_writes_anywhere:
  assumes "create_version jc root v fs = (fs', Inr (), v')" and "av_files v = files @ [\<lparr>af_path =
    climb (length (version_dir root (av_module v) (av_version v))) p, af_content = content\<rparr>]" and "plain_path p"
  shows "read_file fs' (split_on (CHR ''/'') p) = Inr content"
proof -
  let ?dir = "version_dir root (av_module v) (av_version v)"
  obtain fs2 where "write_files ?dir (files @ [\<lparr>af_path = climb (length ?dir) p, af_content = content\<rparr>]) fs2 = (fs', Inr ())"
    using create_version_files [OF assms(1)] assms(2) by auto
  from write_files_last [OF this] show ?thesis by (simp add: join_climb [OF assms(3)])
qed

section \<open>Applications to concrete inputs\<close>

definition sample_version :: api_version where
  "sample_version = \<lparr>av_module = ''geo'', av_version = ''1.0.0'',
     av_files = [\<lparr>af_path = ''geo.proto'', af_content = ''a''\<rparr>, \<lparr>af_path = ''v1/geo.proto'', af_content = ''b''\<rparr>],
     av_created = 7, av_dependencies = [], av_source = \<lparr>si_repository = [], si_commit = ''c0'', si_branch = []\<rparr>,
     av_compilation = []\<rparr>"

definition sample_codec :: json_codec where
  "sample_codec = \<lparr>jc_put_module = am_name, jc_get_module = (\<lambda>d. if d = ''geo''
       then Some \<lparr>am_name = d, am_description = [], am_created = 0, am_updated = 0\<rparr> else None),
     jc_put_version = av_version,
     jc_get_version = (\<lambda>d. if d = ''1.0.0'' then Some (with_source_defaults sample_version) else None)\<rparr>"

lemma sample_can_create: "can_create [''data''] sample_version []"
  by (simp add: can_create_def sample_version_def plain_name_def version_dir_def join_path_def clean_step_def
      node_at_def chain_def ancestors_def is_regular_def plain_path_def apart_def strict_prefix_def)

lemma sample_round_trip:
  "jc_get_version sample_codec (jc_put_version sample_codec (with_source_defaults sample_version)) =
   Some (with_source_defaults sample_version)"
  by (simp add: sample_codec_def with_source_defaults_def sample_version_def Let_def)

lemma fs_wf_Nil: "fs_wf []"
  by (simp add: fs_wf_def)

end
