(* ===== verification/Storage_Order.thy ===== *)
theory Storage_Order
  imports Storage_Versions "HOL-Library.Product_Lexorder"
begin

text \<open>Which of a module's versions is the latest, when listing them returns, and the pages of a list.\<close>


section \<open>Which version is latest\<close>

definition numeric_version :: "api_version \<Rightarrow> bool" where
  "numeric_version v \<longleftrightarrow> list_all (\<lambda>p. atoi p \<noteq> None) (version_parts (av_version v))"

definition version_key :: "api_version \<Rightarrow> int list \<times> int" where
  "version_key v = (map (\<lambda>p. the (atoi p)) (version_parts (av_version v)), av_created v)"

lemma compare_parts_numeric:
  "list_all (\<lambda>p. atoi p \<noteq> None) ps \<Longrightarrow> list_all (\<lambda>p. atoi p \<noteq> None) qs \<Longrightarrow>
   compare_parts ps qs =
     (let xs = map (\<lambda>p. the (atoi p)) ps; ys = map (\<lambda>p. the (atoi p)) qs; n = min (length ps) (length qs)
      in if take n xs = take n ys then None else Some (ys < xs))"
  by (induction ps qs rule: compare_parts.induct) (auto simp: Let_def)

lemma length_decides:
  "take (min (length xs) (length ys)) xs = take (min (length xs) (length ys)) ys \<Longrightarrow> length xs \<noteq> length ys \<Longrightarrow>
   (ys < xs) = (length ys < length (xs :: int list))"
proof (induction xs arbitrary: ys)
  case (Cons x xs)
  then show ?case by (cases ys) auto
qed auto

lemma newer_numeric:
  assumes "numeric_version v" "numeric_version w"
  shows "newer v w \<longleftrightarrow> version_key w < version_key v"
proof -
  let ?ps = "version_parts (av_version v)" and ?qs = "version_parts (av_version w)"
  define xs ys where "xs = map (\<lambda>p. the (atoi p)) ?ps" and "ys = map (\<lambda>p. the (atoi p)) ?qs"
  define n where "n = min (length xs) (length ys)"
  have len: "length ?ps = length xs" "length ?qs = length ys" by (simp_all add: xs_def ys_def)
  have c: "compare_parts ?ps ?qs = (if take n xs = take n ys then None else Some (ys < xs))"
    using assms by (simp add: numeric_version_def compare_parts_numeric xs_def ys_def n_def Let_def)
  have k: "version_key v = (xs, av_created v)" "version_key w = (ys, av_created w)"
    by (simp_all add: version_key_def xs_def ys_def)
  show ?thesis
  proof (cases "take n xs = take n ys")
    case True
    then show ?thesis
      using length_decides [of xs ys] by (cases "length xs = length ys") (auto simp: newer_def c k len n_def)
  next
    case False
    then have "xs \<noteq> ys" by auto
    then show ?thesis using False by (auto simp: newer_def c k len)
  qed
qed

lemma sorted_le_last: "sorted xs \<Longrightarrow> x \<in> set xs \<Longrightarrow> x \<le> last xs"
  by (induction xs) auto

lemma sorted_last_Max: "sorted xs \<Longrightarrow> xs \<noteq> [] \<Longrightarrow> last xs = Max (set xs)"
  by (rule Max_eqI [symmetric]) (simp_all add: sorted_le_last)

lemma insert_back_key: "(\<And>y. y \<in> set ys \<Longrightarrow> lt x y \<longleftrightarrow> key y < key x) \<Longrightarrow> insert_back lt x ys = insort_key key x ys" for key :: "'a \<Rightarrow> 'k::linorder"
  by (induction ys) auto

lemma sort_slice_key:
  fixes key :: "'a \<Rightarrow> 'k::linorder"
  assumes "\<And>x y. x \<in> set xs \<Longrightarrow> y \<in> set xs \<Longrightarrow> lt x y \<longleftrightarrow> key y < key x"
  shows "sort_slice lt xs = rev (sort_key key (rev xs))"
proof -
  have "foldl (\<lambda>ys x. insert_back lt x ys) [] xs = sort_key key (rev xs)"
    using assms
  proof (induction xs rule: rev_induct)
    case (snoc x xs)
    then have "insert_back lt x (sort_key key (rev xs)) = insort_key key x (sort_key key (rev xs))"
      by (intro insert_back_key) simp
    then show ?case using snoc by simp
  qed simp
  then show ?thesis by (simp add: sort_slice_def)
qed

text \<open>
  C18. Among versions whose parts are all numbers, the latest is one with the greatest list of numbers, the
  newest of these: never older than another version stored.
\<close>
theorem latest_numeric_version:
  assumes "vs \<noteq> []" and "\<forall>v \<in> set vs. numeric_version v"
  shows "\<exists>v \<in> set vs. latest_of m (Inr vs) = Inr v \<and> version_key v = Max (version_key ` set vs)"
proof -
  have s: "sort_slice newer vs = rev (sort_key version_key (rev vs))"
    using assms(2) newer_numeric by (intro sort_slice_key) blast
  let ?v = "last (sort_key version_key (rev vs))"
  have "sort_key version_key (rev vs) \<noteq> []" using assms(1) by (metis length_0_conv length_rev length_sort)
  then have "?v \<in> set vs" and "version_key ?v = last (map version_key (sort_key version_key (rev vs)))"
    using last_in_set [of "sort_key version_key (rev vs)"] by (simp_all add: last_map)
  moreover have "last (map version_key (sort_key version_key (rev vs))) = Max (version_key ` set vs)"
    using assms(1) sorted_last_Max [OF sorted_sort_key [of version_key "rev vs"]] \<open>sort_key version_key (rev vs) \<noteq> []\<close>
    by simp
  ultimately show ?thesis using assms(1) s by (intro bexI [of _ ?v]) (simp_all add: latest_of_def hd_rev)
qed

text \<open>A version tagged as a pre-release: the same parts with a mark on the last.\<close>

lemma split_on_mark:
  "sep \<notin> set s \<Longrightarrow> split_on sep (r @ s) = butlast (split_on sep r) @ [last (split_on sep r) @ s]"
proof (induction r)
  case (Cons c r)
  then show ?case by (cases "split_on sep r") (auto split: list.split)
qed (simp add: split_on_single)

lemma atoi_mark: "atoi (a @ CHR ''-'' # s) = None \<or> a = []"
proof (cases a)
  case (Cons c t)
  have "\<not> list_all is_digit (t @ CHR ''-'' # s)" by (simp add: is_digit_def in_range_def)
  then show ?thesis by (simp add: Cons atoi_def Let_def)
qed simp

lemma compare_parts_mark:
  "compare_parts (ps @ [a @ CHR ''-'' # s]) (ps @ [a]) = Some True"
  "compare_parts (ps @ [a]) (ps @ [a @ CHR ''-'' # s]) = Some False"
proof (induction ps)
  case Nil
  have "atoi (a @ CHR ''-'' # s) = None \<or> atoi a = None" using atoi_mark by (fastforce simp: atoi_def)
  moreover have "a < a @ CHR ''-'' # s" by (induction a) auto
  moreover from this have "\<not> a @ CHR ''-'' # s < a" by simp
  ultimately show "compare_parts ([] @ [a @ CHR ''-'' # s]) ([] @ [a]) = Some True"
    and "compare_parts ([] @ [a]) ([] @ [a @ CHR ''-'' # s]) = Some False" by (auto split: option.split)
qed (simp_all split: option.split)

text \<open>
  A pre-release is newer than its release: whatever version \<open>r\<close> and pre-release tag without a dot,
  \<open>r-tag\<close> is sorted before \<open>r\<close>, and of these two it is the latest.
\<close>
lemma prerelease_is_latest:
  assumes "av_version v = r" and "av_version w = r @ CHR ''-'' # tag" and "r \<noteq> []" and "CHR ''.'' \<notin> set tag"
  shows "newer w v \<and> \<not> newer v w \<and> latest_of m (Inr [v, w]) = Inr w \<and> latest_of m (Inr [w, v]) = Inr w"
proof -
  define r' where "r' = (if hd r = CHR ''v'' then tl r else r)"
  define ps a where "ps = butlast (split_on (CHR ''.'') r')" and "a = last (split_on (CHR ''.'') r')"
  have v: "version_parts (av_version v) = ps @ [a]"
    using assms by (simp add: version_parts_def r'_def ps_def a_def)
  have w: "version_parts (av_version w) = ps @ [a @ CHR ''-'' # tag]"
  proof -
    have "version_parts (av_version w) = split_on (CHR ''.'') (r' @ CHR ''-'' # tag)"
      using assms(2,3) by (simp add: version_parts_def r'_def)
    then show ?thesis using assms(4) split_on_mark [of "CHR ''.''" "CHR ''-'' # tag" r'] by (simp add: ps_def a_def)
  qed
  have "newer w v" unfolding newer_def v w by (simp add: compare_parts_mark)
  moreover have "\<not> newer v w" unfolding newer_def v w by (simp add: compare_parts_mark)
  ultimately show ?thesis by (simp add: latest_of_def sort_slice_def)
qed

section \<open>Listing a module's versions\<close>

text \<open>The directories of a module's versions, and whether a run over them gets to one named \<open>latest\<close>.\<close>

definition version_entries :: "path \<Rightarrow> file_system \<Rightarrow> string \<Rightarrow> string list" where
  "version_entries root fs m = (case read_dir fs (versions_dir root m) of
     Inl e \<Rightarrow> [] | Inr es \<Rightarrow> map fst (filter snd es))"

definition reaches_latest :: "json_codec \<Rightarrow> path \<Rightarrow> file_system \<Rightarrow> string \<Rightarrow> string list \<Rightarrow> bool" where
  "reaches_latest jc root fs m ns \<longleftrightarrow>
     ''latest'' \<in> set ns \<and> (\<forall>v \<in> set (takeWhile (\<lambda>v. v \<noteq> ''latest'') ns). is_ok (read_version jc root fs m v))"

lemma load_versions_None:
  assumes "\<And>v. v \<noteq> ''latest'' \<Longrightarrow> get v = Some (read_version jc root fs m v)"
  shows "load_versions get ns = None \<Longrightarrow> reaches_latest jc root fs m ns"
    and "get ''latest'' = None \<Longrightarrow> reaches_latest jc root fs m ns \<Longrightarrow> load_versions get ns = None"
proof (induction ns)
  case (Cons n ns)
  {
    case 1
    then show ?case
      using Cons.IH(1) assms [of n] by (cases "n = ''latest''")
        (auto simp: reaches_latest_def bind_eq_None_conv split: sum.splits)
  next
    case 2
    then show ?case
      using Cons.IH(2) assms [of n] by (cases "n = ''latest''")
        (auto simp: reaches_latest_def is_ok_iff split: sum.splits)
  }
qed (simp_all add: reaches_latest_def)

lemma list_versions_stuck:
  "list_versions jc root fs m = Some r \<Longrightarrow> \<not> reaches_latest jc root fs m (version_entries root fs m)"
proof (rule list_versions.raw_induct [of "\<lambda>jc root fs m r. \<not> reaches_latest jc root fs m (version_entries root fs m)"])
  fix listing :: "json_codec \<Rightarrow> path \<Rightarrow> file_system \<Rightarrow> string \<Rightarrow> (store_error + api_version list) option"
  fix jc root fs m r
  assume IH: "\<And>jc root fs m y. listing jc root fs m = Some y \<Longrightarrow> \<not> reaches_latest jc root fs m (version_entries root fs m)"
    and body: "(case fs_read ''failed to read versions directory'' (read_dir fs (versions_dir root m)) of
        Inl e \<Rightarrow> Some (Inl e)
      | Inr entries \<Rightarrow>
          load_versions (\<lambda>v. if v = ''latest''
              then Option.bind (listing jc root fs m) (\<lambda>r. Some (latest_of m r))
              else Some (read_version jc root fs m v))
            (map fst (filter snd entries))) = Some r"
  let ?get = "\<lambda>v. if v = ''latest'' then Option.bind (listing jc root fs m) (\<lambda>r. Some (latest_of m r))
    else Some (read_version jc root fs m v)"
  show "\<not> reaches_latest jc root fs m (version_entries root fs m)"
  proof
    assume stuck: "reaches_latest jc root fs m (version_entries root fs m)"
    then have "listing jc root fs m = None" using IH by (cases "listing jc root fs m") auto
    then have "load_versions ?get (version_entries root fs m) = None"
      by (intro load_versions_None(2) [OF _ _ stuck]) auto
    moreover have "version_entries root fs m \<noteq> []" using stuck by (auto simp: reaches_latest_def)
    ultimately show False
      using body by (auto simp: version_entries_def fs_read_def split: sum.splits)
  qed
qed assumption

text \<open>
  Listing a module's versions returns exactly when the run over its directories does not get to one named
  \<open>latest\<close>: with a version of that name, behind versions that can be read, \<open>ListVersions\<close> and
  \<open>GetVersion\<close> call each other for ever.
\<close>
lemma list_versions_returns_iff:
  "(list_versions jc root fs m \<noteq> None) = (\<not> reaches_latest jc root fs m (version_entries root fs m))"
proof
  assume "list_versions jc root fs m \<noteq> None"
  then show "\<not> reaches_latest jc root fs m (version_entries root fs m)" using list_versions_stuck by blast
next
  assume free: "\<not> reaches_latest jc root fs m (version_entries root fs m)"
  show "list_versions jc root fs m \<noteq> None"
  proof (cases "read_dir fs (versions_dir root m)")
    case (Inl e)
    then show ?thesis by (simp add: list_versions.simps fs_read_def)
  next
    case (Inr es)
    let ?get = "\<lambda>v. if v = ''latest'' then Option.bind (list_versions jc root fs m) (\<lambda>r. Some (latest_of m r))
      else Some (read_version jc root fs m v)"
    have "load_versions ?get (version_entries root fs m) \<noteq> None"
      using load_versions_None(1) [of ?get jc root fs m] free by auto
    moreover have "list_versions jc root fs m = load_versions ?get (version_entries root fs m)"
      by (subst list_versions.simps) (simp add: Inr fs_read_def version_entries_def)
    ultimately show ?thesis by simp
  qed
qed

section \<open>Pages\<close>

text \<open>
  A page panics exactly when its offset or its limit is negative or their sum does not fit 64 bits;
  otherwise it is the part of the list from the offset on, up to the limit, with the length of the whole list.
\<close>
lemma page_spec:
  assumes "- (2 ^ 63) \<le> limit" "limit < 2 ^ 63" "- (2 ^ 63) \<le> offset" "offset < 2 ^ 63" "int (length xs) < 2 ^ 63"
  shows "page limit offset xs =
    (if offset < 0 \<or> limit < 0 \<or> min offset (int (length xs)) + limit \<ge> 2 ^ 63 then Inl IndexOutOfRange
     else Inr (take (nat limit) (drop (nat offset) xs), int (length xs)))"
proof -
  define start where "start = min offset (int (length xs))"
  have s: "(if offset > int (length xs) then int (length xs) else offset) = start" by (auto simp: start_def)
  show ?thesis
  proof (cases "offset < 0")
    case True
    then show ?thesis using assms by (simp add: page_def)
  next
    case off: False
    then have st: "0 \<le> start" "start \<le> int (length xs)" by (simp_all add: start_def)
    have cut: "take (nat ((if start + limit > int (length xs) then int (length xs) else start + limit) - start)) (drop (nat start) xs) = take (nat limit) (drop (nat offset) xs)"
      if "0 \<le> limit"
    proof (cases "offset > int (length xs)")
      case True
      then show ?thesis by (simp add: start_def)
    next
      case False
      then have "start = offset" by (simp add: start_def)
      then show ?thesis using False off by (cases "offset + limit \<le> int (length xs)") simp_all
    qed
    show ?thesis
    proof (cases "start + limit < 2 ^ 63")
      case True
      then have "wrap64 (start + limit) = start + limit" using st assms by (intro wrap64_id) auto
      then show ?thesis using True off st cut by (auto simp: page_def s Let_def start_def [symmetric])
    next
      case False
      then have "wrap64 (start + limit) = start + limit - 2 ^ 64" using st assms by (intro wrap64_over) auto
      moreover have "start + limit - 2 ^ 64 < start" using assms by simp
      ultimately show ?thesis using False off st assms by (auto simp: page_def s Let_def start_def [symmetric])
    qed
  qed
qed

section \<open>Applications to concrete inputs\<close>

abbreviation at_version :: "string \<Rightarrow> api_version" where
  "at_version s \<equiv> \<lparr>av_module = ''geo'', av_version = s, av_files = [], av_created = 0, av_dependencies = [],
     av_source = \<lparr>si_repository = [], si_commit = [], si_branch = []\<rparr>, av_compilation = []\<rparr>"

lemma latest_numeric_version_witness:
  "\<exists>v \<in> set [at_version ''v1.2'', at_version ''1.10.0''].
     latest_of ''geo'' (Inr [at_version ''v1.2'', at_version ''1.10.0'']) = Inr v \<and>
     version_key v = Max (version_key ` set [at_version ''v1.2'', at_version ''1.10.0''])"
  by (rule latest_numeric_version)
    (simp_all add: numeric_version_def version_parts_def atoi_def is_digit_def in_range_def digits_value_def)

end
