(* ===== verification/Diff_Analyzer.thy ===== *)
theory Diff_Analyzer
  imports Storage_Versions
begin

text \<open>
  The difference of two versions for the documentation (\<open>pkg/docs/diff\<close>): the changes of messages, fields,
  enums, values, services and methods, found by ranging over maps from names. Filling these maps from the
  files is not written yet in the code: they are empty.
\<close>

section \<open>Changes\<close>

datatype change_type = Field_Added | Field_Removed | Field_Renamed | Type_Changed | Message_Added | Message_Removed
  | Enum_Added | Enum_Removed | Enum_Value_Added | Enum_Value_Removed | Service_Added | Service_Removed
  | Method_Added | Method_Removed | Field_Number_Changed | Label_Changed

datatype change_severity = Change_Breaking | Change_Non_Breaking | Change_Warning

record change =
  ch_type :: change_type
  ch_severity :: change_severity
  ch_location :: string
  ch_old :: string
  ch_new :: string
  ch_description :: string
  ch_tip :: string

record diff_result =
  df_from :: string
  df_to :: string
  df_changes :: "change list"

definition get_severity :: "change_type \<Rightarrow> change_severity" where
  "get_severity t =
     (if t \<in> {Field_Removed, Field_Renamed, Type_Changed, Message_Removed, Enum_Removed, Enum_Value_Removed,
        Service_Removed, Method_Removed, Field_Number_Changed} then Change_Breaking
      else if t \<in> {Field_Added, Message_Added, Enum_Added, Enum_Value_Added, Service_Added, Method_Added}
        then Change_Non_Breaking
      else if t = Label_Changed then Change_Breaking else Change_Warning)"

fun get_migration_tip :: "change_type \<Rightarrow> string \<Rightarrow> string" where
  "get_migration_tip Field_Removed loc = ''Remove all references to this field in your code''"
| "get_migration_tip Field_Renamed loc = ''Update all field references to use the new name''"
| "get_migration_tip Type_Changed loc = ''Update code to handle the new field type''"
| "get_migration_tip Message_Removed loc = ''Remove all usages of this message type''"
| "get_migration_tip Enum_Removed loc = ''Replace enum usages with alternative type''"
| "get_migration_tip Enum_Value_Removed loc = ''Update code that uses this enum value''"
| "get_migration_tip Service_Removed loc = ''Remove all service client implementations''"
| "get_migration_tip Method_Removed loc = ''Remove all calls to this method''"
| "get_migration_tip Field_Number_Changed loc =
     ''This is a critical breaking change - regenerate all code and redeploy all services''"
| "get_migration_tip Label_Changed loc =
     ''Update code to handle the new field cardinality (single vs repeated)''"
| "get_migration_tip _ loc = []"

section \<open>What is compared\<close>

record field_info =
  fi_name :: string
  fi_type :: string
  fi_number :: int
  fi_label :: string

record message_info =
  mi_name :: string
  mi_fields :: "(string, field_info) gomap"
  mi_file :: string

record enum_info =
  ei_name :: string
  ei_values :: "(string, int) gomap"
  ei_file :: string

record method_info =
  mt_name :: string
  mt_input :: string
  mt_output :: string

record service_info =
  sv_name :: string
  sv_methods :: "(string, method_info) gomap"
  sv_file :: string

definition build_message_map :: "api_file list \<Rightarrow> (string, message_info) gomap" where
  "build_message_map files = foldl (\<lambda>messages _. messages) [] files"

definition build_enum_map :: "api_file list \<Rightarrow> (string, enum_info) gomap" where
  "build_enum_map files = []"

definition build_service_map :: "api_file list \<Rightarrow> (string, service_info) gomap" where
  "build_service_map files = []"

section \<open>The comparison\<close>

text \<open>The three loops every level has: entries only in the first map, and entries in both.\<close>

definition entries_only :: "('k, 'v) gomap \<Rightarrow> ('k, 'v) gomap \<Rightarrow> ('k \<times> 'v) list" where
  "entries_only m m' = filter (\<lambda>(k, v). gm_get m' k = None) m"

definition entries_both :: "('k, 'v) gomap \<Rightarrow> ('k, 'v) gomap \<Rightarrow> ('k \<times> 'v \<times> 'v) list" where
  "entries_both old new = concat (map (\<lambda>(k, v). case gm_get new k of None \<Rightarrow> [] | Some v' \<Rightarrow> [(k, v, v')]) old)"

definition field_text :: "string \<Rightarrow> field_info \<Rightarrow> string" where
  "field_text n f = fi_type f @ '' '' @ n @ '' = '' @ fmt_d (fi_number f)"

definition field_location :: "message_info \<Rightarrow> string \<Rightarrow> string" where
  "field_location mi n = mi_file mi @ '':message '' @ mi_name mi @ '':field '' @ n"

definition changed_field :: "message_info \<Rightarrow> string \<Rightarrow> field_info \<Rightarrow> field_info \<Rightarrow> change list" where
  "changed_field old n f g =
     (if fi_type f \<noteq> fi_type g then [\<lparr>ch_type = Type_Changed, ch_severity = Change_Breaking,
        ch_location = field_location old n, ch_old = fi_type f, ch_new = fi_type g,
        ch_description = ''Field '' @ in_quotes n @ '' type changed from '' @ in_quotes (fi_type f) @ '' to '' @ in_quotes (fi_type g),
        ch_tip = get_migration_tip Type_Changed n\<rparr>] else []) @
     (if fi_number f \<noteq> fi_number g then [\<lparr>ch_type = Field_Number_Changed, ch_severity = Change_Breaking,
        ch_location = field_location old n, ch_old = fmt_d (fi_number f), ch_new = fmt_d (fi_number g),
        ch_description = ''Field '' @ in_quotes n @ '' number changed from '' @ fmt_d (fi_number f) @ '' to '' @
          fmt_d (fi_number g) @ '' (CRITICAL)'',
        ch_tip = get_migration_tip Field_Number_Changed n\<rparr>] else []) @
     (if fi_label f \<noteq> fi_label g then [\<lparr>ch_type = Label_Changed, ch_severity = Change_Breaking,
        ch_location = field_location old n, ch_old = fi_label f, ch_new = fi_label g,
        ch_description = ''Field '' @ in_quotes n @ '' label changed from '' @ in_quotes (fi_label f) @ '' to '' @ in_quotes (fi_label g),
        ch_tip = get_migration_tip Label_Changed n\<rparr>] else [])"

definition diff_fields :: "message_info \<Rightarrow> message_info \<Rightarrow> change list" where
  "diff_fields old new =
     map (\<lambda>(n, f). \<lparr>ch_type = Field_Removed, ch_severity = Change_Breaking, ch_location = field_location old n,
        ch_old = field_text n f, ch_new = [],
        ch_description = ''Field '' @ in_quotes n @ '' was removed from message '' @ in_quotes (mi_name old),
        ch_tip = get_migration_tip Field_Removed n\<rparr>) (entries_only (mi_fields old) (mi_fields new)) @
     map (\<lambda>(n, f). \<lparr>ch_type = Field_Added, ch_severity = Change_Non_Breaking, ch_location = field_location new n,
        ch_old = [], ch_new = field_text n f,
        ch_description = ''Field '' @ in_quotes n @ '' was added to message '' @ in_quotes (mi_name new),
        ch_tip = []\<rparr>) (entries_only (mi_fields new) (mi_fields old)) @
     concat (map (\<lambda>(n, f, g). changed_field old n f g) (entries_both (mi_fields old) (mi_fields new)))"

definition diff_messages :: "(string, message_info) gomap \<Rightarrow> (string, message_info) gomap \<Rightarrow> change list" where
  "diff_messages old new =
     map (\<lambda>(n, mi). \<lparr>ch_type = Message_Removed, ch_severity = Change_Breaking,
        ch_location = mi_file mi @ '':message '' @ n, ch_old = n, ch_new = [],
        ch_description = ''Message '' @ in_quotes n @ '' was removed'',
        ch_tip = get_migration_tip Message_Removed n\<rparr>) (entries_only old new) @
     map (\<lambda>(n, mi). \<lparr>ch_type = Message_Added, ch_severity = Change_Non_Breaking,
        ch_location = mi_file mi @ '':message '' @ n, ch_old = [], ch_new = n,
        ch_description = ''Message '' @ in_quotes n @ '' was added'', ch_tip = []\<rparr>) (entries_only new old) @
     concat (map (\<lambda>(n, mi, mi'). diff_fields mi mi') (entries_both old new))"

definition value_location :: "enum_info \<Rightarrow> string \<Rightarrow> string" where
  "value_location ei n = ei_file ei @ '':enum '' @ ei_name ei @ '':value '' @ n"

definition diff_enum_values :: "enum_info \<Rightarrow> enum_info \<Rightarrow> change list" where
  "diff_enum_values old new =
     map (\<lambda>(n, _). \<lparr>ch_type = Enum_Value_Removed, ch_severity = Change_Breaking, ch_location = value_location old n,
        ch_old = n, ch_new = [],
        ch_description = ''Enum value '' @ in_quotes n @ '' was removed from enum '' @ in_quotes (ei_name old),
        ch_tip = get_migration_tip Enum_Value_Removed n\<rparr>) (entries_only (ei_values old) (ei_values new)) @
     map (\<lambda>(n, _). \<lparr>ch_type = Enum_Value_Added, ch_severity = Change_Non_Breaking, ch_location = value_location new n,
        ch_old = [], ch_new = n,
        ch_description = ''Enum value '' @ in_quotes n @ '' was added to enum '' @ in_quotes (ei_name new),
        ch_tip = []\<rparr>) (entries_only (ei_values new) (ei_values old))"

definition diff_enums :: "(string, enum_info) gomap \<Rightarrow> (string, enum_info) gomap \<Rightarrow> change list" where
  "diff_enums old new =
     map (\<lambda>(n, ei). \<lparr>ch_type = Enum_Removed, ch_severity = Change_Breaking,
        ch_location = ei_file ei @ '':enum '' @ n, ch_old = n, ch_new = [],
        ch_description = ''Enum '' @ in_quotes n @ '' was removed'',
        ch_tip = get_migration_tip Enum_Removed n\<rparr>) (entries_only old new) @
     map (\<lambda>(n, ei). \<lparr>ch_type = Enum_Added, ch_severity = Change_Non_Breaking,
        ch_location = ei_file ei @ '':enum '' @ n, ch_old = [], ch_new = n,
        ch_description = ''Enum '' @ in_quotes n @ '' was added'', ch_tip = []\<rparr>) (entries_only new old) @
     concat (map (\<lambda>(n, ei, ei'). diff_enum_values ei ei') (entries_both old new))"

definition method_location :: "service_info \<Rightarrow> string \<Rightarrow> string" where
  "method_location si n = sv_file si @ '':service '' @ sv_name si @ '':method '' @ n"

definition diff_methods :: "service_info \<Rightarrow> service_info \<Rightarrow> change list" where
  "diff_methods old new =
     map (\<lambda>(n, _). \<lparr>ch_type = Method_Removed, ch_severity = Change_Breaking, ch_location = method_location old n,
        ch_old = n, ch_new = [],
        ch_description = ''Method '' @ in_quotes n @ '' was removed from service '' @ in_quotes (sv_name old),
        ch_tip = get_migration_tip Method_Removed n\<rparr>) (entries_only (sv_methods old) (sv_methods new)) @
     map (\<lambda>(n, _). \<lparr>ch_type = Method_Added, ch_severity = Change_Non_Breaking, ch_location = method_location new n,
        ch_old = [], ch_new = n,
        ch_description = ''Method '' @ in_quotes n @ '' was added to service '' @ in_quotes (sv_name new),
        ch_tip = []\<rparr>) (entries_only (sv_methods new) (sv_methods old))"

definition diff_services :: "(string, service_info) gomap \<Rightarrow> (string, service_info) gomap \<Rightarrow> change list" where
  "diff_services old new =
     map (\<lambda>(n, si). \<lparr>ch_type = Service_Removed, ch_severity = Change_Breaking,
        ch_location = sv_file si @ '':service '' @ n, ch_old = n, ch_new = [],
        ch_description = ''Service '' @ in_quotes n @ '' was removed'',
        ch_tip = get_migration_tip Service_Removed n\<rparr>) (entries_only old new) @
     map (\<lambda>(n, si). \<lparr>ch_type = Service_Added, ch_severity = Change_Non_Breaking,
        ch_location = sv_file si @ '':service '' @ n, ch_old = [], ch_new = n,
        ch_description = ''Service '' @ in_quotes n @ '' was added'', ch_tip = []\<rparr>) (entries_only new old) @
     concat (map (\<lambda>(n, si, si'). diff_methods si si') (entries_both old new))"

definition compare_versions :: "api_version \<Rightarrow> api_version \<Rightarrow> diff_result" where
  "compare_versions from_version to_version =
     \<lparr>df_from = av_version from_version, df_to = av_version to_version,
      df_changes =
        diff_messages (build_message_map (av_files from_version)) (build_message_map (av_files to_version)) @
        diff_enums (build_enum_map (av_files from_version)) (build_enum_map (av_files to_version)) @
        diff_services (build_service_map (av_files from_version)) (build_service_map (av_files to_version))\<rparr>"

section \<open>Working with changes\<close>

definition is_breaking_change :: "change \<Rightarrow> bool" where
  "is_breaking_change c \<longleftrightarrow> ch_severity c = Change_Breaking"

fun count_by_type :: "change list \<Rightarrow> change_type \<Rightarrow> nat" where
  "count_by_type [] t = 0"
| "count_by_type (c # cs) t = (if ch_type c = t then Suc (count_by_type cs t) else count_by_type cs t)"

definition filter_by_severity :: "change list \<Rightarrow> change_severity \<Rightarrow> change list" where
  "filter_by_severity cs s = filter (\<lambda>c. ch_severity c = s) cs"

end
