(* ===== verification/Diff_Props.thy ===== *)
theory Diff_Props
  imports Diff_Analyzer
begin

text \<open>
  What the differ reports: every difference it looks for, once, whatever the order of the maps; which schemas it
  finds compatible; and what it never sees.
\<close>

section \<open>The loops over two maps\<close>

lemma entries_only_Nil [simp]: "entries_only [] m = []" "entries_only m [] = m"
  by (simp_all add: entries_only_def)

lemma entries_both_Nil [simp]: "entries_both [] m = []" "entries_both m [] = []"
  by (simp_all add: entries_both_def)

lemma entries_only_iff: "gm_ok m \<Longrightarrow> (k, v) \<in> set (entries_only m m') \<longleftrightarrow> gm_get m k = Some v \<and> gm_get m' k = None"
  by (auto simp: entries_only_def gm_get_iff)

lemma entries_only_empty: "entries_only m m' = [] \<longleftrightarrow> fst ` set m \<subseteq> fst ` set m'"
  by (force simp: entries_only_def filter_empty_conv map_of_eq_None_iff)

lemma entries_both_iff:
  "gm_ok m \<Longrightarrow> (k, v, v') \<in> set (entries_both m m') \<longleftrightarrow> gm_get m k = Some v \<and> gm_get m' k = Some v'"
  by (auto simp: entries_both_def gm_get_iff split: option.splits)

lemma entries_only_same [simp]: "entries_only m m = []"
  by (simp add: entries_only_empty)

lemma entries_both_same: "gm_ok m \<Longrightarrow> (k, v, v') \<in> set (entries_both m m) \<Longrightarrow> v = v'"
  by (metis entries_both_iff option.inject)

lemma entries_only_mapped [simp]:
  "entries_only m (map (\<lambda>(n, x). (n, h x)) m) = []" "entries_only (map (\<lambda>(n, x). (n, h x)) m) m = []"
  by (auto simp: entries_only_empty image_image split_beta)

lemma mset_concat_perm: "mset xs = mset ys \<Longrightarrow> mset (concat (map f xs)) = mset (concat (map f ys))"
proof -
  have "mset (concat (map f xs)) = \<Sum>\<^sub># (image_mset (mset \<circ> f) (mset xs))" for xs by (induction xs) auto
  then show "mset xs = mset ys \<Longrightarrow> ?thesis" by simp
qed

text \<open>Which entries are found does not depend on the order of either map.\<close>

lemma entries_only_perm:
  assumes "gm_ok m'" "mset m = mset n" "mset m' = mset n'"
  shows "mset (entries_only m m') = mset (entries_only n n')"
  using assms(2) gm_get_perm [OF assms(1,3)] by (simp add: entries_only_def)

lemma entries_both_perm:
  assumes "gm_ok m'" "mset m = mset n" "mset m' = mset n'"
  shows "mset (entries_both m m') = mset (entries_both n n')"
  using mset_concat_perm [OF assms(2)] gm_get_perm [OF assms(1,3)] by (simp add: entries_both_def)

text \<open>In whatever order the maps are ranged over, the same changes are found.\<close>

lemma diff_messages_order:
  assumes "gm_ok old" "gm_ok new" "mset old = mset old'" "mset new = mset new'"
  shows "mset (diff_messages old new) = mset (diff_messages old' new')"
  using mset_concat_perm [OF entries_both_perm [OF assms(2-4)]] entries_only_perm [OF assms(2-4)]
    entries_only_perm [OF assms(1,4,3)]
  by (simp add: diff_messages_def)

section \<open>Accepted changes\<close>

text \<open>Well-formed maps at both levels.\<close>

definition maps_ok :: "('v \<Rightarrow> ('k, 'w) gomap) \<Rightarrow> ('k, 'v) gomap \<Rightarrow> bool" where
  "maps_ok inner m \<longleftrightarrow> gm_ok m \<and> list_all (\<lambda>(k, v). gm_ok (inner v)) m"

lemma maps_ok_inner: "maps_ok inner m \<Longrightarrow> gm_get m k = Some v \<Longrightarrow> gm_ok (inner v)"
  using map_of_SomeD [of m k v] by (auto simp: maps_ok_def list_all_iff)

definition no_breaking :: "change list \<Rightarrow> bool" where
  "no_breaking cs \<longleftrightarrow> list_all (\<lambda>c. \<not> is_breaking_change c) cs"

lemma no_breaking_append [simp]: "no_breaking (cs @ ds) \<longleftrightarrow> no_breaking cs \<and> no_breaking ds"
  by (simp add: no_breaking_def)

lemma no_breaking_concat: "no_breaking (concat (map f xs)) \<longleftrightarrow> (\<forall>x \<in> set xs. no_breaking (f x))"
  by (auto simp: no_breaking_def list_all_iff)

lemma no_breaking_Nil [simp]: "no_breaking []"
  by (simp add: no_breaking_def)

lemma no_breaking_map:
  "(\<And>x. x \<in> set xs \<Longrightarrow> ch_severity (f x) = Change_Breaking) \<Longrightarrow> no_breaking (map f xs) \<longleftrightarrow> xs = []"
  "(\<And>x. x \<in> set xs \<Longrightarrow> ch_severity (f x) = Change_Non_Breaking) \<Longrightarrow> no_breaking (map f xs)"
  by (cases xs) (auto simp: no_breaking_def is_breaking_change_def list_all_iff)

lemma no_breaking_changed_field:
  "no_breaking (changed_field old n f g) \<longleftrightarrow> fi_type f = fi_type g \<and> fi_number f = fi_number g \<and> fi_label f = fi_label g"
  by (simp add: changed_field_def no_breaking_def is_breaking_change_def)

definition keeps_fields :: "message_info \<Rightarrow> message_info \<Rightarrow> bool" where
  "keeps_fields old new \<longleftrightarrow> list_all (\<lambda>(n, f). case gm_get (mi_fields new) n of None \<Rightarrow> False
     | Some g \<Rightarrow> fi_type f = fi_type g \<and> fi_number f = fi_number g \<and> fi_label f = fi_label g) (mi_fields old)"

definition keeps_names :: "('k, 'v) gomap \<Rightarrow> ('k, 'w) gomap \<Rightarrow> bool" where
  "keeps_names old new \<longleftrightarrow> list_all (\<lambda>(n, _). gm_get new n \<noteq> None) old"

text \<open>Every entry of a map is kept, and kept well.\<close>

definition keeps_all :: "('v \<Rightarrow> 'v \<Rightarrow> bool) \<Rightarrow> ('k, 'v) gomap \<Rightarrow> ('k, 'v) gomap \<Rightarrow> bool" where
  "keeps_all good old new \<longleftrightarrow>
     list_all (\<lambda>(n, v). case gm_get new n of None \<Rightarrow> False | Some v' \<Rightarrow> good v v') old"

lemma keeps_all_iff: "keeps_all good old new \<longleftrightarrow>
    entries_only old new = [] \<and> (\<forall>(n, v, v') \<in> set (entries_both old new). good v v')"
  by (force simp: keeps_all_def entries_only_def entries_both_def list_all_iff filter_empty_conv split: option.splits)

lemma no_breaking_fields: "no_breaking (diff_fields old new) \<longleftrightarrow> keeps_fields old new"
proof -
  have "keeps_fields old new \<longleftrightarrow> keeps_all (\<lambda>f g. fi_type f = fi_type g \<and> fi_number f = fi_number g \<and> fi_label f = fi_label g)
      (mi_fields old) (mi_fields new)"
    by (simp add: keeps_fields_def keeps_all_def)
  then show ?thesis
    by (simp add: diff_fields_def no_breaking_concat no_breaking_map split_beta keeps_all_iff no_breaking_changed_field)
qed

text \<open>
  No change between two sets of messages is breaking exactly when every message of the old one is in the new
  one with every field of it under the same name, with the same type, number and label.
\<close>
lemma diff_messages_breaking_iff: "no_breaking (diff_messages old new) \<longleftrightarrow> keeps_all keeps_fields old new"
  by (simp add: diff_messages_def no_breaking_concat no_breaking_map split_beta keeps_all_iff no_breaking_fields)

text \<open>
  Enums and services are compared by names only: nothing is reported as breaking, or reported at all, when
  all values change their numbers and all methods their request and response types.
\<close>
lemma diff_ignores_numbers_and_types:
  "no_breaking (diff_enums olde newe) = keeps_all (\<lambda>e e'. keeps_names (ei_values e) (ei_values e')) olde newe \<and>
   no_breaking (diff_services olds news) = keeps_all (\<lambda>s s'. keeps_names (sv_methods s) (sv_methods s')) olds news \<and>
   diff_enum_values e (e\<lparr>ei_values := map (\<lambda>(n, x). (n, f x)) (ei_values e)\<rparr>) = [] \<and>
   diff_methods s (s\<lparr>sv_methods := map (\<lambda>(n, x). (n, g x)) (sv_methods s)\<rparr>) = []"
proof (intro conjI)
  have names: "entries_only old new = [] \<longleftrightarrow> keeps_names old new" for old new :: "('a, 'b) gomap"
    by (force simp: entries_only_def keeps_names_def filter_empty_conv list_all_iff)
  show "no_breaking (diff_enums olde newe) = keeps_all (\<lambda>e e'. keeps_names (ei_values e) (ei_values e')) olde newe"
    by (simp add: diff_enums_def diff_enum_values_def no_breaking_concat no_breaking_map split_beta keeps_all_iff names)
  show "no_breaking (diff_services olds news) = keeps_all (\<lambda>s s'. keeps_names (sv_methods s) (sv_methods s')) olds news"
    by (simp add: diff_services_def diff_methods_def no_breaking_concat no_breaking_map split_beta keeps_all_iff names)
  show "diff_enum_values e (e\<lparr>ei_values := map (\<lambda>(n, x). (n, f x)) (ei_values e)\<rparr>) = []"
    and "diff_methods s (s\<lparr>sv_methods := map (\<lambda>(n, x). (n, g x)) (sv_methods s)\<rparr>) = []"
    by (simp_all add: diff_enum_values_def diff_methods_def)
qed

text \<open>The differ finds no change between any two versions: it never reads their files.\<close>
lemma compare_versions_empty:
  "compare_versions v w = \<lparr>df_from = av_version v, df_to = av_version w, df_changes = []\<rparr>"
proof -
  have "build_message_map fs = []" for fs by (induction fs) (simp_all add: build_message_map_def)
  then show ?thesis
    by (simp add: compare_versions_def build_enum_map_def build_service_map_def diff_messages_def diff_enums_def
        diff_services_def)
qed

section \<open>Severities\<close>

definition own_severity :: "change list \<Rightarrow> bool" where
  "own_severity cs \<longleftrightarrow> list_all (\<lambda>c. ch_severity c = get_severity (ch_type c)) cs"

lemma own_severity_append [simp]: "own_severity (cs @ ds) \<longleftrightarrow> own_severity cs \<and> own_severity ds"
  by (simp add: own_severity_def)

lemma own_severity_map: "(\<And>x. ch_severity (f x) = get_severity (ch_type (f x))) \<Longrightarrow> own_severity (map f xs)"
  by (simp add: own_severity_def list_all_iff)

lemma own_severity_concat: "(\<And>x. own_severity (f x)) \<Longrightarrow> own_severity (concat (map f xs))"
  by (auto simp: own_severity_def list_all_iff)

lemma own_severity_changed_field: "own_severity (changed_field old n f g)"
  by (simp add: changed_field_def own_severity_def get_severity_def)

text \<open>Every change has the severity that its type has.\<close>

lemma diff_severities:
  "own_severity (diff_messages oldm newm)" "own_severity (diff_enums olde newe)" "own_severity (diff_services olds news)"
  unfolding diff_messages_def diff_fields_def diff_enums_def diff_enum_values_def diff_services_def diff_methods_def
  by (simp_all add: own_severity_map own_severity_concat own_severity_changed_field split_beta get_severity_def)

lemma count_by_type_length: "count_by_type cs t = length (filter (\<lambda>c. ch_type c = t) cs)"
  by (induction cs) auto

end
