(* ===== verification/Plugin_Manifest.thy ===== *)
theory Plugin_Manifest
  imports Spoke_Prelude
begin

text \<open>Plugin manifests: semantic versions, validation and compatibility (\<open>pkg/plugins/manifest.go\<close>, \<open>types.go\<close>).\<close>

section \<open>Semantic versions\<close>

definition is_tag_char :: "char \<Rightarrow> bool" where
  "is_tag_char c \<longleftrightarrow> in_range (CHR ''a'') (CHR ''z'') c \<or> in_range (CHR ''A'') (CHR ''Z'') c \<or> is_digit c \<or>
     c = CHR ''.'' \<or> c = CHR ''-''"

text \<open>
  The pieces of the regular expression: a run of digits with what follows it, the same before a dot, and a tag
  behind its mark, which may be missing.
\<close>

definition digits_prefix :: "string \<Rightarrow> (string \<times> string) option" where
  "digits_prefix s = (let ds = takeWhile is_digit s in if ds = [] then None else Some (ds, dropWhile is_digit s))"

definition number_dot :: "string \<Rightarrow> (string \<times> string) option" where
  "number_dot s = (case digits_prefix s of
     Some (ds, c # t) \<Rightarrow> if c = CHR ''.'' then Some (ds, t) else None
   | _ \<Rightarrow> None)"

definition tag_prefix :: "char \<Rightarrow> string \<Rightarrow> string \<times> string" where
  "tag_prefix mark s = (case s of
     c # t \<Rightarrow> if c = mark \<and> takeWhile is_tag_char t \<noteq> []
              then (c # takeWhile is_tag_char t, dropWhile is_tag_char t) else ([], s)
   | [] \<Rightarrow> ([], []))"

text \<open>The groups of a match of the whole string: major, minor, patch, pre-release and build.\<close>

definition semver_groups :: "string \<Rightarrow> (string \<times> string \<times> string \<times> string \<times> string) option" where
  "semver_groups s =
     (let s = (if s \<noteq> [] \<and> hd s = CHR ''v'' then tl s else s) in
      Option.bind (number_dot s) (\<lambda>(major, s).
      Option.bind (number_dot s) (\<lambda>(minor, s).
      Option.bind (digits_prefix s) (\<lambda>(patch, s).
        let (pre, s) = tag_prefix (CHR ''-'') s; (build, s) = tag_prefix (CHR ''+'') s
        in if s = [] then Some (major, minor, patch, pre, build) else None))))"

definition is_valid_semver :: "string \<Rightarrow> bool" where
  "is_valid_semver v \<longleftrightarrow> semver_groups v \<noteq> None"

definition extract_major_version :: "string \<Rightarrow> string" where
  "extract_major_version v = (case semver_groups v of Some (major, _) \<Rightarrow> major | None \<Rightarrow> ''0'')"

definition is_compatible_api_version :: "string \<Rightarrow> string \<Rightarrow> bool" where
  "is_compatible_api_version plugin sdk \<longleftrightarrow> extract_major_version plugin = extract_major_version sdk"

section \<open>Manifests\<close>

record manifest =
  pm_id :: string
  pm_name :: string
  pm_version :: string
  pm_api_version :: string
  pm_description :: string
  pm_author :: string
  pm_license :: string
  pm_homepage :: string
  pm_repository :: string
  pm_type :: string
  pm_metadata :: "(string, string) gomap"

record manifest_error =
  me_field :: string
  me_message :: string

definition plugin_type_language :: string where
  "plugin_type_language = ''language''"

definition manifest_error_if :: "bool \<Rightarrow> string \<Rightarrow> string \<Rightarrow> manifest_error list" where
  "manifest_error_if b field message = (if b then [\<lparr>me_field = field, me_message = message\<rparr>] else [])"

definition validate_manifest :: "manifest \<Rightarrow> manifest_error list" where
  "validate_manifest m =
     manifest_error_if (pm_id m = []) ''id'' ''Plugin ID is required'' @
     manifest_error_if (pm_name m = []) ''name'' ''Plugin name is required'' @
     manifest_error_if (pm_version m = []) ''version'' ''Version is required'' @
     manifest_error_if (pm_api_version m = []) ''api_version'' ''API version is required'' @
     manifest_error_if (pm_type m = []) ''type'' ''Plugin type is required'' @
     manifest_error_if (pm_version m \<noteq> [] \<and> \<not> is_valid_semver (pm_version m))
       ''version'' (''Invalid semver format: '' @ pm_version m) @
     manifest_error_if (pm_api_version m \<noteq> [] \<and> \<not> is_valid_semver (pm_api_version m))
       ''api_version'' (''Invalid semver format: '' @ pm_api_version m) @
     manifest_error_if (pm_type m \<noteq> plugin_type_language)
       ''type'' (''Invalid plugin type: '' @ pm_type m @ '' (only '' @ in_quotes plugin_type_language @ '' is supported)'')"

section \<open>What a match is\<close>

definition number :: "string \<Rightarrow> bool" where
  "number s \<longleftrightarrow> s \<noteq> [] \<and> list_all is_digit s"

definition optional_tag :: "char \<Rightarrow> string \<Rightarrow> bool" where
  "optional_tag mark s \<longleftrightarrow> s = [] \<or> (\<exists>t. s = mark # t \<and> t \<noteq> [] \<and> list_all is_tag_char t)"

end
