(* ===== verification/Plugin_Loader.thy ===== *)
theory Plugin_Loader
  imports Plugin_Manifest Storage_Files
begin

text \<open>
  Loading plugins from directories (\<open>pkg/plugins/loader.go\<close>, \<open>basic_language_plugin.go\<close>) and the registry
  (\<open>registry.go\<close>). A plugin is a basic one, known here, or one that a factory made, of a type \<open>'b\<close> of which only
  the operations of the interface are known. YAML is a parameter. Logging is left out.
\<close>

section \<open>Language specifications\<close>

record package_manager =
  pk_name :: string
  pk_config_files :: "string list"
  pk_dependency_map :: "(string, string) gomap"
  pk_default_versions :: "(string, string) gomap"

record plugin_language_spec =
  ls_id :: string
  ls_name :: string
  ls_display_name :: string
  ls_supports_grpc :: bool
  ls_file_extensions :: "string list"
  ls_enabled :: bool
  ls_stable :: bool
  ls_description :: string
  ls_documentation_url :: string
  ls_plugin_version :: string
  ls_protoc_plugin :: string
  ls_docker_image :: string
  ls_package_manager :: "package_manager option"
  ls_custom_options :: "(string, string) gomap"

record yaml_codec =
  yc_get_manifest :: "string \<Rightarrow> manifest option"
  yc_put_manifest :: "manifest \<Rightarrow> string"
  yc_get_spec :: "string \<Rightarrow> plugin_language_spec option"

datatype plugin_error = Io os_error | Bad_Yaml | Plugin_Wrap string plugin_error | Plugin_Problem string
  | Bad_Manifest "manifest_error list" | Foreign_Error string

definition plugin_read :: "string \<Rightarrow> os_error + 'a \<Rightarrow> plugin_error + 'a" where
  "plugin_read what r = (case r of Inl e \<Rightarrow> Inl (Plugin_Wrap what (Io e)) | Inr d \<Rightarrow> Inr d)"

definition load_manifest :: "yaml_codec \<Rightarrow> file_system \<Rightarrow> path \<Rightarrow> plugin_error + manifest" where
  "load_manifest yc fs p =
     rbind (plugin_read ''failed to read manifest'' (read_file fs p)) (\<lambda>d.
     case yc_get_manifest yc d of None \<Rightarrow> Inl (Plugin_Wrap ''failed to parse manifest'' Bad_Yaml) | Some m \<Rightarrow> Inr m)"

definition load_manifest_from_dir :: "yaml_codec \<Rightarrow> file_system \<Rightarrow> path \<Rightarrow> plugin_error + manifest" where
  "load_manifest_from_dir yc fs dir = load_manifest yc fs (join_path dir [''plugin.yaml''])"

definition save_manifest :: "yaml_codec \<Rightarrow> manifest \<Rightarrow> path \<Rightarrow> file_system \<Rightarrow> plugin_error + file_system" where
  "save_manifest yc m p fs = plugin_read ''failed to write manifest'' (write_file p (yc_put_manifest yc m) fs)"

section \<open>Basic plugins\<close>

record basic_plugin =
  bp_manifest :: manifest
  bp_dir :: path
  bp_spec :: "plugin_language_spec option"

definition new_basic_plugin :: "manifest \<Rightarrow> path \<Rightarrow> basic_plugin" where
  "new_basic_plugin m dir = \<lparr>bp_manifest = m, bp_dir = dir, bp_spec = None\<rparr>"

definition manifest_spec :: "manifest \<Rightarrow> plugin_language_spec" where
  "manifest_spec m = \<lparr>ls_id = pm_id m, ls_name = pm_name m, ls_display_name = pm_name m, ls_supports_grpc = False,
     ls_file_extensions = [], ls_enabled = True, ls_stable = True, ls_description = pm_description m,
     ls_documentation_url = [], ls_plugin_version = [], ls_protoc_plugin = [], ls_docker_image = [],
     ls_package_manager = None, ls_custom_options = []\<rparr>"

definition load_language_spec :: "yaml_codec \<Rightarrow> file_system \<Rightarrow> basic_plugin \<Rightarrow> plugin_error + plugin_language_spec" where
  "load_language_spec yc fs p =
     (let spec_path = join_path (bp_dir p) [''language_spec.yaml''] in
      if node_at fs spec_path \<noteq> None then
        rbind (plugin_read ''failed to read language spec file'' (read_file fs spec_path)) (\<lambda>d.
        case yc_get_spec yc d of None \<Rightarrow> Inl (Plugin_Wrap ''failed to parse language spec'' Bad_Yaml) | Some s \<Rightarrow> Inr s)
      else (case gm_get (pm_metadata (bp_manifest p)) ''language_spec'' of
        Some d \<Rightarrow> (case yc_get_spec yc d of
          None \<Rightarrow> Inl (Plugin_Wrap ''failed to parse language spec from manifest'' Bad_Yaml) | Some s \<Rightarrow> Inr s)
      | None \<Rightarrow> Inr (manifest_spec (bp_manifest p))))"

definition load_basic :: "yaml_codec \<Rightarrow> file_system \<Rightarrow> basic_plugin \<Rightarrow> plugin_error + basic_plugin" where
  "load_basic yc fs p = (case load_language_spec yc fs p of
     Inl e \<Rightarrow> Inl (Plugin_Wrap ''failed to load language spec'' e) | Inr s \<Rightarrow> Inr (p\<lparr>bp_spec := Some s\<rparr>))"

record command_request =
  cr_proto_files :: "string list"
  cr_import_paths :: "string list"
  cr_output_dir :: string
  cr_options :: "(string, string) gomap"
  cr_plugin_path :: string

definition option_text :: "string \<times> string \<Rightarrow> string" where
  "option_text kv = (if snd kv = [] then fst kv else fst kv @ ''='' @ snd kv)"

definition build_protoc_command :: "basic_plugin \<Rightarrow> command_request \<Rightarrow> plugin_error + string list" where
  "build_protoc_command p req = (case bp_spec p of
     None \<Rightarrow> Inl (Plugin_Problem ''language spec not loaded'')
   | Some spec \<Rightarrow> Inr (
       [''protoc''] @ map (\<lambda>path. ''--proto_path='' @ path) (cr_import_paths req) @
       (if cr_plugin_path req \<noteq> [] then
          [''--plugin=protoc-gen-'' @ (if ls_protoc_plugin spec = [] then ls_id spec else ls_protoc_plugin spec) @
           ''='' @ cr_plugin_path req] else []) @
       [''--'' @ ls_id spec @ ''_out='' @ cr_output_dir req] @
       (if cr_options req \<noteq> [] then
          [''--'' @ ls_id spec @ ''_opt='' @ join_strings '','' (map option_text (cr_options req))] else []) @
       cr_proto_files req))"

fun validate_files :: "string list \<Rightarrow> string list \<Rightarrow> plugin_error + unit" where
  "validate_files exts [] = Inr ()"
| "validate_files exts (f # fs) =
     (if list_ex (has_suffix f) exts then validate_files exts fs
      else Inl (Plugin_Problem (''unexpected file extension: '' @ f @ '' (expected: ['' @ join_strings '' '' exts @ ''])'')))"

definition validate_output :: "basic_plugin \<Rightarrow> string list \<Rightarrow> plugin_error + unit" where
  "validate_output p files = (case bp_spec p of
     None \<Rightarrow> Inl (Plugin_Problem ''language spec not loaded'')
   | Some spec \<Rightarrow> if files = [] then Inl (Plugin_Problem ''no files generated'')
                   else validate_files (ls_file_extensions spec) files)"

section \<open>The loader\<close>

datatype 'b plugin = Basic basic_plugin | Foreign 'b

record 'b foreign_ops =
  fo_load :: "'b \<Rightarrow> string + 'b"
  fo_unload :: "'b \<Rightarrow> string option"

record 'b plugin_loader =
  pl_dirs :: "path list"
  pl_loaded :: "(string, 'b plugin) gomap"
  pl_factory :: "(manifest \<Rightarrow> string + 'b) option"

definition new_loader :: "path list \<Rightarrow> 'b plugin_loader" where
  "new_loader dirs = \<lparr>pl_dirs = dirs, pl_loaded = [], pl_factory = None\<rparr>"

definition set_buf_plugin_factory :: "(manifest \<Rightarrow> string + 'b) option \<Rightarrow> 'b plugin_loader \<Rightarrow> 'b plugin_loader" where
  "set_buf_plugin_factory f l = l\<lparr>pl_factory := f\<rparr>"

definition is_buf_plugin :: "manifest \<Rightarrow> bool" where
  "is_buf_plugin m \<longleftrightarrow> gm_get (pm_metadata m) ''buf_registry'' \<noteq> None"

definition create_buf_adapter :: "'b plugin_loader \<Rightarrow> manifest \<Rightarrow> plugin_error + 'b" where
  "create_buf_adapter l m = (case pl_factory l of
     None \<Rightarrow> Inl (Plugin_Problem ''buf plugin factory not configured (Buf plugin support disabled)'')
   | Some f \<Rightarrow> (case f m of Inl e \<Rightarrow> Inl (Foreign_Error e) | Inr b \<Rightarrow> Inr b))"

definition load_language_plugin :: "'b plugin_loader \<Rightarrow> path \<Rightarrow> manifest \<Rightarrow> plugin_error + 'b plugin" where
  "load_language_plugin l dir m =
     (if is_buf_plugin m then (case create_buf_adapter l m of
        Inl e \<Rightarrow> Inl (Plugin_Wrap ''failed to create Buf plugin adapter'' e) | Inr b \<Rightarrow> Inr (Foreign b))
      else Inr (Basic (new_basic_plugin m dir)))"

definition load_instance :: "'b foreign_ops \<Rightarrow> yaml_codec \<Rightarrow> file_system \<Rightarrow> 'b plugin \<Rightarrow> plugin_error + 'b plugin" where
  "load_instance fo yc fs p = (case p of
     Basic b \<Rightarrow> rbind (load_basic yc fs b) (\<lambda>b. Inr (Basic b))
   | Foreign b \<Rightarrow> (case fo_load fo b of Inl e \<Rightarrow> Inl (Foreign_Error e) | Inr b \<Rightarrow> Inr (Foreign b)))"

definition current_sdk_api_version :: string where
  "current_sdk_api_version = ''1.0.0''"

definition load_plugin_from_dir :: "'b foreign_ops \<Rightarrow> yaml_codec \<Rightarrow> file_system \<Rightarrow> path \<Rightarrow> 'b plugin_loader \<Rightarrow>
    'b plugin_loader \<times> (plugin_error + 'b plugin)" where
  "load_plugin_from_dir fo yc fs dir l = (case load_manifest_from_dir yc fs dir of
     Inl e \<Rightarrow> (l, Inl (Plugin_Wrap ''failed to load manifest'' e))
   | Inr m \<Rightarrow>
       if validate_manifest m \<noteq> [] then (l, Inl (Bad_Manifest (validate_manifest m)))
       else if \<not> is_compatible_api_version (pm_api_version m) current_sdk_api_version then
         (l, Inl (Plugin_Problem (''incompatible API version: plugin requires '' @ pm_api_version m @ '', SDK is '' @
            current_sdk_api_version)))
       else if pm_type m \<noteq> plugin_type_language then (l, Inl (Plugin_Problem (''unsupported plugin type: '' @ pm_type m)))
       else (case load_language_plugin l dir m of
         Inl e \<Rightarrow> (l, Inl (Plugin_Wrap ''failed to load plugin'' e))
       | Inr p \<Rightarrow> (case load_instance fo yc fs p of
           Inl e \<Rightarrow> (l, Inl (Plugin_Wrap ''plugin load failed'' e))
         | Inr p \<Rightarrow> (l\<lparr>pl_loaded := gm_put (pm_id m) p (pl_loaded l)\<rparr>, Inr p))))"

text \<open>The loops over a directory's entries and over the directories; whatever fails is skipped.\<close>

fun discover_entries :: "'b foreign_ops \<Rightarrow> yaml_codec \<Rightarrow> file_system \<Rightarrow> path \<Rightarrow> (string \<times> bool) list \<Rightarrow> 'b plugin_loader \<Rightarrow>
    'b plugin_loader \<times> 'b plugin list" where
  "discover_entries fo yc fs dir [] l = (l, [])"
| "discover_entries fo yc fs dir ((n, is_dir) # es) l =
     (if \<not> is_dir then discover_entries fo yc fs dir es l
      else (case load_plugin_from_dir fo yc fs (join_path dir [n]) l of
        (l, Inl e) \<Rightarrow> discover_entries fo yc fs dir es l
      | (l, Inr p) \<Rightarrow> (let (l, ps) = discover_entries fo yc fs dir es l in (l, p # ps))))"

fun discover_dirs :: "'b foreign_ops \<Rightarrow> yaml_codec \<Rightarrow> file_system \<Rightarrow> path list \<Rightarrow> 'b plugin_loader \<Rightarrow>
    'b plugin_loader \<times> 'b plugin list" where
  "discover_dirs fo yc fs [] l = (l, [])"
| "discover_dirs fo yc fs (dir # dirs) l = (case read_dir fs dir of
     Inl e \<Rightarrow> discover_dirs fo yc fs dirs l
   | Inr es \<Rightarrow>
       (let (l, ps) = discover_entries fo yc fs dir es l; (l, qs) = discover_dirs fo yc fs dirs l in (l, ps @ qs)))"

definition discover_plugins :: "'b foreign_ops \<Rightarrow> yaml_codec \<Rightarrow> file_system \<Rightarrow> 'b plugin_loader \<Rightarrow>
    'b plugin_loader \<times> 'b plugin list" where
  "discover_plugins fo yc fs l = discover_dirs fo yc fs (pl_dirs l) l"

definition unload_instance :: "'b foreign_ops \<Rightarrow> 'b plugin \<Rightarrow> plugin_error option" where
  "unload_instance fo p = (case p of Basic b \<Rightarrow> None | Foreign b \<Rightarrow> map_option Foreign_Error (fo_unload fo b))"

definition unload_plugin :: "'b foreign_ops \<Rightarrow> string \<Rightarrow> 'b plugin_loader \<Rightarrow> 'b plugin_loader \<times> (plugin_error + unit)" where
  "unload_plugin fo i l = (case gm_get (pl_loaded l) i of
     None \<Rightarrow> (l, Inl (Plugin_Problem (''plugin not loaded: '' @ i)))
   | Some p \<Rightarrow> (case unload_instance fo p of
       Some e \<Rightarrow> (l, Inl (Plugin_Wrap ''failed to unload plugin'' e))
     | None \<Rightarrow> (l\<lparr>pl_loaded := gm_del i (pl_loaded l)\<rparr>, Inr ())))"

definition get_loaded_plugin :: "'b plugin_loader \<Rightarrow> string \<Rightarrow> 'b plugin option" where
  "get_loaded_plugin l i = gm_get (pl_loaded l) i"

definition list_loaded_plugins :: "'b plugin_loader \<Rightarrow> 'b plugin list" where
  "list_loaded_plugins l = map snd (pl_loaded l)"

section \<open>The registry\<close>

text \<open>
  A registered plugin is of a type \<open>'p\<close> with its manifest, which may be nil, and whether it is a language plugin.
\<close>

record 'p plugin_view =
  pv_manifest :: "'p \<Rightarrow> manifest option"
  pv_is_language :: "'p \<Rightarrow> bool"

type_synonym 'p registry = "(string, 'p) gomap"

definition register_plugin :: "'p plugin_view \<Rightarrow> 'p option \<Rightarrow> 'p registry \<Rightarrow> 'p registry \<times> (plugin_error + unit)" where
  "register_plugin pv plugin r = (case plugin of
     None \<Rightarrow> (r, Inl (Plugin_Problem ''cannot register nil plugin''))
   | Some p \<Rightarrow> (case pv_manifest pv p of
       None \<Rightarrow> (r, Inl (Plugin_Problem ''plugin has nil manifest''))
     | Some m \<Rightarrow>
         if gm_get r (pm_id m) \<noteq> None then (r, Inl (Plugin_Problem (''plugin already registered: '' @ pm_id m)))
         else (gm_put (pm_id m) p r, Inr ())))"

definition unregister_plugin :: "string \<Rightarrow> 'p registry \<Rightarrow> 'p registry \<times> (plugin_error + unit)" where
  "unregister_plugin i r =
     (if gm_get r i = None then (r, Inl (Plugin_Problem (''plugin not found: '' @ i))) else (gm_del i r, Inr ()))"

definition get_plugin :: "'p registry \<Rightarrow> string \<Rightarrow> plugin_error + 'p" where
  "get_plugin r i = (case gm_get r i of None \<Rightarrow> Inl (Plugin_Problem (''plugin not found: '' @ i)) | Some p \<Rightarrow> Inr p)"

definition has_plugin :: "'p registry \<Rightarrow> string \<Rightarrow> bool" where
  "has_plugin r i \<longleftrightarrow> gm_get r i \<noteq> None"

definition list_plugins :: "'p registry \<Rightarrow> 'p list" where
  "list_plugins r = map snd r"

text \<open>A manifest that has become nil is a panic.\<close>

fun list_by_type :: "'p plugin_view \<Rightarrow> string \<Rightarrow> 'p registry \<Rightarrow> go_panic + 'p list" where
  "list_by_type pv t [] = Inr []"
| "list_by_type pv t ((_, p) # r) = (case pv_manifest pv p of
     None \<Rightarrow> Inl NilDereference
   | Some m \<Rightarrow> rbind (list_by_type pv t r) (\<lambda>ps. Inr (if pm_type m = t then p # ps else ps)))"

definition plugin_count :: "'p registry \<Rightarrow> nat" where
  "plugin_count r = length r"

definition clear_plugins :: "'p registry \<Rightarrow> 'p registry" where
  "clear_plugins r = []"

definition get_language_plugins :: "'p plugin_view \<Rightarrow> 'p registry \<Rightarrow> 'p list" where
  "get_language_plugins pv r = filter (pv_is_language pv) (list_plugins r)"

end
