(* ===== verification/Plugin_Props.thy ===== *)
theory Plugin_Props
  imports Plugin_Loader
begin

text \<open>What the version pattern accepts, what a loader holds, and what a plugin without a specification can do.\<close>

section \<open>Semantic versions\<close>

lemma takeWhile_number: "list_all P d \<Longrightarrow> t = [] \<or> \<not> P (hd t) \<Longrightarrow> takeWhile P (d @ t) = d \<and> dropWhile P (d @ t) = t"
  by (induction d) (auto simp: takeWhile_eq_Nil_iff dropWhile_eq_self_iff)

lemma digits_prefix_app: "number d \<Longrightarrow> t = [] \<or> \<not> is_digit (hd t) \<Longrightarrow> digits_prefix (d @ t) = Some (d, t)"
  using takeWhile_number [of is_digit d t] by (simp add: digits_prefix_def number_def)

lemma digits_prefix_Some: "digits_prefix s = Some (d, t) \<Longrightarrow> number d \<and> s = d @ t"
  by (auto simp: digits_prefix_def number_def Let_def list_all_iff dest: set_takeWhileD split: if_splits)

lemma number_dot_app: "number d \<Longrightarrow> number_dot (d @ CHR ''.'' # t) = Some (d, t)"
  using digits_prefix_app [of d "CHR ''.'' # t"] by (simp add: number_dot_def is_digit_def in_range_def)

lemma number_dot_Some: "number_dot s = Some (d, t) \<Longrightarrow> number d \<and> s = d @ CHR ''.'' # t"
  by (auto simp: number_dot_def dest!: digits_prefix_Some split: option.splits list.splits if_splits)

lemma tag_prefix_eq: "tag_prefix mark s = (p, t) \<Longrightarrow> s = p @ t \<and> optional_tag mark p"
  by (auto simp: tag_prefix_def optional_tag_def list_all_iff dest: set_takeWhileD split: list.splits if_splits)

lemma tag_prefix_app:
  assumes "optional_tag mark p" and "t = [] \<or> hd t \<noteq> mark \<and> \<not> is_tag_char (hd t)"
  shows "tag_prefix mark (p @ t) = (p, t)"
proof (cases "p = []")
  case True
  then show ?thesis using assms(2) by (cases t) (auto simp: tag_prefix_def)
next
  case False
  then obtain w where w: "p = mark # w" "w \<noteq> []" "list_all is_tag_char w" using assms(1) by (auto simp: optional_tag_def)
  then have "takeWhile is_tag_char (w @ t) = w" "dropWhile is_tag_char (w @ t) = t"
    using takeWhile_number [of is_tag_char w t] assms(2) by auto
  then show ?thesis using w by (simp add: tag_prefix_def)
qed

lemma optional_tag_hd: "optional_tag mark p \<Longrightarrow> p = [] \<or> hd p = mark"
  by (auto simp: optional_tag_def)

lemma tag_marks: "\<not> is_digit (CHR ''-'')" "\<not> is_digit (CHR ''+'')" "\<not> is_tag_char (CHR ''+'')"
  by (simp_all add: is_digit_def is_tag_char_def in_range_def)

lemma number_not_v: "number d \<Longrightarrow> hd (d @ t) \<noteq> CHR ''v''"
  by (cases d) (auto simp: number_def is_digit_def in_range_def)

text \<open>
  The version pattern matches exactly the strings of three numbers between dots, behind an optional \<open>v\<close>, with
  an optional pre-release and an optional build tag, and its groups are these parts.
\<close>
lemma semver_groups_iff:
  "semver_groups s = Some (major, minor, patch, pre, build) \<longleftrightarrow>
   number major \<and> number minor \<and> number patch \<and> optional_tag (CHR ''-'') pre \<and> optional_tag (CHR ''+'') build \<and>
   (let w = major @ ''.'' @ minor @ ''.'' @ patch @ pre @ build in s = w \<or> s = CHR ''v'' # w)"
proof
  assume g: "semver_groups s = Some (major, minor, patch, pre, build)"
  define w where "w = (if s \<noteq> [] \<and> hd s = CHR ''v'' then tl s else s)"
  obtain t u x y where 1: "number_dot w = Some (major, t)" and 2: "number_dot t = Some (minor, u)"
    and 3: "digits_prefix u = Some (patch, x)" and 4: "tag_prefix (CHR ''-'') x = (pre, y)"
    and 5: "tag_prefix (CHR ''+'') y = (build, [])"
    using g by (auto simp: semver_groups_def Let_def w_def [symmetric] bind_eq_Some_conv split_beta prod_eq_iff split: if_splits)
  show "number major \<and> number minor \<and> number patch \<and> optional_tag (CHR ''-'') pre \<and> optional_tag (CHR ''+'') build \<and>
   (let w = major @ ''.'' @ minor @ ''.'' @ patch @ pre @ build in s = w \<or> s = CHR ''v'' # w)"
    using number_dot_Some [OF 1] number_dot_Some [OF 2] digits_prefix_Some [OF 3] tag_prefix_eq [OF 4] tag_prefix_eq [OF 5]
    by (cases s) (auto simp: w_def Let_def split: if_splits)
next
  assume r: "number major \<and> number minor \<and> number patch \<and> optional_tag (CHR ''-'') pre \<and> optional_tag (CHR ''+'') build \<and>
   (let w = major @ ''.'' @ minor @ ''.'' @ patch @ pre @ build in s = w \<or> s = CHR ''v'' # w)"
  define w where "w = major @ ''.'' @ minor @ ''.'' @ patch @ pre @ build"
  have s: "(if s \<noteq> [] \<and> hd s = CHR ''v'' then tl s else s) = w"
    using r number_not_v [of major] by (auto simp: w_def Let_def)
  have "pre @ build = [] \<or> \<not> is_digit (hd (pre @ build))"
    using r optional_tag_hd [of "CHR ''-''" pre] optional_tag_hd [of "CHR ''+''" build] tag_marks by (cases pre; cases build) auto
  then have "digits_prefix (patch @ pre @ build) = Some (patch, pre @ build)" using r by (simp add: digits_prefix_app)
  moreover have "tag_prefix (CHR ''-'') (pre @ build) = (pre, build)"
    using r optional_tag_hd [of "CHR ''+''" build] tag_marks by (intro tag_prefix_app) auto
  moreover have "tag_prefix (CHR ''+'') build = (build, [])" using tag_prefix_app [of _ build "[]"] r by simp
  ultimately show "semver_groups s = Some (major, minor, patch, pre, build)"
    unfolding semver_groups_def s using r number_dot_app [of major] number_dot_app [of minor] by (simp add: w_def)
qed

section \<open>The loader\<close>

lemma validate_manifest_ok: "validate_manifest m = [] \<longleftrightarrow> pm_id m \<noteq> [] \<and> pm_name m \<noteq> [] \<and>
    is_valid_semver (pm_version m) \<and> is_valid_semver (pm_api_version m) \<and> pm_type m = plugin_type_language"
proof -
  have "\<not> is_valid_semver []"
    by (simp add: is_valid_semver_def semver_groups_def number_dot_def digits_prefix_def)
  then show ?thesis by (auto simp: validate_manifest_def manifest_error_if_def plugin_type_language_def)
qed

text \<open>The manifests a loader accepts, and what it holds under an id.\<close>

definition loadable :: "manifest \<Rightarrow> bool" where
  "loadable m \<longleftrightarrow> validate_manifest m = [] \<and> is_compatible_api_version (pm_api_version m) current_sdk_api_version"

definition well_loaded :: "'b foreign_ops \<Rightarrow> string \<times> 'b plugin \<Rightarrow> bool" where
  "well_loaded fo kp = (case snd kp of
     Basic b \<Rightarrow> loadable (bp_manifest b) \<and> \<not> is_buf_plugin (bp_manifest b) \<and> pm_id (bp_manifest b) = fst kp \<and> bp_spec b \<noteq> None
   | Foreign b \<Rightarrow> fst kp \<noteq> [] \<and> (\<exists>b'. fo_load fo b' = Inr b))"

definition loader_ok :: "'b foreign_ops \<Rightarrow> 'b plugin_loader \<Rightarrow> bool" where
  "loader_ok fo l \<longleftrightarrow> gm_ok (pl_loaded l) \<and> list_all (well_loaded fo) (pl_loaded l)"

lemma loader_ok_new [simp]: "loader_ok fo (new_loader dirs)"
  by (simp add: loader_ok_def new_loader_def)

lemma set_delete_subset: "set (gm_del i m) \<subseteq> set m"
  by (induction m) auto

lemma loader_ok_put: "loader_ok fo l \<Longrightarrow> well_loaded fo (i, p) \<Longrightarrow> loader_ok fo (l\<lparr>pl_loaded := gm_put i p (pl_loaded l)\<rparr>)"
  using set_gm_put [of i p "pl_loaded l"] by (auto simp: loader_ok_def list_all_iff)

lemma loader_ok_del: "loader_ok fo l \<Longrightarrow> loader_ok fo (l\<lparr>pl_loaded := gm_del i (pl_loaded l)\<rparr>)"
  using set_delete_subset [of i "pl_loaded l"] by (auto simp: loader_ok_def list_all_iff)

text \<open>When loading a directory succeeds, and what it then holds.\<close>

lemma load_plugin_cases:
  assumes "load_plugin_from_dir fo yc fs dir l = (l', r)"
  obtains (Failed) e where "r = Inl e" and "l' = l"
  | (Loaded) m p q where "r = Inr q" and "load_manifest_from_dir yc fs dir = Inr m" and "loadable m"
    and "load_language_plugin l dir m = Inr p" and "load_instance fo yc fs p = Inr q"
    and "l' = l\<lparr>pl_loaded := gm_put (pm_id m) q (pl_loaded l)\<rparr>"
proof (cases "load_manifest_from_dir yc fs dir")
  case (Inl e)
  then show thesis using assms Failed by (auto simp: load_plugin_from_dir_def)
next
  case (Inr m)
  show thesis
  proof (cases "loadable m")
    case False
    then show thesis using assms Failed Inr by (auto simp: load_plugin_from_dir_def loadable_def split: if_splits)
  next
    case True
    then have t: "pm_type m = plugin_type_language" by (simp add: loadable_def validate_manifest_ok)
    show thesis
    proof (cases "load_language_plugin l dir m")
      case (Inl e)
      then show thesis using assms Failed Inr True t by (auto simp: load_plugin_from_dir_def loadable_def)
    next
      case p: (Inr p)
      show thesis
      proof (cases "load_instance fo yc fs p")
        case (Inl e)
        then have "load_plugin_from_dir fo yc fs dir l = (l, Inl (Plugin_Wrap ''plugin load failed'' e))"
          using \<open>load_manifest_from_dir yc fs dir = Inr m\<close> True t p by (simp add: load_plugin_from_dir_def loadable_def)
        then show thesis using assms Failed by simp
      next
        case q: (Inr q)
        then have "load_plugin_from_dir fo yc fs dir l = (l\<lparr>pl_loaded := gm_put (pm_id m) q (pl_loaded l)\<rparr>, Inr q)"
          using Inr True t p by (simp add: load_plugin_from_dir_def loadable_def)
        then show thesis using assms Loaded [OF _ Inr True p q] by simp
      qed
    qed
  qed
qed

lemma load_instance_well:
  assumes "loadable m" "load_language_plugin l dir m = Inr p" "load_instance fo yc fs p = Inr q"
  shows "well_loaded fo (pm_id m, q)"
proof (cases "is_buf_plugin m")
  case True
  then show ?thesis
    using assms by (auto simp: load_language_plugin_def load_instance_def well_loaded_def loadable_def validate_manifest_ok
        split: sum.splits) blast
next
  case False
  then show ?thesis
    using assms by (auto simp: load_language_plugin_def load_instance_def load_basic_def new_basic_plugin_def well_loaded_def
        rbind_Inr_iff split: sum.splits)
qed

lemma load_plugin_ok: "loader_ok fo l \<Longrightarrow> loader_ok fo (fst (load_plugin_from_dir fo yc fs dir l))"
proof -
  assume ok: "loader_ok fo l"
  obtain l' r where lr: "load_plugin_from_dir fo yc fs dir l = (l', r)" by fastforce
  then show ?thesis by (rule load_plugin_cases) (use ok in \<open>simp_all add: lr loader_ok_put load_instance_well\<close>)
qed

lemma discover_entries_ok: "loader_ok fo l \<Longrightarrow> loader_ok fo (fst (discover_entries fo yc fs dir es l))"
proof (induction es arbitrary: l)
  case (Cons e es)
  obtain n d where e: "e = (n, d)" by (cases e)
  have "loader_ok fo (fst (load_plugin_from_dir fo yc fs (join_path dir [n]) l))" using Cons.prems by (rule load_plugin_ok)
  then show ?case using Cons by (auto simp: e Let_def split: sum.split prod.split) (metis fst_conv)+
qed simp

lemma discover_dirs_ok: "loader_ok fo l \<Longrightarrow> loader_ok fo (fst (discover_dirs fo yc fs dirs l))"
  by (induction dirs arbitrary: l) (auto simp: Let_def split_beta discover_entries_ok split: sum.split)

lemma unload_plugin_ok: "loader_ok fo l \<Longrightarrow> loader_ok fo (fst (unload_plugin fo i l))"
  by (auto simp: unload_plugin_def loader_ok_del split: option.split)

text \<open>A loader's life: any sequence of its operations, on whatever file system there is at the time.\<close>

datatype 'b loader_op = Set_Factory "(manifest \<Rightarrow> string + 'b) option" | Load_From yaml_codec file_system path
  | Discover yaml_codec file_system | Unload string

fun loader_step :: "'b foreign_ops \<Rightarrow> 'b loader_op \<Rightarrow> 'b plugin_loader \<Rightarrow> 'b plugin_loader" where
  "loader_step fo (Set_Factory f) l = set_buf_plugin_factory f l"
| "loader_step fo (Load_From yc fs dir) l = fst (load_plugin_from_dir fo yc fs dir l)"
| "loader_step fo (Discover yc fs) l = fst (discover_plugins fo yc fs l)"
| "loader_step fo (Unload i) l = fst (unload_plugin fo i l)"

lemma loader_ok_factory: "loader_ok fo l \<Longrightarrow> loader_ok fo (set_buf_plugin_factory f l)"
  by (simp add: loader_ok_def set_buf_plugin_factory_def)

lemma loader_step_ok: "loader_ok fo l \<Longrightarrow> loader_ok fo (loader_step fo op l)"
  by (cases op) (auto simp: load_plugin_ok discover_plugins_def discover_dirs_ok unload_plugin_ok loader_ok_factory)

text \<open>
  Whatever a loader is asked to do, every plugin it holds has been loaded, and every basic one stands under the
  id of a valid manifest for a compatible interface version.
\<close>
lemma loader_invariant: "loader_ok fo (fold (loader_step fo) ops (new_loader dirs))"
proof -
  have "loader_ok fo l \<Longrightarrow> loader_ok fo (fold (loader_step fo) ops l)" for l
    by (induction ops arbitrary: l) (auto simp: loader_step_ok)
  then show ?thesis by simp
qed

section \<open>Plugins without a specification\<close>

lemma validate_files_iff: "is_ok (validate_files exts files) \<longleftrightarrow> (\<forall>f \<in> set files. list_ex (has_suffix f) exts)"
  by (induction files) auto

text \<open>
  A plugin whose directory and manifest hold no language specification, which the loader accepts with a
  specification made up from the manifest, rejects every output: the made-up one lists no file extension.
\<close>
lemma manifest_only_plugin_rejects_output:
  assumes "load_basic yc fs (new_basic_plugin m dir) = Inr p"
    and "node_at fs (join_path dir [''language_spec.yaml'']) = None" and "gm_get (pm_metadata m) ''language_spec'' = None"
  shows "\<not> is_ok (validate_output p files)"
proof -
  have "bp_spec p = Some (manifest_spec m)"
    using assms by (auto simp: load_basic_def load_language_spec_def new_basic_plugin_def)
  then show ?thesis
    by (cases files) (simp_all add: validate_output_def manifest_spec_def)
qed

section \<open>The registry\<close>

text \<open>The registry is a map from ids to plugins: registering adds, unregistering removes.\<close>

lemma register_plugin_map:
  "fst (register_plugin pv (Some p) r) = r \<or>
   (\<exists>m. pv_manifest pv p = Some m \<and> gm_get r (pm_id m) = None \<and>
     gm_get (fst (register_plugin pv (Some p) r)) = (gm_get r)(pm_id m \<mapsto> p))"
  by (auto simp: register_plugin_def update_conv' split: option.split)

lemma unregister_register:
  assumes "pv_manifest pv p = Some m" and "gm_get r (pm_id m) = None"
  shows "unregister_plugin (pm_id m) (fst (register_plugin pv (Some p) r)) = (r, Inr ())"
proof -
  have "pm_id m \<notin> fst ` set r" using assms(2) by (simp add: map_of_eq_None_iff)
  then show ?thesis using assms
    by (force simp: unregister_plugin_def register_plugin_def gm_put_fresh gm_get_put AList.delete_eq intro!: filter_True)
qed

section \<open>Applications to concrete inputs\<close>

definition bare_manifest :: manifest where
  "bare_manifest = \<lparr>pm_id = ''rust'', pm_name = ''Rust'', pm_version = ''1.0.0'', pm_api_version = ''v1.2.0'',
     pm_description = [], pm_author = [], pm_license = [], pm_homepage = [], pm_repository = [],
     pm_type = ''language'', pm_metadata = []\<rparr>"

end
