(* ===== verification/Org_Calendar.thy ===== *)
theory Org_Calendar
  imports Spoke_Prelude
begin

text \<open>
  The calendar that \<open>initializeUsagePeriod\<close> (\<open>pkg/orgs/service.go\<close>) uses: \<open>Year\<close>, \<open>Month\<close>, \<open>time.Date\<close> and
  \<open>AddDate\<close> of package \<open>time\<close>. A time is a number of seconds since 1970 in UTC; a month is counted from
  January of the year 0. The local time zone is the offset in force, in seconds east of UTC.
\<close>

definition is_leap :: "int \<Rightarrow> bool" where
  "is_leap y \<longleftrightarrow> y mod 4 = 0 \<and> (y mod 100 \<noteq> 0 \<or> y mod 400 = 0)"

definition month_days :: "int \<Rightarrow> int" where
  "month_days k =
     (let m = k mod 12 in
      if m = 1 then (if is_leap (k div 12) then 29 else 28)
      else if m \<in> {3, 5, 8, 10} then 30 else 31)"

text \<open>Days from January 1 of year 0 to the first day of a year and of a month.\<close>

definition year_day :: "int \<Rightarrow> int" where
  "year_day y = 365 * y + (y + 3) div 4 - (y + 99) div 100 + (y + 399) div 400"

definition days_before :: "int \<Rightarrow> int \<Rightarrow> int" where
  "days_before y m = sum_list (map (\<lambda>i. month_days (12 * y + i)) [0..m - 1])"

definition month_day :: "int \<Rightarrow> int" where
  "month_day k = year_day (k div 12) + days_before (k div 12) (k mod 12)"

definition epoch_day :: int where
  "epoch_day = 719528"

text \<open>\<open>time.Date(year, month, 1, 0, 0, 0, 0, time.UTC)\<close>.\<close>

definition month_start :: "int \<Rightarrow> int" where
  "month_start k = 86400 * (month_day k - epoch_day)"

lemma month_days_bounds: "28 \<le> month_days k" "month_days k \<le> 31"
  by (auto simp: month_days_def Let_def)

lemma div_add_one:
  fixes a n :: int
  assumes "0 < n"
  shows "(a + 1) div n = a div n + (if (a + 1) mod n = 0 then 1 else 0)"
proof -
  define q r where "q = a div n" and "r = a mod n"
  have a: "a = n * q + r" "0 \<le> r" "r < n" using assms by (simp_all add: q_def r_def)
  show ?thesis
  proof (cases "r = n - 1")
    case True
    then have "a + 1 = n * (q + 1)" using a by (simp add: algebra_simps)
    then show ?thesis using assms by (simp add: q_def [symmetric])
  next
    case False
    then have r: "0 \<le> r + 1" "r + 1 < n" using a by auto
    have e: "a + 1 = (r + 1) + n * q" using a by simp
    have d: "(a + 1) div n = q" unfolding e using assms r by (simp only: div_mult_self2 div_pos_pos_trivial)
    have m: "(a + 1) mod n = r + 1" unfolding e using r by (simp only: mod_mult_self2 mod_pos_pos_trivial)
    show ?thesis unfolding d m using a by (simp add: q_def [symmetric])
  qed
qed

lemma year_day_Suc: "year_day (y + 1) = year_day y + (if is_leap y then 366 else 365)"
proof -
  have a: "(y + 1 + 3) div 4 = (y + 3) div 4 + (if y mod 4 = 0 then 1 else 0)"
    using div_add_one [of 4 "y + 3"] by (simp add: add.commute)
  have b: "(y + 1 + 99) div 100 = (y + 99) div 100 + (if y mod 100 = 0 then 1 else 0)"
    using div_add_one [of 100 "y + 99"] by (simp add: add.commute)
  have c: "(y + 1 + 399) div 400 = (y + 399) div 400 + (if y mod 400 = 0 then 1 else 0)"
    using div_add_one [of 400 "y + 399"] by (simp add: add.commute)
  define p4 p100 p400 where "p4 \<longleftrightarrow> y mod 4 = 0" and "p100 \<longleftrightarrow> y mod 100 = 0" and "p400 \<longleftrightarrow> y mod 400 = 0"
  have "y mod 100 mod 4 = y mod 4" "y mod 400 mod 100 = y mod 100" by (rule mod_mod_cancel, simp)+
  then have "p100 \<longrightarrow> p4" "p400 \<longrightarrow> p100" unfolding p4_def p100_def p400_def by (metis mod_0)+
  then have leap: "(365::int) + (if p4 then 1 else 0) - (if p100 then 1 else 0) + (if p400 then 1 else 0) =
      (if p4 \<and> (\<not> p100 \<or> p400) then 366 else 365)"
    by (cases p4; cases p100; cases p400) simp_all
  have sum: "365 * (y + 1) + (A + i) - (B + j) + (C + l) = 365 * y + A - B + C + (365 + i - j + l)"
    for A B C i j l :: int by simp
  show ?thesis
    unfolding year_day_def a b c is_leap_def p4_def [symmetric] p100_def [symmetric] p400_def [symmetric] sum leap ..
qed

lemma days_before_12: "days_before y 12 = (if is_leap y then 366 else 365)"
proof -
  have "month_days (12 * y + i) = (if i = 1 then if is_leap y then 29 else 28 else if i \<in> {3, 5, 8, 10} then 30 else 31)"
    if "0 \<le> i" "i < 12" for i
    using that by (simp add: month_days_def Let_def)
  note days = this
  have "month_days (12 * y) = 31" using days [of 0] by simp
  moreover have "[0..11] = [0, 1, 2, 3, 4, 5, 6, 7, 8, 9, 10, 11::int]" by (simp add: upto.simps)
  ultimately show ?thesis using days by (simp add: days_before_def)
qed

lemma days_before_Suc: "0 \<le> m \<Longrightarrow> days_before y (m + 1) = days_before y m + month_days (12 * y + m)"
  using upto_rec2 [of 0 m] by (simp add: days_before_def)

lemma month_day_Suc: "month_day (k + 1) = month_day k + month_days k"
proof -
  define y m where "y = k div 12" and "m = k mod 12"
  have k: "k = 12 * y + m" "0 \<le> m" "m < 12" by (simp_all add: y_def m_def)
  have step: "days_before y (m + 1) = days_before y m + month_days k"
    using days_before_Suc k by simp
  have day: "month_day k = year_day y + days_before y m" by (simp add: month_day_def y_def m_def)
  show ?thesis
  proof (cases "m = 11")
    case True
    have e: "k + 1 = 12 * (y + 1)" using k True by simp
    have "month_day (k + 1) = year_day (y + 1)" unfolding month_day_def e by (simp add: days_before_def)
    also have "\<dots> = year_day y + days_before y 12" unfolding year_day_Suc days_before_12 by simp
    also have "\<dots> = month_day k + month_days k" unfolding day using step True by simp
    finally show ?thesis .
  next
    case False
    then have r: "0 \<le> m + 1" "m + 1 < 12" using k by auto
    have e: "k + 1 = (m + 1) + 12 * y" using k by simp
    have "(k + 1) div 12 = y" unfolding e using r by (simp only: div_mult_self2 div_pos_pos_trivial)
    moreover have "(k + 1) mod 12 = m + 1" unfolding e using r by (simp only: mod_mult_self2 mod_pos_pos_trivial)
    ultimately show ?thesis using step day by (simp add: month_day_def)
  qed
qed

lemma month_start_Suc: "month_start (k + 1) = month_start k + 86400 * month_days k"
  unfolding month_start_def month_day_Suc by (simp add: algebra_simps)

text \<open>Months are at least 28 days apart, so the month of a time is found by walking from any month.\<close>

lemma month_start_add: "86400 * 28 * int n \<le> month_start (k + int n) - month_start k"
proof (induction n)
  case (Suc n)
  then show ?case using month_start_Suc [of "k + int n"] month_days_bounds(1) [of "k + int n"] by (simp add: add_ac)
qed simp

lemma month_start_mono: "j < k \<Longrightarrow> month_start j + 86400 * 28 * (k - j) \<le> month_start k"
  using month_start_add [of "nat (k - j)" j] by simp

function month_from :: "int \<Rightarrow> int \<Rightarrow> int" where
  "month_from t k = (if month_start (k + 1) \<le> t then month_from t (k + 1)
     else if t < month_start k then month_from t (k - 1) else k)"
  by pat_completeness auto
termination month_from
proof (relation "measure (\<lambda>(t, k). if month_start k \<le> t then nat (t - month_start k) else nat (month_start k - t + 86400 * 31))")
  fix t k
  assume "month_start (k + 1) \<le> t"
  then show "((t, k + 1), (t, k)) \<in> measure (\<lambda>(t, k). if month_start k \<le> t then nat (t - month_start k) else nat (month_start k - t + 86400 * 31))"
    using month_start_Suc [of k] month_days_bounds [of k] by auto
next
  fix t k
  assume "\<not> month_start (k + 1) \<le> t" and t: "t < month_start k"
  then show "((t, k - 1), (t, k)) \<in> measure (\<lambda>(t, k). if month_start k \<le> t then nat (t - month_start k) else nat (month_start k - t + 86400 * 31))"
    using month_start_Suc [of "k - 1"] month_days_bounds [of "k - 1"] by auto
qed simp

declare month_from.simps [simp del]

definition month_of :: "int \<Rightarrow> int" where
  "month_of t = month_from t (23640 + t div 2629746)"

lemma month_from_bounds: "month_start (month_from t k) \<le> t \<and> t < month_start (month_from t k + 1)"
proof (induction t k rule: month_from.induct)
  case (1 t k)
  then show ?case by (subst (1 2) month_from.simps) auto
qed

lemma month_of_bounds: "month_start (month_of t) \<le> t" "t < month_start (month_of t + 1)"
  using month_from_bounds by (auto simp: month_of_def)

lemma month_of_unique: "month_start k \<le> t \<Longrightarrow> t < month_start (k + 1) \<Longrightarrow> month_of t = k"
proof (rule ccontr)
  assume k: "month_start k \<le> t" "t < month_start (k + 1)" and "month_of t \<noteq> k"
  then consider "month_of t < k" | "k < month_of t" by linarith
  then show False
  proof cases
    case 1
    then have "month_start (month_of t + 1) \<le> month_start k"
      using month_start_mono [of "month_of t + 1" k] by (cases "month_of t + 1 = k") auto
    then show False using k month_of_bounds(2) [of t] by linarith
  next
    case 2
    then have "month_start (k + 1) \<le> month_start (month_of t)"
      using month_start_mono [of "k + 1" "month_of t"] by (cases "k + 1 = month_of t") auto
    then show False using k month_of_bounds(1) [of t] by linarith
  qed
qed

end
