(* ===== verification/Org_Service.thy ===== *)
theory Org_Service
  imports Org_Calendar
begin

text \<open>
  Organizations, their quotas and usage, members and invitations (\<open>pkg/orgs\<close>). The database is a record of the
  tables that \<open>migrations\<close> 002 and 005 create, with their uniqueness and foreign-key constraints; a query is the
  filter and order its SQL states. It answers every query, its clock is the program's, generated ids come from one
  counter, and settings are kept as JSON text. A call that does not return is \<open>None\<close>: time stands still in it.
\<close>

section \<open>Tables\<close>

record organization =
  og_id :: int
  og_name :: string
  og_slug :: string
  og_display_name :: string
  og_description :: string
  og_owner :: "int option"
  og_tier :: string
  og_status :: string
  og_active :: bool
  og_settings :: string
  og_created :: int
  og_updated :: int

record org_quotas =
  oq_id :: int
  oq_org :: int
  oq_max_modules :: int
  oq_max_versions :: int
  oq_max_storage :: int
  oq_max_jobs :: int
  oq_rate_limit :: int
  oq_custom :: string
  oq_created :: int
  oq_updated :: int

record org_usage =
  ou_id :: int
  ou_org :: int
  ou_start :: int
  ou_end :: int
  ou_modules :: int
  ou_versions :: int
  ou_storage :: int
  ou_jobs :: int
  ou_requests :: int
  ou_created :: int
  ou_updated :: int

record member_row =
  mr_id :: int
  mr_org :: int
  mr_user :: int
  mr_role :: string
  mr_invited_by :: "int option"
  mr_joined :: int
  mr_created :: int

record user_row =
  us_id :: int
  us_username :: string
  us_email :: "string option"
  us_full_name :: "string option"
  us_is_bot :: bool
  us_active :: bool

record org_member =
  ob_row :: member_row
  ob_username :: string
  ob_email :: string
  ob_full_name :: string
  ob_is_bot :: bool

record org_invitation =
  in_id :: int
  in_org :: int
  in_email :: string
  in_role :: string
  in_token :: string
  in_invited_by :: int
  in_invited_at :: int
  in_expires_at :: int
  in_accepted_at :: "int option"
  in_accepted_by :: "int option"

record org_db =
  od_orgs :: "organization list"
  od_quotas :: "org_quotas list"
  od_usage :: "org_usage list"
  od_members :: "member_row list"
  od_users :: "user_row list"
  od_invitations :: "org_invitation list"
  od_modules :: "(int \<times> int \<times> string) list" \<comment> \<open>id, organization, name\<close>
  od_versions :: "int list" \<comment> \<open>the module of each version\<close>
  od_audit :: "(int option \<times> int) list" \<comment> \<open>organization and time\<close>
  od_seq :: int

record org_clock =
  oc_now :: int
  oc_zone :: int

datatype org_error = Org_Text string | Org_Wrap string org_error | Sql_Constraint | Quota_Exceeded string int int

definition is_quota_exceeded :: "org_error \<Rightarrow> bool" where
  "is_quota_exceeded e = (case e of Quota_Exceeded _ _ _ \<Rightarrow> True | _ \<Rightarrow> False)"

definition has_org :: "org_db \<Rightarrow> int \<Rightarrow> bool" where
  "has_org db i = list_ex (\<lambda>g. og_id g = i) (od_orgs db)"

definition has_user :: "org_db \<Rightarrow> int \<Rightarrow> bool" where
  "has_user db i = list_ex (\<lambda>u. us_id u = i) (od_users db)"

definition take_id :: "org_db \<Rightarrow> int \<times> org_db" where
  "take_id db = (od_seq db, db\<lparr>od_seq := od_seq db + 1\<rparr>)"

section \<open>Usage periods\<close>

definition period_start :: "org_clock \<Rightarrow> int" where
  "period_start ck = month_start (month_of (oc_now ck + oc_zone ck))"

definition period_end :: "org_clock \<Rightarrow> int" where
  "period_end ck = month_start (month_of (oc_now ck + oc_zone ck) + 1)"

definition initialize_usage_period :: "org_clock \<Rightarrow> int \<Rightarrow> org_db \<Rightarrow> org_db \<times> (org_error + unit)" where
  "initialize_usage_period ck org db =
     (let (i, db) = take_id db in
      if list_ex (\<lambda>u. ou_org u = org \<and> ou_start u = period_start ck) (od_usage db) then (db, Inr ())
      else if \<not> has_org db org then (db, Inl Sql_Constraint)
      else (db\<lparr>od_usage := od_usage db @ [\<lparr>ou_id = i, ou_org = org, ou_start = period_start ck, ou_end = period_end ck,
              ou_modules = 0, ou_versions = 0, ou_storage = 0, ou_jobs = 0, ou_requests = 0,
              ou_created = oc_now ck, ou_updated = oc_now ck\<rparr>]\<rparr>, Inr ()))"

definition reset_usage_period :: "org_clock \<Rightarrow> int \<Rightarrow> org_db \<Rightarrow> org_db \<times> (org_error + unit)" where
  "reset_usage_period = initialize_usage_period"

text \<open>The rows of periods that have not ended, and of these the one that started last.\<close>

definition in_force :: "org_clock \<Rightarrow> int \<Rightarrow> org_usage \<Rightarrow> bool" where
  "in_force ck org u \<longleftrightarrow> ou_org u = org \<and> ou_end u > oc_now ck"

definition current_usage :: "org_clock \<Rightarrow> int \<Rightarrow> org_db \<Rightarrow> org_usage option" where
  "current_usage ck org db = (case sort_key (\<lambda>u. - ou_start u) (filter (in_force ck org) (od_usage db)) of
     [] \<Rightarrow> None | u # _ \<Rightarrow> Some u)"

partial_function (option) get_usage :: "org_clock \<Rightarrow> int \<Rightarrow> org_db \<Rightarrow> (org_db \<times> (org_error + org_usage)) option" where
  "get_usage ck org db = (case current_usage ck org db of
     Some u \<Rightarrow> Some (db, Inr u)
   | None \<Rightarrow> (case initialize_usage_period ck org db of
       (db', Inl e) \<Rightarrow> Some (db', Inl e)
     | (db', Inr _) \<Rightarrow> get_usage ck org db'))"

definition get_usage_history :: "int \<Rightarrow> nat \<Rightarrow> org_db \<Rightarrow> org_usage list" where
  "get_usage_history org limit db = take limit (sort_key (\<lambda>u. - ou_start u) (filter (\<lambda>u. ou_org u = org) (od_usage db)))"

text \<open>\<open>UPDATE org_usage SET ... WHERE org_id = $1 AND period_end > NOW()\<close>, and the loop of the increments around it.\<close>

definition update_usage :: "org_clock \<Rightarrow> int \<Rightarrow> (org_usage \<Rightarrow> org_usage) \<Rightarrow> org_db \<Rightarrow> org_db" where
  "update_usage ck org f db =
     db\<lparr>od_usage := map (\<lambda>u. if in_force ck org u then (f u)\<lparr>ou_updated := oc_now ck\<rparr> else u) (od_usage db)\<rparr>"

partial_function (option) increment_usage ::
    "org_clock \<Rightarrow> int \<Rightarrow> (org_usage \<Rightarrow> org_usage) \<Rightarrow> org_db \<Rightarrow> (org_db \<times> (org_error + unit)) option" where
  "increment_usage ck org f db =
     (if list_ex (in_force ck org) (od_usage db) then Some (update_usage ck org f db, Inr ())
      else (case initialize_usage_period ck org db of
        (db', Inl e) \<Rightarrow> Some (db', Inl e)
      | (db', Inr _) \<Rightarrow> increment_usage ck org f db'))"

definition increment_modules where
  "increment_modules ck org = increment_usage ck org (\<lambda>u. u\<lparr>ou_modules := ou_modules u + 1\<rparr>)"

definition increment_versions where
  "increment_versions ck org = increment_usage ck org (\<lambda>u. u\<lparr>ou_versions := ou_versions u + 1\<rparr>)"

definition increment_storage where
  "increment_storage ck org bytes = increment_usage ck org (\<lambda>u. u\<lparr>ou_storage := ou_storage u + bytes\<rparr>)"

definition increment_compile_jobs where
  "increment_compile_jobs ck org = increment_usage ck org (\<lambda>u. u\<lparr>ou_jobs := ou_jobs u + 1\<rparr>)"

definition increment_api_requests where
  "increment_api_requests ck org = increment_usage ck org (\<lambda>u. u\<lparr>ou_requests := ou_requests u + 1\<rparr>)"

definition decrement_modules :: "org_clock \<Rightarrow> int \<Rightarrow> org_db \<Rightarrow> org_db" where
  "decrement_modules ck org = update_usage ck org (\<lambda>u. u\<lparr>ou_modules := max (ou_modules u - 1) 0\<rparr>)"

definition decrement_versions :: "org_clock \<Rightarrow> int \<Rightarrow> org_db \<Rightarrow> org_db" where
  "decrement_versions ck org = update_usage ck org (\<lambda>u. u\<lparr>ou_versions := max (ou_versions u - 1) 0\<rparr>)"

definition decrement_storage :: "org_clock \<Rightarrow> int \<Rightarrow> int \<Rightarrow> org_db \<Rightarrow> org_db" where
  "decrement_storage ck org bytes = update_usage ck org (\<lambda>u. u\<lparr>ou_storage := max (ou_storage u - bytes) 0\<rparr>)"

section \<open>Quotas\<close>

definition get_quotas :: "int \<Rightarrow> org_db \<Rightarrow> org_error + org_quotas" where
  "get_quotas org db = (case find (\<lambda>q. oq_org q = org) (od_quotas db) of
     None \<Rightarrow> Inl (Org_Text ''quotas not found'') | Some q \<Rightarrow> Inr q)"

definition update_quotas :: "org_clock \<Rightarrow> int \<Rightarrow> org_quotas \<Rightarrow> org_db \<Rightarrow> org_db \<times> (org_error + unit)" where
  "update_quotas ck org new db =
     (if \<not> list_ex (\<lambda>q. oq_org q = org) (od_quotas db) then (db, Inl (Org_Text ''quotas not found''))
      else (db\<lparr>od_quotas := map (\<lambda>q. if oq_org q = org then q\<lparr>oq_max_modules := oq_max_modules new,
              oq_max_versions := oq_max_versions new, oq_max_storage := oq_max_storage new, oq_max_jobs := oq_max_jobs new,
              oq_rate_limit := oq_rate_limit new, oq_updated := oc_now ck\<rparr> else q) (od_quotas db)\<rparr>, Inr ()))"

definition quota_row :: "int \<Rightarrow> int \<Rightarrow> int \<Rightarrow> int \<Rightarrow> int \<Rightarrow> org_quotas" where
  "quota_row modules versions storage jobs rate = \<lparr>oq_id = 0, oq_org = 0, oq_max_modules = modules,
     oq_max_versions = versions, oq_max_storage = storage, oq_max_jobs = jobs, oq_rate_limit = rate,
     oq_custom = ''null'', oq_created = 0, oq_updated = 0\<rparr>"

definition get_default_quotas :: "string \<Rightarrow> org_quotas" where
  "get_default_quotas tier =
     (if tier = ''small'' then quota_row 10 100 (5 * 1024 * 1024 * 1024) 5000 5000
      else if tier = ''medium'' then quota_row 50 500 (25 * 1024 * 1024 * 1024) 25000 25000
      else if tier = ''large'' then quota_row 200 2000 (100 * 1024 * 1024 * 1024) 100000 100000
      else if tier = ''unlimited'' then quota_row 999999 999999 (999999 * 1024 * 1024 * 1024) 999999999 999999999
      else quota_row 10 100 (5 * 1024 * 1024 * 1024) 5000 5000)"

text \<open>The checks that read the current usage share their beginning.\<close>

definition check_usage :: "org_clock \<Rightarrow> int \<Rightarrow> (org_quotas \<Rightarrow> org_usage \<Rightarrow> org_error + unit) \<Rightarrow> org_db \<Rightarrow>
    (org_db \<times> (org_error + unit)) option" where
  "check_usage ck org decide db = (case get_quotas org db of
     Inl e \<Rightarrow> Some (db, Inl (Org_Wrap ''failed to get quotas'' e))
   | Inr q \<Rightarrow> Option.bind (get_usage ck org db) (\<lambda>(db, r). Some (db, case r of
       Inl e \<Rightarrow> Inl (Org_Wrap ''failed to get usage'' e) | Inr u \<Rightarrow> decide q u)))"

definition check_module_quota where
  "check_module_quota ck org = check_usage ck org (\<lambda>q u.
     if ou_modules u \<ge> oq_max_modules q then Inl (Quota_Exceeded ''modules'' (ou_modules u) (oq_max_modules q)) else Inr ())"

definition check_storage_quota where
  "check_storage_quota ck org additional = check_usage ck org (\<lambda>q u.
     if wrap64 (ou_storage u + additional) > oq_max_storage q
     then Inl (Quota_Exceeded ''storage'' (wrap64 (ou_storage u + additional)) (oq_max_storage q)) else Inr ())"

definition check_compile_job_quota where
  "check_compile_job_quota ck org = check_usage ck org (\<lambda>q u.
     if ou_jobs u \<ge> oq_max_jobs q then Inl (Quota_Exceeded ''compile_jobs'' (ou_jobs u) (oq_max_jobs q)) else Inr ())"

definition count_versions :: "org_db \<Rightarrow> int \<Rightarrow> string \<Rightarrow> int" where
  "count_versions db org name = int (length (concat (map (\<lambda>v.
     filter (\<lambda>(i, g, n). i = v \<and> g = org \<and> n = name) (od_modules db)) (od_versions db))))"

definition check_version_quota :: "int \<Rightarrow> string \<Rightarrow> org_db \<Rightarrow> org_error + unit" where
  "check_version_quota org name db = (case get_quotas org db of
     Inl e \<Rightarrow> Inl (Org_Wrap ''failed to get quotas'' e)
   | Inr q \<Rightarrow> if count_versions db org name \<ge> oq_max_versions q
               then Inl (Quota_Exceeded ''versions'' (count_versions db org name) (oq_max_versions q)) else Inr ())"

definition check_api_rate_limit :: "org_clock \<Rightarrow> int \<Rightarrow> org_db \<Rightarrow> org_error + unit" where
  "check_api_rate_limit ck org db = (case get_quotas org db of
     Inl e \<Rightarrow> Inl (Org_Wrap ''failed to get quotas'' e)
   | Inr q \<Rightarrow>
       (let count = int (length (filter (\<lambda>(g, t). g = Some org \<and> t > oc_now ck - 3600) (od_audit db))) in
        if count \<ge> oq_rate_limit q then Inl (Quota_Exceeded ''api_requests'' count (oq_rate_limit q)) else Inr ()))"

section \<open>Organizations\<close>

definition lower_char :: "char \<Rightarrow> char" where
  "lower_char c = (if in_range (CHR ''A'') (CHR ''Z'') c then char_of (of_char c + (32::nat)) else c)"

definition generate_slug :: "string \<Rightarrow> string" where
  "generate_slug name =
     filter (\<lambda>c. in_range (CHR ''a'') (CHR ''z'') c \<or> is_digit c \<or> c = CHR ''-'')
       (map (\<lambda>c. if c = CHR '' '' then CHR ''-'' else c) (map lower_char name))"

definition with_org_defaults :: "organization \<Rightarrow> organization" where
  "with_org_defaults g =
     (let g = (if og_slug g = [] then g\<lparr>og_slug := generate_slug (og_name g)\<rparr> else g);
          g = (if og_tier g = [] then g\<lparr>og_tier := ''small''\<rparr> else g);
          g = (if og_status g = [] then g\<lparr>og_status := ''active''\<rparr> else g)
      in g\<lparr>og_active := True\<rparr>)"

definition create_quotas :: "org_clock \<Rightarrow> org_quotas \<Rightarrow> org_db \<Rightarrow> org_db \<times> (org_error + unit)" where
  "create_quotas ck q db =
     (let (i, db) = take_id db in
      if list_ex (\<lambda>p. oq_org p = oq_org q) (od_quotas db) \<or> \<not> has_org db (oq_org q) then (db, Inl Sql_Constraint)
      else (db\<lparr>od_quotas := od_quotas db @ [q\<lparr>oq_id := i, oq_created := oc_now ck, oq_updated := oc_now ck\<rparr>]\<rparr>, Inr ()))"

definition create_organization :: "org_clock \<Rightarrow> organization \<Rightarrow> org_db \<Rightarrow> org_db \<times> (org_error + organization)" where
  "create_organization ck g db =
     (let g = with_org_defaults g; (i, db) = take_id db in
      if list_ex (\<lambda>h. og_name h = og_name g \<or> og_slug h = og_slug g) (od_orgs db) \<or>
         (case og_owner g of None \<Rightarrow> False | Some owner \<Rightarrow> \<not> has_user db owner)
      then (db, Inl (Org_Wrap ''failed to create organization'' Sql_Constraint))
      else
        (let g = g\<lparr>og_id := i, og_created := oc_now ck, og_updated := oc_now ck\<rparr>;
             db = db\<lparr>od_orgs := od_orgs db @ [g]\<rparr> in
         case create_quotas ck ((get_default_quotas (og_tier g))\<lparr>oq_org := i\<rparr>) db of
           (db, Inl e) \<Rightarrow> (db, Inl (Org_Wrap ''failed to create quotas'' e))
         | (db, Inr _) \<Rightarrow> (case initialize_usage_period ck i db of
             (db, Inl e) \<Rightarrow> (db, Inl (Org_Wrap ''failed to initialize usage'' e))
           | (db, Inr _) \<Rightarrow> (db, Inr g))))"

definition get_organization :: "int \<Rightarrow> org_db \<Rightarrow> org_error + organization" where
  "get_organization i db = (case find (\<lambda>g. og_id g = i) (od_orgs db) of
     None \<Rightarrow> Inl (Org_Text ''organization not found'') | Some g \<Rightarrow> Inr g)"

definition get_organization_by_slug :: "string \<Rightarrow> org_db \<Rightarrow> org_error + organization" where
  "get_organization_by_slug slug db = (case find (\<lambda>g. og_slug g = slug) (od_orgs db) of
     None \<Rightarrow> Inl (Org_Text ''organization not found'') | Some g \<Rightarrow> Inr g)"

definition list_organizations :: "int \<Rightarrow> org_db \<Rightarrow> organization list" where
  "list_organizations user db = sort_key (\<lambda>g. - og_created g)
     (filter (\<lambda>g. og_active g \<and> list_ex (\<lambda>r. mr_org r = og_id g \<and> mr_user r = user) (od_members db)) (od_orgs db))"

record update_org_request =
  ur_display_name :: "string option"
  ur_description :: "string option"
  ur_settings :: "string option"

definition or_keep :: "'a option \<Rightarrow> 'a \<Rightarrow> 'a" where
  "or_keep x y = (case x of None \<Rightarrow> y | Some z \<Rightarrow> z)"

definition update_organization :: "org_clock \<Rightarrow> int \<Rightarrow> update_org_request \<Rightarrow> org_db \<Rightarrow> org_db \<times> (org_error + unit)" where
  "update_organization ck i r db =
     (if ur_display_name r = None \<and> ur_description r = None \<and> ur_settings r = None then (db, Inr ())
      else if \<not> has_org db i then (db, Inl (Org_Text ''organization not found''))
      else (db\<lparr>od_orgs := map (\<lambda>g. if og_id g = i then g\<lparr>og_display_name := or_keep (ur_display_name r) (og_display_name g),
              og_description := or_keep (ur_description r) (og_description g),
              og_settings := or_keep (ur_settings r) (og_settings g), og_updated := oc_now ck\<rparr> else g) (od_orgs db)\<rparr>, Inr ()))"

definition delete_organization :: "org_clock \<Rightarrow> int \<Rightarrow> org_db \<Rightarrow> org_db \<times> (org_error + unit)" where
  "delete_organization ck i db =
     (if \<not> has_org db i then (db, Inl (Org_Text ''organization not found''))
      else (db\<lparr>od_orgs := map (\<lambda>g. if og_id g = i then g\<lparr>og_status := ''deleted'', og_active := False,
              og_updated := oc_now ck\<rparr> else g) (od_orgs db)\<rparr>, Inr ()))"

section \<open>Members\<close>

text \<open>\<open>org_members_view\<close>: the member rows of active users, with the users' details.\<close>

definition members_view :: "org_db \<Rightarrow> org_member list" where
  "members_view db = concat (map (\<lambda>r. map (\<lambda>u. \<lparr>ob_row = r, ob_username = us_username u,
       ob_email = or_keep (us_email u) [], ob_full_name = or_keep (us_full_name u) [], ob_is_bot = us_is_bot u\<rparr>)
     (filter (\<lambda>u. us_id u = mr_user r \<and> us_active u) (od_users db))) (od_members db))"

definition list_members :: "int \<Rightarrow> org_db \<Rightarrow> org_member list" where
  "list_members org db = sort_key (\<lambda>b. mr_created (ob_row b)) (filter (\<lambda>b. mr_org (ob_row b) = org) (members_view db))"

definition get_member :: "int \<Rightarrow> int \<Rightarrow> org_db \<Rightarrow> org_error + org_member" where
  "get_member org user db = (case find (\<lambda>b. mr_org (ob_row b) = org \<and> mr_user (ob_row b) = user) (members_view db) of
     None \<Rightarrow> Inl (Org_Text ''member not found'') | Some b \<Rightarrow> Inr b)"

definition is_member :: "int \<Rightarrow> int \<Rightarrow> org_db \<Rightarrow> bool" where
  "is_member org user db = list_ex (\<lambda>r. mr_org r = org \<and> mr_user r = user) (od_members db)"

text \<open>\<open>INSERT INTO organization_members ... ON CONFLICT DO NOTHING\<close>.\<close>

definition insert_member :: "org_clock \<Rightarrow> int \<Rightarrow> int \<Rightarrow> string \<Rightarrow> int option \<Rightarrow> org_db \<Rightarrow> org_db \<times> (org_error + bool)" where
  "insert_member ck org user role invited_by db =
     (let (i, db) = take_id db in
      if is_member org user db then (db, Inr False)
      else if \<not> has_org db org \<or> \<not> has_user db user \<or> (case invited_by of None \<Rightarrow> False | Some b \<Rightarrow> \<not> has_user db b)
        then (db, Inl Sql_Constraint)
      else (db\<lparr>od_members := od_members db @ [\<lparr>mr_id = i, mr_org = org, mr_user = user, mr_role = role,
              mr_invited_by = invited_by, mr_joined = oc_now ck, mr_created = oc_now ck\<rparr>]\<rparr>, Inr True))"

definition add_member :: "org_clock \<Rightarrow> int \<Rightarrow> int \<Rightarrow> string \<Rightarrow> int option \<Rightarrow> org_db \<Rightarrow> org_db \<times> (org_error + unit)" where
  "add_member ck org user role invited_by db = (case insert_member ck org user role invited_by db of
     (db, Inl e) \<Rightarrow> (db, Inl (Org_Wrap ''failed to add member'' e))
   | (db, Inr inserted) \<Rightarrow> (db, if inserted then Inr () else Inl (Org_Text ''member already exists'')))"

definition update_member_role :: "int \<Rightarrow> int \<Rightarrow> string \<Rightarrow> org_db \<Rightarrow> org_db \<times> (org_error + unit)" where
  "update_member_role org user role db =
     (if \<not> is_member org user db then (db, Inl (Org_Text ''member not found''))
      else (db\<lparr>od_members := map (\<lambda>r. if mr_org r = org \<and> mr_user r = user then r\<lparr>mr_role := role\<rparr> else r) (od_members db)\<rparr>,
            Inr ()))"

definition remove_member :: "int \<Rightarrow> int \<Rightarrow> org_db \<Rightarrow> org_db \<times> (org_error + unit)" where
  "remove_member org user db =
     (if \<not> is_member org user db then (db, Inl (Org_Text ''member not found''))
      else (db\<lparr>od_members := filter (\<lambda>r. \<not> (mr_org r = org \<and> mr_user r = user)) (od_members db)\<rparr>, Inr ()))"

section \<open>Invitations\<close>

record invitation_request =
  ir_org :: int
  ir_email :: string
  ir_role :: string
  ir_invited_by :: int
  ir_invited_at :: "int option"
  ir_expires_at :: "int option"

text \<open>
  \<open>CreateInvitation\<close>, given the random token: a second invitation of an address changes the row of the first. The
  caller gets the invitation as asked for, with the id of the row.
\<close>

definition create_invitation :: "org_clock \<Rightarrow> string \<Rightarrow> invitation_request \<Rightarrow> org_db \<Rightarrow>
    org_db \<times> (org_error + org_invitation)" where
  "create_invitation ck token r db =
     (let (i, db) = take_id db;
          v = \<lparr>in_id = i, in_org = ir_org r, in_email = ir_email r, in_role = ir_role r, in_token = token,
               in_invited_by = ir_invited_by r, in_invited_at = or_keep (ir_invited_at r) (oc_now ck),
               in_expires_at = or_keep (ir_expires_at r) (oc_now ck + 7 * 24 * 3600),
               in_accepted_at = None, in_accepted_by = None\<rparr> in
      case find (\<lambda>w. in_org w = ir_org r \<and> in_email w = ir_email r) (od_invitations db) of
        None \<Rightarrow>
          if list_ex (\<lambda>w. in_token w = token) (od_invitations db) \<or> \<not> has_org db (ir_org r) \<or> \<not> has_user db (ir_invited_by r)
          then (db, Inl (Org_Wrap ''failed to create invitation'' Sql_Constraint))
          else (db\<lparr>od_invitations := od_invitations db @ [v]\<rparr>, Inr v)
      | Some old \<Rightarrow>
          if list_ex (\<lambda>w. in_token w = token \<and> in_id w \<noteq> in_id old) (od_invitations db)
          then (db, Inl (Org_Wrap ''failed to create invitation'' Sql_Constraint))
          else (db\<lparr>od_invitations := map (\<lambda>w. if in_org w = ir_org r \<and> in_email w = ir_email r
              then w\<lparr>in_token := token, in_invited_at := in_invited_at v, in_expires_at := in_expires_at v\<rparr> else w)
              (od_invitations db)\<rparr>, Inr (v\<lparr>in_id := in_id old\<rparr>)))"

definition get_invitation :: "string \<Rightarrow> org_db \<Rightarrow> org_error + org_invitation" where
  "get_invitation token db = (case find (\<lambda>w. in_token w = token) (od_invitations db) of
     None \<Rightarrow> Inl (Org_Text ''invitation not found'') | Some w \<Rightarrow> Inr w)"

definition list_invitations :: "int \<Rightarrow> org_db \<Rightarrow> org_invitation list" where
  "list_invitations org db =
     sort_key (\<lambda>w. - in_invited_at w) (filter (\<lambda>w. in_org w = org \<and> in_accepted_at w = None) (od_invitations db))"

text \<open>A transaction: whatever fails leaves the tables as they were.\<close>

definition accept_invitation :: "org_clock \<Rightarrow> string \<Rightarrow> int \<Rightarrow> org_db \<Rightarrow> org_db \<times> (org_error + unit)" where
  "accept_invitation ck token user db = (case find (\<lambda>w. in_token w = token) (od_invitations db) of
     None \<Rightarrow> (db, Inl (Org_Text ''invitation not found''))
   | Some w \<Rightarrow>
       if in_accepted_at w \<noteq> None then (db, Inl (Org_Text ''invitation already accepted''))
       else if oc_now ck > in_expires_at w then (db, Inl (Org_Text ''invitation expired''))
       else (case insert_member ck (in_org w) user (in_role w) None db of
         (db', Inl e) \<Rightarrow> (db, Inl (Org_Wrap ''failed to add member'' e))
       | (db', Inr _) \<Rightarrow>
           if \<not> has_user db user then (db, Inl (Org_Wrap ''failed to update invitation'' Sql_Constraint))
           else (db'\<lparr>od_invitations := map (\<lambda>x. if in_id x = in_id w
                 then x\<lparr>in_accepted_at := Some (oc_now ck), in_accepted_by := Some user\<rparr> else x) (od_invitations db')\<rparr>, Inr ())))"

definition revoke_invitation :: "int \<Rightarrow> org_db \<Rightarrow> org_db \<times> (org_error + unit)" where
  "revoke_invitation i db =
     (let gone = (\<lambda>w. in_id w = i \<and> in_accepted_at w = None) in
      if \<not> list_ex gone (od_invitations db) then (db, Inl (Org_Text ''invitation not found or already accepted''))
      else (db\<lparr>od_invitations := filter (\<lambda>w. \<not> gone w) (od_invitations db)\<rparr>, Inr ()))"

definition cleanup_expired_invitations :: "org_clock \<Rightarrow> org_db \<Rightarrow> org_db" where
  "cleanup_expired_invitations ck db =
     db\<lparr>od_invitations := filter (\<lambda>w. \<not> (in_expires_at w < oc_now ck \<and> in_accepted_at w = None)) (od_invitations db)\<rparr>"

end
