(* ===== verification/Org_Props.thy ===== *)
theory Org_Props
  imports Org_Service
begin

text \<open>The constraints every operation keeps, when reading the usage returns, and what quotas and invitations mean.\<close>

section \<open>The tables\<close>

definition usage_key :: "org_usage \<Rightarrow> int \<times> int" where
  "usage_key u = (ou_org u, ou_start u)"

definition member_key :: "member_row \<Rightarrow> int \<times> int" where
  "member_key r = (mr_org r, mr_user r)"

definition invitation_key :: "org_invitation \<Rightarrow> int \<times> string" where
  "invitation_key w = (in_org w, in_email w)"

definition month_long :: "org_usage \<Rightarrow> bool" where
  "month_long u \<longleftrightarrow> ou_end u = month_start (month_of (ou_start u) + 1)"

definition orgs_ok :: "org_db \<Rightarrow> bool" where
  "orgs_ok db \<longleftrightarrow> distinct (map og_id (od_orgs db)) \<and> distinct (map og_name (od_orgs db)) \<and>
     distinct (map og_slug (od_orgs db)) \<and> list_all (\<lambda>g. og_id g < od_seq db) (od_orgs db)"

definition usage_ok :: "org_db \<Rightarrow> bool" where
  "usage_ok db \<longleftrightarrow> distinct (map usage_key (od_usage db)) \<and> list_all (\<lambda>u. has_org db (ou_org u) \<and> month_long u) (od_usage db)"

definition invitations_ok :: "org_db \<Rightarrow> bool" where
  "invitations_ok db \<longleftrightarrow> distinct (map in_id (od_invitations db)) \<and> list_all (\<lambda>w. in_id w < od_seq db) (od_invitations db) \<and>
     distinct (map invitation_key (od_invitations db)) \<and> distinct (map in_token (od_invitations db))"

definition org_ok :: "org_db \<Rightarrow> bool" where
  "org_ok db \<longleftrightarrow> orgs_ok db \<and> usage_ok db \<and> invitations_ok db \<and> distinct (map oq_org (od_quotas db)) \<and>
     distinct (map member_key (od_members db))"

lemmas org_tables = org_ok_def orgs_ok_def usage_ok_def invitations_ok_def has_org_def

text \<open>Updating rows without their key, and keeping some of them.\<close>

lemma map_key_update: "(\<And>x. key (f x) = key x) \<Longrightarrow> map (key \<circ> (\<lambda>x. if c x then f x else x)) xs = map key xs"
  by simp

lemma list_all_update: "(\<And>x. P x \<Longrightarrow> P (f x)) \<Longrightarrow> list_all P xs \<Longrightarrow> list_all P (map (\<lambda>x. if c x then f x else x) xs)"
  by (auto simp: list_all_iff)

lemma list_all_less: "list_all (\<lambda>x. key x < s) xs \<Longrightarrow> list_all (\<lambda>x. key x \<le> s) (xs :: 'a list)" for key :: "'a \<Rightarrow> int"
  by (auto simp: list_all_iff)

lemma key_below: "list_all (\<lambda>x. key x < s) xs \<Longrightarrow> s \<notin> key ` set xs" for key :: "'a \<Rightarrow> int"
  by (auto simp: list_all_iff)

lemma org_ok_take_id: "org_ok db \<Longrightarrow> org_ok (db\<lparr>od_seq := od_seq db + 1\<rparr>)"
  by (auto simp: org_tables list_all_less)

lemma month_of_start: "month_of (month_start k) = k"
  using month_start_Suc [of k] month_days_bounds(1) [of k] by (intro month_of_unique) auto

lemma org_ok_initialize: "org_ok db \<Longrightarrow> org_ok (fst (initialize_usage_period ck org db))"
  using org_ok_take_id [of db]
  by (auto simp: initialize_usage_period_def take_id_def Let_def)
    (auto simp: org_tables usage_key_def month_long_def period_start_def period_end_def month_of_start list_ex_iff)

lemma distinct_map_key: "(\<And>x. key (f x) = key x) \<Longrightarrow> distinct (map key (map f xs)) = distinct (map key xs)"
  by (simp add: comp_def)

lemma org_ok_map_usage:
  assumes "org_ok db" and g: "\<And>u. ou_org (g u) = ou_org u \<and> ou_start (g u) = ou_start u \<and> ou_end (g u) = ou_end u"
  shows "org_ok (db\<lparr>od_usage := map g (od_usage db)\<rparr>)"
proof -
  have "distinct (map usage_key (map g us)) = distinct (map usage_key us)" for us
    using g by (intro distinct_map_key) (simp add: usage_key_def)
  moreover have "month_long (g u) = month_long u" for u using g by (simp add: month_long_def)
  ultimately show ?thesis using assms by (simp add: org_tables list_all_iff)
qed

lemma org_ok_update_usage:
  assumes "org_ok db" and "\<And>u. ou_org (f u) = ou_org u \<and> ou_start (f u) = ou_start u \<and> ou_end (f u) = ou_end u"
  shows "org_ok (update_usage ck org f db)"
  unfolding update_usage_def by (rule org_ok_map_usage [OF assms(1)]) (use assms(2) in auto)

lemma org_ok_quotas: "org_ok db \<Longrightarrow> org_ok (fst (update_quotas ck org q db))"
  by (auto simp: update_quotas_def org_tables map_key_update)

lemma org_ok_create_organization:
  assumes "org_ok db"
  shows "org_ok (fst (create_organization ck g db))"
proof -
  define h where "h = (with_org_defaults g)\<lparr>og_id := od_seq db, og_created := oc_now ck, og_updated := oc_now ck\<rparr>"
  define db1 where "db1 = db\<lparr>od_seq := od_seq db + 1, od_orgs := od_orgs db @ [h]\<rparr>"
  have base: "org_ok (db\<lparr>od_seq := od_seq db + 1\<rparr>)" using assms by (rule org_ok_take_id)
  show ?thesis
  proof (cases "list_ex (\<lambda>x. og_name x = og_name h \<or> og_slug x = og_slug h) (od_orgs db)")
    case True
    then show ?thesis using base by (simp add: create_organization_def take_id_def Let_def h_def)
  next
    case False
    then have "og_name h \<notin> og_name ` set (od_orgs db)" "og_slug h \<notin> og_slug ` set (od_orgs db)"
      by (auto simp: list_ex_iff)
    moreover have "od_seq db \<notin> og_id ` set (od_orgs db)"
      using assms by (intro key_below) (simp add: org_tables)
    ultimately have "org_ok db1"
      using assms by (auto simp: db1_def org_tables list_all_less h_def list_all_iff list_ex_iff)
    then have "org_ok (fst (create_quotas ck q db1))" for q
      using org_ok_take_id [of db1] by (auto simp: create_quotas_def take_id_def Let_def) (auto simp: org_tables list_ex_iff)
    moreover obtain db2 r2 where 2: "create_quotas ck ((get_default_quotas (og_tier h))\<lparr>oq_org := od_seq db\<rparr>) db1 = (db2, r2)"
      by fastforce
    moreover obtain db3 r3 where 3: "initialize_usage_period ck (od_seq db) db2 = (db3, r3)" by fastforce
    ultimately have "org_ok db2" "org_ok db3" using org_ok_initialize by (metis fst_conv)+
    moreover have "fst (create_organization ck g db) \<in> {db\<lparr>od_seq := od_seq db + 1\<rparr>, db2, db3}"
      using 2 3 by (cases r2; cases r3) (simp_all add: create_organization_def take_id_def Let_def h_def db1_def)
    ultimately show ?thesis using base by auto
  qed
qed

lemma org_ok_map_orgs:
  assumes "org_ok db" and g: "\<And>x. og_id (g x) = og_id x \<and> og_name (g x) = og_name x \<and> og_slug (g x) = og_slug x"
  shows "org_ok (db\<lparr>od_orgs := map g (od_orgs db)\<rparr>)"
  using assms by (simp add: org_tables list_all_iff list_ex_iff distinct_map_key del: map_map)

lemma org_ok_insert_member: "org_ok db \<Longrightarrow> org_ok (fst (insert_member ck org user role by db))"
  using org_ok_take_id [of db]
  by (auto simp: insert_member_def take_id_def Let_def is_member_def split: option.splits)
    (auto simp: org_tables member_key_def list_ex_iff)

lemma org_ok_map_members:
  assumes "org_ok db" and "\<And>r. mr_org (f r) = mr_org r \<and> mr_user (f r) = mr_user r"
  shows "org_ok (db\<lparr>od_members := map f (od_members db)\<rparr>)"
proof -
  have "distinct (map member_key (map f rs)) = distinct (map member_key rs)" for rs
    using assms(2) by (intro distinct_map_key) (simp add: member_key_def)
  then show ?thesis using assms(1) by (simp add: org_tables)
qed

lemma org_ok_filter_members: "org_ok db \<Longrightarrow> org_ok (db\<lparr>od_members := filter P (od_members db)\<rparr>)"
  by (simp add: org_tables distinct_map_filter)

lemma org_ok_filter_invitations: "org_ok db \<Longrightarrow> org_ok (db\<lparr>od_invitations := filter P (od_invitations db)\<rparr>)"
  by (simp add: org_tables distinct_map_filter list_all_iff)

lemma org_ok_accept:
  assumes "org_ok db"
  shows "org_ok (fst (accept_invitation ck token user db))"
proof -
  have keep: "org_ok (d\<lparr>od_invitations := map (\<lambda>x. if in_id x = i then x\<lparr>in_accepted_at := a, in_accepted_by := b\<rparr> else x)
      (od_invitations d)\<rparr>)" if "org_ok d" for d i a b
    using that by (auto simp: org_tables list_all_iff distinct_map_key invitation_key_def simp del: map_map)
  show ?thesis
  proof (cases "find (\<lambda>w. in_token w = token) (od_invitations db)")
    case (Some w)
    obtain d r where i: "insert_member ck (in_org w) user (in_role w) None db = (d, r)" by fastforce
    then have "org_ok d" using org_ok_insert_member [OF assms] by (metis fst_conv)
    then show ?thesis using Some i assms keep by (cases r) (simp_all add: accept_invitation_def)
  qed (simp add: accept_invitation_def assms)
qed

text \<open>One row gets a value that no other row has.\<close>

lemma distinct_one_changed:
  assumes "distinct (map key ws)" and "distinct (map tok ws)" and "\<And>w. w \<in> set ws \<Longrightarrow> key w \<noteq> k \<Longrightarrow> tok w \<noteq> t"
    and "\<And>w. key w = k \<Longrightarrow> tok (f w) = t"
  shows "distinct (map tok (map (\<lambda>w. if key w = k then f w else w) ws))"
proof -
  have "inj_on (\<lambda>w. tok (if key w = k then f w else w)) (set ws)"
    using assms by (auto simp: inj_on_def distinct_map)
  then show ?thesis using assms(1) by (simp add: distinct_map comp_def)
qed

lemma org_ok_create_invitation:
  assumes ok: "org_ok db"
  shows "org_ok (fst (create_invitation ck token r db))"
proof -
  define ws where "ws = od_invitations db"
  have inv: "distinct (map in_id ws)" "list_all (\<lambda>w. in_id w < od_seq db) ws" "distinct (map invitation_key ws)"
    "distinct (map in_token ws)" using ok by (simp_all add: org_tables ws_def)
  have base: "org_ok (db\<lparr>od_seq := od_seq db + 1\<rparr>)" using ok by (rule org_ok_take_id)
  have fresh: "od_seq db \<notin> in_id ` set ws" using inv(2) by (rule key_below)
  show ?thesis
  proof (cases "find (\<lambda>w. in_org w = ir_org r \<and> in_email w = ir_email r) ws")
    case None
    then have "(ir_org r, ir_email r) \<notin> invitation_key ` set ws" by (auto simp: find_None_iff invitation_key_def)
    then show ?thesis
      using base fresh None by (auto simp: create_invitation_def take_id_def Let_def ws_def [symmetric])
        (auto simp: org_tables ws_def [symmetric] list_ex_iff invitation_key_def)
  next
    case (Some old)
    then have old: "old \<in> set ws" "in_org old = ir_org r" "in_email old = ir_email r"
      by (auto simp: find_Some_iff)
    define f where "f w = w\<lparr>in_token := token, in_invited_at := or_keep (ir_invited_at r) (oc_now ck),
      in_expires_at := or_keep (ir_expires_at r) (oc_now ck + 7 * 24 * 3600)\<rparr>" for w :: org_invitation
    define k where "k = (ir_org r, ir_email r)"
    have f: "in_id (f w) = in_id w" "invitation_key (f w) = invitation_key w" "in_token (f w) = token" for w
      by (simp_all add: f_def invitation_key_def)
    let ?ws = "map (\<lambda>w. if invitation_key w = k then f w else w) ws"
    have "org_ok (db\<lparr>od_seq := od_seq db + 1, od_invitations := ?ws\<rparr>)"
      if other: "\<not> list_ex (\<lambda>w. in_token w = token \<and> in_id w \<noteq> in_id old) ws"
    proof -
      have "in_token w \<noteq> token" if "w \<in> set ws" "invitation_key w \<noteq> k" for w
      proof -
        have "w \<noteq> old" using that old by (auto simp: k_def invitation_key_def)
        then have "in_id w \<noteq> in_id old" using inv(1) that(1) old(1) by (auto simp: distinct_map inj_on_def)
        then show ?thesis using other that(1) by (auto simp: list_ex_iff)
      qed
      then have "distinct (map in_token ?ws)" using inv(3,4) f(3) by (intro distinct_one_changed) auto
      moreover have "distinct (map in_id ?ws)" "distinct (map invitation_key ?ws)"
        using inv by (simp_all add: distinct_map_key f del: map_map)
      moreover have "list_all (\<lambda>w. in_id w < od_seq db + 1) ?ws"
        using inv(2) by (auto simp: list_all_iff f)
      ultimately show ?thesis using base by (simp add: org_tables)
    qed
    moreover have "(in_org w = ir_org r \<and> in_email w = ir_email r) = (invitation_key w = k)" for w
      by (auto simp: k_def invitation_key_def)
    ultimately show ?thesis
      using base Some by (simp add: create_invitation_def take_id_def Let_def ws_def [symmetric] f_def cong: if_cong)
  qed
qed

text \<open>The two loops that open a period when none is in force.\<close>

lemma org_ok_get_usage:
  assumes "get_usage ck org db = Some r" and "org_ok db"
  shows "org_ok (fst r)"
proof -
  have "org_ok db \<longrightarrow> org_ok (fst r)"
  proof (rule get_usage.raw_induct [OF _ assms(1), where P = "\<lambda>ck org db r. org_ok db \<longrightarrow> org_ok (fst r)"])
    fix loop ck org db r
    assume IH: "\<And>ck org db r. loop ck org db = Some r \<Longrightarrow> org_ok db \<longrightarrow> org_ok (fst r)"
      and body: "(case current_usage ck org db of Some u \<Rightarrow> Some (db, Inr u)
        | None \<Rightarrow> (case initialize_usage_period ck org db of
            (db', Inl e) \<Rightarrow> Some (db', Inl e) | (db', Inr _) \<Rightarrow> loop ck org db')) = Some r"
    obtain db' e where i: "initialize_usage_period ck org db = (db', e)" by fastforce
    show "org_ok db \<longrightarrow> org_ok (fst r)"
      using IH [of ck org db' r] body i org_ok_initialize [of db ck org] by (auto split: option.splits sum.splits)
  qed
  then show ?thesis using assms(2) by blast
qed

lemma org_ok_increment_usage:
  assumes "\<And>u. ou_org (f u) = ou_org u \<and> ou_start (f u) = ou_start u \<and> ou_end (f u) = ou_end u"
    and "increment_usage ck org f db = Some r" and "org_ok db"
  shows "org_ok (fst r)"
proof -
  have "(\<forall>u. ou_org (f u) = ou_org u \<and> ou_start (f u) = ou_start u \<and> ou_end (f u) = ou_end u) \<longrightarrow> org_ok db \<longrightarrow> org_ok (fst r)"
  proof (rule increment_usage.raw_induct [OF _ assms(2), where P = "\<lambda>ck org f db r.
      (\<forall>u. ou_org (f u) = ou_org u \<and> ou_start (f u) = ou_start u \<and> ou_end (f u) = ou_end u) \<longrightarrow> org_ok db \<longrightarrow> org_ok (fst r)"])
    fix loop ck org f db r
    assume IH: "\<And>ck org f db r. loop ck org f db = Some r \<Longrightarrow>
        (\<forall>u. ou_org (f u) = ou_org u \<and> ou_start (f u) = ou_start u \<and> ou_end (f u) = ou_end u) \<longrightarrow> org_ok db \<longrightarrow> org_ok (fst r)"
      and body: "(if list_ex (in_force ck org) (od_usage db) then Some (update_usage ck org f db, Inr ())
        else (case initialize_usage_period ck org db of
          (db', Inl e) \<Rightarrow> Some (db', Inl e) | (db', Inr _) \<Rightarrow> loop ck org f db')) = Some r"
    obtain db' e where i: "initialize_usage_period ck org db = (db', e)" by fastforce
    show "(\<forall>u. ou_org (f u) = ou_org u \<and> ou_start (f u) = ou_start u \<and> ou_end (f u) = ou_end u) \<longrightarrow> org_ok db \<longrightarrow> org_ok (fst r)"
    proof (cases "list_ex (in_force ck org) (od_usage db)")
      case True
      then show ?thesis using body org_ok_update_usage [of db f ck org] by auto
    next
      case False
      have "org_ok db \<longrightarrow> org_ok db'" using i org_ok_initialize [of db ck org] by simp
      moreover have "r = (db', Inl x)" if "e = Inl x" for x using body i that False by simp
      moreover have "loop ck org f db' = Some r" if "e = Inr x" for x using body i that False by simp
      ultimately show ?thesis using IH [of ck org f db' r] by (cases e) auto
    qed
  qed
  then show ?thesis using assms by blast
qed


section \<open>When the usage is returned\<close>

lemma sort_key_Nil_iff: "sort_key f xs = [] \<longleftrightarrow> xs = []"
  using length_sort [of f xs] by (cases "sort_key f xs"; cases xs) simp_all

lemma current_usage_None: "current_usage ck org db = None \<longleftrightarrow> (\<forall>u \<in> set (od_usage db). \<not> in_force ck org u)"
proof -
  have nil: "(case us of [] \<Rightarrow> None | u # _ \<Rightarrow> Some u) = None \<longleftrightarrow> us = []" for us :: "org_usage list" by (cases us) simp_all
  show ?thesis unfolding current_usage_def nil sort_key_Nil_iff by (simp add: filter_empty_conv)
qed

lemma initialize_cases:
  assumes "initialize_usage_period ck org db = (db', e)" and "has_org db org"
  defines "taken \<equiv> list_ex (\<lambda>u. ou_org u = org \<and> ou_start u = period_start ck) (od_usage db)"
  shows "e = Inr ()" and "has_org db' org"
    and "od_usage db' = od_usage db \<and> taken \<or> \<not> taken \<and> (\<exists>u. od_usage db' = od_usage db @ [u] \<and> ou_org u = org \<and>
      ou_start u = period_start ck \<and> ou_end u = period_end ck \<and> ou_modules u = 0)"
    and "od_modules db' = od_modules db"
proof -
  have "has_org (db\<lparr>od_seq := od_seq db + 1\<rparr>) org" using assms(2) by (simp add: has_org_def)
  then have "(db', e) = (if taken then (db\<lparr>od_seq := od_seq db + 1\<rparr>, Inr ())
      else (db\<lparr>od_seq := od_seq db + 1, od_usage := od_usage db @ [\<lparr>ou_id = od_seq db, ou_org = org, ou_start = period_start ck,
        ou_end = period_end ck, ou_modules = 0, ou_versions = 0, ou_storage = 0, ou_jobs = 0, ou_requests = 0,
        ou_created = oc_now ck, ou_updated = oc_now ck\<rparr>]\<rparr>, Inr ()))"
    using assms(1) unfolding initialize_usage_period_def take_id_def Let_def taken_def
    by (cases "list_ex (\<lambda>u. ou_org u = org \<and> ou_start u = period_start ck) (od_usage db)") simp_all
  then show "e = Inr ()" "has_org db' org" "od_modules db' = od_modules db"
    "od_usage db' = od_usage db \<and> taken \<or> \<not> taken \<and> (\<exists>u. od_usage db' = od_usage db @ [u] \<and> ou_org u = org \<and>
      ou_start u = period_start ck \<and> ou_end u = period_end ck \<and> ou_modules u = 0)"
    using assms(2) by (cases taken; simp add: has_org_def)+
qed

lemma get_usage_stuck:
  assumes "org_ok db" "has_org db org" "current_usage ck org db = None" "period_end ck \<le> oc_now ck"
  shows "get_usage ck org db = None"
proof (rule ccontr)
  let ?P = "\<lambda>ck org db. org_ok db \<and> has_org db org \<and> current_usage ck org db = None \<and> period_end ck \<le> oc_now ck"
  assume "get_usage ck org db \<noteq> None"
  then obtain r where r: "get_usage ck org db = Some r" by auto
  have "\<not> ?P ck org db"
  proof (rule get_usage.raw_induct [OF _ r, where P = "\<lambda>ck org db r. \<not> ?P ck org db"])
    fix loop ck org db r
    assume IH: "\<And>ck org db r. loop ck org db = Some r \<Longrightarrow> \<not> ?P ck org db"
      and body: "(case current_usage ck org db of Some u \<Rightarrow> Some (db, Inr u)
        | None \<Rightarrow> (case initialize_usage_period ck org db of
            (db', Inl e) \<Rightarrow> Some (db', Inl e) | (db', Inr _) \<Rightarrow> loop ck org db')) = Some r"
    show "\<not> ?P ck org db"
    proof
      assume P: "?P ck org db"
      obtain db' e where i: "initialize_usage_period ck org db = (db', e)" by fastforce
      then have "org_ok db'" using P org_ok_initialize [of db ck org] by simp
      moreover have "e = Inr ()" "has_org db' org" "current_usage ck org db' = None"
        using initialize_cases [OF i] P by (auto simp: current_usage_None in_force_def)
      ultimately have "loop ck org db' = Some r" "?P ck org db'" using body P i by simp_all
      then show False using IH by blast
    qed
  qed
  then show False using assms by blast
qed

lemma period_end_later: "oc_now ck < period_end ck \<longleftrightarrow> month_of (oc_now ck) \<le> month_of (oc_now ck + oc_zone ck)"
proof
  assume e: "oc_now ck < period_end ck"
  show "month_of (oc_now ck) \<le> month_of (oc_now ck + oc_zone ck)"
  proof (rule ccontr)
    assume "\<not> ?thesis"
    then have "period_end ck \<le> month_start (month_of (oc_now ck))"
      using month_start_mono [of "month_of (oc_now ck + oc_zone ck) + 1" "month_of (oc_now ck)"]
      by (cases "month_of (oc_now ck + oc_zone ck) + 1 = month_of (oc_now ck)") (auto simp: period_end_def)
    then show False using e month_of_bounds(1) [of "oc_now ck"] by linarith
  qed
next
  assume "month_of (oc_now ck) \<le> month_of (oc_now ck + oc_zone ck)"
  then have "month_start (month_of (oc_now ck) + 1) \<le> period_end ck"
    using month_start_mono [of "month_of (oc_now ck) + 1" "month_of (oc_now ck + oc_zone ck) + 1"]
    by (cases "month_of (oc_now ck) = month_of (oc_now ck + oc_zone ck)") (auto simp: period_end_def)
  then show "oc_now ck < period_end ck" using month_of_bounds(2) [of "oc_now ck"] by linarith
qed

text \<open>Without a period in force, one is opened and found.\<close>

lemma open_period:
  assumes "org_ok db" and "has_org db org" and None: "current_usage ck org db = None" and later: "oc_now ck < period_end ck"
  obtains db' u where "get_usage ck org db = Some (db', Inr u)" and "ou_modules u = 0" and "od_modules db' = od_modules db"
proof -
  obtain db' e where i: "initialize_usage_period ck org db = (db', e)" by fastforce
  have "\<not> list_ex (\<lambda>u. ou_org u = org \<and> ou_start u = period_start ck) (od_usage db)"
  proof
    assume "list_ex (\<lambda>u. ou_org u = org \<and> ou_start u = period_start ck) (od_usage db)"
    then obtain u where u: "u \<in> set (od_usage db)" "ou_org u = org" "ou_start u = period_start ck"
      by (auto simp: list_ex_iff)
    then have "ou_end u = period_end ck"
      using assms(1) by (auto simp: org_tables list_all_iff month_long_def period_start_def period_end_def month_of_start)
    then show False using u None later by (auto simp: current_usage_None in_force_def)
  qed
  then obtain u where u: "e = Inr ()" "od_usage db' = od_usage db @ [u]" "in_force ck org u" "ou_modules u = 0"
    "od_modules db' = od_modules db"
    using initialize_cases [OF i assms(2)] later by (auto simp: in_force_def)
  then have "filter (in_force ck org) (od_usage db') = [u]"
    using None by (auto simp: current_usage_None filter_empty_conv)
  then have "current_usage ck org db' = Some u" by (simp add: current_usage_def)
  then have "get_usage ck org db = Some (db', Inr u)"
    using None i u(1) by (simp add: get_usage.simps [of ck org db] get_usage.simps [of ck org db'])
  then show thesis using that u by blast
qed

text \<open>
  Reading an organization's usage returns exactly when a period is in force or the month that the program's own
  time zone shows has begun or is to begin in UTC. West of UTC, from midnight UTC on the first of a month until
  local midnight, the period that is opened is one already over, and \<open>GetUsage\<close> calls itself for ever.
\<close>
lemma get_usage_returns_iff:
  assumes "org_ok db" and "has_org db org"
  shows "(get_usage ck org db \<noteq> None) =
    (current_usage ck org db \<noteq> None \<or> month_of (oc_now ck) \<le> month_of (oc_now ck + oc_zone ck))"
proof (cases "current_usage ck org db")
  case (Some u)
  then show ?thesis by (simp add: get_usage.simps)
next
  case None
  show ?thesis
  proof (cases "oc_now ck < period_end ck")
    case True
    then have "get_usage ck org db \<noteq> None" by (rule open_period [OF assms None]) simp
    then show ?thesis using True by (simp add: period_end_later)
  next
    case False
    then have "get_usage ck org db = None" using get_usage_stuck [OF assms None] by simp
    then show ?thesis using False None by (simp add: period_end_later)
  qed
qed

section \<open>What quotas count\<close>

text \<open>
  In a month in which nothing has been counted yet an organization passes the check of its module quota, however
  many modules it has: the limit is on the modules created since the month began.
\<close>
lemma module_quota_forgets:
  assumes "org_ok db" and "has_org db org" and "get_quotas org db = Inr q" and "0 < oq_max_modules q"
    and "current_usage ck org db = None" and "month_of (oc_now ck) \<le> month_of (oc_now ck + oc_zone ck)"
  shows "\<exists>db'. check_module_quota ck org db = Some (db', Inr ()) \<and> od_modules db' = od_modules db"
proof -
  have "oc_now ck < period_end ck" using assms(6) by (simp add: period_end_later)
  then obtain db' u where "get_usage ck org db = Some (db', Inr u)" "ou_modules u = 0" "od_modules db' = od_modules db"
    by (rule open_period [OF assms(1,2,5)])
  then show ?thesis using assms(3,4) by (simp add: check_module_quota_def check_usage_def)
qed

section \<open>Invitations\<close>

lemma find_unique: "distinct (map key ws) \<Longrightarrow> w \<in> set ws \<Longrightarrow> find (\<lambda>x. key x = key w) ws = Some w"
  by (induction ws) (auto simp: image_iff)

lemma find_key_old:
  assumes "distinct (map invitation_key ws)" "w \<in> set ws" "in_org w = g" "in_email w = e"
  shows "find (\<lambda>x. in_org x = g \<and> in_email x = e) ws = Some w"
proof -
  have "(\<lambda>x. in_org x = g \<and> in_email x = e) = (\<lambda>x. invitation_key x = invitation_key w)"
    using assms(3,4) by (auto simp: invitation_key_def)
  then show ?thesis using find_unique [OF assms(1,2)] by simp
qed

lemma find_exists: "x \<in> set xs \<Longrightarrow> P x \<Longrightarrow> \<exists>y. find P xs = Some y \<and> y \<in> set xs \<and> P y"
  by (induction xs) auto

lemma find_map_option: "find P (map f xs) = map_option f (find (P \<circ> f) xs)"
  by (induction xs) auto

text \<open>
  Inviting an address again after its invitation was accepted (say, because the member was removed) hands out an
  invitation that looks open and a token that is always refused.
\<close>
lemma reinvitation_refused:
  assumes "org_ok db" and "w \<in> set (od_invitations db)" and "in_accepted_at w \<noteq> None"
    and "in_org w = ir_org r" and "in_email w = ir_email r"
    and "create_invitation ck token r db = (db', Inr v)"
  shows "in_accepted_at v = None \<and> in_token v = token \<and>
    accept_invitation ck' token user db' = (db', Inl (Org_Text ''invitation already accepted''))"
proof -
  define ws where "ws = od_invitations db"
  have inv: "distinct (map in_id ws)" "distinct (map invitation_key ws)" using assms(1) by (simp_all add: org_tables ws_def)
  have old: "find (\<lambda>x. in_org x = ir_org r \<and> in_email x = ir_email r) ws = Some w"
    using find_key_old [OF inv(2)] assms(2,4,5) by (simp add: ws_def)
  define f where "f x = x\<lparr>in_token := token, in_invited_at := or_keep (ir_invited_at r) (oc_now ck),
    in_expires_at := or_keep (ir_expires_at r) (oc_now ck + 7 * 24 * 3600)\<rparr>" for x :: org_invitation
  define g where "g x = (if in_org x = ir_org r \<and> in_email x = ir_email r then f x else x)" for x
  have none: "\<not> list_ex (\<lambda>x. in_token x = token \<and> in_id x \<noteq> in_id w) ws"
    and db': "od_invitations db' = map g ws" and v: "in_accepted_at v = None" "in_token v = token"
    using assms(6) old by (auto simp: create_invitation_def take_id_def Let_def ws_def [symmetric] g_def f_def
        cong: if_cong split: if_splits)
  have "in_accepted_at (g x) \<noteq> None" if "x \<in> set ws" "in_token (g x) = token" for x
  proof (cases "x = w")
    case False
    then have "in_id x \<noteq> in_id w" "invitation_key x \<noteq> invitation_key w"
      using inv assms(2) that(1) by (auto simp: ws_def distinct_map inj_on_def)
    then have "in_token x = token" using that(2) assms(4,5) by (auto simp: g_def invitation_key_def)
    then show ?thesis using none that(1) \<open>in_id x \<noteq> in_id w\<close> by (auto simp: list_ex_iff)
  qed (use assms(3) in \<open>simp add: g_def f_def\<close>)
  moreover have "g w \<in> set (od_invitations db')" "in_token (g w) = token"
    using assms(2,4,5) by (auto simp: db' ws_def g_def f_def)
  ultimately obtain x where "find (\<lambda>x. in_token x = token) (od_invitations db') = Some x" "in_accepted_at x \<noteq> None"
    using find_exists [of "g w" "od_invitations db'" "\<lambda>x. in_token x = token"] by (auto simp: db')
  then show ?thesis using v by (simp add: accept_invitation_def)
qed

text \<open>
  Accepting an invitation makes the user a member and uses the invitation up, whoever tries next and whenever; a
  refused attempt changes nothing. Whose address was invited plays no part.
\<close>
lemma accept_invitation_once:
  assumes "accept_invitation ck token user db = (db', r)"
  shows "if is_ok r then (\<exists>w \<in> set (od_invitations db). in_token w = token \<and> oc_now ck \<le> in_expires_at w \<and>
      is_member (in_org w) user db') \<and>
      (\<forall>ck' user'. accept_invitation ck' token user' db' = (db', Inl (Org_Text ''invitation already accepted'')))
    else db' = db"
proof (cases "find (\<lambda>w. in_token w = token) (od_invitations db)")
  case None
  then show ?thesis using assms by (auto simp: accept_invitation_def)
next
  case (Some w)
  obtain d e where i: "insert_member ck (in_org w) user (in_role w) None db = (d, e)" by fastforce
  define h where "h x = (if in_id x = in_id w then x\<lparr>in_accepted_at := Some (oc_now ck), in_accepted_by := Some user\<rparr> else x)"
    for x :: org_invitation
  have inv: "od_invitations d = od_invitations db"
    using i by (auto simp: insert_member_def take_id_def Let_def split: if_splits)
  show ?thesis
  proof (cases "in_accepted_at w = None \<and> oc_now ck \<le> in_expires_at w \<and> is_ok e \<and> has_user db user")
    case True
    then have r: "r = Inr ()" "db' = d\<lparr>od_invitations := map h (od_invitations db)\<rparr>"
      using assms Some i inv by (auto simp: accept_invitation_def is_ok_iff h_def)
    have "is_member (in_org w) user d"
      using i True by (auto simp: insert_member_def take_id_def Let_def is_member_def split: if_splits)
    then have "is_member (in_org w) user db'" by (simp add: r is_member_def)
    moreover have "(\<lambda>w. in_token w = token) \<circ> h = (\<lambda>w. in_token w = token)" by (simp add: fun_eq_iff h_def)
    then have "find (\<lambda>w. in_token w = token) (od_invitations db') = Some (h w)" by (simp add: r find_map_option Some)
    then have "accept_invitation ck' token user' db' = (db', Inl (Org_Text ''invitation already accepted''))" for ck' user'
      by (simp add: accept_invitation_def h_def)
    moreover have "w \<in> set (od_invitations db)" "in_token w = token" using Some by (auto simp: find_Some_iff)
    ultimately show ?thesis using True r by auto
  next
    case False
    then have "r \<noteq> Inr () \<and> db' = db"
      using assms Some i by (cases e) (auto simp: accept_invitation_def split: if_splits)
    then show ?thesis by (cases r) auto
  qed
qed

section \<open>Applications to concrete inputs\<close>

definition sample_org :: organization where
  "sample_org = \<lparr>og_id = 0, og_name = ''acme'', og_slug = ''acme'', og_display_name = [], og_description = [],
     og_owner = None, og_tier = ''small'', og_status = ''active'', og_active = True, og_settings = [],
     og_created = 0, og_updated = 0\<rparr>"

definition sample_user :: "int \<Rightarrow> user_row" where
  "sample_user i = \<lparr>us_id = i, us_username = ''ann'', us_email = None, us_full_name = None, us_is_bot = False, us_active = True\<rparr>"

definition sample_invitation :: org_invitation where
  "sample_invitation = \<lparr>in_id = 0, in_org = 0, in_email = ''a@b'', in_role = ''viewer'', in_token = ''t0'', in_invited_by = 1,
     in_invited_at = 0, in_expires_at = 100, in_accepted_at = None, in_accepted_by = None\<rparr>"

definition sample_db :: "org_invitation list \<Rightarrow> org_db" where
  "sample_db ws = \<lparr>od_orgs = [sample_org], od_quotas = [quota_row 10 100 1 1 1], od_usage = [], od_members = [],
     od_users = [sample_user 1, sample_user 2], od_invitations = ws, od_modules = [(0, 0, ''m'')], od_versions = [],
     od_audit = [], od_seq = 9\<rparr>"

lemma org_ok_sample: "ws \<in> {[], [sample_invitation], [sample_invitation\<lparr>in_accepted_at := Some 5\<rparr>]} \<Longrightarrow> org_ok (sample_db ws)"
  by (auto simp: org_tables sample_db_def sample_org_def sample_invitation_def)

lemma has_org_sample: "has_org (sample_db ws) 0"
  by (simp add: has_org_def sample_db_def sample_org_def)


text \<open>One hour into January 1970 in UTC, five hours west of it.\<close>

lemma month_of_1970: "month_of 3600 = 23640" "month_of (3600 - 18000) = 23639"
  by (rule month_of_unique; simp add: month_start_def month_day_def year_day_def days_before_def month_days_def epoch_day_def
      is_leap_def upto.simps)+

definition sample_reinvite :: invitation_request where
  "sample_reinvite = \<lparr>ir_org = 0, ir_email = ''a@b'', ir_role = ''admin'', ir_invited_by = 1, ir_invited_at = None,
     ir_expires_at = None\<rparr>"

end
