(* ===== verification/Middleware_Limits.thy ===== *)
theory Middleware_Limits
  imports Complex_Main Spoke_Prelude "HOL-Library.Signed_Division"
begin

text \<open>
  The rate limiters of the HTTP middleware: the token bucket in memory (\<open>pkg/middleware/ratelimit.go\<close>) and the
  counter in Redis (\<open>distributed_ratelimit.go\<close>). Times are nanoseconds. A \<open>float64\<close> is a rational number;
  every operation on it is rounded by the parameter \<open>rnd\<close>.
\<close>

section \<open>Configuration\<close>

record rate_config =
  rc_requests :: int
  rc_window :: int
  rc_burst :: int

definition minute :: int where
  "minute = 60 * 10 ^ 9"

definition default_rate_limit_config :: rate_config where
  "default_rate_limit_config = \<lparr>rc_requests = 100, rc_window = minute, rc_burst = 10\<rparr>"

definition per_user_rate_limit_config :: rate_config where
  "per_user_rate_limit_config = \<lparr>rc_requests = 1000, rc_window = minute, rc_burst = 50\<rparr>"

definition per_bot_rate_limit_config :: rate_config where
  "per_bot_rate_limit_config = \<lparr>rc_requests = 5000, rc_window = minute, rc_burst = 100\<rparr>"

section \<open>Floating point\<close>

text \<open>\<open>Duration.Seconds\<close>, the conversion of a \<open>float64\<close> to \<open>int\<close>, and \<open>%.0f\<close>.\<close>

definition duration_seconds :: "(rat \<Rightarrow> rat) \<Rightarrow> int \<Rightarrow> rat" where
  "duration_seconds rnd d = rnd (rnd (of_int (d sdiv 10 ^ 9)) + rnd (rnd (of_int (d smod 10 ^ 9)) / 10 ^ 9))"

definition float_to_int :: "rat \<Rightarrow> int" where
  "float_to_int q = (if q < 0 then \<lceil>q\<rceil> else \<lfloor>q\<rfloor>)"

definition fmt_f0 :: "rat \<Rightarrow> string" where
  "fmt_f0 q =
     (let n = \<lfloor>q\<rfloor>; r = q - of_int n
      in fmt_d (if r < 1 / 2 \<or> r = 1 / 2 \<and> even n then n else n + 1))"

section \<open>The token bucket\<close>

record memory_bucket =
  tb_tokens :: int
  tb_last :: int

record memory_limiter =
  rl_config :: rate_config
  rl_buckets :: "(string, memory_bucket) gomap"

definition new_memory_limiter :: "rate_config option \<Rightarrow> memory_limiter" where
  "new_memory_limiter c =
     \<lparr>rl_config = (case c of None \<Rightarrow> default_rate_limit_config | Some c \<Rightarrow> c), rl_buckets = []\<rparr>"

definition max_tokens :: "rate_config \<Rightarrow> int" where
  "max_tokens c = rc_requests c + rc_burst c"

definition tokens_to_add :: "(rat \<Rightarrow> rat) \<Rightarrow> rate_config \<Rightarrow> int \<Rightarrow> int" where
  "tokens_to_add rnd c elapsed =
     float_to_int (rnd (rnd (duration_seconds rnd elapsed * rnd (of_int (rc_requests c))) / duration_seconds rnd (rc_window c)))"

definition refill_bucket :: "(rat \<Rightarrow> rat) \<Rightarrow> rate_config \<Rightarrow> int \<Rightarrow> memory_bucket \<Rightarrow> memory_bucket" where
  "refill_bucket rnd c now b =
     (let n = tokens_to_add rnd c (now - tb_last b)
      in if n > 0 then \<lparr>tb_tokens = min (tb_tokens b + n) (max_tokens c), tb_last = now\<rparr> else b)"

definition spend_token :: "memory_bucket \<Rightarrow> memory_bucket \<times> bool" where
  "spend_token b = (if tb_tokens b > 0 then (b\<lparr>tb_tokens := tb_tokens b - 1\<rparr>, True) else (b, False))"

text \<open>\<open>Allow\<close>, with the two clock readings it makes.\<close>

definition bucket_of :: "int \<Rightarrow> string \<Rightarrow> memory_limiter \<Rightarrow> memory_bucket" where
  "bucket_of created key rl = (case gm_get (rl_buckets rl) key of
     Some b \<Rightarrow> b | None \<Rightarrow> \<lparr>tb_tokens = max_tokens (rl_config rl), tb_last = created\<rparr>)"

definition memory_allow :: "(rat \<Rightarrow> rat) \<Rightarrow> int \<Rightarrow> int \<Rightarrow> string \<Rightarrow> memory_limiter \<Rightarrow> memory_limiter \<times> bool" where
  "memory_allow rnd created now key rl =
     (let (b, ok) = spend_token (refill_bucket rnd (rl_config rl) now (bucket_of created key rl))
      in (rl\<lparr>rl_buckets := gm_put key b (rl_buckets rl)\<rparr>, ok))"

definition remaining_tokens :: "string \<Rightarrow> memory_limiter \<Rightarrow> int" where
  "remaining_tokens key rl = (case gm_get (rl_buckets rl) key of
     None \<Rightarrow> max_tokens (rl_config rl) | Some b \<Rightarrow> tb_tokens b)"

definition cleanup_buckets :: "int \<Rightarrow> memory_limiter \<Rightarrow> memory_limiter" where
  "cleanup_buckets now rl =
     rl\<lparr>rl_buckets := filter (\<lambda>(k, b). \<not> now - tb_last b > rc_window (rl_config rl) * 2) (rl_buckets rl)\<rparr>"

text \<open>What happens to a limiter: requests, and the ticks at which \<open>StartCleanup\<close> cleans up.\<close>

datatype limiter_event = Request int string | Cleanup_Tick int

primrec event_time :: "limiter_event \<Rightarrow> int" where
  "event_time (Request t key) = t"
| "event_time (Cleanup_Tick t) = t"

primrec is_request :: "limiter_event \<Rightarrow> bool" where
  "is_request (Request t key) = True"
| "is_request (Cleanup_Tick t) = False"

primrec run_limiter :: "(rat \<Rightarrow> rat) \<Rightarrow> limiter_event list \<Rightarrow> memory_limiter \<Rightarrow> bool list" where
  "run_limiter rnd [] rl = []"
| "run_limiter rnd (e # es) rl = (case e of
     Request t key \<Rightarrow> (let (rl', ok) = memory_allow rnd t t key rl in ok # run_limiter rnd es rl')
   | Cleanup_Tick t \<Rightarrow> run_limiter rnd es (cleanup_buckets t rl))"

section \<open>The counter in Redis\<close>

text \<open>The client: it runs a pipeline of commands at a time and returns an error or the replies.\<close>

datatype redis_command = Incr string | Expire string int | Get_Text string | Ttl string | Del string

datatype redis_reply = Reply_Int int | Reply_Text string | Reply_Nil

type_synonym 's redis = "int \<Rightarrow> redis_command list \<Rightarrow> 's \<Rightarrow> 's \<times> (string + redis_reply list)"

datatype limit_error = Redis_Error string | Redis_Reply string

record distributed_limiter =
  dl_config :: rate_config
  dl_prefix :: string

definition new_distributed_rate_limiter :: "rate_config option \<Rightarrow> string \<Rightarrow> distributed_limiter" where
  "new_distributed_rate_limiter c pfx =
     \<lparr>dl_config = (case c of None \<Rightarrow> default_rate_limit_config | Some c \<Rightarrow> c),
      dl_prefix = (if pfx = [] then ''ratelimit'' else pfx)\<rparr>"

definition redis_key :: "distributed_limiter \<Rightarrow> string \<Rightarrow> string" where
  "redis_key dl key = dl_prefix dl @ '':'' @ key"

text \<open>The value of the \<open>INCR\<close> in the pipeline: zero when there is no such reply.\<close>

definition first_int :: "redis_reply list \<Rightarrow> int" where
  "first_int rs = (case rs of Reply_Int n # _ \<Rightarrow> n | _ \<Rightarrow> 0)"

definition distributed_allow :: "'s redis \<Rightarrow> int \<Rightarrow> distributed_limiter \<Rightarrow> string \<Rightarrow> 's \<Rightarrow> 's \<times> bool \<times> limit_error option" where
  "distributed_allow redis now dl key s =
     (let k = redis_key dl key in
      case redis now [Incr k, Expire k (rc_window (dl_config dl))] s of
        (s, Inl e) \<Rightarrow> (s, True, Some (Redis_Error e))
      | (s, Inr rs) \<Rightarrow> (s, first_int rs \<le> rc_requests (dl_config dl), None))"

definition distributed_remaining :: "'s redis \<Rightarrow> int \<Rightarrow> distributed_limiter \<Rightarrow> string \<Rightarrow> 's \<Rightarrow> 's \<times> (limit_error + int)" where
  "distributed_remaining redis now dl key s =
     (case redis now [Get_Text (redis_key dl key)] s of
        (s, Inl e) \<Rightarrow> (s, Inl (Redis_Reply e))
      | (s, Inr rs) \<Rightarrow> (s, case rs of
          Reply_Nil # _ \<Rightarrow> Inr (rc_requests (dl_config dl))
        | Reply_Text t # _ \<Rightarrow> (case atoi t of
            None \<Rightarrow> Inl (Redis_Reply ''parsing'')
          | Some n \<Rightarrow> Inr (if rc_requests (dl_config dl) - n < 0 then 0 else rc_requests (dl_config dl) - n))
        | _ \<Rightarrow> Inl (Redis_Reply ''unexpected reply'')))"

definition distributed_ttl :: "'s redis \<Rightarrow> int \<Rightarrow> distributed_limiter \<Rightarrow> string \<Rightarrow> 's \<Rightarrow> 's \<times> (limit_error + int)" where
  "distributed_ttl redis now dl key s = (case redis now [Ttl (redis_key dl key)] s of
     (s, Inl e) \<Rightarrow> (s, Inl (Redis_Reply e)) | (s, Inr rs) \<Rightarrow> (s, Inr (first_int rs)))"

definition distributed_reset :: "'s redis \<Rightarrow> int \<Rightarrow> distributed_limiter \<Rightarrow> string \<Rightarrow> 's \<Rightarrow> 's \<times> limit_error option" where
  "distributed_reset redis now dl key s = (case redis now [Del (redis_key dl key)] s of
     (s, Inl e) \<Rightarrow> (s, Some (Redis_Reply e)) | (s, Inr rs) \<Rightarrow> (s, None))"

primrec run_distributed :: "'s redis \<Rightarrow> distributed_limiter \<Rightarrow> string \<Rightarrow> int list \<Rightarrow> 's \<Rightarrow> bool list" where
  "run_distributed redis dl key [] s = []"
| "run_distributed redis dl key (t # ts) s =
     (let (s', ok, e) = distributed_allow redis t dl key s in ok # run_distributed redis dl key ts s')"

end
