(* ===== verification/Auth_Tokens.thy ===== *)
theory Auth_Tokens
  imports Spoke_Prelude
begin

text \<open>
  API tokens and the authentication context (\<open>pkg/auth/token.go\<close>, \<open>types.go\<close>). SHA-256 is a parameter, random
  bytes are arguments. Looking tokens up is not written yet in the code: it always fails.
\<close>

section \<open>Encodings\<close>

definition base64_alphabet :: string where
  "base64_alphabet = ''ABCDEFGHIJKLMNOPQRSTUVWXYZabcdefghijklmnopqrstuvwxyz0123456789-_''"

definition base64_char :: "nat \<Rightarrow> char" where
  "base64_char n = base64_alphabet ! n"

definition byte :: "char \<Rightarrow> nat" where
  "byte c = of_char c"

text \<open>\<open>base64.RawURLEncoding\<close>: three bytes in four characters, without padding.\<close>

fun base64_encode :: "string \<Rightarrow> string" where
  "base64_encode [] = []"
| "base64_encode [a] = [base64_char (byte a div 4), base64_char (byte a mod 4 * 16)]"
| "base64_encode [a, b] = [base64_char (byte a div 4), base64_char (byte a mod 4 * 16 + byte b div 16),
     base64_char (byte b mod 16 * 4)]"
| "base64_encode (a # b # c # s) = [base64_char (byte a div 4), base64_char (byte a mod 4 * 16 + byte b div 16),
     base64_char (byte b mod 16 * 4 + byte c div 64), base64_char (byte c mod 64)] @ base64_encode s"

definition base64_value :: "char \<Rightarrow> nat option" where
  "base64_value c = (if c \<in> set base64_alphabet then Some (length (takeWhile (\<lambda>d. d \<noteq> c) base64_alphabet)) else None)"

text \<open>The decoder, on the characters' values: a single one left over is an error, superfluous bits are dropped.\<close>

fun base64_bytes :: "nat list \<Rightarrow> string option" where
  "base64_bytes [] = Some []"
| "base64_bytes [u] = None"
| "base64_bytes [u, v] = Some [char_of (u * 4 + v div 16)]"
| "base64_bytes [u, v, w] = Some [char_of (u * 4 + v div 16), char_of (v mod 16 * 16 + w div 4)]"
| "base64_bytes (u # v # w # x # s) = map_option (\<lambda>t. [char_of (u * 4 + v div 16), char_of (v mod 16 * 16 + w div 4),
     char_of (w mod 4 * 64 + x)] @ t) (base64_bytes s)"

fun all_values :: "string \<Rightarrow> nat list option" where
  "all_values [] = Some []"
| "all_values (c # s) = Option.bind (base64_value c) (\<lambda>v. map_option (\<lambda>vs. v # vs) (all_values s))"

definition base64_decode :: "string \<Rightarrow> string option" where
  "base64_decode s = Option.bind (all_values (filter (\<lambda>c. c \<noteq> CHR 0x0A \<and> c \<noteq> CHR 0x0D) s)) base64_bytes"

section \<open>Tokens\<close>

definition token_prefix :: string where
  "token_prefix = ''spoke_''"

datatype auth_error = Auth_Text string | Auth_Wrap string auth_error

definition hash_token :: "(string \<Rightarrow> string) \<Rightarrow> string \<Rightarrow> string" where
  "hash_token sha token = hex_encode (sha token)"

text \<open>The token, its hash and the part of it that is shown, from the random bytes.\<close>

definition generate_token :: "(string \<Rightarrow> string) \<Rightarrow> string \<Rightarrow> string \<times> string \<times> string" where
  "generate_token sha bytes =
     (let encoded = base64_encode bytes; full = token_prefix @ encoded
      in (full, hex_encode (sha full), if length encoded \<ge> 8 then token_prefix @ take 8 encoded else token_prefix))"

definition validate_token_format :: "string \<Rightarrow> auth_error + unit" where
  "validate_token_format token =
     (if \<not> has_prefix token token_prefix then Inl (Auth_Text (''token must start with \"'' @ token_prefix @ ''\"''))
      else
        (let encoded = drop (length token_prefix) token in
         if encoded = [] then Inl (Auth_Text ''token is too short'')
         else case base64_decode encoded of
           None \<Rightarrow> Inl (Auth_Wrap ''invalid token encoding'' (Auth_Text ''illegal base64 data'')) | Some _ \<Rightarrow> Inr ()))"

definition extract_prefix :: "string \<Rightarrow> string" where
  "extract_prefix token =
     (if \<not> has_prefix token token_prefix then []
      else
        (let encoded = drop (length token_prefix) token in
         if length encoded \<ge> 8 then token_prefix @ take 8 encoded else token))"

record api_token =
  tk_id :: int
  tk_user :: int
  tk_hash :: string
  tk_prefix :: string
  tk_name :: string
  tk_description :: string
  tk_scopes :: "string list"
  tk_expires_at :: "int option"
  tk_last_used_at :: "int option"
  tk_created_at :: int
  tk_revoked_at :: "int option"
  tk_revoked_by :: "int option"
  tk_revoke_reason :: string

definition create_token :: "(string \<Rightarrow> string) \<Rightarrow> string \<Rightarrow> int \<Rightarrow> int \<Rightarrow> string \<Rightarrow> string \<Rightarrow> string list \<Rightarrow> int option \<Rightarrow>
    api_token \<times> string" where
  "create_token sha bytes now user name description scopes expires =
     (let (token, hash, prefix) = generate_token sha bytes in
      (\<lparr>tk_id = 0, tk_user = user, tk_hash = hash, tk_prefix = prefix, tk_name = name, tk_description = description,
        tk_scopes = scopes, tk_expires_at = expires, tk_last_used_at = None, tk_created_at = now, tk_revoked_at = None,
        tk_revoked_by = None, tk_revoke_reason = []\<rparr>, token))"

definition validate_token :: "(string \<Rightarrow> string) \<Rightarrow> string \<Rightarrow> auth_error + api_token" where
  "validate_token sha token = (case validate_token_format token of
     Inl e \<Rightarrow> Inl (Auth_Wrap ''invalid token format'' e)
   | Inr _ \<Rightarrow> (let token_hash = hash_token sha token in Inl (Auth_Text ''not implemented: token lookup'')))"

definition revoke_token :: "int \<Rightarrow> int \<Rightarrow> string \<Rightarrow> auth_error + unit" where
  "revoke_token i revoked_by reason = Inl (Auth_Text ''not implemented: token revocation'')"

definition list_user_tokens :: "int \<Rightarrow> auth_error + api_token list" where
  "list_user_tokens user = Inl (Auth_Text ''not implemented: token listing'')"

definition cleanup_expired_tokens :: "auth_error + int" where
  "cleanup_expired_tokens = Inl (Auth_Text ''not implemented: token cleanup'')"

section \<open>The authentication context\<close>

record auth_user =
  au_id :: int
  au_username :: string
  au_is_bot :: bool
  au_is_active :: bool

record auth_org =
  ag_id :: int
  ag_name :: string

record auth_context =
  ac_user :: "auth_user option"
  ac_org :: "auth_org option"
  ac_token :: "api_token option"
  ac_scopes :: "string list"

definition scope_all :: string where
  "scope_all = ''*''"

fun has_scope_in :: "string list \<Rightarrow> string \<Rightarrow> bool" where
  "has_scope_in [] scope = False"
| "has_scope_in (s # scopes) scope = (if s = scope_all then True else if s = scope then True else has_scope_in scopes scope)"

definition has_scope :: "auth_context \<Rightarrow> string \<Rightarrow> bool" where
  "has_scope ac scope = has_scope_in (ac_scopes ac) scope"

definition has_role :: "auth_context \<Rightarrow> string \<Rightarrow> bool" where
  "has_role ac role = False"

definition has_permission :: "auth_context \<Rightarrow> int \<Rightarrow> string \<Rightarrow> bool" where
  "has_permission ac module_id perm = False"

section \<open>Round trips\<close>

lemma byte_less: "byte c < 256"
  by (simp add: byte_def)

lemma char_byte [simp]: "char_of (byte c) = c"
  by (simp add: byte_def)

lemma base64_values:
  "list_all (\<lambda>n. base64_value (base64_char n) = Some n \<and> base64_char n \<noteq> CHR 0x0A \<and> base64_char n \<noteq> CHR 0x0D) [0..<64]"
  by code_simp

lemma base64_value_char: "n < 64 \<Longrightarrow> base64_value (base64_char n) = Some n"
  and base64_char_kept: "n < 64 \<Longrightarrow> base64_char n \<noteq> CHR 0x0A" "n < 64 \<Longrightarrow> base64_char n \<noteq> CHR 0x0D"
  using base64_values by (auto simp: list_all_iff)

end
