(* ===== verification/Middleware_Chain.thy ===== *)
theory Middleware_Chain
  imports Middleware_Limits Auth_Tokens Org_Service
begin

text \<open>
  The HTTP middleware (\<open>pkg/middleware/auth.go\<close>, \<open>org.go\<close>, \<open>quota.go\<close> and the handlers of both rate limiters)
  and the context keys (\<open>pkg/contextkeys/keys.go\<close>). A handler takes a request, the response written so far and the
  server's state; it may never return, since reading the usage of an organization may not. A goroutine it starts
  is recorded as a task.
\<close>

section \<open>Requests and contexts\<close>

text \<open>
  A key of a Go context is compared with its type: the constants of \<open>contextkeys\<close> are of the type \<open>Key\<close>, a string
  literal is a plain string. The newest value of a key hides the older ones.
\<close>

datatype ctx_key = Typed_Key string | Plain_Key string

datatype ctx_value = Auth_Value auth_context | Org_Value organization | Int_Value int | Text_Value string

type_synonym ctx = "(ctx_key \<times> ctx_value) list"

definition auth_key :: ctx_key where
  "auth_key = Typed_Key ''auth_context''"

definition org_key :: ctx_key where
  "org_key = Typed_Key ''organization''"

definition request_id_key :: ctx_key where
  "request_id_key = Typed_Key ''request_id''"

definition user_id_key :: ctx_key where
  "user_id_key = Typed_Key ''user_id''"

definition with_value :: "ctx \<Rightarrow> ctx_key \<Rightarrow> ctx_value \<Rightarrow> ctx" where
  "with_value c k v = (k, v) # c"

definition with_auth :: "ctx \<Rightarrow> auth_context \<Rightarrow> ctx" where
  "with_auth c a = with_value c auth_key (Auth_Value a)"

definition with_org :: "ctx \<Rightarrow> organization \<Rightarrow> ctx" where
  "with_org c g = with_value c org_key (Org_Value g)"

definition with_request_id :: "ctx \<Rightarrow> string \<Rightarrow> ctx" where
  "with_request_id c i = with_value c request_id_key (Text_Value i)"

definition with_user_id :: "ctx \<Rightarrow> string \<Rightarrow> ctx" where
  "with_user_id c i = with_value c user_id_key (Text_Value i)"

definition get_request_id :: "ctx \<Rightarrow> string" where
  "get_request_id c = (case map_of c request_id_key of Some (Text_Value i) \<Rightarrow> i | _ \<Rightarrow> [])"

definition get_user_id :: "ctx \<Rightarrow> string" where
  "get_user_id c = (case map_of c user_id_key of Some (Text_Value i) \<Rightarrow> i | _ \<Rightarrow> [])"

record http_request =
  rq_method :: string
  rq_headers :: "(string, string) gomap"
  rq_remote :: string
  rq_vars :: "(string, string) gomap" \<comment> \<open>\<open>mux.Vars\<close>\<close>
  rq_ctx :: ctx

definition header_of :: "http_request \<Rightarrow> string \<Rightarrow> string" where
  "header_of r h = (case gm_get (rq_headers r) h of Some v \<Rightarrow> v | None \<Rightarrow> [])"

definition get_auth_context :: "http_request \<Rightarrow> auth_context option" where
  "get_auth_context r = (case map_of (rq_ctx r) auth_key of Some (Auth_Value a) \<Rightarrow> Some a | _ \<Rightarrow> None)"

definition get_client_ip :: "http_request \<Rightarrow> string" where
  "get_client_ip r =
     (let forwarded = header_of r ''X-Forwarded-For'' in
      if forwarded \<noteq> [] then forwarded
      else (let real = header_of r ''X-Real-IP'' in if real \<noteq> [] then real else rq_remote r))"

text \<open>A request with its query parameters and the body it decodes to, if it does.\<close>

record 'b web_request =
  wq_http :: http_request
  wq_query :: "(string, string) gomap"
  wq_body :: "'b option"

definition path_id :: "'b web_request \<Rightarrow> string \<Rightarrow> int option" where
  "path_id r name = atoi (case gm_get (rq_vars (wq_http r)) name of Some s \<Rightarrow> s | None \<Rightarrow> [])"

definition query_value :: "'b web_request \<Rightarrow> string \<Rightarrow> string" where
  "query_value r name = (case gm_get (wq_query r) name of Some s \<Rightarrow> s | None \<Rightarrow> [])"

definition path_var :: "'b web_request \<Rightarrow> string \<Rightarrow> string" where
  "path_var r name = (case gm_get (rq_vars (wq_http r)) name of Some s \<Rightarrow> s | None \<Rightarrow> [])"

section \<open>Responses\<close>

text \<open>The body holds text and the messages of errors; a status of zero has not been written.\<close>

datatype body_part = Body string | Message org_error

record http_response =
  rs_headers :: "(string, string) gomap"
  rs_status :: nat
  rs_body :: "body_part list"

definition set_header :: "string \<Rightarrow> string \<Rightarrow> http_response \<Rightarrow> http_response" where
  "set_header h v w = w\<lparr>rs_headers := gm_put h v (rs_headers w)\<rparr>"

definition write_header :: "nat \<Rightarrow> http_response \<Rightarrow> http_response" where
  "write_header status w = (if rs_status w = 0 then w\<lparr>rs_status := status\<rparr> else w)"

definition write_body :: "body_part list \<Rightarrow> http_response \<Rightarrow> http_response" where
  "write_body parts w = (let w = write_header 200 w in w\<lparr>rs_body := rs_body w @ parts\<rparr>)"

definition http_error :: "body_part \<Rightarrow> nat \<Rightarrow> http_response \<Rightarrow> http_response" where
  "http_error part status w =
     (let w = w\<lparr>rs_headers := gm_del ''Content-Length'' (rs_headers w)\<rparr>;
          w = set_header ''Content-Type'' ''text/plain; charset=utf-8'' w;
          w = set_header ''X-Content-Type-Options'' ''nosniff'' w
      in write_body [part, Body [CHR 0x0A]] (write_header status w))"

definition json_error :: "nat \<Rightarrow> string \<Rightarrow> http_response \<Rightarrow> http_response" where
  "json_error status message w =
     write_body [Body (''{\"error\":\"'' @ message @ ''\"}'')]
       (write_header status (set_header ''Content-Type'' ''application/json'' w))"

section \<open>Handlers\<close>

datatype task = Increment_Requests int | Increment_Modules int | Increment_Versions int | Increment_Storage int int
  | Increment_Jobs int

record 's server =
  sv_now :: int
  sv_zone :: int
  sv_user_limiter :: memory_limiter
  sv_bot_limiter :: memory_limiter
  sv_anonymous_limiter :: memory_limiter
  sv_redis :: 's
  sv_orgs :: org_db
  sv_tasks :: "task list"

type_synonym 's handler = "http_request \<Rightarrow> http_response \<Rightarrow> 's server \<Rightarrow> (http_response \<times> 's server) option"

type_synonym 's middleware = "'s handler \<Rightarrow> 's handler"

definition server_clock :: "'s server \<Rightarrow> org_clock" where
  "server_clock sv = \<lparr>oc_now = sv_now sv div 10 ^ 9, oc_zone = sv_zone sv\<rparr>"

definition start_task :: "task \<Rightarrow> 's server \<Rightarrow> 's server" where
  "start_task t sv = sv\<lparr>sv_tasks := sv_tasks sv @ [t]\<rparr>"

section \<open>Authentication\<close>

definition unauthorized_response :: "string \<Rightarrow> http_response \<Rightarrow> http_response" where
  "unauthorized_response message w = json_error 401 message w"

definition forbidden_response :: "string \<Rightarrow> http_response \<Rightarrow> http_response" where
  "forbidden_response message w = json_error 403 message w"

text \<open>\<open>strings.SplitN\<close> with a limit of two at a blank, and its two parts when there is one.\<close>

fun split_blank :: "string \<Rightarrow> (string \<times> string) option" where
  "split_blank [] = None"
| "split_blank (c # s) = (if c = CHR '' '' then Some ([], s) else map_option (\<lambda>(a, b). (c # a, b)) (split_blank s))"

definition auth_handler :: "(string \<Rightarrow> string) \<Rightarrow> bool \<Rightarrow> 's middleware" where
  "auth_handler sha optional next_handler r w sv =
     (let auth_header = header_of r ''Authorization'' in
      if auth_header = [] then
        if optional then next_handler r w sv else Some (unauthorized_response ''missing authorization header'' w, sv)
      else case split_blank auth_header of
        None \<Rightarrow> Some (unauthorized_response ''invalid authorization header format'' w, sv)
      | Some (scheme, token) \<Rightarrow>
          if scheme \<noteq> ''Bearer'' then Some (unauthorized_response ''invalid authorization header format'' w, sv)
          else case validate_token sha token of
            Inl e \<Rightarrow> Some (unauthorized_response ''invalid or expired token'' w, sv)
          | Inr api_token \<Rightarrow>
              (let a = \<lparr>ac_user = None, ac_org = None, ac_token = Some api_token, ac_scopes = tk_scopes api_token\<rparr>
               in next_handler (r\<lparr>rq_ctx := with_auth (rq_ctx r) a\<rparr>) w sv))"

definition require_scope :: "string \<Rightarrow> 's middleware" where
  "require_scope scope next_handler r w sv = (case get_auth_context r of
     None \<Rightarrow> Some (forbidden_response ''authentication required'' w, sv)
   | Some a \<Rightarrow> if \<not> has_scope a scope then Some (forbidden_response ''insufficient permissions'' w, sv)
               else next_handler r w sv)"

definition require_role :: "string \<Rightarrow> 's middleware" where
  "require_role role next_handler r w sv = (case get_auth_context r of
     None \<Rightarrow> Some (forbidden_response ''authentication required'' w, sv)
   | Some a \<Rightarrow> if \<not> has_role a role then Some (forbidden_response ''insufficient role permissions'' w, sv)
               else next_handler r w sv)"

definition require_module_permission :: "string \<Rightarrow> string \<Rightarrow> 's middleware" where
  "require_module_permission module_param perm next_handler r w sv = (case get_auth_context r of
     None \<Rightarrow> Some (forbidden_response ''authentication required'' w, sv)
   | Some a \<Rightarrow> if \<not> has_permission a 0 perm then Some (forbidden_response ''insufficient module permissions'' w, sv)
               else next_handler r w sv)"

section \<open>Organizations and quotas\<close>

definition org_context_middleware :: "'s middleware" where
  "org_context_middleware next_handler r w sv = (case gm_get (rq_vars r) ''org_id'' of
     Some i \<Rightarrow> (case atoi i of
       None \<Rightarrow> Some (http_error (Body ''Invalid organization ID'') 400 w, sv)
     | Some i \<Rightarrow> (case get_organization i (sv_orgs sv) of
         Inl e \<Rightarrow> Some (http_error (Body ''Organization not found'') 404 w, sv)
       | Inr g \<Rightarrow> next_handler (r\<lparr>rq_ctx := with_org (rq_ctx r) g\<rparr>) w sv))
   | None \<Rightarrow> (case gm_get (rq_vars r) ''org_slug'' of
       Some slug \<Rightarrow> (case get_organization_by_slug slug (sv_orgs sv) of
         Inl e \<Rightarrow> Some (http_error (Body ''Organization not found'') 404 w, sv)
       | Inr g \<Rightarrow> next_handler (r\<lparr>rq_ctx := with_org (rq_ctx r) g\<rparr>) w sv)
     | None \<Rightarrow> next_handler r w sv))"

definition org_of_request :: "http_request \<Rightarrow> organization option" where
  "org_of_request r = (case map_of (rq_ctx r) org_key of Some (Org_Value g) \<Rightarrow> Some g | _ \<Rightarrow> None)"

text \<open>The check a quota type stands for; an unknown type checks nothing.\<close>

definition quota_check :: "string \<Rightarrow> http_request \<Rightarrow> int \<Rightarrow> 's server \<Rightarrow> (org_db \<times> (org_error + unit)) option" where
  "quota_check quota_type r org sv =
     (if quota_type = ''module'' then check_module_quota (server_clock sv) org (sv_orgs sv)
      else if quota_type = ''version'' then
        Some (sv_orgs sv, check_version_quota org
          (case gm_get (rq_vars r) ''module_name'' of Some n \<Rightarrow> n | None \<Rightarrow> []) (sv_orgs sv))
      else if quota_type = ''compile'' then check_compile_job_quota (server_clock sv) org (sv_orgs sv)
      else if quota_type = ''api'' then Some (sv_orgs sv, check_api_rate_limit (server_clock sv) org (sv_orgs sv))
      else Some (sv_orgs sv, Inr ()))"

definition quota_exceeded_response :: "string \<Rightarrow> int \<Rightarrow> int \<Rightarrow> http_response \<Rightarrow> http_response" where
  "quota_exceeded_response resource current limit w =
     write_body [Body (''{\"error\":\"quota_exceeded\",\"resource\":\"'' @ resource @ ''\",\"current\":'' @ fmt_d current @
         '',\"limit\":'' @ fmt_d limit @ ''}'')]
       (write_header 429 (set_header ''Content-Type'' ''application/json'' w))"

definition quota_check_middleware :: "string \<Rightarrow> 's middleware" where
  "quota_check_middleware quota_type next_handler r w sv =
     (if rq_method r = ''GET'' then next_handler r w sv
      else case org_of_request r of
        None \<Rightarrow> next_handler r w sv
      | Some g \<Rightarrow> Option.bind (quota_check quota_type r (og_id g) sv) (\<lambda>(db, result).
          let sv = sv\<lparr>sv_orgs := db\<rparr> in
          case result of
            Inl (Quota_Exceeded resource current limit) \<Rightarrow> Some (quota_exceeded_response resource current limit w, sv)
          | Inl e \<Rightarrow> Some (http_error (Message e) 500 w, sv)
          | Inr _ \<Rightarrow> next_handler r w sv))"

definition usage_tracking_middleware :: "'s middleware" where
  "usage_tracking_middleware next_handler r w sv = (case org_of_request r of
     Some g \<Rightarrow> next_handler r w (start_task (Increment_Requests (og_id g)) sv)
   | None \<Rightarrow> next_handler r w sv)"

text \<open>\<open>quota.go\<close>: the same again, over contexts with plain string keys.\<close>

definition quota_org_context_middleware :: "'s middleware" where
  "quota_org_context_middleware next_handler r w sv = (case map_of (rq_ctx r) (Plain_Key ''auth'') of
     Some (Auth_Value a) \<Rightarrow> (case ac_org a of
       None \<Rightarrow> next_handler r w sv
     | Some g \<Rightarrow> next_handler (r\<lparr>rq_ctx := with_value (rq_ctx r) (Plain_Key ''org_id'') (Int_Value (ag_id g))\<rparr>) w sv)
   | _ \<Rightarrow> next_handler r w sv)"

definition get_org_id_from_context :: "ctx \<Rightarrow> int" where
  "get_org_id_from_context c = (case map_of c (Plain_Key ''org_id'') of Some (Int_Value i) \<Rightarrow> i | _ \<Rightarrow> 0)"

definition api_rate_limit_middleware :: "'s middleware" where
  "api_rate_limit_middleware next_handler r w sv =
     (let org = get_org_id_from_context (rq_ctx r) in
      if org = 0 then next_handler r w sv
      else case check_api_rate_limit (server_clock sv) org (sv_orgs sv) of
        Inl (Quota_Exceeded _ _ _) \<Rightarrow> Some (http_error (Body ''API rate limit exceeded'') 429 w, sv)
      | _ \<Rightarrow> next_handler r w (start_task (Increment_Requests org) sv))"

definition enforce_quota :: "(org_clock \<Rightarrow> int \<Rightarrow> org_db \<Rightarrow> (org_db \<times> (org_error + unit)) option) \<Rightarrow> 's middleware" where
  "enforce_quota check next_handler r w sv =
     (let org = get_org_id_from_context (rq_ctx r) in
      if org = 0 then next_handler r w sv
      else Option.bind (check (server_clock sv) org (sv_orgs sv)) (\<lambda>(db, result).
        let sv = sv\<lparr>sv_orgs := db\<rparr> in
        case result of
          Inl e \<Rightarrow> Some (http_error (Message e) (if is_quota_exceeded e then 403 else 500) w, sv)
        | Inr _ \<Rightarrow> next_handler r w sv))"

definition enforce_module_quota :: "'s middleware" where
  "enforce_module_quota = enforce_quota check_module_quota"

definition enforce_compile_job_quota :: "'s middleware" where
  "enforce_compile_job_quota = enforce_quota check_compile_job_quota"

definition increment_module_usage :: "int \<Rightarrow> 's server \<Rightarrow> 's server" where
  "increment_module_usage org sv = start_task (Increment_Modules org) sv"

definition increment_version_usage :: "int \<Rightarrow> 's server \<Rightarrow> 's server" where
  "increment_version_usage org sv = start_task (Increment_Versions org) sv"

definition increment_storage_usage :: "int \<Rightarrow> int \<Rightarrow> 's server \<Rightarrow> 's server" where
  "increment_storage_usage org bytes sv = start_task (Increment_Storage org bytes) sv"

definition increment_compile_job_usage :: "int \<Rightarrow> 's server \<Rightarrow> 's server" where
  "increment_compile_job_usage org sv = start_task (Increment_Jobs org) sv"

section \<open>Rate limiting\<close>

text \<open>Whose limiter serves a request, and under which key.\<close>

datatype client_class = User_Client | Bot_Client | Anonymous_Client

definition client_key :: "http_request \<Rightarrow> client_class \<times> string" where
  "client_key r = (case get_auth_context r of
     Some a \<Rightarrow> (case ac_user a of
       Some u \<Rightarrow> (if au_is_bot u then Bot_Client else User_Client, ''user:'' @ fmt_d (au_id u))
     | None \<Rightarrow> (Anonymous_Client, ''ip:'' @ get_client_ip r))
   | None \<Rightarrow> (Anonymous_Client, ''ip:'' @ get_client_ip r))"

definition limiter_for :: "client_class \<Rightarrow> 's server \<Rightarrow> memory_limiter" where
  "limiter_for c sv = (case c of User_Client \<Rightarrow> sv_user_limiter sv | Bot_Client \<Rightarrow> sv_bot_limiter sv
     | Anonymous_Client \<Rightarrow> sv_anonymous_limiter sv)"

definition put_limiter :: "client_class \<Rightarrow> memory_limiter \<Rightarrow> 's server \<Rightarrow> 's server" where
  "put_limiter c rl sv = (case c of User_Client \<Rightarrow> sv\<lparr>sv_user_limiter := rl\<rparr> | Bot_Client \<Rightarrow> sv\<lparr>sv_bot_limiter := rl\<rparr>
     | Anonymous_Client \<Rightarrow> sv\<lparr>sv_anonymous_limiter := rl\<rparr>)"

definition reset_time :: "int \<Rightarrow> int \<Rightarrow> string" where
  "reset_time now wait = fmt_d ((now + wait) div 10 ^ 9)"

definition rate_limit_exceeded :: "(rat \<Rightarrow> rat) \<Rightarrow> int \<Rightarrow> rate_config \<Rightarrow> http_response \<Rightarrow> http_response" where
  "rate_limit_exceeded rnd now c w =
     (let retry_after = fmt_f0 (duration_seconds rnd (rc_window c));
          w = set_header ''Content-Type'' ''application/json'' w;
          w = set_header ''Retry-After'' retry_after w;
          w = set_header ''X-RateLimit-Limit'' (fmt_d (rc_requests c)) w;
          w = set_header ''X-RateLimit-Remaining'' ''0'' w;
          w = set_header ''X-RateLimit-Reset'' (reset_time now (rc_window c)) w
      in write_body [Body (''{\"error\":\"rate limit exceeded\",\"retry_after\":'' @ retry_after @ ''}'')] (write_header 429 w))"

definition rate_limit_handler :: "(rat \<Rightarrow> rat) \<Rightarrow> 's middleware" where
  "rate_limit_handler rnd next_handler r w sv =
     (let (class, key) = client_key r;
          (rl, ok) = memory_allow rnd (sv_now sv) (sv_now sv) key (limiter_for class sv);
          sv = put_limiter class rl sv; c = rl_config rl in
      if \<not> ok then Some (rate_limit_exceeded rnd (sv_now sv) c w, sv)
      else
        (let w = set_header ''X-RateLimit-Limit'' (fmt_d (rc_requests c)) w;
             w = set_header ''X-RateLimit-Remaining'' (fmt_d (remaining_tokens key rl)) w;
             w = set_header ''X-RateLimit-Reset'' (reset_time (sv_now sv) (rc_window c)) w
         in next_handler r w sv))"

definition distributed_limiter_for :: "client_class \<Rightarrow> distributed_limiter" where
  "distributed_limiter_for c = (case c of
     User_Client \<Rightarrow> new_distributed_rate_limiter (Some per_user_rate_limit_config) ''ratelimit:user''
   | Bot_Client \<Rightarrow> new_distributed_rate_limiter (Some per_bot_rate_limit_config) ''ratelimit:bot''
   | Anonymous_Client \<Rightarrow> new_distributed_rate_limiter (Some default_rate_limit_config) ''ratelimit:anon'')"

definition distributed_limit_exceeded ::
    "(rat \<Rightarrow> rat) \<Rightarrow> 's redis \<Rightarrow> distributed_limiter \<Rightarrow> string \<Rightarrow> http_response \<Rightarrow> 's server \<Rightarrow> http_response \<times> 's server" where
  "distributed_limit_exceeded rnd redis dl key w sv =
     (let (s, ttl) = distributed_ttl redis (sv_now sv) dl key (sv_redis sv); sv = sv\<lparr>sv_redis := s\<rparr>;
          ttl_value = (case ttl of Inl e \<Rightarrow> 0 | Inr t \<Rightarrow> t);
          retry_after = fmt_f0 (duration_seconds rnd (if is_ok ttl \<and> ttl_value > 0 then ttl_value else rc_window (dl_config dl)));
          w = set_header ''Content-Type'' ''application/json'' w;
          w = set_header ''Retry-After'' retry_after w;
          w = set_header ''X-RateLimit-Limit'' (fmt_d (rc_requests (dl_config dl))) w;
          w = set_header ''X-RateLimit-Remaining'' ''0'' w;
          w = (if ttl_value > 0 then set_header ''X-RateLimit-Reset'' (reset_time (sv_now sv) ttl_value) w else w)
      in (write_body [Body (''{\"error\":\"rate limit exceeded\",\"retry_after\":'' @ retry_after @ ''}'')] (write_header 429 w), sv))"

definition distributed_rate_limit_handler :: "(rat \<Rightarrow> rat) \<Rightarrow> 's redis \<Rightarrow> bool \<Rightarrow> 's middleware" where
  "distributed_rate_limit_handler rnd redis fallback next_handler r w sv =
     (let (class, key) = client_key r; dl = distributed_limiter_for class;
          (s, ok, e) = distributed_allow redis (sv_now sv) dl key (sv_redis sv); sv = sv\<lparr>sv_redis := s\<rparr> in
      if e \<noteq> None then
        if fallback then next_handler r w sv else Some (http_error (Body ''Service temporarily unavailable'') 503 w, sv)
      else if \<not> ok then Some (distributed_limit_exceeded rnd redis dl key w sv)
      else case distributed_remaining redis (sv_now sv) dl key (sv_redis sv) of
        (s, Inl e) \<Rightarrow> next_handler r w (sv\<lparr>sv_redis := s\<rparr>)
      | (s, Inr n) \<Rightarrow>
          (let w = set_header ''X-RateLimit-Limit'' (fmt_d (rc_requests (dl_config dl))) w;
               w = set_header ''X-RateLimit-Remaining'' (fmt_d n) w;
               (s, ttl) = distributed_ttl redis (sv_now sv) dl key s; sv = sv\<lparr>sv_redis := s\<rparr>;
               w = (case ttl of
                 Inr t \<Rightarrow> if t > 0 then set_header ''X-RateLimit-Reset'' (reset_time (sv_now sv) t) w else w
               | Inl e \<Rightarrow> w)
           in next_handler r w sv))"

end
