(* ===== verification/Auth_Props.thy ===== *)
theory Auth_Props
  imports Auth_Tokens
begin

text \<open>
  A generated token is accepted by the format check, shows its own prefix, and its text gives back
  the random bytes.
\<close>

section \<open>Six-bit groups\<close>

lemma six_bits: "byte a div 4 < 64" "byte a mod 4 * 16 + byte b div 16 < 64" "byte b mod 16 * 4 + byte c div 64 < 64"
    "byte c mod 64 < 64" "byte a mod 4 * 16 < 64" "byte b mod 16 * 4 < 64"
  using byte_less [of a] byte_less [of b] byte_less [of c] by auto

lemma byte_halves: "byte a div 16 div 16 = 0" "byte a div 16 mod 16 = byte a div 16" "byte a div 64 div 4 = 0"
    "byte a div 64 mod 4 = byte a div 64"
  using byte_less [of a] by simp_all

section \<open>Encoding and decoding\<close>

lemmas groups = six_bits byte_halves base64_value_char base64_char_kept

lemma base64_encode_kept: "list_all (\<lambda>c. c \<noteq> CHR 0x0A \<and> c \<noteq> CHR 0x0D) (base64_encode s)"
  by (induction s rule: base64_encode.induct) (simp_all add: groups)

lemma base64_values_bytes: "\<exists>vs. all_values (base64_encode s) = Some vs \<and> base64_bytes vs = Some s"
proof (induction s rule: base64_encode.induct)
  case (4 a b c s)
  then obtain vs where vs: "all_values (base64_encode s) = Some vs" "base64_bytes vs = Some s" by blast
  then show ?case by (simp add: groups)
qed (simp_all add: groups)

lemma base64_decode_encode: "base64_decode (base64_encode s) = Some s"
proof -
  have "filter (\<lambda>c. c \<noteq> CHR 0x0A \<and> c \<noteq> CHR 0x0D) (base64_encode s) = base64_encode s"
    using base64_encode_kept [of s] by (simp add: filter_id_conv list_all_iff)
  then show ?thesis using base64_values_bytes [of s] by (auto simp: base64_decode_def)
qed

lemma base64_encode_long: "length s \<ge> 6 \<Longrightarrow> length (base64_encode s) \<ge> 8"
proof -
  assume l: "length s \<ge> 6"
  obtain a b c d e f t where s: "s = a # b # c # d # e # f # t"
    using l by (metis Suc_le_length_iff numeral_eq_Suc pred_numeral_simps(2,3) BitM.simps(1,2) eval_nat_numeral(3) semiring_norm(26,27,28))
  show ?thesis unfolding s by simp
qed

lemma base64_encode_Nil: "base64_encode s = [] \<longleftrightarrow> s = []"
  by (cases s rule: base64_encode.cases) auto

section \<open>Tokens\<close>

lemma token_prefix_append: "has_prefix (token_prefix @ s) token_prefix" "drop (length token_prefix) (token_prefix @ s) = s"
  by (simp_all add: has_prefix_def)

text \<open>
  A token made from 32 random bytes passes the format check, shows the same prefix when it is presented as when it
  was made, has the stored hash, and its text determines the bytes: no two draws give one token.
\<close>

lemma generated_token_round_trip:
  assumes "length bytes = 32" and "create_token sha bytes now user name description scopes expires = (t, token)"
  shows "validate_token_format token = Inr () \<and> extract_prefix token = tk_prefix t \<and> hash_token sha token = tk_hash t \<and>
    base64_decode (drop (length token_prefix) token) = Some bytes"
proof -
  let ?e = "base64_encode bytes"
  have token: "token = token_prefix @ ?e" and hash: "tk_hash t = hash_token sha token"
    and prefix: "tk_prefix t = token_prefix @ take 8 ?e"
    using assms base64_encode_long [of bytes]
    by (auto simp: create_token_def generate_token_def Let_def hash_token_def)
  have "?e \<noteq> []" using assms(1) base64_encode_Nil [of bytes] by auto
  then have "validate_token_format token = Inr ()"
    by (simp add: validate_token_format_def token token_prefix_append base64_decode_encode Let_def)
  moreover have "extract_prefix token = tk_prefix t"
    using base64_encode_long [of bytes] assms(1)
    by (simp add: extract_prefix_def token prefix token_prefix_append Let_def)
  ultimately show ?thesis by (simp add: hash token token_prefix_append base64_decode_encode)
qed

end
