(* ===== verification/Middleware_Props.thy ===== *)
theory Middleware_Props
  imports Middleware_Chain Auth_Props
begin

text \<open>
  What the middleware guarantees, and what it does not: cleaning up buckets changes no answer, a client that keeps
  sending is never served again by the Redis limiter, no authenticated request is served, no quota is checked.
\<close>

section \<open>The token bucket\<close>

text \<open>IEEE rounding to \<open>float64\<close> is monotone and exact on the integers of 53 bits.\<close>

definition float_rounding :: "(rat \<Rightarrow> rat) \<Rightarrow> bool" where
  "float_rounding rnd \<longleftrightarrow> mono rnd \<and> (\<forall>i. \<bar>i\<bar> \<le> 2 ^ 53 \<longrightarrow> rnd (of_int i) = of_int i)"

lemma float_rounding_id: "float_rounding (\<lambda>q. q)"
  by (simp add: float_rounding_def mono_def)

lemma rnd_int: "float_rounding rnd \<Longrightarrow> \<bar>i\<bar> \<le> 2 ^ 53 \<Longrightarrow> rnd (of_int i) = of_int i"
  by (simp add: float_rounding_def)

lemma rnd_zero: "float_rounding rnd \<Longrightarrow> rnd 0 = 0"
  using rnd_int [of rnd 0] by simp

lemma rnd_at_least: "float_rounding rnd \<Longrightarrow> 0 \<le> i \<Longrightarrow> i \<le> 2 ^ 53 \<Longrightarrow> of_int i \<le> q \<Longrightarrow> of_int i \<le> rnd q"
  using rnd_int [of rnd i] by (metis abs_of_nonneg float_rounding_def monoD)

lemma rnd_nonneg: "float_rounding rnd \<Longrightarrow> 0 \<le> q \<Longrightarrow> 0 \<le> rnd q"
  using rnd_at_least [of rnd 0 q] by simp

lemma seconds_nonneg_time:
  "0 \<le> d \<Longrightarrow> duration_seconds rnd d = rnd (rnd (of_int (d div 10 ^ 9)) + rnd (rnd (of_int (d mod 10 ^ 9)) / 10 ^ 9))"
  by (cases "d = 0") (simp_all add: duration_seconds_def signed_divide_int_def signed_modulo_int_def)

lemma seconds_exact:
  assumes "float_rounding rnd" "0 \<le> w" "w \<le> 2 ^ 53"
  shows "duration_seconds rnd (w * 10 ^ 9) = of_int w"
proof -
  have "w * 10 ^ 9 div 10 ^ 9 = w" "w * 10 ^ 9 mod 10 ^ 9 = (0 :: int)" by simp_all
  then have "duration_seconds rnd (w * 10 ^ 9) = rnd (rnd (of_int w) + rnd (rnd (of_int 0) / 10 ^ 9))"
    using assms(2) by (simp only: seconds_nonneg_time mult_nonneg_nonneg zero_le_numeral zero_le_power)
  then show ?thesis using assms rnd_int [OF assms(1), of w] by (simp add: rnd_zero)
qed

lemma seconds_at_least:
  assumes "float_rounding rnd" "0 \<le> w" "w \<le> 2 ^ 53" "w * 10 ^ 9 \<le> d"
  shows "of_int w \<le> duration_seconds rnd d"
proof -
  have "0 \<le> w * 10 ^ 9" using assms(2) by (rule mult_nonneg_nonneg) simp
  then have d: "0 \<le> d" using assms(4) by (rule order.trans)
  have "w * 10 ^ 9 div 10 ^ 9 \<le> d div 10 ^ 9" using assms(4) by (rule zdiv_mono1) simp
  then have "of_int w \<le> (of_int (d div 10 ^ 9) :: rat)" by simp
  then have whole: "of_int w \<le> rnd (of_int (d div 10 ^ 9))" by (rule rnd_at_least [OF assms(1-3)])
  have "0 \<le> rnd (rnd (of_int (d mod 10 ^ 9)) / 10 ^ 9)"
    by (intro rnd_nonneg [OF assms(1)] divide_nonneg_nonneg) simp_all
  then have "of_int w + 0 \<le> rnd (of_int (d div 10 ^ 9)) + rnd (rnd (of_int (d mod 10 ^ 9)) / 10 ^ 9)"
    by (rule add_mono [OF whole])
  then show ?thesis unfolding seconds_nonneg_time [OF d] add_0_right by (rule rnd_at_least [OF assms(1-3)])
qed

text \<open>A configuration whose window is a number of seconds and whose burst is no larger than the rate, as all three are.\<close>

definition usual_config :: "rate_config \<Rightarrow> bool" where
  "usual_config c \<longleftrightarrow> 0 < rc_requests c \<and> 0 \<le> rc_burst c \<and> rc_burst c \<le> rc_requests c \<and> rc_window c mod 10 ^ 9 = 0 \<and>
     0 < rc_window c \<and> 2 * (rc_window c div 10 ^ 9) * rc_requests c \<le> 2 ^ 53"

lemma usual_configs: "list_all usual_config [default_rate_limit_config, per_user_rate_limit_config, per_bot_rate_limit_config]"
  by code_simp

lemma usual_window:
  assumes "usual_config c"
  obtains w where "rc_window c = w * 10 ^ 9" "0 < w" "2 * w * rc_requests c \<le> 2 ^ 53" "2 * w \<le> 2 ^ 53"
    "2 * rc_requests c \<le> 2 ^ 53"
proof -
  define w where "w = rc_window c div 10 ^ 9"
  have c: "rc_window c mod 10 ^ 9 = 0" "0 < rc_window c" "2 * w * rc_requests c \<le> 2 ^ 53" "0 < rc_requests c"
    using assms by (simp_all add: usual_config_def w_def)
  have eq: "rc_window c = w * 10 ^ 9"
    using c(1) by (metis w_def add.right_neutral div_mult_mod_eq)
  then have w: "0 < w" using c(2) by (simp add: zero_less_mult_iff)
  have "2 * w * 1 \<le> 2 * w * rc_requests c" using w c(4) by (intro mult_left_mono) auto
  moreover have "2 * 1 * rc_requests c \<le> 2 * w * rc_requests c" using w c(4) by (intro mult_right_mono) auto
  ultimately show thesis using that [of w] eq w c(3) by linarith
qed

lemma tokens_to_add_zero: "float_rounding rnd \<Longrightarrow> tokens_to_add rnd c 0 = 0"
  using seconds_exact [of rnd 0] by (simp add: tokens_to_add_def rnd_zero float_to_int_def)

lemma tokens_to_add_stale:
  assumes "float_rounding rnd" "usual_config c" "rc_window c * 2 \<le> d"
  shows "2 * rc_requests c \<le> tokens_to_add rnd c d"
proof -
  obtain w where w: "rc_window c = w * 10 ^ 9" "0 < w" "2 * w * rc_requests c \<le> 2 ^ 53" "2 * w \<le> 2 ^ 53"
    "2 * rc_requests c \<le> 2 ^ 53"
    using assms(2) by (rule usual_window)
  define n where "n = rc_requests c"
  have n: "0 < n" "2 * n \<le> 2 ^ 53" "2 * w * n \<le> 2 ^ 53" using assms(2) w by (simp_all add: usual_config_def n_def)
  then have exact: "rnd (of_int n) = of_int n" using assms(1) by (intro rnd_int) auto
  have "2 * w * 10 ^ 9 \<le> d" using assms(3) unfolding w(1) by (simp only: mult.assoc mult.commute)
  then have "of_int (2 * w) \<le> duration_seconds rnd d" using assms(1) w by (intro seconds_at_least) simp_all
  then have "of_int (2 * w) * of_int n \<le> duration_seconds rnd d * of_int n" using n by (intro mult_right_mono) simp_all
  moreover have p2: "0 \<le> 2 * n" using n(1) by simp
  moreover have p: "0 \<le> 2 * w * n" using w(2) n(1) by (simp only: mult_nonneg_nonneg less_imp_le zero_le_numeral)
  ultimately have "of_int (2 * w * n) \<le> rnd (duration_seconds rnd d * rnd (of_int n))"
    unfolding exact by (intro rnd_at_least [OF assms(1) p n(3)]) (simp only: of_int_mult)
  moreover have "(of_int (2 * w * n) :: rat) = of_int (2 * n) * of_int w" by simp
  ultimately have "of_int (2 * n) \<le> rnd (duration_seconds rnd d * rnd (of_int n)) / of_int w"
    using w(2) by (simp only: pos_le_divide_eq of_int_0_less_iff)
  then have "of_int (2 * n) \<le> rnd (rnd (duration_seconds rnd d * rnd (of_int n)) / of_int w)"
    by (rule rnd_at_least [OF assms(1) p2 n(2)])
  moreover have "duration_seconds rnd (rc_window c) = of_int w"
    unfolding w(1) using assms(1) w by (intro seconds_exact) simp_all
  ultimately have "of_int (2 * n) \<le> rnd (rnd (duration_seconds rnd d * rnd (of_int n)) / duration_seconds rnd (rc_window c))"
    by simp
  then have "2 * n \<le> \<lfloor>rnd (rnd (duration_seconds rnd d * rnd (of_int n)) / duration_seconds rnd (rc_window c))\<rfloor>" (is "_ \<le> \<lfloor>?q\<rfloor>")
    by (simp only: le_floor_iff)
  moreover from this have "\<not> ?q < 0" using n(1) by linarith
  ultimately show ?thesis unfolding tokens_to_add_def float_to_int_def n_def by simp
qed

text \<open>
  A limiter that is cleaned up and one that is not: they hold the same buckets, but for stale ones that only the
  second holds.
\<close>

definition stale :: "rate_config \<Rightarrow> int \<Rightarrow> memory_bucket \<Rightarrow> bool" where
  "stale c now b \<longleftrightarrow> 0 \<le> tb_tokens b \<and> now - tb_last b > rc_window c * 2"

definition cleaner :: "int \<Rightarrow> memory_limiter \<Rightarrow> memory_limiter \<Rightarrow> bool" where
  "cleaner now rl cl \<longleftrightarrow> rl_config cl = rl_config rl \<and> gm_ok (rl_buckets cl) \<and>
     (\<forall>k b. gm_get (rl_buckets rl) k = Some b \<longrightarrow> 0 \<le> tb_tokens b) \<and>
     (\<forall>k. gm_get (rl_buckets cl) k = gm_get (rl_buckets rl) k \<or>
        gm_get (rl_buckets cl) k = None \<and> (\<exists>b. gm_get (rl_buckets rl) k = Some b \<and> stale (rl_config rl) now b))"

lemma cleaner_later: "cleaner now rl cl \<Longrightarrow> now \<le> later \<Longrightarrow> cleaner later rl cl"
  unfolding cleaner_def stale_def by (fastforce simp del: gm_get_iff)

lemma refill_stale:
  assumes "float_rounding rnd" "usual_config c" "stale c now b"
  shows "refill_bucket rnd c now b = \<lparr>tb_tokens = max_tokens c, tb_last = now\<rparr>"
proof -
  have "2 * rc_requests c \<le> tokens_to_add rnd c (now - tb_last b)"
    using assms by (intro tokens_to_add_stale) (simp_all add: stale_def)
  then show ?thesis using assms(2,3) by (simp add: refill_bucket_def stale_def usual_config_def max_tokens_def Let_def)
qed

lemma refill_new:
  "float_rounding rnd \<Longrightarrow> refill_bucket rnd c now \<lparr>tb_tokens = n, tb_last = now\<rparr> = \<lparr>tb_tokens = n, tb_last = now\<rparr>"
  by (simp add: refill_bucket_def tokens_to_add_zero)

lemma refill_tokens: "0 \<le> tb_tokens b \<Longrightarrow> 0 \<le> max_tokens c \<Longrightarrow> 0 \<le> tb_tokens (refill_bucket rnd c now b)"
  by (simp add: refill_bucket_def Let_def)

lemma take_token_tokens: "0 \<le> tb_tokens b \<Longrightarrow> spend_token b = (b', ok) \<Longrightarrow> 0 \<le> tb_tokens b'"
  by (auto simp: spend_token_def split: if_splits)

lemma cleaner_refill:
  assumes "float_rounding rnd" "usual_config (rl_config rl)" "cleaner t rl cl"
  shows "refill_bucket rnd (rl_config cl) t (bucket_of t key cl) = refill_bucket rnd (rl_config rl) t (bucket_of t key rl)"
proof -
  have c: "rl_config cl = rl_config rl" using assms(3) by (simp add: cleaner_def)
  consider "gm_get (rl_buckets cl) key = gm_get (rl_buckets rl) key"
    | b where "gm_get (rl_buckets cl) key = None" "gm_get (rl_buckets rl) key = Some b" "stale (rl_config rl) t b"
    using assms(3) unfolding cleaner_def by blast
  then show ?thesis
  proof cases
    case 1
    then show ?thesis by (cases "gm_get (rl_buckets rl) key") (simp_all add: bucket_of_def c)
  next
    case 2
    then show ?thesis using assms by (simp add: bucket_of_def c refill_stale refill_new)
  qed
qed

lemma cleaner_allow:
  assumes "float_rounding rnd" "usual_config (rl_config rl)" "cleaner t rl cl"
    and "memory_allow rnd t t key rl = (rl', ok)" "memory_allow rnd t t key cl = (cl', ok')"
  shows "ok' = ok \<and> cleaner t rl' cl' \<and> rl_config rl' = rl_config rl"
proof -
  obtain b k where b: "spend_token (refill_bucket rnd (rl_config rl) t (bucket_of t key rl)) = (b, k)" by fastforce
  have rl': "rl' = rl\<lparr>rl_buckets := gm_put key b (rl_buckets rl)\<rparr>" "ok = k"
    using assms(4) b by (simp_all add: memory_allow_def)
  have cl': "cl' = cl\<lparr>rl_buckets := gm_put key b (rl_buckets cl)\<rparr>" "ok' = k"
    using assms(5) b cleaner_refill [OF assms(1-3), of key] by (simp_all add: memory_allow_def)
  have "0 \<le> max_tokens (rl_config rl)" using assms(2) by (simp add: usual_config_def max_tokens_def)
  moreover from this have "0 \<le> tb_tokens (bucket_of t key rl)"
    using assms(3) by (auto simp: bucket_of_def cleaner_def split: option.splits)
  ultimately have "0 \<le> tb_tokens b" using b by (metis refill_tokens take_token_tokens)
  then have "cleaner t rl' cl'" using assms(3) unfolding rl' cl' cleaner_def by (simp add: gm_get_put)
  then show ?thesis by (simp add: rl' cl')
qed

lemma gm_get_filter: "gm_ok m \<Longrightarrow> gm_get (filter P m) k = (case gm_get m k of Some v \<Rightarrow> if P (k, v) then Some v else None | None \<Rightarrow> None)"
proof (induction m)
  case (Cons x m)
  obtain j v where x: "x = (j, v)" by fastforce
  have "gm_get (filter P m) k = None" if "j = k"
    using Cons.prems that by (force simp: x gm_ok_Cons map_of_eq_None_iff)
  then show ?case using Cons by (auto simp: x gm_ok_Cons split: option.splits)
qed simp

lemma gm_ok_filter: "gm_ok m \<Longrightarrow> gm_ok (filter P m)"
  by (simp add: gm_ok_def distinct_map_filter)

lemma cleaner_cleanup:
  assumes "cleaner t rl cl"
  shows "cleaner t rl (cleanup_buckets t cl)"
proof -
  have c: "rl_config cl = rl_config rl" "gm_ok (rl_buckets cl)" using assms by (simp_all add: cleaner_def)
  let ?P = "\<lambda>(k, b). \<not> t - tb_last b > rc_window (rl_config cl) * 2"
  have cleaned: "rl_buckets (cleanup_buckets t cl) = filter ?P (rl_buckets cl)" by (simp add: cleanup_buckets_def)
  have "gm_get (filter ?P (rl_buckets cl)) k = gm_get (rl_buckets rl) k \<or>
      gm_get (filter ?P (rl_buckets cl)) k = None \<and> (\<exists>b. gm_get (rl_buckets rl) k = Some b \<and> stale (rl_config rl) t b)" for k
  proof (cases "gm_get (rl_buckets cl) k")
    case None
    then show ?thesis using assms c by (simp add: gm_get_filter cleaner_def) metis
  next
    case (Some b)
    then have "gm_get (rl_buckets rl) k = Some b" "0 \<le> tb_tokens b" using assms unfolding cleaner_def by (metis option.distinct(1))+
    then show ?thesis using Some c by (simp add: gm_get_filter stale_def)
  qed
  then show ?thesis using assms c by (simp add: cleaner_def cleaned gm_ok_filter) (simp add: cleanup_buckets_def)
qed

lemma run_limiter_cleaner:
  assumes "float_rounding rnd" "usual_config (rl_config rl)" "cleaner now rl cl" "sorted_wrt (\<le>) (map event_time es)"
    "list_all (\<lambda>e. now \<le> event_time e) es"
  shows "run_limiter rnd es cl = run_limiter rnd (filter is_request es) rl"
  using assms(2-)
proof (induction es arbitrary: now rl cl)
  case (Cons e es)
  let ?t = "event_time e"
  have later: "cleaner ?t rl cl" using Cons.prems by (auto intro: cleaner_later)
  have rest: "sorted_wrt (\<le>) (map event_time es)" "list_all (\<lambda>e. ?t \<le> event_time e) es"
    using Cons.prems by (auto simp: list_all_iff)
  show ?case
  proof (cases e)
    case (Request t key)
    obtain rl' ok where r: "memory_allow rnd t t key rl = (rl', ok)" by fastforce
    obtain cl' ok' where c: "memory_allow rnd t t key cl = (cl', ok')" by fastforce
    have "ok' = ok \<and> cleaner t rl' cl' \<and> rl_config rl' = rl_config rl"
      using cleaner_allow [OF assms(1) Cons.prems(1) _ r c] later Request by simp
    then show ?thesis using Cons.IH [of rl' t cl'] Cons.prems(1) rest r c by (simp add: Request)
  next
    case (Cleanup_Tick t)
    then show ?thesis using Cons.IH [of rl t "cleanup_buckets t cl"] later Cons.prems(1) rest by (simp add: cleaner_cleanup)
  qed
qed simp

text \<open>
  Cleaning up is invisible: a new limiter with one of the usual configurations gives every sequence of requests the
  same answers, whenever the buckets that have been idle for two windows are removed in between.
\<close>

lemma cleanup_changes_no_answer:
  assumes "float_rounding rnd" "usual_config c" "sorted_wrt (\<le>) (map event_time es)"
  shows "run_limiter rnd es (new_memory_limiter (Some c)) = run_limiter rnd (filter is_request es) (new_memory_limiter (Some c))"
proof (cases es)
  case (Cons e es')
  have "cleaner (event_time e) (new_memory_limiter (Some c)) (new_memory_limiter (Some c))"
    by (simp add: cleaner_def new_memory_limiter_def)
  moreover have "list_all (\<lambda>x. event_time e \<le> event_time x) es" using assms(3) Cons by (auto simp: list_all_iff)
  ultimately show ?thesis using assms by (intro run_limiter_cleaner) (simp_all add: new_memory_limiter_def)
qed simp

section \<open>The counter in Redis\<close>

text \<open>
  What Redis documents of \<open>INCR\<close> and \<open>EXPIRE\<close>: a counter that is absent or has expired counts from zero, and its
  life starts again at every \<open>EXPIRE\<close>. \<open>view\<close> reads a counter and the time it expires at.
\<close>

definition live_count :: "('s \<Rightarrow> string \<Rightarrow> (int \<times> int) option) \<Rightarrow> int \<Rightarrow> 's \<Rightarrow> string \<Rightarrow> int" where
  "live_count view now s k = (case view s k of Some (n, expires) \<Rightarrow> if now < expires then n else 0 | None \<Rightarrow> 0)"

definition redis_counts :: "'s redis \<Rightarrow> ('s \<Rightarrow> string \<Rightarrow> (int \<times> int) option) \<Rightarrow> bool" where
  "redis_counts redis view \<longleftrightarrow> (\<forall>now s k d. 0 < d \<longrightarrow>
     (\<exists>s' rs. redis now [Incr k, Expire k d] s = (s', Inr (Reply_Int (live_count view now s k + 1) # rs)) \<and>
        view s' k = Some (live_count view now s k + 1, now + d)))"

fun gaps_below :: "int \<Rightarrow> int list \<Rightarrow> bool" where
  "gaps_below d (t # u # ts) \<longleftrightarrow> u - t < d \<and> gaps_below d (u # ts)"
| "gaps_below d ts \<longleftrightarrow> True"

lemma run_distributed_steady:
  assumes "redis_counts redis view" "0 < rc_window (dl_config dl)" "gaps_below (rc_window (dl_config dl)) ts"
    "ts \<noteq> [] \<Longrightarrow> live_count view (hd ts) s (redis_key dl key) = n"
  shows "run_distributed redis dl key ts s = map (\<lambda>i. n + int i < rc_requests (dl_config dl)) [0..<length ts]"
  using assms(3,4)
proof (induction ts arbitrary: s n)
  case (Cons t ts)
  let ?k = "redis_key dl key" and ?d = "rc_window (dl_config dl)" and ?m = "rc_requests (dl_config dl)"
  have n: "live_count view t s ?k = n" using Cons.prems(2) by simp
  then obtain s' rs where s': "redis t [Incr ?k, Expire ?k ?d] s = (s', Inr (Reply_Int (n + 1) # rs))"
    "view s' ?k = Some (n + 1, t + ?d)"
    using assms(1,2) unfolding redis_counts_def by blast
  have "live_count view (hd ts) s' ?k = n + 1" if "ts \<noteq> []"
    using that Cons.prems(1) s'(2) by (cases ts) (simp_all add: live_count_def)
  moreover have "gaps_below ?d ts" using Cons.prems(1) by (cases ts) simp_all
  ultimately have "run_distributed redis dl key ts s' = map (\<lambda>i. n + 1 + int i < ?m) [0..<length ts]"
    using Cons.IH by blast
  moreover have "map (\<lambda>i. n + int i < ?m) [0..<length (t # ts)] = (n + 1 \<le> ?m) # map (\<lambda>i. n + 1 + int i < ?m) [0..<length ts]"
    by (rule nth_equalityI) (auto simp: nth_Cons' nth_append algebra_simps)
  ultimately show ?case by (simp add: distributed_allow_def s'(1) first_int_def)
qed simp


text \<open>A store of counters in memory that behaves like this.\<close>

definition memory_view :: "(string \<times> int \<times> int) list \<Rightarrow> string \<Rightarrow> (int \<times> int) option" where
  "memory_view s k = map_of s k"

definition memory_redis :: "(string \<times> int \<times> int) list redis" where
  "memory_redis now cs s = (case cs of
     [Incr k, Expire j d] \<Rightarrow>
       (let n = live_count memory_view now s k + 1 in ((k, n, now + d) # s, Inr [Reply_Int n, Reply_Int 1]))
   | _ \<Rightarrow> (s, Inl ''unsupported''))"

lemma memory_redis_counts: "redis_counts memory_redis memory_view"
  by (simp add: redis_counts_def memory_redis_def memory_view_def Let_def)


section \<open>Authentication\<close>

lemma validate_token_refuses: "\<exists>e. validate_token sha token = Inl e"
  by (cases "validate_token_format token") (simp_all add: validate_token_def)

text \<open>What the authentication does with a request, whatever token comes with it.\<close>

lemma auth_handler_cases:
  obtains "auth_handler sha optional next_handler r w sv = next_handler r w sv" "header_of r ''Authorization'' = []" "optional"
  | message where "\<And>next_handler. auth_handler sha optional next_handler r w sv = Some (unauthorized_response message w, sv)"
proof (cases "header_of r ''Authorization'' = []")
  case True
  then show ?thesis using that by (cases optional) (simp_all add: auth_handler_def)
next
  case False
  show ?thesis
  proof (cases "split_blank (header_of r ''Authorization'')")
    case None
    then show ?thesis using False that(2) by (simp add: auth_handler_def)
  next
    case (Some st)
    obtain scheme token where st: "st = (scheme, token)" by fastforce
    obtain e where "validate_token sha token = Inl e" using validate_token_refuses by blast
    then show ?thesis using False Some st that(2) by (cases "scheme = ''Bearer''") (simp_all add: auth_handler_def)
  qed
qed

lemma guards_refuse:
  assumes "guard = require_scope scope \<and> get_auth_context r = None \<or> guard = require_role role \<or>
    guard = require_module_permission param perm"
  shows "\<exists>message. guard next_handler r w sv = Some (forbidden_response message w, sv)"
  using assms
  by (cases "get_auth_context r")
    (auto simp: require_scope_def require_role_def require_module_permission_def has_role_def has_permission_def)

text \<open>
  C21. No request that comes without an authentication context is let through the authentication and a check of scope,
  role or module permission: whatever token it presents, it is refused and the server is as before. A check of role or
  module permission lets nobody through, not even with such a context.
\<close>

theorem protected_handlers_unreachable:
  assumes "guard = require_scope scope \<and> get_auth_context r = None \<or> guard = require_role role \<or>
    guard = require_module_permission param perm"
  shows "\<exists>message. auth_handler sha optional (guard next_handler) r w sv \<in>
    {Some (unauthorized_response message w, sv), Some (forbidden_response message w, sv)}"
proof (cases rule: auth_handler_cases [of sha optional "guard next_handler" r w sv])
  case 1
  then show ?thesis using guards_refuse [OF assms, of next_handler w sv] by auto
next
  case (2 message)
  then show ?thesis by blast
qed

definition plain_request :: http_request where
  "plain_request = \<lparr>rq_method = ''POST'', rq_headers = [(''Authorization'', ''Bearer spoke_AAAA'')], rq_remote = ''10.0.0.1:80'',
     rq_vars = [], rq_ctx = []\<rparr>"

definition blank_response :: http_response where
  "blank_response = \<lparr>rs_headers = [], rs_status = 0, rs_body = []\<rparr>"

definition small_org :: organization where
  "small_org = \<lparr>og_id = 3, og_name = ''acme'', og_slug = ''acme'', og_display_name = [], og_description = [], og_owner = None,
     og_tier = ''small'', og_status = ''active'', og_active = True, og_settings = [], og_created = 0, og_updated = 0\<rparr>"

definition small_usage :: org_usage where
  "small_usage = \<lparr>ou_id = 5, ou_org = 3, ou_start = 0, ou_end = 2678400, ou_modules = 10, ou_versions = 0, ou_storage = 0,
     ou_jobs = 0, ou_requests = 0, ou_created = 0, ou_updated = 0\<rparr>"

definition small_server :: "unit server" where
  "small_server = \<lparr>sv_now = 0, sv_zone = 0, sv_user_limiter = new_memory_limiter (Some per_user_rate_limit_config),
     sv_bot_limiter = new_memory_limiter (Some per_bot_rate_limit_config), sv_anonymous_limiter = new_memory_limiter None,
     sv_redis = (), sv_orgs = \<lparr>od_orgs = [small_org], od_quotas = [(get_default_quotas ''small'')\<lparr>oq_org := 3\<rparr>],
       od_usage = [small_usage], od_members = [], od_users = [], od_invitations = [], od_modules = [], od_versions = [],
       od_audit = [], od_seq = 9\<rparr>, sv_tasks = []\<rparr>"

theorem protected_handlers_unreachable_witness:
  "\<exists>message. auth_handler (\<lambda>s. s) True (require_scope ''module:read'' (\<lambda>r w sv. Some (w, sv))) plain_request blank_response small_server \<in>
    {Some (unauthorized_response message blank_response, small_server), Some (forbidden_response message blank_response, small_server)}"
  by (rule protected_handlers_unreachable [where guard = "require_scope ''module:read''" and scope = "''module:read''"])
    (simp add: get_auth_context_def plain_request_def)

section \<open>Quotas\<close>

text \<open>No part of the server but this middleware writes the plain keys it reads.\<close>

definition without_plain_org :: "ctx \<Rightarrow> bool" where
  "without_plain_org c \<longleftrightarrow> map_of c (Plain_Key ''auth'') = None \<and> map_of c (Plain_Key ''org_id'') = None"

lemma without_plain_org [simp]: "without_plain_org []" "without_plain_org (with_auth c a) = without_plain_org c"
    "without_plain_org (with_org c g) = without_plain_org c" "without_plain_org (with_request_id c i) = without_plain_org c"
    "without_plain_org (with_user_id c i) = without_plain_org c"
  by (simp_all add: without_plain_org_def with_auth_def with_org_def with_request_id_def with_user_id_def with_value_def
      auth_key_def org_key_def request_id_key_def user_id_key_def)

lemma quota_middleware_skips:
  assumes "without_plain_org (rq_ctx r)"
    and "m = api_rate_limit_middleware \<or> m = enforce_module_quota \<or> m = enforce_compile_job_quota"
  shows "quota_org_context_middleware (m next_handler) r w sv = next_handler r w sv"
  using assms
  by (auto simp: without_plain_org_def quota_org_context_middleware_def api_rate_limit_middleware_def enforce_module_quota_def
      enforce_compile_job_quota_def enforce_quota_def get_org_id_from_context_def)

lemma auth_handler_typed:
  assumes "without_plain_org (rq_ctx r)"
    and "\<And>r w sv. without_plain_org (rq_ctx r) \<Longrightarrow> next_handler r w sv = next_handler' r w sv"
  shows "auth_handler sha optional next_handler r w sv = auth_handler sha optional next_handler' r w sv"
  by (cases rule: auth_handler_cases [of sha optional next_handler r w sv]) (use assms in \<open>auto simp: auth_handler_def\<close>)

text \<open>
  Stacked in the documented order (authentication, the organization of the context, then a quota), the middleware of
  \<open>quota.go\<close> checks and counts nothing: it looks for the organization under plain string
  keys, and the contexts hold it under typed ones.
\<close>

lemma quota_middleware_checks_nothing:
  assumes "without_plain_org (rq_ctx r)"
    and "m = api_rate_limit_middleware \<or> m = enforce_module_quota \<or> m = enforce_compile_job_quota"
  shows "auth_handler sha optional (quota_org_context_middleware (m next_handler)) r w sv =
    auth_handler sha optional next_handler r w sv"
  using assms(1) by (rule auth_handler_typed) (rule quota_middleware_skips [OF _ assms(2)])

definition member_context :: auth_context where
  "member_context = \<lparr>ac_user = Some \<lparr>au_id = 7, au_username = ''ann'', au_is_bot = False, au_is_active = True\<rparr>,
     ac_org = Some \<lparr>ag_id = 3, ag_name = ''acme''\<rparr>, ac_token = None, ac_scopes = [''*'']\<rparr>"

text \<open>
  The middleware of \<open>org.go\<close> does check: for a route with an organization, a request other than \<open>GET\<close> is answered
  429 when as many modules as allowed have been counted in the current period, and served with the organization in its
  context when not.
\<close>

lemma org_module_quota_enforced:
  assumes "gm_get (rq_vars r) ''org_id'' = Some i" "atoi i = Some (og_id g)" "get_organization (og_id g) (sv_orgs sv) = Inr g"
    "rq_method r \<noteq> ''GET''" "get_quotas (og_id g) (sv_orgs sv) = Inr q"
    "current_usage (server_clock sv) (og_id g) (sv_orgs sv) = Some u"
  shows "org_context_middleware (quota_check_middleware ''module'' next_handler) r w sv =
    (if ou_modules u \<ge> oq_max_modules q
     then Some (quota_exceeded_response ''modules'' (ou_modules u) (oq_max_modules q) w, sv)
     else next_handler (r\<lparr>rq_ctx := with_org (rq_ctx r) g\<rparr>) w sv)"
proof -
  have "org_of_request (r\<lparr>rq_ctx := with_org (rq_ctx r) g\<rparr>) = Some g"
    by (simp add: org_of_request_def with_org_def with_value_def)
  moreover have "get_usage (server_clock sv) (og_id g) (sv_orgs sv) = Some (sv_orgs sv, Inr u)"
    using assms(6) by (simp add: get_usage.simps)
  then have "check_module_quota (server_clock sv) (og_id g) (sv_orgs sv) = Some (sv_orgs sv,
      if ou_modules u \<ge> oq_max_modules q then Inl (Quota_Exceeded ''modules'' (ou_modules u) (oq_max_modules q)) else Inr ())"
    using assms(5) by (simp add: check_module_quota_def check_usage_def)
  ultimately show ?thesis using assms(1-4)
    by (simp add: org_context_middleware_def quota_check_middleware_def quota_check_def)
qed

section \<open>Whose requests are limited\<close>

lemma allow_fresh_key:
  assumes "float_rounding rnd" "0 < max_tokens (rl_config rl)" "gm_get (rl_buckets rl) key = None"
  shows "memory_allow rnd t t key rl =
    (rl\<lparr>rl_buckets := gm_put key \<lparr>tb_tokens = max_tokens (rl_config rl) - 1, tb_last = t\<rparr> (rl_buckets rl)\<rparr>, True)"
  using assms by (simp add: memory_allow_def bucket_of_def refill_new spend_token_def)

text \<open>
  A request without an authentication context and with an \<open>X-Forwarded-For\<close> value that was not used before is let
  through by the limiter in memory, from whatever address and however often that address was refused.
\<close>

lemma forwarded_request_passes:
  assumes "float_rounding rnd" "usual_config (rl_config (sv_anonymous_limiter sv))" "get_auth_context r = None"
    "header_of r ''X-Forwarded-For'' = forwarded" "forwarded \<noteq> []"
    "gm_get (rl_buckets (sv_anonymous_limiter sv)) (''ip:'' @ forwarded) = None"
  shows "\<exists>w' sv'. rate_limit_handler rnd next_handler r w sv = next_handler r w' sv' \<and>
    rs_status w' = rs_status w \<and> rs_body w' = rs_body w"
proof -
  define key where "key = ''ip:'' @ forwarded"
  have fresh: "gm_get (rl_buckets (sv_anonymous_limiter sv)) key = None" using assms(6) by (simp only: key_def)
  have client: "client_key r = (Anonymous_Client, key)"
    using assms(3-5) by (simp add: client_key_def get_client_ip_def key_def)
  have "0 < max_tokens (rl_config (sv_anonymous_limiter sv))"
    using assms(2) by (simp add: usual_config_def max_tokens_def)
  then have allowed: "memory_allow rnd (sv_now sv) (sv_now sv) key (sv_anonymous_limiter sv) =
      (sv_anonymous_limiter sv\<lparr>rl_buckets := gm_put key
         \<lparr>tb_tokens = max_tokens (rl_config (sv_anonymous_limiter sv)) - 1, tb_last = sv_now sv\<rparr>
         (rl_buckets (sv_anonymous_limiter sv))\<rparr>, True)"
    by (rule allow_fresh_key [OF assms(1) _ fresh])
  show ?thesis
    by (simp add: rate_limit_handler_def limiter_for_def client allowed Let_def del: ex_simps)
      (intro exI conjI, rule refl, simp_all add: set_header_def)
qed

end
