(* ===== verification/Rbac_Store.thy ===== *)
theory Rbac_Store
  imports Rbac_Checker
begin

text \<open>
  The writes of access control (\<open>pkg/rbac/store.go\<close>) under the constraints of its schema (\<open>migrations.go\<close>), and
  what the manager does with them (\<open>integration.go\<close>). The tables of the checker stand beside the teams and the ids
  of users and organizations, which other parts of the server write; \<open>rb_seq\<close> is the sequence behind all ids.
\<close>

record rbac_team =
  te_id :: int
  te_org :: int
  te_name :: string
  te_display :: string
  te_description :: string
  te_created_at :: int
  te_updated_at :: int
  te_created_by :: "int option"

record rbac_store =
  rb_db :: rbac_db
  rb_teams :: "rbac_team list"
  rb_users :: "int list"
  rb_orgs :: "int list"
  rb_seq :: int

datatype rbac_store_error = Store_Text string | Store_Wrap string rbac_store_error | Store_Constraint | Store_Role rbac_error
  | Not_Found_Name string | Team_Not_Found int

definition next_id :: "rbac_store \<Rightarrow> int \<times> rbac_store" where
  "next_id st = (rb_seq st, st\<lparr>rb_seq := rb_seq st + 1\<rparr>)"

text \<open>A foreign key holds when it is null or an id of the table.\<close>

definition refers :: "int option \<Rightarrow> int list \<Rightarrow> bool" where
  "refers k ids = (case k of None \<Rightarrow> True | Some i \<Rightarrow> List.member ids i)"

abbreviation role_ids :: "rbac_store \<Rightarrow> int list" where
  "role_ids st \<equiv> map rl_id (db_roles (rb_db st))"

abbreviation team_ids :: "rbac_store \<Rightarrow> int list" where
  "team_ids st \<equiv> map te_id (rb_teams st)"

section \<open>Roles\<close>

text \<open>\<open>UNIQUE(name, organization_id)\<close>: nulls differ from each other, so roles of no organization never clash.\<close>

definition same_role_name :: "rbac_role \<Rightarrow> rbac_role \<Rightarrow> bool" where
  "same_role_name r q \<longleftrightarrow> rl_name r = rl_name q \<and> sql_eq (rl_org r) (rl_org q)"

definition create_role :: "int \<Rightarrow> rbac_role \<Rightarrow> rbac_store \<Rightarrow> rbac_store \<times> (rbac_store_error + rbac_role)" where
  "create_role now r st =
     (let (i, st) = next_id st; r = r\<lparr>rl_id := i, rl_created_at := now, rl_updated_at := now\<rparr> in
      if list_ex (same_role_name r) (db_roles (rb_db st)) \<or> \<not> refers (rl_org r) (rb_orgs st) \<or>
         \<not> refers (rl_parent r) (i # role_ids st) \<or> \<not> refers (rl_created_by r) (rb_users st)
      then (st, Inl (Store_Wrap ''failed to create role'' Store_Constraint))
      else (st\<lparr>rb_db := (rb_db st)\<lparr>db_roles := db_roles (rb_db st) @ [r]\<rparr>\<rparr>, Inr r))"

text \<open>\<open>ORDER BY organization_id DESC NULLS LAST LIMIT 1\<close>.\<close>

definition get_role_by_name :: "string \<Rightarrow> int option \<Rightarrow> rbac_store \<Rightarrow> rbac_store_error + rbac_role" where
  "get_role_by_name name org st =
     (case sort_key (\<lambda>r. case rl_org r of None \<Rightarrow> (1 :: nat) | Some _ \<Rightarrow> 0)
             (filter (\<lambda>r. rl_name r = name \<and> (sql_eq (rl_org r) org \<or> rl_org r = None)) (db_roles (rb_db st))) of
        [] \<Rightarrow> Inl (Not_Found_Name name) | r # _ \<Rightarrow> Inr r)"

text \<open>\<open>ORDER BY is_built_in DESC, name ASC\<close>.\<close>

definition list_roles :: "int option \<Rightarrow> rbac_store \<Rightarrow> rbac_role list" where
  "list_roles org st =
     sort_key (\<lambda>r. if rl_built_in r then (0 :: nat) else 1)
       (sort_key rl_name (filter (\<lambda>r. sql_eq (rl_org r) org \<or> rl_org r = None \<or> rl_built_in r) (db_roles (rb_db st))))"

definition update_role :: "int \<Rightarrow> rbac_role \<Rightarrow> rbac_store \<Rightarrow> rbac_store \<times> (rbac_store_error + rbac_role)" where
  "update_role now r st =
     (if list_ex (\<lambda>q. rl_id q = rl_id r) (db_roles (rb_db st)) \<and> \<not> refers (rl_parent r) (role_ids st)
      then (st, Inl (Store_Wrap ''failed to update role'' Store_Constraint))
      else (st\<lparr>rb_db := (rb_db st)\<lparr>db_roles := map (\<lambda>q. if rl_id q = rl_id r
              then q\<lparr>rl_display := rl_display r, rl_description := rl_description r, rl_permissions := rl_permissions r,
                     rl_parent := rl_parent r, rl_updated_at := now\<rparr> else q) (db_roles (rb_db st))\<rparr>\<rparr>,
            Inr (r\<lparr>rl_updated_at := now\<rparr>)))"

text \<open>\<open>ON DELETE CASCADE\<close> of the assignments, \<open>ON DELETE SET NULL\<close> of parents and of members' roles.\<close>

definition drop_role :: "int \<Rightarrow> rbac_db \<Rightarrow> rbac_db" where
  "drop_role i db = db\<lparr>
     db_roles := map (\<lambda>q. if rl_parent q = Some i then q\<lparr>rl_parent := None\<rparr> else q) (filter (\<lambda>q. rl_id q \<noteq> i) (db_roles db)),
     db_user_roles := filter (\<lambda>u. ur_role u \<noteq> i) (db_user_roles db),
     db_team_roles := filter (\<lambda>t. tr_role t \<noteq> i) (db_team_roles db),
     db_team_members := map (\<lambda>m. if tm_role m = Some i then m\<lparr>tm_role := None\<rparr> else m) (db_team_members db)\<rparr>"

definition delete_role :: "int \<Rightarrow> rbac_store \<Rightarrow> rbac_store \<times> (rbac_store_error + unit)" where
  "delete_role i st = (case get_role (rb_db st) i of
     Inl e \<Rightarrow> (st, Inl (Store_Role e))
   | Inr r \<Rightarrow> if rl_built_in r then (st, Inl (Store_Text ''cannot delete built-in role''))
              else (st\<lparr>rb_db := drop_role i (rb_db st)\<rparr>, Inr ()))"

section \<open>Assignments to users\<close>

definition same_user_role :: "user_role \<Rightarrow> user_role \<Rightarrow> bool" where
  "same_user_role u v \<longleftrightarrow> ur_user u = ur_user v \<and> ur_role u = ur_role v \<and> ur_scope u = ur_scope v \<and>
     (case ur_resource u of None \<Rightarrow> [] | Some s \<Rightarrow> s) = (case ur_resource v of None \<Rightarrow> [] | Some s \<Rightarrow> s) \<and>
     (case ur_org u of None \<Rightarrow> 0 | Some i \<Rightarrow> i) = (case ur_org v of None \<Rightarrow> 0 | Some i \<Rightarrow> i)"

definition assign_role_to_user :: "int \<Rightarrow> user_role \<Rightarrow> rbac_store \<Rightarrow> rbac_store \<times> (rbac_store_error + user_role)" where
  "assign_role_to_user now u st =
     (let (i, st) = next_id st; u = u\<lparr>ur_id := i, ur_granted_at := now\<rparr> in
      if list_ex (same_user_role u) (db_user_roles (rb_db st)) \<or> \<not> refers (Some (ur_user u)) (rb_users st) \<or>
         \<not> refers (Some (ur_role u)) (role_ids st) \<or> \<not> refers (ur_org u) (rb_orgs st) \<or> \<not> refers (ur_granted_by u) (rb_users st)
      then (st, Inl (Store_Wrap ''failed to assign role to user'' Store_Constraint))
      else (st\<lparr>rb_db := (rb_db st)\<lparr>db_user_roles := db_user_roles (rb_db st) @ [u]\<rparr>\<rparr>, Inr u))"

definition revoke_role_from_user :: "int \<Rightarrow> rbac_store \<Rightarrow> rbac_store" where
  "revoke_role_from_user i st =
     st\<lparr>rb_db := (rb_db st)\<lparr>db_user_roles := filter (\<lambda>u. ur_id u \<noteq> i) (db_user_roles (rb_db st))\<rparr>\<rparr>"

section \<open>Teams\<close>

definition create_team :: "int \<Rightarrow> rbac_team \<Rightarrow> rbac_store \<Rightarrow> rbac_store \<times> (rbac_store_error + rbac_team)" where
  "create_team now t st =
     (let (i, st) = next_id st; t = t\<lparr>te_id := i, te_created_at := now, te_updated_at := now\<rparr> in
      if list_ex (\<lambda>s. te_org s = te_org t \<and> te_name s = te_name t) (rb_teams st) \<or> \<not> refers (Some (te_org t)) (rb_orgs st) \<or>
         \<not> refers (te_created_by t) (rb_users st)
      then (st, Inl (Store_Wrap ''failed to create team'' Store_Constraint))
      else (st\<lparr>rb_teams := rb_teams st @ [t]\<rparr>, Inr t))"

definition get_team :: "int \<Rightarrow> rbac_store \<Rightarrow> rbac_store_error + rbac_team" where
  "get_team i st = (case find (\<lambda>t. te_id t = i) (rb_teams st) of None \<Rightarrow> Inl (Team_Not_Found i) | Some t \<Rightarrow> Inr t)"

definition list_teams :: "int \<Rightarrow> rbac_store \<Rightarrow> rbac_team list" where
  "list_teams org st = sort_key te_name (filter (\<lambda>t. te_org t = org) (rb_teams st))"

definition update_team :: "int \<Rightarrow> rbac_team \<Rightarrow> rbac_store \<Rightarrow> rbac_store \<times> rbac_team" where
  "update_team now t st =
     (st\<lparr>rb_teams := map (\<lambda>s. if te_id s = te_id t then s\<lparr>te_display := te_display t, te_description := te_description t,
          te_updated_at := now\<rparr> else s) (rb_teams st)\<rparr>, t\<lparr>te_updated_at := now\<rparr>)"

definition delete_team :: "int \<Rightarrow> rbac_store \<Rightarrow> rbac_store" where
  "delete_team i st =
     st\<lparr>rb_teams := filter (\<lambda>t. te_id t \<noteq> i) (rb_teams st),
        rb_db := (rb_db st)\<lparr>db_team_members := filter (\<lambda>m. tm_team m \<noteq> i) (db_team_members (rb_db st)),
          db_team_roles := filter (\<lambda>t. tr_team t \<noteq> i) (db_team_roles (rb_db st))\<rparr>\<rparr>"

definition add_team_member :: "int \<Rightarrow> team_member \<Rightarrow> rbac_store \<Rightarrow> rbac_store \<times> (rbac_store_error + team_member)" where
  "add_team_member now m st =
     (let (i, st) = next_id st; m = m\<lparr>tm_id := i, tm_added_at := now\<rparr> in
      if list_ex (\<lambda>n. tm_team n = tm_team m \<and> tm_user n = tm_user m) (db_team_members (rb_db st)) \<or>
         \<not> refers (Some (tm_team m)) (team_ids st) \<or> \<not> refers (Some (tm_user m)) (rb_users st) \<or>
         \<not> refers (tm_role m) (role_ids st) \<or> \<not> refers (tm_added_by m) (rb_users st)
      then (st, Inl (Store_Wrap ''failed to add team member'' Store_Constraint))
      else (st\<lparr>rb_db := (rb_db st)\<lparr>db_team_members := db_team_members (rb_db st) @ [m]\<rparr>\<rparr>, Inr m))"

definition remove_team_member :: "int \<Rightarrow> int \<Rightarrow> rbac_store \<Rightarrow> rbac_store" where
  "remove_team_member team user st =
     st\<lparr>rb_db := (rb_db st)\<lparr>db_team_members :=
          filter (\<lambda>m. \<not> (tm_team m = team \<and> tm_user m = user)) (db_team_members (rb_db st))\<rparr>\<rparr>"

definition get_team_members :: "int \<Rightarrow> rbac_store \<Rightarrow> team_member list" where
  "get_team_members team st = sort_key tm_added_at (filter (\<lambda>m. tm_team m = team) (db_team_members (rb_db st)))"

definition same_team_role :: "team_role \<Rightarrow> team_role \<Rightarrow> bool" where
  "same_team_role t s \<longleftrightarrow> tr_team t = tr_team s \<and> tr_role t = tr_role s \<and> tr_scope t = tr_scope s \<and>
     (case tr_resource t of None \<Rightarrow> [] | Some x \<Rightarrow> x) = (case tr_resource s of None \<Rightarrow> [] | Some x \<Rightarrow> x) \<and>
     (case tr_org t of None \<Rightarrow> 0 | Some i \<Rightarrow> i) = (case tr_org s of None \<Rightarrow> 0 | Some i \<Rightarrow> i)"

definition assign_role_to_team :: "int \<Rightarrow> team_role \<Rightarrow> rbac_store \<Rightarrow> rbac_store \<times> (rbac_store_error + team_role)" where
  "assign_role_to_team now t st =
     (let (i, st) = next_id st; t = t\<lparr>tr_id := i, tr_granted_at := now\<rparr> in
      if list_ex (same_team_role t) (db_team_roles (rb_db st)) \<or> \<not> refers (Some (tr_team t)) (team_ids st) \<or>
         \<not> refers (Some (tr_role t)) (role_ids st) \<or> \<not> refers (tr_org t) (rb_orgs st) \<or> \<not> refers (tr_granted_by t) (rb_users st)
      then (st, Inl (Store_Wrap ''failed to assign role to team'' Store_Constraint))
      else (st\<lparr>rb_db := (rb_db st)\<lparr>db_team_roles := db_team_roles (rb_db st) @ [t]\<rparr>\<rparr>, Inr t))"

definition revoke_role_from_team :: "int \<Rightarrow> rbac_store \<Rightarrow> rbac_store" where
  "revoke_role_from_team i st =
     st\<lparr>rb_db := (rb_db st)\<lparr>db_team_roles := filter (\<lambda>t. tr_id t \<noteq> i) (db_team_roles (rb_db st))\<rparr>\<rparr>"

section \<open>The manager\<close>

record rbac_manager_config =
  mc_ttl :: int
  mc_teams :: bool
  mc_inheritance :: bool

definition default_rbac_config :: rbac_manager_config where
  "default_rbac_config = \<lparr>mc_ttl = 5 * 60 * 10 ^ 9, mc_teams = True, mc_inheritance = True\<rparr>"

definition manager_checker :: "rbac_manager_config \<Rightarrow> checker" where
  "manager_checker mc = new_permission_checker (mc_ttl mc)"

definition with_db :: "(rbac_db \<Rightarrow> rbac_db) \<Rightarrow> rbac_store \<Rightarrow> rbac_store" where
  "with_db f st = st\<lparr>rb_db := f (rb_db st)\<rparr>"

text \<open>The roles that are missing are created, up to the first that fails.\<close>

fun initialize_roles :: "int \<Rightarrow> rbac_role list \<Rightarrow> rbac_store \<Rightarrow> rbac_store \<times> (rbac_store_error + unit)" where
  "initialize_roles now [] st = (st, Inr ())"
| "initialize_roles now (r # rs) st = (case get_role_by_name (rl_name r) None st of
     Inr _ \<Rightarrow> initialize_roles now rs st
   | Inl _ \<Rightarrow> (case create_role now r st of
       (st, Inl e) \<Rightarrow> (st, Inl (Store_Wrap (''failed to create built-in role '' @ rl_name r) e))
     | (st, Inr _) \<Rightarrow> initialize_roles now rs st))"

definition initialize_built_in_roles :: "int \<Rightarrow> rbac_store \<Rightarrow> rbac_store \<times> (rbac_store_error + unit)" where
  "initialize_built_in_roles now = initialize_roles now built_in_roles"

definition manager_check_permission ::
    "rbac_manager_config \<Rightarrow> int \<Rightarrow> permission_check \<Rightarrow> rbac_store \<Rightarrow> (rbac_store \<times> (rbac_error + bool)) option" where
  "manager_check_permission mc now c st =
     map_option (\<lambda>r. case r of Inl e \<Rightarrow> (st, Inl e) | Inr (out, db) \<Rightarrow> (st\<lparr>rb_db := db\<rparr>, Inr (co_allowed out)))
       (check_permission (manager_checker mc) (rb_db st) now c)"

definition manager_assign_role :: "rbac_manager_config \<Rightarrow> int \<Rightarrow> user_role \<Rightarrow> rbac_store \<Rightarrow> rbac_store \<times> (rbac_store_error + unit)" where
  "manager_assign_role mc now u st = (case assign_role_to_user now u st of
     (st, Inl e) \<Rightarrow> (st, Inl e)
   | (st, Inr _) \<Rightarrow> (with_db (\<lambda>db. invalidate_cache (manager_checker mc) db (ur_user u)) st, Inr ()))"

definition create_custom_role :: "int \<Rightarrow> rbac_role \<Rightarrow> rbac_store \<Rightarrow> rbac_store \<times> (rbac_store_error + rbac_role)" where
  "create_custom_role now r st = create_role now (r\<lparr>rl_built_in := False, rl_custom := True\<rparr>) st"

definition manager_create_team :: "rbac_manager_config \<Rightarrow> int \<Rightarrow> rbac_team \<Rightarrow> rbac_store \<Rightarrow> rbac_store \<times> (rbac_store_error + rbac_team)" where
  "manager_create_team mc now t st =
     (if \<not> mc_teams mc then (st, Inl (Store_Text ''teams are not enabled'')) else create_team now t st)"

definition manager_add_team_member :: "rbac_manager_config \<Rightarrow> int \<Rightarrow> team_member \<Rightarrow> rbac_store \<Rightarrow> rbac_store \<times> (rbac_store_error + unit)" where
  "manager_add_team_member mc now m st =
     (if \<not> mc_teams mc then (st, Inl (Store_Text ''teams are not enabled''))
      else case add_team_member now m st of
        (st, Inl e) \<Rightarrow> (st, Inl e)
      | (st, Inr _) \<Rightarrow> (with_db (\<lambda>db. invalidate_cache (manager_checker mc) db (tm_user m)) st, Inr ()))"

definition manager_assign_role_to_team :: "rbac_manager_config \<Rightarrow> int \<Rightarrow> team_role \<Rightarrow> rbac_store \<Rightarrow> rbac_store \<times> (rbac_store_error + unit)" where
  "manager_assign_role_to_team mc now t st =
     (if \<not> mc_teams mc then (st, Inl (Store_Text ''teams are not enabled''))
      else case assign_role_to_team now t st of
        (st, Inl e) \<Rightarrow> (st, Inl e)
      | (st, Inr _) \<Rightarrow> (fold (\<lambda>m. with_db (\<lambda>db. invalidate_cache (manager_checker mc) db (tm_user m)))
           (get_team_members (tr_team t) st) st, Inr ()))"

definition bootstrap_assignment :: "int \<Rightarrow> int \<Rightarrow> permission_scope \<Rightarrow> string option \<Rightarrow> int option \<Rightarrow> user_role" where
  "bootstrap_assignment user role scope resource org =
     \<lparr>ur_id = 0, ur_user = user, ur_role = role, ur_scope = scope, ur_resource = resource, ur_org = org,
      ur_granted_by = Some user, ur_granted_at = 0, ur_expires = None\<rparr>"

definition bootstrap_organization :: "int \<Rightarrow> int \<Rightarrow> int \<Rightarrow> rbac_store \<Rightarrow> rbac_store \<times> (rbac_store_error + unit)" where
  "bootstrap_organization now org admin st =
     (case (case get_role_by_name ''org:admin'' (Some org) st of
              Inl _ \<Rightarrow> get_role_by_name ''org:admin'' None st | Inr r \<Rightarrow> Inr r) of
        Inl e \<Rightarrow> (st, Inl (Store_Wrap ''failed to get admin role'' e))
      | Inr r \<Rightarrow> (case assign_role_to_user now (bootstrap_assignment admin (rl_id r) Scope_Organization None (Some org)) st of
          (st, Inl e) \<Rightarrow> (st, Inl (Store_Wrap ''failed to assign admin role'' e))
        | (st, Inr _) \<Rightarrow> (st, Inr ())))"

definition bootstrap_module :: "int \<Rightarrow> string \<Rightarrow> int \<Rightarrow> int option \<Rightarrow> rbac_store \<Rightarrow> rbac_store \<times> (rbac_store_error + unit)" where
  "bootstrap_module now module_name owner org st =
     (case get_role_by_name ''module:owner'' org st of
        Inl e \<Rightarrow> (st, Inl (Store_Wrap ''failed to get module owner role'' e))
      | Inr r \<Rightarrow> (case assign_role_to_user now (bootstrap_assignment owner (rl_id r) Scope_Module (Some module_name) org) st of
          (st, Inl e) \<Rightarrow> (st, Inl (Store_Wrap ''failed to assign module owner role'' e))
        | (st, Inr _) \<Rightarrow> (st, Inr ())))"

record rbac_stats =
  sx_roles :: int
  sx_custom :: int
  sx_user_roles :: int
  sx_teams :: int
  sx_members :: int
  sx_cached :: int

definition get_rbac_stats :: "int \<Rightarrow> rbac_store \<Rightarrow> rbac_stats" where
  "get_rbac_stats now st =
     \<lparr>sx_roles = int (length (db_roles (rb_db st))), sx_custom = int (length (filter rl_custom (db_roles (rb_db st)))),
      sx_user_roles = int (length (db_user_roles (rb_db st))), sx_teams = int (length (rb_teams st)),
      sx_members = int (length (db_team_members (rb_db st))),
      sx_cached = int (length (filter (\<lambda>e. pe_expires e > now) (db_cache (rb_db st))))\<rparr>"

definition cleanup_expired_permissions :: "int \<Rightarrow> rbac_store \<Rightarrow> rbac_store \<times> int" where
  "cleanup_expired_permissions now st =
     (with_db (\<lambda>db. db\<lparr>db_cache := filter (\<lambda>e. \<not> pe_expires e \<le> now) (db_cache db)\<rparr>) st,
      int (length (filter (\<lambda>e. pe_expires e \<le> now) (db_cache (rb_db st)))))"

end
