(* ===== verification/Rbac_Web.thy ===== *)
theory Rbac_Web
  imports Rbac_Store Middleware_Chain
begin

text \<open>
  The HTTP side of access control: the handlers (\<open>pkg/rbac/handlers.go\<close>) and the middleware (\<open>middleware.go\<close>). A body
  that was decoded is a record, one that could not be is \<open>None\<close>. A handler answers with a status and what it encodes.
\<close>

record audit_event =
  ev_time :: int
  ev_type :: string
  ev_resource_type :: string
  ev_resource_id :: string
  ev_user :: "int option"
  ev_username :: string
  ev_status :: string

record rbac_web =
  wb_store :: rbac_store
  wb_checker :: checker
  wb_logging :: bool
  wb_audit :: "audit_event list"
  wb_now :: int

datatype rbac_payload = No_Body | Error_Text string | Error_Store rbac_store_error | Error_Rbac rbac_error
  | Json_Role rbac_role | Json_Roles "rbac_role list" | Json_User_Role user_role
  | Json_User_Roles "(user_role \<times> rbac_role) option list" | Json_Permissions int "permission list" | Json_Check check_outcome
  | Json_Team rbac_team | Json_Teams "rbac_team list" | Json_Member team_member | Json_Members "team_member list"
  | Json_Team_Role team_role | Json_Templates "role_template list"

type_synonym rbac_reply = "nat \<times> rbac_payload"

definition new_rbac_web :: "rbac_store \<Rightarrow> bool \<Rightarrow> rbac_web" where
  "new_rbac_web st logging = \<lparr>wb_store = st, wb_checker = new_permission_checker (5 * 60 * 10 ^ 9), wb_logging = logging,
     wb_audit = [], wb_now = 0\<rparr>"

text \<open>An organization that is not a number counts as none.\<close>

definition query_org :: "'b web_request \<Rightarrow> int option" where
  "query_org r = (let s = query_value r ''organization_id'' in if s \<noteq> [] then atoi s else None)"

definition acting_user :: "'b web_request \<Rightarrow> auth_user option" where
  "acting_user r = (case get_auth_context (wq_http r) of None \<Rightarrow> None | Some a \<Rightarrow> ac_user a)"

definition log_audit :: "'b web_request \<Rightarrow> string \<Rightarrow> string \<Rightarrow> string \<Rightarrow> rbac_web \<Rightarrow> rbac_web" where
  "log_audit r event resource_type resource_id w =
     (if \<not> wb_logging w then w
      else w\<lparr>wb_audit := wb_audit w @ [\<lparr>ev_time = wb_now w, ev_type = event, ev_resource_type = resource_type,
          ev_resource_id = resource_id, ev_user = map_option au_id (acting_user r),
          ev_username = (case acting_user r of None \<Rightarrow> [] | Some u \<Rightarrow> au_username u), ev_status = ''success''\<rparr>]\<rparr>)"

definition invalidate_user :: "int \<Rightarrow> rbac_web \<Rightarrow> rbac_web" where
  "invalidate_user u w = w\<lparr>wb_store := with_db (\<lambda>db. invalidate_cache (wb_checker w) db u) (wb_store w)\<rparr>"

definition bad_request :: "string \<Rightarrow> rbac_reply" where
  "bad_request message = (400, Error_Text message)"

section \<open>Roles\<close>

record role_request =
  rr_name :: string
  rr_display :: string
  rr_description :: string
  rr_org :: "int option"
  rr_permissions :: "permission list"
  rr_parent :: "int option"

definition handle_create_role :: "role_request web_request \<Rightarrow> rbac_web \<Rightarrow> rbac_reply \<times> rbac_web" where
  "handle_create_role r w = (case wq_body r of
     None \<Rightarrow> (bad_request ''Invalid request body'', w)
   | Some q \<Rightarrow>
       if rr_name q = [] \<or> rr_display q = [] then (bad_request ''Name and display_name are required'', w)
       else
         (let role = \<lparr>rl_id = 0, rl_name = rr_name q, rl_display = rr_display q, rl_description = rr_description q,
                rl_org = rr_org q, rl_permissions = rr_permissions q, rl_parent = rr_parent q, rl_built_in = False,
                rl_custom = True, rl_created_at = 0, rl_updated_at = 0, rl_created_by = map_option au_id (acting_user r)\<rparr> in
          case create_role (wb_now w) role (wb_store w) of
            (st, Inl e) \<Rightarrow> ((500, Error_Store e), w\<lparr>wb_store := st\<rparr>)
          | (st, Inr role) \<Rightarrow> ((201, Json_Role role),
              log_audit r ''authz.permission_grant'' ''role'' (fmt_d (rl_id role)) (w\<lparr>wb_store := st\<rparr>))))"

definition handle_list_roles :: "unit web_request \<Rightarrow> rbac_web \<Rightarrow> rbac_reply" where
  "handle_list_roles r w = (200, Json_Roles (list_roles (query_org r) (wb_store w)))"

definition handle_get_role :: "unit web_request \<Rightarrow> rbac_web \<Rightarrow> rbac_reply" where
  "handle_get_role r w = (case path_id r ''id'' of
     None \<Rightarrow> bad_request ''Invalid role ID''
   | Some i \<Rightarrow> (case get_role (rb_db (wb_store w)) i of Inl e \<Rightarrow> (404, Error_Rbac e) | Inr role \<Rightarrow> (200, Json_Role role)))"

definition handle_update_role :: "role_request web_request \<Rightarrow> rbac_web \<Rightarrow> rbac_reply \<times> rbac_web" where
  "handle_update_role r w = (case path_id r ''id'' of
     None \<Rightarrow> (bad_request ''Invalid role ID'', w)
   | Some i \<Rightarrow> (case get_role (rb_db (wb_store w)) i of
       Inl e \<Rightarrow> ((404, Error_Rbac e), w)
     | Inr role \<Rightarrow>
         if rl_built_in role then ((403, Error_Text ''Cannot modify built-in roles''), w)
         else (case wq_body r of
           None \<Rightarrow> (bad_request ''Invalid request body'', w)
         | Some q \<Rightarrow>
             (let role = role\<lparr>rl_display := rr_display q, rl_description := rr_description q,
                    rl_permissions := rr_permissions q, rl_parent := rr_parent q\<rparr> in
              case update_role (wb_now w) role (wb_store w) of
                (st, Inl e) \<Rightarrow> ((500, Error_Store e), w\<lparr>wb_store := st\<rparr>)
              | (st, Inr role) \<Rightarrow> ((200, Json_Role role),
                  log_audit r ''authz.role_change'' ''role'' (fmt_d (rl_id role)) (w\<lparr>wb_store := st\<rparr>))))))"

definition handle_delete_role :: "unit web_request \<Rightarrow> rbac_web \<Rightarrow> rbac_reply \<times> rbac_web" where
  "handle_delete_role r w = (case path_id r ''id'' of
     None \<Rightarrow> (bad_request ''Invalid role ID'', w)
   | Some i \<Rightarrow> (case delete_role i (wb_store w) of
       (st, Inl e) \<Rightarrow> ((500, Error_Store e), w\<lparr>wb_store := st\<rparr>)
     | (st, Inr _) \<Rightarrow> ((204, No_Body), log_audit r ''authz.permission_revoke'' ''role'' (fmt_d i) (w\<lparr>wb_store := st\<rparr>))))"

section \<open>Users\<close>

record assign_request =
  aq_role :: int
  aq_scope :: permission_scope
  aq_resource :: "string option"
  aq_org :: "int option"
  aq_expires :: "int option"

definition handle_assign_role_to_user :: "assign_request web_request \<Rightarrow> rbac_web \<Rightarrow> rbac_reply \<times> rbac_web" where
  "handle_assign_role_to_user r w = (case path_id r ''id'' of
     None \<Rightarrow> (bad_request ''Invalid user ID'', w)
   | Some user \<Rightarrow> (case wq_body r of
       None \<Rightarrow> (bad_request ''Invalid request body'', w)
     | Some q \<Rightarrow>
         (let u = \<lparr>ur_id = 0, ur_user = user, ur_role = aq_role q, ur_scope = aq_scope q, ur_resource = aq_resource q,
                ur_org = aq_org q, ur_granted_by = map_option au_id (acting_user r), ur_granted_at = 0,
                ur_expires = aq_expires q\<rparr> in
          case assign_role_to_user (wb_now w) u (wb_store w) of
            (st, Inl e) \<Rightarrow> ((500, Error_Store e), w\<lparr>wb_store := st\<rparr>)
          | (st, Inr u) \<Rightarrow> ((201, Json_User_Role u),
              log_audit r ''authz.permission_grant'' ''user_role'' (fmt_d (ur_id u)) (invalidate_user user (w\<lparr>wb_store := st\<rparr>))))))"

text \<open>The answer has a slot for every assignment, empty when its role is gone.\<close>

definition handle_get_user_roles :: "unit web_request \<Rightarrow> rbac_web \<Rightarrow> rbac_reply" where
  "handle_get_user_roles r w = (case path_id r ''id'' of
     None \<Rightarrow> bad_request ''Invalid user ID''
   | Some user \<Rightarrow> (200, Json_User_Roles (map (\<lambda>u. case get_role (rb_db (wb_store w)) (ur_role u) of
         Inl _ \<Rightarrow> None | Inr role \<Rightarrow> Some (u, role))
       (store_get_user_roles (rb_db (wb_store w)) (wb_now w) user (query_org r)))))"

definition handle_revoke_role_from_user :: "unit web_request \<Rightarrow> rbac_web \<Rightarrow> rbac_reply \<times> rbac_web" where
  "handle_revoke_role_from_user r w = (case path_id r ''id'' of
     None \<Rightarrow> (bad_request ''Invalid user ID'', w)
   | Some user \<Rightarrow> (case path_id r ''role_id'' of
       None \<Rightarrow> (bad_request ''Invalid role ID'', w)
     | Some i \<Rightarrow> ((204, No_Body), log_audit r ''authz.permission_revoke'' ''user_role'' (fmt_d i)
         (invalidate_user user (w\<lparr>wb_store := revoke_role_from_user i (wb_store w)\<rparr>)))))"

definition handle_get_user_permissions :: "unit web_request \<Rightarrow> rbac_web \<Rightarrow> rbac_reply option" where
  "handle_get_user_permissions r w = (case path_id r ''id'' of
     None \<Rightarrow> Some (bad_request ''Invalid user ID'')
   | Some user \<Rightarrow> map_option (\<lambda>x. case x of Inl e \<Rightarrow> (500, Error_Rbac e) | Inr ps \<Rightarrow> (200, Json_Permissions user ps))
       (get_effective_permissions (rb_db (wb_store w)) (wb_now w) user (query_org r)))"

definition handle_check_permission :: "permission_check web_request \<Rightarrow> rbac_web \<Rightarrow> (rbac_reply \<times> rbac_web) option" where
  "handle_check_permission r w = (case wq_body r of
     None \<Rightarrow> Some (bad_request ''Invalid request body'', w)
   | Some c \<Rightarrow> map_option (\<lambda>x. case x of
         Inl e \<Rightarrow> ((500, Error_Rbac e), w)
       | Inr (out, db) \<Rightarrow> ((200, Json_Check out), w\<lparr>wb_store := with_db (\<lambda>_. db) (wb_store w)\<rparr>))
       (check_permission (wb_checker w) (rb_db (wb_store w)) (wb_now w) c))"

section \<open>Teams\<close>

record team_request =
  tq_org :: int
  tq_name :: string
  tq_display :: string
  tq_description :: string

definition handle_create_team :: "team_request web_request \<Rightarrow> rbac_web \<Rightarrow> rbac_reply \<times> rbac_web" where
  "handle_create_team r w = (case wq_body r of
     None \<Rightarrow> (bad_request ''Invalid request body'', w)
   | Some q \<Rightarrow>
       if tq_name q = [] \<or> tq_display q = [] then (bad_request ''Name and display_name are required'', w)
       else
         (let t = \<lparr>te_id = 0, te_org = tq_org q, te_name = tq_name q, te_display = tq_display q,
                te_description = tq_description q, te_created_at = 0, te_updated_at = 0,
                te_created_by = map_option au_id (acting_user r)\<rparr> in
          case create_team (wb_now w) t (wb_store w) of
            (st, Inl e) \<Rightarrow> ((500, Error_Store e), w\<lparr>wb_store := st\<rparr>)
          | (st, Inr t) \<Rightarrow> ((201, Json_Team t), log_audit r ''team.create'' ''team'' (fmt_d (te_id t)) (w\<lparr>wb_store := st\<rparr>))))"

definition handle_list_teams :: "unit web_request \<Rightarrow> rbac_web \<Rightarrow> rbac_reply" where
  "handle_list_teams r w = (case atoi (query_value r ''organization_id'') of
     None \<Rightarrow> bad_request ''organization_id is required'' | Some org \<Rightarrow> (200, Json_Teams (list_teams org (wb_store w))))"

definition handle_get_team :: "unit web_request \<Rightarrow> rbac_web \<Rightarrow> rbac_reply" where
  "handle_get_team r w = (case path_id r ''id'' of
     None \<Rightarrow> bad_request ''Invalid team ID''
   | Some i \<Rightarrow> (case get_team i (wb_store w) of Inl e \<Rightarrow> (404, Error_Store e) | Inr t \<Rightarrow> (200, Json_Team t)))"

definition handle_update_team :: "team_request web_request \<Rightarrow> rbac_web \<Rightarrow> rbac_reply \<times> rbac_web" where
  "handle_update_team r w = (case path_id r ''id'' of
     None \<Rightarrow> (bad_request ''Invalid team ID'', w)
   | Some i \<Rightarrow> (case get_team i (wb_store w) of
       Inl e \<Rightarrow> ((404, Error_Store e), w)
     | Inr t \<Rightarrow> (case wq_body r of
         None \<Rightarrow> (bad_request ''Invalid request body'', w)
       | Some q \<Rightarrow> (case update_team (wb_now w) (t\<lparr>te_display := tq_display q, te_description := tq_description q\<rparr>) (wb_store w) of
           (st, t) \<Rightarrow> ((200, Json_Team t), log_audit r ''team.update'' ''team'' (fmt_d (te_id t)) (w\<lparr>wb_store := st\<rparr>))))))"

definition handle_delete_team :: "unit web_request \<Rightarrow> rbac_web \<Rightarrow> rbac_reply \<times> rbac_web" where
  "handle_delete_team r w = (case path_id r ''id'' of
     None \<Rightarrow> (bad_request ''Invalid team ID'', w)
   | Some i \<Rightarrow> ((204, No_Body), log_audit r ''team.delete'' ''team'' (fmt_d i) (w\<lparr>wb_store := delete_team i (wb_store w)\<rparr>)))"

record member_request =
  mq_user :: int
  mq_role :: "int option"

definition handle_add_team_member :: "member_request web_request \<Rightarrow> rbac_web \<Rightarrow> rbac_reply \<times> rbac_web" where
  "handle_add_team_member r w = (case path_id r ''id'' of
     None \<Rightarrow> (bad_request ''Invalid team ID'', w)
   | Some team \<Rightarrow> (case wq_body r of
       None \<Rightarrow> (bad_request ''Invalid request body'', w)
     | Some q \<Rightarrow>
         (let m = \<lparr>tm_id = 0, tm_team = team, tm_user = mq_user q, tm_role = mq_role q, tm_added_at = 0,
                tm_added_by = map_option au_id (acting_user r)\<rparr> in
          case add_team_member (wb_now w) m (wb_store w) of
            (st, Inl e) \<Rightarrow> ((500, Error_Store e), w\<lparr>wb_store := st\<rparr>)
          | (st, Inr m) \<Rightarrow> ((201, Json_Member m),
              log_audit r ''team.member_add'' ''team_member'' (fmt_d (tm_id m)) (w\<lparr>wb_store := st\<rparr>)))))"

definition handle_get_team_members :: "unit web_request \<Rightarrow> rbac_web \<Rightarrow> rbac_reply" where
  "handle_get_team_members r w = (case path_id r ''id'' of
     None \<Rightarrow> bad_request ''Invalid team ID'' | Some i \<Rightarrow> (200, Json_Members (get_team_members i (wb_store w))))"

definition handle_remove_team_member :: "unit web_request \<Rightarrow> rbac_web \<Rightarrow> rbac_reply \<times> rbac_web" where
  "handle_remove_team_member r w = (case path_id r ''id'' of
     None \<Rightarrow> (bad_request ''Invalid team ID'', w)
   | Some team \<Rightarrow> (case path_id r ''user_id'' of
       None \<Rightarrow> (bad_request ''Invalid user ID'', w)
     | Some user \<Rightarrow> ((204, No_Body), log_audit r ''team.member_remove'' ''team_member'' (fmt_d team)
         (w\<lparr>wb_store := remove_team_member team user (wb_store w)\<rparr>))))"

definition handle_assign_role_to_team :: "assign_request web_request \<Rightarrow> rbac_web \<Rightarrow> rbac_reply \<times> rbac_web" where
  "handle_assign_role_to_team r w = (case path_id r ''id'' of
     None \<Rightarrow> (bad_request ''Invalid team ID'', w)
   | Some team \<Rightarrow> (case wq_body r of
       None \<Rightarrow> (bad_request ''Invalid request body'', w)
     | Some q \<Rightarrow>
         (let t = \<lparr>tr_id = 0, tr_team = team, tr_role = aq_role q, tr_scope = aq_scope q, tr_resource = aq_resource q,
                tr_org = aq_org q, tr_granted_by = map_option au_id (acting_user r), tr_granted_at = 0\<rparr> in
          case assign_role_to_team (wb_now w) t (wb_store w) of
            (st, Inl e) \<Rightarrow> ((500, Error_Store e), w\<lparr>wb_store := st\<rparr>)
          | (st, Inr t) \<Rightarrow> ((201, Json_Team_Role t),
              log_audit r ''team.role_assign'' ''team_role'' (fmt_d (tr_id t)) (w\<lparr>wb_store := st\<rparr>)))))"

definition handle_revoke_role_from_team :: "unit web_request \<Rightarrow> rbac_web \<Rightarrow> rbac_reply \<times> rbac_web" where
  "handle_revoke_role_from_team r w = (case path_id r ''role_id'' of
     None \<Rightarrow> (bad_request ''Invalid role ID'', w)
   | Some i \<Rightarrow> ((204, No_Body), log_audit r ''team.role_revoke'' ''team_role'' (fmt_d i)
       (w\<lparr>wb_store := revoke_role_from_team i (wb_store w)\<rparr>)))"

definition handle_get_role_templates :: rbac_reply where
  "handle_get_role_templates = (200, Json_Templates common_role_templates)"

section \<open>Middleware\<close>

type_synonym rbac_handler = "http_request \<Rightarrow> http_response \<Rightarrow> rbac_web \<Rightarrow> (http_response \<times> rbac_web) option"

text \<open>A check of the middleware: its outcome, or nothing when it failed, and the state with the cache it wrote.\<close>

definition web_check :: "permission_check \<Rightarrow> rbac_web \<Rightarrow> (bool option \<times> rbac_web) option" where
  "web_check c w = map_option (\<lambda>x. case x of
       Inl e \<Rightarrow> (None, w)
     | Inr (out, db) \<Rightarrow> (Some (co_allowed out), w\<lparr>wb_store := with_db (\<lambda>_. db) (wb_store w)\<rparr>))
     (check_permission (wb_checker w) (rb_db (wb_store w)) (wb_now w) c)"

definition check_for :: "auth_context \<Rightarrow> auth_user \<Rightarrow> permission \<Rightarrow> permission_scope \<Rightarrow> string option \<Rightarrow> permission_check" where
  "check_for a u p scope resource =
     \<lparr>pc_user = au_id u, pc_permission = p, pc_scope = scope, pc_resource = resource, pc_org = map_option ag_id (ac_org a)\<rparr>"

text \<open>The user of a request, or the answer 401.\<close>

definition with_user :: "(auth_context \<Rightarrow> auth_user \<Rightarrow> rbac_handler) \<Rightarrow> rbac_handler" where
  "with_user f r rsp w = (case get_auth_context r of
     None \<Rightarrow> Some (http_error (Body ''Authentication required'') 401 rsp, w)
   | Some a \<Rightarrow> (case ac_user a of
       None \<Rightarrow> Some (http_error (Body ''Authentication required'') 401 rsp, w)
     | Some u \<Rightarrow> f a u r rsp w))"

definition run_check :: "string \<Rightarrow> permission_check \<Rightarrow> rbac_handler \<Rightarrow> rbac_handler" where
  "run_check refusal c next_handler r rsp w = Option.bind (web_check c w) (\<lambda>(allowed, w). case allowed of
     None \<Rightarrow> Some (http_error (Body ''Permission check failed'') 500 rsp, w)
   | Some False \<Rightarrow> Some (http_error (Body refusal) 403 rsp, w)
   | Some True \<Rightarrow> next_handler r rsp w)"

definition require_permission :: "permission \<Rightarrow> permission_scope \<Rightarrow> rbac_handler \<Rightarrow> rbac_handler" where
  "require_permission p scope next_handler = with_user (\<lambda>a u.
     run_check ''Insufficient permissions'' (check_for a u p scope None) next_handler)"

definition extract_module_from_request :: "http_request \<Rightarrow> string" where
  "extract_module_from_request r = (case map_of (rq_ctx r) (Plain_Key ''module_name'') of Some (Text_Value s) \<Rightarrow> s | _ \<Rightarrow> [])"

definition with_module_name :: "ctx \<Rightarrow> string \<Rightarrow> ctx" where
  "with_module_name c name = with_value c (Plain_Key ''module_name'') (Text_Value name)"

definition rbac_require_module_permission :: "string \<Rightarrow> rbac_handler \<Rightarrow> rbac_handler" where
  "rbac_require_module_permission action next_handler = with_user (\<lambda>a u r rsp w.
     let name = extract_module_from_request r in
     if name = [] then Some (http_error (Body ''Module name required'') 400 rsp, w)
     else run_check ''Insufficient permissions for this module''
       (check_for a u \<lparr>pm_resource = ''module'', pm_action = action\<rparr> Scope_Module (Some name)) next_handler r rsp w)"

text \<open>The first permission that is granted; checks that fail count as refused.\<close>

fun any_allowed :: "permission_check list \<Rightarrow> rbac_web \<Rightarrow> (bool \<times> rbac_web) option" where
  "any_allowed [] w = Some (False, w)"
| "any_allowed (c # cs) w = Option.bind (web_check c w) (\<lambda>(allowed, w).
     if allowed = Some True then Some (True, w) else any_allowed cs w)"

fun all_allowed :: "permission_check list \<Rightarrow> rbac_web \<Rightarrow> (bool \<times> rbac_web) option" where
  "all_allowed [] w = Some (True, w)"
| "all_allowed (c # cs) w = Option.bind (web_check c w) (\<lambda>(allowed, w).
     if allowed = Some True then all_allowed cs w else Some (False, w))"

definition decide_request :: "(bool \<times> rbac_web) option \<Rightarrow> rbac_handler \<Rightarrow> http_request \<Rightarrow> http_response \<Rightarrow> (http_response \<times> rbac_web) option" where
  "decide_request d next_handler r rsp = Option.bind d (\<lambda>(allowed, w).
     if allowed then next_handler r rsp w else Some (http_error (Body ''Insufficient permissions'') 403 rsp, w))"

definition require_any_permission :: "permission list \<Rightarrow> rbac_handler \<Rightarrow> rbac_handler" where
  "require_any_permission ps next_handler = with_user (\<lambda>a u r rsp w.
     decide_request (any_allowed (map (\<lambda>p. check_for a u p Scope_Organization None) ps) w) next_handler r rsp)"

definition require_all_permissions :: "permission list \<Rightarrow> rbac_handler \<Rightarrow> rbac_handler" where
  "require_all_permissions ps next_handler = with_user (\<lambda>a u r rsp w.
     decide_request (all_allowed (map (\<lambda>p. check_for a u p Scope_Organization None) ps) w) next_handler r rsp)"

definition rbac_require_role :: "string \<Rightarrow> rbac_handler \<Rightarrow> rbac_handler" where
  "rbac_require_role name next_handler = with_user (\<lambda>a u r rsp w.
     Option.bind (get_user_roles (rb_db (wb_store w)) (wb_now w) (au_id u) (map_option ag_id (ac_org a))) (\<lambda>x. case x of
       Inl e \<Rightarrow> Some (http_error (Body ''Failed to check roles'') 500 rsp, w)
     | Inr roles \<Rightarrow>
         if list_ex (\<lambda>q. rl_name q = name) roles then next_handler r rsp w
         else Some (http_error (Body ''Required role not found'') 403 rsp, w)))"

end
