(* ===== verification/Rbac_Store_Props.thy ===== *)
theory Rbac_Store_Props
  imports Rbac_Store Rbac_Props
begin

text \<open>
  What the writes of access control keep: the references between the tables, and, but for two of them, that every
  role's chain of parents ends, so that checks return.
\<close>

section \<open>Operations\<close>

text \<open>Every write of the store and of the manager, in one type.\<close>

datatype store_op = Create_Role rbac_role | Update_Role rbac_role | Delete_Role int | Assign_Role user_role | Revoke_Role int
  | Create_Team rbac_team | Update_Team rbac_team | Delete_Team int | Add_Member team_member | Remove_Member int int
  | Assign_Team_Role team_role | Revoke_Team_Role int | Invalidate checker int | Cleanup_Cache

fun run_op :: "int \<Rightarrow> store_op \<Rightarrow> rbac_store \<Rightarrow> rbac_store" where
  "run_op now (Create_Role r) st = fst (create_role now r st)"
| "run_op now (Update_Role r) st = fst (update_role now r st)"
| "run_op now (Delete_Role i) st = fst (delete_role i st)"
| "run_op now (Assign_Role u) st = fst (assign_role_to_user now u st)"
| "run_op now (Revoke_Role i) st = revoke_role_from_user i st"
| "run_op now (Create_Team t) st = fst (create_team now t st)"
| "run_op now (Update_Team t) st = fst (update_team now t st)"
| "run_op now (Delete_Team i) st = delete_team i st"
| "run_op now (Add_Member m) st = fst (add_team_member now m st)"
| "run_op now (Remove_Member t u) st = remove_team_member t u st"
| "run_op now (Assign_Team_Role t) st = fst (assign_role_to_team now t st)"
| "run_op now (Revoke_Team_Role i) st = revoke_role_from_team i st"
| "run_op now (Invalidate pc u) st = with_db (\<lambda>db. invalidate_cache pc db u) st"
| "run_op now Cleanup_Cache st = fst (cleanup_expired_permissions now st)"

definition run_ops :: "(int \<times> store_op) list \<Rightarrow> rbac_store \<Rightarrow> rbac_store" where
  "run_ops ops st = fold (\<lambda>(now, op). run_op now op) ops st"

definition empty_store :: "int list \<Rightarrow> int list \<Rightarrow> rbac_store" where
  "empty_store users orgs = \<lparr>rb_db = \<lparr>db_roles = [], db_user_roles = [], db_team_members = [], db_team_roles = [], db_cache = []\<rparr>,
     rb_teams = [], rb_users = users, rb_orgs = orgs, rb_seq = 1\<rparr>"

section \<open>References\<close>

definition no_two :: "('a \<Rightarrow> 'a \<Rightarrow> bool) \<Rightarrow> 'a list \<Rightarrow> bool" where
  "no_two same xs \<longleftrightarrow> sorted_wrt (\<lambda>x y. \<not> same y x) xs"

lemma no_two_append: "no_two same (xs @ [y]) \<longleftrightarrow> no_two same xs \<and> \<not> list_ex (same y) xs"
  by (auto simp: no_two_def sorted_wrt_append list_ex_iff)

lemma no_two_filter: "no_two same xs \<Longrightarrow> no_two same (filter P xs)"
  by (simp add: no_two_def sorted_wrt_filter)

lemma no_two_map: "(\<And>x y. same (f y) (f x) = same y x) \<Longrightarrow> no_two same (map f xs) = no_two same xs"
  by (simp add: no_two_def sorted_wrt_map)

definition roles_ok :: "rbac_store \<Rightarrow> bool" where
  "roles_ok st \<longleftrightarrow> distinct (role_ids st) \<and> list_all (\<lambda>i. i < rb_seq st) (role_ids st) \<and>
     list_all (\<lambda>r. refers (rl_parent r) (role_ids st)) (db_roles (rb_db st)) \<and> no_two same_role_name (db_roles (rb_db st))"

definition assignments_ok :: "rbac_store \<Rightarrow> bool" where
  "assignments_ok st \<longleftrightarrow> list_all (\<lambda>u. refers (Some (ur_role u)) (role_ids st)) (db_user_roles (rb_db st)) \<and>
     no_two same_user_role (db_user_roles (rb_db st))"

definition teams_ok :: "rbac_store \<Rightarrow> bool" where
  "teams_ok st \<longleftrightarrow>
     list_all (\<lambda>m. refers (Some (tm_team m)) (team_ids st) \<and> refers (tm_role m) (role_ids st)) (db_team_members (rb_db st)) \<and>
     list_all (\<lambda>t. refers (Some (tr_team t)) (team_ids st) \<and> refers (Some (tr_role t)) (role_ids st)) (db_team_roles (rb_db st)) \<and>
     no_two same_team_role (db_team_roles (rb_db st))"

definition rbac_ok :: "rbac_store \<Rightarrow> bool" where
  "rbac_ok st \<longleftrightarrow> roles_ok st \<and> assignments_ok st \<and> teams_ok st"

lemmas rbac_tables = rbac_ok_def roles_ok_def assignments_ok_def teams_ok_def

lemma refers_iff [simp]: "refers k ids \<longleftrightarrow> (\<forall>i. k = Some i \<longrightarrow> i \<in> set ids)"
  by (cases k) (simp_all add: refers_def)

lemma rbac_ok_next: "rbac_ok st \<Longrightarrow> rbac_ok (st\<lparr>rb_seq := rb_seq st + 1\<rparr>)"
  by (auto simp: rbac_tables list_all_iff)

lemma rbac_ok_create_role: "rbac_ok st \<Longrightarrow> rbac_ok (fst (create_role now r st))"
  using rbac_ok_next [of st]
  by (auto simp: create_role_def next_id_def Let_def) (auto simp: rbac_tables list_all_iff no_two_append)

lemma same_role_name_map:
  "(\<And>r. rl_name (f r) = rl_name r \<and> rl_org (f r) = rl_org r) \<Longrightarrow> no_two same_role_name (map f rs) = no_two same_role_name rs"
  by (rule no_two_map) (simp add: same_role_name_def)

lemma rbac_ok_update_role: "rbac_ok st \<Longrightarrow> rbac_ok (fst (update_role now r st))"
proof -
  assume ok: "rbac_ok st"
  let ?f = "\<lambda>q. if rl_id q = rl_id r then q\<lparr>rl_display := rl_display r, rl_description := rl_description r,
    rl_permissions := rl_permissions r, rl_parent := rl_parent r, rl_updated_at := now\<rparr> else q"
  have ids: "map rl_id (map ?f rs) = map rl_id rs" for rs by simp
  have "rbac_ok (st\<lparr>rb_db := (rb_db st)\<lparr>db_roles := map ?f (db_roles (rb_db st))\<rparr>\<rparr>)"
    if "\<not> (list_ex (\<lambda>q. rl_id q = rl_id r) (db_roles (rb_db st)) \<and> \<not> refers (rl_parent r) (role_ids st))"
    using ok that unfolding rbac_tables
    by (simp add: ids same_role_name_map comp_def del: map_map) (auto simp: list_all_iff list_ex_iff)
  then show ?thesis using ok by (simp add: update_role_def)
qed

lemma drop_role_ids: "map rl_id (db_roles (drop_role i db)) = filter (\<lambda>j. j \<noteq> i) (map rl_id (db_roles db))"
proof -
  have "rl_id (if c then q\<lparr>rl_parent := None\<rparr> else q) = rl_id q" for c q by simp
  then show ?thesis by (simp add: drop_role_def comp_def filter_map)
qed

lemma rbac_ok_drop_role:
  assumes "rbac_ok st"
  shows "rbac_ok (st\<lparr>rb_db := drop_role i (rb_db st)\<rparr>)"
proof -
  let ?st = "st\<lparr>rb_db := drop_role i (rb_db st)\<rparr>"
  have ids: "role_ids ?st = filter (\<lambda>j. j \<noteq> i) (role_ids st)" using drop_role_ids [of i "rb_db st"] by simp
  have "no_two same_role_name (db_roles (drop_role i (rb_db st)))"
    using assms by (simp add: drop_role_def same_role_name_map no_two_filter rbac_tables)
  moreover have "list_all (\<lambda>r. refers (rl_parent r) (role_ids ?st)) (db_roles (drop_role i (rb_db st)))"
    using assms unfolding ids by (auto simp: rbac_tables drop_role_def list_all_iff split: if_splits)
  moreover have "distinct (role_ids ?st)" "list_all (\<lambda>j. j < rb_seq st) (role_ids ?st)"
    using assms unfolding ids by (auto simp: rbac_tables list_all_iff)
  ultimately have "roles_ok ?st" by (simp add: roles_ok_def)
  moreover have "assignments_ok ?st" unfolding assignments_ok_def ids
    using assms by (auto simp: rbac_tables drop_role_def list_all_iff no_two_filter)
  moreover have "teams_ok ?st" unfolding teams_ok_def ids
    using assms by (auto simp: rbac_tables drop_role_def list_all_iff no_two_filter split: if_splits)
  ultimately show ?thesis by (simp add: rbac_ok_def)
qed

lemma rbac_ok_other:
  assumes "rbac_ok st"
  shows "rbac_ok (fst (delete_role i st))" "rbac_ok (fst (assign_role_to_user now u st))" "rbac_ok (revoke_role_from_user i st)"
    "rbac_ok (fst (create_team now t st))" "rbac_ok (fst (update_team now t st))" "rbac_ok (delete_team i st)"
    "rbac_ok (fst (add_team_member now m st))" "rbac_ok (remove_team_member i j st)"
    "rbac_ok (fst (assign_role_to_team now tr st))" "rbac_ok (revoke_role_from_team i st)"
    "rbac_ok (with_db (\<lambda>db. invalidate_cache pc db i) st)" "rbac_ok (fst (cleanup_expired_permissions now st))"
proof -
  show "rbac_ok (fst (delete_role i st))"
    using assms rbac_ok_drop_role by (simp add: delete_role_def split: sum.splits)
  show "rbac_ok (fst (assign_role_to_user now u st))"
    using assms rbac_ok_next by (simp add: assign_role_to_user_def next_id_def Let_def) (auto simp: rbac_tables list_all_iff no_two_append)
  show "rbac_ok (fst (create_team now t st))"
    using assms rbac_ok_next by (simp add: create_team_def next_id_def Let_def) (auto simp: rbac_tables list_all_iff)
  show "rbac_ok (fst (add_team_member now m st))"
    using assms rbac_ok_next by (simp add: add_team_member_def next_id_def Let_def) (auto simp: rbac_tables list_all_iff)
  show "rbac_ok (fst (assign_role_to_team now tr st))"
    using assms rbac_ok_next by (simp add: assign_role_to_team_def next_id_def Let_def) (auto simp: rbac_tables list_all_iff no_two_append)
  show "rbac_ok (fst (update_team now t st))"
    using assms by (simp add: update_team_def rbac_tables comp_def if_distrib cong: if_cong)
  show "rbac_ok (delete_team i st)"
    using assms by (auto simp: delete_team_def rbac_tables list_all_iff no_two_filter)
  show "rbac_ok (revoke_role_from_user i st)" "rbac_ok (remove_team_member i j st)" "rbac_ok (revoke_role_from_team i st)"
    using assms by (auto simp: revoke_role_from_user_def remove_team_member_def revoke_role_from_team_def rbac_tables list_all_iff no_two_filter)
  show "rbac_ok (with_db (\<lambda>db. invalidate_cache pc db i) st)" "rbac_ok (fst (cleanup_expired_permissions now st))"
    using assms by (simp_all add: with_db_def invalidate_cache_def cleanup_expired_permissions_def rbac_tables)
qed

lemma rbac_ok_run_op: "rbac_ok st \<Longrightarrow> rbac_ok (run_op now op st)"
  by (cases op) (simp_all add: rbac_ok_create_role rbac_ok_update_role rbac_ok_other)

lemma rbac_ok_run_ops: "rbac_ok st \<Longrightarrow> rbac_ok (run_ops ops st)"
  unfolding run_ops_def by (induction ops arbitrary: st) (auto simp: rbac_ok_run_op)

section \<open>Chains of parents\<close>

lemma get_role_iff:
  "distinct (map rl_id (db_roles db)) \<Longrightarrow> get_role db i = Inr r \<longleftrightarrow> r \<in> set (db_roles db) \<and> rl_id r = i"
proof -
  assume d: "distinct (map rl_id (db_roles db))"
  have "r = s" if "r \<in> set (db_roles db)" "s \<in> set (db_roles db)" "rl_id r = rl_id s" for r s
    using d that by (auto simp: distinct_map inj_on_def)
  moreover have "\<forall>r \<in> set (db_roles db). rl_id r \<noteq> i" if "get_role db i = Inl e" for e
    using that by (auto simp: get_role_def find_None_iff split: option.splits)
  ultimately show ?thesis using get_role_elem by (cases "get_role db i") fastforce+
qed

definition role_parents :: "rbac_db \<Rightarrow> (int \<times> int) set" where
  "role_parents db = {(i, p). \<exists>r \<in> set (db_roles db). rl_id r = i \<and> rl_parent r = Some p}"

definition chains_end :: "rbac_db \<Rightarrow> bool" where
  "chains_end db \<longleftrightarrow> list_all (\<lambda>r. resolve_role_inheritance db r \<noteq> None) (db_roles db)"

lemma finite_role_parents: "finite (role_parents db)"
proof -
  have "role_parents db \<subseteq> (\<lambda>r. (rl_id r, the (rl_parent r))) ` set (db_roles db)"
    by (force simp: role_parents_def)
  then show ?thesis by (rule finite_subset) simp
qed

lemma resolve_parent:
  assumes "get_role db p = Inr q" "rl_parent r = Some p"
  shows "resolve_role_inheritance db r = None \<longleftrightarrow> resolve_role_inheritance db q = None"
  using assms by (subst resolve_role_inheritance.simps) (simp add: bind_Some_None)

lemma acyclic_chains_end:
  assumes "acyclic (role_parents db)"
  shows "chains_end db"
proof -
  have wf: "wf ((role_parents db)\<inverse>)" using finite_role_parents assms by (rule finite_acyclic_wf_converse)
  have "resolve_role_inheritance db r \<noteq> None" if "r \<in> set (db_roles db)" for r
    using wf that
  proof (induction "rl_id r" arbitrary: r rule: wf_induct_rule)
    case less
    show ?case
    proof (cases "rl_parent r")
      case (Some p)
      show ?thesis
      proof (cases "get_role db p")
        case (Inr q)
        then have "q \<in> set (db_roles db)" "rl_id q = p" using get_role_elem by blast+
        moreover have "(p, rl_id r) \<in> (role_parents db)\<inverse>" using Some less.prems by (auto simp: role_parents_def)
        ultimately have "resolve_role_inheritance db q \<noteq> None" using less.hyps by blast
        then show ?thesis using resolve_parent [OF Inr Some] by simp
      qed (simp add: Some resolve_role_inheritance.simps)
    qed (simp add: resolve_role_inheritance.simps)
  qed
  then show ?thesis by (simp add: chains_end_def list_all_iff)
qed

lemma ancestor_next:
  assumes "distinct (map rl_id (db_roles db))" "list_all (\<lambda>r. refers (rl_parent r) (map rl_id (db_roles db))) (db_roles db)"
    "(rl_id r, j) \<in> role_parents db" "r \<in> set (db_roles db)"
  shows "\<exists>q \<in> set (db_roles db). rl_id q = j \<and> rl_parent r = Some j \<and> get_role db j = Inr q"
proof -
  obtain s where "s \<in> set (db_roles db)" "rl_id s = rl_id r" "rl_parent s = Some j"
    using assms(3) by (auto simp: role_parents_def)
  then have r: "rl_parent r = Some j" using assms(1,4) by (auto simp: distinct_map inj_on_def)
  then have "j \<in> rl_id ` set (db_roles db)" using assms(2,4) by (auto simp: list_all_iff)
  then show ?thesis using r get_role_iff [OF assms(1)] by auto
qed

lemma chains_end_acyclic:
  assumes "distinct (map rl_id (db_roles db))" "list_all (\<lambda>r. refers (rl_parent r) (map rl_id (db_roles db))) (db_roles db)"
    "chains_end db"
  shows "acyclic (role_parents db)"
proof (rule acyclicI, intro allI notI)
  fix i assume cycle: "(i, i) \<in> (role_parents db)\<^sup>+"
  have stuck: "ancestor db n r \<noteq> None" if "r \<in> set (db_roles db)" "(rl_id r, i) \<in> (role_parents db)\<^sup>+" for n r
    using that
  proof (induction n arbitrary: r)
    case (Suc n)
    from Suc.prems(2) obtain j where j: "(rl_id r, j) \<in> role_parents db" "(j, i) \<in> (role_parents db)\<^sup>+"
      by (metis cycle tranclD rtranclD)
    then obtain q where "q \<in> set (db_roles db)" "rl_id q = j" "rl_parent r = Some j" "get_role db j = Inr q"
      using ancestor_next [OF assms(1,2) _ Suc.prems(1)] by blast
    then show ?case using Suc.IH [of q] j(2) by simp
  qed simp
  obtain r where r: "r \<in> set (db_roles db)" "rl_id r = i"
    using cycle by (auto simp: role_parents_def elim: converse_tranclE)
  then have "resolve_role_inheritance db r = None"
    using stuck cycle resolve_stops by (metis not_None_eq)
  then show False using assms(3) r unfolding chains_end_def list_all_iff by blast
qed

lemma chains_end_iff: "rbac_ok st \<Longrightarrow> chains_end (rb_db st) \<longleftrightarrow> acyclic (role_parents (rb_db st))"
  using acyclic_chains_end chains_end_acyclic by (auto simp: rbac_tables)

text \<open>A new way out of \<open>i\<close> closes a cycle when \<open>i\<close> can be reached from its end, over the old ways.\<close>

lemma reach_first: "(p, i) \<in> R\<^sup>* \<longleftrightarrow> (p, i) \<in> {e \<in> R. fst e \<noteq> i}\<^sup>*"
proof
  assume "(p, i) \<in> R\<^sup>*"
  then show "(p, i) \<in> {e \<in> R. fst e \<noteq> i}\<^sup>*"
  proof (induction rule: converse_rtrancl_induct)
    case (step p q)
    then show ?case by (cases "p = i") (auto intro: converse_rtrancl_into_rtrancl)
  qed simp
next
  assume "(p, i) \<in> {e \<in> R. fst e \<noteq> i}\<^sup>*"
  then show "(p, i) \<in> R\<^sup>*" by (rule rtrancl_mono [THEN subsetD, rotated]) auto
qed

lemma acyclic_replace:
  assumes "acyclic R"
  shows "acyclic (insert (i, p) {e \<in> R. fst e \<noteq> i}) \<longleftrightarrow> (p, i) \<notin> R\<^sup>*"
proof -
  have "acyclic {e \<in> R. fst e \<noteq> i}" using assms by (rule acyclic_subset) auto
  then show ?thesis using reach_first [of p i R] by (simp add: acyclic_insert)
qed

section \<open>Which writes close a cycle\<close>

text \<open>
  A role is given a parent that is the role itself or stands below it: by an update, or by creating a role under
  the id that the sequence is about to give it.
\<close>

definition closes_cycle :: "int \<Rightarrow> store_op \<Rightarrow> rbac_store \<Rightarrow> bool" where
  "closes_cycle now op st \<longleftrightarrow> (case op of
     Create_Role r \<Rightarrow> is_ok (snd (create_role now r st)) \<and> rl_parent r = Some (rb_seq st)
   | Update_Role r \<Rightarrow> (case rl_parent r of None \<Rightarrow> False | Some p \<Rightarrow>
       rl_id r \<in> set (role_ids st) \<and> p \<in> set (role_ids st) \<and> (p, rl_id r) \<in> (role_parents (rb_db st))\<^sup>*)
   | _ \<Rightarrow> False)"

definition updated :: "int \<Rightarrow> rbac_role \<Rightarrow> rbac_role \<Rightarrow> rbac_role" where
  "updated now r q = (if rl_id q = rl_id r
     then q\<lparr>rl_display := rl_display r, rl_description := rl_description r, rl_permissions := rl_permissions r,
            rl_parent := rl_parent r, rl_updated_at := now\<rparr> else q)"

lemma updated_simps [simp]: "rl_id (updated now r q) = rl_id q"
    "rl_parent (updated now r q) = (if rl_id q = rl_id r then rl_parent r else rl_parent q)"
  by (simp_all add: updated_def)

lemma role_parents_update:
  assumes "db_roles db' = map (updated now r) (db_roles db)"
  shows "role_parents db' = {e \<in> role_parents db. fst e \<noteq> rl_id r} \<union>
    (case rl_parent r of None \<Rightarrow> {} | Some p \<Rightarrow> if rl_id r \<in> rl_id ` set (db_roles db) then {(rl_id r, p)} else {})"
    (is "_ = ?new")
proof -
  have new: "(i, p) \<in> role_parents db' \<longleftrightarrow> (\<exists>q \<in> set (db_roles db). rl_id q = i \<and>
      (if i = rl_id r then rl_parent r else rl_parent q) = Some p)" for i p
    by (auto simp: role_parents_def assms)
  have "(i, p) \<in> role_parents db' \<longleftrightarrow> (i, p) \<in> ?new" for i p
    by (cases "i = rl_id r"; cases "rl_parent r") (auto simp: new image_iff, auto simp: role_parents_def)
  then show ?thesis by auto
qed

lemma chains_end_update:
  assumes ok: "rbac_ok st" and ends: "chains_end (rb_db st)"
  shows "chains_end (rb_db (fst (update_role now r st))) \<longleftrightarrow> \<not> closes_cycle now (Update_Role r) st"
proof -
  let ?st = "fst (update_role now r st)" and ?R = "role_parents (rb_db st)" and ?i = "rl_id r"
  have R: "acyclic ?R" using ok ends by (simp add: chains_end_iff)
  show ?thesis
  proof (cases "list_ex (\<lambda>q. rl_id q = ?i) (db_roles (rb_db st)) \<and> \<not> refers (rl_parent r) (role_ids st)")
    case True
    then have "?st = st" by (simp add: update_role_def)
    moreover have "\<not> closes_cycle now (Update_Role r) st" using True by (auto simp: closes_cycle_def split: option.splits)
    ultimately show ?thesis using ends by simp
  next
    case False
    then have roles: "role_parents (rb_db ?st) = {e \<in> ?R. fst e \<noteq> ?i} \<union>
        (case rl_parent r of None \<Rightarrow> {} | Some p \<Rightarrow> if ?i \<in> rl_id ` set (db_roles (rb_db st)) then {(?i, p)} else {})"
      by (intro role_parents_update [where now = now]) (simp add: update_role_def if_not_P [OF False] updated_def del: refers_iff)
    have old: "acyclic {e \<in> ?R. fst e \<noteq> ?i}" using R by (rule acyclic_subset) auto
    have "chains_end (rb_db ?st) \<longleftrightarrow> acyclic (role_parents (rb_db ?st))"
      using ok rbac_ok_update_role by (simp add: chains_end_iff)
    also have "\<dots> \<longleftrightarrow> \<not> closes_cycle now (Update_Role r) st"
    proof (cases "rl_parent r")
      case None
      then show ?thesis using old unfolding roles by (simp add: closes_cycle_def)
    next
      case (Some p)
      show ?thesis
      proof (cases "?i \<in> rl_id ` set (db_roles (rb_db st))")
        case True
        then have "p \<in> set (role_ids st)" using False Some by (auto simp: list_ex_iff)
        then show ?thesis using acyclic_replace [OF R, of ?i p] True Some unfolding roles by (simp add: closes_cycle_def)
      next
        case False
        then show ?thesis using old Some unfolding roles by (simp add: closes_cycle_def)
      qed
    qed
    finally show ?thesis .
  qed
qed

lemma role_parents_create:
  assumes "snd (create_role now r st) = Inr q"
  shows "role_parents (rb_db (fst (create_role now r st))) = role_parents (rb_db st) \<union>
    (case rl_parent r of None \<Rightarrow> {} | Some p \<Rightarrow> {(rb_seq st, p)})"
proof -
  have "db_roles (rb_db (fst (create_role now r st))) = db_roles (rb_db st) @ [q]" "rl_id q = rb_seq st" "rl_parent q = rl_parent r"
    using assms by (auto simp: create_role_def next_id_def Let_def split: if_splits)
  then show ?thesis by (cases "rl_parent r") (auto simp: role_parents_def)
qed

lemma role_parents_fresh: "rbac_ok st \<Longrightarrow> (rb_seq st, p) \<notin> role_parents (rb_db st) \<and> (p, rb_seq st) \<notin> role_parents (rb_db st)"
proof -
  assume ok: "rbac_ok st"
  have below: "rl_id r < rb_seq st" if "r \<in> set (db_roles (rb_db st))" for r
    using ok that by (simp add: rbac_tables list_all_iff)
  have refs: "k \<in> rl_id ` set (db_roles (rb_db st))" if "r \<in> set (db_roles (rb_db st))" "rl_parent r = Some k" for r k
    using ok that by (simp add: rbac_tables list_all_iff)
  have "rb_seq st \<notin> rl_id ` set (db_roles (rb_db st))" using below by force
  then show ?thesis using refs by (force simp: role_parents_def)
qed

lemma chains_end_create:
  assumes ok: "rbac_ok st" and ends: "chains_end (rb_db st)"
  shows "chains_end (rb_db (fst (create_role now r st))) \<longleftrightarrow> \<not> closes_cycle now (Create_Role r) st"
proof (cases "snd (create_role now r st)")
  case (Inl e)
  then have "rb_db (fst (create_role now r st)) = rb_db st"
    by (auto simp: create_role_def next_id_def Let_def split: if_splits)
  then show ?thesis using Inl ends by (simp add: closes_cycle_def)
next
  case (Inr q)
  let ?R = "role_parents (rb_db st)" and ?i = "rb_seq st"
  have R: "acyclic ?R" using ok ends by (simp add: chains_end_iff)
  have "chains_end (rb_db (fst (create_role now r st))) \<longleftrightarrow> acyclic (role_parents (rb_db (fst (create_role now r st))))"
    using ok rbac_ok_create_role by (simp add: chains_end_iff)
  also have "\<dots> \<longleftrightarrow> \<not> closes_cycle now (Create_Role r) st"
  proof (cases "rl_parent r")
    case None
    then show ?thesis using R by (simp add: role_parents_create [OF Inr] closes_cycle_def)
  next
    case (Some p)
    have "(p, ?i) \<in> ?R\<^sup>* \<longleftrightarrow> p = ?i" using role_parents_fresh [OF ok] by (metis rtranclE rtrancl.rtrancl_refl)
    then show ?thesis using R Some Inr by (simp add: role_parents_create [OF Inr] closes_cycle_def acyclic_insert)
  qed
  finally show ?thesis .
qed

lemma chains_end_subset:
  assumes "rbac_ok st" "rbac_ok st'" "chains_end (rb_db st)" "role_parents (rb_db st') \<subseteq> role_parents (rb_db st)"
  shows "chains_end (rb_db st')"
  using assms by (metis acyclic_subset chains_end_iff)

lemma role_parents_delete: "role_parents (rb_db (fst (delete_role i st))) \<subseteq> role_parents (rb_db st)"
  by (auto simp: delete_role_def drop_role_def role_parents_def split: sum.splits if_splits)

lemma other_ops_keep_roles:
  "db_roles (rb_db (fst (assign_role_to_user now u st))) = db_roles (rb_db st)"
  "db_roles (rb_db (revoke_role_from_user i st)) = db_roles (rb_db st)"
  "db_roles (rb_db (fst (create_team now t st))) = db_roles (rb_db st)"
  "db_roles (rb_db (fst (update_team now t st))) = db_roles (rb_db st)"
  "db_roles (rb_db (delete_team i st)) = db_roles (rb_db st)"
  "db_roles (rb_db (fst (add_team_member now m st))) = db_roles (rb_db st)"
  "db_roles (rb_db (remove_team_member i j st)) = db_roles (rb_db st)"
  "db_roles (rb_db (fst (assign_role_to_team now tr st))) = db_roles (rb_db st)"
  "db_roles (rb_db (revoke_role_from_team i st)) = db_roles (rb_db st)"
  "db_roles (rb_db (with_db (\<lambda>db. invalidate_cache pc db i) st)) = db_roles (rb_db st)"
  "db_roles (rb_db (fst (cleanup_expired_permissions now st))) = db_roles (rb_db st)"
  by (simp_all add: assign_role_to_user_def revoke_role_from_user_def create_team_def update_team_def delete_team_def
      add_team_member_def remove_team_member_def assign_role_to_team_def revoke_role_from_team_def with_db_def
      invalidate_cache_def cleanup_expired_permissions_def next_id_def Let_def)

lemma chains_end_same_roles:
  "rbac_ok st \<Longrightarrow> rbac_ok st' \<Longrightarrow> chains_end (rb_db st) \<Longrightarrow> db_roles (rb_db st') = db_roles (rb_db st) \<Longrightarrow> chains_end (rb_db st')"
  by (rule chains_end_subset) (auto simp: role_parents_def)

lemma closes_cycle_op:
  assumes ok: "rbac_ok st" and ends: "chains_end (rb_db st)"
  shows "chains_end (rb_db (run_op now op st)) \<longleftrightarrow> \<not> closes_cycle now op st"
proof (cases op)
  case (Create_Role r)
  then show ?thesis using chains_end_create [OF assms] by simp
next
  case (Update_Role r)
  then show ?thesis using chains_end_update [OF assms] by simp
next
  case (Delete_Role i)
  then have "chains_end (rb_db (run_op now op st))"
    using chains_end_subset [OF ok _ ends role_parents_delete] rbac_ok_run_op [OF ok, of now op] by simp
  then show ?thesis using Delete_Role by (simp add: closes_cycle_def)
qed (use chains_end_same_roles [OF ok rbac_ok_run_op [OF ok, of now op] ends] in
      \<open>simp_all add: closes_cycle_def other_ops_keep_roles\<close>)

lemma empty_store_ok: "rbac_ok (empty_store users orgs)" "chains_end (rb_db (empty_store users orgs))"
  by (simp_all add: empty_store_def rbac_tables no_two_def chains_end_def)

section \<open>What follows\<close>

lemma resolve_no_error:
  assumes "rbac_ok st" "r \<in> set (db_roles (rb_db st))" "resolve_role_inheritance (rb_db st) r = Some x"
  shows "is_ok x"
proof -
  let ?db = "rb_db st"
  have d: "distinct (map rl_id (db_roles ?db))" "list_all (\<lambda>r. refers (rl_parent r) (map rl_id (db_roles ?db))) (db_roles ?db)"
    using assms(1) by (simp_all add: rbac_tables)
  obtain n where "ancestor ?db n r = None" using resolve_stops [OF assms(3)] by blast
  then show ?thesis using assms(2,3)
  proof (induction n arbitrary: r x)
    case (Suc n)
    show ?case
    proof (cases "rl_parent r")
      case None
      then show ?thesis using Suc.prems(3) by (auto simp: resolve_role_inheritance.simps)
    next
      case (Some p)
      have "p \<in> rl_id ` set (db_roles ?db)" using d(2) Suc.prems(2) Some by (auto simp: list_all_iff)
      then obtain q where q: "get_role ?db p = Inr q" "q \<in> set (db_roles ?db)" using get_role_iff [OF d(1)] by auto
      then obtain y where y: "resolve_role_inheritance ?db q = Some y" "x = rbind y (\<lambda>parents. Inr (r # parents))"
        using Suc.prems(3) Some by (subst (asm) resolve_role_inheritance.simps) (auto simp: bind_eq_Some_conv)
      moreover have "ancestor ?db n q = None" using Suc.prems(1) Some q by simp
      ultimately show ?thesis using Suc.IH q(2) by (simp add: is_ok_rbind)
    qed
  qed simp
qed


text \<open>
  C10. Over tables whose references hold and in which resolving every role's inheritance returns, a write leaves a role
  whose inheritance is resolved for ever exactly when it gives a role a parent that is the role itself or
  one of its descendants: \<open>UpdateRole\<close> with such a parent, or \<open>CreateRole\<close> with the id the new role is about to get. No
  other write can.
\<close>

theorem write_closes_cycle_iff:
  assumes "rbac_ok st" "chains_end (rb_db st)"
  shows "chains_end (rb_db (run_op now op st)) \<longleftrightarrow> \<not> closes_cycle now op st"
  using assms by (rule closes_cycle_op)

definition base_role :: rbac_role where
  "base_role = org_viewer\<lparr>rl_built_in := False, rl_custom := True\<rparr>"

definition two_roles :: rbac_store where
  "two_roles = run_ops [(0, Create_Role (base_role\<lparr>rl_name := ''a''\<rparr>)), (0, Create_Role (base_role\<lparr>rl_name := ''b'', rl_parent := Some 1\<rparr>))]
     (empty_store [7] [])"

theorem write_closes_cycle_iff_witness:
  "\<not> chains_end (rb_db (run_op 5 (Update_Role (base_role\<lparr>rl_id := 1, rl_parent := Some 2\<rparr>)) two_roles))"
proof -
  let ?es = "empty_store [7] []" and ?a = "base_role\<lparr>rl_name := ''a''\<rparr>" and ?b = "base_role\<lparr>rl_name := ''b'', rl_parent := Some 1\<rparr>"
  have parents: "map (\<lambda>r. (rl_id r, rl_parent r)) (db_roles (rb_db two_roles)) = [(1, None), (2, Some 1)]" by code_simp
  have "chains_end (rb_db (run_op 0 (Create_Role ?a) ?es))"
    using closes_cycle_op [OF empty_store_ok, of 0 "Create_Role ?a"] by (simp add: closes_cycle_def base_role_def org_viewer_def built_in_role_def)
  then have "chains_end (rb_db two_roles)"
    using closes_cycle_op [OF rbac_ok_run_op [OF empty_store_ok(1)], of 0 "Create_Role ?a" "[7]" "[]" 0 "Create_Role ?b"]
    by (simp add: two_roles_def run_ops_def closes_cycle_def create_role_def next_id_def empty_store_def Let_def base_role_def
        org_viewer_def built_in_role_def)
  moreover have "rbac_ok two_roles" unfolding two_roles_def by (rule rbac_ok_run_ops) (rule empty_store_ok)
  moreover have "(2, 1) \<in> role_parents (rb_db two_roles)"
    using parents by (force simp: role_parents_def)
  then have "closes_cycle 5 (Update_Role (base_role\<lparr>rl_id := 1, rl_parent := Some 2\<rparr>)) two_roles"
    using parents by (auto simp: closes_cycle_def)
  ultimately show ?thesis using write_closes_cycle_iff by blast
qed

end
