(* ===== verification/Rbac_Web_Props.thy ===== *)
theory Rbac_Web_Props
  imports Rbac_Web Rbac_Store_Props
begin

text \<open>What requests to the handlers of access control do to later permission checks.\<close>

section \<open>Checks that are computed\<close>

lemma decide_allowed: "co_allowed (decide roles c now) \<longleftrightarrow> (\<exists>r \<in> set roles. pc_permission c \<in> set (rl_permissions r))"
proof -
  have "role_has_permission r p \<longleftrightarrow> p \<in> set (rl_permissions r)" for r p
    by (auto simp: role_has_permission_def list_ex_iff) (metis permission.equality unit.exhaust)
  then show ?thesis by (auto simp: decide_def role_scope_matches_def Let_def filter_empty_conv)
qed

lemma resolve_all_ok:
  "list_all (\<lambda>r. \<exists>x. resolve_role_inheritance db r = Some (Inr x)) rs \<Longrightarrow> \<exists>qs. resolve_all db rs = Some (Inr qs)"
  by (induction rs) auto

lemma roles_resolve:
  assumes "rbac_ok st" "chains_end (rb_db st)" "r \<in> set (db_roles (rb_db st))"
  shows "\<exists>x. resolve_role_inheritance (rb_db st) r = Some (Inr x)"
  using assms resolve_no_error [OF assms(1,3)] by (fastforce simp: chains_end_def list_all_iff is_ok_iff)

lemma assigned_roles_elem: "assigned_roles db now user org \<subseteq> set (db_roles db)"
  using team_roles_elem get_role_elem by (fastforce simp: assigned_roles_def)

text \<open>A check returns, and allows what a role the user holds carries.\<close>

lemma held_role_allows:
  assumes ok: "rbac_ok st" and ends: "chains_end (rb_db st)"
    and none: "ck_enabled pc \<Longrightarrow> get_cached_permission (rb_db st) now c = None"
    and r: "r \<in> assigned_roles (rb_db st) now (pc_user c) (pc_org c)" "pc_permission c \<in> set (rl_permissions r)"
  shows "\<exists>out db. check_permission pc (rb_db st) now c = Some (Inr (out, db)) \<and> co_allowed out"
proof -
  let ?db = "rb_db st"
  have d: "distinct (map rl_id (db_roles ?db))" using ok by (simp add: rbac_tables)
  let ?rs = "map snd (role_map ?db now (pc_user c) (pc_org c))"
  have rs: "set ?rs = assigned_roles ?db now (pc_user c) (pc_org c)" using role_map_roles [OF d] .
  then have "list_all (\<lambda>r. \<exists>x. resolve_role_inheritance ?db r = Some (Inr x)) ?rs"
    using roles_resolve [OF ok ends] assigned_roles_elem by (fastforce simp: list_all_iff)
  then obtain qs where qs: "resolve_all ?db ?rs = Some (Inr qs)" using resolve_all_ok by blast
  have "r \<in> set qs" unfolding resolve_all_roles [OF qs] rs using r(1) by (auto intro!: bexI [of _ r] exI [of _ 0])
  then have "co_allowed (decide qs c now)" using r(2) by (auto simp: decide_allowed)
  then show ?thesis using qs none
    by (cases "ck_enabled pc") (simp_all add: check_permission_def get_user_roles_def Let_def)
qed

lemma invalidated: "get_cached_permission (invalidate_cache pc db user) now c = None" if "ck_enabled pc" "pc_user c = user"
  using that by (simp add: get_cached_permission_def invalidate_cache_def find_None_iff)

section \<open>Anyone may change roles\<close>

definition anonymous_request :: "(string, string) gomap \<Rightarrow> 'b \<Rightarrow> 'b web_request" where
  "anonymous_request vars body = \<lparr>wq_http = \<lparr>rq_method = ''POST'', rq_headers = [], rq_remote = [], rq_vars = vars, rq_ctx = []\<rparr>,
     wq_query = [], wq_body = Some body\<rparr>"

lemma acting_nobody [simp]: "acting_user (anonymous_request vars body) = None"
  by (simp add: acting_user_def anonymous_request_def get_auth_context_def)

lemma log_audit_fields [simp]: "wb_store (log_audit r e t i w) = wb_store w" "wb_checker (log_audit r e t i w) = wb_checker w"
    "wb_now (log_audit r e t i w) = wb_now w"
  by (simp_all add: log_audit_def)

lemma invalidate_user_fields [simp]:
  "wb_store (invalidate_user u w) = with_db (\<lambda>db. invalidate_cache (wb_checker w) db u) (wb_store w)"
  "wb_checker (invalidate_user u w) = wb_checker w" "wb_now (invalidate_user u w) = wb_now w"
  by (simp_all add: invalidate_user_def)

definition free_role_request :: "string \<Rightarrow> permission list \<Rightarrow> role_request" where
  "free_role_request name ps = \<lparr>rr_name = name, rr_display = name, rr_description = [], rr_org = None, rr_permissions = ps, rr_parent = None\<rparr>"

definition free_assignment :: "int \<Rightarrow> assign_request" where
  "free_assignment role = \<lparr>aq_role = role, aq_scope = Scope_Global, aq_resource = None, aq_org = None, aq_expires = None\<rparr>"

text \<open>The two requests, as one step.\<close>

definition grant_to :: "string \<Rightarrow> string \<Rightarrow> permission list \<Rightarrow> rbac_web \<Rightarrow> nat \<times> nat \<times> rbac_web" where
  "grant_to user name ps w =
     (let (rep, w1) = handle_create_role (anonymous_request [] (free_role_request name ps)) w;
          (rep', w2) = handle_assign_role_to_user
            (anonymous_request [(''id'', user)] (free_assignment (rb_seq (wb_store w)))) w1
      in (fst rep, fst rep', w2))"

lemma create_free_role:
  assumes "rl_org r = None" "rl_parent r = None" "rl_created_by r = None"
  shows "create_role now r st =
    (let q = r\<lparr>rl_id := rb_seq st, rl_created_at := now, rl_updated_at := now\<rparr>
     in (st\<lparr>rb_seq := rb_seq st + 1, rb_db := (rb_db st)\<lparr>db_roles := db_roles (rb_db st) @ [q]\<rparr>\<rparr>, Inr q))"
  using assms by (simp add: create_role_def next_id_def Let_def list_ex_iff same_role_name_def sql_eq_def)

lemma assign_free_role:
  assumes "ur_org u = None" "ur_granted_by u = None" "ur_user u \<in> set (rb_users st)" "ur_role u \<in> set (role_ids st)"
    "list_all (\<lambda>v. ur_role v \<noteq> ur_role u) (db_user_roles (rb_db st))"
  shows "assign_role_to_user now u st =
    (let v = u\<lparr>ur_id := rb_seq st, ur_granted_at := now\<rparr>
     in (st\<lparr>rb_seq := rb_seq st + 1, rb_db := (rb_db st)\<lparr>db_user_roles := db_user_roles (rb_db st) @ [v]\<rparr>\<rparr>, Inr v))"
  using assms by (auto simp: assign_role_to_user_def next_id_def Let_def list_ex_iff list_all_iff same_user_role_def)

lemma assigned_after_invalidate:
  "assigned_roles (invalidate_cache pc db u) now user org = assigned_roles db now user org"
  by (simp add: assigned_roles_def store_get_user_roles_def get_user_team_roles_def get_role_def invalidate_cache_def)

lemma new_assignment_counts:
  assumes "rbac_ok st" "get_role (rb_db st) (ur_role u) = Inr q" "u \<in> set (db_user_roles (rb_db st))" "ur_user u = user"
    "ur_org u = None" "ur_expires u = None"
  shows "q \<in> assigned_roles (rb_db st) now user org"
  using assms(2-) by (force simp: assigned_roles_def store_get_user_roles_def)

lemma grant_to_result:
  assumes ok: "rbac_ok (wb_store w)" and ends: "chains_end (rb_db (wb_store w))" and name: "name \<noteq> []"
    and user: "atoi s = Some user" "user \<in> set (rb_users (wb_store w))"
    and grant: "grant_to s name ps w = (status, status', w')"
  obtains st q where "status = 201" "status' = 201" "rbac_ok st" "chains_end (rb_db st)" "wb_checker w' = wb_checker w"
    "wb_store w' = with_db (\<lambda>db. invalidate_cache (wb_checker w) db user) st" "rl_permissions q = ps"
    "\<And>org. q \<in> assigned_roles (rb_db st) (wb_now w') user org"
proof -
  let ?st = "wb_store w" and ?i = "rb_seq (wb_store w)" and ?now = "wb_now w"
  define role where "role = \<lparr>rl_id = 0, rl_name = name, rl_display = name, rl_description = [], rl_org = None, rl_permissions = ps,
    rl_parent = None, rl_built_in = False, rl_custom = True, rl_created_at = 0, rl_updated_at = 0, rl_created_by = None\<rparr>"
  define q where "q = role\<lparr>rl_id := ?i, rl_created_at := ?now, rl_updated_at := ?now\<rparr>"
  define st1 where "st1 = ?st\<lparr>rb_seq := ?i + 1, rb_db := (rb_db ?st)\<lparr>db_roles := db_roles (rb_db ?st) @ [q]\<rparr>\<rparr>"
  have create: "create_role ?now role ?st = (st1, Inr q)"
    by (simp add: create_free_role role_def q_def st1_def Let_def)
  have ok1: "rbac_ok st1" using rbac_ok_create_role [OF ok, of ?now role] create by simp
  have ends1: "chains_end (rb_db st1)"
    using chains_end_create [OF ok ends, of ?now role] create by (simp add: closes_cycle_def role_def)
  have old: "list_all (\<lambda>v. ur_role v \<noteq> ?i) (db_user_roles (rb_db ?st))"
    using ok by (force simp: rbac_tables list_all_iff)
  define u where "u = \<lparr>ur_id = 0, ur_user = user, ur_role = ?i, ur_scope = Scope_Global, ur_resource = None, ur_org = None,
    ur_granted_by = None, ur_granted_at = 0, ur_expires = None\<rparr>"
  define v where "v = u\<lparr>ur_id := rb_seq st1, ur_granted_at := ?now\<rparr>"
  define st2 where "st2 = st1\<lparr>rb_seq := rb_seq st1 + 1, rb_db := (rb_db st1)\<lparr>db_user_roles := db_user_roles (rb_db st1) @ [v]\<rparr>\<rparr>"
  have assign: "assign_role_to_user ?now u st1 = (st2, Inr v)"
    using user(2) old unfolding st2_def v_def by (subst assign_free_role) (auto simp: u_def st1_def q_def Let_def)
  have ok2: "rbac_ok st2" using rbac_ok_other(2) [OF ok1, of ?now u] assign by simp
  have "chains_end (rb_db st2)" by (rule chains_end_same_roles [OF ok1 ok2 ends1]) (simp add: st2_def)
  moreover have "status = 201" "status' = 201" "wb_store w' = with_db (\<lambda>db. invalidate_cache (wb_checker w) db user) st2"
      "wb_checker w' = wb_checker w" "wb_now w' = ?now"
    using grant create assign user(1) name
    by (auto simp: grant_to_def handle_create_role_def handle_assign_role_to_user_def anonymous_request_def [of "[]"]
        anonymous_request_def [of "[(''id'', s)]"] free_role_request_def free_assignment_def path_id_def Let_def role_def [symmetric]
        u_def [symmetric] acting_user_def get_auth_context_def)
  moreover have "get_role (rb_db st2) ?i = Inr q"
    using ok2 by (simp add: get_role_iff rbac_tables) (simp add: st2_def st1_def q_def)
  then have "q \<in> assigned_roles (rb_db st2) (wb_now w') user org" for org
    using new_assignment_counts [OF ok2, of v q user "wb_now w'" org] by (simp add: st2_def v_def u_def)
  moreover have "rl_permissions q = ps" by (simp add: q_def role_def)
  ultimately show thesis using that [of st2 q] ok2 by blast
qed


definition empty_web :: rbac_web where
  "empty_web = new_rbac_web (empty_store [7] []) False"


section \<open>What the cache of checks keeps\<close>

text \<open>The handlers that take permissions away without telling the cache.\<close>

definition silent_handler :: "int \<Rightarrow> (rbac_web \<Rightarrow> rbac_web) \<Rightarrow> bool" where
  "silent_handler user h \<longleftrightarrow>
     (\<exists>r. h = snd \<circ> handle_update_role r) \<or> (\<exists>r. h = snd \<circ> handle_delete_role r) \<or>
     (\<exists>r. h = snd \<circ> handle_delete_team r) \<or> (\<exists>r. h = snd \<circ> handle_remove_team_member r) \<or>
     (\<exists>r. h = snd \<circ> handle_revoke_role_from_team r) \<or>
     (\<exists>r. h = snd \<circ> handle_revoke_role_from_user r \<and> path_id r ''id'' \<noteq> Some user)"

lemma cached_same:
  "filter (\<lambda>e. pe_user e = pc_user c) (db_cache db') = filter (\<lambda>e. pe_user e = pc_user c) (db_cache db) \<Longrightarrow>
   get_cached_permission db' now c = get_cached_permission db now c"
proof -
  assume same: "filter (\<lambda>e. pe_user e = pc_user c) (db_cache db') = filter (\<lambda>e. pe_user e = pc_user c) (db_cache db)"
  have find: "find (\<lambda>e. pe_user e = pc_user c \<and> Q e) es = find Q (filter (\<lambda>e. pe_user e = pc_user c) es)" for Q es
    by (induction es) auto
  show ?thesis unfolding get_cached_permission_def find same ..
qed

lemma cache_after_writes:
  "db_cache (rb_db (fst (update_role now r st))) = db_cache (rb_db st)"
  "db_cache (rb_db (fst (delete_role i st))) = db_cache (rb_db st)"
  "db_cache (rb_db (delete_team i st)) = db_cache (rb_db st)"
  "db_cache (rb_db (remove_team_member i j st)) = db_cache (rb_db st)"
  "db_cache (rb_db (revoke_role_from_team i st)) = db_cache (rb_db st)"
  "db_cache (rb_db (revoke_role_from_user i st)) = db_cache (rb_db st)"
  by (simp_all add: update_role_def delete_role_def drop_role_def delete_team_def remove_team_member_def
      revoke_role_from_team_def revoke_role_from_user_def split: sum.splits)

lemma silent_handler_keeps:
  assumes "silent_handler (pc_user c) h"
  shows "wb_checker (h w) = wb_checker w \<and>
    get_cached_permission (rb_db (wb_store (h w))) now c = get_cached_permission (rb_db (wb_store w)) now c"
  using assms unfolding silent_handler_def
proof (elim disjE exE conjE)
  fix r assume h: "h = snd \<circ> handle_update_role r"
  show ?thesis using cache_after_writes(1)
    by (auto simp: h handle_update_role_def Let_def split: option.splits sum.splits prod.splits intro!: cached_same)
      (metis fst_conv)+
next
  fix r assume h: "h = snd \<circ> handle_delete_role r"
  show ?thesis using cache_after_writes(2)
    by (auto simp: h handle_delete_role_def Let_def split: option.splits sum.splits prod.splits intro!: cached_same)
      (metis fst_conv)+
next
  fix r assume h: "h = snd \<circ> handle_revoke_role_from_user r" "path_id r ''id'' \<noteq> Some (pc_user c)"
  have "filter (\<lambda>e. pe_user e = pc_user c) (db_cache (invalidate_cache pc db u)) = filter (\<lambda>e. pe_user e = pc_user c) (db_cache db)"
    if "u \<noteq> pc_user c" for pc db u
    using that by (auto simp: invalidate_cache_def intro!: filter_cong)
  then show ?thesis using h(2)
    by (auto simp: h(1) handle_revoke_role_from_user_def with_db_def cache_after_writes(6) split: option.splits intro!: cached_same)
qed (auto simp: handle_delete_team_def handle_remove_team_member_def handle_revoke_role_from_team_def cache_after_writes
      split: option.splits intro!: cached_same)

text \<open>
  Taking a permission away does not end the checks that were cached: when a role is changed or deleted, a team is deleted
  or loses a member or a role, or an assignment is revoked under another user's path, a cached check of the user
  keeps its answer until it expires.
\<close>

lemma revocation_keeps_cached_check:
  assumes "ck_enabled (wb_checker w)" "get_cached_permission (rb_db (wb_store w)) now c = Some e" "silent_handler (pc_user c) h"
  shows "check_permission (wb_checker (h w)) (rb_db (wb_store (h w))) now c =
    Some (Inr (\<lparr>co_allowed = pe_allowed e, co_reason = ''cached result'', co_matched = [], co_checked_at = now\<rparr>,
      rb_db (wb_store (h w))))"
  using silent_handler_keeps [OF assms(3), of w now] assms(1,2) by (simp add: check_permission_def)

text \<open>A change of a user's assignments through the user's own path leaves nothing cached for this user.\<close>

lemma assigned_through_own_path:
  assumes "ck_enabled (wb_checker w)" "path_id r ''id'' = Some (pc_user c)"
    "handle_assign_role_to_user r w = ((201, reply), w')"
  shows "get_cached_permission (rb_db (wb_store w')) now c = None"
  using assms by (auto simp: handle_assign_role_to_user_def bad_request_def Let_def with_db_def invalidated
      split: option.splits sum.splits prod.splits)

lemma revoked_through_own_path:
  assumes "ck_enabled (wb_checker w)" "path_id r ''id'' = Some (pc_user c)"
    "handle_revoke_role_from_user r w = ((204, reply), w')"
  shows "get_cached_permission (rb_db (wb_store w')) now c = None"
  using assms by (auto simp: handle_revoke_role_from_user_def bad_request_def with_db_def invalidated split: option.splits)

definition cached_web :: rbac_web where
  "cached_web = empty_web\<lparr>wb_store := with_db (\<lambda>db. db\<lparr>db_cache := [\<lparr>pe_user = 7, pe_permission = ''module:delete'',
     pe_scope = Scope_Module, pe_resource = None, pe_org = None, pe_allowed = True, pe_expires = 300, pe_created = 0\<rparr>]\<rparr>)
     (wb_store empty_web)\<rparr>"

definition delete_check :: permission_check where
  "delete_check = \<lparr>pc_user = 7, pc_permission = \<lparr>pm_resource = ''module'', pm_action = ''delete''\<rparr>, pc_scope = Scope_Module,
     pc_resource = None, pc_org = None\<rparr>"

end
