(* ===== verification/Proto_Text.thy ===== *)
theory Proto_Text
  imports Proto_AST
begin

text \<open>
  What the protobuf parser reads from the source text itself, line by line: the imports, the files that stand for
  them, the directives and comments, and the lines where declarations start (\<open>pkg/api/protobuf/ast_descriptor.go\<close>
  up to the compiler call and \<open>extractPositionsFromContent\<close>, and \<open>ast_spoke_directives.go\<close>).
\<close>

definition text_lines :: "string \<Rightarrow> string list" where
  "text_lines content = split_on (CHR 0x0A) content"

section \<open>Imports\<close>

text \<open>A line at its first pair of double quotes: what is before them, between them, and from the second one on.\<close>

definition quoted_part :: "string \<Rightarrow> (string \<times> string \<times> string) option" where
  "quoted_part line =
     (let before = takeWhile (\<lambda>c. c \<noteq> CHR 0x22) line; rest = tl (dropWhile (\<lambda>c. c \<noteq> CHR 0x22) line) in
      if CHR 0x22 \<notin> set line \<or> CHR 0x22 \<notin> set rest then None
      else Some (before, takeWhile (\<lambda>c. c \<noteq> CHR 0x22) rest, dropWhile (\<lambda>c. c \<noteq> CHR 0x22) rest))"

definition preprocess_line :: "string \<Rightarrow> string" where
  "preprocess_line line =
     (if contains_text line ''import '' \<and> CHR 0x22 \<in> set line then
        (case quoted_part line of
           None \<Rightarrow> line
         | Some (before, path, rest) \<Rightarrow> before @ [CHR 0x22] @ replace_char (CHR ''@'') (CHR ''-'') path @ rest)
      else line)"

definition preprocess_import_paths :: "string \<Rightarrow> string" where
  "preprocess_import_paths content = join_strings newline (map preprocess_line (text_lines content))"

text \<open>The import statement of a line: what is before the quotes, and the path.\<close>

definition import_of_line :: "string \<Rightarrow> (string \<times> string) option" where
  "import_of_line line =
     (let line = trim_space line in
      if has_prefix line ''import '' then map_option (\<lambda>(before, path, _). (before, path)) (quoted_part line) else None)"

definition import_lines :: "string \<Rightarrow> (string \<times> string) list" where
  "import_lines content = List.map_filter import_of_line (text_lines content)"

definition extract_import_paths :: "string \<Rightarrow> string list" where
  "extract_import_paths content = map snd (import_lines content)"

definition extract_import_modifiers :: "string \<Rightarrow> string list \<times> string list" where
  "extract_import_modifiers content =
     (let public = (\<lambda>(before, _). contains_text before ''public''); weak = (\<lambda>(before, _). contains_text before ''weak'')
      in (map snd (filter public (import_lines content)),
          map snd (filter (\<lambda>l. \<not> public l \<and> weak l) (import_lines content))))"

section \<open>Files that stand for imports\<close>

definition version_like :: "string \<Rightarrow> bool" where
  "version_like part \<longleftrightarrow> length part > 1 \<and> part ! 0 = CHR ''v'' \<and> is_digit (part ! 1)"

fun dash_name :: "string list \<Rightarrow> string \<Rightarrow> string" where
  "dash_name [] name = name"
| "dash_name (part # parts) name =
     (if version_like part then name
      else if CHR ''.'' \<in> set part then dash_name parts name
      else dash_name parts (if name = [] then part else name))"

text \<open>The last directory that does not look like a version.\<close>

definition directory_name :: "string list \<Rightarrow> string" where
  "directory_name parts =
     (case find (\<lambda>part. \<not> (CHR ''.'' \<in> set part \<or> version_like part)) (rev (butlast parts)) of
        Some part \<Rightarrow> part | None \<Rightarrow> [])"

text \<open>\<open>strings.ToUpper\<close> of a string of one byte: one that is not ASCII is replaced by U+FFFD.\<close>

definition upper_first :: "char \<Rightarrow> string" where
  "upper_first c =
     (if in_range (CHR ''a'') (CHR ''z'') c then [char_of (of_char c - 32 :: nat)]
      else if (of_char c :: nat) < 128 then [c] else [CHR 0xEF, CHR 0xBF, CHR 0xBD])"

text \<open>How many bytes \<open>range\<close> reads at the start of a string: those of a valid UTF-8 encoding, or one.\<close>

definition is_tail_byte :: "char \<Rightarrow> bool" where
  "is_tail_byte c = in_range (CHR 0x80) (CHR 0xBF) c"

definition rune_width :: "string \<Rightarrow> nat" where
  "rune_width s = (case s of
     a # b # c # d # _ \<Rightarrow>
       if in_range (CHR 0xC2) (CHR 0xDF) a \<and> is_tail_byte b then 2
       else if in_range (CHR 0xE0) (CHR 0xEF) a \<and> is_tail_byte b \<and> is_tail_byte c \<and>
         (a = CHR 0xE0 \<longrightarrow> CHR 0xA0 \<le> b) \<and> (a = CHR 0xED \<longrightarrow> b \<le> CHR 0x9F) then 3
       else if in_range (CHR 0xF0) (CHR 0xF4) a \<and> is_tail_byte b \<and> is_tail_byte c \<and> is_tail_byte d \<and>
         (a = CHR 0xF0 \<longrightarrow> CHR 0x90 \<le> b) \<and> (a = CHR 0xF4 \<longrightarrow> b \<le> CHR 0x8F) then 4
       else 1
   | [a, b, c] \<Rightarrow>
       if in_range (CHR 0xC2) (CHR 0xDF) a \<and> is_tail_byte b then 2
       else if in_range (CHR 0xE0) (CHR 0xEF) a \<and> is_tail_byte b \<and> is_tail_byte c \<and>
         (a = CHR 0xE0 \<longrightarrow> CHR 0xA0 \<le> b) \<and> (a = CHR 0xED \<longrightarrow> b \<le> CHR 0x9F) then 3
       else 1
   | [a, b] \<Rightarrow> if in_range (CHR 0xC2) (CHR 0xDF) a \<and> is_tail_byte b then 2 else 1
   | _ \<Rightarrow> 1)"

definition is_letter :: "char \<Rightarrow> bool" where
  "is_letter c \<longleftrightarrow> in_range (CHR ''a'') (CHR ''z'') c \<or> in_range (CHR ''A'') (CHR ''Z'') c \<or> c = CHR ''_''"

lemma rune_width_pos: "0 < rune_width s"
  by (simp add: rune_width_def split: list.split)

function sanitize_loop :: "bool \<Rightarrow> string \<Rightarrow> string" where
  "sanitize_loop start [] = []"
| "sanitize_loop start (c # s) =
     (if is_letter c then c # sanitize_loop False s
      else if is_digit c then (if start then [CHR ''_'', c] else [c]) @ sanitize_loop False s
      else CHR ''_'' # sanitize_loop False (drop (rune_width (c # s)) (c # s)))"
  by pat_completeness auto

termination sanitize_loop
  by (relation "measure (\<lambda>(start, s). length s)") (simp_all add: rune_width_pos)

definition sanitize_identifier :: "string \<Rightarrow> string" where
  "sanitize_identifier s = (if s = [] then ''dummy''
     else let result = sanitize_loop True s in if result = [] then ''dummy'' else result)"

definition dummy_names :: "string \<Rightarrow> string \<times> string" where
  "dummy_names import_path =
     (let parts = split_on (CHR ''/'') (trim_suffix import_path ''.proto'');
          package = dash_name (split_on (CHR ''-'') (last parts)) [];
          package = (if package = [] then directory_name parts else package);
          message = (case package of [] \<Rightarrow> [] | c # s \<Rightarrow> upper_first c @ s)
      in (sanitize_identifier (if package = [] then ''dummy'' else package),
          sanitize_identifier (if message = [] then ''DummyMessage'' else message)))"

definition proto3_line :: string where
  "proto3_line = line_of (''syntax = '' @ in_double_quotes ''proto3'' @ '';'')"

definition generate_dummy_proto :: "string \<Rightarrow> string" where
  "generate_dummy_proto import_path =
     (let (package, message) = dummy_names import_path in
      proto3_line @ line_of (''package '' @ package @ '';'') @ newline @
      line_of ''// Auto-generated dummy message for import resolution'' @
      line_of (''message '' @ message @ '' {'') @ line_of ''  string id = 1;'' @ line_of ''}'')"

text \<open>The definitions of Google's types, as lines after the first two.\<close>

definition google_types :: "(string \<times> string list) list" where
  "google_types =
     [(''google/protobuf/timestamp.proto'',
       [''message Timestamp {'', ''  int64 seconds = 1;'', ''  int32 nanos = 2;'', ''}'']),
      (''google/protobuf/duration.proto'',
       [''message Duration {'', ''  int64 seconds = 1;'', ''  int32 nanos = 2;'', ''}'']),
      (''google/protobuf/any.proto'',
       [''message Any {'', ''  string type_url = 1;'', ''  bytes value = 2;'', ''}'']),
      (''google/protobuf/struct.proto'',
       [''message Struct {'', ''  map<string, Value> fields = 1;'', ''}'', [],
        ''message Value {'', ''  oneof kind {'', ''    double number_value = 1;'', ''    string string_value = 2;'',
        ''    bool bool_value = 3;'', ''    Struct struct_value = 4;'', ''    ListValue list_value = 5;'', ''  }'', ''}'', [],
        ''message ListValue {'', ''  repeated Value values = 1;'', ''}'']),
      (''google/protobuf/empty.proto'', [''message Empty {}'']),
      (''google/protobuf/wrappers.proto'',
       [''message DoubleValue { double value = 1; }'', ''message FloatValue { float value = 1; }'',
        ''message Int64Value { int64 value = 1; }'', ''message UInt64Value { uint64 value = 1; }'',
        ''message Int32Value { int32 value = 1; }'', ''message UInt32Value { uint32 value = 1; }'',
        ''message BoolValue { bool value = 1; }'', ''message StringValue { string value = 1; }'',
        ''message BytesValue { bytes value = 1; }''])]"

definition get_dummy_proto_content :: "string \<Rightarrow> string" where
  "get_dummy_proto_content import_path = (case map_of google_types import_path of
     Some ls \<Rightarrow> proto3_line @ line_of ''package google.protobuf;'' @ newline @ concat (map line_of ls)
   | None \<Rightarrow> generate_dummy_proto import_path)"

section \<open>Directives and comments\<close>

type_synonym directives = "(int, spoke_directive_node) gomap"
type_synonym comments = "(int, comment_node list) gomap"

text \<open>Why parsing stops: an error that is returned, or a slice out of bounds.\<close>

datatype parse_stop = Parse_Error string | Parse_Panic go_panic

definition at_line :: "int \<Rightarrow> ast_position" where
  "at_line n = \<lparr>pos_line = n, pos_column = 0, pos_offset = 0\<rparr>"

definition is_spoke_directive :: "string \<Rightarrow> bool" where
  "is_spoke_directive s = has_prefix s ''@spoke:''"

definition extract_spoke_directive :: "string \<Rightarrow> int \<Rightarrow> int \<Rightarrow> parse_stop + spoke_directive_node" where
  "extract_spoke_directive s line column =
     (if \<not> has_prefix s ''@spoke:'' then Inl (Parse_Error ''not a spoke directive'')
      else let directive = trim_prefix s ''@spoke:'' in
        if CHR '':'' \<notin> set directive then Inl (Parse_Error ''invalid spoke directive format, expected @spoke:option:value'')
        else Inr \<lparr>sd_option = trim_space (takeWhile (\<lambda>c. c \<noteq> CHR '':'') directive),
          sd_value = trim_space (tl (dropWhile (\<lambda>c. c \<noteq> CHR '':'') directive)), sd_comments = [],
          sd_pos = \<lparr>pos_line = line, pos_column = column, pos_offset = 0\<rparr>, sd_end = pos0\<rparr>)"

definition extract_block_comment_text :: "string \<Rightarrow> parse_stop + string" where
  "extract_block_comment_text line = (case (index_of ''/*'' line, index_of ''*/'' line) of
     (Some start, Some stop) \<Rightarrow>
       if stop \<le> start then Inr []
       else if stop < start + 2 then Inl (Parse_Panic IndexOutOfRange)
       else Inr (trim_space (take (stop - (start + 2)) (drop (start + 2) line)))
   | _ \<Rightarrow> Inr [])"

definition note_directive :: "string \<Rightarrow> int \<Rightarrow> directives \<Rightarrow> parse_stop + directives" where
  "note_directive s n ds =
     (if is_spoke_directive s then rbind (extract_spoke_directive s n 0) (\<lambda>d. Inr (gm_put n d ds)) else Inr ds)"

definition add_comment :: "string \<Rightarrow> int \<Rightarrow> comments \<Rightarrow> comments" where
  "add_comment s n cs = gm_put n ((case gm_get cs n of Some l \<Rightarrow> l | None \<Rightarrow> []) @
     [\<lparr>cm_text = s, cm_leading = False, cm_trailing = False, cm_pos = at_line n, cm_end = pos0\<rparr>]) cs"

definition before_text :: "string \<Rightarrow> string \<Rightarrow> string" where
  "before_text sub s = (case index_of sub s of Some i \<Rightarrow> take i s | None \<Rightarrow> s)"

definition after_text :: "string \<Rightarrow> string \<Rightarrow> string" where
  "after_text sub s = (case index_of sub s of Some i \<Rightarrow> drop (i + length sub) s | None \<Rightarrow> s)"

text \<open>One line of the loop: whether a block comment is open, and the maps so far.\<close>

type_synonym directive_state = "bool \<times> directives \<times> comments"

definition directive_line :: "int \<Rightarrow> string \<Rightarrow> directive_state \<Rightarrow> parse_stop + directive_state" where
  "directive_line n original = (\<lambda>(inside, ds, cs).
     let line = trim_space original in
     if contains_text line ''/*'' then
       (if contains_text line ''*/'' then
          rbind (extract_block_comment_text line) (\<lambda>t. rbind (note_directive t n ds) (\<lambda>ds. Inr (False, ds, cs)))
        else rbind (note_directive (trim_space (after_text ''/*'' line)) n ds) (\<lambda>ds. Inr (True, ds, cs)))
     else if inside then
       (if contains_text line ''*/'' then
          rbind (note_directive (trim_space (trim_prefix (before_text ''*/'' line) ''*'')) n ds) (\<lambda>ds. Inr (False, ds, cs))
        else rbind (note_directive (trim_space (trim_prefix line ''*'')) n ds) (\<lambda>ds. Inr (True, ds, cs)))
     else if has_prefix line ''//'' then
       (let comment = trim_space (trim_prefix line ''//'') in
        if is_spoke_directive comment then rbind (note_directive comment n ds) (\<lambda>ds. Inr (False, ds, cs))
        else Inr (False, ds, add_comment original n cs))
     else Inr (False, ds, cs))"

fun directive_lines :: "int \<Rightarrow> string list \<Rightarrow> directive_state \<Rightarrow> parse_stop + directive_state" where
  "directive_lines n [] st = Inr st"
| "directive_lines n (line # ls) st = rbind (directive_line n line st) (directive_lines (n + 1) ls)"

definition parse_spoke_directives :: "string \<Rightarrow> parse_stop + directives \<times> comments" where
  "parse_spoke_directives content =
     rbind (directive_lines 1 (text_lines content) (False, [], [])) (\<lambda>(_, ds, cs). Inr (ds, cs))"

section \<open>Where declarations start\<close>

record position_map =
  pm_package :: int
  pm_syntax :: int
  pm_imports :: "(string, int) gomap"
  pm_messages :: "(string, int) gomap"
  pm_enums :: "(string, int) gomap"
  pm_services :: "(string, int) gomap"
  pm_fields :: "(string, int) gomap"
  pm_oneofs :: "(string, int) gomap"
  pm_rpcs :: "(string, int) gomap"

record line_scan =
  sc_pm :: position_map
  sc_message :: string
  sc_service :: string
  sc_depth :: int

text \<open>The word after the keyword.\<close>

definition second_word :: "string \<Rightarrow> string option" where
  "second_word s = (case go_fields s of _ # w # _ \<Rightarrow> Some w | _ \<Rightarrow> None)"

definition scoped :: "string \<Rightarrow> string \<Rightarrow> string" where
  "scoped scope name = (if scope \<noteq> [] then scope @ ''.'' @ name else name)"

fun word_before_equals :: "string list \<Rightarrow> string option" where
  "word_before_equals (a # b # ws) = (if b = ''='' then Some a else word_before_equals (b # ws))"
| "word_before_equals ws = None"

definition scan_header :: "int \<Rightarrow> string \<Rightarrow> line_scan \<Rightarrow> line_scan" where
  "scan_header n t st =
     (let st = (if has_prefix t ''syntax'' then st\<lparr>sc_pm := (sc_pm st)\<lparr>pm_syntax := n\<rparr>\<rparr> else st);
          st = (if has_prefix t ''package'' then st\<lparr>sc_pm := (sc_pm st)\<lparr>pm_package := n\<rparr>\<rparr> else st)
      in if has_prefix t ''import'' then
           (case split_on (CHR 0x22) t of
              _ # path # _ \<Rightarrow> st\<lparr>sc_pm := (sc_pm st)\<lparr>pm_imports := gm_put path n (pm_imports (sc_pm st))\<rparr>\<rparr>
            | _ \<Rightarrow> st)
         else st)"

definition scan_message :: "int \<Rightarrow> string \<Rightarrow> line_scan \<Rightarrow> line_scan" where
  "scan_message n t st = (if has_prefix t ''message'' then (case second_word t of
       Some w \<Rightarrow> st\<lparr>sc_pm := (sc_pm st)\<lparr>pm_messages := gm_put w n (pm_messages (sc_pm st))\<rparr>, sc_message := w\<rparr>
     | None \<Rightarrow> st) else st)"

definition scan_enum :: "int \<Rightarrow> string \<Rightarrow> line_scan \<Rightarrow> line_scan" where
  "scan_enum n t st = (if has_prefix t ''enum'' then (case second_word t of
       Some w \<Rightarrow> st\<lparr>sc_pm := (sc_pm st)\<lparr>pm_enums := gm_put w n (pm_enums (sc_pm st))\<rparr>, sc_message := [], sc_service := []\<rparr>
     | None \<Rightarrow> st) else st)"

definition scan_service :: "int \<Rightarrow> string \<Rightarrow> line_scan \<Rightarrow> line_scan" where
  "scan_service n t st = (if has_prefix t ''service'' then (case second_word t of
       Some w \<Rightarrow> st\<lparr>sc_pm := (sc_pm st)\<lparr>pm_services := gm_put w n (pm_services (sc_pm st))\<rparr>, sc_message := [], sc_service := w\<rparr>
     | None \<Rightarrow> st) else st)"

definition scan_rpc :: "int \<Rightarrow> string \<Rightarrow> line_scan \<Rightarrow> line_scan" where
  "scan_rpc n t st = (if has_prefix t ''rpc'' then (case second_word t of
       Some w \<Rightarrow> (let key = scoped (sc_service st) (before_text ''('' w) in
         st\<lparr>sc_pm := (sc_pm st)\<lparr>pm_rpcs := gm_put key n (pm_rpcs (sc_pm st))\<rparr>\<rparr>)
     | None \<Rightarrow> st) else st)"

definition scan_oneof :: "int \<Rightarrow> string \<Rightarrow> line_scan \<Rightarrow> line_scan" where
  "scan_oneof n t st = (if has_prefix t ''oneof'' then (case second_word t of
       Some w \<Rightarrow> st\<lparr>sc_pm := (sc_pm st)\<lparr>pm_oneofs := gm_put w n (pm_oneofs (sc_pm st))\<rparr>\<rparr>
     | None \<Rightarrow> st) else st)"

definition scan_field :: "int \<Rightarrow> string \<Rightarrow> line_scan \<Rightarrow> line_scan" where
  "scan_field n t st = (if CHR ''='' \<in> set t \<and> has_suffix t '';'' then (case word_before_equals (go_fields t) of
       Some w \<Rightarrow> (let key = scoped (sc_message st) w in
         st\<lparr>sc_pm := (sc_pm st)\<lparr>pm_fields := gm_put key n (pm_fields (sc_pm st))\<rparr>\<rparr>)
     | None \<Rightarrow> st) else st)"

definition scan_line :: "int \<Rightarrow> string \<Rightarrow> line_scan \<Rightarrow> line_scan" where
  "scan_line n line st =
     (let t = trim_space line in
      if t = [] \<or> has_prefix t ''//'' then st
      else
        (let st = st\<lparr>sc_depth := sc_depth st + int (count_char (CHR ''{'') t) - int (count_char (CHR ''}'') t)\<rparr>;
             st = scan_oneof n t (scan_rpc n t (scan_service n t (scan_enum n t (scan_message n t (scan_header n t st)))));
             st = (if sc_depth st = 0 then st\<lparr>sc_message := [], sc_service := []\<rparr> else st)
         in scan_field n t st))"

fun scan_lines :: "int \<Rightarrow> string list \<Rightarrow> line_scan \<Rightarrow> line_scan" where
  "scan_lines n [] st = st"
| "scan_lines n (line # ls) st = scan_lines (n + 1) ls (scan_line n line st)"

definition extract_positions :: "string \<Rightarrow> position_map" where
  "extract_positions content = sc_pm (scan_lines 1 (text_lines content)
     \<lparr>sc_pm = \<lparr>pm_package = 0, pm_syntax = 0, pm_imports = [], pm_messages = [], pm_enums = [], pm_services = [],
        pm_fields = [], pm_oneofs = [], pm_rpcs = []\<rparr>, sc_message = [], sc_service = [], sc_depth = 0\<rparr>)"

text \<open>Reading a Go map of integers: zero when the key is absent.\<close>

definition line_in :: "(string, int) gomap \<Rightarrow> string \<Rightarrow> int" where
  "line_in m k = (case gm_get m k of Some n \<Rightarrow> n | None \<Rightarrow> 0)"

end
