(* ===== verification/Proto_Parse.thy ===== *)
theory Proto_Parse
  imports Proto_Text
begin

text \<open>
  From the compiler's descriptors to the syntax tree (\<open>pkg/api/protobuf/ast_descriptor.go\<close> and \<open>util.go\<close>). The compiler
  is the third-party \<open>protocompile\<close>, a parameter: from the files it may read and the name of one of them to an
  error or the files compiled. A descriptor is a record of what its methods return.
\<close>

section \<open>Descriptors of the compiler\<close>

datatype field_kind = Kind_Double | Kind_Float | Kind_Int64 | Kind_Uint64 | Kind_Int32 | Kind_Fixed64 | Kind_Fixed32
  | Kind_Bool | Kind_String | Kind_Group | Kind_Message | Kind_Bytes | Kind_Uint32 | Kind_Enum | Kind_Sfixed32
  | Kind_Sfixed64 | Kind_Sint32 | Kind_Sint64

datatype cardinality = Card_Optional | Card_Required | Card_Repeated

record field_descriptor =
  fx_name :: string
  fx_number :: int
  fx_kind :: field_kind
  fx_message_type :: "string option"
  fx_enum_type :: "string option"
  fx_cardinality :: cardinality
  fx_oneof :: "nat option"

record enum_descriptor =
  ed_name :: string
  ed_values :: "(string \<times> int) list"

datatype message_descriptor =
  Message_Descriptor (md_name: string) (md_fields: "field_descriptor list") (md_messages: "message_descriptor list")
    (md_enums: "enum_descriptor list") (md_oneofs: "string list")

record method_descriptor =
  mt_name :: string
  mt_input :: string
  mt_output :: string
  mt_streaming_client :: bool
  mt_streaming_server :: bool

record service_descriptor =
  sd_name :: string
  sd_methods :: "method_descriptor list"

text \<open>The options of a file that the code reads; \<open>optimize_for\<close> by its name.\<close>

record file_options =
  fo_go_package :: "string option"
  fo_java_package :: "string option"
  fo_java_outer_classname :: "string option"
  fo_java_multiple_files :: "bool option"
  fo_optimize_for :: "string option"
  fo_cc_enable_arenas :: "bool option"
  fo_objc_class_prefix :: "string option"
  fo_csharp_namespace :: "string option"
  fo_deprecated :: "bool option"

record file_descriptor =
  fl_path :: string
  fl_package :: string
  fl_syntax :: string
  fl_imports :: "string list"
  fl_messages :: "message_descriptor list"
  fl_enums :: "enum_descriptor list"
  fl_services :: "service_descriptor list"
  fl_options :: "file_options option"

type_synonym proto_compiler = "(string, string) gomap \<Rightarrow> string \<Rightarrow> string + file_descriptor list"

section \<open>Descriptor protos\<close>

text \<open>The messages of \<open>descriptorpb\<close>, with the fields that are set; an absent field is \<open>None\<close>.\<close>

datatype field_label = Label_Optional | Label_Required | Label_Repeated

record field_proto =
  fp_name :: string
  fp_number :: int
  fp_type :: field_kind
  fp_type_name :: "string option"
  fp_label :: field_label
  fp_oneof :: "nat option"

record enum_proto =
  ep_name :: string
  ep_values :: "(string \<times> int) list"

datatype message_proto =
  Message_Proto (mp_name: string) (mp_fields: "field_proto list") (mp_nested: "message_proto list")
    (mp_enums: "enum_proto list") (mp_oneofs: "string list")

record method_proto =
  xp_name :: string
  xp_input :: string
  xp_output :: string
  xp_client_streaming :: bool
  xp_server_streaming :: bool

record service_proto =
  sp_name :: string
  sp_methods :: "method_proto list"

record file_proto =
  lp_name :: string
  lp_package :: "string option"
  lp_syntax :: "string option"
  lp_dependencies :: "string list"
  lp_public :: "nat list"
  lp_weak :: "nat list"
  lp_messages :: "message_proto list"
  lp_enums :: "enum_proto list"
  lp_services :: "service_proto list"
  lp_options :: "file_options option"

fun label_of :: "cardinality \<Rightarrow> field_label" where
  "label_of Card_Repeated = Label_Repeated"
| "label_of Card_Optional = Label_Optional"
| "label_of Card_Required = Label_Required"

definition field_descriptor_to_proto :: "field_descriptor \<Rightarrow> field_proto" where
  "field_descriptor_to_proto d =
     \<lparr>fp_name = fx_name d, fp_number = fx_number d, fp_type = fx_kind d,
      fp_type_name = map_option ((@) ''.'')
        (if fx_kind d = Kind_Message then fx_message_type d else if fx_kind d = Kind_Enum then fx_enum_type d else None),
      fp_label = label_of (fx_cardinality d), fp_oneof = fx_oneof d\<rparr>"

definition enum_descriptor_to_proto :: "enum_descriptor \<Rightarrow> enum_proto" where
  "enum_descriptor_to_proto d = \<lparr>ep_name = ed_name d, ep_values = ed_values d\<rparr>"

primrec message_descriptor_to_proto :: "message_descriptor \<Rightarrow> message_proto" where
  "message_descriptor_to_proto (Message_Descriptor nm fs ms es os) =
     Message_Proto nm (map field_descriptor_to_proto fs) (map message_descriptor_to_proto ms)
       (map enum_descriptor_to_proto es) os"

definition method_descriptor_to_proto :: "method_descriptor \<Rightarrow> method_proto" where
  "method_descriptor_to_proto m = \<lparr>xp_name = mt_name m, xp_input = ''.'' @ mt_input m, xp_output = ''.'' @ mt_output m,
     xp_client_streaming = mt_streaming_client m, xp_server_streaming = mt_streaming_server m\<rparr>"

definition service_descriptor_to_proto :: "service_descriptor \<Rightarrow> service_proto" where
  "service_descriptor_to_proto d = \<lparr>sp_name = sd_name d, sp_methods = map method_descriptor_to_proto (sd_methods d)\<rparr>"

definition protodescriptor_to_proto :: "file_descriptor \<Rightarrow> file_proto" where
  "protodescriptor_to_proto d =
     \<lparr>lp_name = fl_path d, lp_package = Some (fl_package d), lp_syntax = Some (fl_syntax d),
      lp_dependencies = fl_imports d, lp_public = [], lp_weak = [],
      lp_messages = map message_descriptor_to_proto (fl_messages d),
      lp_enums = map enum_descriptor_to_proto (fl_enums d),
      lp_services = map service_descriptor_to_proto (fl_services d), lp_options = fl_options d\<rparr>"

text \<open>The compiler's files: the one parsed and one for every import.\<close>

definition file_map :: "string \<Rightarrow> string \<Rightarrow> (string, string) gomap" where
  "file_map filename content =
     fold (\<lambda>imp m. if imp \<noteq> [] \<and> imp \<noteq> filename then gm_put imp (get_dummy_proto_content imp) m else m)
       (extract_import_paths content) [(filename, content)]"

text \<open>The index of the last occurrence, as a map filled in order keeps it.\<close>

definition last_index :: "string list \<Rightarrow> string \<Rightarrow> nat option" where
  "last_index xs x = find (\<lambda>i. xs ! i = x) (rev [0..<length xs])"

definition parse_to_descriptor :: "proto_compiler \<Rightarrow> string \<Rightarrow> string \<Rightarrow> parse_stop + file_proto" where
  "parse_to_descriptor pc filename content = (case pc (file_map filename (preprocess_import_paths content)) filename of
     Inl e \<Rightarrow> Inl (Parse_Error e)
   | Inr [] \<Rightarrow> Inl (Parse_Error ''no files compiled'')
   | Inr (d # _) \<Rightarrow>
       (let p = protodescriptor_to_proto d; (public, weak) = extract_import_modifiers content;
            index = last_index (lp_dependencies p)
        in Inr (p\<lparr>lp_public := List.map_filter index public, lp_weak := List.map_filter index weak\<rparr>)))"

section \<open>Conversion\<close>

text \<open>
  A message whose oneofs point to its fields: each oneof comes with the positions of its members in the list of
  all fields, where Go shares the nodes. \<open>finish_message\<close> follows the pointers.
\<close>

datatype draft_message =
  Draft_Message (dm_name: string) (dm_fields: "field_node list") (dm_nested: "draft_message list")
    (dm_enums: "enum_node list") (dm_oneofs: "(oneof_node \<times> nat list) list")
    (dm_comments: "comment_node list") (dm_directives: "spoke_directive_node list") (dm_pos: ast_position)

primrec finish_message :: "draft_message \<Rightarrow> message_node" where
  "finish_message (Draft_Message nm fs ns es os cs ds p) =
     MessageNode nm fs (map finish_message ns) es (map (\<lambda>(oo, is). oo\<lparr>oo_fields := map ((!) fs) is\<rparr>) os) [] cs ds p pos0"

fun kind_name :: "field_kind \<Rightarrow> string" where
  "kind_name Kind_Double = ''double''"
| "kind_name Kind_Float = ''float''"
| "kind_name Kind_Int64 = ''int64''"
| "kind_name Kind_Uint64 = ''uint64''"
| "kind_name Kind_Int32 = ''int32''"
| "kind_name Kind_Fixed64 = ''fixed64''"
| "kind_name Kind_Fixed32 = ''fixed32''"
| "kind_name Kind_Bool = ''bool''"
| "kind_name Kind_String = ''string''"
| "kind_name Kind_Bytes = ''bytes''"
| "kind_name Kind_Uint32 = ''uint32''"
| "kind_name Kind_Sfixed32 = ''sfixed32''"
| "kind_name Kind_Sfixed64 = ''sfixed64''"
| "kind_name Kind_Sint32 = ''sint32''"
| "kind_name Kind_Sint64 = ''sint64''"
| "kind_name _ = ''unknown''"

definition get_field_type_name :: "field_proto \<Rightarrow> string" where
  "get_field_type_name d = (case fp_type_name d of Some n \<Rightarrow> trim_prefix n ''.'' | None \<Rightarrow> kind_name (fp_type d))"

text \<open>The line of a declaration by its scoped name, or else by its bare name.\<close>

definition scoped_line :: "(string, int) gomap \<Rightarrow> string \<Rightarrow> string \<Rightarrow> int" where
  "scoped_line m scope name =
     (let n = line_in m (scope @ ''.'' @ name) in if n = 0 then line_in m name else n)"

definition convert_field :: "field_proto \<Rightarrow> string \<Rightarrow> position_map \<Rightarrow> field_node" where
  "convert_field d message pm =
     \<lparr>fn_name = fp_name d, fn_type = get_field_type_name d, fn_number = fp_number d,
      fn_repeated = (fp_label d = Label_Repeated), fn_optional = (fp_label d = Label_Optional),
      fn_required = (fp_label d = Label_Required), fn_options = [], fn_comments = [], fn_directives = [],
      fn_pos = at_line (scoped_line (pm_fields pm) message (fp_name d)), fn_end = pos0\<rparr>"

definition convert_enum :: "enum_proto \<Rightarrow> position_map \<Rightarrow> enum_node" where
  "convert_enum d pm =
     \<lparr>en_name = ep_name d,
      en_values = map (\<lambda>(nm, n). \<lparr>ev_name = nm, ev_number = n, ev_options = [], ev_comments = [], ev_directives = [],
        ev_pos = pos0, ev_end = pos0\<rparr>) (ep_values d),
      en_options = [], en_comments = [], en_directives = [], en_pos = at_line (line_in (pm_enums pm) (ep_name d)),
      en_end = pos0\<rparr>"

text \<open>The positions of the fields with a oneof index.\<close>

definition members :: "field_proto list \<Rightarrow> nat \<Rightarrow> nat list" where
  "members fs i = filter (\<lambda>k. fp_oneof (fs ! k) = Some i) [0..<length fs]"

definition convert_oneof :: "field_proto list \<Rightarrow> position_map \<Rightarrow> nat \<times> string \<Rightarrow> oneof_node \<times> nat list" where
  "convert_oneof fs pm = (\<lambda>(i, nm).
     (\<lparr>oo_name = nm, oo_fields = [], oo_comments = [], oo_directives = [], oo_pos = at_line (line_in (pm_oneofs pm) nm),
       oo_end = pos0\<rparr>, members fs i))"

primrec convert_message :: "position_map \<Rightarrow> message_proto \<Rightarrow> draft_message" where
  "convert_message pm (Message_Proto nm fs ms es os) =
     Draft_Message nm (map (\<lambda>f. convert_field f nm pm) fs) (map (convert_message pm) ms)
       (map (\<lambda>e. convert_enum e pm) es) (map (convert_oneof fs pm) (enumerate 0 os)) [] []
       (at_line (line_in (pm_messages pm) nm))"

definition convert_method :: "string \<Rightarrow> position_map \<Rightarrow> method_proto \<Rightarrow> rpc_node" where
  "convert_method service pm d =
     \<lparr>rpc_name = xp_name d, rpc_input = trim_prefix (xp_input d) ''.'', rpc_output = trim_prefix (xp_output d) ''.'',
      rpc_client_streaming = xp_client_streaming d, rpc_server_streaming = xp_server_streaming d, rpc_options = [],
      rpc_comments = [], rpc_directives = [], rpc_pos = at_line (scoped_line (pm_rpcs pm) service (xp_name d)),
      rpc_end = pos0\<rparr>"

definition convert_service :: "service_proto \<Rightarrow> position_map \<Rightarrow> service_node" where
  "convert_service d pm =
     \<lparr>sv_name = sp_name d, sv_rpcs = map (convert_method (sp_name d) pm) (sp_methods d), sv_options = [],
      sv_comments = [], sv_directives = [], sv_pos = at_line (line_in (pm_services pm) (sp_name d)), sv_end = pos0\<rparr>"

definition mk_option :: "string \<Rightarrow> string \<Rightarrow> option_node" where
  "mk_option name val = \<lparr>op_name = name, op_value = val, op_comments = [], op_directives = [], op_pos = pos0, op_end = pos0\<rparr>"

definition convert_file_options :: "file_options \<Rightarrow> option_node list" where
  "convert_file_options o' =
     (let opt = (\<lambda>name v. case v of None \<Rightarrow> [] | Some s \<Rightarrow> [mk_option name s]) in
      opt ''go_package'' (fo_go_package o') @ opt ''java_package'' (fo_java_package o') @
      opt ''java_outer_classname'' (fo_java_outer_classname o') @
      opt ''java_multiple_files'' (map_option fmt_bool (fo_java_multiple_files o')) @
      opt ''optimize_for'' (fo_optimize_for o') @
      opt ''cc_enable_arenas'' (map_option fmt_bool (fo_cc_enable_arenas o')) @
      opt ''objc_class_prefix'' (fo_objc_class_prefix o') @ opt ''csharp_namespace'' (fo_csharp_namespace o') @
      opt ''deprecated'' (map_option fmt_bool (fo_deprecated o')))"

definition convert_imports :: "file_proto \<Rightarrow> import_node list" where
  "convert_imports d = map (\<lambda>(i, dep). (mk_import dep)\<lparr>im_public := i \<in> set (lp_public d), im_weak := i \<in> set (lp_weak d)\<rparr>)
     (enumerate 0 (lp_dependencies d))"

text \<open>The root without its messages, and the drafts of these.\<close>

type_synonym draft_root = "root_node \<times> draft_message list"

definition convert_descriptor :: "file_proto \<Rightarrow> string \<Rightarrow> draft_root" where
  "convert_descriptor d content =
     (let pm = extract_positions content in
      (\<lparr>rn_syntax = map_option (\<lambda>s. \<lparr>sx_value = s, sx_comments = [], sx_directives = [], sx_pos = at_line (pm_syntax pm),
          sx_end = pos0\<rparr>) (lp_syntax d),
        rn_package = map_option (\<lambda>p. \<lparr>pk_name = p, pk_comments = [], pk_directives = [], pk_pos = at_line (pm_package pm),
          pk_end = pos0\<rparr>) (lp_package d),
        rn_imports = convert_imports d,
        rn_options = (case lp_options d of None \<Rightarrow> [] | Some o' \<Rightarrow> convert_file_options o'),
        rn_messages = [], rn_enums = map (\<lambda>e. convert_enum e pm) (lp_enums d),
        rn_services = map (\<lambda>s. convert_service s pm) (lp_services d), rn_comments = [], rn_directives = [],
        rn_pos = pos0, rn_end = pos0\<rparr>,
       map (convert_message pm) (lp_messages d)))"

definition finish_root :: "draft_root \<Rightarrow> root_node" where
  "finish_root = (\<lambda>(r, ms). r\<lparr>rn_messages := map finish_message ms\<rparr>)"

section \<open>Directives and comments\<close>

text \<open>
  What a node that starts at a line takes: the directives not taken yet and the comments of the three lines
  before it. The lines whose directive is taken are threaded through.
\<close>

type_synonym consumed = "int list"

definition take_line :: "directives \<Rightarrow> comments \<Rightarrow> int \<Rightarrow>
    spoke_directive_node list \<times> comment_node list \<times> consumed \<Rightarrow> spoke_directive_node list \<times> comment_node list \<times> consumed" where
  "take_line ds cs line = (\<lambda>(d, c, used).
     if line < 1 \<or> line \<in> set used then (d, c, used)
     else
       (let (d, used) = (case gm_get ds line of Some x \<Rightarrow> (d @ [x], line # used) | None \<Rightarrow> (d, used));
            c = (case gm_get cs line of Some l \<Rightarrow> c @ l | None \<Rightarrow> c)
        in (d, c, used)))"

definition associate :: "directives \<Rightarrow> comments \<Rightarrow> int \<Rightarrow> consumed \<Rightarrow> spoke_directive_node list \<times> comment_node list \<times> consumed" where
  "associate ds cs start used = fold (take_line ds cs) [start - 3, start - 2, start - 1] ([], [], used)"

definition merge_syntax :: "directives \<Rightarrow> comments \<Rightarrow> syntax_node \<Rightarrow> consumed \<Rightarrow> syntax_node \<times> consumed" where
  "merge_syntax ds cs x used = (let (d, c, used) = associate ds cs (pos_line (sx_pos x)) used in
     (x\<lparr>sx_directives := sx_directives x @ d, sx_comments := sx_comments x @ c\<rparr>, used))"

definition merge_package :: "directives \<Rightarrow> comments \<Rightarrow> package_node \<Rightarrow> consumed \<Rightarrow> package_node \<times> consumed" where
  "merge_package ds cs x used = (let (d, c, used) = associate ds cs (pos_line (pk_pos x)) used in
     (x\<lparr>pk_directives := pk_directives x @ d, pk_comments := pk_comments x @ c\<rparr>, used))"

definition merge_import :: "directives \<Rightarrow> comments \<Rightarrow> import_node \<Rightarrow> consumed \<Rightarrow> import_node \<times> consumed" where
  "merge_import ds cs x used = (let (d, c, used) = associate ds cs (pos_line (im_pos x)) used in
     (x\<lparr>im_directives := im_directives x @ d, im_comments := im_comments x @ c\<rparr>, used))"

definition merge_field :: "directives \<Rightarrow> comments \<Rightarrow> field_node \<Rightarrow> consumed \<Rightarrow> field_node \<times> consumed" where
  "merge_field ds cs x used = (let (d, c, used) = associate ds cs (pos_line (fn_pos x)) used in
     (x\<lparr>fn_directives := fn_directives x @ d, fn_comments := fn_comments x @ c\<rparr>, used))"

definition merge_value :: "directives \<Rightarrow> comments \<Rightarrow> enum_value_node \<Rightarrow> consumed \<Rightarrow> enum_value_node \<times> consumed" where
  "merge_value ds cs x used = (let (d, c, used) = associate ds cs (pos_line (ev_pos x)) used in
     (x\<lparr>ev_directives := ev_directives x @ d, ev_comments := ev_comments x @ c\<rparr>, used))"

definition merge_rpc :: "directives \<Rightarrow> comments \<Rightarrow> rpc_node \<Rightarrow> consumed \<Rightarrow> rpc_node \<times> consumed" where
  "merge_rpc ds cs x used = (let (d, c, used) = associate ds cs (pos_line (rpc_pos x)) used in
     (x\<lparr>rpc_directives := rpc_directives x @ d, rpc_comments := rpc_comments x @ c\<rparr>, used))"

definition merge_enum :: "directives \<Rightarrow> comments \<Rightarrow> enum_node \<Rightarrow> consumed \<Rightarrow> enum_node \<times> consumed" where
  "merge_enum ds cs x used =
     (let (d, c, used) = associate ds cs (pos_line (en_pos x)) used;
          (vs, used) = thread_map (merge_value ds cs) (en_values x) used
      in (x\<lparr>en_directives := en_directives x @ d, en_comments := en_comments x @ c, en_values := vs\<rparr>, used))"

definition merge_service :: "directives \<Rightarrow> comments \<Rightarrow> service_node \<Rightarrow> consumed \<Rightarrow> service_node \<times> consumed" where
  "merge_service ds cs x used =
     (let (d, c, used) = associate ds cs (pos_line (sv_pos x)) used;
          (rs, used) = thread_map (merge_rpc ds cs) (sv_rpcs x) used
      in (x\<lparr>sv_directives := sv_directives x @ d, sv_comments := sv_comments x @ c, sv_rpcs := rs\<rparr>, used))"

text \<open>A field of a oneof is merged through its position, in the list of all fields.\<close>

definition merge_field_at :: "directives \<Rightarrow> comments \<Rightarrow> nat \<Rightarrow> field_node list \<times> consumed \<Rightarrow> field_node list \<times> consumed" where
  "merge_field_at ds cs i = (\<lambda>(fs, used). let (f, used) = merge_field ds cs (fs ! i) used in (fs[i := f], used))"

definition merge_oneof :: "directives \<Rightarrow> comments \<Rightarrow> oneof_node \<times> nat list \<Rightarrow> field_node list \<times> consumed \<Rightarrow>
    (oneof_node \<times> nat list) \<times> field_node list \<times> consumed" where
  "merge_oneof ds cs = (\<lambda>(x, is) (fs, used).
     let (d, c, used) = associate ds cs (pos_line (oo_pos x)) used in
     ((x\<lparr>oo_directives := oo_directives x @ d, oo_comments := oo_comments x @ c\<rparr>, is),
      fold (merge_field_at ds cs) is (fs, used)))"

fun merge_message :: "directives \<Rightarrow> comments \<Rightarrow> draft_message \<Rightarrow> consumed \<Rightarrow> draft_message \<times> consumed" where
  "merge_message ds cs (Draft_Message nm fs ns es os c0 d0 p) used =
     (let (d, c, used) = associate ds cs (pos_line p) used;
          (os, fs, used) = thread_map (merge_oneof ds cs) os (fs, used);
          (fs, used) = thread_map (merge_field ds cs) fs used;
          (ns, used) = thread_map (merge_message ds cs) ns used;
          (es, used) = thread_map (merge_enum ds cs) es used
      in (Draft_Message nm fs ns es os (c0 @ c) (d0 @ d) p, used))"

definition merge_option :: "('a \<Rightarrow> consumed \<Rightarrow> 'a \<times> consumed) \<Rightarrow> 'a option \<Rightarrow> consumed \<Rightarrow> 'a option \<times> consumed" where
  "merge_option f x used = (case x of None \<Rightarrow> (None, used) | Some a \<Rightarrow> let (a, used) = f a used in (Some a, used))"

definition merge_directives_and_comments :: "directives \<Rightarrow> comments \<Rightarrow> draft_root \<Rightarrow> draft_root" where
  "merge_directives_and_comments ds cs = (\<lambda>(r, ms).
     let (sx, used) = merge_option (merge_syntax ds cs) (rn_syntax r) [];
         (pk, used) = merge_option (merge_package ds cs) (rn_package r) used;
         (is, used) = thread_map (merge_import ds cs) (rn_imports r) used;
         (ms, used) = thread_map (merge_message ds cs) ms used;
         (es, used) = thread_map (merge_enum ds cs) (rn_enums r) used;
         (ss, used) = thread_map (merge_service ds cs) (rn_services r) used;
         (d, c, used) = associate ds cs 1 used
     in (r\<lparr>rn_syntax := sx, rn_package := pk, rn_imports := is, rn_enums := es, rn_services := ss,
           rn_directives := rn_directives r @ d, rn_comments := rn_comments r @ c\<rparr>, ms))"

section \<open>Parsing\<close>

definition wrap_stop :: "string \<Rightarrow> parse_stop + 'a \<Rightarrow> parse_stop + 'a" where
  "wrap_stop what r = (case r of Inl (Parse_Error e) \<Rightarrow> Inl (Parse_Error (what @ '': '' @ e)) | _ \<Rightarrow> r)"

definition parse_with_descriptor :: "proto_compiler \<Rightarrow> string \<Rightarrow> string \<Rightarrow> parse_stop + root_node" where
  "parse_with_descriptor pc filename content =
     rbind (wrap_stop ''protocompile parse failed'' (parse_to_descriptor pc filename content)) (\<lambda>d.
     rbind (wrap_stop ''spoke directive extraction failed'' (parse_spoke_directives content)) (\<lambda>(ds, cs).
     Inr (finish_root (merge_directives_and_comments ds cs (convert_descriptor d content)))))"

definition parse_string :: "proto_compiler \<Rightarrow> string \<Rightarrow> parse_stop + root_node" where
  "parse_string pc content = parse_with_descriptor pc ''input.proto'' content"

definition extract_package_name :: "proto_compiler \<Rightarrow> string \<Rightarrow> parse_stop + string" where
  "extract_package_name pc content = rbind (parse_with_descriptor pc ''input.proto'' content) (\<lambda>ast.
     case rn_package ast of None \<Rightarrow> Inl (Parse_Error ''no package statement found'') | Some p \<Rightarrow> Inr (pk_name p))"

record proto_import =
  pi_module :: string
  pi_version :: string
  pi_path :: string
  pi_public :: bool
  pi_weak :: bool

definition extract_proto_imports :: "proto_compiler \<Rightarrow> string \<Rightarrow> parse_stop + proto_import list" where
  "extract_proto_imports pc content = rbind (parse_with_descriptor pc ''input.proto'' content) (\<lambda>ast.
     Inr (map (\<lambda>i. \<lparr>pi_module = [], pi_version = [], pi_path = im_path i, pi_public = im_public i, pi_weak = im_weak i\<rparr>)
       (rn_imports ast)))"

definition validate_proto_file :: "proto_compiler \<Rightarrow> string \<Rightarrow> parse_stop + unit" where
  "validate_proto_file pc content = rbind (parse_with_descriptor pc ''input.proto'' content) (\<lambda>_. Inr ())"

end
