(* ===== verification/Validate_Serialize.thy ===== *)
theory Validate_Serialize
  imports Validate_Normalize Proto_Parse
begin

text \<open>
  Printing a syntax tree (\<open>pkg/validation/serializer.go\<close>) and the comparison of two schemas by their normalized text
  (\<open>NormalizeString\<close> and \<open>CompareNormalized\<close> of \<open>normalizer.go\<close>). A writer returns what it appends.
\<close>

definition indentation :: "nat \<Rightarrow> string" where
  "indentation depth = concat (replicate depth ''  '')"

definition write_import :: "import_node \<Rightarrow> string" where
  "write_import i =
     line_of (''import '' @ (if im_public i then ''public '' else if im_weak i then ''weak '' else []) @
       in_double_quotes (im_path i) @ '';'')"

definition write_option :: "string \<Rightarrow> option_node \<Rightarrow> string" where
  "write_option indent o' = line_of (indent @ ''option '' @ op_name o' @ '' = '' @ op_value o' @ '';'')"

definition write_field :: "nat \<Rightarrow> field_node \<Rightarrow> string" where
  "write_field depth f =
     line_of (indentation depth @
       (if fn_repeated f then ''repeated '' else if fn_optional f then ''optional ''
        else if fn_required f then ''required '' else []) @
       fn_type f @ '' '' @ fn_name f @ '' = '' @ fmt_d (fn_number f) @ '';'')"

definition write_oneof :: "nat \<Rightarrow> oneof_node \<Rightarrow> string" where
  "write_oneof depth oo =
     line_of (indentation depth @ ''oneof '' @ oo_name oo @ '' {'') @
     concat (map (write_field (depth + 1)) (oo_fields oo)) @ line_of (indentation depth @ ''}'')"

definition write_value :: "nat \<Rightarrow> enum_value_node \<Rightarrow> string" where
  "write_value depth v = line_of (indentation depth @ ''  '' @ ev_name v @ '' = '' @ fmt_d (ev_number v) @ '';'')"

definition write_enum :: "nat \<Rightarrow> enum_node \<Rightarrow> string" where
  "write_enum depth e =
     line_of (indentation depth @ ''enum '' @ en_name e @ '' {'') @
     concat (map (write_value depth) (en_values e)) @
     concat (map (write_option (indentation depth @ ''  '')) (en_options e)) @ line_of (indentation depth @ ''}'')"

fun write_message :: "nat \<Rightarrow> message_node \<Rightarrow> string" where
  "write_message depth (MessageNode nm fs nested enums oneofs opts cs ds p e) =
     line_of (indentation depth @ ''message '' @ nm @ '' {'') @
     concat (map (write_enum (depth + 1)) enums) @
     concat (map (write_message (depth + 1)) nested) @
     concat (map (write_oneof (depth + 1)) oneofs) @
     concat (map (write_field (depth + 1)) fs) @
     concat (map (write_option (indentation depth @ ''  '')) opts) @
     line_of (indentation depth @ ''}'')"

definition write_rpc :: "rpc_node \<Rightarrow> string" where
  "write_rpc r =
     line_of (''  '' @ ''rpc '' @ rpc_name r @ ''('' @ (if rpc_client_streaming r then ''stream '' else []) @ rpc_input r @
       '') returns ('' @ (if rpc_server_streaming r then ''stream '' else []) @ rpc_output r @ '');'')"

definition write_service :: "service_node \<Rightarrow> string" where
  "write_service s =
     line_of (''service '' @ sv_name s @ '' {'') @ concat (map write_rpc (sv_rpcs s)) @
     concat (map (write_option ''  '') (sv_options s)) @ line_of ''}''"

text \<open>\<open>strings.TrimRight\<close> with a space and a tab.\<close>

definition trim_blanks :: "string \<Rightarrow> string" where
  "trim_blanks s = rev (dropWhile (\<lambda>c. c = CHR '' '' \<or> c = CHR 0x09) (rev s))"

definition serialize_text :: "root_node \<Rightarrow> string" where
  "serialize_text ast =
     (case rn_syntax ast of None \<Rightarrow> [] | Some x \<Rightarrow> line_of (''syntax = '' @ in_double_quotes (sx_value x) @ '';'') @ newline) @
     (case rn_package ast of None \<Rightarrow> [] | Some p \<Rightarrow> line_of (''package '' @ pk_name p @ '';'') @ newline) @
     concat (map write_import (rn_imports ast)) @ (if rn_imports ast \<noteq> [] then newline else []) @
     concat (map (write_option []) (rn_options ast)) @ (if rn_options ast \<noteq> [] then newline else []) @
     concat (map (\<lambda>m. write_message 0 m @ newline) (rn_messages ast)) @
     concat (map (\<lambda>e. write_enum 0 e @ newline) (rn_enums ast)) @
     concat (map (\<lambda>s. write_service s @ newline) (rn_services ast))"

definition serialize :: "normalization_config \<Rightarrow> root_node \<Rightarrow> string" where
  "serialize c ast =
     (let result = serialize_text ast in
      if nc_remove_trailing c then join_strings newline (map trim_blanks (text_lines result)) else result)"

definition normalize_string :: "proto_compiler \<Rightarrow> normalization_config \<Rightarrow> string \<Rightarrow> parse_stop + string" where
  "normalize_string pc c content =
     rbind (wrap_stop ''failed to parse proto'' (parse_string pc content)) (\<lambda>ast. Inr (serialize c (normalize c ast)))"

definition compare_normalized :: "proto_compiler \<Rightarrow> normalization_config \<Rightarrow> string \<Rightarrow> string \<Rightarrow> parse_stop + bool" where
  "compare_normalized pc c content1 content2 =
     rbind (wrap_stop ''failed to normalize first schema'' (normalize_string pc c content1)) (\<lambda>t1.
     rbind (wrap_stop ''failed to normalize second schema'' (normalize_string pc c content2)) (\<lambda>t2.
     Inr (t1 = t2)))"

end
