(* ===== verification/Proto_Props.thy ===== *)
theory Proto_Props
  imports Validate_Serialize Validate_Props
begin

text \<open>
  Properties of parsing: what happens to oneofs, to directives and to imports on the way from the text to the syntax
  tree, and what the validator and the printer make of the result.
\<close>

section \<open>Loops with a state\<close>

lemma thread_map_all2:
  "(\<And>x s. x \<in> set xs \<Longrightarrow> R x (fst (f x s))) \<Longrightarrow> list_all2 R xs (fst (thread_map f xs s))"
  by (induction xs arbitrary: s) (auto simp: split_beta Let_def)

lemma thread_map_state:
  "(\<And>x s. P s \<Longrightarrow> P (snd (f x s))) \<Longrightarrow> P s \<Longrightarrow> P (snd (thread_map f xs s))"
  by (induction xs arbitrary: s) (auto simp: split_beta Let_def)

lemma list_all2_ex: "list_all2 R xs ys \<Longrightarrow> (\<And>x y. x \<in> set xs \<Longrightarrow> R x y \<Longrightarrow> P x \<Longrightarrow> Q y) \<Longrightarrow> list_ex P xs \<Longrightarrow> list_ex Q ys"
  by (induction rule: list_all2_induct) auto

section \<open>Text without comments\<close>

lemma trim_left_set: "set (trim_left codes s) \<subseteq> set s"
proof (induction codes s rule: trim_left.induct)
  case (1 codes s)
  then show ?case by (subst trim_left.simps) (auto dest: in_set_dropD)
qed

lemma trim_space_set: "set (trim_space s) \<subseteq> set s"
  unfolding trim_space_def using trim_left_set [of "map rev space_codes" "rev (trim_left space_codes s)"]
    trim_left_set [of space_codes s] by auto

lemma split_on_set: "l \<in> set (split_on sep s) \<Longrightarrow> set l \<subseteq> set s"
  by (induction sep s arbitrary: l rule: split_on.induct) (fastforce split: if_splits list.splits)+

lemma index_of_set: "index_of sub s = Some i \<Longrightarrow> set sub \<subseteq> set s"
proof (induction s arbitrary: i)
  case (Cons c s)
  then show ?case
  proof (cases "has_prefix (c # s) sub")
    case True
    then obtain t where "c # s = sub @ t" by (auto simp: has_prefix_iff)
    then have "set (c # s) = set sub \<union> set t" by (simp only: set_append)
    then show ?thesis by blast
  next
    case False
    then show ?thesis using Cons by (auto split: if_splits)
  qed
qed (auto split: if_splits)

lemma directive_line_skip:
  "CHR ''/'' \<notin> set line \<Longrightarrow> directive_line n line (False, ds, cs) = Inr (False, ds, cs)"
proof -
  assume no: "CHR ''/'' \<notin> set line"
  let ?t = "trim_space line"
  have t: "CHR ''/'' \<notin> set ?t" using no trim_space_set by blast
  have "index_of ''/*'' ?t = None" using t index_of_set [of "''/*''" ?t] by (cases "index_of ''/*'' ?t") auto
  moreover have "\<not> has_prefix ?t ''//''" using t by (auto simp: has_prefix_iff)
  ultimately show ?thesis by (simp add: directive_line_def contains_text_def Let_def)
qed

lemma parse_without_slash: "CHR ''/'' \<notin> set content \<Longrightarrow> parse_spoke_directives content = Inr ([], [])"
proof -
  assume no: "CHR ''/'' \<notin> set content"
  have "directive_lines n ls (False, [], []) = Inr (False, [], [])" if "\<And>l. l \<in> set ls \<Longrightarrow> CHR ''/'' \<notin> set l" for n ls
    using that by (induction ls arbitrary: n) (simp_all add: directive_line_skip)
  moreover have "CHR ''/'' \<notin> set l" if "l \<in> set (text_lines content)" for l
    using split_on_set that no unfolding text_lines_def by blast
  ultimately show ?thesis by (simp add: parse_spoke_directives_def)
qed

section \<open>Oneofs\<close>

text \<open>A message, at some depth, with a field in a oneof: in the descriptor and in the draft.\<close>

fun has_oneof :: "message_descriptor \<Rightarrow> bool" where
  "has_oneof (Message_Descriptor nm fs ms es os) \<longleftrightarrow>
     list_ex (\<lambda>f. pred_option (\<lambda>i. i < length os) (fx_oneof f) \<and> fx_oneof f \<noteq> None) fs \<or> list_ex has_oneof ms"

fun draft_shared :: "draft_message \<Rightarrow> bool" where
  "draft_shared (Draft_Message nm fs ns es os cs ds p) \<longleftrightarrow>
     list_ex (\<lambda>(_, is). list_ex (\<lambda>i. i < length fs) is) os \<or> list_ex draft_shared ns"

lemma convert_shared: "has_oneof m \<Longrightarrow> draft_shared (convert_message pm (message_descriptor_to_proto m))"
proof (induction m)
  case (Message_Descriptor nm fs ms es os)
  let ?ps = "map field_descriptor_to_proto fs"
  show ?case
  proof (cases "list_ex has_oneof ms")
    case True
    then show ?thesis using Message_Descriptor.IH by (auto simp: list_ex_iff)
  next
    case False
    then obtain f i where f: "f \<in> set fs" "fx_oneof f = Some i" "i < length os"
      using Message_Descriptor.prems by (auto simp: list_ex_iff)
    then obtain k where k: "k < length fs" "fs ! k = f" by (auto simp: in_set_conv_nth)
    then have "k \<in> set (members ?ps i)" using f by (simp add: members_def field_descriptor_to_proto_def)
    moreover have "(i, os ! i) \<in> set (enumerate 0 os)" using f(3) by (auto simp: in_set_enumerate_eq)
    ultimately have "\<exists>x \<in> set (map (convert_oneof ?ps pm) (enumerate 0 os)). k \<in> set (snd x)"
      by (force simp: convert_oneof_def)
    then show ?thesis using k(1) by (auto simp: list_ex_iff Bex_def split_beta)
  qed
qed

lemma merge_shared: "draft_shared m \<Longrightarrow> draft_shared (fst (merge_message ds cs m used))"
proof (induction m arbitrary: used rule: draft_shared.induct)
  case (1 nm fs ns es os c0 d0 p)
  obtain d c u1 where a: "associate ds cs (pos_line p) used = (d, c, u1)" by (cases "associate ds cs (pos_line p) used")
  obtain os' fs1 u2 where o': "thread_map (merge_oneof ds cs) os (fs, u1) = (os', fs1, u2)"
    by (cases "thread_map (merge_oneof ds cs) os (fs, u1)")
  obtain fs2 u3 where f: "thread_map (merge_field ds cs) fs1 u2 = (fs2, u3)"
    by (cases "thread_map (merge_field ds cs) fs1 u2")
  obtain ns' u4 where n: "thread_map (merge_message ds cs) ns u3 = (ns', u4)"
    by (cases "thread_map (merge_message ds cs) ns u3")
  obtain es' u5 where e: "thread_map (merge_enum ds cs) es u4 = (es', u5)" by (cases "thread_map (merge_enum ds cs) es u4")
  have fold_len: "length (fst (fold (merge_field_at ds cs) is st)) = length (fst st)" for "is" st
    by (induction "is" arbitrary: st) (auto simp: merge_field_at_def split_beta)
  have "length (fst (snd (thread_map (merge_oneof ds cs) os (fs, u1)))) = length fs"
    by (rule thread_map_state [where P = "\<lambda>s. length (fst s) = length fs"])
      (auto simp: merge_oneof_def split_beta fold_len)
  moreover have "length (fst (thread_map (merge_field ds cs) fs1 u2)) = length fs1"
    using thread_map_all2 [of fs1 "\<lambda>_ _. True"] by (metis list_all2_lengthD)
  ultimately have len: "length fs2 = length fs" using o' f by simp
  have "list_all2 (\<lambda>x y. snd y = snd x) os (fst (thread_map (merge_oneof ds cs) os (fs, u1)))"
    by (rule thread_map_all2) (simp add: merge_oneof_def split_beta)
  then have os: "list_all2 (\<lambda>x y. snd y = snd x) os os'" using o' by simp
  have "list_all2 (\<lambda>x y. draft_shared x \<longrightarrow> draft_shared y) ns (fst (thread_map (merge_message ds cs) ns u3))"
    by (rule thread_map_all2) (use 1 in auto)
  then have ns: "list_all2 (\<lambda>x y. draft_shared x \<longrightarrow> draft_shared y) ns ns'" using n by simp
  let ?P = "\<lambda>x :: oneof_node \<times> nat list. list_ex (\<lambda>i. i < length fs) (snd x)"
  from "1.prems" have "list_ex ?P os' \<or> list_ex draft_shared ns'"
    using list_all2_ex [OF os, of ?P ?P] list_all2_ex [OF ns, of draft_shared draft_shared] by (auto simp: case_prod_unfold)
  then show ?case using a o' f n e len by (simp add: case_prod_unfold)
qed

lemma shared_numbers: "x \<in> set xs \<Longrightarrow> x \<in> set ys \<Longrightarrow> \<not> distinct (map f (xs @ ys))"
  by auto

lemma finish_shared: "draft_shared m \<Longrightarrow> \<not> message_valid c (finish_message m)"
proof (induction m rule: draft_shared.induct)
  case (1 nm fs ns es os c0 d0 p)
  show ?case
  proof (cases "list_ex draft_shared ns")
    case True
    then show ?thesis using 1 by (auto simp: list_ex_iff list_all_iff)
  next
    case False
    then obtain x "is" i where i: "(x, is) \<in> set os" "i \<in> set is" "i < length fs"
      using "1.prems" by (auto simp: list_ex_iff)
    let ?members = "concat (map oo_fields (map (\<lambda>(oo, is). oo\<lparr>oo_fields := map ((!) fs) is\<rparr>) os))"
    have "fs ! i \<in> set fs" "fs ! i \<in> set ?members" using i by force+
    then have "\<not> distinct (map fn_number (fs @ ?members))" by (rule shared_numbers)
    then show ?thesis unfolding finish_message.simps message_valid.simps Let_def by blast
  qed
qed

text \<open>The descriptor that the parser works on.\<close>

definition compiled_file :: "proto_compiler \<Rightarrow> string \<Rightarrow> string \<Rightarrow> file_descriptor option" where
  "compiled_file pc filename content = (case pc (file_map filename (preprocess_import_paths content)) filename of
     Inr (d # _) \<Rightarrow> Some d | _ \<Rightarrow> None)"

lemma parse_to_descriptor_compiled:
  "pc (file_map filename (preprocess_import_paths content)) filename = Inr (d # rest) \<Longrightarrow>
   parse_to_descriptor pc filename content = Inr ((protodescriptor_to_proto d)
     \<lparr>lp_public := List.map_filter (last_index (fl_imports d)) (fst (extract_import_modifiers content)),
      lp_weak := List.map_filter (last_index (fl_imports d)) (snd (extract_import_modifiers content))\<rparr>)"
  by (simp add: parse_to_descriptor_def Let_def split_beta protodescriptor_to_proto_def)

text \<open>What a successful parse went through.\<close>

lemma parse_stages:
  assumes "parse_with_descriptor pc filename content = Inr ast"
  obtains d p ds cs where "compiled_file pc filename content = Some d"
    and "lp_messages p = map message_descriptor_to_proto (fl_messages d)" and "lp_package p = Some (fl_package d)"
    and "lp_dependencies p = fl_imports d" and "parse_to_descriptor pc filename content = Inr p"
    and "parse_spoke_directives content = Inr (ds, cs)"
    and "ast = finish_root (merge_directives_and_comments ds cs (convert_descriptor p content))"
proof -
  let ?p = "parse_to_descriptor pc filename content" and ?ds = "parse_spoke_directives content"
  obtain p where p: "?p = Inr p"
    using assms by (cases ?p) (auto simp: parse_with_descriptor_def wrap_stop_def split: parse_stop.splits)
  obtain x where "?ds = Inr x"
    using assms p by (cases ?ds) (auto simp: parse_with_descriptor_def wrap_stop_def split: parse_stop.splits)
  then obtain ds cs where ds: "?ds = Inr (ds, cs)" by (cases x) simp
  let ?fs = "pc (file_map filename (preprocess_import_paths content)) filename"
  obtain fs where fs: "?fs = Inr fs" using p by (cases ?fs) (simp_all add: parse_to_descriptor_def)
  obtain d rest where d: "fs = d # rest" using p fs by (cases fs) (simp_all add: parse_to_descriptor_def)
  have pd: "p = (protodescriptor_to_proto d)\<lparr>lp_public := lp_public p, lp_weak := lp_weak p\<rparr>"
    using p parse_to_descriptor_compiled [of pc filename content d rest] fs d by auto
  show thesis
  proof (rule that)
    show "compiled_file pc filename content = Some d" using fs d by (simp add: compiled_file_def)
    show "lp_messages p = map message_descriptor_to_proto (fl_messages d)" "lp_package p = Some (fl_package d)"
        "lp_dependencies p = fl_imports d"
      by (subst pd, simp add: protodescriptor_to_proto_def)+
    show "?p = Inr p" "?ds = Inr (ds, cs)" using p ds by simp_all
    show "ast = finish_root (merge_directives_and_comments ds cs (convert_descriptor p content))"
      using assms p ds by (simp add: parse_with_descriptor_def wrap_stop_def)
  qed
qed

lemma parse_returns:
  assumes "compiled_file pc filename content = Some d" and "is_ok (parse_spoke_directives content)"
  shows "is_ok (parse_with_descriptor pc filename content)"
proof -
  obtain rest where "pc (file_map filename (preprocess_import_paths content)) filename = Inr (d # rest)"
    using assms(1) by (simp add: compiled_file_def split: sum.splits list.splits)
  then obtain p where p: "parse_to_descriptor pc filename content = Inr p" using parse_to_descriptor_compiled by blast
  obtain ds cs where ds: "parse_spoke_directives content = Inr (ds, cs)" using assms(2) by (auto simp: is_ok_iff)
  show ?thesis by (simp add: parse_with_descriptor_def wrap_stop_def p ds)
qed

text \<open>
  C22. A parsed file with a oneof, in a message at any depth, is never valid, whatever the configuration: the parser
  lists the members of a oneof both in the message and in the oneof, and the validator counts the numbers of
  both lists as used.
\<close>

theorem oneof_never_valid:
  assumes parsed: "parse_string pc content = Inr ast" and d: "compiled_file pc ''input.proto'' content = Some d"
    and oneof: "list_ex has_oneof (fl_messages d)"
  shows "\<not> vr_valid (validate c ast)"
proof -
  obtain d' p ds cs where d': "compiled_file pc ''input.proto'' content = Some d'"
    and p': "lp_messages p = map message_descriptor_to_proto (fl_messages d')"
    and ast: "ast = finish_root (merge_directives_and_comments ds cs (convert_descriptor p content))"
    using parsed unfolding parse_string_def by (rule parse_stages)
  have p: "lp_messages p = map message_descriptor_to_proto (fl_messages d)" using p' d d' by simp
  obtain m where m: "m \<in> set (fl_messages d)" "has_oneof m" using oneof by (auto simp: list_ex_iff)
  let ?ms = "snd (convert_descriptor p content)"
  let ?merged = "snd (merge_directives_and_comments ds cs (convert_descriptor p content))"
  obtain u where merged: "?merged = fst (thread_map (merge_message ds cs) ?ms u)"
    by (auto simp: merge_directives_and_comments_def split_beta Let_def)
  have shared: "list_ex draft_shared ?ms"
    using m convert_shared by (auto simp: convert_descriptor_def Let_def p list_ex_iff)
  have "list_all2 (\<lambda>x y. draft_shared x \<longrightarrow> draft_shared y) ?ms ?merged"
    unfolding merged by (rule thread_map_all2) (simp add: merge_shared)
  then have "list_ex draft_shared ?merged" by (rule list_all2_ex [where P = draft_shared]) (blast, rule shared)
  then have "list_ex (\<lambda>m. \<not> message_valid c m) (rn_messages ast)"
    using finish_shared by (auto simp: ast finish_root_def split_beta list_ex_iff)
  then have "\<not> list_all (message_valid c) (rn_messages ast)" by (auto simp: list_ex_iff list_all_iff)
  then show ?thesis using validate_errors by (simp add: validate_def Let_def)
qed

definition choice_file :: file_descriptor where
  "choice_file = \<lparr>fl_path = ''input.proto'', fl_package = ''p'', fl_syntax = ''proto3'', fl_imports = [],
     fl_messages = [Message_Descriptor ''M''
       [\<lparr>fx_name = ''a'', fx_number = 1, fx_kind = Kind_String, fx_message_type = None, fx_enum_type = None,
         fx_cardinality = Card_Optional, fx_oneof = Some 0\<rparr>] [] [] [''choice'']],
     fl_enums = [], fl_services = [], fl_options = None\<rparr>"

definition choice_text :: string where
  "choice_text = line_of ''message M {'' @ line_of ''  oneof choice {'' @ line_of ''    string a = 1;'' @ line_of ''  } }''"

theorem oneof_never_valid_witness:
  "\<not> vr_valid (validate default_validation_config (projr (parse_string (\<lambda>_ _. Inr [choice_file]) choice_text)))"
proof (rule oneof_never_valid)
  have "is_ok (parse_spoke_directives choice_text)"
    by (simp add: parse_without_slash choice_text_def line_of_def newline_def)
  then have "is_ok (parse_string (\<lambda>_ _. Inr [choice_file]) choice_text)"
    unfolding parse_string_def by (rule parse_returns [rotated]) (simp add: compiled_file_def)
  then show "parse_string (\<lambda>_ _. Inr [choice_file]) choice_text =
      Inr (projr (parse_string (\<lambda>_ _. Inr [choice_file]) choice_text))" by (auto simp: is_ok_iff)
  show "compiled_file (\<lambda>_ _. Inr [choice_file]) ''input.proto'' choice_text = Some choice_file"
    by (simp add: compiled_file_def)
  show "list_ex has_oneof (fl_messages choice_file)" by (simp add: choice_file_def)
qed

section \<open>Directives\<close>

abbreviation directive_no :: "spoke_directive_node \<Rightarrow> int" where
  "directive_no d \<equiv> pos_line (sd_pos d)"

text \<open>
  What a step of merging attaches: the directives of a node before and after, as multisets, and the lines taken
  before and after.
\<close>

definition took :: "directives \<Rightarrow> spoke_directive_node multiset \<Rightarrow> spoke_directive_node multiset \<Rightarrow> consumed \<Rightarrow> consumed \<Rightarrow> bool" where
  "took ds B A u u' \<longleftrightarrow> (\<exists>D. A = B + D \<and> mset u' = image_mset directive_no D + mset u \<and>
     (distinct u \<longrightarrow> distinct u') \<and> set_mset D \<subseteq> snd ` set ds)"

lemma took_refl [simp]: "took ds B B u u"
  by (auto simp: took_def)

lemma took_trans [trans]: "took ds B A u u' \<Longrightarrow> took ds A C u' v \<Longrightarrow> took ds B C u v"
  unfolding took_def by (elim exE, rule_tac x = "D + Da" in exI) auto

lemma took_add: "took ds B A u u' \<Longrightarrow> took ds (B + C) (A + C) u u'"
  unfolding took_def by (elim exE, rule_tac x = D in exI) auto

lemma took_both: "took ds B A u u' \<Longrightarrow> took ds B' A' u' v \<Longrightarrow> took ds (B + B') (A + A') u v"
  using took_add [of ds B A u u' B'] took_add [of ds B' A' u' v A] by (simp add: add.commute took_trans)

lemma took_line:
  assumes "keyed_by directive_no ds"
  shows "took ds (mset d) (mset (fst (take_line ds cs n (d, c, u)))) u (snd (snd (take_line ds cs n (d, c, u))))"
proof (cases "n < 1 \<or> n \<in> set u \<or> gm_get ds n = None")
  case True
  then show ?thesis by (auto simp: take_line_def)
next
  case False
  then obtain x where x: "gm_get ds n = Some x" by blast
  then have "(n, x) \<in> set ds" by (rule map_of_SomeD)
  then have "directive_no x = n" "x \<in> snd ` set ds" using keyed_by_elem [OF assms] by force+
  then show ?thesis using False x by (auto simp: take_line_def took_def)
qed

lemma took_associate:
  assumes "keyed_by directive_no ds" and "associate ds cs start u = (d, c, u')"
  shows "took ds {#} (mset d) u u'"
proof -
  have "took ds (mset (fst st)) (mset (fst (fold (take_line ds cs) ls st))) (snd (snd st)) (snd (snd (fold (take_line ds cs) ls st)))"
    for ls st
  proof (induction ls arbitrary: st)
    case (Cons l ls)
    obtain d c u where st: "st = (d, c, u)" by (cases st)
    show ?case using took_trans took_line [OF assms(1), of d cs l c u] Cons [of "take_line ds cs l st"]
      unfolding st fold_simps fst_conv snd_conv by blast
  qed simp
  from this [of "([], [], u)" "[start - 3, start - 2, start - 1]"] show ?thesis using assms(2) by (simp add: associate_def)
qed

lemma took_thread:
  assumes "\<And>x u. x \<in> set xs \<Longrightarrow> took ds (g x) (g (fst (f x u))) u (snd (f x u))"
  shows "took ds (sum_list (map g xs)) (sum_list (map g (fst (thread_map f xs u)))) u (snd (thread_map f xs u))"
  using assms
proof (induction xs arbitrary: u)
  case (Cons x xs)
  then have "took ds (g x) (g (fst (f x u))) u (snd (f x u))" by simp
  then show ?case using Cons took_both by (fastforce simp: split_beta Let_def)
qed simp

fun enum_directives :: "enum_node \<Rightarrow> spoke_directive_node list" where
  "enum_directives e = en_directives e @ concat (map ev_directives (en_values e))"

fun service_directives :: "service_node \<Rightarrow> spoke_directive_node list" where
  "service_directives s = sv_directives s @ concat (map rpc_directives (sv_rpcs s))"

text \<open>All directives of a message, those of a shared field once; in the draft and in the tree.\<close>

fun draft_directives :: "draft_message \<Rightarrow> spoke_directive_node list" where
  "draft_directives (Draft_Message nm fs ns es os cs ds p) =
     ds @ concat (map (\<lambda>(oo, _). oo_directives oo) os) @ concat (map fn_directives fs) @
     concat (map draft_directives ns) @ concat (map enum_directives es)"

fun message_directives :: "message_node \<Rightarrow> spoke_directive_node list" where
  "message_directives (MessageNode nm fs ns es os opts cs ds p e) =
     ds @ concat (map oo_directives os) @ concat (map fn_directives fs) @
     concat (map message_directives ns) @ concat (map enum_directives es)"

lemma finish_directives: "message_directives (finish_message m) = draft_directives m"
  by (induction m rule: draft_directives.induct) (simp add: comp_def case_prod_unfold cong: map_cong)

definition root_directives :: "root_node \<Rightarrow> spoke_directive_node list" where
  "root_directives r = rn_directives r @ (case rn_syntax r of None \<Rightarrow> [] | Some x \<Rightarrow> sx_directives x) @
     (case rn_package r of None \<Rightarrow> [] | Some p \<Rightarrow> pk_directives p) @ concat (map im_directives (rn_imports r)) @
     concat (map message_directives (rn_messages r)) @ concat (map enum_directives (rn_enums r)) @
     concat (map service_directives (rn_services r))"

lemma mset_concat_map: "mset (concat (map f xs)) = sum_list (map (\<lambda>x. mset (f x)) xs)"
  by (induction xs) auto

lemma merge_fields_length: "length (fst (fold (merge_field_at ds cs) is st)) = length (fst st)"
  by (induction "is" arbitrary: st) (auto simp: merge_field_at_def split_beta)

fun draft_ok :: "draft_message \<Rightarrow> bool" where
  "draft_ok (Draft_Message nm fs ns es os cs ds p) \<longleftrightarrow>
     list_all (\<lambda>(_, is). list_all (\<lambda>i. i < length fs) is) os \<and> list_all draft_ok ns"

lemma convert_ok: "draft_ok (convert_message pm m)"
  by (induction m) (auto simp: list_all_iff convert_oneof_def members_def)

locale merging =
  fixes ds :: directives and cs :: comments
  assumes keyed: "keyed_by directive_no ds"
begin

lemma took_node:
  "associate ds cs start u = (d, c, u') \<Longrightarrow> took ds (mset b) (mset (b @ d)) u u'"
  using took_add [OF took_associate [OF keyed], of cs start u d c u' "mset b"] by (simp add: add.commute)

lemma took_syntax: "took ds (mset (sx_directives x)) (mset (sx_directives (fst (merge_syntax ds cs x u)))) u (snd (merge_syntax ds cs x u))"
  by (cases "associate ds cs (pos_line (sx_pos x)) u") (simp add: merge_syntax_def took_node del: mset_append)

lemma took_package: "took ds (mset (pk_directives x)) (mset (pk_directives (fst (merge_package ds cs x u)))) u (snd (merge_package ds cs x u))"
  by (cases "associate ds cs (pos_line (pk_pos x)) u") (simp add: merge_package_def took_node del: mset_append)

lemma took_import: "took ds (mset (im_directives x)) (mset (im_directives (fst (merge_import ds cs x u)))) u (snd (merge_import ds cs x u))"
  by (cases "associate ds cs (pos_line (im_pos x)) u") (simp add: merge_import_def took_node del: mset_append)

lemma took_field: "took ds (mset (fn_directives x)) (mset (fn_directives (fst (merge_field ds cs x u)))) u (snd (merge_field ds cs x u))"
  by (cases "associate ds cs (pos_line (fn_pos x)) u") (simp add: merge_field_def took_node del: mset_append)

lemma took_value: "took ds (mset (ev_directives x)) (mset (ev_directives (fst (merge_value ds cs x u)))) u (snd (merge_value ds cs x u))"
  by (cases "associate ds cs (pos_line (ev_pos x)) u") (simp add: merge_value_def took_node del: mset_append)

lemma took_rpc: "took ds (mset (rpc_directives x)) (mset (rpc_directives (fst (merge_rpc ds cs x u)))) u (snd (merge_rpc ds cs x u))"
  by (cases "associate ds cs (pos_line (rpc_pos x)) u") (simp add: merge_rpc_def took_node del: mset_append)

lemma took_enum: "took ds (mset (enum_directives x)) (mset (enum_directives (fst (merge_enum ds cs x u)))) u (snd (merge_enum ds cs x u))"
proof -
  obtain d c u' where a: "associate ds cs (pos_line (en_pos x)) u = (d, c, u')" by (cases "associate ds cs (pos_line (en_pos x)) u")
  obtain vs v where t: "thread_map (merge_value ds cs) (en_values x) u' = (vs, v)"
    by (cases "thread_map (merge_value ds cs) (en_values x) u'")
  show ?thesis using took_both [OF took_node [OF a, of "en_directives x"] took_thread [of "en_values x" ds "\<lambda>v. mset (ev_directives v)" "merge_value ds cs" u']] took_value
    by (simp add: merge_enum_def a t mset_concat_map add.assoc)
qed

lemma took_service: "took ds (mset (service_directives x)) (mset (service_directives (fst (merge_service ds cs x u)))) u (snd (merge_service ds cs x u))"
proof -
  obtain d c u' where a: "associate ds cs (pos_line (sv_pos x)) u = (d, c, u')" by (cases "associate ds cs (pos_line (sv_pos x)) u")
  obtain vs v where t: "thread_map (merge_rpc ds cs) (sv_rpcs x) u' = (vs, v)"
    by (cases "thread_map (merge_rpc ds cs) (sv_rpcs x) u'")
  show ?thesis using took_both [OF took_node [OF a, of "sv_directives x"] took_thread [of "sv_rpcs x" ds "\<lambda>v. mset (rpc_directives v)" "merge_rpc ds cs" u']] took_rpc
    by (simp add: merge_service_def a t mset_concat_map add.assoc)
qed

lemma took_field_at:
  assumes "i < length fs"
  shows "took ds (\<Sum>f\<leftarrow>fs. mset (fn_directives f)) (\<Sum>f\<leftarrow>fst (merge_field_at ds cs i (fs, u)). mset (fn_directives f)) u
    (snd (merge_field_at ds cs i (fs, u)))"
proof -
  let ?g = "\<lambda>f. mset (fn_directives f)"
  obtain f v where m: "merge_field ds cs (fs ! i) u = (f, v)" by (cases "merge_field ds cs (fs ! i) u")
  let ?rest = "(\<Sum>f\<leftarrow>take i fs. ?g f) + (\<Sum>f\<leftarrow>drop (Suc i) fs. ?g f)"
  have "(\<Sum>f\<leftarrow>fs. ?g f) = ?g (fs ! i) + ?rest"
    by (subst id_take_nth_drop [OF assms]) (simp add: ac_simps)
  moreover have "(\<Sum>f\<leftarrow>fs[i := f]. ?g f) = ?g f + ?rest"
    by (subst upd_conv_take_nth_drop [OF assms]) (simp add: ac_simps)
  ultimately show ?thesis using took_add [OF took_field [of "fs ! i" u], of ?rest] m by (simp add: merge_field_at_def)
qed

lemma took_fields_at:
  "list_all (\<lambda>i. i < length fs) is \<Longrightarrow>
   took ds (\<Sum>f\<leftarrow>fs. mset (fn_directives f)) (\<Sum>f\<leftarrow>fst (fold (merge_field_at ds cs) is (fs, u)). mset (fn_directives f)) u
     (snd (fold (merge_field_at ds cs) is (fs, u)))"
proof (induction "is" arbitrary: fs u)
  case (Cons i "is")
  obtain fs' u' where m: "merge_field_at ds cs i (fs, u) = (fs', u')" by (cases "merge_field_at ds cs i (fs, u)")
  then have "length fs' = length fs" by (auto simp: merge_field_at_def split_beta)
  then show ?case using Cons took_field_at [of i fs u] m by (auto intro: took_trans)
qed simp

lemma took_oneofs:
  "list_all (\<lambda>(_, is). list_all (\<lambda>i. i < length fs) is) os \<Longrightarrow> thread_map (merge_oneof ds cs) os (fs, u) = (os', fs', u') \<Longrightarrow>
   took ds ((\<Sum>x\<leftarrow>os. mset (oo_directives (fst x))) + (\<Sum>f\<leftarrow>fs. mset (fn_directives f)))
     ((\<Sum>x\<leftarrow>os'. mset (oo_directives (fst x))) + (\<Sum>f\<leftarrow>fs'. mset (fn_directives f))) u u' \<and> length fs' = length fs"
proof (induction os arbitrary: fs u os')
  case (Cons o' os)
  obtain x "is" where o': "o' = (x, is)" by (cases o')
  obtain d c u1 where a: "associate ds cs (pos_line (oo_pos x)) u = (d, c, u1)" by (cases "associate ds cs (pos_line (oo_pos x)) u")
  obtain fs1 u2 where f: "fold (merge_field_at ds cs) is (fs, u1) = (fs1, u2)" by (cases "fold (merge_field_at ds cs) is (fs, u1)")
  obtain os1 fs2 u3 where t: "thread_map (merge_oneof ds cs) os (fs1, u2) = (os1, fs2, u3)"
    by (cases "thread_map (merge_oneof ds cs) os (fs1, u2)")
  have step: "merge_oneof ds cs (x, is) (fs, u) =
      ((x\<lparr>oo_directives := oo_directives x @ d, oo_comments := oo_comments x @ c\<rparr>, is), fs1, u2)"
    by (simp add: a f merge_oneof_def)
  have os': "os' = (x\<lparr>oo_directives := oo_directives x @ d, oo_comments := oo_comments x @ c\<rparr>, is) # os1" "fs' = fs2" "u' = u3"
    using Cons.prems(2) by (simp_all add: o' step t)
  have len: "length fs1 = length fs" using f merge_fields_length by (metis fst_conv)
  let ?sum = "\<lambda>fs. \<Sum>f\<leftarrow>fs. mset (fn_directives f)" and ?os = "\<lambda>os. \<Sum>x\<leftarrow>os. mset (oo_directives (fst x))"
  have t1: "took ds (mset (oo_directives x) + ?sum fs) (mset (oo_directives x @ d) + ?sum fs1) u u2"
    using took_both [OF took_node [OF a, of "oo_directives x"] took_fields_at [of fs "is" u1]] Cons.prems(1) f by (simp add: o')
  have t2: "took ds (?os os + ?sum fs1) (?os os1 + ?sum fs2) u2 u3 \<and> length fs2 = length fs1"
    using Cons.IH [of fs1 u2 os1] Cons.prems(1) t len by (simp add: o' os')
  have "took ds (mset (oo_directives x) + ?sum fs + ?os os) (mset (oo_directives x @ d) + (?os os1 + ?sum fs2)) u u3"
    using took_trans [OF took_add [OF t1, of "?os os"]] took_add [OF t2 [THEN conjunct1], of "mset (oo_directives x @ d)"]
    by (simp add: ac_simps)
  then show ?case using t2 len by (simp add: o' os' ac_simps)
qed simp

lemma took_message:
  "draft_ok m \<Longrightarrow> took ds (mset (draft_directives m)) (mset (draft_directives (fst (merge_message ds cs m u)))) u
     (snd (merge_message ds cs m u))"
proof (induction m arbitrary: u rule: draft_ok.induct)
  case (1 nm fs ns es os c0 d0 p)
  obtain d c u1 where a: "associate ds cs (pos_line p) u = (d, c, u1)" by (cases "associate ds cs (pos_line p) u")
  obtain os' fs1 u2 where o': "thread_map (merge_oneof ds cs) os (fs, u1) = (os', fs1, u2)"
    by (cases "thread_map (merge_oneof ds cs) os (fs, u1)")
  obtain fs2 u3 where f: "thread_map (merge_field ds cs) fs1 u2 = (fs2, u3)" by (cases "thread_map (merge_field ds cs) fs1 u2")
  obtain ns' u4 where n: "thread_map (merge_message ds cs) ns u3 = (ns', u4)" by (cases "thread_map (merge_message ds cs) ns u3")
  obtain es' u5 where e: "thread_map (merge_enum ds cs) es u4 = (es', u5)" by (cases "thread_map (merge_enum ds cs) es u4")
  let ?f = "\<lambda>fs. \<Sum>f\<leftarrow>fs. mset (fn_directives f)" and ?o = "\<lambda>os. \<Sum>x\<leftarrow>os. mset (oo_directives (fst x))"
    and ?n = "\<lambda>ns. \<Sum>m\<leftarrow>ns. mset (draft_directives m)" and ?e = "\<lambda>es. \<Sum>e\<leftarrow>es. mset (enum_directives e)"
  have t1: "took ds (mset d0) (mset (d0 @ d)) u u1" using a by (rule took_node)
  have t2: "took ds (?o os + ?f fs) (?o os' + ?f fs1) u1 u2" using took_oneofs [OF _ o'] "1.prems" by simp
  have t3: "took ds (?f fs1) (?f fs2) u2 u3" using took_thread [of fs1 ds _ "merge_field ds cs" u2] took_field f by fastforce
  have t4: "took ds (?n ns) (?n ns') u3 u4"
    using took_thread [of ns ds "\<lambda>m. mset (draft_directives m)" "merge_message ds cs" u3] 1 n by (simp add: list_all_iff)
  have t5: "took ds (?e es) (?e es') u4 u5" using took_thread [of es ds _ "merge_enum ds cs" u4] took_enum e by fastforce
  have "took ds (?o os + ?f fs) (?o os' + ?f fs2) u1 u3"
    using took_trans [OF t2] took_add [OF t3, of "?o os'"] by (simp add: add.commute)
  then have t23: "took ds (?o os + ?f fs) (?o os' + ?f fs2) u1 u3" .
  have "took ds (mset d0 + (?o os + ?f fs) + ?n ns + ?e es) (mset (d0 @ d) + (?o os' + ?f fs2) + ?n ns' + ?e es') u u5"
    by (rule took_both [OF took_both [OF took_both [OF t1 t23] t4] t5])
  then show ?case using a o' f n e by (simp add: mset_concat_map case_prod_unfold ac_simps)
qed

lemma took_option:
  "(\<And>x u. took ds (g x) (g (fst (f x u))) u (snd (f x u))) \<Longrightarrow>
   took ds (case a of None \<Rightarrow> {#} | Some x \<Rightarrow> g x) (case fst (merge_option f a u) of None \<Rightarrow> {#} | Some x \<Rightarrow> g x) u
     (snd (merge_option f a u))"
  by (simp add: merge_option_def split_beta split: option.split)

lemma took_root:
  assumes "list_all draft_ok (snd r)"
  shows "\<exists>u. took ds (mset (root_directives (finish_root r)))
    (mset (root_directives (finish_root (merge_directives_and_comments ds cs r)))) [] u"
proof -
  obtain r0 ms where r: "r = (r0, ms)" by (cases r)
  let ?o = "\<lambda>g a. case a of None \<Rightarrow> {#} | Some x \<Rightarrow> mset (g x)" and ?s = "\<lambda>g xs. \<Sum>x\<leftarrow>xs. mset (g x)"
  obtain sx u1 where m1: "merge_option (merge_syntax ds cs) (rn_syntax r0) [] = (sx, u1)"
    by (cases "merge_option (merge_syntax ds cs) (rn_syntax r0) []")
  obtain pk u2 where m2: "merge_option (merge_package ds cs) (rn_package r0) u1 = (pk, u2)"
    by (cases "merge_option (merge_package ds cs) (rn_package r0) u1")
  obtain "is" u3 where m3: "thread_map (merge_import ds cs) (rn_imports r0) u2 = (is, u3)"
    by (cases "thread_map (merge_import ds cs) (rn_imports r0) u2")
  obtain ms' u4 where m4: "thread_map (merge_message ds cs) ms u3 = (ms', u4)"
    by (cases "thread_map (merge_message ds cs) ms u3")
  obtain es u5 where m5: "thread_map (merge_enum ds cs) (rn_enums r0) u4 = (es, u5)"
    by (cases "thread_map (merge_enum ds cs) (rn_enums r0) u4")
  obtain ss u6 where m6: "thread_map (merge_service ds cs) (rn_services r0) u5 = (ss, u6)"
    by (cases "thread_map (merge_service ds cs) (rn_services r0) u5")
  obtain d c u7 where m7: "associate ds cs 1 u6 = (d, c, u7)" by (cases "associate ds cs 1 u6")
  have t1: "took ds (?o sx_directives (rn_syntax r0)) (?o sx_directives sx) [] u1"
    using took_option [of "\<lambda>x. mset (sx_directives x)" "merge_syntax ds cs" "rn_syntax r0" "[]"] took_syntax m1 by simp
  have t2: "took ds (?o pk_directives (rn_package r0)) (?o pk_directives pk) u1 u2"
    using took_option [of "\<lambda>x. mset (pk_directives x)" "merge_package ds cs" "rn_package r0" u1] took_package m2 by simp
  have t3: "took ds (?s im_directives (rn_imports r0)) (?s im_directives is) u2 u3"
    using took_thread [of "rn_imports r0" ds "\<lambda>x. mset (im_directives x)" "merge_import ds cs" u2] took_import m3 by simp
  have t4: "took ds (?s draft_directives ms) (?s draft_directives ms') u3 u4"
    using took_thread [of ms ds "\<lambda>x. mset (draft_directives x)" "merge_message ds cs" u3] took_message m4 assms
    by (simp add: r list_all_iff)
  have t5: "took ds (?s enum_directives (rn_enums r0)) (?s enum_directives es) u4 u5"
    using took_thread [of "rn_enums r0" ds "\<lambda>x. mset (enum_directives x)" "merge_enum ds cs" u4] took_enum m5
    by (simp del: enum_directives.simps)
  have t6: "took ds (?s service_directives (rn_services r0)) (?s service_directives ss) u5 u6"
    using took_thread [of "rn_services r0" ds "\<lambda>x. mset (service_directives x)" "merge_service ds cs" u5] took_service m6
    by (simp del: service_directives.simps)
  have t7: "took ds (mset (rn_directives r0)) (mset (rn_directives r0 @ d)) u6 u7" using m7 by (rule took_node)
  note all = took_both [OF took_both [OF took_both [OF took_both [OF took_both [OF took_both [OF t1 t2] t3] t4] t5] t6] t7]
  have o': "mset (case a of None \<Rightarrow> [] | Some x \<Rightarrow> g x) = ?o g a" for a :: "'x option" and g :: "'x \<Rightarrow> spoke_directive_node list"
    by (simp split: option.split)
  have before: "mset (root_directives (finish_root r)) = ?o sx_directives (rn_syntax r0) + ?o pk_directives (rn_package r0) +
      ?s im_directives (rn_imports r0) + ?s draft_directives ms + ?s enum_directives (rn_enums r0) +
      ?s service_directives (rn_services r0) + mset (rn_directives r0)"
    by (simp add: r root_directives_def finish_root_def mset_concat_map comp_def finish_directives o' ac_simps
        del: enum_directives.simps service_directives.simps)
  have "merge_directives_and_comments ds cs r = (r0\<lparr>rn_syntax := sx, rn_package := pk, rn_imports := is, rn_enums := es,
      rn_services := ss, rn_directives := rn_directives r0 @ d, rn_comments := rn_comments r0 @ c\<rparr>, ms')"
    by (simp add: r merge_directives_and_comments_def m1 m2 m3 m4 m5 m6 m7)
  then have after: "mset (root_directives (finish_root (merge_directives_and_comments ds cs r))) = ?o sx_directives sx +
      ?o pk_directives pk + ?s im_directives is + ?s draft_directives ms' + ?s enum_directives es +
      ?s service_directives ss + mset (rn_directives r0 @ d)"
    by (simp add: root_directives_def finish_root_def mset_concat_map comp_def finish_directives o' ac_simps
        del: enum_directives.simps service_directives.simps)
  show ?thesis using all unfolding before after by blast
qed

end

text \<open>The directives and comments of a text.\<close>

definition directives_in :: "string \<Rightarrow> directives" where
  "directives_in content = (case parse_spoke_directives content of Inr (ds, _) \<Rightarrow> ds | Inl _ \<Rightarrow> [])"

definition comments_in :: "string \<Rightarrow> comments" where
  "comments_in content = (case parse_spoke_directives content of Inr (_, cs) \<Rightarrow> cs | Inl _ \<Rightarrow> [])"

lemma note_directive_keyed: "note_directive t n ds = Inr ds' \<Longrightarrow> keyed_by directive_no ds \<Longrightarrow> keyed_by directive_no ds'"
proof -
  assume n: "note_directive t n ds = Inr ds'" and k: "keyed_by directive_no ds"
  show ?thesis
  proof (cases "is_spoke_directive t")
    case True
    then obtain d where d: "extract_spoke_directive t n 0 = Inr d" "ds' = gm_put n d ds"
      using n by (cases "extract_spoke_directive t n 0") (simp_all add: note_directive_def)
    then have "directive_no d = n" by (auto simp: extract_spoke_directive_def Let_def split: if_splits)
    then show ?thesis using keyed_by_put [of directive_no ds d] k d(2) by simp
  qed (use n k in \<open>simp add: note_directive_def\<close>)
qed

lemma directive_line_keyed:
  assumes "directive_line n l (b, ds, cs) = Inr (b', ds', cs')" and "keyed_by directive_no ds"
  shows "keyed_by directive_no ds'"
proof -
  have "ds' = ds \<or> (\<exists>t. note_directive t n ds = Inr ds')"
    using assms(1) unfolding directive_line_def Let_def prod.case
    by (force simp: rbind_Inr_iff simp del: ex_simps split: if_splits)
  then show ?thesis using assms(2) note_directive_keyed by blast
qed

lemma directive_lines_keyed:
  "directive_lines n ls (b, ds, cs) = Inr (b', ds', cs') \<Longrightarrow> keyed_by directive_no ds \<Longrightarrow> keyed_by directive_no ds'"
proof (induction ls arbitrary: n b ds cs)
  case (Cons l ls)
  obtain x where x: "directive_line n l (b, ds, cs) = Inr x" "directive_lines (n + 1) ls x = Inr (b', ds', cs')"
    using Cons.prems(1) by (auto simp: rbind_Inr_iff)
  then show ?case using Cons directive_line_keyed by (cases x) blast
qed simp

interpretation spoke: merging "directives_in content" "comments_in content" for content
proof unfold_locales
  show "keyed_by directive_no (directives_in content)"
  proof (cases "parse_spoke_directives content")
    case (Inr x)
    then obtain b where "directive_lines 1 (text_lines content) (False, [], []) = Inr (b, x)"
      by (auto simp: parse_spoke_directives_def rbind_Inr_iff)
    then show ?thesis using Inr directive_lines_keyed [of 1 "text_lines content" False "[]" "[]" b "fst x" "snd x"]
      by (simp add: directives_in_def split_beta keyed_by_def)
  qed (simp add: directives_in_def keyed_by_def)
qed

lemma associate_top: "start \<le> 1 \<Longrightarrow> associate ds cs start u = ([], [], u)"
  by (simp add: associate_def take_line_def)

lemma draft_directives_convert: "draft_directives (convert_message pm m) = []"
  by (induction m) (auto simp: convert_field_def convert_enum_def convert_oneof_def)

lemma convert_no_directives: "root_directives (finish_root (convert_descriptor p content)) = []"
  by (auto simp: root_directives_def finish_root_def convert_descriptor_def Let_def convert_imports_def mk_import_def
      convert_enum_def convert_service_def convert_method_def finish_directives draft_directives_convert split: option.split)

lemma convert_all_ok: "list_all draft_ok (snd (convert_descriptor p content))"
  by (simp add: convert_descriptor_def Let_def list_all_iff convert_ok)

lemma list_all2_all: "list_all2 R xs ys \<Longrightarrow> (\<And>x y. x \<in> set xs \<Longrightarrow> R x y \<Longrightarrow> Q y) \<Longrightarrow> list_all Q ys"
  by (induction rule: list_all2_induct) auto

lemma merge_imports_none:
  "list_all (\<lambda>i. im_directives i = []) (fst (thread_map (merge_import ds cs) (convert_imports p) u))"
proof (rule list_all2_all)
  let ?R = "\<lambda>x y. pos_line (im_pos x) \<le> 1 \<longrightarrow> im_directives y = im_directives x"
  show "list_all2 ?R (convert_imports p) (fst (thread_map (merge_import ds cs) (convert_imports p) u))"
    by (rule thread_map_all2) (simp add: merge_import_def associate_top)
  fix x y assume "x \<in> set (convert_imports p)" "?R x y"
  then show "im_directives y = []" by (auto simp: convert_imports_def mk_import_def pos0_def)
qed

lemma merge_values_none:
  "list_all (\<lambda>v. ev_directives v = []) (en_values (fst (merge_enum ds cs (convert_enum d pm) u)))"
proof -
  let ?vs = "en_values (convert_enum d pm)" and ?R = "\<lambda>x y. pos_line (ev_pos x) \<le> 1 \<longrightarrow> ev_directives y = ev_directives x"
  have "list_all (\<lambda>v. ev_directives v = []) (fst (thread_map (merge_value ds cs) ?vs w))" for w
  proof (rule list_all2_all)
    show "list_all2 ?R ?vs (fst (thread_map (merge_value ds cs) ?vs w))"
      by (rule thread_map_all2) (simp add: merge_value_def associate_top)
    fix x y assume "x \<in> set ?vs" "?R x y"
    then show "ev_directives y = []" by (auto simp: convert_enum_def pos0_def)
  qed
  then show ?thesis by (simp add: merge_enum_def split_beta Let_def)
qed

lemma merged_parts:
  "\<exists>u. rn_imports (finish_root (merge_directives_and_comments ds cs (convert_descriptor p content))) =
     fst (thread_map (merge_import ds cs) (convert_imports p) u)"
  "\<exists>u. rn_enums (finish_root (merge_directives_and_comments ds cs (convert_descriptor p content))) =
     fst (thread_map (merge_enum ds cs) (map (\<lambda>e. convert_enum e (extract_positions content)) (lp_enums p)) u)"
  "rn_directives (finish_root (merge_directives_and_comments ds cs (convert_descriptor p content))) = []"
  by (auto simp: finish_root_def merge_directives_and_comments_def split_beta Let_def convert_descriptor_def associate_top)

text \<open>
  C23. Every directive of a parsed text is attached to at most one node of the tree, and what is attached is in the
  text; none reaches the root, an import or a value of a top-level enum, since the parser knows no line for them.
\<close>

theorem directives_attached_once:
  assumes "parse_string pc content = Inr ast"
  shows "distinct (map directive_no (root_directives ast)) \<and>
    set (root_directives ast) \<subseteq> snd ` set (directives_in content) \<and>
    rn_directives ast = [] \<and> list_all (\<lambda>i. im_directives i = []) (rn_imports ast) \<and>
    list_all (\<lambda>e. list_all (\<lambda>v. ev_directives v = []) (en_values e)) (rn_enums ast)"
proof -
  obtain d p ds cs where "parse_spoke_directives content = Inr (ds, cs)"
    and ast: "ast = finish_root (merge_directives_and_comments ds cs (convert_descriptor p content))"
    using assms unfolding parse_string_def by (rule parse_stages)
  then have dc: "ds = directives_in content" "cs = comments_in content" by (simp_all add: directives_in_def comments_in_def)
  obtain u where "took ds {#} (mset (root_directives ast)) [] u"
    using spoke.took_root [of "convert_descriptor p content" content] convert_all_ok convert_no_directives
    by (auto simp: ast dc)
  then have "mset u = image_mset directive_no (mset (root_directives ast))" "distinct u"
    "set (root_directives ast) \<subseteq> snd ` set ds" by (auto simp: took_def)
  then have "distinct (map directive_no (root_directives ast)) \<and> set (root_directives ast) \<subseteq> snd ` set ds"
    by (metis mset_eq_imp_distinct_iff mset_map)
  moreover have "rn_directives ast = []" unfolding ast by (rule merged_parts(3))
  moreover have "list_all (\<lambda>i. im_directives i = []) (rn_imports ast)"
    using merged_parts(1) [of ds cs p content] merge_imports_none by (auto simp: ast)
  moreover have "list_all (\<lambda>e. list_all (\<lambda>v. ev_directives v = []) (en_values e)) (rn_enums ast)"
  proof -
    let ?es = "map (\<lambda>e. convert_enum e (extract_positions content)) (lp_enums p)"
    obtain u where u: "rn_enums ast = fst (thread_map (merge_enum ds cs) ?es u)"
      using merged_parts(2) [of ds cs p content] by (auto simp: ast)
    have "list_all2 (\<lambda>x y. \<exists>u. y = fst (merge_enum ds cs x u)) ?es (rn_enums ast)"
      unfolding u by (rule thread_map_all2) blast
    then show ?thesis by (rule list_all2_all) (use merge_values_none in auto)
  qed
  ultimately show ?thesis by (simp add: dc)
qed

definition plain_file :: "message_descriptor list \<Rightarrow> file_descriptor" where
  "plain_file ms = \<lparr>fl_path = ''input.proto'', fl_package = ''p'', fl_syntax = ''proto3'', fl_imports = [], fl_messages = ms,
     fl_enums = [], fl_services = [], fl_options = None\<rparr>"

definition directive_text :: string where
  "directive_text = line_of ''// @spoke:domain:d'' @ ''message M {}''"

lemma directive_text_ok: "is_ok (parse_spoke_directives directive_text)"
proof -
  let ?d = "\<lparr>sd_option = ''domain'', sd_value = ''d'', sd_comments = [], sd_pos = at_line 1, sd_end = pos0\<rparr>"
  have trims: "trim_space ''// @spoke:domain:d'' = ''// @spoke:domain:d''" "trim_space ''domain'' = ''domain''"
      "trim_space ''d'' = ''d''"
    by (rule trim_space_id; simp add: solid_ascii_def)+
  have "trim_space '' @spoke:domain:d'' = ''@spoke:domain:d''" by code_simp
  then have "directive_line 1 ''// @spoke:domain:d'' (False, [], []) = Inr (False, [(1, ?d)], [])"
    by (simp add: directive_line_def trims contains_text_def has_prefix_def trim_prefix_def is_spoke_directive_def
        note_directive_def extract_spoke_directive_def at_line_def)
  moreover have "text_lines directive_text = [''// @spoke:domain:d'', ''message M {}'']"
    by (simp add: text_lines_def directive_text_def line_of_def newline_def)
  ultimately show ?thesis by (simp add: parse_spoke_directives_def directive_line_skip)
qed

theorem directives_attached_once_witness:
  "distinct (map directive_no (root_directives
     (projr (parse_string (\<lambda>_ _. Inr [plain_file [Message_Descriptor ''M'' [] [] [] []]]) directive_text))))"
proof -
  let ?pc = "(\<lambda>_ _. Inr [plain_file [Message_Descriptor ''M'' [] [] [] []]]) :: proto_compiler"
  have "is_ok (parse_string ?pc directive_text)"
    unfolding parse_string_def by (rule parse_returns [OF _ directive_text_ok]) (simp add: compiled_file_def)
  then have "parse_string ?pc directive_text = Inr (projr (parse_string ?pc directive_text))" by (auto simp: is_ok_iff)
  then show ?thesis using directives_attached_once by blast
qed

section \<open>Crashes\<close>

text \<open>A line where the comment opens with \<open>/*/\<close>, the two markers sharing the star.\<close>

definition crash_line :: "string \<Rightarrow> bool" where
  "crash_line line = (case index_of ''/*'' (trim_space line) of
     None \<Rightarrow> False | Some i \<Rightarrow> index_of ''*/'' (trim_space line) = Some (i + 1))"

definition panics :: "parse_stop + 'a \<Rightarrow> bool" where
  "panics r = (case r of Inl (Parse_Panic _) \<Rightarrow> True | _ \<Rightarrow> False)"

lemma panics_simps [simp]: "\<not> panics (Inr x)" "panics (Inl (Parse_Panic e))" "\<not> panics (Inl (Parse_Error m))"
  by (simp_all add: panics_def)

lemma panics_rbind: "panics (rbind r f) \<longleftrightarrow> panics r \<or> (\<exists>x. r = Inr x \<and> panics (f x))"
  by (cases r) (auto simp: panics_def split: sum.splits parse_stop.splits)

lemma note_directive_no_panic: "\<not> panics (rbind (note_directive t n ds) (\<lambda>ds. Inr (g ds)))"
  by (auto simp: note_directive_def extract_spoke_directive_def Let_def)

lemma block_comment_panics:
  "panics (extract_block_comment_text t) \<longleftrightarrow>
     (case index_of ''/*'' t of None \<Rightarrow> False | Some i \<Rightarrow> index_of ''*/'' t = Some (i + 1))"
proof (cases "index_of ''/*'' t")
  case (Some i)
  then show ?thesis by (cases "index_of ''*/'' t") (auto simp: extract_block_comment_text_def)
qed (simp add: extract_block_comment_text_def)

lemma directive_line_panics: "panics (directive_line n l st) \<longleftrightarrow> crash_line l"
proof -
  obtain b ds cs where st: "st = (b, ds, cs)" by (cases st)
  define t where "t = trim_space l"
  have crash: "crash_line l \<longleftrightarrow> panics (extract_block_comment_text t)"
    by (simp only: crash_line_def block_comment_panics t_def)
  have no: "\<not> panics (extract_block_comment_text t)" if "\<not> contains_text t ''/*'' \<or> \<not> contains_text t ''*/''"
    using that by (auto simp: contains_text_def block_comment_panics split: option.split)
  have inner: "\<not> panics (rbind (note_directive x n ds) (\<lambda>ds. Inr (v, ds, cs)))" for x v
    by (rule note_directive_no_panic)
  show ?thesis
  proof (cases "contains_text t ''/*'' \<and> contains_text t ''*/''")
    case True
    then show ?thesis
      by (simp add: st directive_line_def t_def [symmetric] Let_def panics_rbind [of "extract_block_comment_text t"] crash inner)
  next
    case False
    then have "\<not> panics (directive_line n l st)" by (simp add: st directive_line_def t_def [symmetric] Let_def inner)
    then show ?thesis using crash no False by blast
  qed
qed

lemma directive_lines_append:
  "directive_lines n (xs @ ys) st = rbind (directive_lines n xs st) (directive_lines (n + int (length xs)) ys)"
proof (induction xs arbitrary: n st)
  case (Cons x xs)
  then show ?case by (cases "directive_line n x st") (simp_all add: ac_simps)
qed simp

lemma directive_lines_panics:
  "panics (directive_lines n ls st) \<longleftrightarrow> (\<exists>pre l post. ls = pre @ l # post \<and> crash_line l \<and> is_ok (directive_lines n pre st))"
  (is "_ \<longleftrightarrow> ?crash n ls st")
proof
  assume "panics (directive_lines n ls st)"
  then show "?crash n ls st"
  proof (induction ls arbitrary: n st)
    case (Cons l ls)
    consider "panics (directive_line n l st)"
      | st' where "directive_line n l st = Inr st'" "panics (directive_lines (n + 1) ls st')"
      using Cons.prems by (auto simp: panics_rbind)
    then show ?case
    proof cases
      case 1
      then have "l # ls = [] @ l # ls" "crash_line l" "is_ok (directive_lines n [] st)" by (simp_all add: directive_line_panics)
      then show ?thesis by blast
    next
      case 2
      then obtain pre k post where "ls = pre @ k # post" "crash_line k" "is_ok (directive_lines (n + 1) pre st')"
        using Cons.IH by blast
      then show ?thesis using 2(1) by (intro exI [of _ "l # pre"]) auto
    qed
  qed simp
next
  assume "?crash n ls st"
  then obtain pre l post st' where "ls = pre @ l # post" "crash_line l" "directive_lines n pre st = Inr st'"
    by (auto simp: is_ok_iff)
  then show "panics (directive_lines n ls st)" by (simp add: directive_lines_append panics_rbind directive_line_panics)
qed

text \<open>
  C24. Parsing a file that compiles panics exactly when a line opens a block comment with \<open>/*/\<close> and no line before
  it has a malformed directive: the text between the markers is then a slice with its bounds the wrong way round.
\<close>

theorem parse_panics_iff:
  assumes "compiled_file pc ''input.proto'' content = Some d"
  shows "panics (parse_string pc content) = (\<exists>pre l post. text_lines content = pre @ l # post \<and> crash_line l \<and>
    is_ok (directive_lines 1 pre (False, [], [])))"
proof -
  obtain p where p: "parse_to_descriptor pc ''input.proto'' content = Inr p"
    using assms parse_to_descriptor_compiled [of pc "''input.proto''" content]
    by (auto simp: compiled_file_def split: sum.splits list.splits)
  have wrap: "panics (wrap_stop w r) \<longleftrightarrow> panics r" for w and r :: "parse_stop + 'x"
    by (cases r) (auto simp: wrap_stop_def panics_def split: parse_stop.split)
  have "panics (parse_string pc content) \<longleftrightarrow> panics (parse_spoke_directives content)"
    using wrap [of _ "parse_spoke_directives content"]
    by (simp add: parse_string_def parse_with_descriptor_def p wrap_stop_def panics_rbind split_beta)
  also have "\<dots> \<longleftrightarrow> panics (directive_lines 1 (text_lines content) (False, [], []))"
    by (simp add: parse_spoke_directives_def panics_rbind split_beta)
  finally show ?thesis by (simp add: directive_lines_panics)
qed

lemma crash_example: "crash_line ''/*/''"
  by code_simp

theorem parse_panics_iff_witness:
  "panics (parse_string (\<lambda>_ _. Inr [plain_file []]) ''/*/'')"
proof -
  have "compiled_file (\<lambda>_ _. Inr [plain_file []]) ''input.proto'' ''/*/'' = Some (plain_file [])"
    by (simp add: compiled_file_def)
  moreover have "text_lines ''/*/'' = [] @ ''/*/'' # []" by (simp add: text_lines_def)
  moreover have "is_ok (directive_lines 1 [] (False, [], []))" by simp
  ultimately show ?thesis using parse_panics_iff crash_example by blast
qed

section \<open>Packages and imports\<close>

text \<open>A parsed file always has a package node, one with an empty name when it declares none; by default the
  validator then rejects the file.\<close>

lemma parsed_package:
  assumes "parse_string pc content = Inr ast" and "compiled_file pc ''input.proto'' content = Some d"
  shows "map_option pk_name (rn_package ast) = Some (fl_package d)"
proof -
  obtain d' p ds cs where d': "compiled_file pc ''input.proto'' content = Some d'" and p: "lp_package p = Some (fl_package d')"
    and ast: "ast = finish_root (merge_directives_and_comments ds cs (convert_descriptor p content))"
    using assms(1) unfolding parse_string_def by (rule parse_stages)
  have name: "map_option pk_name (fst (merge_option (merge_package ds cs) x u)) = map_option pk_name x" for x u
    by (simp add: merge_option_def merge_package_def split_beta Let_def split: option.split)
  obtain u where "rn_package ast = fst (merge_option (merge_package ds cs) (rn_package (fst (convert_descriptor p content))) u)"
    by (auto simp: ast finish_root_def merge_directives_and_comments_def split_beta Let_def)
  then have "map_option pk_name (rn_package ast) = map_option pk_name (rn_package (fst (convert_descriptor p content)))"
    by (simp add: name)
  then show ?thesis using p d' assms(2) by (simp add: convert_descriptor_def Let_def)
qed

lemma packageless_never_valid:
  assumes "parse_string pc content = Inr ast" and "compiled_file pc ''input.proto'' content = Some d" and "fl_package d = []"
    and "vc_naming c"
  shows "\<not> vr_valid (validate c ast)"
proof -
  obtain p where "rn_package ast = Some p" "pk_name p = []" using parsed_package [OF assms(1,2)] assms(3) by auto
  then have "\<not> package_valid c ast" using assms(4) by (simp add: package_valid_def is_valid_package_name_def)
  then show ?thesis using validate_errors by (simp add: validate_def Let_def)
qed

text \<open>An import is marked public only if its path stands in the text as the compiler returns it, so one with a
  version, whose \<open>@\<close> the compiler sees as a dash, never is.\<close>

lemma last_index_elem: "last_index xs x = Some i \<Longrightarrow> i < length xs \<and> xs ! i = x"
  by (auto simp: last_index_def find_Some_iff rev_nth)

lemma public_as_written:
  assumes "parse_to_descriptor pc filename content = Inr p" and "i \<in> set (convert_imports p)" and "im_public i"
  shows "im_path i \<in> set (fst (extract_import_modifiers content))"
proof -
  obtain d rest where "pc (file_map filename (preprocess_import_paths content)) filename = Inr (d # rest)"
    using assms(1) by (cases "pc (file_map filename (preprocess_import_paths content)) filename")
      (simp_all add: parse_to_descriptor_def split: list.splits)
  then have p: "lp_public p = List.map_filter (last_index (fl_imports d)) (fst (extract_import_modifiers content))"
      "lp_dependencies p = fl_imports d"
    using assms(1) parse_to_descriptor_compiled [of pc filename content d rest] by (auto simp: protodescriptor_to_proto_def)
  obtain k where k: "k < length (fl_imports d)" "im_path i = fl_imports d ! k" "k \<in> set (lp_public p)"
    using assms(2,3) by (auto simp: convert_imports_def p(2) in_set_enumerate_eq mk_import_def)
  then show ?thesis using last_index_elem by (fastforce simp: p(1) List.map_filter_def)
qed

end
