(* ===== verification/Serialize_Props.thy ===== *)
theory Serialize_Props
  imports Proto_Props
begin

text \<open>
  What the comparison of normalized schemas does not see: the order of fields, enum values and imports, and comments,
  positions and the options of fields, values and methods.
\<close>

section \<open>Schemas that differ in order\<close>

text \<open>What the printer writes of a field, an enum value and an import.\<close>

definition field_key :: "field_node \<Rightarrow> string \<times> string \<times> int \<times> bool \<times> bool \<times> bool" where
  "field_key f = (fn_name f, fn_type f, fn_number f, fn_repeated f, fn_optional f, fn_required f)"

definition value_key :: "enum_value_node \<Rightarrow> string \<times> int" where
  "value_key v = (ev_name v, ev_number v)"

definition import_key :: "import_node \<Rightarrow> string \<times> bool \<times> bool" where
  "import_key i = (im_path i, im_public i, im_weak i)"

definition option_key :: "option_node \<Rightarrow> string \<times> string" where
  "option_key o' = (op_name o', op_value o')"

definition rpc_key :: "rpc_node \<Rightarrow> string \<times> string \<times> bool \<times> string \<times> bool" where
  "rpc_key r = (rpc_name r, rpc_input r, rpc_client_streaming r, rpc_output r, rpc_server_streaming r)"

text \<open>The same elements, by what the printer writes, in any order, with numbers of their own.\<close>

definition reordered :: "('a \<Rightarrow> 'k) \<Rightarrow> ('a \<Rightarrow> 'n) \<Rightarrow> 'a list \<Rightarrow> 'a list \<Rightarrow> bool" where
  "reordered key num xs ys \<longleftrightarrow> mset (map key xs) = mset (map key ys) \<and> distinct (map num xs)"

definition reordered_oneof :: "oneof_node \<Rightarrow> oneof_node \<Rightarrow> bool" where
  "reordered_oneof a b \<longleftrightarrow> oo_name a = oo_name b \<and> reordered field_key fn_number (oo_fields a) (oo_fields b)"

definition reordered_enum :: "enum_node \<Rightarrow> enum_node \<Rightarrow> bool" where
  "reordered_enum a b \<longleftrightarrow> en_name a = en_name b \<and> reordered value_key ev_number (en_values a) (en_values b) \<and>
     map option_key (en_options a) = map option_key (en_options b)"

inductive reordered_message :: "message_node \<Rightarrow> message_node \<Rightarrow> bool" where
  "reordered_message (MessageNode nm fs ns es os opts cs ds p e) (MessageNode nm fs' ns' es' os' opts' cs' ds' p' e')"
  if "reordered field_key fn_number fs fs'" "list_all2 reordered_message ns ns'" "list_all2 reordered_enum es es'"
    "list_all2 reordered_oneof os os'" "map option_key opts = map option_key opts'"

definition same_service_text :: "service_node \<Rightarrow> service_node \<Rightarrow> bool" where
  "same_service_text a b \<longleftrightarrow> sv_name a = sv_name b \<and> map rpc_key (sv_rpcs a) = map rpc_key (sv_rpcs b) \<and>
     map option_key (sv_options a) = map option_key (sv_options b)"

definition reordered_root :: "normalization_config \<Rightarrow> root_node \<Rightarrow> root_node \<Rightarrow> bool" where
  "reordered_root c a b \<longleftrightarrow>
     map_option sx_value (rn_syntax a) = map_option sx_value (rn_syntax b) \<and>
     map_option pk_name (rn_package a) = map_option pk_name (rn_package b) \<and>
     reordered (\<lambda>i. (canonicalize_import_path c (im_path i), im_public i, im_weak i))
       (\<lambda>i. canonicalize_import_path c (im_path i)) (rn_imports a) (rn_imports b) \<and>
     map option_key (rn_options a) = map option_key (rn_options b) \<and>
     list_all2 reordered_message (rn_messages a) (rn_messages b) \<and> list_all2 reordered_enum (rn_enums a) (rn_enums b) \<and>
     list_all2 same_service_text (rn_services a) (rn_services b)"

section \<open>Sorting\<close>

lemma sort_reordered:
  assumes r: "reordered key num xs ys" and num: "\<And>x. num x = g (key x)"
  shows "map key (sort_key num xs) = map key (sort_key num ys)"
proof -
  have "distinct (map g (map key xs))" using r by (simp add: reordered_def num [symmetric] comp_def)
  then have inj: "inj_on g (set (map key xs))" using distinct_map [of g "map key xs"] by blast
  have set: "set (map key ys) = set (map key xs)" using r by (metis mset_eq_setD reordered_def)
  have g: "map g (map key zs) = map num zs" for zs by (simp add: num)
  have "sort_key g (map key xs) = map key (sort_key num xs)"
    using inj by (intro sort_key_inj_key_eq) (simp_all add: num [symmetric] comp_def)
  moreover have "sort_key g (map key xs) = map key (sort_key num ys)"
    using inj r by (intro sort_key_inj_key_eq) (simp_all add: reordered_def num [symmetric] comp_def)
  ultimately show ?thesis by simp
qed

lemma concat_map_key:
  "map key xs = map key ys \<Longrightarrow> (\<And>x y. key x = key y \<Longrightarrow> f x = f y) \<Longrightarrow> concat (map f xs) = concat (map f ys)"
proof (induction xs arbitrary: ys)
  case (Cons x xs)
  from Cons.prems(1) obtain y ys' where ys: "ys = y # ys'" "key x = key y" "map key xs = map key ys'" by (cases ys) simp_all
  then have "concat (map f xs) = concat (map f ys')" using Cons by blast
  moreover have "f x = f y" using ys(2) by (rule Cons.prems(2))
  ultimately show ?case using ys(1) by simp
qed simp

lemma concat_map_all2: "list_all2 R xs ys \<Longrightarrow> (\<And>x y. x \<in> set xs \<Longrightarrow> R x y \<Longrightarrow> f x = g y) \<Longrightarrow> concat (map f xs) = concat (map g ys)"
  by (induction rule: list_all2_induct) auto

lemma write_field_key: "field_key f = field_key f' \<Longrightarrow> write_field d f = write_field d f'"
  by (simp only: field_key_def prod.inject write_field_def)

lemma write_value_key: "value_key v = value_key v' \<Longrightarrow> write_value d v = write_value d v'"
  by (simp only: value_key_def prod.inject write_value_def)

lemma write_import_key: "import_key i = import_key i' \<Longrightarrow> write_import i = write_import i'"
  by (simp only: import_key_def prod.inject write_import_def)

lemma write_option_key: "option_key p = option_key q \<Longrightarrow> write_option s p = write_option s q"
  by (simp only: option_key_def prod.inject write_option_def)

lemma write_rpc_key: "rpc_key p = rpc_key q \<Longrightarrow> write_rpc p = write_rpc q"
  by (simp only: rpc_key_def prod.inject write_rpc_def)

lemmas write_key = write_field_key write_value_key write_import_key write_option_key write_rpc_key

section \<open>The printer\<close>

lemma write_fields_reordered:
  assumes "nc_sort_fields c" and "reordered field_key fn_number fs fs'"
  shows "concat (map (write_field d) (normalize_fields c fs)) = concat (map (write_field d) (normalize_fields c fs'))"
proof (rule concat_map_key)
  show "map field_key (normalize_fields c fs) = map field_key (normalize_fields c fs')"
    using sort_reordered [OF assms(2), of "\<lambda>(_, _, n, _). n"] assms(1) by (simp add: normalize_fields_def field_key_def)
qed (rule write_key)

lemma write_enum_reordered:
  assumes "nc_sort_enum_values c" and "reordered_enum a b"
  shows "write_enum d (a\<lparr>en_values := normalize_enum_values c (en_values a)\<rparr>) =
    write_enum d (b\<lparr>en_values := normalize_enum_values c (en_values b)\<rparr>)"
proof -
  have "map value_key (normalize_enum_values c (en_values a)) = map value_key (normalize_enum_values c (en_values b))"
    using sort_reordered [of value_key ev_number "en_values a" "en_values b" snd] assms
    by (simp add: normalize_enum_values_def reordered_enum_def value_key_def)
  then have "concat (map (write_value d) (normalize_enum_values c (en_values a))) =
      concat (map (write_value d) (normalize_enum_values c (en_values b)))" for d
    by (rule concat_map_key) (rule write_key)
  moreover have "concat (map (write_option s) (en_options a)) = concat (map (write_option s) (en_options b))" for s
    using assms(2) concat_map_key [OF _ write_key(4)] by (auto simp: reordered_enum_def)
  ultimately show ?thesis using assms(2) by (simp add: write_enum_def reordered_enum_def)
qed

lemma write_message_reordered:
  assumes "nc_sort_fields c" and "nc_sort_enum_values c"
  shows "reordered_message a b \<Longrightarrow> write_message d (normalize_message c a) = write_message d (normalize_message c b)"
proof (induction a arbitrary: b d)
  case (MessageNode nm fs ns es os opts cs ds p e)
  from MessageNode.prems obtain fs' ns' es' os' opts' cs' ds' p' e' where
    b: "b = MessageNode nm fs' ns' es' os' opts' cs' ds' p' e'" and fs: "reordered field_key fn_number fs fs'"
    and ns: "list_all2 reordered_message ns ns'" and es: "list_all2 reordered_enum es es'"
    and os: "list_all2 reordered_oneof os os'" and opts: "map option_key opts = map option_key opts'"
    by (auto elim: reordered_message.cases)
  have "concat (map (write_enum (d + 1)) (normalize_enums c es)) = concat (map (write_enum (d + 1)) (normalize_enums c es'))"
    unfolding normalize_enums_def map_map comp_def by (rule concat_map_all2 [OF es]) (rule write_enum_reordered [OF assms(2)])
  moreover have "concat (map (write_message (d + 1)) (map (normalize_message c) ns)) =
      concat (map (write_message (d + 1)) (map (normalize_message c) ns'))"
    unfolding map_map comp_def by (rule concat_map_all2 [OF ns]) (rule MessageNode.IH)
  moreover have "concat (map (write_oneof (d + 1)) (normalize_oneofs c os)) =
      concat (map (write_oneof (d + 1)) (normalize_oneofs c os'))"
    unfolding normalize_oneofs_def map_map comp_def
    by (rule concat_map_all2 [OF os]) (simp add: reordered_oneof_def write_oneof_def write_fields_reordered [OF assms(1)])
  moreover have "concat (map (write_option s) opts) = concat (map (write_option s) opts')" for s
    using opts by (rule concat_map_key) (rule write_key)
  ultimately show ?case using write_fields_reordered [OF assms(1) fs, of "d + 1"] by (simp add: b)
qed

lemma write_imports_reordered:
  assumes sort: "nc_sort_imports c"
    and r: "reordered (\<lambda>i. (canonicalize_import_path c (im_path i), im_public i, im_weak i))
      (\<lambda>i. canonicalize_import_path c (im_path i)) is is'"
  shows "map import_key (normalize_imports c is) = map import_key (normalize_imports c is')"
proof -
  let ?f = "\<lambda>i. i\<lparr>im_path := canonicalize_import_path c (im_path i)\<rparr>"
  have "reordered import_key im_path (map ?f is) (map ?f is')"
    using r by (simp add: reordered_def import_key_def comp_def)
  then have "map import_key (sort_key im_path (map ?f is)) = map import_key (sort_key im_path (map ?f is'))"
    by (rule sort_reordered [where g = fst]) (simp add: import_key_def)
  then show ?thesis using sort unfolding normalize_imports_def Let_def by simp
qed

lemma write_service_same: "same_service_text a b \<Longrightarrow> write_service a = write_service b"
proof -
  assume same: "same_service_text a b"
  have "concat (map write_rpc (sv_rpcs a)) = concat (map write_rpc (sv_rpcs b))"
    using same unfolding same_service_text_def by (intro concat_map_key [OF _ write_key(5)]) simp_all
  moreover have "concat (map (write_option s) (sv_options a)) = concat (map (write_option s) (sv_options b))" for s
    using same unfolding same_service_text_def by (intro concat_map_key [OF _ write_key(4)]) simp_all
  moreover have "sv_name a = sv_name b" using same by (simp add: same_service_text_def)
  ultimately show ?thesis by (simp only: write_service_def)
qed

lemma normalize_parts:
  "rn_syntax (normalize c x) = rn_syntax x" "rn_package (normalize c x) = rn_package x"
  "rn_imports (normalize c x) = normalize_imports c (rn_imports x)" "rn_options (normalize c x) = rn_options x"
  "rn_messages (normalize c x) = map (normalize_message c) (rn_messages x)"
  "rn_enums (normalize c x) = normalize_enums c (rn_enums x)" "rn_services (normalize c x) = rn_services x"
  by (simp_all add: normalize_def normalize_messages_def normalize_services_def)

lemma serialize_reordered:
  assumes c: "nc_sort_fields c" "nc_sort_enum_values c" "nc_sort_imports c" and r: "reordered_root c a b"
  shows "serialize c (normalize c a) = serialize c (normalize c b)"
proof -
  note r' = r [unfolded reordered_root_def]
  have syn: "(case rn_syntax a of None \<Rightarrow> [] | Some x \<Rightarrow> f (sx_value x)) = (case rn_syntax b of None \<Rightarrow> [] | Some x \<Rightarrow> f (sx_value x))"
    for f :: "string \<Rightarrow> string" using r' by (auto split: option.splits)
  have pkg: "(case rn_package a of None \<Rightarrow> [] | Some x \<Rightarrow> f (pk_name x)) = (case rn_package b of None \<Rightarrow> [] | Some x \<Rightarrow> f (pk_name x))"
    for f :: "string \<Rightarrow> string" using r' by (auto split: option.splits)
  have keys: "map import_key (normalize_imports c (rn_imports a)) = map import_key (normalize_imports c (rn_imports b))"
    using r' by (intro write_imports_reordered c) blast
  have imps: "concat (map write_import (normalize_imports c (rn_imports a))) = concat (map write_import (normalize_imports c (rn_imports b)))"
    using keys by (rule concat_map_key) (rule write_key)
  have none: "normalize_imports c (rn_imports a) = [] \<longleftrightarrow> normalize_imports c (rn_imports b) = []"
    using arg_cong [OF keys, of length] by (metis length_0_conv length_map)
  have options: "concat (map (write_option []) (rn_options a)) = concat (map (write_option []) (rn_options b))"
    using r' by (intro concat_map_key [OF _ write_option_key]) simp_all
  have no_options: "rn_options a = [] \<longleftrightarrow> rn_options b = []"
    using r' by (metis length_0_conv length_map)
  have messages: "concat (map (\<lambda>m. write_message 0 m @ newline) (map (normalize_message c) (rn_messages a))) =
      concat (map (\<lambda>m. write_message 0 m @ newline) (map (normalize_message c) (rn_messages b)))"
    unfolding map_map comp_def
    by (rule concat_map_all2 [where R = reordered_message]) (use r' write_message_reordered [OF c(1,2)] in auto)
  have enums: "concat (map (\<lambda>e. write_enum 0 e @ newline) (normalize_enums c (rn_enums a))) =
      concat (map (\<lambda>e. write_enum 0 e @ newline) (normalize_enums c (rn_enums b)))"
    unfolding normalize_enums_def map_map comp_def
    by (rule concat_map_all2 [where R = reordered_enum]) (use r' write_enum_reordered [OF c(2)] in auto)
  have services: "concat (map (\<lambda>s. write_service s @ newline) (rn_services a)) =
      concat (map (\<lambda>s. write_service s @ newline) (rn_services b))"
    by (rule concat_map_all2 [where R = same_service_text]) (use r' write_service_same in auto)
  have "serialize_text (normalize c a) = serialize_text (normalize c b)"
    unfolding serialize_text_def
    by (simp only: normalize_parts imps none options no_options messages
        enums services syn [of "\<lambda>v. line_of (''syntax = '' @ in_double_quotes v @ '';'') @ newline"]
        pkg [of "\<lambda>v. line_of (''package '' @ v @ '';'') @ newline"])
  then show ?thesis by (simp add: serialize_def)
qed

section \<open>The comparison\<close>

text \<open>
  Comparing two normalized schemas answers that they are equivalent whenever they differ only in the order of
  fields, enum values and imports (and in comments, positions and the options of fields, values and methods), in
  messages at every depth, provided each list has numbers, or canonical paths, of its own.
\<close>

lemma compare_normalized_order:
  assumes "nc_sort_fields c" "nc_sort_enum_values c" "nc_sort_imports c"
    and "parse_string pc s = Inr a" and "parse_string pc t = Inr b" and "reordered_root c a b"
  shows "compare_normalized pc c s t = Inr True"
  using serialize_reordered [OF assms(1,2,3,6)] assms(4,5)
  by (simp add: compare_normalized_def normalize_string_def wrap_stop_def)

text \<open>Without comments, parsing is converting the descriptor.\<close>

lemma associate_nothing: "associate [] [] start u = ([], [], u)"
  by (simp add: associate_def take_line_def)

lemma thread_map_id: "(\<And>x s. x \<in> set xs \<Longrightarrow> f x s = (x, s)) \<Longrightarrow> thread_map f xs s = (xs, s)"
  by (induction xs arbitrary: s) (auto simp: Let_def)

lemma merge_nodes_nothing:
  "merge_syntax [] [] sx u = (sx, u)" "merge_package [] [] pk u = (pk, u)" "merge_import [] [] im u = (im, u)"
  "merge_field [] [] fd u = (fd, u)" "merge_value [] [] ev u = (ev, u)" "merge_rpc [] [] rp u = (rp, u)"
  by (simp_all add: merge_syntax_def merge_package_def merge_import_def merge_field_def merge_value_def merge_rpc_def
      associate_nothing)

lemma merge_groups_nothing: "merge_enum [] [] e u = (e, u)" "merge_service [] [] sv u = (sv, u)"
  by (simp_all add: merge_enum_def merge_service_def associate_nothing thread_map_id merge_nodes_nothing)

lemma merge_oneof_nothing: "merge_oneof [] [] x st = (x, st)"
proof -
  have "fold (merge_field_at [] []) is st = st" for "is" and st :: "field_node list \<times> consumed"
    by (induction "is" arbitrary: st) (simp_all add: merge_field_at_def merge_nodes_nothing split_beta)
  then show ?thesis by (simp add: merge_oneof_def associate_nothing split_beta)
qed

lemma merge_message_nothing: "merge_message [] [] m u = (m, u)"
  by (induction m arbitrary: u)
    (simp add: associate_nothing thread_map_id merge_oneof_nothing merge_nodes_nothing merge_groups_nothing)

lemma merge_nothing: "merge_directives_and_comments [] [] r = r"
proof -
  have "merge_option (merge_syntax [] []) x u = (x, u)" "merge_option (merge_package [] []) y u = (y, u)" for x y u
    by (simp_all add: merge_option_def merge_nodes_nothing split: option.split)
  then show ?thesis
    by (simp add: merge_directives_and_comments_def thread_map_id merge_message_nothing merge_nodes_nothing
        merge_groups_nothing associate_nothing split_beta)
qed

lemma parse_plain:
  assumes "pc (file_map ''input.proto'' (preprocess_import_paths s)) ''input.proto'' = Inr [plain_file ms]"
    and "CHR ''/'' \<notin> set s"
  shows "parse_string pc s = Inr (finish_root (convert_descriptor (protodescriptor_to_proto (plain_file ms)) s))"
proof -
  have "parse_to_descriptor pc ''input.proto'' s = Inr (protodescriptor_to_proto (plain_file ms))"
    using parse_to_descriptor_compiled [of pc "''input.proto''" s "plain_file ms" "[]"] assms(1)
    by (simp add: plain_file_def protodescriptor_to_proto_def last_index_def List.map_filter_def)
  then show ?thesis
    by (simp add: parse_string_def parse_with_descriptor_def wrap_stop_def parse_without_slash [OF assms(2)] merge_nothing)
qed

end
