(* ===== verification/Api_Server.thy ===== *)
theory Api_Server
  imports Storage_Versions Validate_Serialize Validate_Check Compat_Compare Middleware_Chain Codegen_Generator
begin

text \<open>
  The HTTP API of the registry over the file storage (\<open>pkg/api/handlers.go\<close>, \<open>compatibility_handlers.go\<close>,
  \<open>validation_handlers.go\<close>, \<open>diff_handlers.go\<close>, \<open>examples_handlers.go\<close>, \<open>compilation_handlers.go\<close>, \<open>compilation_routing.go\<close>,
  \<open>search_adapter.go\<close>, with \<open>pkg/httputil\<close> and the request data of \<open>pkg/analytics/helpers.go\<close>). A handler
  writes parts of a response, each with its status; the client sees the status of the first. It may panic, and it
  may not return, since the storage may not. A goroutine it starts is recorded as a task.
\<close>

section \<open>Responses\<close>

datatype api_payload =
    Error_Message string \<comment> \<open>\<open>{"error": ...}\<close>\<close>
  | Error_Storage string store_error \<comment> \<open>a message and the storage's error after it\<close>
  | Error_Parse string parse_stop
  | Invalid_Json
  | Plain_Text string
  | Module_Json api_module
  | Module_Versions_Json api_module "api_version list"
  | Modules_Json "(api_module \<times> api_version list) list"
  | Version_Json api_version
  | Versions_Json "api_version list"
  | File_Json api_file
  | Verdict_Json check_result "(string \<times> string) option" \<comment> \<open>with the versions compared, if they are named\<close>
  | No_Previous_Json compat_mode
  | Validation_Json "(string \<times> string) option" validation_result
  | Normalized_Json string
  | Diff_Json string string nat nat
  | Compile_Json string "(string \<times> string \<times> compilation_result) list" \<comment> \<open>each with its job and status\<close>
  | Raw_Files "string list"

type_synonym api_reply = "(nat \<times> api_payload) list"

abbreviation reply :: "nat \<Rightarrow> api_payload \<Rightarrow> go_panic + api_reply" where
  "reply status p \<equiv> Inr [(status, p)]"

text \<open>\<open>RequireNonEmpty\<close>, and the other checks of \<open>httputil/request.go\<close>: the message of the error, if there is one.\<close>

definition require_non_empty :: "string \<Rightarrow> string \<Rightarrow> string option" where
  "require_non_empty val field = (if val = [] then Some (field @ '' is required'') else None)"

definition require_positive :: "int \<Rightarrow> string \<Rightarrow> string option" where
  "require_positive val field = (if val \<le> 0 then Some (field @ '' must be positive'') else None)"

definition require_non_zero :: "int \<Rightarrow> string \<Rightarrow> string option" where
  "require_non_zero val field = (if val = 0 then Some (field @ '' is required'') else None)"

fun validate_all :: "string option list \<Rightarrow> string option" where
  "validate_all [] = None"
| "validate_all (v # vs) = (case v of Some m \<Rightarrow> Some m | None \<Rightarrow> validate_all vs)"

definition parse_path_int :: "'b web_request \<Rightarrow> string \<Rightarrow> string + int" where
  "parse_path_int r key =
     (let s = path_var r key in
      if s = [] then Inl (''missing path parameter: '' @ key)
      else (case atoi s of None \<Rightarrow> Inl (''invalid integer for '' @ key @ '': '' @ s) | Some i \<Rightarrow> Inr i))"

definition parse_path_string :: "'b web_request \<Rightarrow> string \<Rightarrow> string + string" where
  "parse_path_string r key = (let s = path_var r key in if s = [] then Inl (''missing path parameter: '' @ key) else Inr s)"

definition parse_query_int :: "'b web_request \<Rightarrow> string \<Rightarrow> int \<Rightarrow> string + int" where
  "parse_query_int r key def =
     (let s = query_value r key in
      if s = [] then Inr def
      else (case atoi s of None \<Rightarrow> Inl (''invalid integer for query param '' @ key @ '': '' @ s) | Some i \<Rightarrow> Inr i))"

definition parse_query_string :: "'b web_request \<Rightarrow> string \<Rightarrow> string \<Rightarrow> string" where
  "parse_query_string r key def = (let s = query_value r key in if s = [] then def else s)"

definition parse_bool :: "string \<Rightarrow> bool option" where
  "parse_bool s = (if s \<in> {''1'', ''t'', ''T'', ''TRUE'', ''true'', ''True''} then Some True
     else if s \<in> {''0'', ''f'', ''F'', ''FALSE'', ''false'', ''False''} then Some False else None)"

definition parse_query_bool :: "'b web_request \<Rightarrow> string \<Rightarrow> bool \<Rightarrow> string + bool" where
  "parse_query_bool r key def =
     (let s = query_value r key in
      if s = [] then Inr def
      else (case parse_bool s of None \<Rightarrow> Inl (''invalid boolean for query param '' @ key @ '': '' @ s) | Some b \<Rightarrow> Inr b))"

section \<open>The server\<close>

record view_event =
  vw_user :: "int option"
  vw_org :: "int option"
  vw_module :: string
  vw_version :: string
  vw_source :: string
  vw_referrer :: string
  vw_ip :: string
  vw_agent :: string

record download_event =
  dw_user :: "int option"
  dw_org :: "int option"
  dw_module :: string
  dw_version :: string
  dw_language :: string
  dw_size :: int
  dw_ip :: string
  dw_agent :: string
  dw_sdk :: string
  dw_sdk_version :: string

datatype api_task = Index_Version string string | Track_View view_event | Track_Download download_event

record api_server =
  as_fs :: file_system
  as_gen :: gen_state
  as_indexer :: bool
  as_tracker :: bool
  as_tasks :: "api_task list"

text \<open>What does not change while the server runs: the storage's root and the parameters of the model.\<close>

record api_env =
  ae_root :: path
  ae_json :: json_codec
  ae_compiler :: proto_compiler
  ae_sha :: sha_fun
  ae_gen :: gen_env
  ae_now :: int

type_synonym 'b api_handler = "api_env \<Rightarrow> 'b web_request \<Rightarrow> api_server \<Rightarrow> ((go_panic + api_reply) \<times> api_server) option"

definition start_task :: "bool \<Rightarrow> api_task \<Rightarrow> api_server \<Rightarrow> api_server" where
  "start_task enabled t s = (if enabled then s\<lparr>as_tasks := as_tasks s @ [t]\<rparr> else s)"

section \<open>Request data\<close>

definition extract_user_id :: "http_request \<Rightarrow> int option" where
  "extract_user_id r = (case get_auth_context r of None \<Rightarrow> None | Some a \<Rightarrow> map_option au_id (ac_user a))"

definition extract_organization_id :: "http_request \<Rightarrow> int option" where
  "extract_organization_id r = (case get_auth_context r of None \<Rightarrow> None | Some a \<Rightarrow> map_option ag_id (ac_org a))"

definition before_last :: "char \<Rightarrow> string \<Rightarrow> string" where
  "before_last c s = (if c \<in> set s then rev (tl (dropWhile (\<lambda>d. d \<noteq> c) (rev s))) else s)"

definition event_client_ip :: "http_request \<Rightarrow> string" where
  "event_client_ip r =
     (let forwarded = header_of r ''X-Forwarded-For'' in
      if forwarded \<noteq> [] then trim_space (hd (split_on (CHR '','') forwarded))
      else (let real = header_of r ''X-Real-IP'' in if real \<noteq> [] then real else before_last (CHR '':'') (rq_remote r)))"

definition get_client_sdk :: "http_request \<Rightarrow> string" where
  "get_client_sdk r = (let ua = header_of r ''User-Agent'' in
     if has_prefix ua ''spoke-'' then hd (split_on (CHR ''/'') ua) else [])"

definition get_client_version :: "http_request \<Rightarrow> string" where
  "get_client_version r = (let ua = header_of r ''User-Agent'' in
     if has_prefix ua ''spoke-'' then (case split_on (CHR ''/'') ua of _ # v # _ \<Rightarrow> v | _ \<Rightarrow> []) else [])"

definition view_of :: "'b web_request \<Rightarrow> string \<Rightarrow> string \<Rightarrow> view_event" where
  "view_of r m v =
     (let h = wq_http r; ua = header_of h ''User-Agent'' in
      \<lparr>vw_user = extract_user_id h, vw_org = extract_organization_id h, vw_module = m, vw_version = v,
       vw_source = (if contains_text ua ''Mozilla'' then ''web'' else ''api''), vw_referrer = header_of h ''Referer'',
       vw_ip = event_client_ip h, vw_agent = ua\<rparr>)"

section \<open>Modules, versions and files\<close>

definition handle_create_module :: "api_module api_handler" where
  "handle_create_module e r s = Some (case wq_body r of
     None \<Rightarrow> (reply 400 Invalid_Json, s)
   | Some m \<Rightarrow>
       (let m = m\<lparr>am_created := ae_now e, am_updated := ae_now e\<rparr>;
            (fs, res) = create_module (ae_json e) (ae_root e) m (as_fs s); s = s\<lparr>as_fs := fs\<rparr>
        in case res of Inl err \<Rightarrow> (reply 500 (Error_Storage [] err), s) | Inr _ \<Rightarrow> (reply 201 (Module_Json m), s)))"

definition newest_first :: "api_version list \<Rightarrow> api_version list" where
  "newest_first vs = sort_slice (\<lambda>a b. av_created a > av_created b) vs"

text \<open>The loop over the modules: \<open>None\<close> when listing the versions of one does not return.\<close>

fun modules_with_versions :: "api_env \<Rightarrow> file_system \<Rightarrow> api_module list \<Rightarrow>
    (store_error + (api_module \<times> api_version list) list) option" where
  "modules_with_versions e fs [] = Some (Inr [])"
| "modules_with_versions e fs (m # ms) =
     Option.bind (list_versions (ae_json e) (ae_root e) fs (am_name m)) (\<lambda>r. case r of
       Inl err \<Rightarrow> Some (Inl err)
     | Inr vs \<Rightarrow> Option.bind (modules_with_versions e fs ms) (\<lambda>rest.
         Some (rbind rest (\<lambda>l. Inr ((m, newest_first vs) # l)))))"

definition handle_list_modules :: "unit api_handler" where
  "handle_list_modules e r s = (case list_modules (ae_json e) (ae_root e) (as_fs s) of
     Inl err \<Rightarrow> Some (reply 500 (Error_Storage [] err), s)
   | Inr ms \<Rightarrow> Option.bind (modules_with_versions e (as_fs s) ms) (\<lambda>res. Some (case res of
       Inl err \<Rightarrow> (reply 500 (Error_Storage [] err), s) | Inr l \<Rightarrow> (reply 200 (Modules_Json l), s))))"

definition handle_get_module :: "unit api_handler" where
  "handle_get_module e r s =
     (let name = path_var r ''name'' in
      case get_module (ae_json e) (ae_root e) (as_fs s) name of
        Inl err \<Rightarrow> Some (reply 404 (Error_Storage [] err), s)
      | Inr m \<Rightarrow> Option.bind (list_versions (ae_json e) (ae_root e) (as_fs s) name) (\<lambda>res. Some (case res of
          Inl err \<Rightarrow> (reply 500 (Error_Storage [] err), s)
        | Inr vs \<Rightarrow> (reply 200 (Module_Versions_Json m (newest_first vs)),
            start_task (as_tracker s) (Track_View (view_of r name [])) s))))"

definition handle_create_version :: "api_version api_handler" where
  "handle_create_version e r s = Some (case wq_body r of
     None \<Rightarrow> (reply 400 Invalid_Json, s)
   | Some v \<Rightarrow>
       (let v = v\<lparr>av_module := path_var r ''name'', av_created := ae_now e\<rparr>;
            (fs, res, v) = create_version (ae_json e) (ae_root e) v (as_fs s); s = s\<lparr>as_fs := fs\<rparr>
        in case res of
             Inl err \<Rightarrow> (reply 500 (Error_Storage [] err), s)
           | Inr _ \<Rightarrow> (reply 201 (Version_Json v), start_task (as_indexer s) (Index_Version (av_module v) (av_version v)) s)))"

definition handle_list_versions :: "unit api_handler" where
  "handle_list_versions e r s =
     Option.bind (list_versions (ae_json e) (ae_root e) (as_fs s) (path_var r ''name'')) (\<lambda>res. Some (case res of
       Inl err \<Rightarrow> (reply 500 (Error_Storage [] err), s) | Inr vs \<Rightarrow> (reply 200 (Versions_Json vs), s)))"

text \<open>Getting a version first, with the answer when there is none.\<close>

definition with_version :: "api_env \<Rightarrow> api_server \<Rightarrow> string \<Rightarrow> string \<Rightarrow> (store_error \<Rightarrow> api_payload) \<Rightarrow>
    (api_version \<Rightarrow> ((go_panic + api_reply) \<times> api_server) option) \<Rightarrow> ((go_panic + api_reply) \<times> api_server) option" where
  "with_version e s m v absent cont =
     Option.bind (fs_get_version (ae_json e) (ae_root e) (as_fs s) m v) (\<lambda>res. case res of
       Inl err \<Rightarrow> Some (reply 404 (absent err), s) | Inr ver \<Rightarrow> cont ver)"

definition handle_get_version :: "unit api_handler" where
  "handle_get_version e r s =
     (let m = path_var r ''name''; v = path_var r ''version'' in
      with_version e s m v (Error_Storage []) (\<lambda>ver. Some (reply 200 (Version_Json ver),
        start_task (as_tracker s) (Track_View (view_of r m v)) s)))"

definition handle_get_file :: "unit api_handler" where
  "handle_get_file e r s = Some
     (case get_file (ae_root e) (as_fs s) (path_var r ''name'') (path_var r ''version'') (path_var r ''path'') of
        Inl err \<Rightarrow> (reply 404 (Error_Storage [] err), s) | Inr f \<Rightarrow> (reply 200 (File_Json f), s))"

section \<open>Compatibility\<close>

record compat_request =
  cq_old :: string
  cq_new :: string
  cq_mode :: string

definition parse_mode :: "string \<Rightarrow> compat_mode option" where
  "parse_mode s =
     (if s = [] \<or> s = ''BACKWARD'' then Some Mode_Backward else if s = ''FORWARD'' then Some Mode_Forward
      else if s = ''FULL'' then Some Mode_Full else if s = ''BACKWARD_TRANSITIVE'' then Some Mode_Backward_Transitive
      else if s = ''FORWARD_TRANSITIVE'' then Some Mode_Forward_Transitive
      else if s = ''FULL_TRANSITIVE'' then Some Mode_Full_Transitive else if s = ''NONE'' then Some Mode_None else None)"

text \<open>A parsed file or the answer: an error of the parser is answered, a panic of it goes through.\<close>

definition with_ast :: "parse_stop + root_node \<Rightarrow> (string \<Rightarrow> go_panic + api_reply) \<Rightarrow> (root_node \<Rightarrow> go_panic + api_reply) \<Rightarrow>
    go_panic + api_reply" where
  "with_ast r failed cont = (case r of
     Inl (Parse_Panic p) \<Rightarrow> Inl p | Inl (Parse_Error m) \<Rightarrow> failed m | Inr ast \<Rightarrow> cont ast)"

text \<open>Comparing two versions by the first file of each, and the answer: 409 when they are not compatible.\<close>

definition answer_verdict :: "check_result \<Rightarrow> (string \<times> string) option \<Rightarrow> go_panic + api_reply" where
  "answer_verdict r names = reply (if cr_compatible r then 200 else 409) (Verdict_Json r names)"

definition compare_versions_api :: "api_env \<Rightarrow> api_version \<Rightarrow> api_version \<Rightarrow> compat_mode \<Rightarrow> (string \<times> string) option \<Rightarrow>
    go_panic + api_reply" where
  "compare_versions_api e old new mode names =
     (let failed = (\<lambda>m. reply 500 (Error_Message m)) in
      rbind (go_index (av_files old) 0) (\<lambda>f.
      with_ast (parse_string (ae_compiler e) (af_content f)) failed (\<lambda>old_ast.
      rbind (go_index (av_files new) 0) (\<lambda>g.
      with_ast (parse_string (ae_compiler e) (af_content g)) failed (\<lambda>new_ast.
      rbind (check_compatibility (build_from_ast old_ast) (build_from_ast new_ast) mode) (\<lambda>r. answer_verdict r names))))))"

definition handle_check_compatibility :: "compat_request api_handler" where
  "handle_check_compatibility e r s =
     (let m = path_var r ''name'' in
      case wq_body r of
        None \<Rightarrow> Some (reply 400 Invalid_Json, s)
      | Some q \<Rightarrow>
          (case validate_all [require_non_empty (cq_old q) ''old_version'', require_non_empty (cq_new q) ''new_version''] of
             Some msg \<Rightarrow> Some (reply 400 (Error_Message msg), s)
           | None \<Rightarrow> (case parse_mode (cq_mode q) of
               None \<Rightarrow> Some (reply 400 (Error_Message ''invalid compatibility mode''), s)
             | Some mode \<Rightarrow>
                 with_version e s m (cq_old q) (Error_Storage ''old version not found: '') (\<lambda>old.
                 with_version e s m (cq_new q) (Error_Storage ''new version not found: '') (\<lambda>new.
                 Some (compare_versions_api e old new mode None, s))))))"

text \<open>The version after the one named, in the order in which the storage lists them.\<close>

fun version_after :: "string \<Rightarrow> api_version list \<Rightarrow> api_version option" where
  "version_after name (v # w # vs) = (if av_version v = name then Some w else version_after name (w # vs))"
| "version_after name vs = None"

definition handle_check_version_compatibility :: "unit api_handler" where
  "handle_check_version_compatibility e r s =
     (let m = path_var r ''name''; v = path_var r ''version'' in
      case parse_mode (query_value r ''mode'') of
        None \<Rightarrow> Some (reply 400 (Error_Message ''invalid compatibility mode''), s)
      | Some mode \<Rightarrow>
          with_version e s m v (Error_Storage ''version not found: '') (\<lambda>new.
          Option.bind (list_versions (ae_json e) (ae_root e) (as_fs s) m) (\<lambda>res. Some (case res of
            Inl err \<Rightarrow> (reply 500 (Error_Storage [] err), s)
          | Inr vs \<Rightarrow>
              if length vs < 2 then (reply 200 (No_Previous_Json mode), s)
              else (case version_after v vs of
                None \<Rightarrow> (reply 404 (Error_Message ''could not find previous version''), s)
              | Some old \<Rightarrow> (compare_versions_api e old new mode (Some (av_version old, v)), s))))))"

section \<open>Validation and normalization\<close>

record validate_request_body =
  vq_content :: string
  vq_config :: "validation_config option"

record normalize_request_body =
  nq_content :: string
  nq_config :: "normalization_config option"

text \<open>The configuration sent replaces every flag; the largest field number stays the default.\<close>

definition requested_config :: "validation_config option \<Rightarrow> validation_config" where
  "requested_config c = (case c of None \<Rightarrow> default_validation_config
     | Some c \<Rightarrow> c\<lparr>vc_max_number := vc_max_number default_validation_config\<rparr>)"

definition answer_validation :: "(string \<times> string) option \<Rightarrow> validation_result \<Rightarrow> go_panic + api_reply" where
  "answer_validation names r = reply (if vr_valid r then 200 else 422) (Validation_Json names r)"

definition handle_validate_proto :: "validate_request_body api_handler" where
  "handle_validate_proto e r s = Some (case wq_body r of
     None \<Rightarrow> (reply 400 Invalid_Json, s)
   | Some q \<Rightarrow> (case require_non_empty (vq_content q) ''content'' of
       Some msg \<Rightarrow> (reply 400 (Error_Message msg), s)
     | None \<Rightarrow> (with_ast (parse_string (ae_compiler e) (vq_content q))
         (\<lambda>m. reply 400 (Error_Message (''failed to parse proto: '' @ m)))
         (\<lambda>ast. answer_validation None (validate (requested_config (vq_config q)) ast)), s)))"

definition handle_validate_version :: "unit api_handler" where
  "handle_validate_version e r s =
     (let m = path_var r ''name''; v = path_var r ''version'' in
      with_version e s m v (Error_Storage ''version not found: '') (\<lambda>ver. Some (case av_files ver of
        [] \<Rightarrow> (reply 404 (Error_Message ''no proto files in version''), s)
      | f # _ \<Rightarrow> (with_ast (parse_string (ae_compiler e) (af_content f)) (\<lambda>m. reply 500 (Error_Message m))
          (\<lambda>ast. answer_validation (Some (m, v)) (validate default_validation_config ast)), s))))"

definition handle_normalize_proto :: "normalize_request_body api_handler" where
  "handle_normalize_proto e r s = Some (case wq_body r of
     None \<Rightarrow> (reply 400 Invalid_Json, s)
   | Some q \<Rightarrow> (case require_non_empty (nq_content q) ''content'' of
       Some msg \<Rightarrow> (reply 400 (Error_Message msg), s)
     | None \<Rightarrow> (case normalize_string (ae_compiler e)
           (case nq_config q of None \<Rightarrow> default_normalization_config | Some c \<Rightarrow> c) (nq_content q) of
         Inl (Parse_Panic p) \<Rightarrow> (Inl p, s)
       | Inl (Parse_Error m) \<Rightarrow> (reply 400 (Error_Message (''failed to normalize: '' @ m)), s)
       | Inr t \<Rightarrow> (reply 200 (Normalized_Json t), s))))"

section \<open>Differences, examples, downloads\<close>

text \<open>The analysis of differences is not written yet: the answer has one change, a placeholder, that breaks nothing.\<close>

definition handle_compare_diff :: "(string \<times> string) api_handler" where
  "handle_compare_diff e r s =
     (let m = path_var r ''name'' in
      case wq_body r of
        None \<Rightarrow> Some (reply 400 Invalid_Json, s)
      | Some (from_version, to_version) \<Rightarrow>
          with_version e s m from_version (Error_Storage ''From version not found: '') (\<lambda>old.
          with_version e s m to_version (Error_Storage ''To version not found: '') (\<lambda>new.
          Some (reply 200 (Diff_Json from_version to_version (length (av_files old)) (length (av_files new))), s))))"

definition examples_text :: "string \<Rightarrow> string \<Rightarrow> string \<Rightarrow> nat \<Rightarrow> string" where
  "examples_text m v language n =
     line_of (''// Example code for '' @ m) @ line_of (''// Module: '' @ m) @ line_of (''// Version: '' @ v) @
     line_of (''// Language: '' @ language) @ line_of (''// Proto files: '' @ nat_to_dec n) @ newline @
     line_of ''// Code generation coming soon!''"

definition handle_get_examples :: "unit api_handler" where
  "handle_get_examples e r s =
     (let m = path_var r ''name''; v = path_var r ''version'' in
      with_version e s m v (Error_Storage ''Version not found: '') (\<lambda>ver.
      Some (reply 200 (Plain_Text (examples_text m v (path_var r ''language'') (length (av_files ver)))), s)))"

definition handle_download_compiled :: "unit api_handler" where
  "handle_download_compiled e r s =
     (let m = path_var r ''name''; v = path_var r ''version''; language = path_var r ''language''; h = wq_http r in
      with_version e s m v (Error_Storage []) (\<lambda>ver. Some (case find (\<lambda>c. ci_language c = language) (av_compilation ver) of
        None \<Rightarrow> (reply 404 (Plain_Text ''compiled version not found''), s)
      | Some c \<Rightarrow>
          (let files = map af_content (ci_files c) in
           (reply 200 (Raw_Files files), start_task (as_tracker s) (Track_Download
              \<lparr>dw_user = extract_user_id h, dw_org = extract_organization_id h, dw_module = m, dw_version = v,
               dw_language = language, dw_size = sum_list (map (int \<circ> length) files), dw_ip = event_client_ip h,
               dw_agent = header_of h ''User-Agent'', dw_sdk = get_client_sdk h, dw_sdk_version = get_client_version h\<rparr>) s)))))"

section \<open>Compilation\<close>

record compile_body =
  cb_languages :: "string list"
  cb_grpc :: bool
  cb_options :: "(string, string) gomap"

definition to_proto_files :: "api_file list \<Rightarrow> proto_file list" where
  "to_proto_files fs = map (\<lambda>f. \<lparr>pf_path = af_path f, pf_content = af_content f, pf_hash = []\<rparr>) fs"

definition status_of_result :: "compilation_result \<Rightarrow> string" where
  "status_of_result r = (if cr_success r then ''completed'' else if cr_error r \<noteq> [] then ''failed'' else ''running'')"

text \<open>The results with their job names; a result that is \<open>nil\<close> is dereferenced.\<close>

fun job_infos :: "string \<Rightarrow> gen_state \<Rightarrow> nat option list \<Rightarrow> go_panic + (string \<times> string \<times> compilation_result) list" where
  "job_infos prefix' st [] = Inr []"
| "job_infos prefix' st (a # as) = (case a of
     None \<Rightarrow> Inl NilDereference
   | Some a \<Rightarrow> rbind (job_infos prefix' st as) (\<lambda>l.
       let res = gs_heap st ! a in Inr ((prefix' @ ''-'' @ cr_language res, status_of_result res, res) # l)))"

text \<open>An error of the generator is written, and then the results after it. The order is that of the goroutines.\<close>

definition handle_compile_version :: "nat list \<Rightarrow> compile_body api_handler" where
  "handle_compile_version order e r s =
     (let m = path_var r ''name''; v = path_var r ''version'' in
      case wq_body r of
        None \<Rightarrow> Some (reply 400 Invalid_Json, s)
      | Some q \<Rightarrow>
          if cb_languages q = [] then Some (reply 400 (Error_Message ''At least one language must be specified''), s)
          else with_version e s m v (Error_Storage ''Version not found: '') (\<lambda>ver. Some
            (let req = \<lparr>gr_module = m, gr_version = v, gr_proto_files = to_proto_files (av_files ver), gr_dependencies = [],
                   gr_language = [], gr_include_grpc = cb_grpc q, gr_options = cb_options q\<rparr>;
                 (st, results, err) = generate_code_parallel (ae_sha e) (ae_gen e) None req (cb_languages q) order (as_gen s);
                 written = (case err of None \<Rightarrow> []
                   | Some x \<Rightarrow> [(500, Error_Message (''compilation partially failed: '' @ gen_error_text x))])
             in (rbind (job_infos (m @ ''-'' @ v) st results) (\<lambda>l. Inr (written @ [(200, Compile_Json (m @ ''-'' @ v) l)])),
                 s\<lparr>as_gen := st\<rparr>))))"

definition handle_get_compilation_job :: "unit api_handler" where
  "handle_get_compilation_job e r s =
     Some (reply 404 (Error_Message (''Job tracking not supported in simplified model. Job ID: '' @ path_var r ''jobId'')), s)"

section \<open>Languages\<close>

record language_info =
  li_id :: string
  li_name :: string
  li_display :: string
  li_grpc :: bool
  li_extensions :: "string list"
  li_enabled :: bool
  li_stable :: bool
  li_description :: string
  li_documentation :: string
  li_plugin_version :: string
  li_package_manager :: "(string \<times> string list) option"

definition supported :: "string \<Rightarrow> string \<Rightarrow> string \<Rightarrow> string list \<Rightarrow> string \<Rightarrow> string \<Rightarrow> string \<Rightarrow>
    (string \<times> string list) option \<Rightarrow> language_info" where
  "supported i name display exts description url plugin pm =
     \<lparr>li_id = i, li_name = name, li_display = display, li_grpc = True, li_extensions = exts, li_enabled = True,
      li_stable = True, li_description = description, li_documentation = url, li_plugin_version = plugin,
      li_package_manager = pm\<rparr>"

definition all_languages :: "language_info list" where
  "all_languages =
     [supported ''go'' ''Go'' ''Go (Protocol Buffers)'' [''.pb.go''] ''Go language support with protoc-gen-go''
       ''https://protobuf.dev/reference/go/go-generated/'' ''v1.31.0'' (Some (''go-modules'', [''go.mod''])),
      supported ''python'' ''Python'' ''Python (Protocol Buffers)'' [''_pb2.py'', ''_pb2_grpc.py''] ''Python language support with protobuf and grpcio''
       ''https://protobuf.dev/reference/python/python-generated/'' ''4.24.0'' (Some (''pip'', [''setup.py'', ''pyproject.toml''])),
      supported ''java'' ''Java'' ''Java (Protocol Buffers)'' [''.java''] ''Java language support with protobuf and gRPC''
       ''https://protobuf.dev/reference/java/java-generated/'' ''3.21.0'' (Some (''maven'', [''pom.xml''])),
      supported ''cpp'' ''C++'' ''C++ (Protocol Buffers)'' [''.pb.h'', ''.pb.cc''] ''C++ language support with protobuf and gRPC''
       ''https://protobuf.dev/reference/cpp/cpp-generated/'' ''3.21.0'' None,
      supported ''csharp'' ''C#'' ''C# (Protocol Buffers)'' [''.cs''] ''C# language support with protobuf and gRPC''
       ''https://protobuf.dev/reference/csharp/csharp-generated/'' ''3.21.0'' (Some (''nuget'', [''Package.csproj''])),
      supported ''rust'' ''Rust'' ''Rust (Protocol Buffers)'' [''.rs''] ''Rust language support with prost and tonic''
       ''https://github.com/tokio-rs/prost'' ''3.2.0'' (Some (''cargo'', [''Cargo.toml''])),
      supported ''typescript'' ''TypeScript'' ''TypeScript (Protocol Buffers)'' [''.ts'', ''_pb.ts''] ''TypeScript language support with ts-proto''
       ''https://github.com/stephenh/ts-proto'' ''5.0.1'' (Some (''npm'', [''package.json'', ''tsconfig.json''])),
      supported ''javascript'' ''JavaScript'' ''JavaScript (Protocol Buffers)'' [''_pb.js''] ''JavaScript language support with protobufjs''
       ''https://protobuf.dev/reference/javascript/javascript-generated/'' ''3.21.0'' (Some (''npm'', [''package.json''])),
      supported ''dart'' ''Dart'' ''Dart (Protocol Buffers)'' [''.pb.dart'', ''.pbgrpc.dart''] ''Dart language support with protobuf and gRPC''
       ''https://pub.dev/packages/protobuf'' ''3.1.0'' (Some (''pub'', [''pubspec.yaml''])),
      supported ''swift'' ''Swift'' ''Swift (Protocol Buffers)'' [''.pb.swift'', ''.grpc.swift''] ''Swift language support with SwiftProtobuf and gRPC-Swift''
       ''https://github.com/apple/swift-protobuf'' ''1.25.0'' (Some (''swift-package'', [''Package.swift''])),
      supported ''kotlin'' ''Kotlin'' ''Kotlin (Protocol Buffers)'' [''.kt''] ''Kotlin language support with protobuf-kotlin and gRPC-Kotlin''
       ''https://github.com/grpc/grpc-kotlin'' ''3.21.0'' (Some (''gradle'', [''build.gradle.kts''])),
      supported ''objc'' ''Objective-C'' ''Objective-C (Protocol Buffers)'' [''.pbobjc.h'', ''.pbobjc.m''] ''Objective-C language support with protobuf and gRPC''
       ''https://protobuf.dev/reference/objective-c/objective-c-generated/'' ''3.21.0'' (Some (''cocoapods'', [''Podspec''])),
      supported ''ruby'' ''Ruby'' ''Ruby (Protocol Buffers)'' [''_pb.rb''] ''Ruby language support with protobuf and gRPC''
       ''https://protobuf.dev/reference/ruby/ruby-generated/'' ''3.21.0'' (Some (''gem'', [''gemspec''])),
      supported ''php'' ''PHP'' ''PHP (Protocol Buffers)'' [''.php''] ''PHP language support with protobuf and gRPC''
       ''https://protobuf.dev/reference/php/php-generated/'' ''3.21.0'' (Some (''composer'', [''composer.json''])),
      supported ''scala'' ''Scala'' ''Scala (Protocol Buffers)'' [''.scala''] ''Scala language support with ScalaPB''
       ''https://scalapb.github.io/'' ''0.11.13'' (Some (''sbt'', [''build.sbt'']))]"

definition handle_list_languages :: "unit web_request \<Rightarrow> nat \<times> language_info list" where
  "handle_list_languages r = (200, all_languages)"

text \<open>The list that is searched for one language is empty.\<close>

definition searched_languages :: "language_info list" where
  "searched_languages = []"

definition handle_get_language :: "unit web_request \<Rightarrow> nat \<times> (string + language_info)" where
  "handle_get_language r =
     (let i = path_var r ''id'' in
      case find (\<lambda>l. li_id l = i) searched_languages of
        None \<Rightarrow> (404, Inl (''Language '' @ i @ '' not found''))
      | Some l \<Rightarrow> (200, Inr l))"

section \<open>The adapter of the search index\<close>

record search_version =
  sr_version :: string
  sr_module :: string
  sr_files :: "api_file list"
  sr_dependencies :: "string list"

definition to_search_version :: "api_version \<Rightarrow> search_version" where
  "to_search_version v = \<lparr>sr_version = av_version v, sr_module = av_module v, sr_files = av_files v,
     sr_dependencies = av_dependencies v\<rparr>"

definition adapter_get_version :: "api_env \<Rightarrow> file_system \<Rightarrow> string \<Rightarrow> string \<Rightarrow> (store_error + search_version) option" where
  "adapter_get_version e fs m v = map_option (map_sum (\<lambda>x. x) to_search_version) (fs_get_version (ae_json e) (ae_root e) fs m v)"

definition adapter_get_file :: "api_env \<Rightarrow> file_system \<Rightarrow> string \<Rightarrow> string \<Rightarrow> string \<Rightarrow> store_error + api_file" where
  "adapter_get_file e fs m v p = get_file (ae_root e) fs m v p"

definition adapter_list_modules :: "api_env \<Rightarrow> file_system \<Rightarrow> store_error + (string \<times> string) list" where
  "adapter_list_modules e fs = map_sum (\<lambda>x. x) (map (\<lambda>m. (am_name m, am_description m))) (list_modules (ae_json e) (ae_root e) fs)"

definition adapter_list_versions :: "api_env \<Rightarrow> file_system \<Rightarrow> string \<Rightarrow> (store_error + search_version list) option" where
  "adapter_list_versions e fs m = map_option (map_sum (\<lambda>x. x) (map to_search_version)) (list_versions (ae_json e) (ae_root e) fs m)"

end
