(* ===== verification/Api_Props.thy ===== *)
theory Api_Props
  imports Api_Server Compat_Props Storage_Props Serialize_Props
begin

text \<open>Properties of the API: what its answers mean for the components behind them.\<close>

section \<open>Serving what was pushed\<close>

lemma handle_create_version_ok:
  assumes body: "wq_body r = Some v" and v': "v' = with_source_defaults (v\<lparr>av_module := path_var r ''name'', av_created := ae_now e\<rparr>)"
    and create: "create_version (ae_json e) (ae_root e) (v\<lparr>av_module := path_var r ''name'', av_created := ae_now e\<rparr>) (as_fs s) =
      (fs', Inr (), v')"
  shows "handle_create_version e r s = Some (reply 201 (Version_Json v'),
    start_task (as_indexer s) (Index_Version (av_module v') (av_version v')) (s\<lparr>as_fs := fs'\<rparr>))"
  by (simp add: handle_create_version_def body create Let_def)

lemma start_task_fs [simp]: "as_fs (start_task b t s) = as_fs s" "as_gen (start_task b t s) = as_gen s"
  by (simp_all add: start_task_def)

text \<open>The path variables of a request.\<close>

definition request_for :: "(string \<times> string) list \<Rightarrow> 'b option \<Rightarrow> 'b web_request" where
  "request_for vars body = \<lparr>wq_http = \<lparr>rq_method = [], rq_headers = [], rq_remote = [], rq_vars = vars, rq_ctx = []\<rparr>,
     wq_query = [], wq_body = body\<rparr>"

lemma path_var_request [simp]: "path_var (request_for vars body) n = (case map_of vars n of Some s \<Rightarrow> s | None \<Rightarrow> [])"
  by (simp add: path_var_def request_for_def)


definition api_example_env :: api_env where
  "api_example_env = \<lparr>ae_root = [''data''], ae_json = sample_codec, ae_compiler = (\<lambda>_ _. Inl []), ae_sha = (\<lambda>b. b),
     ae_gen = \<lparr>ge_languages = [], ge_packages = [], ge_docker = (\<lambda>_. Inl []), ge_since = 0\<rparr>, ae_now = 7\<rparr>"

definition empty_server :: api_server where
  "empty_server = \<lparr>as_fs = [], as_gen = new_generator, as_indexer = True, as_tracker = False, as_tasks = []\<rparr>"


text \<open>
  A push that is answered 201 may have written any file of the machine: the content of a last file whose path climbs
  out of the version's directory is at the path it leads to.
\<close>

lemma push_writes_anywhere:
  assumes "handle_create_version e r s = Some (reply 201 (Version_Json v'), s')" and "wq_body r = Some v"
    and "av_files v = files @ [\<lparr>af_path = climb (length (version_dir (ae_root e) (path_var r ''name'') (av_version v))) p,
      af_content = content\<rparr>]" and "plain_path p"
  shows "read_file (as_fs s') (split_on (CHR ''/'') p) = Inr content"
proof -
  let ?v = "v\<lparr>av_module := path_var r ''name'', av_created := ae_now e\<rparr>"
  obtain fs' res w where c: "create_version (ae_json e) (ae_root e) ?v (as_fs s) = (fs', res, w)"
    by (cases "create_version (ae_json e) (ae_root e) ?v (as_fs s)") auto
  then obtain u where "res = Inr u" "as_fs s' = fs'"
    using assms(1,2) by (auto simp: handle_create_version_def Let_def split: sum.splits)
  then show ?thesis using create_version_writes_anywhere [of "ae_json e" "ae_root e" ?v "as_fs s" fs' w files p content] c assms(3,4)
    by simp
qed

section \<open>Compatibility\<close>

text \<open>What the client sees: a panic, or the status of the first part.\<close>

definition outcome :: "go_panic + api_reply \<Rightarrow> unit + nat" where
  "outcome x = map_sum (\<lambda>_. ()) (\<lambda>parts. fst (hd parts)) x"

lemma outcome_reply [simp]: "outcome (reply n p) = Inr n" "outcome (Inl x) = Inl ()"
  by (simp_all add: outcome_def)

lemma compare_versions_api_verdict:
  assumes "av_files old = f # fs" "av_files new = g # gs"
    and "parse_string (ae_compiler e) (af_content f) = Inr a" "parse_string (ae_compiler e) (af_content g) = Inr b"
  shows "outcome (compare_versions_api e old new mode names) =
    (if mode \<noteq> Mode_None \<and> schema_panics (build_from_ast a) (build_from_ast b) then Inl ()
     else if mode = Mode_None \<or> schema_accepts mode (build_from_ast a) (build_from_ast b) then Inr 200 else Inr 409)"
proof -
  let ?r = "check_compatibility (build_from_ast a) (build_from_ast b) mode"
  have c: "compare_versions_api e old new mode names = rbind ?r (\<lambda>r. answer_verdict r names)"
    using assms by (simp add: compare_versions_api_def go_index_def with_ast_def)
  have ok: "is_ok ?r \<longleftrightarrow> mode = Mode_None \<or> \<not> schema_panics (build_from_ast a) (build_from_ast b)"
    by (simp add: check_compatibility_ok build_from_ast_wf)
  show ?thesis
  proof (cases ?r)
    case (Inl p)
    then show ?thesis using ok by (simp add: c)
  next
    case (Inr r)
    have "cr_compatible r \<longleftrightarrow> mode = Mode_None \<or> schema_accepts mode (build_from_ast a) (build_from_ast b)"
    proof (cases "mode = Mode_None")
      case True
      then show ?thesis using Inr by (auto simp: check_compatibility_def)
    next
      case False
      then show ?thesis using check_compatibility_accepts [OF build_from_ast_wf build_from_ast_wf False Inr] by simp
    qed
    then show ?thesis using Inr ok by (simp add: c answer_verdict_def)
  qed
qed


lemma version_after_last: "distinct (map av_version vs) \<Longrightarrow> vs \<noteq> [] \<Longrightarrow> version_after (av_version (last vs)) vs = None"
proof (induction vs rule: induct_list012)
  case (3 v w vs)
  then have "av_version v \<noteq> av_version (last (w # vs))" by (metis distinct.simps(2) in_set_conv_nth last_in_set list.set_map
      list.simps(9) image_eqI list.distinct(1))
  then show ?case using 3 by simp
qed simp_all

text \<open>
  GET /modules/{name}/versions/{version}/compatibility never checks the version that the storage lists last, which
  is the one with the greatest name: once the module has two versions the answer is 404 for it.
\<close>

lemma last_version_never_checked:
  assumes "list_versions (ae_json e) (ae_root e) (as_fs s) (path_var r ''name'') = Some (Inr vs)" and "length vs \<ge> 2"
    and "distinct (map av_version vs)" and "path_var r ''version'' = av_version (last vs)"
    and "fs_get_version (ae_json e) (ae_root e) (as_fs s) (path_var r ''name'') (av_version (last vs)) = Some (Inr new)"
    and "parse_mode (query_value r ''mode'') = Some mode"
  shows "handle_check_version_compatibility e r s =
    Some (reply 404 (Error_Message ''could not find previous version''), s)"
proof -
  have "version_after (av_version (last vs)) vs = None" using assms(2,3) by (intro version_after_last) auto
  then show ?thesis
    using assms by (simp add: handle_check_version_compatibility_def with_version_def Let_def)
qed

section \<open>Applications to concrete inputs\<close>

definition climbing_version :: api_version where
  "climbing_version = sample_version\<lparr>av_files := [\<lparr>af_path = climb 4 ''x'', af_content = ''!''\<rparr>]\<rparr>"

lemma climbing_push: "fst (the (handle_create_version api_example_env (request_for [(''name'', ''geo'')] (Some climbing_version)) empty_server)) =
    reply 201 (Version_Json (with_source_defaults climbing_version))"
  by code_simp

text \<open>A module with two versions, whose files compile to an empty schema.\<close>

definition two_versions_env :: api_env where
  "two_versions_env = api_example_env\<lparr>ae_json := sample_codec\<lparr>jc_get_version := (\<lambda>d. Some (sample_version\<lparr>av_version := d\<rparr>))\<rparr>,
     ae_compiler := (\<lambda>_ _. Inr [plain_file []])\<rparr>"

definition two_versions_server :: api_server where
  "two_versions_server = empty_server\<lparr>as_fs :=
     [([''data''], Directory), ([''data'', ''geo''], Directory), ([''data'', ''geo'', ''versions''], Directory),
      ([''data'', ''geo'', ''versions'', ''1''], Directory), ([''data'', ''geo'', ''versions'', ''1'', ''version.json''], Regular ''1''),
      ([''data'', ''geo'', ''versions'', ''2''], Directory), ([''data'', ''geo'', ''versions'', ''2'', ''version.json''], Regular ''2'')]\<rparr>"

lemma two_versions_get:
  "fs_get_version (ae_json two_versions_env) (ae_root two_versions_env) (as_fs two_versions_server) ''geo'' ''1'' =
     Some (Inr (sample_version\<lparr>av_version := ''1''\<rparr>))"
  "fs_get_version (ae_json two_versions_env) (ae_root two_versions_env) (as_fs two_versions_server) ''geo'' ''2'' =
     Some (Inr (sample_version\<lparr>av_version := ''2''\<rparr>))"
  by code_simp+

lemma two_versions_list:
  "list_versions (ae_json two_versions_env) (ae_root two_versions_env) (as_fs two_versions_server) ''geo'' =
     Some (Inr [sample_version\<lparr>av_version := ''1''\<rparr>, sample_version\<lparr>av_version := ''2''\<rparr>])"
proof -
  have dir: "read_dir (as_fs two_versions_server) (versions_dir (ae_root two_versions_env) ''geo'') = Inr [(''1'', True), (''2'', True)]"
    by code_simp
  have "read_version (ae_json two_versions_env) (ae_root two_versions_env) (as_fs two_versions_server) ''geo'' v =
      Inr (sample_version\<lparr>av_version := v\<rparr>)" if "v = ''1'' \<or> v = ''2''" for v
    using that two_versions_get by (auto simp: fs_get_version_def)
  then show ?thesis by (subst list_versions.simps) (simp add: dir fs_read_def)
qed


section \<open>Runs of the server\<close>

text \<open>One request, at any time, with any body, by any of the handlers; one that does not return is no step.\<close>

inductive api_step :: "api_env \<Rightarrow> api_server \<Rightarrow> api_server \<Rightarrow> bool" for e where
  create_module: "handle_create_module (e\<lparr>ae_now := t\<rparr>) r s = Some (x, s') \<Longrightarrow> api_step e s s'"
| list_modules: "handle_list_modules (e\<lparr>ae_now := t\<rparr>) r s = Some (x, s') \<Longrightarrow> api_step e s s'"
| get_module: "handle_get_module (e\<lparr>ae_now := t\<rparr>) r s = Some (x, s') \<Longrightarrow> api_step e s s'"
| create_version: "handle_create_version (e\<lparr>ae_now := t\<rparr>) r s = Some (x, s') \<Longrightarrow> api_step e s s'"
| list_versions: "handle_list_versions (e\<lparr>ae_now := t\<rparr>) r s = Some (x, s') \<Longrightarrow> api_step e s s'"
| get_version: "handle_get_version (e\<lparr>ae_now := t\<rparr>) r s = Some (x, s') \<Longrightarrow> api_step e s s'"
| get_file: "handle_get_file (e\<lparr>ae_now := t\<rparr>) r s = Some (x, s') \<Longrightarrow> api_step e s s'"
| check: "handle_check_compatibility (e\<lparr>ae_now := t\<rparr>) q s = Some (x, s') \<Longrightarrow> api_step e s s'"
| check_version: "handle_check_version_compatibility (e\<lparr>ae_now := t\<rparr>) r s = Some (x, s') \<Longrightarrow> api_step e s s'"
| validate: "handle_validate_proto (e\<lparr>ae_now := t\<rparr>) vr s = Some (x, s') \<Longrightarrow> api_step e s s'"
| validate_version: "handle_validate_version (e\<lparr>ae_now := t\<rparr>) r s = Some (x, s') \<Longrightarrow> api_step e s s'"
| normalize: "handle_normalize_proto (e\<lparr>ae_now := t\<rparr>) nr s = Some (x, s') \<Longrightarrow> api_step e s s'"
| diff: "handle_compare_diff (e\<lparr>ae_now := t\<rparr>) dr s = Some (x, s') \<Longrightarrow> api_step e s s'"
| examples: "handle_get_examples (e\<lparr>ae_now := t\<rparr>) r s = Some (x, s') \<Longrightarrow> api_step e s s'"
| download: "handle_download_compiled (e\<lparr>ae_now := t\<rparr>) r s = Some (x, s') \<Longrightarrow> api_step e s s'"
| compile: "handle_compile_version order (e\<lparr>ae_now := t\<rparr>) cr s = Some (x, s') \<Longrightarrow> api_step e s s'"
| job: "handle_get_compilation_job (e\<lparr>ae_now := t\<rparr>) r s = Some (x, s') \<Longrightarrow> api_step e s s'"

definition server_ok :: "api_server \<Rightarrow> bool" where
  "server_ok s \<longleftrightarrow> fs_wf (as_fs s) \<and> cache_sound (as_gen s)"

text \<open>Handlers that leave the storage and the generator as they are.\<close>

definition reads_only :: "((go_panic + api_reply) \<times> api_server) option \<Rightarrow> api_server \<Rightarrow> bool" where
  "reads_only res s \<longleftrightarrow> pred_option (\<lambda>(_, s'). as_fs s' = as_fs s \<and> as_gen s' = as_gen s) res"

lemma reads_only_intros [simp]: "reads_only None s" "reads_only (Some (x, s)) s" "reads_only (Some (x, start_task b t s)) s"
  by (simp_all add: reads_only_def)

lemma reads_only_bind: "(\<And>x. reads_only (f x) s) \<Longrightarrow> reads_only (Option.bind o' f) s"
  by (cases o') simp_all

lemma reads_only_with_version: "(\<And>v. reads_only (cont v) s) \<Longrightarrow> reads_only (with_version e s m v absent cont) s"
  unfolding with_version_def by (rule reads_only_bind) (simp split: sum.split)

lemma handlers_read_only:
  "reads_only (handle_list_modules e r s) s" "reads_only (handle_get_module e r s) s" "reads_only (handle_list_versions e r s) s"
  "reads_only (handle_get_version e r s) s" "reads_only (handle_get_file e r s) s"
  "reads_only (handle_check_compatibility e q s) s" "reads_only (handle_check_version_compatibility e r s) s"
  "reads_only (handle_validate_proto e vr s) s" "reads_only (handle_validate_version e r s) s"
  "reads_only (handle_normalize_proto e nr s) s" "reads_only (handle_compare_diff e dr s) s"
  "reads_only (handle_get_examples e r s) s" "reads_only (handle_download_compiled e r s) s"
  "reads_only (handle_get_compilation_job e r s) s"
  unfolding handle_list_modules_def handle_get_module_def handle_list_versions_def handle_get_version_def handle_get_file_def
    handle_check_compatibility_def handle_check_version_compatibility_def handle_validate_proto_def handle_validate_version_def
    handle_normalize_proto_def handle_compare_diff_def handle_get_examples_def handle_download_compiled_def
    handle_get_compilation_job_def Let_def
  by (auto intro!: reads_only_bind reads_only_with_version split: sum.split option.split list.split prod.split parse_stop.split)

lemma reads_only_ok: "reads_only res s \<Longrightarrow> res = Some (x, s') \<Longrightarrow> server_ok s \<Longrightarrow> server_ok s'"
  by (simp add: reads_only_def server_ok_def)

lemma run_language_sound:
  "cache_sound (fst st) \<Longrightarrow> cache_sound (fst (run_language sha env config req languages i st))"
  using generate_code_sound [of "fst st" sha env config "Some (req\<lparr>gr_language := languages ! i\<rparr>)"]
  by (simp add: run_language_def split_beta Let_def)

lemma generate_code_parallel_sound:
  assumes "cache_sound st"
  shows "cache_sound (fst (generate_code_parallel sha env config req languages order st))"
proof -
  have "cache_sound (fst (fold (run_language sha env config req languages) is x))" if "cache_sound (fst x)" for "is" x
    using that by (induction "is" arbitrary: x) (simp_all add: run_language_sound)
  then show ?thesis using assms by (simp add: generate_code_parallel_def split: option.split)
qed

lemma writers_ok:
  "server_ok s \<Longrightarrow> handle_create_module e mr s = Some (x, s') \<Longrightarrow> server_ok s'"
  "server_ok s \<Longrightarrow> handle_create_version e vr s = Some (y, s') \<Longrightarrow> server_ok s'"
proof -
  assume ok: "server_ok s" and h: "handle_create_module e mr s = Some (x, s')"
  then show "server_ok s'" using storage_writes_keep_tree [of "as_fs s" "ae_root e" "ae_json e"]
    by (auto simp: handle_create_module_def server_ok_def Let_def split_beta split: option.splits sum.splits)
next
  assume ok: "server_ok s" and h: "handle_create_version e vr s = Some (y, s')"
  then show "server_ok s'" using storage_writes_keep_tree [of "as_fs s" "ae_root e" "ae_json e"]
    by (auto simp: handle_create_version_def server_ok_def Let_def split_beta split: option.splits sum.splits)
qed

lemma compile_ok: "server_ok s \<Longrightarrow> handle_compile_version order e cr s = Some (x, s') \<Longrightarrow> server_ok s'"
  using generate_code_parallel_sound [of "as_gen s"]
  by (auto simp: handle_compile_version_def with_version_def server_ok_def Let_def split_beta
      split: option.splits sum.splits if_splits bind_splits)

text \<open>
  C27. Whatever requests a server gets, in whatever order and whether they succeed, fail or panic, its storage stays a file
  tree and the generator's cache holds only results of successful compilations.
\<close>

theorem server_runs_ok:
  assumes "fs_wf (as_fs s)" and "as_gen s = new_generator" and "(api_step e)\<^sup>*\<^sup>* s s'"
  shows "fs_wf (as_fs s') \<and> cache_sound (as_gen s')"
proof -
  have "server_ok s" using assms(1,2) by (simp add: server_ok_def cache_sound_def new_generator_def)
  with assms(3) have "server_ok s'"
  proof (induction rule: rtranclp_induct)
    case (step t u)
    from step.hyps(2) step.IH [OF step.prems] show ?case
      by (cases rule: api_step.cases) (blast intro: writers_ok compile_ok reads_only_ok handlers_read_only)+
  qed
  then show ?thesis by (simp add: server_ok_def)
qed

theorem server_runs_ok_witness:
  "fs_wf (as_fs (snd (the (handle_create_version api_example_env
     (request_for [(''name'', ''geo'')] (Some climbing_version)) empty_server))))"
proof -
  let ?r = "request_for [(''name'', ''geo'')] (Some climbing_version)"
  let ?s' = "snd (the (handle_create_version api_example_env ?r empty_server))"
  have now: "api_example_env\<lparr>ae_now := 7\<rparr> = api_example_env" by (simp add: api_example_env_def)
  obtain x where "handle_create_version (api_example_env\<lparr>ae_now := 7\<rparr>) ?r empty_server = Some (x, ?s')"
    by (cases "handle_create_version api_example_env ?r empty_server") (auto simp: now handle_create_version_def)
  then have "(api_step api_example_env)\<^sup>*\<^sup>* empty_server ?s'" by (intro r_into_rtranclp api_step.create_version)
  then have "fs_wf (as_fs ?s') \<and> cache_sound (as_gen ?s')"
    by (rule server_runs_ok [rotated 2]) (simp_all add: empty_server_def fs_wf_Nil)
  then show ?thesis ..
qed

end
