(* ===== verification/Lint_Rules.thy ===== *)
theory Lint_Rules
  imports Proto_Text Complex_Main
begin

text \<open>
  The linter: its configuration, registry and engine (\<open>pkg/linter/config.go\<close>, \<open>registry.go\<close>, \<open>engine.go\<close>) and the
  naming rules (\<open>pkg/linter/rules\<close>). The interface \<open>Rule\<close> is a record of its methods. Names are taken to be
  ASCII where they are rewritten, as the protobuf grammar has them.
\<close>

section \<open>Configuration\<close>

record lint_quality =
  lq_enabled :: bool
  lq_min_coverage :: rat
  lq_coverage_weight :: rat
  lq_max_depth :: int
  lq_max_fields :: int
  lq_complexity_weight :: rat
  lq_max_lines :: int
  lq_maintainability_weight :: rat

text \<open>The configuration, without the map of rules, whose values may be of any YAML type and which nothing reads.\<close>

record lint_config =
  lc_version :: string
  lc_use :: "string list"
  lc_ignore :: "string list"
  lc_files :: "(string, (string, bool) gomap) gomap"
  lc_categories :: "(string, string) gomap"
  lc_quality :: lint_quality
  lc_autofix :: bool
  lc_autofix_rules :: "(string, bool) gomap"

definition default_lint_config :: lint_config where
  "default_lint_config =
     \<lparr>lc_version = ''v1'', lc_use = [''google''], lc_ignore = [''vendor/**'', ''third_party/**''], lc_files = [],
      lc_categories = [],
      lc_quality = \<lparr>lq_enabled = True, lq_min_coverage = 80, lq_coverage_weight = 3 / 10, lq_max_depth = 5, lq_max_fields = 50,
        lq_complexity_weight = 3 / 10, lq_max_lines = 500, lq_maintainability_weight = 4 / 10\<rparr>,
      lc_autofix = False, lc_autofix_rules = []\<rparr>"

section \<open>Violations and rules\<close>

datatype lint_severity = Lint_Error | Lint_Warning | Lint_Info

datatype lint_category = Lint_Naming | Lint_Style | Lint_Documentation | Lint_Structure

record text_change =
  tc_file :: string
  tc_start :: ast_position
  tc_end :: ast_position
  tc_old :: string
  tc_new :: string

record lint_fix =
  lf_description :: string
  lf_changes :: "text_change list"

record lint_violation =
  lv_rule :: string
  lv_severity :: lint_severity
  lv_category :: lint_category
  lv_message :: string
  lv_position :: ast_position
  lv_fix :: "lint_fix option"

record lint_context =
  lx_file :: string
  lx_ast :: root_node
  lx_config :: lint_config

record lint_rule =
  lu_name :: string
  lu_category :: lint_category
  lu_severity :: lint_severity
  lu_description :: string
  lu_check :: "root_node \<Rightarrow> lint_context \<Rightarrow> lint_violation list"
  lu_can_fix :: bool
  lu_auto_fix :: "root_node \<Rightarrow> lint_violation \<Rightarrow> lint_fix option"

section \<open>Names\<close>

definition is_upper :: "char \<Rightarrow> bool" where
  "is_upper c \<longleftrightarrow> in_range (CHR ''A'') (CHR ''Z'') c"

definition is_lower :: "char \<Rightarrow> bool" where
  "is_lower c \<longleftrightarrow> in_range (CHR ''a'') (CHR ''z'') c"

definition to_upper :: "char \<Rightarrow> char" where
  "to_upper c = (if is_lower c then char_of (of_char c - 32 :: nat) else c)"

definition to_lower :: "char \<Rightarrow> char" where
  "to_lower c = (if is_upper c then char_of (of_char c + 32 :: nat) else c)"

definition lint_pascal_case :: "string \<Rightarrow> bool" where
  "lint_pascal_case s = (case s of [] \<Rightarrow> False
     | c # _ \<Rightarrow> is_upper c \<and> CHR ''_'' \<notin> set s \<and> list_all (\<lambda>d. is_upper d \<or> is_lower d \<or> is_digit d) s)"

definition lint_snake_case :: "string \<Rightarrow> bool" where
  "lint_snake_case s = (case s of [] \<Rightarrow> False
     | c # t \<Rightarrow> is_lower c \<and> list_all (\<lambda>d. is_lower d \<or> is_digit d \<or> d = CHR ''_'') t \<and> \<not> contains_text s ''__'' \<and>
         \<not> has_prefix s ''_'' \<and> \<not> has_suffix s ''_'')"

definition lint_upper_snake_case :: "string \<Rightarrow> bool" where
  "lint_upper_snake_case s = (case s of [] \<Rightarrow> False
     | c # t \<Rightarrow> is_upper c \<and> list_all (\<lambda>d. is_upper d \<or> is_digit d \<or> d = CHR ''_'') t \<and> \<not> contains_text s ''__'' \<and>
         \<not> has_suffix s ''_'')"

definition capitalize :: "string \<Rightarrow> string" where
  "capitalize s = (case s of [] \<Rightarrow> [] | c # t \<Rightarrow> to_upper c # t)"

definition to_pascal_case :: "string \<Rightarrow> string" where
  "to_pascal_case s =
     (if CHR ''_'' \<in> set s then concat (map capitalize (split_on (CHR ''_'') s))
      else (case s of c # t \<Rightarrow> if is_lower c then to_upper c # t else s | [] \<Rightarrow> s))"

text \<open>The loops over a name; the flag and the character before say where they are.\<close>

fun snake_loop :: "bool \<Rightarrow> string \<Rightarrow> string" where
  "snake_loop first [] = []"
| "snake_loop first (c # s) =
     (if is_upper c then (if first then [] else [CHR ''_'']) @ [to_lower c] else [c]) @ snake_loop False s"

definition to_snake_case :: "string \<Rightarrow> string" where
  "to_snake_case s = snake_loop True s"

fun upper_snake_loop :: "char option \<Rightarrow> string \<Rightarrow> string" where
  "upper_snake_loop prev [] = []"
| "upper_snake_loop prev (c # s) =
     (if is_upper c then
        (case prev of Some p \<Rightarrow> if \<not> is_upper p \<and> p \<noteq> CHR ''_'' then [CHR ''_''] else [] | None \<Rightarrow> []) @ [c]
      else if is_lower c then [to_upper c] else [c]) @ upper_snake_loop (Some c) s"

definition to_upper_snake_case :: "string \<Rightarrow> string" where
  "to_upper_snake_case s = (if lint_upper_snake_case s then s else upper_snake_loop None s)"

section \<open>The rules\<close>

text \<open>The one change a rule suggests, and the violation it is attached to.\<close>

definition rename_violation :: "string \<Rightarrow> string \<Rightarrow> string \<Rightarrow> (string \<Rightarrow> string) \<Rightarrow> string \<Rightarrow> ast_position \<Rightarrow> lint_violation" where
  "rename_violation rule kind style convert name pos =
     \<lparr>lv_rule = rule, lv_severity = Lint_Error, lv_category = Lint_Naming,
      lv_message = kind @ '' '' @ in_quotes name @ '' should be '' @ style, lv_position = pos,
      lv_fix = Some \<lparr>lf_description = ''Convert to '' @ style,
        lf_changes = [\<lparr>tc_file = [], tc_start = pos, tc_end = pos, tc_old = name, tc_new = convert name\<rparr>]\<rparr>\<rparr>"

definition name_check :: "(string \<Rightarrow> bool) \<Rightarrow> (string \<Rightarrow> ast_position \<Rightarrow> lint_violation) \<Rightarrow> string \<Rightarrow> ast_position \<Rightarrow> lint_violation list" where
  "name_check ok violation name pos = (if ok name then [] else [violation name pos])"

definition check_message_name :: "string \<Rightarrow> ast_position \<Rightarrow> lint_violation list" where
  "check_message_name = name_check lint_pascal_case (rename_violation ''message-naming'' ''Message name'' ''PascalCase'' to_pascal_case)"

definition check_field_name :: "field_node \<Rightarrow> lint_violation list" where
  "check_field_name f = name_check lint_snake_case
     (rename_violation ''field-naming'' ''Field name'' ''snake_case'' to_snake_case) (fn_name f) (fn_pos f)"

definition check_service_name :: "service_node \<Rightarrow> lint_violation list" where
  "check_service_name s = name_check lint_pascal_case
     (rename_violation ''service-naming'' ''Service name'' ''PascalCase'' to_pascal_case) (sv_name s) (sv_pos s)"

definition check_enum_name :: "enum_node \<Rightarrow> lint_violation list" where
  "check_enum_name e = name_check lint_pascal_case
     (rename_violation ''enum-naming'' ''Enum name'' ''PascalCase'' to_pascal_case) (en_name e) (en_pos e)"

definition check_enum_values :: "enum_node \<Rightarrow> lint_violation list" where
  "check_enum_values e = concat (map (\<lambda>v. name_check lint_upper_snake_case
     (rename_violation ''enum-value-naming'' ''Enum value'' ''UPPER_SNAKE_CASE'' to_upper_snake_case) (ev_name v) (ev_pos v)) (en_values e))"

fun lint_message_names :: "message_node \<Rightarrow> lint_violation list" where
  "lint_message_names (MessageNode nm fs nested es os opts cs ds p q) =
     check_message_name nm p @ concat (map lint_message_names nested)"

fun lint_field_names :: "message_node \<Rightarrow> lint_violation list" where
  "lint_field_names (MessageNode nm fs nested es os opts cs ds p q) =
     concat (map check_field_name fs) @ concat (map lint_field_names nested)"

text \<open>Both rules for enums go through the messages alike.\<close>

fun lint_message_enums :: "(enum_node \<Rightarrow> lint_violation list) \<Rightarrow> message_node \<Rightarrow> lint_violation list" where
  "lint_message_enums check (MessageNode nm fs nested es os opts cs ds p q) =
     concat (map check es) @ concat (map (lint_message_enums check) nested)"

definition lint_enums :: "(enum_node \<Rightarrow> lint_violation list) \<Rightarrow> root_node \<Rightarrow> lint_violation list" where
  "lint_enums check ast = concat (map check (rn_enums ast)) @ concat (map (lint_message_enums check) (rn_messages ast))"

text \<open>A rule on \<open>BaseRule\<close> whose fix is the one suggested.\<close>

definition naming_rule :: "string \<Rightarrow> string \<Rightarrow> (root_node \<Rightarrow> lint_violation list) \<Rightarrow> lint_rule" where
  "naming_rule name description check =
     \<lparr>lu_name = name, lu_category = Lint_Naming, lu_severity = Lint_Error, lu_description = description,
      lu_check = (\<lambda>ast ctx. check ast), lu_can_fix = True, lu_auto_fix = (\<lambda>ast v. lv_fix v)\<rparr>"

definition message_naming_rule :: lint_rule where
  "message_naming_rule = naming_rule ''message-naming'' ''Message names must use PascalCase''
     (\<lambda>ast. concat (map lint_message_names (rn_messages ast)))"

definition field_naming_rule :: lint_rule where
  "field_naming_rule = naming_rule ''field-naming'' ''Field names must use snake_case''
     (\<lambda>ast. concat (map lint_field_names (rn_messages ast)))"

definition service_naming_rule :: lint_rule where
  "service_naming_rule = naming_rule ''service-naming'' ''Service names must use PascalCase''
     (\<lambda>ast. concat (map check_service_name (rn_services ast)))"

definition enum_naming_rule :: lint_rule where
  "enum_naming_rule = naming_rule ''enum-naming'' ''Enum names must use PascalCase'' (lint_enums check_enum_name)"

definition enum_value_naming_rule :: lint_rule where
  "enum_value_naming_rule = naming_rule ''enum-value-naming'' ''Enum values must use UPPER_SNAKE_CASE'' (lint_enums check_enum_values)"

definition default_rules :: "lint_rule list" where
  "default_rules = [message_naming_rule, field_naming_rule, service_naming_rule, enum_naming_rule, enum_value_naming_rule]"

section \<open>Registry and engine\<close>

type_synonym rule_registry = "(string, lint_rule) gomap"

definition register_rule :: "lint_rule \<Rightarrow> rule_registry \<Rightarrow> rule_registry" where
  "register_rule r reg = gm_put (lu_name r) r reg"

definition find_rule :: "rule_registry \<Rightarrow> string \<Rightarrow> lint_rule option" where
  "find_rule reg name = gm_get reg name"

definition get_all_rules :: "rule_registry \<Rightarrow> lint_rule list" where
  "get_all_rules reg = map snd reg"

definition get_enabled_rules :: "rule_registry \<Rightarrow> lint_config \<Rightarrow> lint_rule list" where
  "get_enabled_rules reg c = get_all_rules reg"

definition get_rules_by_category :: "rule_registry \<Rightarrow> lint_category \<Rightarrow> lint_rule list" where
  "get_rules_by_category reg cat = filter (\<lambda>r. lu_category r = cat) (map snd reg)"

record lint_engine =
  le_config :: lint_config
  le_registry :: rule_registry

definition new_lint_engine :: "lint_config option \<Rightarrow> lint_engine" where
  "new_lint_engine c = \<lparr>le_config = (case c of None \<Rightarrow> default_lint_config | Some c \<Rightarrow> c), le_registry = []\<rparr>"

record file_metrics =
  fm_file :: string
  fm_messages :: int
  fm_fields :: int
  fm_commented_messages :: int
  fm_commented_fields :: int
  fm_coverage :: rat
  fm_complexity :: rat

definition no_metrics :: file_metrics where
  "no_metrics = \<lparr>fm_file = [], fm_messages = 0, fm_fields = 0, fm_commented_messages = 0, fm_commented_fields = 0,
     fm_coverage = 0, fm_complexity = 0\<rparr>"

definition calculate_metrics :: "root_node \<Rightarrow> file_metrics" where
  "calculate_metrics ast = no_metrics\<lparr>fm_messages := int (length (rn_messages ast))\<rparr>"

record lint_result =
  lr_file :: string
  lr_violations :: "lint_violation list"
  lr_metrics :: file_metrics
  lr_fixed :: int

definition lint :: "lint_engine \<Rightarrow> string \<Rightarrow> root_node \<Rightarrow> lint_result" where
  "lint e file ast =
     (let ctx = \<lparr>lx_file = file, lx_ast = ast, lx_config = le_config e\<rparr> in
      \<lparr>lr_file = file, lr_violations = concat (map (\<lambda>r. lu_check r ast ctx) (get_enabled_rules (le_registry e) (le_config e))),
       lr_metrics = (if lq_enabled (lc_quality (le_config e)) then calculate_metrics ast else no_metrics), lr_fixed = 0\<rparr>)"

definition lint_files :: "lint_engine \<Rightarrow> (string, root_node) gomap \<Rightarrow> lint_result list" where
  "lint_files e files = map (\<lambda>(file, ast). lint e file ast) files"

record lint_summary =
  ls_files :: int
  ls_violations :: int
  ls_errors :: int
  ls_warnings :: int
  ls_infos :: int

fun count_violation :: "lint_violation \<Rightarrow> lint_summary \<Rightarrow> lint_summary" where
  "count_violation v s = (case lv_severity v of
     Lint_Error \<Rightarrow> s\<lparr>ls_errors := ls_errors s + 1\<rparr>
   | Lint_Warning \<Rightarrow> s\<lparr>ls_warnings := ls_warnings s + 1\<rparr>
   | Lint_Info \<Rightarrow> s\<lparr>ls_infos := ls_infos s + 1\<rparr>)"

definition count_result :: "lint_result \<Rightarrow> lint_summary \<Rightarrow> lint_summary" where
  "count_result r s =
     fold count_violation (lr_violations r) (s\<lparr>ls_violations := ls_violations s + int (length (lr_violations r))\<rparr>)"

definition generate_lint_summary :: "lint_result list \<Rightarrow> lint_summary" where
  "generate_lint_summary results = fold count_result results
     \<lparr>ls_files = int (length results), ls_violations = 0, ls_errors = 0, ls_warnings = 0, ls_infos = 0\<rparr>"

end
