(* ===== verification/Lint_Props.thy ===== *)
theory Lint_Props
  imports Lint_Rules Validate_Props
begin

text \<open>When a file is clean for the linter, and which names its suggested fixes repair.\<close>

section \<open>Fixes\<close>

text \<open>Two neighbouring characters with a property.\<close>

fun neighbours :: "(char \<Rightarrow> char \<Rightarrow> bool) \<Rightarrow> string \<Rightarrow> bool" where
  "neighbours P (a # b # s) \<longleftrightarrow> P a b \<or> neighbours P (b # s)"
| "neighbours P s \<longleftrightarrow> False"

abbreviation underscore :: char where
  "underscore \<equiv> CHR ''_''"

abbreviation doubled :: "string \<Rightarrow> bool" where
  "doubled \<equiv> neighbours (\<lambda>a b. a = underscore \<and> b = underscore)"

text \<open>An underscore before an underscore or an upper-case letter.\<close>

abbreviation splits_twice :: "string \<Rightarrow> bool" where
  "splits_twice \<equiv> neighbours (\<lambda>a b. a = underscore \<and> (b = underscore \<or> is_upper b))"

definition is_name_char :: "char \<Rightarrow> bool" where
  "is_name_char c \<longleftrightarrow> is_upper c \<or> is_lower c \<or> is_digit c \<or> c = underscore"

text \<open>The identifiers of the protobuf grammar.\<close>

definition is_identifier :: "string \<Rightarrow> bool" where
  "is_identifier s \<longleftrightarrow> s \<noteq> [] \<and> \<not> is_digit (hd s) \<and> list_all is_name_char s"

lemma contains_doubled: "contains_text s ''__'' \<longleftrightarrow> doubled s"
proof -
  have "index_of ''__'' s = None \<longleftrightarrow> \<not> doubled s"
    by (induction s rule: induct_list012) (auto simp: has_prefix_def split: option.splits)
  then show ?thesis by (simp add: contains_text_def)
qed

lemma ends_with_underscore: "has_suffix s [underscore] \<longleftrightarrow> s \<noteq> [] \<and> last s = underscore"
  by (cases s rule: rev_cases) (auto simp: has_suffix_def)

lemma underscore_classes [simp]: "\<not> is_upper underscore" "\<not> is_lower underscore" "\<not> is_digit underscore"
  by (simp_all add: is_upper_def is_lower_def is_digit_def in_range_def)

lemma classes_disjoint: "is_upper c \<Longrightarrow> \<not> is_lower c" "is_upper c \<Longrightarrow> \<not> is_digit c" "is_lower c \<Longrightarrow> \<not> is_digit c"
  by (auto simp: is_upper_def is_lower_def is_digit_def in_range_def less_eq_char_def)

lemma to_lower_upper: "is_upper c \<Longrightarrow> is_lower (to_lower c)"
  by (auto simp: to_lower_def is_upper_def is_lower_def in_range_def less_eq_char_def)

lemma to_upper_lower: "is_lower c \<Longrightarrow> is_upper (to_upper c)"
  by (auto simp: to_upper_def is_upper_def is_lower_def in_range_def less_eq_char_def)

lemma to_upper_id: "\<not> is_lower c \<Longrightarrow> to_upper c = c"
  by (simp add: to_upper_def)

text \<open>Snake case.\<close>

lemma snake_loop_doubled:
  "(p = underscore) = (q = underscore) \<Longrightarrow> doubled (p # snake_loop False s) = splits_twice (q # s)"
proof (induction s arbitrary: p q)
  case (Cons c s)
  show ?case
  proof (cases "is_upper c")
    case True
    then have "to_lower c \<noteq> underscore" "c \<noteq> underscore" using to_lower_upper [of c] by auto
    then show ?thesis using Cons.IH [of "to_lower c" c] Cons.prems True by auto
  qed (use Cons in auto)
qed simp

lemma snake_loop_last: "s \<noteq> [] \<Longrightarrow> (last (snake_loop b s) = underscore) = (last s = underscore)"
proof (induction s arbitrary: b)
  case (Cons c s)
  have "snake_loop False s = [] \<longleftrightarrow> s = []" by (cases s) auto
  then show ?case using Cons.IH [of False] to_lower_upper [of c] by (cases "s = []") (auto split: if_splits)
qed simp

lemma snake_loop_chars:
  "list_all is_name_char s \<Longrightarrow> list_all (\<lambda>d. is_lower d \<or> is_digit d \<or> d = underscore) (snake_loop b s)"
  by (induction s arbitrary: b) (auto simp: is_name_char_def to_lower_upper)

lemma to_snake_case_iff:
  assumes "is_identifier s"
  shows "lint_snake_case (to_snake_case s) \<longleftrightarrow> hd s \<noteq> underscore \<and> \<not> splits_twice s \<and> last s \<noteq> underscore"
proof -
  obtain c t where s: "s = c # t" and c: "\<not> is_digit c" "is_name_char c" and t: "list_all is_name_char t"
    using assms by (cases s) (auto simp: is_identifier_def)
  define d where "d = (if is_upper c then to_lower c else c)"
  have d: "d = underscore \<longleftrightarrow> c = underscore" "is_lower d \<longleftrightarrow> c \<noteq> underscore"
    using c to_lower_upper [of c] by (auto simp: d_def is_name_char_def)
  have r: "to_snake_case s = d # snake_loop False t" by (simp add: to_snake_case_def s d_def)
  have "doubled (d # snake_loop False t) = splits_twice s" using snake_loop_doubled [OF d(1)] by (simp add: s)
  moreover have "last (to_snake_case s) = underscore \<longleftrightarrow> last s = underscore"
    unfolding to_snake_case_def by (rule snake_loop_last) (simp add: s)
  then have "last (d # snake_loop False t) = underscore \<longleftrightarrow> last s = underscore" by (simp only: r)
  ultimately have "lint_snake_case (d # snake_loop False t) \<longleftrightarrow> c \<noteq> underscore \<and> \<not> splits_twice s \<and> last s \<noteq> underscore"
    using d snake_loop_chars [OF t, of False]
    by (simp add: lint_snake_case_def contains_doubled ends_with_underscore has_prefix_def) blast
  then show ?thesis by (simp only: r) (simp add: s)
qed

text \<open>Upper-case snake case.\<close>

lemma upper_loop_doubled:
  "(p = underscore) = (q = underscore) \<Longrightarrow> doubled (p # upper_snake_loop (Some q) s) = doubled (q # s)"
proof (induction s arbitrary: p q)
  case (Cons c s)
  have up: "is_lower c \<Longrightarrow> to_upper c \<noteq> underscore \<and> c \<noteq> underscore" using to_upper_lower [of c] by auto
  show ?case
    using Cons.IH [of c c] Cons.IH [of "to_upper c" c] Cons.prems up classes_disjoint [of c]
    by (cases "is_upper c"; cases "is_lower c") auto
qed simp

lemma upper_loop_last: "s \<noteq> [] \<Longrightarrow> (last (upper_snake_loop q s) = underscore) = (last s = underscore)"
proof (induction s arbitrary: q)
  case (Cons c s)
  have "upper_snake_loop (Some c) s = [] \<longleftrightarrow> s = []" by (cases s) auto
  then show ?case using Cons.IH [of "Some c"] to_upper_lower [of c] by (cases "s = []") (auto split: if_splits option.splits)
qed simp

lemma upper_loop_chars:
  "list_all is_name_char s \<Longrightarrow> list_all (\<lambda>d. is_upper d \<or> is_digit d \<or> d = underscore) (upper_snake_loop q s)"
  by (induction s arbitrary: q) (auto simp: is_name_char_def to_upper_lower split: option.splits)

lemma to_upper_snake_case_iff:
  assumes "is_identifier s"
  shows "lint_upper_snake_case (to_upper_snake_case s) \<longleftrightarrow> hd s \<noteq> underscore \<and> \<not> doubled s \<and> last s \<noteq> underscore"
proof -
  obtain c t where s: "s = c # t" and c: "\<not> is_digit c" "is_name_char c" and t: "list_all is_name_char t"
    using assms by (cases s) (auto simp: is_identifier_def)
  define d where "d = (if is_upper c then c else to_upper c)"
  have d: "d = underscore \<longleftrightarrow> c = underscore" "is_upper d \<longleftrightarrow> c \<noteq> underscore"
    using c to_upper_lower [of c] to_upper_id [of c] by (auto simp: d_def is_name_char_def)
  have r: "upper_snake_loop None s = d # upper_snake_loop (Some c) t"
    using to_upper_id [of c] by (simp add: s d_def)
  have "doubled (d # upper_snake_loop (Some c) t) = doubled s" using upper_loop_doubled [OF d(1)] by (simp add: s)
  moreover have "last (upper_snake_loop None s) = underscore \<longleftrightarrow> last s = underscore"
    by (rule upper_loop_last) (simp add: s)
  then have "last (d # upper_snake_loop (Some c) t) = underscore \<longleftrightarrow> last s = underscore" by (simp only: r)
  ultimately have "lint_upper_snake_case (upper_snake_loop None s) \<longleftrightarrow> c \<noteq> underscore \<and> \<not> doubled s \<and> last s \<noteq> underscore"
    using d upper_loop_chars [OF t, of "Some c"] unfolding r
    by (simp add: lint_upper_snake_case_def contains_doubled ends_with_underscore)
  moreover have "lint_upper_snake_case s \<Longrightarrow> c \<noteq> underscore \<and> \<not> doubled s \<and> last s \<noteq> underscore"
    by (auto simp: s lint_upper_snake_case_def contains_doubled ends_with_underscore)
  ultimately show ?thesis by (auto simp: to_upper_snake_case_def s)
qed

text \<open>Pascal case.\<close>

lemma split_parts: "sep \<noteq> c \<Longrightarrow> split_on sep (c # s) = (c # hd (split_on sep s)) # tl (split_on sep s)"
  by (cases "split_on sep s") auto

lemma capitalized_parts:
  "concat (map capitalize (split_on underscore s)) =
   (case dropWhile (\<lambda>c. c = underscore) s of [] \<Rightarrow> []
    | c # t \<Rightarrow> to_upper c # hd (split_on underscore t) @ concat (map capitalize (tl (split_on underscore t))))"
proof (induction s)
  case (Cons c s)
  show ?case
  proof (cases "c = underscore")
    case False
    then show ?thesis by (simp add: split_parts capitalize_def [of "_ # _"] del: split_on.simps)
  qed (use Cons in \<open>simp add: capitalize_def [of "[]"]\<close>)
qed (simp add: capitalize_def)

lemma parts_chars: "p \<in> set (split_on sep s) \<Longrightarrow> set p \<subseteq> set s - {sep}"
proof (induction s arbitrary: p)
  case (Cons c s)
  show ?case
  proof (cases "sep = c")
    case False
    then have "p = c # hd (split_on sep s) \<or> p \<in> set (split_on sep s)"
      using Cons.prems split_parts [of sep c s] by (cases "split_on sep s") auto
    moreover have "set (hd (split_on sep s)) \<subseteq> set s - {sep}" by (rule Cons.IH) simp
    ultimately show ?thesis using Cons.IH [of p] False by (elim disjE) auto
  qed (use Cons in auto)
qed simp

lemma capitalize_chars:
  assumes "list_all is_name_char s"
  shows "list_all (\<lambda>d. is_upper d \<or> is_lower d \<or> is_digit d) (concat (map capitalize (split_on underscore s)))"
proof -
  have "is_upper d \<or> is_lower d \<or> is_digit d" if part: "p \<in> set (split_on underscore s)" and d: "d \<in> set (capitalize p)" for p d
  proof -
    have p: "x \<in> set p \<Longrightarrow> is_name_char x \<and> x \<noteq> underscore" for x
      using parts_chars [OF part] assms by (auto simp: list_all_iff)
    obtain x where "x \<in> set p" "d = x \<or> d = to_upper x"
      using d by (cases p) (auto simp: capitalize_def)
    then show ?thesis using p [of x] to_upper_lower [of x] to_upper_id [of x]
      by (cases "is_lower x") (auto simp: is_name_char_def)
  qed
  then show ?thesis by (auto simp: list_all_iff)
qed

lemma to_pascal_case_iff:
  assumes "is_identifier s"
  shows "lint_pascal_case (to_pascal_case s) \<longleftrightarrow>
    (let t = dropWhile (\<lambda>c. c = underscore) s in t \<noteq> [] \<and> \<not> is_digit (hd t))"
proof (cases "underscore \<in> set s")
  case True
  let ?t = "dropWhile (\<lambda>c. c = underscore) s" and ?r = "concat (map capitalize (split_on underscore s))"
  have s: "list_all is_name_char s" using assms by (simp add: is_identifier_def)
  have chars: "list_all (\<lambda>d. is_upper d \<or> is_lower d \<or> is_digit d) ?r" by (rule capitalize_chars [OF s])
  then have "underscore \<notin> set ?r" by (auto simp: list_all_iff simp del: set_concat)
  then have r: "lint_pascal_case ?r \<longleftrightarrow> ?r \<noteq> [] \<and> is_upper (hd ?r)"
    using chars by (cases ?r) (auto simp: lint_pascal_case_def simp del: concat_eq_Nil_conv)
  have "?r \<noteq> [] \<and> is_upper (hd ?r) \<longleftrightarrow> ?t \<noteq> [] \<and> \<not> is_digit (hd ?t)"
  proof (cases ?t)
    case (Cons c u)
    then have "c \<noteq> underscore" by (metis (mono_tags) hd_dropWhile list.distinct(1) list.sel(1))
    moreover have "c \<in> set s" using Cons set_dropWhileD [of c "\<lambda>c. c = underscore" s] by simp
    then have "is_name_char c" using s by (simp add: list_all_iff)
    ultimately have "is_upper (to_upper c) \<longleftrightarrow> \<not> is_digit c"
      using to_upper_lower [of c] to_upper_id [of c] classes_disjoint [of c]
      by (cases "is_lower c") (auto simp: is_name_char_def)
    then show ?thesis using Cons by (simp add: capitalized_parts)
  next
    case Nil
    then have "?r = []" by (simp only: capitalized_parts list.case)
    then show ?thesis by (simp only: Nil simp_thms)
  qed
  then show ?thesis using True r by (simp add: to_pascal_case_def Let_def)
next
  case False
  obtain c t where s: "s = c # t" "is_name_char c" "\<not> is_digit c" "list_all is_name_char t"
    using assms by (cases s) (auto simp: is_identifier_def)
  have "c \<noteq> underscore" "underscore \<notin> set t" using False s by auto
  moreover have "list_all (\<lambda>d. is_upper d \<or> is_lower d \<or> is_digit d) t"
    using s(4) \<open>underscore \<notin> set t\<close> by (auto simp: list_all_iff is_name_char_def)
  moreover have "is_lower c \<Longrightarrow> to_upper c \<noteq> underscore" using to_upper_lower [of c] by auto
  ultimately have "lint_pascal_case (to_pascal_case s)"
    using s to_upper_lower [of c] by (auto simp: to_pascal_case_def lint_pascal_case_def is_name_char_def)
  then show ?thesis using s \<open>c \<noteq> underscore\<close> by (simp add: Let_def)
qed

text \<open>
  Which suggested names the linter itself accepts, for identifiers of the protobuf grammar: one in Pascal case when
  the first character that is not an underscore is a letter; one in snake case when the name neither starts nor ends
  with an underscore and has none before another one or before an upper-case letter; one in upper snake case when it
  neither starts nor ends with an underscore and has no two in a row.
\<close>

lemma fixes_accepted_iff:
  assumes "is_identifier s"
  shows "(lint_pascal_case (to_pascal_case s) \<longleftrightarrow>
      (let t = dropWhile (\<lambda>c. c = underscore) s in t \<noteq> [] \<and> \<not> is_digit (hd t))) \<and>
    (lint_snake_case (to_snake_case s) \<longleftrightarrow> hd s \<noteq> underscore \<and> \<not> splits_twice s \<and> last s \<noteq> underscore) \<and>
    (lint_upper_snake_case (to_upper_snake_case s) \<longleftrightarrow> hd s \<noteq> underscore \<and> \<not> doubled s \<and> last s \<noteq> underscore)"
  using assms to_pascal_case_iff to_snake_case_iff to_upper_snake_case_iff by blast

text \<open>The fix of \<open>User_Id\<close> as a field name is \<open>user__id\<close>, which is a violation again.\<close>

section \<open>Clean files\<close>

text \<open>Every message of a file, nested ones included, and every enum.\<close>

definition file_messages :: "root_node \<Rightarrow> message_node list" where
  "file_messages ast = concat (map submessages (rn_messages ast))"

definition file_enums :: "root_node \<Rightarrow> enum_node list" where
  "file_enums ast = rn_enums ast @ concat (map mn_enums (file_messages ast))"

text \<open>The naming conventions, stated over these.\<close>

definition well_named :: "root_node \<Rightarrow> bool" where
  "well_named ast \<longleftrightarrow>
     (\<forall>m \<in> set (file_messages ast). lint_pascal_case (mn_name m) \<and> (\<forall>f \<in> set (mn_fields m). lint_snake_case (fn_name f))) \<and>
     (\<forall>s \<in> set (rn_services ast). lint_pascal_case (sv_name s)) \<and>
     (\<forall>e \<in> set (file_enums ast). lint_pascal_case (en_name e) \<and> (\<forall>v \<in> set (en_values e). lint_upper_snake_case (ev_name v)))"

lemma name_check_Nil [simp]: "name_check ok violation nm p = [] \<longleftrightarrow> ok nm"
  by (simp add: name_check_def)

lemma lint_message_names_Nil: "lint_message_names m = [] \<longleftrightarrow> (\<forall>x \<in> set (submessages m). lint_pascal_case (mn_name x))"
  by (induction m) (auto simp: check_message_name_def)

lemma lint_field_names_Nil:
  "lint_field_names m = [] \<longleftrightarrow> (\<forall>x \<in> set (submessages m). \<forall>f \<in> set (mn_fields x). lint_snake_case (fn_name f))"
  by (induction m) (auto simp: check_field_name_def)

lemma lint_message_enums_Nil:
  "lint_message_enums check m = [] \<longleftrightarrow> (\<forall>x \<in> set (submessages m). \<forall>e \<in> set (mn_enums x). check e = [])"
  by (induction m) auto

lemma lint_enums_Nil: "lint_enums check ast = [] \<longleftrightarrow> (\<forall>e \<in> set (file_enums ast). check e = [])"
  by (auto simp: lint_enums_def file_enums_def file_messages_def lint_message_enums_Nil)

lemma default_rules_clean:
  "(\<forall>r \<in> set default_rules. lu_check r ast ctx = []) \<longleftrightarrow> well_named ast"
  by (auto simp: default_rules_def message_naming_rule_def field_naming_rule_def service_naming_rule_def enum_naming_rule_def
      enum_value_naming_rule_def naming_rule_def lint_message_names_Nil lint_field_names_Nil lint_enums_Nil well_named_def
      check_service_name_def check_enum_name_def check_enum_values_def file_messages_def)

text \<open>The engine as the command line sets it up, and the registry in any order.\<close>

definition default_engine :: "lint_config option \<Rightarrow> lint_engine" where
  "default_engine c = (let e = new_lint_engine c in e\<lparr>le_registry := fold register_rule default_rules (le_registry e)\<rparr>)"

lemma default_registry: "le_registry (default_engine c) = map (\<lambda>r. (lu_name r, r)) default_rules"
  by (simp add: default_engine_def new_lint_engine_def default_rules_def register_rule_def message_naming_rule_def
      field_naming_rule_def service_naming_rule_def enum_naming_rule_def enum_value_naming_rule_def naming_rule_def)

text \<open>The violations of the default rules, whatever the configuration and the order in which the rules run.\<close>

lemma lint_violations:
  assumes "mset (le_registry e) = mset (le_registry (default_engine c))"
  shows "set (lr_violations (lint e file ast)) =
    (\<Union>r \<in> set default_rules. set (lu_check r ast \<lparr>lx_file = file, lx_ast = ast, lx_config = le_config e\<rparr>))"
proof -
  have reg: "snd ` set (le_registry e) = set default_rules"
    using mset_eq_setD [OF assms] by (simp add: default_registry image_image)
  have "set (lr_violations (lint e file ast)) =
      (\<Union>r \<in> snd ` set (le_registry e). set (lu_check r ast \<lparr>lx_file = file, lx_ast = ast, lx_config = le_config e\<rparr>))"
    by (simp add: lint_def Let_def get_enabled_rules_def get_all_rules_def)
  then show ?thesis by (simp only: reg)
qed

lemma lint_clean:
  assumes "mset (le_registry e) = mset (le_registry (default_engine c))"
  shows "lr_violations (lint e file ast) = [] \<longleftrightarrow> well_named ast"
proof -
  have "lr_violations (lint e file ast) = [] \<longleftrightarrow> set (lr_violations (lint e file ast)) = {}" by simp
  then show ?thesis
    by (simp add: lint_violations [OF assms] default_rules_clean)
qed

text \<open>All violations of the default rules are errors, so the errors of the summary count them.\<close>

definition is_error :: "lint_violation \<Rightarrow> bool" where
  "is_error v \<longleftrightarrow> lv_severity v = Lint_Error"

lemma list_all_concat_map: "list_all P (concat (map f xs)) \<longleftrightarrow> (\<forall>x \<in> set xs. list_all P (f x))"
  by (induction xs) auto

lemma name_check_error: "list_all is_error (name_check ok (rename_violation r k st conv) nm p)"
  by (simp add: name_check_def rename_violation_def is_error_def)

lemma node_checks_error:
  "list_all is_error (check_message_name nm p)" "list_all is_error (check_field_name f)" "list_all is_error (check_service_name sv)"
  "list_all is_error (check_enum_name e)" "list_all is_error (check_enum_values e)"
  by (simp_all only: check_message_name_def check_field_name_def check_service_name_def check_enum_name_def check_enum_values_def
      list_all_concat_map name_check_error)
    simp

lemma nested_checks_error:
  "list_all is_error (lint_message_names m)" "list_all is_error (lint_field_names m)"
  "(\<And>e. list_all is_error (check e)) \<Longrightarrow> list_all is_error (lint_message_enums check m)"
  by (induction m) (simp_all add: list_all_concat_map node_checks_error)

lemma lint_enums_error: "(\<And>e. list_all is_error (check e)) \<Longrightarrow> list_all is_error (lint_enums check ast)"
  by (simp add: lint_enums_def list_all_concat_map nested_checks_error)

lemma default_rules_error: "r \<in> set default_rules \<Longrightarrow> list_all is_error (lu_check r ast ctx)"
  using lint_enums_error [OF node_checks_error(4)] lint_enums_error [OF node_checks_error(5)]
  unfolding default_rules_def message_naming_rule_def field_naming_rule_def service_naming_rule_def enum_naming_rule_def
    enum_value_naming_rule_def naming_rule_def
  by (elim set_ConsD [elim_format] disjE; simp add: list_all_concat_map nested_checks_error node_checks_error)

lemma lint_errors:
  assumes "mset (le_registry e) = mset (le_registry (default_engine c))"
  shows "list_all is_error (lr_violations (lint e file ast))"
  using default_rules_error by (simp add: list_all_iff lint_violations [OF assms])

lemma count_errors:
  "list_all is_error vs \<Longrightarrow> fold count_violation vs s = s\<lparr>ls_errors := ls_errors s + int (length vs)\<rparr>"
  by (induction vs arbitrary: s) (auto simp: is_error_def)

lemma count_results:
  "(\<forall>r \<in> set rs. list_all is_error (lr_violations r)) \<Longrightarrow>
   fold count_result rs s = s\<lparr>ls_violations := ls_violations s + (\<Sum>r\<leftarrow>rs. int (length (lr_violations r))),
     ls_errors := ls_errors s + (\<Sum>r\<leftarrow>rs. int (length (lr_violations r)))\<rparr>"
  by (induction rs arbitrary: s) (auto simp: count_result_def count_errors)

lemma sum_lengths: "(\<Sum>r\<leftarrow>rs. int (length (f r))) > 0 \<longleftrightarrow> (\<exists>r \<in> set rs. f r \<noteq> [])"
proof -
  have "(\<Sum>r\<leftarrow>rs. int (length (f r))) = int (length (concat (map f rs)))" by (induction rs) simp_all
  then show ?thesis by simp
qed

lemma lint_summary:
  assumes reg: "mset (le_registry e) = mset (le_registry (default_engine c))"
  shows "(ls_errors (generate_lint_summary (lint_files e files)) > 0) = (\<exists>(file, ast) \<in> set files. \<not> well_named ast)"
    and "ls_warnings (generate_lint_summary (lint_files e files)) = 0"
proof -
  have err: "\<forall>r \<in> set (lint_files e files). list_all is_error (lr_violations r)"
    using lint_errors [OF reg] by (simp add: lint_files_def split_beta)
  have "(\<exists>r \<in> set (lint_files e files). lr_violations r \<noteq> []) \<longleftrightarrow> (\<exists>(file, ast) \<in> set files. \<not> well_named ast)"
    by (simp add: lint_files_def split_beta lint_clean [OF reg])
  then show "(ls_errors (generate_lint_summary (lint_files e files)) > 0) = (\<exists>(file, ast) \<in> set files. \<not> well_named ast)"
    by (simp add: generate_lint_summary_def count_results [OF err] sum_lengths)
  show "ls_warnings (generate_lint_summary (lint_files e files)) = 0"
    by (simp add: generate_lint_summary_def count_results [OF err])
qed

end
