(* ===== verification/Cli_Files.thy ===== *)
theory Cli_Files
  imports Storage_Files Lint_Rules Proto_Parse Compat_Compare
begin

text \<open>
  The commands that work on local files: \<open>lint\<close>, \<open>check-compatibility\<close> and \<open>validate\<close> (\<open>pkg/cli/lint.go\<close>,
  \<open>check_compatibility.go\<close>, \<open>validate.go\<close>, with the loading of \<open>pkg/linter/config.go\<close>). A directory argument is the
  last element of the path as it is written, which is what the walk sees as the name of its root, and the directory it
  denotes. What a command prints is left out but for what it is about.
\<close>

datatype cli_error =
    Failed string
  | Failed_Os string os_error
  | Failed_Parse string string
  | Failed_Compat compat_error
  | Panicked go_panic

section \<open>Walking a directory\<close>

text \<open>
  \<open>filepath.Walk\<close> from a root: the entries visited, in lexical order, when directories may be skipped. A directory that
  is skipped is visited itself, which has no effect in any of the commands.
\<close>

definition walk :: "bool \<Rightarrow> (path \<Rightarrow> bool) \<Rightarrow> file_system \<Rightarrow> path \<Rightarrow> os_error + (path \<times> fs_node) list" where
  "walk skip_start skip fs start = (case node_at fs start of
     None \<Rightarrow> Inl (missing fs start)
   | Some (Regular d) \<Rightarrow> Inr [(start, Regular d)]
   | Some Directory \<Rightarrow> if skip_start then Inr [] else Inr ((start, Directory) #
       filter (\<lambda>(p, n). length start < length p \<and> take (length start) p = start \<and>
         \<not> list_ex (\<lambda>k. node_at fs (take k p) = Some Directory \<and> skip (take k p)) [Suc (length start)..<Suc (length p)])
       (sort_key fst fs)))"

text \<open>\<open>filepath.Ext\<close> is \<open>.proto\<close>, and so is the suffix.\<close>

definition is_proto :: "path \<Rightarrow> bool" where
  "is_proto p = has_suffix (last p) ''.proto''"

section \<open>Linting\<close>

type_synonym yaml_codec = "string \<Rightarrow> lint_config option"

definition load_lint_config :: "yaml_codec \<Rightarrow> file_system \<Rightarrow> path \<Rightarrow> cli_error + lint_config" where
  "load_lint_config yaml fs p = (case read_file fs p of
     Inl e \<Rightarrow> Inl (Failed_Os ''failed to load config: '' e)
   | Inr d \<Rightarrow> (case yaml d of None \<Rightarrow> Inl (Failed ''failed to load config: '') | Some c \<Rightarrow> Inr c))"

definition lint_config_names :: "string list" where
  "lint_config_names = [''spoke-lint.yaml'', ''spoke-lint.yml'', ''.spoke-lint.yaml'', ''.spoke-lint.yml'']"

definition load_lint_config_from_dir :: "yaml_codec \<Rightarrow> file_system \<Rightarrow> path \<Rightarrow> cli_error + lint_config" where
  "load_lint_config_from_dir yaml fs dir =
     (case find (\<lambda>name. node_at fs (join_path dir [name]) \<noteq> None) lint_config_names of
        Some name \<Rightarrow> load_lint_config yaml fs (join_path dir [name])
      | None \<Rightarrow> Inr default_lint_config)"

definition skipped_by_lint :: "string \<Rightarrow> bool" where
  "skipped_by_lint name \<longleftrightarrow> has_prefix name ''.'' \<or> name = ''vendor'' \<or> name = ''third_party''"

definition lint_find_proto_files :: "file_system \<Rightarrow> string \<Rightarrow> path \<Rightarrow> os_error + path list" where
  "lint_find_proto_files fs name dir =
     rbind (walk (skipped_by_lint name) (\<lambda>p. skipped_by_lint (last p)) fs dir) (\<lambda>entries.
     Inr (map fst (filter (\<lambda>(p, n). n \<noteq> Directory \<and> is_proto p) entries)))"

definition show_path :: "path \<Rightarrow> string" where
  "show_path p = ''/'' @ join_strings ''/'' p"

text \<open>Reading and parsing one file; a panic of the parser ends the command.\<close>

definition parse_path :: "string \<Rightarrow> string \<Rightarrow> proto_compiler \<Rightarrow> file_system \<Rightarrow> path \<Rightarrow> cli_error + root_node" where
  "parse_path unread unparsed pc fs p = (case read_file fs p of
     Inl e \<Rightarrow> Inl (Failed_Os unread e)
   | Inr d \<Rightarrow> (case parse_string pc d of
       Inl (Parse_Error m) \<Rightarrow> Inl (Failed_Parse unparsed m) | Inl (Parse_Panic x) \<Rightarrow> Inl (Panicked x) | Inr ast \<Rightarrow> Inr ast))"

record lint_options =
  lo_config :: "path option"
  lo_format :: string
  lo_fail_on_error :: bool
  lo_fail_on_warning :: bool
  lo_rules :: bool

datatype lint_output = Rules_Listed "lint_rule list" | Nothing_Found | Linted "lint_result list" lint_summary

definition lint_output_text :: "lint_options \<Rightarrow> lint_summary \<Rightarrow> cli_error + unit" where
  "lint_output_text opts s =
     (if lo_fail_on_error opts \<and> ls_errors s > 0 then Inl (Failed (''lint failed with '' @ fmt_d (ls_errors s) @ '' errors''))
      else if lo_fail_on_warning opts \<and> ls_warnings s > 0 then
        Inl (Failed (''lint failed with '' @ fmt_d (ls_warnings s) @ '' warnings''))
      else Inr ())"

text \<open>The rules are registered in a map, and the files put in one: the engine sees both in any order.\<close>

definition run_lint :: "yaml_codec \<Rightarrow> proto_compiler \<Rightarrow> file_system \<Rightarrow> lint_options \<Rightarrow> string \<Rightarrow> path \<Rightarrow> cli_error + lint_output" where
  "run_lint yaml pc fs opts name dir =
     rbind (case lo_config opts of Some p \<Rightarrow> load_lint_config yaml fs p | None \<Rightarrow> load_lint_config_from_dir yaml fs dir) (\<lambda>config.
     let e = new_lint_engine (Some config); e = e\<lparr>le_registry := fold register_rule default_rules (le_registry e)\<rparr> in
     if lo_rules opts then Inr (Rules_Listed (get_all_rules (le_registry e)))
     else (case lint_find_proto_files fs name dir of
       Inl err \<Rightarrow> Inl (Failed_Os ''failed to find proto files: '' err)
     | Inr files \<Rightarrow>
         if files = [] then Inr Nothing_Found
         else rbind (collect (\<lambda>p. rbind (parse_path ''failed to read '' ''failed to parse '' pc fs p) (\<lambda>ast. Inr [(show_path p, ast)])) files) (\<lambda>asts.
           let results = lint_files e (fold (\<lambda>(p, ast). gm_put p ast) asts []); summary = generate_lint_summary results in
           if lo_format opts = ''json'' \<or> lo_format opts = ''github'' then Inr (Linted results summary)
           else rbind (lint_output_text opts summary) (\<lambda>_. Inr (Linted results summary)))))"

section \<open>Checking compatibility\<close>

definition parse_schema :: "proto_compiler \<Rightarrow> file_system \<Rightarrow> path \<Rightarrow> cli_error + schema_graph" where
  "parse_schema pc fs p = (case node_at fs p of
     None \<Rightarrow> Inl (Failed_Os ''path does not exist: '' (missing fs p))
   | Some n \<Rightarrow>
       (case (if n = Directory then map_sum (\<lambda>e. e) (\<lambda>entries. filter is_proto (map fst entries)) (walk False (\<lambda>_. False) fs p)
              else Inr [p]) of
          Inl e \<Rightarrow> Inl (Failed_Os ''failed to walk directory: '' e)
        | Inr [] \<Rightarrow> Inl (Failed ''no proto files found in '')
        | Inr (f # _) \<Rightarrow> rbind (parse_path ''failed to read file: '' ''failed to parse proto: '' pc fs f) (\<lambda>ast. Inr (build_from_ast ast))))"

definition run_check_compatibility :: "proto_compiler \<Rightarrow> file_system \<Rightarrow> path option \<Rightarrow> path option \<Rightarrow> string \<Rightarrow> string \<Rightarrow>
    cli_error + check_result" where
  "run_check_compatibility pc fs old new mode format = (case (old, new) of
     (Some old, Some new) \<Rightarrow>
       (case parse_compatibility_mode mode of
          Inl e \<Rightarrow> Inl (Failed_Compat e)
        | Inr mode \<Rightarrow>
            rbind (parse_schema pc fs old) (\<lambda>a. rbind (parse_schema pc fs new) (\<lambda>b.
            case check_compatibility a b mode of
              Inl p \<Rightarrow> Inl (Panicked p)
            | Inr r \<Rightarrow>
                if format = ''json'' then Inl (Failed ''JSON output not yet implemented'')
                else if cr_compatible r then Inr r else Inl (Failed ''compatibility check failed''))))
   | _ \<Rightarrow> Inl (Failed ''both --old and --new are required''))"

section \<open>Validating\<close>

text \<open>Arguments of \<open>protoc\<close>; the program is a parameter that answers the error it prints, if it fails.\<close>

definition rel_path :: "path \<Rightarrow> path \<Rightarrow> string" where
  "rel_path dir p = (if p = dir then ''.'' else join_strings ''/'' (drop (length dir) p))"

definition validate_args :: "path \<Rightarrow> path \<Rightarrow> bool \<Rightarrow> path list \<Rightarrow> string list" where
  "validate_args dir tmp recursive files =
     [''--proto_path='' @ show_path dir, ''--include_imports'', ''--include_source_info'',
      ''--descriptor_set_out='' @ show_path (tmp @ [''validation.pb''])] @
     (if recursive then [''--proto_path='' @ show_path (butlast dir)] else []) @ map (rel_path dir) files"

definition run_validate :: "(string list \<Rightarrow> string option) \<Rightarrow> proto_compiler \<Rightarrow> file_system \<Rightarrow> path \<Rightarrow> path \<Rightarrow> bool \<Rightarrow> cli_error + unit" where
  "run_validate protoc pc fs tmp dir recursive = (case walk False (\<lambda>_. False) fs dir of
     Inl e \<Rightarrow> Inl (Failed_Os ''failed to find proto files: '' e)
   | Inr entries \<Rightarrow>
       (let files = filter is_proto (map fst entries) in
        if files = [] then Inl (Failed ''no proto files found in '')
        else (case protoc (validate_args dir tmp recursive files) of
            Some err \<Rightarrow> Inl (Failed (''validation failed: '' @ err))
          | None \<Rightarrow> rbind (collect (\<lambda>p. rbind (parse_path ''failed to read file '' ''validation failed for '' pc fs p) (\<lambda>_. Inr [()])) files) (\<lambda>_. Inr ()))))"

end
