(* ===== verification/Cli_Props.thy ===== *)
theory Cli_Props
  imports Cli_Files Lint_Props Serialize_Props
begin

text \<open>What the commands of the command line client guarantee.\<close>

section \<open>Paths and walks\<close>

text \<open>Entries have names that stand for one directory entry.\<close>

definition fs_named :: "file_system \<Rightarrow> bool" where
  "fs_named fs \<longleftrightarrow> list_all (\<lambda>(p, n). list_all plain_name p) fs"

lemma split_join: "cs \<noteq> [] \<Longrightarrow> list_all plain_name cs \<Longrightarrow> split_on (CHR ''/'') (join_strings ''/'' cs) = cs"
proof (induction cs rule: induct_list012)
  case (2 c)
  then show ?case by (simp add: plain_name_def split_on_single)
next
  case (3 c d cs)
  then show ?case by (simp add: plain_name_def split_on_join)
qed simp

lemma join_inj: "cs \<noteq> [] \<Longrightarrow> ds \<noteq> [] \<Longrightarrow> list_all plain_name cs \<Longrightarrow> list_all plain_name ds \<Longrightarrow>
    join_strings ''/'' cs = join_strings ''/'' ds \<Longrightarrow> cs = ds"
  by (metis split_join)

lemma node_at_named: "fs_named fs \<Longrightarrow> node_at fs p = Some n \<Longrightarrow> list_all plain_name p"
  by (auto simp: node_at_def fs_named_def list_all_iff split: if_splits dest!: map_of_SomeD)

text \<open>What a walk of a directory visits, in a tree.\<close>

definition visible :: "(path \<Rightarrow> bool) \<Rightarrow> file_system \<Rightarrow> path \<Rightarrow> path \<Rightarrow> bool" where
  "visible skip fs dir p \<longleftrightarrow> strict_prefix dir p \<and>
     (\<forall>q. strict_prefix dir q \<longrightarrow> prefix q p \<longrightarrow> node_at fs q = Some Directory \<longrightarrow> \<not> skip q)"

lemma below_iff: "length dir < length p \<and> take (length dir) p = dir \<longleftrightarrow> strict_prefix dir p"
  by (metis append_eq_conv_conj prefix_def prefix_length_less strict_prefixE strict_prefixI less_irrefl)

lemma skips_iff:
  assumes that: "strict_prefix dir p"
  shows "\<not> list_ex (\<lambda>k. node_at fs (take k p) = Some Directory \<and> skip (take k p)) [Suc (length dir)..<Suc (length p)] \<longleftrightarrow>
    (\<forall>q. strict_prefix dir q \<longrightarrow> prefix q p \<longrightarrow> node_at fs q = Some Directory \<longrightarrow> \<not> skip q)"
proof -
  have "(\<exists>k. length dir < k \<and> k \<le> length p \<and> q = take k p) \<longleftrightarrow> strict_prefix dir q \<and> prefix q p" for q
  proof
    assume "\<exists>k. length dir < k \<and> k \<le> length p \<and> q = take k p"
    then obtain k where k: "length dir < k" "k \<le> length p" "q = take k p" by blast
    then have "take (length dir) q = dir" "length dir < length q" using that below_iff [of dir p] by (simp_all add: min_def)
    then show "strict_prefix dir q \<and> prefix q p" using below_iff [of dir q] k(3) take_is_prefix by blast
  next
    assume "strict_prefix dir q \<and> prefix q p"
    then have "length dir < length q \<and> length q \<le> length p \<and> q = take (length q) p"
      by (metis append_eq_conv_conj prefix_def prefix_length_le prefix_length_less)
    then show "\<exists>k. length dir < k \<and> k \<le> length p \<and> q = take k p" by blast
  qed
  then have "{k. length dir < k \<and> k \<le> length p \<and> q = take k p} \<noteq> {} \<longleftrightarrow> strict_prefix dir q \<and> prefix q p" for q
    by (simp only: Collect_empty_eq) blast
  then have "q \<in> (\<lambda>k. take k p) ` set [Suc (length dir)..<Suc (length p)] \<longleftrightarrow> strict_prefix dir q \<and> prefix q p" for q
    by (simp only: set_upt image_iff Bex_def atLeastLessThan_iff less_Suc_eq_le Suc_le_eq ex_in_conv [symmetric] mem_Collect_eq conj_assoc)
  then have set: "set (map (\<lambda>k. take k p) [Suc (length dir)..<Suc (length p)]) = {q. strict_prefix dir q \<and> prefix q p}"
    by (simp only: set_map set_eq_iff mem_Collect_eq) simp
  have "list_ex (\<lambda>k. node_at fs (take k p) = Some Directory \<and> skip (take k p)) ks =
      (\<exists>q \<in> set (map (\<lambda>k. take k p) ks). node_at fs q = Some Directory \<and> skip q)" for ks
    by (simp add: list_ex_iff)
  then show ?thesis by (simp only: set) blast
qed

lemma walk_visible:
  assumes "node_at fs dir = Some Directory"
  shows "\<exists>es. walk False skip fs dir = Inr ((dir, Directory) # es) \<and>
    set es = {(p, n) \<in> set fs. visible skip fs dir p} \<and> (gm_ok fs \<longrightarrow> distinct (map fst es))"
proof -
  let ?ok = "\<lambda>(p, n). length dir < length p \<and> take (length dir) p = dir \<and>
    \<not> list_ex (\<lambda>k. node_at fs (take k p) = Some Directory \<and> skip (take k p)) [Suc (length dir)..<Suc (length p)]"
  have ok: "?ok (p, n) \<longleftrightarrow> visible skip fs dir p" for p and n :: fs_node
    using skips_iff [of dir p fs skip] by (cases "strict_prefix dir p") (simp_all only: prod.case conj_assoc [symmetric] below_iff visible_def simp_thms)
  have "walk False skip fs dir = Inr ((dir, Directory) # filter ?ok (sort_key fst fs))" using assms by (simp only: walk_def option.case fs_node.case if_False)
  moreover have "set (filter ?ok (sort_key fst fs)) = {(p, n) \<in> set fs. visible skip fs dir p}"
    using ok by (auto simp del: upt_Suc)
  moreover have "distinct (map fst (filter ?ok (sort_key fst fs)))" if "gm_ok fs"
  proof -
    have "mset (map fst (sort_key fst fs)) = mset (map fst fs)" by simp
    then have "distinct (map fst (sort_key fst fs))" using that by (metis gm_ok_def mset_eq_imp_distinct_iff)
    then show ?thesis by (rule distinct_map_filter)
  qed
  ultimately show ?thesis by blast
qed

section \<open>The lint command\<close>

definition linted :: "file_system \<Rightarrow> path \<Rightarrow> path \<Rightarrow> string \<Rightarrow> bool" where
  "linted fs dir p d \<longleftrightarrow> node_at fs p = Some (Regular d) \<and> is_proto p \<and> visible (\<lambda>q. skipped_by_lint (last q)) fs dir p"

definition lint_config_of :: "yaml_codec \<Rightarrow> file_system \<Rightarrow> lint_options \<Rightarrow> path \<Rightarrow> cli_error + lint_config" where
  "lint_config_of yaml fs opts dir =
     (case lo_config opts of Some p \<Rightarrow> load_lint_config yaml fs p | None \<Rightarrow> load_lint_config_from_dir yaml fs dir)"

lemma collect_single: "(\<And>x. x \<in> set xs \<Longrightarrow> f x = Inr [g x]) \<Longrightarrow> collect f xs = Inr (map g xs)"
  by (induction xs) simp_all

lemma fold_put_distinct: "distinct (map fst (m @ xs)) \<Longrightarrow> fold (\<lambda>(k, v). gm_put k v) xs m = m @ xs"
proof (induction xs arbitrary: m)
  case (Cons x xs)
  then have "gm_put (fst x) (snd x) m = m @ [x]" by (simp add: gm_put_fresh)
  then show ?case using Cons.IH [of "m @ [x]"] Cons.prems by (simp add: split_beta)
qed simp

lemma show_path_inj: "fs_named fs \<Longrightarrow> inj_on show_path {p. p \<noteq> [] \<and> node_at fs p \<noteq> None}"
  by (auto simp: inj_on_def show_path_def dest: node_at_named intro: join_inj)

lemma lint_finds:
  assumes "gm_ok fs" and "node_at fs dir = Some Directory" and "\<not> skipped_by_lint name"
  shows "\<exists>files. lint_find_proto_files fs name dir = Inr files \<and> distinct files \<and> set files = {p. \<exists>d. linted fs dir p d}"
proof -
  obtain es where w: "walk False (\<lambda>p. skipped_by_lint (last p)) fs dir = Inr ((dir, Directory) # es)" and d: "distinct (map fst es)"
    and es: "set es = {(p, n) \<in> set fs. visible (\<lambda>p. skipped_by_lint (last p)) fs dir p}"
    using walk_visible [OF assms(2)] assms(1) by blast
  let ?P = "\<lambda>(p, n). n \<noteq> Directory \<and> is_proto p"
  have "node_at fs p = Some n \<longleftrightarrow> (p, n) \<in> set fs" if "visible skip fs dir p" for p n skip
    using that assms(1) by (auto simp: node_at_def visible_def gm_get_iff)
  then have "linted fs dir p d \<longleftrightarrow> (p, Regular d) \<in> set es \<and> is_proto p" for p d
    by (auto simp: es linted_def)
  then have "set (map fst (filter ?P es)) = {p. \<exists>d. linted fs dir p d}"
    by (auto simp: image_iff) (metis fs_node.exhaust)+
  moreover have "lint_find_proto_files fs name dir = Inr (map fst (filter ?P es))"
    using assms(3) w by (simp add: lint_find_proto_files_def)
  ultimately show ?thesis using distinct_map_filter [OF d, of ?P] by blast
qed


definition small_tree :: file_system where
  "small_tree = [([''w''], Directory), ([''w'', ''a.proto''], Regular ''x'')]"

definition bad_name_compiler :: proto_compiler where
  "bad_name_compiler = (\<lambda>_ _. Inr [plain_file [Message_Descriptor ''bad_name'' [] [] [] []]])"

definition text_options :: lint_options where
  "text_options = \<lparr>lo_config = None, lo_format = ''text'', lo_fail_on_error = True, lo_fail_on_warning = False, lo_rules = False\<rparr>"

definition bad_name_ast :: "string \<Rightarrow> root_node" where
  "bad_name_ast s = finish_root (convert_descriptor (protodescriptor_to_proto (plain_file [Message_Descriptor ''bad_name'' [] [] [] []])) s)"

lemma bad_name_file: "\<not> well_named (bad_name_ast s)"
proof -
  have "rn_messages (bad_name_ast s) = [MessageNode ''bad_name'' [] [] [] [] [] [] [] (at_line (line_in (pm_messages (extract_positions s)) ''bad_name'')) pos0]"
    by (simp add: bad_name_ast_def finish_root_def convert_descriptor_def Let_def protodescriptor_to_proto_def plain_file_def enumerate_eq_zip)
  moreover have "\<not> lint_pascal_case ''bad_name''" by code_simp
  ultimately show ?thesis by (simp add: well_named_def file_messages_def)
qed

lemma small_tree_linted: "linted small_tree [''w''] p d \<longleftrightarrow> p = [''w'', ''a.proto''] \<and> d = ''x''"
proof
  assume l: "linted small_tree [''w''] p d"
  then have "p \<noteq> []" by (auto simp: linted_def visible_def)
  then have "gm_get small_tree p = Some (Regular d)" using l by (simp add: linted_def node_at_def)
  then show "p = [''w'', ''a.proto''] \<and> d = ''x''" by (simp add: small_tree_def split: if_splits)
next
  assume "p = [''w'', ''a.proto''] \<and> d = ''x''"
  moreover have node: "node_at small_tree [''w'', ''a.proto''] = Some (Regular ''x'')" by (simp add: node_at_def small_tree_def)
  moreover have "is_proto [''w'', ''a.proto'']" by code_simp
  moreover have "visible (\<lambda>q. skipped_by_lint (last q)) small_tree [''w''] [''w'', ''a.proto'']"
    using node
    by (auto simp: visible_def strict_prefix_def prefix_def Cons_eq_append_conv append_eq_Cons_conv)
  ultimately show "linted small_tree [''w''] p d" by (simp add: linted_def)
qed


end
