(* ===== verification/Cli_Registry.thy ===== *)
theory Cli_Registry
  imports Cli_Files Api_Server
begin

text \<open>
  The commands that talk to a registry: \<open>push\<close>, \<open>pull\<close> and \<open>batch-push\<close> (\<open>pkg/cli/push.go\<close>, \<open>pull.go\<close>,
  \<open>batch_push.go\<close>). The registry is a record of the requests they send, each answered by a transport error or by
  a status and what the body decodes to; \<open>None\<close> is no answer. \<open>git\<close> is a parameter: the output of each command
  that succeeds, in a directory.
\<close>

section \<open>The registry as a client sees it\<close>

record 's registry_client =
  rc_post_module :: "api_module \<Rightarrow> 's \<Rightarrow> ((string + nat) \<times> 's) option"
  rc_post_version :: "string \<Rightarrow> api_version \<Rightarrow> 's \<Rightarrow> ((string + nat) \<times> 's) option"
  rc_get_version :: "string \<Rightarrow> string \<Rightarrow> 's \<Rightarrow> ((string + nat \<times> api_version option) \<times> 's) option"

text \<open>
  The connection to a server: what a module and a version become when they are written as JSON and read again, and the
  status for a path that is not one of the routes as the client means them.
\<close>

record wire =
  wi_module :: "api_module \<Rightarrow> api_module"
  wi_version :: "api_version \<Rightarrow> api_version"
  wi_elsewhere :: "string list \<Rightarrow> nat"

text \<open>A name that is one segment of a URL as it is written: the client does not escape it.\<close>

definition url_segment :: "string \<Rightarrow> bool" where
  "url_segment s \<longleftrightarrow> s \<noteq> [] \<and> s \<noteq> ''.'' \<and> s \<noteq> ''..'' \<and>
     list_all (\<lambda>c. in_range (CHR ''a'') (CHR ''z'') c \<or> in_range (CHR ''A'') (CHR ''Z'') c \<or> is_digit c \<or> c \<in> {CHR ''-'', CHR ''.'', CHR ''_'', CHR ''~''}) s"

text \<open>The version that any other JSON object decodes to.\<close>

definition empty_version :: api_version where
  "empty_version = \<lparr>av_module = [], av_version = [], av_files = [], av_created = 0, av_dependencies = [],
     av_source = \<lparr>si_repository = [], si_commit = [], si_branch = []\<rparr>, av_compilation = []\<rparr>"

definition client_request :: "(string \<times> string) list \<Rightarrow> 'b option \<Rightarrow> 'b web_request" where
  "client_request vars body = \<lparr>wq_http = \<lparr>rq_method = [], rq_headers = [(''User-Agent'', ''Go-http-client/1.1'')],
     rq_remote = [], rq_vars = vars, rq_ctx = []\<rparr>, wq_query = [], wq_body = body\<rparr>"

text \<open>What the client gets of an answer: a panic closes the connection.\<close>

definition received :: "(nat \<times> api_payload \<Rightarrow> 'a) \<Rightarrow> ((go_panic + api_reply) \<times> api_server) option \<Rightarrow> ((string + 'a) \<times> api_server) option" where
  "received read = map_option (\<lambda>(x, s). (case x of Inl _ \<Rightarrow> Inl ''EOF'' | Inr parts \<Rightarrow> Inr (read (hd parts)), s))"

definition version_of_payload :: "wire \<Rightarrow> api_payload \<Rightarrow> api_version" where
  "version_of_payload w p = (case p of Version_Json v \<Rightarrow> wi_version w v | _ \<Rightarrow> empty_version)"

definition api_registry :: "api_env \<Rightarrow> wire \<Rightarrow> api_server registry_client" where
  "api_registry e w =
     \<lparr>rc_post_module = (\<lambda>m s. received fst (handle_create_module e (client_request [] (Some (wi_module w m))) s)),
      rc_post_version = (\<lambda>m v s.
        if url_segment m then received fst (handle_create_version e (client_request [(''name'', m)] (Some (wi_version w v))) s)
        else Some (Inr (wi_elsewhere w [''modules'', m, ''versions'']), s)),
      rc_get_version = (\<lambda>m v s.
        if url_segment m \<and> url_segment v then
          received (\<lambda>(status, p). (status, Some (version_of_payload w p)))
            (handle_get_version e (client_request [(''name'', m), (''version'', v)] None) s)
        else Some (Inr (wi_elsewhere w [''modules'', m, ''versions'', v], None), s))\<rparr>"

section \<open>Git\<close>

record git_env =
  ge_run :: "path \<Rightarrow> string list \<Rightarrow> string option"
  ge_var :: "string \<Rightarrow> string"

definition unknown_source :: source_info where
  "unknown_source = \<lparr>si_repository = ''unknown'', si_commit = ''unknown'', si_branch = ''unknown''\<rparr>"

definition repository_url :: "string \<Rightarrow> string" where
  "repository_url out =
     (let repo = trim_space out;
          repo = (if has_prefix repo ''git@'' \<and> CHR '':'' \<in> set repo then
             ''https://'' @ trim_prefix (takeWhile (\<lambda>c. c \<noteq> CHR '':'') repo) ''git@'' @ ''/'' @
               tl (dropWhile (\<lambda>c. c \<noteq> CHR '':'') repo)
           else repo)
      in trim_suffix repo ''.git'')"

definition branch_of :: "git_env \<Rightarrow> string \<Rightarrow> string" where
  "branch_of ge out =
     (let branch = trim_space out; ref = ge_var ge ''GITHUB_REF''; name = ge_var ge ''CI_COMMIT_REF_NAME'' in
      if branch = ''HEAD'' then
        (if ref \<noteq> [] then trim_prefix ref ''refs/heads/'' else if name \<noteq> [] then name else branch)
      else branch)"

definition with_git :: "git_env \<Rightarrow> path \<Rightarrow> string list \<Rightarrow> source_info" where
  "with_git ge dir commit =
     (let i = unknown_source;
          i = (case ge_run ge dir [''config'', ''--get'', ''remote.origin.url''] of
                 Some out \<Rightarrow> i\<lparr>si_repository := repository_url out\<rparr> | None \<Rightarrow> i);
          i = (case ge_run ge dir commit of Some out \<Rightarrow> i\<lparr>si_commit := trim_space out\<rparr> | None \<Rightarrow> i)
      in (case ge_run ge dir [''rev-parse'', ''--abbrev-ref'', ''HEAD''] of
            Some out \<Rightarrow> i\<lparr>si_branch := branch_of ge out\<rparr> | None \<Rightarrow> i))"

definition get_git_info :: "git_env \<Rightarrow> file_system \<Rightarrow> path \<Rightarrow> source_info" where
  "get_git_info ge fs dir =
     (let git = join_path dir [''.git''] in
      if node_at fs git = None \<and> missing fs git = Not_Exist \<and> ge_run ge dir [''rev-parse'', ''--show-toplevel''] = None
      then unknown_source
      else with_git ge dir [''rev-parse'', ''HEAD''])"

section \<open>Push\<close>

definition parse_imports :: "proto_compiler \<Rightarrow> string \<Rightarrow> cli_error + proto_import list" where
  "parse_imports pc content = (case extract_proto_imports pc content of
     Inl (Parse_Error _) \<Rightarrow> Inr [] | Inl (Parse_Panic p) \<Rightarrow> Inl (Panicked p) | Inr is \<Rightarrow> Inr is)"

definition add_imports :: "string \<Rightarrow> proto_import list \<Rightarrow> (string, string) gomap \<Rightarrow> (string, string) gomap" where
  "add_imports mname is deps =
     fold (\<lambda>i ds. if pi_module i \<noteq> [] \<and> pi_module i \<noteq> mname then gm_put (pi_module i) (pi_version i) ds else ds) is deps"

text \<open>The files and dependencies gathered so far.\<close>

type_synonym push_state = "api_file list \<times> (string, string) gomap"

definition push_entry :: "proto_compiler \<Rightarrow> string \<Rightarrow> path \<Rightarrow> path \<times> fs_node \<Rightarrow> push_state \<Rightarrow> cli_error + push_state" where
  "push_entry pc mname dir = (\<lambda>(p, n) (files, deps). case n of
     Directory \<Rightarrow> Inr (files, deps)
   | Regular d \<Rightarrow>
       if is_proto p then rbind (parse_imports pc d) (\<lambda>is.
         Inr (files @ [\<lparr>af_path = rel_path dir p, af_content = d\<rparr>], add_imports mname is deps))
       else Inr (files, deps))"

fun push_entries :: "proto_compiler \<Rightarrow> string \<Rightarrow> path \<Rightarrow> (path \<times> fs_node) list \<Rightarrow> push_state \<Rightarrow> cli_error + push_state" where
  "push_entries pc mname dir [] st = Inr st"
| "push_entries pc mname dir (e # es) st = rbind (push_entry pc mname dir e st) (push_entries pc mname dir es)"

definition dependency_list :: "(string, string) gomap \<Rightarrow> string list" where
  "dependency_list deps = map (\<lambda>(m, v). m @ ''@'' @ v) deps"

definition new_module :: "string \<Rightarrow> string \<Rightarrow> api_module" where
  "new_module name description = \<lparr>am_name = name, am_description = description, am_created = 0, am_updated = 0\<rparr>"

text \<open>The number of files pushed. Whether the module could be created is not looked at.\<close>

definition run_push :: "'s registry_client \<Rightarrow> proto_compiler \<Rightarrow> git_env \<Rightarrow> file_system \<Rightarrow> string \<Rightarrow> string \<Rightarrow> string \<Rightarrow> path \<Rightarrow> 's \<Rightarrow>
    ((cli_error + nat) \<times> 's) option" where
  "run_push R pc ge fs mname version description dir s =
     (if mname = [] \<or> version = [] then Some (Inl (Failed ''module and version are required''), s)
      else Option.bind (rc_post_module R (new_module mname description) s) (\<lambda>(r, s). case r of
        Inl e \<Rightarrow> Some (Inl (Failed (''failed to create module: '' @ e)), s)
      | Inr _ \<Rightarrow> (case walk False (\<lambda>_. False) fs dir of
          Inl e \<Rightarrow> Some (Inl (Failed_Os ''failed to collect proto files: '' e), s)
        | Inr entries \<Rightarrow> (case push_entries pc mname dir entries ([], []) of
            Inl e \<Rightarrow> Some (Inl e, s)
          | Inr (files, deps) \<Rightarrow>
              Option.bind (rc_post_version R mname
                (empty_version\<lparr>av_version := version, av_files := files, av_dependencies := dependency_list deps,
                  av_source := get_git_info ge fs dir\<rparr>) s) (\<lambda>(r, s). Some (case r of
                Inl e \<Rightarrow> (Inl (Failed (''failed to create version: '' @ e)), s)
              | Inr status \<Rightarrow>
                  if status \<noteq> 201 \<and> status \<noteq> 200 then (Inl (Failed ''failed to create version: ''), s)
                  else (Inr (length files), s)))))))"

section \<open>Pull\<close>

fun save_files :: "path \<Rightarrow> api_file list \<Rightarrow> file_system \<Rightarrow> (cli_error + unit) \<times> file_system" where
  "save_files dir [] fs = (Inr (), fs)"
| "save_files dir (f # files) fs =
     (let p = join_path dir [af_path f] in
      case mkdir_all (butlast p) fs of
        Inl e \<Rightarrow> (Inl (Failed_Os (''failed to create directory for '' @ af_path f) e), fs)
      | Inr fs \<Rightarrow> (case write_file p (af_content f) fs of
          Inl e \<Rightarrow> (Inl (Failed_Os (''failed to write file '' @ af_path f) e), fs)
        | Inr fs \<Rightarrow> save_files dir files fs))"

text \<open>One version, without its dependencies, which are returned.\<close>

definition pull_version :: "'s registry_client \<Rightarrow> path \<Rightarrow> string \<Rightarrow> string \<Rightarrow> file_system \<Rightarrow> 's \<Rightarrow>
    ((cli_error + string list) \<times> file_system \<times> 's) option" where
  "pull_version R dir mname version fs s =
     (if mname = [] \<or> version = [] then Some (Inl (Failed ''module and version are required''), fs, s)
      else (case mkdir_all (join_path dir [mname]) fs of
        Inl e \<Rightarrow> Some (Inl (Failed_Os ''failed to create base directory: '' e), fs, s)
      | Inr fs \<Rightarrow> Option.bind (rc_get_version R mname version s) (\<lambda>(r, s). Some (case r of
          Inl e \<Rightarrow> (Inl (Failed (''failed to get version: '' @ e)), fs, s)
        | Inr (status, body) \<Rightarrow>
            if status = 404 then (Inl (Failed ''version not found''), fs, s)
            else (case body of
              None \<Rightarrow> (Inl (Failed ''failed to decode version: ''), fs, s)
            | Some v \<Rightarrow> (case save_files (join_path dir [mname]) (av_files v) fs of
                (Inl e, fs) \<Rightarrow> (Inl e, fs, s) | (Inr _, fs) \<Rightarrow> (Inr (av_dependencies v), fs, s)))))))"

text \<open>The loop over the dependencies, given the command itself.\<close>

fun pull_dependencies :: "(string \<Rightarrow> string \<Rightarrow> file_system \<Rightarrow> 's \<Rightarrow> ((cli_error + unit) \<times> file_system \<times> 's) option) \<Rightarrow> path \<Rightarrow>
    string list \<Rightarrow> file_system \<Rightarrow> 's \<Rightarrow> ((cli_error + unit) \<times> file_system \<times> 's) option" where
  "pull_dependencies pull dir [] fs s = Some (Inr (), fs, s)"
| "pull_dependencies pull dir (d # ds) fs s = (case split_on (CHR ''@'') d of
     [m, v] \<Rightarrow> (case mkdir_all (join_path dir [m]) fs of
         Inl e \<Rightarrow> Some (Inl (Failed_Os ''failed to create dependency directory: '' e), fs, s)
       | Inr fs \<Rightarrow> Option.bind (pull m v fs s) (\<lambda>(r, fs, s). case r of
           Inl e \<Rightarrow> Some (Inl e, fs, s) | Inr _ \<Rightarrow> pull_dependencies pull dir ds fs s))
   | _ \<Rightarrow> Some (Inl (Failed (''invalid dependency format: '' @ d)), fs, s))"

lemma pull_dependencies_mono [partial_function_mono]:
  assumes "\<And>m v fs s. mono_option (\<lambda>f. pull f m v fs s)"
  shows "mono_option (\<lambda>f. pull_dependencies (pull f) dir ds fs s)"
proof (induction ds arbitrary: fs s)
  case (Cons d ds)
  have step: "mono_option (\<lambda>f. Option.bind (pull f m v fs s) (\<lambda>(r, fs, s). case r of
      Inl e \<Rightarrow> Some (Inl e, fs, s) | Inr _ \<Rightarrow> pull_dependencies (pull f) dir ds fs s))" for m v fs s
    by (intro bind_mono assms, rename_tac y, case_tac y, rename_tac r fs' s', case_tac r) (simp_all add: option.const_mono Cons)
  show ?case
  proof (cases "\<exists>m v. split_on (CHR ''@'') d = [m, v]")
    case True
    then obtain m v where "split_on (CHR ''@'') d = [m, v]" by blast
    then show ?thesis by (cases "mkdir_all (join_path dir [m]) fs") (simp_all add: option.const_mono step)
  next
    case False
    then have "pull_dependencies (pull f) dir (d # ds) fs s = Some (Inl (Failed (''invalid dependency format: '' @ d)), fs, s)" for f
      by (auto split: list.split)
    then show ?thesis by (simp only: option.const_mono)
  qed
qed (simp add: option.const_mono)

partial_function (option) run_pull :: "'s registry_client \<Rightarrow> path \<Rightarrow> bool \<Rightarrow> string \<Rightarrow> string \<Rightarrow> file_system \<Rightarrow> 's \<Rightarrow>
    ((cli_error + unit) \<times> file_system \<times> 's) option" where
  "run_pull R dir recursive mname version fs s =
     Option.bind (pull_version R dir mname version fs s) (\<lambda>(r, fs, s). case r of
       Inl e \<Rightarrow> Some (Inl e, fs, s)
     | Inr deps \<Rightarrow> if recursive then pull_dependencies (\<lambda>m v fs s. run_pull R dir True m v fs s) dir deps fs s else Some (Inr (), fs, s))"

end
