(* ===== verification/Cli_Registry_Props.thy ===== *)
theory Cli_Registry_Props
  imports Cli_Registry Cli_Props Api_Props
begin

text \<open>What a push followed by a pull gives back, over any registry that serves what it accepts, and over the server.\<close>

section \<open>The files of a push\<close>

text \<open>The file a push sends for an entry of the directory, and the files for all of them.\<close>

definition sent_file :: "path \<Rightarrow> path \<times> fs_node \<Rightarrow> api_file option" where
  "sent_file dir e = (case snd e of Directory \<Rightarrow> None
     | Regular d \<Rightarrow> if is_proto (fst e) then Some \<lparr>af_path = rel_path dir (fst e), af_content = d\<rparr> else None)"

definition local_protos :: "file_system \<Rightarrow> path \<Rightarrow> api_file list" where
  "local_protos fs dir = (case walk False (\<lambda>_. False) fs dir of Inl _ \<Rightarrow> [] | Inr es \<Rightarrow> List.map_filter (sent_file dir) es)"

text \<open>What is sent: imports have no module of their own, so there never is a dependency.\<close>

definition posted_version :: "git_env \<Rightarrow> file_system \<Rightarrow> path \<Rightarrow> string \<Rightarrow> api_version" where
  "posted_version ge fs dir v =
     empty_version\<lparr>av_version := v, av_files := local_protos fs dir, av_source := get_git_info ge fs dir\<rparr>"

lemma sent_file_iff: "sent_file dir (p, n) = Some f \<longleftrightarrow>
    (\<exists>d. n = Regular d \<and> is_proto p \<and> f = \<lparr>af_path = rel_path dir p, af_content = d\<rparr>)"
  by (cases n) (simp_all add: sent_file_def eq_commute)

lemma sent_file_simps [simp]: "sent_file dir (p, Directory) = None"
  "sent_file dir (p, Regular d) = (if is_proto p then Some \<lparr>af_path = rel_path dir p, af_content = d\<rparr> else None)"
  by (simp_all add: sent_file_def)

lemma set_map_filter: "y \<in> set (List.map_filter f xs) \<longleftrightarrow> (\<exists>x \<in> set xs. f x = Some y)"
  by (induction xs) (auto simp: map_filter_simps split: option.split)

lemma rbind_Inr_map: "rbind x (\<lambda>a. Inr (g a)) = Inr y \<Longrightarrow> \<exists>a. y = g a"
  by (cases x) auto

lemma fold_unchanged: "\<forall>x \<in> set xs. f x s = s \<Longrightarrow> fold f xs s = s"
  by (induction xs) simp_all

lemma imports_without_module:
  assumes "parse_imports pc d = Inr is"
  shows "add_imports m is deps = deps"
proof -
  have "\<forall>i \<in> set is. pi_module i = []"
  proof (cases "extract_proto_imports pc d")
    case (Inl e)
    then show ?thesis using assms by (cases e) (simp_all add: parse_imports_def)
  next
    case (Inr js)
    have "is = js" using assms by (simp add: parse_imports_def Inr)
    moreover have "\<forall>i \<in> set js. pi_module i = []"
      using rbind_Inr_map [OF Inr [unfolded extract_proto_imports_def]] by (elim exE) simp
    ultimately show ?thesis by simp
  qed
  then show ?thesis unfolding add_imports_def by (intro fold_unchanged) simp
qed

lemma push_entries_files:
  assumes "\<And>p d. (p, Regular d) \<in> set es \<Longrightarrow> is_proto p \<Longrightarrow> is_ok (parse_imports pc d)"
  shows "push_entries pc m dir es (files, deps) = Inr (files @ List.map_filter (sent_file dir) es, deps)"
  using assms
proof (induction es arbitrary: files)
  case (Cons e es)
  have IH: "push_entries pc m dir es (files, deps) = Inr (files @ List.map_filter (sent_file dir) es, deps)" for files
    using Cons by (meson list.set_intros(2))
  obtain p n where e: "e = (p, n)" by fastforce
  show ?case
  proof (cases n)
    case Directory
    then show ?thesis using IH by (simp add: e push_entry_def map_filter_simps)
  next
    case (Regular d)
    show ?thesis
    proof (cases "is_proto p")
      case True
      then obtain "is" where i: "parse_imports pc d = Inr is"
        using Cons.prems [of p d] Regular e by (auto simp: is_ok_iff)
      then show ?thesis using True Regular IH
        by (simp add: e push_entry_def map_filter_simps imports_without_module [OF i])
    next
      case False
      then show ?thesis using Regular IH by (simp add: e push_entry_def map_filter_simps)
    qed
  qed
qed (simp add: map_filter_simps)

text \<open>In a tree with proper names, these files have plain paths that lie side by side.\<close>

lemma local_protos_entries:
  assumes "gm_ok fs" "fs_named fs" and "node_at fs dir = Some Directory"
  shows "\<exists>es. walk False (\<lambda>_. False) fs dir = Inr ((dir, Directory) # es) \<and> distinct (map fst es) \<and>
    (\<forall>p n. (p, n) \<in> set es \<longleftrightarrow> strict_prefix dir p \<and> node_at fs p = Some n) \<and>
    (\<forall>p n. (p, n) \<in> set es \<longrightarrow> (\<exists>r. p = dir @ r \<and> r \<noteq> [] \<and> list_all plain_name r \<and> split_on (CHR ''/'') (rel_path dir p) = r))"
proof -
  obtain es where w: "walk False (\<lambda>_. False) fs dir = Inr ((dir, Directory) # es)" and dist: "distinct (map fst es)"
    and es: "set es = {(p, n) \<in> set fs. visible (\<lambda>_. False) fs dir p}"
    using walk_visible [OF assms(3)] assms(1) by blast
  have elem: "(p, n) \<in> set es \<longleftrightarrow> strict_prefix dir p \<and> node_at fs p = Some n" for p n
    using assms(1) by (auto simp: es visible_def node_at_def gm_get_iff)
  have "\<exists>r. p = dir @ r \<and> r \<noteq> [] \<and> list_all plain_name r \<and> split_on (CHR ''/'') (rel_path dir p) = r" if e: "(p, n) \<in> set es" for p n
  proof -
    have p: "strict_prefix dir p" "list_all plain_name p" using e elem node_at_named [OF assms(2)] by auto
    then obtain r where r: "p = dir @ r" "r \<noteq> []" by (auto simp: strict_prefix_def prefix_def)
    then show ?thesis using p(2) by (intro exI [of _ r]) (simp_all add: rel_path_def split_join)
  qed
  then show ?thesis using w dist elem by blast
qed

lemma local_protos_mem:
  assumes "gm_ok fs" "fs_named fs" and "node_at fs dir = Some Directory"
  shows "f \<in> set (local_protos fs dir) \<longleftrightarrow> (\<exists>r. r \<noteq> [] \<and> file_path f = r \<and> af_path f = rel_path dir (dir @ r) \<and>
    list_all plain_name r \<and> node_at fs (dir @ r) = Some (Regular (af_content f)) \<and> is_proto (dir @ r))"
proof -
  obtain es where w: "walk False (\<lambda>_. False) fs dir = Inr ((dir, Directory) # es)"
    and elem: "\<And>p n. (p, n) \<in> set es \<longleftrightarrow> strict_prefix dir p \<and> node_at fs p = Some n"
    and rel: "\<And>p n. (p, n) \<in> set es \<Longrightarrow> \<exists>r. p = dir @ r \<and> r \<noteq> [] \<and> list_all plain_name r \<and> split_on (CHR ''/'') (rel_path dir p) = r"
    using local_protos_entries [OF assms] by blast
  have "f \<in> set (local_protos fs dir) \<longleftrightarrow> (\<exists>e \<in> set es. sent_file dir e = Some f)"
    by (simp add: local_protos_def w map_filter_simps set_map_filter)
  also have "\<dots> \<longleftrightarrow> (\<exists>p d. (p, Regular d) \<in> set es \<and> is_proto p \<and> f = \<lparr>af_path = rel_path dir p, af_content = d\<rparr>)"
    by (auto simp: sent_file_iff Bex_def split_paired_Ex)
  also have "\<dots> \<longleftrightarrow> (\<exists>r. r \<noteq> [] \<and> file_path f = r \<and> af_path f = rel_path dir (dir @ r) \<and>
    list_all plain_name r \<and> node_at fs (dir @ r) = Some (Regular (af_content f)) \<and> is_proto (dir @ r))"
  proof
    assume "\<exists>p d. (p, Regular d) \<in> set es \<and> is_proto p \<and> f = \<lparr>af_path = rel_path dir p, af_content = d\<rparr>"
    then obtain p d where p: "(p, Regular d) \<in> set es" "is_proto p" "f = \<lparr>af_path = rel_path dir p, af_content = d\<rparr>" by blast
    obtain r where "p = dir @ r" "r \<noteq> []" "list_all plain_name r" "split_on (CHR ''/'') (rel_path dir p) = r"
      using rel [OF p(1)] by blast
    then show "\<exists>r. r \<noteq> [] \<and> file_path f = r \<and> af_path f = rel_path dir (dir @ r) \<and>
        list_all plain_name r \<and> node_at fs (dir @ r) = Some (Regular (af_content f)) \<and> is_proto (dir @ r)"
      using p elem by (intro exI [of _ r]) simp
  next
    assume "\<exists>r. r \<noteq> [] \<and> file_path f = r \<and> af_path f = rel_path dir (dir @ r) \<and>
      list_all plain_name r \<and> node_at fs (dir @ r) = Some (Regular (af_content f)) \<and> is_proto (dir @ r)"
    then obtain r where "r \<noteq> []" "af_path f = rel_path dir (dir @ r)" "node_at fs (dir @ r) = Some (Regular (af_content f))"
      "is_proto (dir @ r)" by blast
    then show "\<exists>p d. (p, Regular d) \<in> set es \<and> is_proto p \<and> f = \<lparr>af_path = rel_path dir p, af_content = d\<rparr>"
      by (intro exI [of _ "dir @ r"] exI [of _ "af_content f"]) (simp add: elem strict_prefix_def)
  qed
  finally show ?thesis .
qed

lemma local_protos_distinct:
  assumes "gm_ok fs" "fs_named fs" and "node_at fs dir = Some Directory"
  shows "distinct (map file_path (local_protos fs dir))"
proof -
  obtain es where w: "walk False (\<lambda>_. False) fs dir = Inr ((dir, Directory) # es)" and dist: "distinct (map fst es)"
    and rel: "\<And>p n. (p, n) \<in> set es \<Longrightarrow> \<exists>r. p = dir @ r \<and> r \<noteq> [] \<and> list_all plain_name r \<and> split_on (CHR ''/'') (rel_path dir p) = r"
    using local_protos_entries [OF assms] by blast
  have parts: "dir @ split_on (CHR ''/'') (rel_path dir p) = p" if "(p, n) \<in> set es" for p n
    using rel [OF that] by blast
  have "distinct (map file_path (List.map_filter (sent_file dir) xs)) \<and>
      (\<forall>r \<in> set (map file_path (List.map_filter (sent_file dir) xs)). dir @ r \<in> fst ` set xs)"
    if "distinct (map fst xs)" "set xs \<subseteq> set es" for xs
    using that
  proof (induction xs)
    case (Cons x xs)
    obtain p n where x: "x = (p, n)" by fastforce
    have IH: "distinct (map file_path (List.map_filter (sent_file dir) xs))"
      "\<forall>r \<in> set (map file_path (List.map_filter (sent_file dir) xs)). dir @ r \<in> fst ` set xs"
      using Cons by simp_all
    show ?case
    proof (cases "sent_file dir x")
      case None
      then show ?thesis using IH by (simp add: map_filter_simps)
    next
      case (Some f)
      then have f: "dir @ file_path f = p" using parts [of p n] Cons.prems(2) by (auto simp: x sent_file_iff)
      then have "file_path f \<notin> set (map file_path (List.map_filter (sent_file dir) xs))"
        using IH(2) Cons.prems(1) x by (metis distinct.simps(2) fst_conv list.set_map list.simps(9))
      then show ?thesis using IH Some f by (simp add: map_filter_simps x)
    qed
  qed (simp add: map_filter_simps)
  then show ?thesis using dist by (simp add: local_protos_def w map_filter_simps)
qed

lemma local_protos_ok:
  assumes "fs_wf fs" "fs_named fs" and "node_at fs dir = Some Directory"
    and "node_at fs (dir @ [''version.json'']) \<noteq> Some Directory"
  shows "list_all (\<lambda>f. plain_path (af_path f)) (local_protos fs dir)"
    and "apart ([''version.json''] # map file_path (local_protos fs dir))"
proof -
  have ok: "gm_ok fs" using assms(1) by (simp add: fs_wf_def)
  note mem = local_protos_mem [OF ok assms(2,3)]
  let ?ps = "map file_path (local_protos fs dir)"
  show "list_all (\<lambda>f. plain_path (af_path f)) (local_protos fs dir)"
    by (auto simp: list_all_iff mem plain_path_def plain_name_def)
  have reg: "r \<noteq> [] \<and> is_proto (dir @ r) \<and> (\<exists>d. node_at fs (dir @ r) = Some (Regular d))" if "r \<in> set ?ps" for r
    using that by (auto simp: mem)
  have below: "\<not> strict_prefix q r" if "r \<in> set ?ps" "node_at fs (dir @ q) \<noteq> Some Directory" for q r
  proof
    assume "strict_prefix q r"
    then obtain t where "r = q @ t" "t \<noteq> []" by (auto simp: strict_prefix_def prefix_def)
    then show False using reg [OF that(1)] that(2) wf_above [OF assms(1), of "dir @ q" t] by auto
  qed
  have no_json: "[''version.json''] \<notin> set ?ps"
  proof
    assume "[''version.json''] \<in> set ?ps"
    from reg [OF this] have "is_proto (dir @ [''version.json''])" by blast
    then show False by (simp add: is_proto_def has_suffix_def)
  qed
  have "\<not> strict_prefix c c'" if "c \<in> set ([''version.json''] # ?ps)" "c' \<in> set ([''version.json''] # ?ps)" for c c'
  proof (cases "c' \<in> set ?ps")
    case True
    have "node_at fs (dir @ c) \<noteq> Some Directory" using that(1) reg [of c] assms(4) by (metis fs_node.distinct(1) option.inject set_ConsD)
    then show ?thesis using below True by blast
  next
    case False
    then have c': "c' = [''version.json'']" using that(2) by simp
    have "c \<noteq> []" using that(1) reg [of c] by (metis not_Cons_self2 set_ConsD)
    then show ?thesis unfolding c' by (cases c) (simp_all add: strict_prefix_def)
  qed
  moreover have "distinct ([''version.json''] # ?ps)"
    using no_json local_protos_distinct [OF ok assms(2,3)] by (simp only: distinct.simps simp_thms)
  ultimately show "apart ([''version.json''] # ?ps)" unfolding apart_def list_all_iff by blast
qed

lemma local_protos_content:
  assumes "gm_ok fs" "fs_named fs" and "node_at fs dir = Some Directory" and "r \<noteq> []"
  shows "(r, d) \<in> (\<lambda>f. (file_path f, af_content f)) ` set (local_protos fs dir) \<longleftrightarrow>
    node_at fs (dir @ r) = Some (Regular d) \<and> is_proto (dir @ r)"
proof
  assume "(r, d) \<in> (\<lambda>f. (file_path f, af_content f)) ` set (local_protos fs dir)"
  then show "node_at fs (dir @ r) = Some (Regular d) \<and> is_proto (dir @ r)"
    using local_protos_mem [OF assms(1-3)] by auto
next
  assume r: "node_at fs (dir @ r) = Some (Regular d) \<and> is_proto (dir @ r)"
  then have "list_all plain_name r" using node_at_named [OF assms(2), of "dir @ r"] by auto
  then have "split_on (CHR ''/'') (rel_path dir (dir @ r)) = r" using assms(4) by (simp add: rel_path_def split_join)
  moreover from this have "\<lparr>af_path = rel_path dir (dir @ r), af_content = d\<rparr> \<in> set (local_protos fs dir)"
    using r assms(4) \<open>list_all plain_name r\<close> by (simp add: local_protos_mem [OF assms(1-3)])
  ultimately show "(r, d) \<in> (\<lambda>f. (file_path f, af_content f)) ` set (local_protos fs dir)"
    by (intro rev_image_eqI [where x = "\<lparr>af_path = rel_path dir (dir @ r), af_content = d\<rparr>"]) simp_all
qed

lemma tree_of_Regular: "distinct (map fst ds) \<Longrightarrow> tree_of ds r = Some (Regular d) \<longleftrightarrow> (r, d) \<in> set ds"
proof -
  assume d: "distinct (map fst ds)"
  have "tree_of ds r = Some (Regular d) \<longleftrightarrow> map_of ds r = Some d" by (simp add: tree_of_def split: option.split)
  then show ?thesis by (simp only: map_of_eq_Some_iff [OF d])
qed

lemma apart_Cons: "apart (c # cs) \<Longrightarrow> apart cs"
  by (auto simp: apart_def list_all_iff)

section \<open>The files of a pull\<close>

lemma save_files_write: "write_files dir files fs = (fs', Inr ()) \<Longrightarrow> save_files dir files fs = (Inr (), fs')"
proof (induction files arbitrary: fs)
  case (Cons f files)
  let ?p = "join_path dir [af_path f]"
  obtain fs1 where mk: "mkdir_all (butlast ?p) fs = Inr fs1" using Cons.prems by (auto simp: Let_def fs_try_def split: sum.splits)
  obtain fs2 where w: "write_file ?p (af_content f) fs1 = Inr fs2" and "write_files dir files fs2 = (fs', Inr ())"
    using Cons.prems mk by (auto simp: Let_def fs_try_def split: sum.splits)
  then show ?case using Cons.IH mk by simp
qed simp

lemma run_pull_writes:
  assumes get: "rc_get_version R m v s = Some (Inr (200, Some body), s')" and deps: "av_dependencies body = []"
    and files: "list_all (\<lambda>f. plain_path (af_path f)) (av_files body)" "apart (map file_path (av_files body))"
    and names: "plain_name m" "v \<noteq> []"
    and fs: "fs_wf fs" "node_at fs (dir @ [m]) = None" "\<not> list_ex (is_regular fs) (chain (dir @ [m]))"
  shows "\<exists>fs'. run_pull R dir rec m v fs s = Some (Inr (), fs', s') \<and>
    holds_tree fs' (dir @ [m]) (map (\<lambda>f. (file_path f, af_content f)) (av_files body))"
proof -
  obtain fs1 where mk: "mkdir_all (dir @ [m]) fs = Inr fs1" and t: "holds_tree fs1 (dir @ [m]) []"
    using mkdir_fresh [OF fs] by blast
  obtain fs' where w: "write_files (dir @ [m]) (av_files body) fs1 = (fs', Inr ())"
    and t': "holds_tree fs' (dir @ [m]) (map (\<lambda>f. (file_path f, af_content f)) (av_files body))"
    using write_files_tree [OF t, of "av_files body"] files by auto
  have "m \<noteq> []" using names(1) by (simp add: plain_name_def)
  then have "pull_version R dir m v fs s = Some (Inr [], fs', s')"
    using names by (simp add: pull_version_def join_plain_name mk get deps save_files_write [OF w])
  then have "run_pull R dir rec m v fs s = Some (Inr (), fs', s')" by (simp add: run_pull.simps)
  then show ?thesis using t' by blast
qed

section \<open>A registry that serves what it accepts\<close>

text \<open>
  What \<open>push\<close> and \<open>pull\<close> rely on: creating the module does not get in the way of a version that is acceptable, and
  such a version is stored and then served with the same files and dependencies.
\<close>

locale registry_service =
  fixes R :: "'s registry_client" and accepts :: "string \<Rightarrow> api_version \<Rightarrow> 's \<Rightarrow> bool"
  assumes module_kept: "accepts m v s \<Longrightarrow>
      \<exists>status s'. rc_post_module R (new_module m d) s = Some (Inr status, s') \<and> accepts m v s'"
    and version_served: "accepts m v s \<Longrightarrow> \<exists>s'. rc_post_version R m v s = Some (Inr 201, s') \<and>
      (\<exists>body s''. rc_get_version R m (av_version v) s' = Some (Inr (200, Some body), s'') \<and>
        av_files body = av_files v \<and> av_dependencies body = av_dependencies v)"
begin

lemma run_push_stores:
  assumes fs: "gm_ok fs" "node_at fs dir = Some Directory" and names: "m \<noteq> []" "v \<noteq> []"
    and parsed: "\<And>p d. node_at fs p = Some (Regular d) \<Longrightarrow> strict_prefix dir p \<Longrightarrow> is_proto p \<Longrightarrow> is_ok (parse_imports pc d)"
    and acc: "accepts m (posted_version ge fs dir v) s"
  shows "\<exists>s'. run_push R pc ge fs m v descr dir s = Some (Inr (length (local_protos fs dir)), s') \<and>
    (\<exists>body s''. rc_get_version R m v s' = Some (Inr (200, Some body), s'') \<and>
      av_files body = local_protos fs dir \<and> av_dependencies body = [])"
proof -
  obtain es where w: "walk False (\<lambda>_. False) fs dir = Inr ((dir, Directory) # es)"
    and es: "set es = {(p, n) \<in> set fs. visible (\<lambda>_. False) fs dir p}"
    using walk_visible [OF fs(2)] fs(1) by blast
  have "is_ok (parse_imports pc d)" if "(p, Regular d) \<in> set ((dir, Directory) # es)" "is_proto p" for p d
  proof -
    have "node_at fs p = Some (Regular d)" "strict_prefix dir p"
      using that fs(1) by (auto simp: es visible_def node_at_def gm_get_iff)
    then show ?thesis using parsed that(2) by blast
  qed
  then have files: "push_entries pc m dir ((dir, Directory) # es) ([], []) = Inr (local_protos fs dir, [])"
    using push_entries_files [of "(dir, Directory) # es" pc m dir "[]" "[]"] by (simp add: local_protos_def w)
  obtain status s1 where post: "rc_post_module R (new_module m descr) s = Some (Inr status, s1)"
    and acc1: "accepts m (posted_version ge fs dir v) s1" using module_kept [OF acc] by blast
  obtain s' body s'' where stored: "rc_post_version R m (posted_version ge fs dir v) s1 = Some (Inr 201, s')"
    and get: "rc_get_version R m v s' = Some (Inr (200, Some body), s'')"
    and body: "av_files body = local_protos fs dir" "av_dependencies body = []"
    using version_served [OF acc1] by (auto simp: posted_version_def empty_version_def)
  have "empty_version\<lparr>av_version := v, av_files := local_protos fs dir, av_dependencies := dependency_list [],
      av_source := get_git_info ge fs dir\<rparr> = posted_version ge fs dir v"
    by (simp add: posted_version_def empty_version_def dependency_list_def)
  then have "run_push R pc ge fs m v descr dir s = Some (Inr (length (local_protos fs dir)), s')"
    using names by (simp add: run_push_def post w files stored del: push_entries.simps)
  then show ?thesis using get body by blast
qed

lemma pull_gives_pushed:
  assumes fs: "fs_wf fs" "fs_named fs" "node_at fs dir = Some Directory" "node_at fs (dir @ [''version.json'']) \<noteq> Some Directory"
    and names: "plain_name m" "v \<noteq> []"
    and parsed: "\<And>p d. node_at fs p = Some (Regular d) \<Longrightarrow> strict_prefix dir p \<Longrightarrow> is_proto p \<Longrightarrow> is_ok (parse_imports pc d)"
    and acc: "accepts m (posted_version ge fs dir v) s"
    and fresh: "fs_wf pfs" "node_at pfs (pdir @ [m]) = None" "\<not> list_ex (is_regular pfs) (chain (pdir @ [m]))"
  shows "\<exists>s' pfs' s''. run_push R pc ge fs m v descr dir s = Some (Inr (length (local_protos fs dir)), s') \<and>
    run_pull R pdir rec m v pfs s' = Some (Inr (), pfs', s'') \<and>
    (\<forall>r d. r \<noteq> [] \<longrightarrow> node_at pfs' (pdir @ m # r) = Some (Regular d) \<longleftrightarrow>
      node_at fs (dir @ r) = Some (Regular d) \<and> is_proto (dir @ r))"
proof -
  have ok: "gm_ok fs" using fs(1) by (simp add: fs_wf_def)
  have m: "m \<noteq> []" using names(1) by (simp add: plain_name_def)
  obtain s' body s'' where push: "run_push R pc ge fs m v descr dir s = Some (Inr (length (local_protos fs dir)), s')"
    and get: "rc_get_version R m v s' = Some (Inr (200, Some body), s'')"
    and body: "av_files body = local_protos fs dir" "av_dependencies body = []"
    using run_push_stores [OF ok fs(3) m names(2) _ acc, of pc descr] parsed by blast
  have files: "list_all (\<lambda>f. plain_path (af_path f)) (av_files body)" "apart (map file_path (av_files body))"
    using local_protos_ok [OF fs] apart_Cons by (auto simp: body)
  obtain pfs' where pull: "run_pull R pdir rec m v pfs s' = Some (Inr (), pfs', s'')"
    and t: "holds_tree pfs' (pdir @ [m]) (map (\<lambda>f. (file_path f, af_content f)) (av_files body))"
    using run_pull_writes [OF get body(2) files names fresh] by blast
  have "node_at pfs' (pdir @ m # r) = Some (Regular d) \<longleftrightarrow> node_at fs (dir @ r) = Some (Regular d) \<and> is_proto (dir @ r)"
    if r: "r \<noteq> []" for r d
  proof -
    have "node_at pfs' (pdir @ m # r) = tree_of (map (\<lambda>f. (file_path f, af_content f)) (local_protos fs dir)) r"
      using t r by (simp add: holds_tree_def body)
    then have "node_at pfs' (pdir @ m # r) = Some (Regular d) \<longleftrightarrow>
        (r, d) \<in> (\<lambda>f. (file_path f, af_content f)) ` set (local_protos fs dir)"
      using local_protos_distinct [OF ok fs(2,3)] by (auto simp: tree_of_Regular o_def)
    also have "\<dots> \<longleftrightarrow> node_at fs (dir @ r) = Some (Regular d) \<and> is_proto (dir @ r)"
      using r by (rule local_protos_content [OF ok fs(2,3)])
    finally show ?thesis .
  qed
  then show ?thesis using push pull by blast
qed

end

section \<open>The server as the registry\<close>

text \<open>
  What the server serves again: names that are single URL segments, a version that is new, whose files can lie side by side,
  and that survives being written as JSON on the way and in the storage.
\<close>

definition stored_version :: "api_env \<Rightarrow> wire \<Rightarrow> string \<Rightarrow> api_version \<Rightarrow> api_version" where
  "stored_version e w m v = (wi_version w v)\<lparr>av_module := m, av_created := ae_now e\<rparr>"

definition api_accepts :: "api_env \<Rightarrow> wire \<Rightarrow> string \<Rightarrow> api_version \<Rightarrow> api_server \<Rightarrow> bool" where
  "api_accepts e w m v s \<longleftrightarrow>
     url_segment m \<and> url_segment (av_version v) \<and> av_version v \<noteq> ''latest'' \<and> fs_wf (as_fs s) \<and>
     (\<forall>d. am_name (wi_module w (new_module m d)) = m) \<and>
     av_version (wi_version w v) = av_version v \<and> can_create (ae_root e) (stored_version e w m v) (as_fs s) \<and>
     (let v' = with_source_defaults (stored_version e w m v) in
        jc_get_version (ae_json e) (jc_put_version (ae_json e) v') = Some v' \<and>
        av_files (wi_version w v') = av_files v \<and> av_dependencies (wi_version w v') = av_dependencies v)"

lemma create_module_nodes:
  assumes "plain_name (am_name m)" and "fst (create_module jc base m fs) = fs'"
  shows "node_at fs' q = node_at fs q \<or> q \<in> set (chain (base @ [am_name m])) \<and> node_at fs' q = Some Directory \<or>
    q = base @ [am_name m, ''module.json'']"
proof -
  have dir: "join_path base [am_name m] = base @ [am_name m]" by (rule join_plain_name [OF assms(1)])
  have json: "join_path (base @ [am_name m]) [''module.json''] = base @ [am_name m, ''module.json'']"
    by (simp add: join_plain_name plain_name_def)
  show ?thesis
  proof (cases "mkdir_all (base @ [am_name m]) fs")
    case (Inl err)
    then show ?thesis using assms(2) by (simp add: create_module_def dir Let_def fs_try_def)
  next
    case (Inr fs1)
    note mk = this
    have "node_at fs1 q = node_at fs q \<or> q \<in> set (chain (base @ [am_name m])) \<and> node_at fs1 q = Some Directory"
      by (simp add: node_at_mkdir_all [OF mk])
    moreover have "node_at fs' q = node_at fs1 q \<or> q = base @ [am_name m, ''module.json'']"
    proof (cases "write_file (base @ [am_name m, ''module.json'']) (jc_put_module jc m) fs1")
      case (Inl err)
      then show ?thesis using assms(2) by (simp add: create_module_def dir json Let_def fs_try_def mk)
    next
      case (Inr fs2)
      then have "fs' = fs2" using assms(2) by (simp add: create_module_def dir json Let_def fs_try_def mk)
      then show ?thesis using node_at_write_file [OF Inr, of q] by simp
    qed
    ultimately show ?thesis by auto
  qed
qed

lemma create_module_keeps_room:
  assumes can: "can_create base v fs" and m: "am_name m = av_module v"
  shows "can_create base v (fst (create_module jc base m fs))"
proof -
  let ?dir = "version_dir base (av_module v) (av_version v)" and ?fs' = "fst (create_module jc base m fs)"
  have plain: "plain_name (av_module v)" "plain_name (av_version v)" using can by (simp_all add: can_create_def)
  have dir: "?dir = base @ [av_module v, ''versions'', av_version v]" by (rule version_dir_plain [OF plain])
  note nodes = create_module_nodes [of m jc base fs ?fs', simplified m, OF plain(1) refl]
  have new: "node_at fs ?dir = None" and clear: "\<not> is_regular fs q" if "q \<in> set (chain ?dir)" for q
    using can that by (simp_all add: can_create_def list_ex_iff)
  have "?dir \<notin> set (chain (base @ [av_module v]))" "?dir \<noteq> base @ [av_module v, ''module.json'']"
    by (simp_all add: dir chain_prefix)
  moreover have "node_at fs ?dir = None" using can by (simp add: can_create_def)
  ultimately have "node_at ?fs' ?dir = None" using nodes [of ?dir] by auto
  moreover have "\<not> is_regular ?fs' q" if q: "q \<in> set (chain ?dir)" for q
  proof -
    have "prefix q ?dir" using q by (auto simp: chain_prefix)
    then have "q \<noteq> base @ [av_module v, ''module.json'']" by (auto simp: dir)
    then have "node_at ?fs' q = node_at fs q \<or> node_at ?fs' q = Some Directory" using nodes [of q] by blast
    then show ?thesis using clear [OF q] by (auto simp: is_regular_def)
  qed
  ultimately show ?thesis using can by (simp add: can_create_def list_ex_iff)
qed

lemma api_module_kept:
  assumes acc: "api_accepts e w m v s"
  shows "\<exists>status s'. rc_post_module (api_registry e w) (new_module m d) s = Some (Inr status, s') \<and> api_accepts e w m v s'"
proof -
  let ?am = "(wi_module w (new_module m d))\<lparr>am_created := ae_now e, am_updated := ae_now e\<rparr>"
  let ?fs' = "fst (create_module (ae_json e) (ae_root e) ?am (as_fs s))"
  have name: "am_name ?am = m" using acc by (simp add: api_accepts_def)
  have "can_create (ae_root e) (stored_version e w m v) (as_fs s)" using acc by (simp add: api_accepts_def)
  then have "can_create (ae_root e) (stored_version e w m v) ?fs'"
    by (rule create_module_keeps_room) (simp add: name stored_version_def)
  moreover have "fs_wf ?fs'" using acc storage_writes_keep_tree [of "as_fs s"] by (simp add: api_accepts_def)
  ultimately have acc': "api_accepts e w m v (s\<lparr>as_fs := ?fs'\<rparr>)" using acc by (simp add: api_accepts_def)
  obtain fs' res where c: "create_module (ae_json e) (ae_root e) ?am (as_fs s) = (fs', res)" by fastforce
  have "\<exists>status. rc_post_module (api_registry e w) (new_module m d) s = Some (Inr status, s\<lparr>as_fs := ?fs'\<rparr>)"
    by (cases res) (simp_all add: api_registry_def received_def handle_create_module_def client_request_def c Let_def)
  then show ?thesis using acc' by blast
qed

lemma api_version_served:
  assumes acc: "api_accepts e w m v s"
  shows "\<exists>s'. rc_post_version (api_registry e w) m v s = Some (Inr 201, s') \<and>
    (\<exists>body s''. rc_get_version (api_registry e w) m (av_version v) s' = Some (Inr (200, Some body), s'') \<and>
      av_files body = av_files v \<and> av_dependencies body = av_dependencies v)"
proof -
  let ?v = "stored_version e w m v" and ?r = "client_request [(''name'', m)] (Some (wi_version w v))"
  let ?v' = "with_source_defaults ?v"
  have parts: "av_version ?v = av_version v" "av_module ?v = m" using acc by (simp_all add: api_accepts_def stored_version_def)
  obtain fs' where c: "create_version (ae_json e) (ae_root e) ?v (as_fs s) = (fs', Inr (), ?v')"
    and g: "fs_get_version (ae_json e) (ae_root e) fs' m (av_version v) = Some (Inr ?v')"
    using create_version_reads_back [of "as_fs s" "ae_root e" ?v "ae_json e"] acc parts
    by (auto simp: api_accepts_def Let_def)
  have name: "path_var ?r ''name'' = m" by (simp add: client_request_def path_var_def)
  have body: "wq_body ?r = Some (wi_version w v)" by (simp add: client_request_def)
  have stored: "(wi_version w v)\<lparr>av_module := path_var ?r ''name'', av_created := ae_now e\<rparr> = ?v"
    by (simp only: name stored_version_def)
  obtain s' where s': "handle_create_version e ?r s = Some (reply 201 (Version_Json ?v'), s')" "as_fs s' = fs'"
    using handle_create_version_ok [OF body, of ?v' e s fs'] c unfolding stored by auto
  have seg: "url_segment m" "url_segment (av_version v)" using acc by (simp_all add: api_accepts_def)
  have "rc_post_version (api_registry e w) m v s = Some (Inr 201, s')"
    by (simp add: api_registry_def seg s'(1) received_def)
  moreover have "\<exists>s''. rc_get_version (api_registry e w) m (av_version v) s' = Some (Inr (200, Some (wi_version w ?v')), s'')"
    by (simp add: api_registry_def seg handle_get_version_def with_version_def client_request_def path_var_def s'(2) g
        received_def version_of_payload_def Let_def)
  moreover have "av_files (wi_version w ?v') = av_files v" "av_dependencies (wi_version w ?v') = av_dependencies v"
    using acc by (simp_all add: api_accepts_def Let_def)
  ultimately show ?thesis by blast
qed

interpretation served: registry_service "api_registry e w" "api_accepts e w" for e w
  by unfold_locales (rule api_module_kept, assumption, rule api_version_served)

text \<open>
  C28. Pushing a directory to the server and pulling it elsewhere gives back its proto files, each with its content at its path
  below the directory, and no other file, in the directory named as the module; whether the pull is recursive
  or not. So it is for a server that accepts the version as one that JSON keeps, a tree of files with proper names, contents the
  import parser does not panic on, and a directory to pull to that is new.
\<close>

theorem push_then_pull:
  assumes "api_accepts e w m (posted_version ge fs dir v) s" and "plain_name m" "v \<noteq> []"
    and "fs_wf fs" "fs_named fs" "node_at fs dir = Some Directory" "node_at fs (dir @ [''version.json'']) \<noteq> Some Directory"
    and "\<And>p d. node_at fs p = Some (Regular d) \<Longrightarrow> strict_prefix dir p \<Longrightarrow> is_proto p \<Longrightarrow> is_ok (parse_imports pc d)"
    and "fs_wf pfs" "node_at pfs (pdir @ [m]) = None" "\<not> list_ex (is_regular pfs) (chain (pdir @ [m]))"
  shows "\<exists>s' pfs' s''. run_push (api_registry e w) pc ge fs m v descr dir s = Some (Inr (length (local_protos fs dir)), s') \<and>
    run_pull (api_registry e w) pdir rec m v pfs s' = Some (Inr (), pfs', s'') \<and>
    (\<forall>r d. r \<noteq> [] \<longrightarrow> node_at pfs' (pdir @ m # r) = Some (Regular d) \<longleftrightarrow>
      node_at fs (dir @ r) = Some (Regular d) \<and> is_proto (dir @ r))"
  by (rule served.pull_gives_pushed [OF assms(4-7,2,3) _ assms(1,9-11)]) (rule assms(8))

section \<open>Applications to concrete inputs\<close>

text \<open>A directory with a proto file in a directory of its own, and another file.\<close>

definition push_files :: file_system where
  "push_files = [([''src''], Directory), ([''src'', ''v1''], Directory), ([''src'', ''v1'', ''geo.proto''], Regular ''a''),
     ([''src'', ''notes.txt''], Regular ''b'')]"

definition no_git :: git_env where
  "no_git = \<lparr>ge_run = (\<lambda>_ _. None), ge_var = (\<lambda>_. [])\<rparr>"

definition pushed_version :: api_version where
  "pushed_version = with_source_defaults (posted_version no_git push_files [''src''] ''1.0.0''\<lparr>av_module := ''geo'', av_created := 7\<rparr>)"

definition push_env :: api_env where
  "push_env = api_example_env\<lparr>ae_json := sample_codec\<lparr>jc_get_version := (\<lambda>_. Some pushed_version)\<rparr>\<rparr>"

definition plain_wire :: wire where
  "plain_wire = \<lparr>wi_module = (\<lambda>m. m), wi_version = (\<lambda>v. v), wi_elsewhere = (\<lambda>_. 404)\<rparr>"

lemma push_files_protos: "local_protos push_files [''src''] = [\<lparr>af_path = ''v1/geo.proto'', af_content = ''a''\<rparr>]"
  by code_simp

lemma push_env_accepts: "api_accepts push_env plain_wire ''geo'' (posted_version no_git push_files [''src''] ''1.0.0'') empty_server"
proof -
  let ?p = "posted_version no_git push_files [''src''] ''1.0.0''"
  have "can_create (ae_root push_env) (stored_version push_env plain_wire ''geo'' ?p) (as_fs empty_server)"
    by code_simp
  moreover have stored: "with_source_defaults (stored_version push_env plain_wire ''geo'' ?p) = pushed_version"
    by (simp add: pushed_version_def stored_version_def plain_wire_def push_env_def api_example_env_def)
  moreover have "url_segment ''geo''" "url_segment ''1.0.0''" "''1.0.0'' \<noteq> ''latest''" by code_simp+
  moreover have "av_version ?p = ''1.0.0''" "av_files pushed_version = av_files ?p" "av_dependencies pushed_version = av_dependencies ?p"
    by (simp_all add: posted_version_def pushed_version_def with_source_defaults_def Let_def)
  moreover have "jc_get_version (ae_json push_env) d = Some pushed_version" for d by (simp add: push_env_def)
  moreover have "wi_version plain_wire u = u" "am_name (wi_module plain_wire (new_module ''geo'' t)) = ''geo''" for u t
    by (simp_all add: plain_wire_def new_module_def)
  moreover have "fs_wf (as_fs empty_server)" by (simp add: empty_server_def fs_wf_Nil)
  ultimately show ?thesis unfolding api_accepts_def Let_def by (simp only: simp_thms)
qed

theorem push_then_pull_witness:
  "\<exists>s' pfs' s''. run_push (api_registry push_env plain_wire) (\<lambda>_ _. Inl []) no_git push_files ''geo'' ''1.0.0'' [] [''src''] empty_server =
      Some (Inr (length (local_protos push_files [''src''])), s') \<and>
    run_pull (api_registry push_env plain_wire) [''out''] True ''geo'' ''1.0.0'' [] s' = Some (Inr (), pfs', s'') \<and>
    (\<forall>r d. r \<noteq> [] \<longrightarrow> node_at pfs' ([''out''] @ ''geo'' # r) = Some (Regular d) \<longleftrightarrow>
      node_at push_files ([''src''] @ r) = Some (Regular d) \<and> is_proto ([''src''] @ r))"
proof (rule push_then_pull [OF push_env_accepts])
  show "plain_name ''geo''" "''1.0.0'' \<noteq> []" by (simp_all add: plain_name_def)
  show "fs_wf push_files" "fs_named push_files" by code_simp+
  show "node_at push_files [''src''] = Some Directory" "node_at push_files ([''src''] @ [''version.json'']) \<noteq> Some Directory"
    by code_simp+
  show "is_ok (parse_imports (\<lambda>_ _. Inl []) d)" for d by code_simp
  show "fs_wf []" by (rule fs_wf_Nil)
  show "node_at [] ([''out''] @ [''geo'']) = None" "\<not> list_ex (is_regular []) (chain ([''out''] @ [''geo'']))"
    by code_simp+
qed

end
