(* ===== verification/Deps_Web.thy ===== *)
theory Deps_Web
  imports Deps_Props Middleware_Chain
begin

text \<open>
  The requests about dependencies (\<open>pkg/dependencies/handlers.go\<close>) and the view of a graph for Cytoscape
  (\<open>graph_visualization.go\<close>), over the resolver. An answer is its status and what the body is made of.
\<close>

section \<open>The view\<close>

record cyto_node =
  cy_id :: string
  cy_name :: string
  cy_version :: string
  cy_type :: string

record cyto_edge =
  ce_id :: string
  ce_source :: string
  ce_target :: string
  ce_type :: string

record cyto_graph =
  cg_nodes :: "cyto_node list"
  cg_edges :: "cyto_edge list"

text \<open>The graph under construction, with the set of visited keys.\<close>

type_synonym cyto_state = "string set \<times> cyto_graph"

definition cyto_node_of :: "string \<Rightarrow> dependency \<Rightarrow> cyto_node" where
  "cyto_node_of kind d = \<lparr>cy_id = dep_key d, cy_name = dep_module d, cy_version = dep_version d, cy_type = kind\<rparr>"

text \<open>A node that is not visited yet, and an edge.\<close>

definition cyto_add_node :: "string \<Rightarrow> dependency \<Rightarrow> cyto_state \<Rightarrow> cyto_state" where
  "cyto_add_node kind d st =
     (if dep_key d \<in> fst st then st
      else (insert (dep_key d) (fst st), (snd st)\<lparr>cg_nodes := cg_nodes (snd st) @ [cyto_node_of kind d]\<rparr>))"

definition cyto_edge_between :: "string \<Rightarrow> string \<Rightarrow> string \<Rightarrow> cyto_edge" where
  "cyto_edge_between a b kind = \<lparr>ce_id = a @ ''->'' @ b, ce_source = a, ce_target = b, ce_type = kind\<rparr>"

definition cyto_add_edge :: "string \<Rightarrow> string \<Rightarrow> string \<Rightarrow> cyto_state \<Rightarrow> cyto_state" where
  "cyto_add_edge a b kind st = (fst st, (snd st)\<lparr>cg_edges := cg_edges (snd st) @ [cyto_edge_between a b kind]\<rparr>)"

definition add_direct_dependencies :: "dep_graph \<Rightarrow> string \<Rightarrow> string \<Rightarrow> cyto_state \<Rightarrow> cyto_state" where
  "add_direct_dependencies g m v =
     fold (\<lambda>d st. cyto_add_edge (module_version_key m v) (dep_key d) ''direct'' (cyto_add_node ''dependency'' d st))
       (get_dependencies g m v)"

lemma get_dependencies_node_deps: "get_dependencies g m v = node_deps g (module_version_key m v)"
  by (simp add: get_dependencies_def node_deps_def get_node_def)

text \<open>The loop over the dependencies of the module with the key \<open>cur\<close>, at a depth below the limit.\<close>

function add_transitive :: "dep_graph \<Rightarrow> int \<Rightarrow> int \<Rightarrow> string \<Rightarrow> dependency list \<Rightarrow> cyto_state \<Rightarrow> cyto_state" where
  "add_transitive g max_depth depth cur [] st = st"
| "add_transitive g max_depth depth cur (d # ds) st =
     (let st1 = cyto_add_node ''dependency'' d st;
          st2 = (if dep_key d \<in> fst st \<or> max_depth \<ge> 0 \<and> depth + 1 \<ge> max_depth then st1
                 else add_transitive g max_depth (depth + 1) (dep_key d) (get_dependencies g (dep_module d) (dep_version d)) st1)
      in add_transitive g max_depth depth cur ds
           (cyto_add_edge cur (dep_key d) (if depth > 0 then ''transitive'' else ''direct'') st2))"
  by pat_completeness auto

lemma cyto_visited [simp]: "fst (cyto_add_edge a b kind st) = fst st" "fst (cyto_add_node kind d st) = insert (dep_key d) (fst st)"
  by (auto simp: cyto_add_edge_def cyto_add_node_def)

lemma add_transitive_grows:
  "add_transitive_dom (g, max_depth, depth, cur, ds, st) \<Longrightarrow> fst st \<subseteq> fst (add_transitive g max_depth depth cur ds st)"
proof (induction g max_depth depth cur ds st rule: add_transitive.pinduct)
  case (1 g max_depth depth cur st)
  then show ?case by (simp add: add_transitive.psimps)
next
  case (2 g max_depth depth cur d ds st)
  let ?st1 = "cyto_add_node ''dependency'' d st" and ?stop = "dep_key d \<in> fst st \<or> max_depth \<ge> 0 \<and> depth + 1 \<ge> max_depth"
  let ?st2 = "if ?stop then ?st1
    else add_transitive g max_depth (depth + 1) (dep_key d) (get_dependencies g (dep_module d) (dep_version d)) ?st1"
  have "fst ?st1 \<subseteq> fst ?st2" using "2.IH"(1) [OF prod.collapse, unfolded prod.collapse] by (cases ?stop) auto
  moreover have "fst ?st2 \<subseteq> fst (add_transitive g max_depth depth cur (d # ds) st)"
    using "2.IH"(2) [OF prod.collapse prod.collapse, unfolded prod.collapse] add_transitive.psimps(2) [OF "2.hyps"]
    by (simp only: Let_def cyto_visited(1))
  ultimately show ?case by auto
qed

termination add_transitive
  apply (relation "measures [\<lambda>(g, mx, depth, cur, ds, st). unvisited (map fst (dg_nodes g)) (fst st),
      \<lambda>(g, mx, depth, cur, ds, st). length ds]")
     apply simp
  subgoal for g mx depth cur d ds st
    using search_call [of "dep_key d" "fst st" "node_deps g (dep_key d)" "map fst (dg_nodes g)" "length ds", OF _ node_deps_nonempty]
    by (simp add: get_dependencies_node_deps)
  subgoal for g mx depth cur d ds st
    using add_transitive_grows [of g mx "depth + 1" "dep_key d" "get_dependencies g (dep_module d) (dep_version d)"
        "cyto_add_node ''dependency'' d st"]
      search_rest [of "dep_key d" "fst st" _ "map fst (dg_nodes g)" "length ds"] unvisited_mono [of "fst st"]
    by (auto simp: le_less)
  done

definition add_transitive_dependencies :: "dep_graph \<Rightarrow> string \<Rightarrow> string \<Rightarrow> int \<Rightarrow> int \<Rightarrow> cyto_state \<Rightarrow> cyto_state" where
  "add_transitive_dependencies g m v max_depth depth st =
     (if max_depth \<ge> 0 \<and> depth \<ge> max_depth then st
      else add_transitive g max_depth depth (module_version_key m v) (get_dependencies g m v) st)"

definition add_dependents :: "dep_graph \<Rightarrow> string \<Rightarrow> string \<Rightarrow> cyto_state \<Rightarrow> cyto_state" where
  "add_dependents g m v =
     fold (\<lambda>d st. cyto_add_edge (dep_key d) (module_version_key m v) ''depends-on'' (cyto_add_node ''dependent'' d st))
       (get_dependents g m v)"

definition build_cytoscape_graph :: "dep_graph \<Rightarrow> string \<Rightarrow> string \<Rightarrow> bool \<Rightarrow> int \<Rightarrow> string \<Rightarrow> cyto_graph" where
  "build_cytoscape_graph g m v transitive max_depth direction =
     (let key = module_version_key m v;
          st = ({key}, \<lparr>cg_nodes = [\<lparr>cy_id = key, cy_name = m, cy_version = v, cy_type = ''current''\<rparr>], cg_edges = []\<rparr>);
          st = (if direction = ''dependencies'' \<or> direction = ''both'' then
                  (if transitive then add_transitive_dependencies g m v max_depth 0 st else add_direct_dependencies g m v st)
                else st);
          st = (if direction = ''dependents'' \<or> direction = ''both'' then add_dependents g m v st else st)
      in snd st)"

section \<open>The requests\<close>

text \<open>The storage and the parser behind the resolver.\<close>

record resolver =
  rs_store :: version_store
  rs_parse :: proto_parser

record graph_json =
  gj_nodes :: "(string \<times> string \<times> string) list"
  gj_edges :: "(string \<times> string \<times> string) list"
  gj_circular :: bool
  gj_path :: "string list option"

datatype deps_payload =
    Deps_Failed dep_error
  | Deps_Message string
  | Dependencies_Json string string "dependency list" int
  | Dependents_Json string string "dependency list" int
  | Impact_Json impact_analysis
  | Lockfile_Json lockfile
  | Locked_Json bool "string list"
  | Graph_Json string string graph_json
  | Cyto_Json cyto_graph

type_synonym deps_reply = "nat \<times> deps_payload"

definition reply_or_500 :: "dep_error + deps_payload \<Rightarrow> deps_reply" where
  "reply_or_500 x = (case x of Inl e \<Rightarrow> (500, Deps_Failed e) | Inr p \<Rightarrow> (200, p))"

definition handle_get_dependencies :: "resolver \<Rightarrow> unit web_request \<Rightarrow> deps_reply" where
  "handle_get_dependencies rs r =
     (let m = path_var r ''name''; v = path_var r ''version'' in
      reply_or_500 (rbind (resolve_dependencies (rs_store rs) (rs_parse rs) m v) (\<lambda>deps.
        Inr (Dependencies_Json m v deps (int (length deps))))))"

definition handle_get_transitive :: "resolver \<Rightarrow> unit web_request \<Rightarrow> deps_reply" where
  "handle_get_transitive rs r =
     (let m = path_var r ''name''; v = path_var r ''version'' in
      reply_or_500 (rbind (build_dependency_graph (rs_store rs) (rs_parse rs) m v) (\<lambda>g.
        let deps = get_transitive_dependencies g m v in Inr (Dependencies_Json m v deps (int (length deps))))))"

definition handle_get_dependents :: "resolver \<Rightarrow> unit web_request \<Rightarrow> deps_reply" where
  "handle_get_dependents rs r =
     (let m = path_var r ''name''; v = path_var r ''version'' in
      reply_or_500 (rbind (build_dependency_graph (rs_store rs) (rs_parse rs) m v) (\<lambda>g.
        let deps = get_dependents g m v in Inr (Dependents_Json m v deps (int (length deps))))))"

definition handle_get_impact :: "resolver \<Rightarrow> unit web_request \<Rightarrow> deps_reply" where
  "handle_get_impact rs r =
     (let m = path_var r ''name''; v = path_var r ''version'' in
      reply_or_500 (rbind (build_dependency_graph (rs_store rs) (rs_parse rs) m v) (\<lambda>g.
        Inr (Impact_Json (get_impact_analysis g m v)))))"

definition handle_get_lockfile :: "resolver \<Rightarrow> unit web_request \<Rightarrow> deps_reply" where
  "handle_get_lockfile rs r =
     reply_or_500 (rbind (generate_lockfile (rs_store rs) (rs_parse rs) (path_var r ''name'') (path_var r ''version''))
       (\<lambda>l. Inr (Lockfile_Json l)))"

definition handle_validate_lockfile :: "resolver \<Rightarrow> lockfile web_request \<Rightarrow> deps_reply" where
  "handle_validate_lockfile rs r = (case wq_body r of
     None \<Rightarrow> (400, Deps_Message ''invalid lockfile format: '')
   | Some l \<Rightarrow>
       (let l = l\<lparr>lf_module := path_var r ''name'', lf_version := path_var r ''version''\<rparr> in
        reply_or_500 (rbind (validate_lockfile (rs_store rs) (rs_parse rs) l) (\<lambda>(valid, diffs).
          Inr (Locked_Json valid diffs)))))"

definition handle_get_graph :: "resolver \<Rightarrow> unit web_request \<Rightarrow> deps_reply" where
  "handle_get_graph rs r =
     (let m = path_var r ''name''; v = path_var r ''version'' in
      reply_or_500 (rbind (build_dependency_graph (rs_store rs) (rs_parse rs) m v) (\<lambda>g.
        let cycle = detect_circular g m v in
        Inr (Graph_Json m v
          \<lparr>gj_nodes = map (\<lambda>(k, n). (k, nd_module n, nd_version n)) (dg_nodes g),
           gj_edges = concat (map (\<lambda>(k, n). map (\<lambda>d. (k, dep_key d, dep_type d)) (nd_dependencies n)) (dg_nodes g)),
           gj_circular = (cycle \<noteq> None), gj_path = cycle\<rparr>))))"

definition handle_get_cytoscape :: "resolver \<Rightarrow> unit web_request \<Rightarrow> deps_reply" where
  "handle_get_cytoscape rs r =
     (let m = path_var r ''name''; v = path_var r ''version'';
          m = (if m = [] then query_value r ''module'' else m);
          v = (if v = [] then query_value r ''version'' else v) in
      if m = [] \<or> v = [] then (400, Deps_Message ''module and version are required'')
      else
        let t = query_value r ''transitive''; transitive = (if t \<noteq> [] then t = ''true'' \<or> t = ''1'' else True);
            d = query_value r ''depth'';
            max_depth = (if d \<noteq> [] then (case atoi d of Some n \<Rightarrow> if n > 0 then n else -1 | None \<Rightarrow> -1) else -1);
            dir = query_value r ''direction''; direction = (if dir = [] then ''dependencies'' else dir)
        in reply_or_500 (rbind (build_dependency_graph (rs_store rs) (rs_parse rs) m v) (\<lambda>g.
             Inr (Cyto_Json (build_cytoscape_graph g m v transitive max_depth direction)))))"

end
