(* ===== verification/Deps_Web_Props.thy ===== *)
theory Deps_Web_Props
  imports Deps_Web
begin

text \<open>What the requests about dependencies answer, in terms of the graph's edges.\<close>

section \<open>The full view\<close>

text \<open>One run of the loop: what it visits, and the nodes and edges it adds.\<close>

definition cyto_links :: "cyto_graph \<Rightarrow> (string \<times> string \<times> string) set" where
  "cyto_links cg = (\<lambda>e. (ce_source e, ce_target e, ce_type e)) ` set (cg_edges cg)"

definition cyto_ids :: "cyto_graph \<Rightarrow> string list" where
  "cyto_ids cg = map cy_id (cg_nodes cg)"

definition views :: "dep_graph \<Rightarrow> string \<Rightarrow> string \<Rightarrow> string \<Rightarrow> dependency list \<Rightarrow> cyto_state \<Rightarrow> cyto_state \<Rightarrow> string list \<Rightarrow> bool" where
  "views g t kind cur ds st st' ys \<longleftrightarrow> fst st' = fst st \<union> set ys \<and> distinct ys \<and> set ys \<inter> fst st = {} \<and>
     dep_key ` set ds \<subseteq> fst st' \<and> succ_rel (node_deps g) `` set ys \<subseteq> fst st' \<and>
     set ys \<subseteq> (succ_rel (node_deps g))\<^sup>* `` (dep_key ` set ds) \<and>
     cyto_ids (snd st') = cyto_ids (snd st) @ ys \<and>
     cyto_links (snd st') = cyto_links (snd st) \<union> (\<lambda>d. (cur, dep_key d, kind)) ` set ds \<union>
       {(a, b, t) | a b. a \<in> set ys \<and> (a, b) \<in> succ_rel (node_deps g)}"

lemma cyto_add_simps [simp]:
  "cyto_ids (snd (cyto_add_edge a b kind st)) = cyto_ids (snd st)"
  "cyto_links (snd (cyto_add_edge a b kind st)) = insert (a, b, kind) (cyto_links (snd st))"
  "cyto_links (snd (cyto_add_node kind d st)) = cyto_links (snd st)"
  "cyto_ids (snd (cyto_add_node kind d st)) = cyto_ids (snd st) @ (if dep_key d \<in> fst st then [] else [dep_key d])"
  by (auto simp: cyto_ids_def cyto_links_def cyto_add_edge_def cyto_add_node_def cyto_edge_between_def cyto_node_of_def)

lemma views_skip:
  assumes "dep_key d \<in> fst st" and "views g t kind cur ds (cyto_add_edge cur (dep_key d) kind st) st' ys"
  shows "views g t kind cur (d # ds) st st' ys"
proof -
  let ?E = "succ_rel (node_deps g)"
  have mono: "?E\<^sup>* `` (dep_key ` set ds) \<subseteq> ?E\<^sup>* `` (dep_key ` set (d # ds))" by (intro Image_mono) auto
  have v: "fst st' = fst st \<union> set ys \<and> distinct ys \<and> set ys \<inter> fst st = {} \<and> dep_key ` set ds \<subseteq> fst st' \<and>
      ?E `` set ys \<subseteq> fst st' \<and> set ys \<subseteq> ?E\<^sup>* `` (dep_key ` set ds) \<and> cyto_ids (snd st') = cyto_ids (snd st) @ ys"
    using assms(2) unfolding views_def cyto_visited cyto_add_simps by (elim conjE) (intro conjI, assumption+)
  then have "dep_key ` set (d # ds) \<subseteq> fst st'" "set ys \<subseteq> ?E\<^sup>* `` (dep_key ` set (d # ds))" using assms(1) mono by auto
  moreover have "cyto_links (snd st') = cyto_links (snd st) \<union> (\<lambda>d. (cur, dep_key d, kind)) ` set (d # ds) \<union>
      {(a, b, t) | a b. a \<in> set ys \<and> (a, b) \<in> ?E}"
    using assms(2) unfolding views_def by simp
  ultimately show ?thesis unfolding views_def using v by (elim conjE) (intro conjI, assumption+)
qed

lemma views_enter:
  assumes d: "dep_key d \<notin> fst st"
    and first: "views g t t (dep_key d) (node_deps g (dep_key d)) (cyto_add_node node d st) st1 xs"
    and rest: "views g t kind cur ds (cyto_add_edge cur (dep_key d) kind st1) st' ys"
  shows "views g t kind cur (d # ds) st st' (dep_key d # xs @ ys)"
proof -
  let ?k = "dep_key d" and ?E = "succ_rel (node_deps g)"
  have mono: "?E\<^sup>* `` (dep_key ` set ds) \<subseteq> ?E\<^sup>* `` (dep_key ` set (d # ds))"
    "?E\<^sup>* `` {?k} \<subseteq> ?E\<^sup>* `` (dep_key ` set (d # ds))" by (intro Image_mono; auto)+
  have succ: "dep_key ` set (node_deps g ?k) = ?E `` {?k}" by (simp add: succ_rel_Image)
  have reach: "?E\<^sup>* `` (?E `` {?k}) \<subseteq> ?E\<^sup>* `` {?k}" by (auto intro: converse_rtrancl_into_rtrancl)
  have visited: "fst st1 = insert ?k (fst st) \<union> set xs" "set xs \<inter> insert ?k (fst st) = {}" "distinct xs"
      "?E `` {?k} \<subseteq> fst st1" "?E `` set xs \<subseteq> fst st1" "set xs \<subseteq> ?E\<^sup>* `` {?k}"
      "cyto_ids (snd st1) = cyto_ids (snd st) @ ?k # xs"
    using first reach d unfolding views_def succ by auto
  have "(\<lambda>d. (?k, dep_key d, t)) ` set (node_deps g ?k) = (\<lambda>b. (?k, b, t)) ` (?E `` {?k})"
    by (simp only: succ [symmetric] image_image)
  then have "cyto_links (snd st1) = cyto_links (snd st) \<union> {(a, b, t) | a b. a \<in> set (?k # xs) \<and> (a, b) \<in> ?E}"
    using first unfolding views_def by auto
  then have links: "cyto_links (snd st') = cyto_links (snd st) \<union> (\<lambda>d. (cur, dep_key d, kind)) ` set (d # ds) \<union>
      {(a, b, t) | a b. a \<in> set (?k # xs @ ys) \<and> (a, b) \<in> ?E}"
    using rest unfolding views_def by auto
  have "fst st' = fst st \<union> set (?k # xs @ ys)" "distinct (?k # xs @ ys)" "set (?k # xs @ ys) \<inter> fst st = {}"
      "dep_key ` set (d # ds) \<subseteq> fst st'" "?E `` set (?k # xs @ ys) \<subseteq> fst st'"
      "set (?k # xs @ ys) \<subseteq> ?E\<^sup>* `` (dep_key ` set (d # ds))" "cyto_ids (snd st') = cyto_ids (snd st) @ ?k # xs @ ys"
    using rest visited d mono unfolding views_def by auto
  then show ?thesis unfolding views_def using links by (intro conjI)
qed

lemma add_transitive_views:
  "max_depth < 0 \<Longrightarrow> depth \<ge> 0 \<Longrightarrow> \<exists>ys. views g ''transitive'' (if depth > 0 then ''transitive'' else ''direct'') cur ds st
     (add_transitive g max_depth depth cur ds st) ys"
proof (induction g max_depth depth cur ds st rule: add_transitive.induct)
  case (1 g max_depth depth cur st)
  then show ?case by (intro exI [of _ "[]"]) (simp add: views_def)
next
  case (2 g max_depth depth cur d ds st)
  let ?k = "dep_key d" and ?kind = "if depth > 0 then ''transitive'' else ''direct''"
  let ?st1 = "cyto_add_node ''dependency'' d st"
  show ?case
  proof (cases "?k \<in> fst st")
    case True
    then have st1: "?st1 = st" by (simp add: cyto_add_node_def)
    let ?st2 = "cyto_add_edge cur ?k ?kind st"
    have step: "add_transitive g max_depth depth cur (d # ds) st = add_transitive g max_depth depth cur ds ?st2"
      using True st1 by simp
    have "\<exists>ys. views g ''transitive'' ?kind cur ds ?st2 (add_transitive g max_depth depth cur ds ?st2) ys"
      using "2.IH"(2) [OF prod.collapse prod.collapse, unfolded prod.collapse] "2.prems" True st1 by simp
    then show ?thesis unfolding step by (elim exE) (rule exI, rule views_skip [OF True])
  next
    case False
    let ?succ = "get_dependencies g (dep_module d) (dep_version d)"
    let ?in = "add_transitive g max_depth (depth + 1) ?k ?succ ?st1"
    let ?st2 = "cyto_add_edge cur ?k ?kind ?in"
    have call: "\<not> (?k \<in> fst st \<or> 0 \<le> max_depth \<and> max_depth \<le> depth + 1)" using False "2.prems" by simp
    have step: "add_transitive g max_depth depth cur (d # ds) st = add_transitive g max_depth depth cur ds ?st2"
      using False "2.prems" by (simp add: Let_def)
    have "\<exists>xs. views g ''transitive'' ''transitive'' ?k ?succ ?st1 ?in xs"
      using "2.IH"(1) [OF prod.collapse call, unfolded prod.collapse] "2.prems" by simp
    then obtain xs where xs: "views g ''transitive'' ''transitive'' ?k (node_deps g ?k) ?st1 ?in xs"
      unfolding get_dependencies_node_deps by (elim exE)
    have "\<exists>ys. views g ''transitive'' ?kind cur ds ?st2 (add_transitive g max_depth depth cur ds ?st2) ys"
      using "2.IH"(2) [OF prod.collapse prod.collapse, unfolded prod.collapse] "2.prems" call by simp
    then show ?thesis unfolding step by (elim exE) (rule exI, rule views_enter [OF False xs])
  qed
qed

text \<open>What is below a node that is reached is visited, and only that.\<close>

lemma full_view:
  fixes m v :: string
  assumes "graph_wf g"
  defines "k \<equiv> module_version_key m v"
  defines "cg \<equiv> build_cytoscape_graph g m v True (-1) ''dependencies''"
  shows "distinct (cyto_ids cg)" and "set (cyto_ids cg) = reachable g k"
    and "cyto_links cg = {(a, b, if a = k then ''direct'' else ''transitive'') | a b. a \<in> reachable g k \<and> (a, b) \<in> edge_rel g}"
proof -
  let ?E = "edge_rel g"
  have E: "succ_rel (node_deps g) = ?E" by (rule graph_wf_succ [OF assms(1)])
  let ?st = "({k}, \<lparr>cg_nodes = [\<lparr>cy_id = k, cy_name = m, cy_version = v, cy_type = ''current''\<rparr>], cg_edges = []\<rparr>)"
  have cg: "cg = snd (add_transitive g (-1) 0 k (node_deps g k) ?st)"
    by (simp add: cg_def k_def build_cytoscape_graph_def add_transitive_dependencies_def get_dependencies_node_deps Let_def)
  obtain ys where ys: "views g ''transitive'' ''direct'' k (node_deps g k) ?st (add_transitive g (-1) 0 k (node_deps g k) ?st) ys"
    using add_transitive_views [of "-1" 0 g k "node_deps g k" ?st] by (elim exE [rotated]) simp_all
  have succ: "dep_key ` set (node_deps g k) = ?E `` {k}" by (simp add: E [symmetric] succ_rel_Image)
  have ids: "cyto_ids cg = k # ys" using ys by (simp add: views_def cg [symmetric] cyto_ids_def)
  have ys': "distinct ys" "k \<notin> set ys" "?E `` {k} \<subseteq> insert k (set ys)" "?E `` set ys \<subseteq> insert k (set ys)"
    "set ys \<subseteq> ?E\<^sup>* `` (?E `` {k})"
    using ys unfolding views_def E succ by auto
  show "distinct (cyto_ids cg)" using ys' by (simp add: ids)
  have "reachable g k \<subseteq> insert k (set ys)"
    unfolding reachable_def using ys' by (intro closed_reachable) auto
  moreover have "?E\<^sup>* `` (?E `` {k}) \<subseteq> reachable g k" by (auto simp: reachable_def intro: converse_rtrancl_into_rtrancl)
  then have "insert k (set ys) \<subseteq> reachable g k" using ys'(5) by (auto simp: reachable_def)
  ultimately have reach: "insert k (set ys) = reachable g k" by blast
  then show "set (cyto_ids cg) = reachable g k" by (simp add: ids)
  have "cyto_links cg = (\<lambda>b. (k, b, ''direct'')) ` (?E `` {k}) \<union> {(a, b, ''transitive'') | a b. a \<in> set ys \<and> (a, b) \<in> ?E}"
    using ys unfolding views_def cg [symmetric] E succ [symmetric] image_image by (simp add: cyto_links_def)
  then show "cyto_links cg = {(a, b, if a = k then ''direct'' else ''transitive'') | a b. a \<in> reachable g k \<and> (a, b) \<in> edge_rel g}"
    using ys'(2) unfolding reach [symmetric] by auto
qed

section \<open>Dependents\<close>

lemma graph_wf_edges: "graph_wf g \<Longrightarrow>
    (a, b) \<in> edge_rel g \<longleftrightarrow> (\<exists>n. gm_get (dg_nodes g) a = Some n \<and> b \<in> dep_key ` set (nd_dependencies n))"
  by (cases "gm_get (dg_nodes g) a") (simp_all add: graph_wf_def edge_rel_def edges_of_def)

lemma build_graph_reach:
  assumes "build_graph st parse ds (V, g) = Inr (V', g')" and "build_inv st parse (V, g)"
  shows "V' - V \<subseteq> (edge_rel g')\<^sup>* `` (dep_key ` set ds)"
  using assms
proof (induction st parse ds "(V, g)" arbitrary: V g V' g' rule: build_graph.induct)
  case (2 st parse d ds V g)
  show ?case
  proof (cases "dep_key d \<in> V")
    case True
    have "V' - V \<subseteq> (edge_rel g')\<^sup>* `` (dep_key ` set ds)" using 2 True by simp
    moreover have "(edge_rel g')\<^sup>* `` (dep_key ` set ds) \<subseteq> (edge_rel g')\<^sup>* `` (dep_key ` set (d # ds))" by (intro Image_mono) auto
    ultimately show ?thesis by blast
  next
    case False
    let ?g1 = "add_node g (dep_module d) (dep_version d)" and ?E = "edge_rel g'"
    obtain deps V1 g2 where r: "resolve_dependencies st parse (dep_module d) (dep_version d) = Inr deps"
      and first: "build_graph st parse deps (insert (dep_key d) V, ?g1 deps) = Inr (V1, g2)"
      and rest: "build_graph st parse ds (V1, g2) = Inr (V', g')"
      using "2.prems"(1) False by (auto split: sum.splits)
    have inv1: "build_inv st parse (insert (dep_key d) V, ?g1 deps)" by (rule build_inv_add [OF "2.prems"(2) r])
    have inv2: "build_inv st parse (V1, g2)" using build_graph_Inr [OF first inv1] by blast
    have inv3: "build_inv st parse (V', g')" using build_graph_Inr [OF rest inv2] by blast
    have sub: "gm_get (dg_nodes (?g1 deps)) \<subseteq>\<^sub>m gm_get (dg_nodes g2)" "gm_get (dg_nodes g2) \<subseteq>\<^sub>m gm_get (dg_nodes g')"
      using build_graph_Inr [OF first inv1] build_graph_Inr [OF rest inv2] by blast+
    have node: "gm_get (dg_nodes (?g1 deps)) (dep_key d) = Some \<lparr>nd_module = dep_module d, nd_version = dep_version d, nd_dependencies = deps\<rparr>"
      by (simp add: add_node_def Let_def gm_get_put)
    have "gm_get (dg_nodes g') (dep_key d) = Some \<lparr>nd_module = dep_module d, nd_version = dep_version d, nd_dependencies = deps\<rparr>"
      using sub node unfolding map_le_def by (metis domI)
    then have succ: "?E `` {dep_key d} = dep_key ` set deps"
      using inv3 by (simp add: edge_rel_Image build_inv_def graph_wf_def edges_of_def)
    have "graph_wf g2" "graph_wf g'" using inv2 inv3 by (simp_all add: build_inv_def)
    then have "(a, b) \<in> ?E" if "(a, b) \<in> edge_rel g2" for a b
      using that sub(2) unfolding map_le_def by (metis domI graph_wf_edges)
    then have edges: "edge_rel g2 \<subseteq> ?E" by auto
    have "V1 - insert (dep_key d) V \<subseteq> (edge_rel g2)\<^sup>* `` (dep_key ` set deps)"
      using "2.hyps"(2) [OF False r first] inv1 by simp
    also have "\<dots> \<subseteq> ?E\<^sup>* `` (?E `` {dep_key d})" unfolding succ by (intro Image_mono rtrancl_mono edges) simp
    also have "\<dots> \<subseteq> ?E\<^sup>* `` {dep_key d}" by (auto intro: converse_rtrancl_into_rtrancl)
    finally have "V1 - V \<subseteq> ?E\<^sup>* `` {dep_key d}" by auto
    moreover have "V' - V1 \<subseteq> ?E\<^sup>* `` (dep_key ` set ds)" using "2.hyps"(3) [OF False r first refl rest] inv2 by simp
    moreover have "?E\<^sup>* `` {dep_key d} \<union> ?E\<^sup>* `` (dep_key ` set ds) = ?E\<^sup>* `` (dep_key ` set (d # ds))" by auto
    ultimately show ?thesis by blast
  qed
qed simp

text \<open>The resolver's graph holds what can be reached from the module that was asked for, and nothing else.\<close>

lemma built_nodes:
  assumes "build_dependency_graph st parse m v = Inr g"
  shows "dom (gm_get (dg_nodes g)) \<subseteq> reachable g (module_version_key m v)"
proof -
  obtain V where b: "build_graph st parse [\<lparr>dep_module = m, dep_version = v, dep_type = []\<rparr>] ({}, new_dependency_graph) = Inr (V, g)"
    using assms by (auto simp: build_dependency_graph_def rbind_Inr_iff)
  have "V \<subseteq> reachable g (module_version_key m v)"
    using build_graph_reach [OF b build_inv_new] by (simp add: reachable_def)
  moreover have "dom (gm_get (dg_nodes g)) = V"
    using build_graph_Inr [OF b build_inv_new] by (simp add: build_inv_def)
  ultimately show ?thesis by simp
qed

lemma dependents_cycle:
  assumes b: "build_dependency_graph st parse m v = Inr g"
  defines "k \<equiv> module_version_key m v"
  shows "get_dependents g m v \<noteq> [] \<longleftrightarrow> (k, k) \<in> (edge_rel g)\<^sup>+"
proof -
  let ?E = "edge_rel g"
  have wf: "graph_wf g" by (rule build_dependency_graph_Inr [OF b])
  have deps: "dep_key ` set (get_dependents g m v) = {a. (a, k) \<in> ?E}"
    using graph_wf_dependents [OF wf] succ_rel_Image [of "dependents_of g" k]
    by (auto simp: get_dependents_def k_def)
  have "a \<in> reachable g k" if "(a, k) \<in> ?E" for a
  proof -
    have "a \<in> set (map fst (dg_edges g))" using that edges_of_nonempty [of "dg_edges g" a] by (force simp: edge_rel_iff)
    then have "gm_get (dg_edges g) a \<noteq> None" by (simp add: map_of_eq_None_iff)
    then have "a \<in> dom (gm_get (dg_nodes g))" using wf by (auto simp: graph_wf_def)
    then show ?thesis using built_nodes [OF b] by (auto simp: k_def)
  qed
  then have "(\<exists>a. (a, k) \<in> ?E) \<longleftrightarrow> (k, k) \<in> ?E\<^sup>+"
    by (auto simp: reachable_def dest: tranclD2 intro: rtrancl_into_trancl1)
  then show ?thesis using deps by auto
qed

lemma impact_total: "ia_total (get_impact_analysis g m v) = 0 \<longleftrightarrow> get_dependents g m v = []"
proof -
  have "int n + int k = 0 \<longleftrightarrow> n = 0 \<and> k = 0" for n k by linarith
  then show ?thesis by (cases "get_dependents g m v") (simp_all add: get_impact_analysis_def Let_def)
qed


section \<open>The view that is asked for\<close>

text \<open>
  Without parameters, the view of a version has each module version that can be reached from it exactly once, starting
  with itself, and exactly the edges between them, those of the version itself marked direct, all others transitive.
\<close>

lemma default_view_complete:
  assumes "path_var r ''name'' = m" "path_var r ''version'' = v" "m \<noteq> []" "v \<noteq> []" and "wq_query r = []"
    and "build_dependency_graph (rs_store rs) (rs_parse rs) m v = Inr g"
  shows "\<exists>cg. handle_get_cytoscape rs r = (200, Cyto_Json cg) \<and> distinct (cyto_ids cg) \<and>
    set (cyto_ids cg) = reachable g (module_version_key m v) \<and>
    cyto_links cg = {(a, b, if a = module_version_key m v then ''direct'' else ''transitive'') | a b.
      a \<in> reachable g (module_version_key m v) \<and> (a, b) \<in> edge_rel g}"
proof -
  have wf: "graph_wf g" by (rule build_dependency_graph_Inr [OF assms(6)])
  have "query_value r n = []" for n using assms(5) by (simp add: query_value_def)
  then have "handle_get_cytoscape rs r = (200, Cyto_Json (build_cytoscape_graph g m v True (-1) ''dependencies''))"
    unfolding handle_get_cytoscape_def Let_def assms(1,2) by (simp add: assms(3,4,6) reply_or_500_def)
  then show ?thesis using full_view [OF wf] by blast
qed

section \<open>Applications to concrete inputs\<close>

definition demo_resolver :: resolver where
  "demo_resolver = \<lparr>rs_store = demo_store, rs_parse = demo_parse\<rparr>"

definition demo_get :: "string \<Rightarrow> string \<Rightarrow> (string \<times> string) list \<Rightarrow> unit web_request" where
  "demo_get m v q = \<lparr>wq_http = \<lparr>rq_method = ''GET'', rq_headers = [], rq_remote = [],
     rq_vars = [(''name'', m), (''version'', v)], rq_ctx = []\<rparr>, wq_query = q, wq_body = None\<rparr>"

lemma demo_vars: "path_var (demo_get m v q) ''name'' = m" "path_var (demo_get m v q) ''version'' = v" "wq_query (demo_get m v q) = q"
  by (simp_all add: demo_get_def path_var_def)

lemma demo_graph: "\<exists>g. build_dependency_graph (rs_store demo_resolver) (rs_parse demo_resolver) ''lib'' ''v1'' = Inr g"
proof -
  have "is_ok (build_dependency_graph (rs_store demo_resolver) (rs_parse demo_resolver) ''lib'' ''v1'')" by code_simp
  then show ?thesis by (simp add: is_ok_iff)
qed


text \<open>
  With a limit on the depth, what is met first at the limit is not followed when it is met again above it: in this graph
  \<open>d\<close> is two steps away from \<open>a\<close>, and the view to depth two leaves it out.
\<close>

definition deep_graph :: dep_graph where
  "deep_graph = graph_of (map (\<lambda>(m, ns). (m, ''1'', map (\<lambda>n. \<lparr>dep_module = n, dep_version = ''1'', dep_type = ''direct''\<rparr>) ns))
     [(''a'', [''b'', ''c'']), (''b'', [''c'']), (''c'', [''d'']), (''d'', [])])"

lemma depth_limit_misses:
  "cyto_ids (build_cytoscape_graph deep_graph ''a'' ''1'' True 2 ''dependencies'') = [''a@1'', ''b@1'', ''c@1'']"
  by code_simp

end
