(* ===== verification/Search_Engine.thy ===== *)
theory Search_Engine
  imports Search_Query Api_Server Complex_Main
begin

text \<open>
  The search over the storage itself (\<open>pkg/search/search.go\<close>) and its requests (\<open>handlers.go\<close>). The engine reads through
  the interface \<open>StorageReader\<close>, a record of its methods; a listing that does not return is \<open>None\<close>. Case is
  folded for ASCII, and a score is a rational number.
\<close>

section \<open>The storage as the search sees it\<close>

record storage_reader =
  rd_get_version :: "string \<Rightarrow> string \<Rightarrow> (store_error + search_version) option"
  rd_get_file :: "string \<Rightarrow> string \<Rightarrow> string \<Rightarrow> store_error + api_file"
  rd_list_modules :: "store_error + (string \<times> string) list"
  rd_list_versions :: "string \<Rightarrow> (store_error + search_version list) option"

definition file_reader :: "api_env \<Rightarrow> file_system \<Rightarrow> storage_reader" where
  "file_reader e fs =
     \<lparr>rd_get_version = adapter_get_version e fs, rd_get_file = adapter_get_file e fs,
      rd_list_modules = adapter_list_modules e fs, rd_list_versions = adapter_list_versions e fs\<rparr>"

section \<open>Matching\<close>

record search_query =
  sq_query :: string
  sq_type :: string
  sq_module :: string
  sq_version :: string
  sq_deprecated :: bool
  sq_limit :: int

record search_hit =
  sh_type :: string
  sh_module :: string
  sh_version :: string
  sh_name :: string
  sh_full_name :: string
  sh_score :: rat
  sh_metadata :: "(string, string) gomap"

record search_results =
  sx_results :: "search_hit list"
  sx_total :: int
  sx_query :: string

definition matches_search :: "string \<Rightarrow> string \<Rightarrow> bool" where
  "matches_search name query \<longleftrightarrow> query \<noteq> [] \<and> contains_text (ascii_lower name) query"

definition matches_pattern :: "string \<Rightarrow> string \<Rightarrow> bool" where
  "matches_pattern s pattern =
     (if pattern = [] \<or> pattern = ''*'' then True
      else if CHR ''*'' \<in> set pattern then
        (let parts = split_on (CHR ''*'') pattern; s = ascii_lower s in
         has_prefix s (ascii_lower (parts ! 0)) \<and>
         (length parts > 1 \<and> parts ! 1 \<noteq> [] \<longrightarrow> has_suffix s (ascii_lower (parts ! 1))))
      else ascii_lower s = ascii_lower pattern)"

definition calculate_score :: "string \<Rightarrow> string \<Rightarrow> rat" where
  "calculate_score name query =
     (let n = ascii_lower name; q = ascii_lower query in
      if n = q then 1
      else if has_prefix n q then 8 / 10
      else (case index_of q n of
          Some i \<Rightarrow> 5 / 10 - of_nat i / of_nat (length n) * (3 / 10)
        | None \<Rightarrow> 0))"

section \<open>Searching a file\<close>

text \<open>What a hit has in common: the module and version searched, and the query in lower case.\<close>

record search_scope =
  sp_module :: string
  sp_version :: string
  sp_query :: string

definition hit :: "search_scope \<Rightarrow> string \<Rightarrow> string \<Rightarrow> string \<Rightarrow> (string, string) gomap \<Rightarrow> search_hit" where
  "hit sc kind name full meta = \<lparr>sh_type = kind, sh_module = sp_module sc, sh_version = sp_version sc, sh_name = name,
     sh_full_name = full, sh_score = calculate_score name (sp_query sc), sh_metadata = meta\<rparr>"

definition search_field :: "search_scope \<Rightarrow> string \<Rightarrow> field_node \<Rightarrow> search_hit list" where
  "search_field sc msg f =
     (if matches_search (fn_name f) (sp_query sc) \<or> matches_search (fn_type f) (sp_query sc)
      then [hit sc ''field'' (fn_name f) (msg @ ''.'' @ fn_name f) [(''message'', msg), (''type'', fn_type f)]] else [])"

definition search_nested_enum :: "search_scope \<Rightarrow> string \<Rightarrow> enum_node \<Rightarrow> search_hit list" where
  "search_nested_enum sc msg e =
     (if matches_search (en_name e) (sp_query sc)
      then [hit sc ''enum'' (en_name e) (msg @ ''.'' @ en_name e) [(''message'', msg)]] else [])"

fun search_message :: "search_scope \<Rightarrow> message_node \<Rightarrow> search_hit list" where
  "search_message sc (MessageNode nm fs nested es os opts cs ds p q) =
     (if matches_search nm (sp_query sc) then [hit sc ''message'' nm nm []] else []) @
     concat (map (search_field sc nm) fs) @ concat (map (search_message sc) nested) @
     concat (map (search_nested_enum sc nm) es)"

definition search_rpc :: "search_scope \<Rightarrow> string \<Rightarrow> rpc_node \<Rightarrow> search_hit list" where
  "search_rpc sc svc r =
     (if matches_search (rpc_name r) (sp_query sc)
      then [hit sc ''method'' (rpc_name r) (svc @ ''.'' @ rpc_name r)
        [(''service'', svc), (''input'', rpc_input r), (''output'', rpc_output r)]] else [])"

definition search_service_node :: "search_scope \<Rightarrow> string \<Rightarrow> service_node \<Rightarrow> search_hit list" where
  "search_service_node sc kind s =
     (if matches_search (sv_name s) (sp_query sc) then [hit sc ''service'' (sv_name s) (sv_name s) []] else []) @
     (if kind = [] \<or> kind = ''method'' then concat (map (search_rpc sc (sv_name s)) (sv_rpcs s)) else [])"

definition search_enum :: "search_scope \<Rightarrow> enum_node \<Rightarrow> search_hit list" where
  "search_enum sc e = (if matches_search (en_name e) (sp_query sc) then [hit sc ''enum'' (en_name e) (en_name e) []] else [])"

definition search_ast :: "root_node \<Rightarrow> string \<Rightarrow> string \<Rightarrow> search_query \<Rightarrow> search_hit list" where
  "search_ast ast m v q =
     (let sc = \<lparr>sp_module = m, sp_version = v, sp_query = ascii_lower (sq_query q)\<rparr>; kind = sq_type q in
      (case rn_package ast of
         Some p \<Rightarrow> if (kind = [] \<or> kind = ''package'') \<and> matches_search (pk_name p) (sp_query sc)
           then [hit sc ''package'' (pk_name p) (pk_name p) []] else []
       | None \<Rightarrow> []) @
      (if kind = [] \<or> kind = ''message'' then concat (map (search_message sc) (rn_messages ast)) else []) @
      (if kind = [] \<or> kind = ''service'' then concat (map (search_service_node sc kind) (rn_services ast)) else []) @
      (if kind = [] \<or> kind = ''enum'' then concat (map (search_enum sc) (rn_enums ast)) else []))"

section \<open>Searching the registry\<close>

datatype search_error = Store_Failed store_error | Search_Panic go_panic

text \<open>The first file of a version; one that does not parse is skipped.\<close>

definition search_one_version :: "proto_compiler \<Rightarrow> search_query \<Rightarrow> string \<Rightarrow> search_version \<Rightarrow> search_error + search_hit list" where
  "search_one_version pc q m v = (case sr_files v of
     [] \<Rightarrow> Inr []
   | f # _ \<Rightarrow> (case parse_string pc (af_content f) of
       Inl (Parse_Error e) \<Rightarrow> Inr []
     | Inl (Parse_Panic p) \<Rightarrow> Inl (Search_Panic p)
     | Inr ast \<Rightarrow> Inr (search_ast ast m (sr_version v) q)))"

fun search_modules :: "storage_reader \<Rightarrow> proto_compiler \<Rightarrow> search_query \<Rightarrow> string list \<Rightarrow> (search_error + search_hit list) option" where
  "search_modules rd pc q [] = Some (Inr [])"
| "search_modules rd pc q (m # ms) =
     Option.bind (rd_list_versions rd m) (\<lambda>r.
       case (case r of Inl _ \<Rightarrow> Inr []
             | Inr vs \<Rightarrow> collect (search_one_version pc q m)
                 (if sq_version q \<noteq> [] then filter (\<lambda>v. matches_pattern (sr_version v) (sq_version q)) vs else vs)) of
         Inl e \<Rightarrow> Some (Inl e)
       | Inr hits \<Rightarrow> map_option (\<lambda>rest. rbind rest (\<lambda>l. Inr (hits @ l))) (search_modules rd pc q ms))"

definition engine_search :: "storage_reader \<Rightarrow> proto_compiler \<Rightarrow> search_query \<Rightarrow> (search_error + search_results) option" where
  "engine_search rd pc q = (case rd_list_modules rd of
     Inl e \<Rightarrow> Some (Inl (Store_Failed e))
   | Inr ms \<Rightarrow>
       (let names = map fst ms;
            names = (if sq_module q \<noteq> [] then filter (\<lambda>m. matches_pattern m (sq_module q)) names else names)
        in map_option (\<lambda>r. rbind r (\<lambda>hits.
             let hits = (if sq_limit q > 0 \<and> int (length hits) > sq_limit q then take (nat (sq_limit q)) hits else hits)
             in Inr \<lparr>sx_results = hits, sx_total = int (length hits), sx_query = sq_query q\<rparr>))
             (search_modules rd pc q names)))"

section \<open>The requests\<close>

definition parse_search_query :: "unit web_request \<Rightarrow> search_query" where
  "parse_search_query r =
     (let l = query_value r ''limit''; d = query_value r ''deprecated'' in
      \<lparr>sq_query = query_value r ''q'', sq_type = query_value r ''type'', sq_module = query_value r ''module'',
       sq_version = query_value r ''version'', sq_deprecated = (d \<noteq> [] \<and> (d = ''true'' \<or> d = ''1'')),
       sq_limit = (if l \<noteq> [] then (case atoi l of Some n \<Rightarrow> if n > 0 then n else 50 | None \<Rightarrow> 50) else 50)\<rparr>)"

datatype search_reply = Search_Failed nat store_error | Search_Json nat search_results

definition answer_search :: "(search_error + search_results) option \<Rightarrow> (go_panic + search_reply) option" where
  "answer_search = map_option (\<lambda>r. case r of
     Inl (Store_Failed e) \<Rightarrow> Inr (Search_Failed 500 e) | Inl (Search_Panic p) \<Rightarrow> Inl p | Inr x \<Rightarrow> Inr (Search_Json 200 x))"

definition handle_search :: "storage_reader \<Rightarrow> proto_compiler \<Rightarrow> unit web_request \<Rightarrow> (go_panic + search_reply) option" where
  "handle_search rd pc r = answer_search (engine_search rd pc (parse_search_query r))"

definition handle_search_modules :: "storage_reader \<Rightarrow> proto_compiler \<Rightarrow> unit web_request \<Rightarrow> (go_panic + search_reply) option" where
  "handle_search_modules rd pc r = answer_search (engine_search rd pc ((parse_search_query r)\<lparr>sq_type := ''package''\<rparr>))"

definition handle_search_messages :: "storage_reader \<Rightarrow> proto_compiler \<Rightarrow> unit web_request \<Rightarrow> (go_panic + search_reply) option" where
  "handle_search_messages rd pc r = answer_search (engine_search rd pc ((parse_search_query r)\<lparr>sq_type := ''message''\<rparr>))"

definition handle_search_fields :: "storage_reader \<Rightarrow> proto_compiler \<Rightarrow> unit web_request \<Rightarrow> (go_panic + search_reply) option" where
  "handle_search_fields rd pc r = answer_search (engine_search rd pc ((parse_search_query r)\<lparr>sq_type := ''field''\<rparr>))"

definition handle_search_services :: "storage_reader \<Rightarrow> proto_compiler \<Rightarrow> unit web_request \<Rightarrow> (go_panic + search_reply) option" where
  "handle_search_services rd pc r = answer_search (engine_search rd pc ((parse_search_query r)\<lparr>sq_type := ''service''\<rparr>))"

end
