(* ===== verification/Search_Engine_Props.thy ===== *)
theory Search_Engine_Props
  imports Search_Engine Serialize_Props
begin

text \<open>What a search over the storage finds.\<close>

section \<open>Files\<close>

text \<open>
  What can be found in a file: the type of a search that reaches it, besides a search for all types; its kind, name, full
  name, and another text that is looked at. Methods are reached by no type.
\<close>

type_synonym search_item = "string \<times> string \<times> string \<times> string \<times> string"

definition message_items :: "message_node \<Rightarrow> search_item list" where
  "message_items m =
     (''message'', ''message'', mn_name m, mn_name m, mn_name m) #
     map (\<lambda>f. (''message'', ''field'', fn_name f, mn_name m @ ''.'' @ fn_name f, fn_type f)) (mn_fields m) @
     map (\<lambda>e. (''message'', ''enum'', en_name e, mn_name m @ ''.'' @ en_name e, en_name e)) (mn_enums m)"

definition service_items :: "service_node \<Rightarrow> search_item list" where
  "service_items s =
     (''service'', ''service'', sv_name s, sv_name s, sv_name s) #
     map (\<lambda>r. ([], ''method'', rpc_name r, sv_name s @ ''.'' @ rpc_name r, rpc_name r)) (sv_rpcs s)"

definition file_items :: "root_node \<Rightarrow> search_item list" where
  "file_items ast =
     (case rn_package ast of Some p \<Rightarrow> [(''package'', ''package'', pk_name p, pk_name p, pk_name p)] | None \<Rightarrow> []) @
     concat (map message_items (concat (map submessages (rn_messages ast)))) @
     concat (map service_items (rn_services ast)) @
     map (\<lambda>e. (''enum'', ''enum'', en_name e, en_name e, en_name e)) (rn_enums ast)"

text \<open>An item found by a query, as the hit shows it.\<close>

definition found :: "string \<Rightarrow> string \<Rightarrow> search_item \<Rightarrow> bool" where
  "found kind query = (\<lambda>(g, k, n, full, t). (kind = [] \<or> kind = g) \<and> (matches_search n query \<or> matches_search t query))"

definition shown :: "search_item \<Rightarrow> string \<times> string \<times> string" where
  "shown = (\<lambda>(g, k, n, full, t). (k, n, full))"

definition hit_shown :: "search_hit \<Rightarrow> string \<times> string \<times> string" where
  "hit_shown h = (sh_type h, sh_name h, sh_full_name h)"

lemma hit_shown_hit [simp]: "hit_shown (hit sc k n full meta) = (k, n, full)"
  by (simp add: hit_shown_def hit_def)

text \<open>A list of hits shows what the items that are found show.\<close>

definition shows_items :: "string \<Rightarrow> string \<Rightarrow> search_hit list \<Rightarrow> search_item list \<Rightarrow> bool" where
  "shows_items kind query hits items \<longleftrightarrow> hit_shown ` set hits = shown ` {i \<in> set items. found kind query i}"

lemma shows_items_Nil [intro]: "shows_items kind query [] []"
  by (simp add: shows_items_def)

lemma shows_items_append [intro]:
  "shows_items kind query hs is \<Longrightarrow> shows_items kind query hs' is' \<Longrightarrow> shows_items kind query (hs @ hs') (is @ is')"
  by (simp add: shows_items_def image_Un Collect_disj_eq conj_disj_distribR)

lemma shows_items_map:
  "(\<And>x. x \<in> set xs \<Longrightarrow> shows_items kind query (f x) [g x]) \<Longrightarrow> shows_items kind query (concat (map f xs)) (map g xs)"
proof (induction xs)
  case (Cons x xs)
  then have "shows_items kind query (f x @ concat (map f xs)) ([g x] @ map g xs)" by (intro shows_items_append) auto
  then show ?case by simp
qed auto

lemma shows_items_concat:
  "(\<And>x. x \<in> set xs \<Longrightarrow> shows_items kind query (f x) (g x)) \<Longrightarrow>
    shows_items kind query (concat (map f xs)) (concat (map g xs))"
  by (induction xs) auto

lemma shows_items_one:
  "(hits = [] \<longleftrightarrow> \<not> found kind query (g, k, n, full, t)) \<Longrightarrow> (\<And>h. h \<in> set hits \<Longrightarrow> hit_shown h = (k, n, full)) \<Longrightarrow>
    shows_items kind query hits [(g, k, n, full, t)]"
  by (cases hits) (auto simp: shows_items_def shown_def)

lemma shows_items_none: "(\<And>i. i \<in> set items \<Longrightarrow> \<not> found kind query i) \<Longrightarrow> shows_items kind query [] items"
  by (auto simp: shows_items_def)

lemma shows_items_perm: "shows_items kind query hs is \<Longrightarrow> set hs' = set hs \<Longrightarrow> set is' = set is \<Longrightarrow> shows_items kind query hs' is'"
  by (simp add: shows_items_def)

lemma found_iff: "found kind query (g, k, n, full, t) \<longleftrightarrow> (kind = [] \<or> kind = g) \<and> (matches_search n query \<or> matches_search t query)"
  by (simp add: found_def)

lemma shows_hit:
  assumes "kind = [] \<or> kind = g"
  shows "shows_items kind (sp_query sc) (if matches_search n (sp_query sc) then [hit sc k n full meta] else []) [(g, k, n, full, n)]"
    and "shows_items kind (sp_query sc) (if matches_search n (sp_query sc) \<or> matches_search t (sp_query sc) then [hit sc k n full meta] else [])
      [(g, k, n, full, t)]"
  using assms by (intro shows_items_one; cases "matches_search n (sp_query sc)"; cases "matches_search t (sp_query sc)"; simp add: found_iff)+

lemma search_message_shows:
  assumes "kind = [] \<or> kind = ''message''"
  shows "shows_items kind (sp_query sc) (search_message sc m) (concat (map message_items (submessages m)))"
proof (induction m)
  case (MessageNode nm fs nested es os opts cs ds p q)
  let ?q = "sp_query sc"
  let ?fields = "map (\<lambda>f. (''message'', ''field'', fn_name f, nm @ ''.'' @ fn_name f, fn_type f)) fs"
  let ?enums = "map (\<lambda>e. (''message'', ''enum'', en_name e, nm @ ''.'' @ en_name e, en_name e)) es"
  have "shows_items kind ?q (if matches_search nm ?q then [hit sc ''message'' nm nm []] else []) [(''message'', ''message'', nm, nm, nm)]"
    by (rule shows_hit [OF assms])
  moreover have "shows_items kind ?q (concat (map (search_field sc nm) fs)) ?fields"
    unfolding search_field_def by (intro shows_items_map shows_hit(2) [OF assms])
  moreover have "shows_items kind ?q (concat (map (search_message sc) nested)) (concat (map (\<lambda>m. concat (map message_items (submessages m))) nested))"
    by (intro shows_items_concat MessageNode)
  moreover have "shows_items kind ?q (concat (map (search_nested_enum sc nm) es)) ?enums"
    unfolding search_nested_enum_def by (intro shows_items_map shows_hit(1) [OF assms])
  ultimately have "shows_items kind ?q (search_message sc (MessageNode nm fs nested es os opts cs ds p q))
      ([(''message'', ''message'', nm, nm, nm)] @ ?fields @ concat (map (\<lambda>m. concat (map message_items (submessages m))) nested) @ ?enums)"
    unfolding search_message.simps by (intro shows_items_append)
  then show ?case
    by (rule shows_items_perm) (simp only:, auto simp: message_items_def)
qed

lemma search_service_shows:
  assumes "kind = [] \<or> kind = ''service''"
  shows "shows_items kind (sp_query sc) (search_service_node sc kind s) (service_items s)"
proof -
  let ?q = "sp_query sc"
  let ?rpcs = "map (\<lambda>r. ([], ''method'', rpc_name r, sv_name s @ ''.'' @ rpc_name r, rpc_name r)) (sv_rpcs s)"
  have "shows_items kind ?q (if kind = [] \<or> kind = ''method'' then concat (map (search_rpc sc (sv_name s)) (sv_rpcs s)) else []) ?rpcs"
  proof (cases "kind = []")
    case True
    then have k: "kind = [] \<or> kind = []" by simp
    have "shows_items kind ?q (concat (map (search_rpc sc (sv_name s)) (sv_rpcs s))) ?rpcs"
      unfolding search_rpc_def by (intro shows_items_map shows_hit(1) [OF k])
    then show ?thesis using True by simp
  next
    case False
    then have "\<not> (kind = [] \<or> kind = ''method'')" using assms by auto
    moreover have "shows_items kind ?q [] ?rpcs"
      using False by (intro shows_items_none) (auto simp: found_iff)
    ultimately show ?thesis by (simp only: if_False)
  qed
  then show ?thesis unfolding search_service_node_def service_items_def
    using shows_items_append [OF shows_hit(1) [OF assms, of sc "sv_name s" "''service''" "sv_name s" "[]"]] by simp
qed

lemma shows_if:
  "(P \<Longrightarrow> shows_items kind query hs is) \<Longrightarrow> (\<not> P \<Longrightarrow> \<forall>i \<in> set is. kind \<noteq> [] \<and> kind \<noteq> fst i) \<Longrightarrow>
    shows_items kind query (if P then hs else []) is"
  by (cases P) (auto intro!: shows_items_none simp: found_def)

lemma message_groups: "i \<in> set (message_items m) \<Longrightarrow> fst i = ''message''"
  by (auto simp: message_items_def)

lemma service_groups: "i \<in> set (service_items s) \<Longrightarrow> fst i = ''service'' \<or> fst i = []"
  by (auto simp: service_items_def)

lemma concat_map_concat_map: "concat (map f (concat (map g xs))) = concat (map (\<lambda>x. concat (map f (g x))) xs)"
  by (induction xs) simp_all

lemma search_ast_shows: "shows_items (sq_type q) (ascii_lower (sq_query q)) (search_ast ast m v q) (file_items ast)"
proof -
  define sc where "sc = \<lparr>sp_module = m, sp_version = v, sp_query = ascii_lower (sq_query q)\<rparr>"
  define kind where "kind = sq_type q"
  have query: "ascii_lower (sq_query q) = sp_query sc" by (simp add: sc_def)
  have "shows_items kind (sp_query sc)
      (case rn_package ast of Some p \<Rightarrow> if (kind = [] \<or> kind = ''package'') \<and> matches_search (pk_name p) (sp_query sc)
         then [hit sc ''package'' (pk_name p) (pk_name p) []] else [] | None \<Rightarrow> [])
      (case rn_package ast of Some p \<Rightarrow> [(''package'', ''package'', pk_name p, pk_name p, pk_name p)] | None \<Rightarrow> [])"
  proof (cases "rn_package ast")
    case (Some p)
    show ?thesis unfolding Some option.case
      by (rule shows_items_one) (simp_all add: found_iff split: if_splits)
  qed auto
  moreover have "shows_items kind (sp_query sc)
      (if kind = [] \<or> kind = ''message'' then concat (map (search_message sc) (rn_messages ast)) else [])
      (concat (map (\<lambda>m. concat (map message_items (submessages m))) (rn_messages ast)))"
  proof (rule shows_if)
    show "shows_items kind (sp_query sc) (concat (map (search_message sc) (rn_messages ast)))
        (concat (map (\<lambda>m. concat (map message_items (submessages m))) (rn_messages ast)))" if "kind = [] \<or> kind = ''message''"
      by (intro shows_items_concat search_message_shows that)
    show "\<forall>i \<in> set (concat (map (\<lambda>m. concat (map message_items (submessages m))) (rn_messages ast))). kind \<noteq> [] \<and> kind \<noteq> fst i"
      if "\<not> (kind = [] \<or> kind = ''message'')"
      using that message_groups by fastforce
  qed
  moreover have "shows_items kind (sp_query sc)
      (if kind = [] \<or> kind = ''service'' then concat (map (search_service_node sc kind) (rn_services ast)) else [])
      (concat (map service_items (rn_services ast)))"
  proof (rule shows_if)
    show "shows_items kind (sp_query sc) (concat (map (search_service_node sc kind) (rn_services ast)))
        (concat (map service_items (rn_services ast)))" if "kind = [] \<or> kind = ''service''"
      by (intro shows_items_concat search_service_shows that)
    show "\<forall>i \<in> set (concat (map service_items (rn_services ast))). kind \<noteq> [] \<and> kind \<noteq> fst i"
      if "\<not> (kind = [] \<or> kind = ''service'')"
      using that service_groups by fastforce
  qed
  moreover have "shows_items kind (sp_query sc)
      (if kind = [] \<or> kind = ''enum'' then concat (map (search_enum sc) (rn_enums ast)) else [])
      (map (\<lambda>e. (''enum'', ''enum'', en_name e, en_name e, en_name e)) (rn_enums ast))"
  proof (rule shows_if)
    show "shows_items kind (sp_query sc) (concat (map (search_enum sc) (rn_enums ast)))
        (map (\<lambda>e. (''enum'', ''enum'', en_name e, en_name e, en_name e)) (rn_enums ast))" if "kind = [] \<or> kind = ''enum''"
      unfolding search_enum_def by (intro shows_items_map shows_hit(1) [OF that])
    show "\<forall>i \<in> set (map (\<lambda>e. (''enum'', ''enum'', en_name e, en_name e, en_name e)) (rn_enums ast)). kind \<noteq> [] \<and> kind \<noteq> fst i"
      if "\<not> (kind = [] \<or> kind = ''enum'')"
      using that by fastforce
  qed
  ultimately show ?thesis
    unfolding search_ast_def Let_def kind_def [symmetric] sc_def [symmetric] unfolding query file_items_def concat_map_concat_map
    by (intro shows_items_append)
qed

text \<open>Every hit of a file names the module and version that were searched.\<close>

definition within_scope :: "string \<Rightarrow> string \<Rightarrow> search_hit \<Rightarrow> bool" where
  "within_scope m v h \<longleftrightarrow> sh_module h = m \<and> sh_version h = v"

lemma within_scope_hit: "within_scope (sp_module sc) (sp_version sc) (hit sc k n full meta)"
  by (simp add: within_scope_def hit_def)

lemma search_message_scoped: "h \<in> set (search_message sc m) \<Longrightarrow> within_scope (sp_module sc) (sp_version sc) h"
proof (induction m)
  case (MessageNode nm fs nested es os opts cs ds p q)
  then show ?case
    by (auto simp: search_field_def search_nested_enum_def within_scope_hit split: if_splits)
qed

lemma search_ast_scoped: "h \<in> set (search_ast ast m v q) \<Longrightarrow> within_scope m v h"
  using search_message_scoped [of h "\<lparr>sp_module = m, sp_version = v, sp_query = ascii_lower (sq_query q)\<rparr>"]
    within_scope_hit [of "\<lparr>sp_module = m, sp_version = v, sp_query = ascii_lower (sq_query q)\<rparr>"]
  by (auto simp: search_ast_def Let_def search_service_node_def search_rpc_def search_enum_def split: option.splits if_splits)

section \<open>The registry\<close>

text \<open>A version that a query looks at, and the tree of its first file.\<close>

definition searched :: "storage_reader \<Rightarrow> proto_compiler \<Rightarrow> search_query \<Rightarrow> string \<Rightarrow> string \<Rightarrow> root_node \<Rightarrow> bool" where
  "searched rd pc q m v ast \<longleftrightarrow>
     (\<exists>vs w f fs. rd_list_versions rd m = Some (Inr vs) \<and> w \<in> set vs \<and> sr_version w = v \<and>
        (sq_version q \<noteq> [] \<longrightarrow> matches_pattern v (sq_version q)) \<and> sr_files w = f # fs \<and> parse_string pc (af_content f) = Inr ast)"

lemma search_one_version_hits:
  assumes "search_one_version pc q m w = Inr hits"
  shows "h \<in> set hits \<longleftrightarrow> (\<exists>f fs ast. sr_files w = f # fs \<and> parse_string pc (af_content f) = Inr ast \<and>
    h \<in> set (search_ast ast m (sr_version w) q))"
  using assms by (auto simp: search_one_version_def split: list.splits sum.splits parse_stop.splits)

lemma search_modules_hits:
  assumes "search_modules rd pc q ms = Some (Inr hits)"
  shows "h \<in> set hits \<longleftrightarrow> (\<exists>m v ast. m \<in> set ms \<and> searched rd pc q m v ast \<and> h \<in> set (search_ast ast m v q))"
  using assms
proof (induction ms arbitrary: hits)
  case (Cons m ms)
  obtain r where r: "rd_list_versions rd m = Some r" using Cons.prems by (cases "rd_list_versions rd m") auto
  define vs where "vs = (case r of Inl _ \<Rightarrow> [] | Inr vs \<Rightarrow>
    if sq_version q \<noteq> [] then filter (\<lambda>v. matches_pattern (sr_version v) (sq_version q)) vs else vs)"
  have step: "(case r of Inl _ \<Rightarrow> Inr []
             | Inr vs \<Rightarrow> collect (search_one_version pc q m)
                 (if sq_version q \<noteq> [] then filter (\<lambda>v. matches_pattern (sr_version v) (sq_version q)) vs else vs)) =
      collect (search_one_version pc q m) vs"
    by (cases r) (simp_all add: vs_def)
  obtain xs ys where x: "collect (search_one_version pc q m) vs = Inr xs" and y: "search_modules rd pc q ms = Some (Inr ys)"
    and hits: "hits = xs @ ys"
    using Cons.prems unfolding search_modules.simps r Option.bind.simps step
    by (auto simp: rbind_Inr_iff split: sum.splits)
  have "h \<in> set xs \<longleftrightarrow> (\<exists>w \<in> set vs. h \<in> set (projr (search_one_version pc q m w)))"
    using collect_Inr_set [OF x] by simp
  also have "\<dots> \<longleftrightarrow> (\<exists>w \<in> set vs. \<exists>f fs ast. sr_files w = f # fs \<and> parse_string pc (af_content f) = Inr ast \<and>
      h \<in> set (search_ast ast m (sr_version w) q))"
  proof (intro bex_cong refl)
    fix w assume "w \<in> set vs"
    then have "is_ok (search_one_version pc q m w)" using x by (metis collect_ok is_ok_simps(2))
    then obtain zs where "search_one_version pc q m w = Inr zs" by (auto simp: is_ok_iff)
    then show "h \<in> set (projr (search_one_version pc q m w)) \<longleftrightarrow> (\<exists>f fs ast. sr_files w = f # fs \<and>
        parse_string pc (af_content f) = Inr ast \<and> h \<in> set (search_ast ast m (sr_version w) q))"
      using search_one_version_hits by simp
  qed
  also have "\<dots> \<longleftrightarrow> (\<exists>v ast. searched rd pc q m v ast \<and> h \<in> set (search_ast ast m v q))"
  proof
    assume "\<exists>w \<in> set vs. \<exists>f fs ast. sr_files w = f # fs \<and> parse_string pc (af_content f) = Inr ast \<and>
      h \<in> set (search_ast ast m (sr_version w) q)"
    then obtain w f fs ast where w: "w \<in> set vs" "sr_files w = f # fs" "parse_string pc (af_content f) = Inr ast"
      "h \<in> set (search_ast ast m (sr_version w) q)" by blast
    then have "searched rd pc q m (sr_version w) ast"
      unfolding searched_def by (cases r) (auto simp: r vs_def split: if_splits)
    then show "\<exists>v ast. searched rd pc q m v ast \<and> h \<in> set (search_ast ast m v q)" using w(4) by blast
  next
    assume "\<exists>v ast. searched rd pc q m v ast \<and> h \<in> set (search_ast ast m v q)"
    then show "\<exists>w \<in> set vs. \<exists>f fs ast. sr_files w = f # fs \<and> parse_string pc (af_content f) = Inr ast \<and>
      h \<in> set (search_ast ast m (sr_version w) q)"
      by (auto simp: searched_def r vs_def)
  qed
  finally show ?case using Cons.IH [OF y] hits by auto
qed simp

text \<open>Every type that reaches anything.\<close>

definition reaching_types :: "string list" where
  "reaching_types = [[], ''package'', ''message'', ''service'', ''enum'']"

lemma reaching: "[] \<in> set reaching_types" "''package'' \<in> set reaching_types" "''message'' \<in> set reaching_types"
  "''service'' \<in> set reaching_types" "''enum'' \<in> set reaching_types"
  "''field'' \<notin> set reaching_types" "''method'' \<notin> set reaching_types"
  by (simp_all add: reaching_types_def)

lemma item_groups:
  assumes "i \<in> set (file_items ast)"
  shows "fst i \<in> set reaching_types"
proof -
  consider "i \<in> set (case rn_package ast of Some p \<Rightarrow> [(''package'', ''package'', pk_name p, pk_name p, pk_name p)] | None \<Rightarrow> [])"
    | m where "i \<in> set (message_items m)" | s where "i \<in> set (service_items s)"
    | "i \<in> (\<lambda>e. (''enum'', ''enum'', en_name e, en_name e, en_name e)) ` set (rn_enums ast)"
    using assms unfolding file_items_def set_append set_map set_concat by blast
  then show ?thesis
  proof cases
    case 1
    then show ?thesis using reaching by (cases "rn_package ast") simp_all
  next
    case (2 m)
    then show ?thesis using message_groups reaching by metis
  next
    case (3 s)
    then show ?thesis using service_groups reaching by metis
  next
    case 4
    then show ?thesis using reaching by (elim imageE) simp
  qed
qed

lemma engine_search_hits:
  assumes "engine_search rd pc q = Some (Inr x)" and "rd_list_modules rd = Inr ms"
  shows "\<exists>hits. search_modules rd pc q (if sq_module q \<noteq> [] then filter (\<lambda>m. matches_pattern m (sq_module q)) (map fst ms) else map fst ms) =
      Some (Inr hits) \<and> sx_results x = (if sq_limit q > 0 then take (nat (sq_limit q)) hits else hits) \<and>
    sx_total x = int (length (sx_results x))"
proof -
  let ?names = "if sq_module q \<noteq> [] then filter (\<lambda>m. matches_pattern m (sq_module q)) (map fst ms) else map fst ms"
  obtain hits where h: "search_modules rd pc q ?names = Some (Inr hits)"
    and x: "x = (let hits = (if sq_limit q > 0 \<and> int (length hits) > sq_limit q then take (nat (sq_limit q)) hits else hits)
             in \<lparr>sx_results = hits, sx_total = int (length hits), sx_query = sq_query q\<rparr>)"
    using assms by (auto simp: engine_search_def Let_def rbind_Inr_iff)
  have "(if sq_limit q > 0 \<and> int (length hits) > sq_limit q then take (nat (sq_limit q)) hits else hits) =
      (if sq_limit q > 0 then take (nat (sq_limit q)) hits else hits)"
    by auto
  then show ?thesis using h unfolding x Let_def by (intro exI [of _ hits]) simp
qed

text \<open>
  C33. The search over the storage finds, before it is cut to the limit, exactly the items of the first files of the versions it
  looks at whose name contains the query, without regard to case, or for fields the type. A search for
  messages finds their fields and enums as well; one for fields or for methods finds nothing.
\<close>

theorem engine_search_exact:
  assumes "engine_search rd pc q = Some (Inr x)" and "rd_list_modules rd = Inr ms"
  shows "(\<exists>hits. sx_results x = (if sq_limit q > 0 then take (nat (sq_limit q)) hits else hits) \<and>
      (\<lambda>h. (sh_module h, sh_version h, hit_shown h)) ` set hits =
      {(m, v, shown i) | m v ast i. m \<in> fst ` set ms \<and> (sq_module q \<noteq> [] \<longrightarrow> matches_pattern m (sq_module q)) \<and>
         searched rd pc q m v ast \<and> i \<in> set (file_items ast) \<and> found (sq_type q) (ascii_lower (sq_query q)) i}) \<and>
    (sq_type q \<in> {''field'', ''method''} \<longrightarrow> sx_results x = [])"
proof -
  let ?names = "if sq_module q \<noteq> [] then filter (\<lambda>m. matches_pattern m (sq_module q)) (map fst ms) else map fst ms"
  obtain hits where h: "search_modules rd pc q ?names = Some (Inr hits)"
    and x: "sx_results x = (if sq_limit q > 0 then take (nat (sq_limit q)) hits else hits)"
    using engine_search_hits [OF assms] by (elim exE conjE)
  have names: "m \<in> set ?names \<longleftrightarrow> m \<in> fst ` set ms \<and> (sq_module q \<noteq> [] \<longrightarrow> matches_pattern m (sq_module q))" for m
    by auto
  have image: "(\<lambda>h. (sh_module h, sh_version h, hit_shown h)) ` set (search_ast ast m v q) =
      {(m, v, shown i) | i. i \<in> set (file_items ast) \<and> found (sq_type q) (ascii_lower (sq_query q)) i}" for ast m v
  proof -
    have "(\<lambda>h. (sh_module h, sh_version h, hit_shown h)) ` set (search_ast ast m v q) = Pair m ` (Pair v ` (hit_shown ` set (search_ast ast m v q)))"
      unfolding image_image using search_ast_scoped by (intro image_cong) (auto simp: within_scope_def)
    also have "\<dots> = Pair m ` (Pair v ` (shown ` {i \<in> set (file_items ast). found (sq_type q) (ascii_lower (sq_query q)) i}))"
      using search_ast_shows [of q ast m v] by (simp only: shows_items_def)
    also have "\<dots> = {(m, v, shown i) | i. i \<in> set (file_items ast) \<and> found (sq_type q) (ascii_lower (sq_query q)) i}"
      unfolding image_image by (rule set_eqI) (simp only: image_iff mem_Collect_eq Bex_def conj_commute)
    finally show ?thesis .
  qed
  have all: "(\<lambda>h. (sh_module h, sh_version h, hit_shown h)) ` set hits =
      {(m, v, shown i) | m v ast i. m \<in> fst ` set ms \<and> (sq_module q \<noteq> [] \<longrightarrow> matches_pattern m (sq_module q)) \<and>
         searched rd pc q m v ast \<and> i \<in> set (file_items ast) \<and> found (sq_type q) (ascii_lower (sq_query q)) i}" (is "?L = ?R")
  proof -
    have "?L = (\<Union>(m, v, ast) \<in> {(m, v, ast). m \<in> set ?names \<and> searched rd pc q m v ast}.
        (\<lambda>h. (sh_module h, sh_version h, hit_shown h)) ` set (search_ast ast m v q))"
      using search_modules_hits [OF h] by blast
    also have "\<dots> = ?R" unfolding image names by blast
    finally show ?thesis .
  qed
  have "hits = []" if "sq_type q \<in> {''field'', ''method''}"
  proof -
    have kind: "sq_type q \<notin> set reaching_types" using that reaching by (elim insertE emptyE) simp_all
    have "\<not> found (sq_type q) (ascii_lower (sq_query q)) i" if "i \<in> set (file_items ast)" for i ast
    proof -
      have "sq_type q \<noteq> []" "sq_type q \<noteq> fst i" using kind item_groups [OF that] reaching(1) by metis+
      then show ?thesis by (cases i) (simp add: found_iff)
    qed
    then have "?R = {}" by blast
    then have "(\<lambda>h. (sh_module h, sh_version h, hit_shown h)) ` set hits = {}" by (simp only: all)
    then show ?thesis by simp
  qed
  then have "sq_type q \<in> {''field'', ''method''} \<longrightarrow> sx_results x = []" using x by simp
  then show ?thesis using x all by (intro conjI exI [of _ hits])
qed

section \<open>Applications to concrete inputs\<close>

definition demo_reader :: storage_reader where
  "demo_reader = \<lparr>rd_get_version = (\<lambda>_ _. None), rd_get_file = (\<lambda>_ _ p. Inr \<lparr>af_path = p, af_content = []\<rparr>),
     rd_list_modules = Inr [(''geo'', [])],
     rd_list_versions = (\<lambda>m. Some (Inr [\<lparr>sr_version = ''1'', sr_module = m,
       sr_files = [\<lparr>af_path = ''geo.proto'', af_content = ''a''\<rparr>], sr_dependencies = []\<rparr>]))\<rparr>"

definition demo_search :: "string \<Rightarrow> search_query" where
  "demo_search kind = \<lparr>sq_query = ''Geo'', sq_type = kind, sq_module = ''g*'', sq_version = [], sq_deprecated = False, sq_limit = 50\<rparr>"

lemma demo_search_fields: "engine_search demo_reader (\<lambda>_ _. Inr [plain_file []]) (demo_search ''field'') =
    Some (Inr \<lparr>sx_results = [], sx_total = 0, sx_query = ''Geo''\<rparr>)"
proof -
  have parse: "parse_string (\<lambda>_ _. Inr [plain_file []]) ''a'' =
      Inr (finish_root (convert_descriptor (protodescriptor_to_proto (plain_file [])) ''a''))"
    by (rule parse_plain) simp_all
  have "search_ast ast m v (demo_search ''field'') = []" for ast m v
    by (simp add: search_ast_def demo_search_def Let_def split: option.split)
  moreover have "matches_pattern ''geo'' ''g*''" by code_simp
  ultimately show ?thesis
    by (simp add: engine_search_def demo_reader_def demo_search_def search_one_version_def parse)
qed

theorem engine_search_exact_witness:
  "\<exists>hits. [] = (if sq_limit (demo_search ''field'') > 0 then take (nat (sq_limit (demo_search ''field''))) hits else hits) \<and>
    (\<lambda>h. (sh_module h, sh_version h, hit_shown h)) ` set hits =
      {(m, v, shown i) | m v ast i. m \<in> fst ` set [(''geo'', [] :: string)] \<and>
         (sq_module (demo_search ''field'') \<noteq> [] \<longrightarrow> matches_pattern m (sq_module (demo_search ''field''))) \<and>
         searched demo_reader (\<lambda>_ _. Inr [plain_file []]) (demo_search ''field'') m v ast \<and> i \<in> set (file_items ast) \<and>
         found (sq_type (demo_search ''field'')) (ascii_lower (sq_query (demo_search ''field''))) i}"
proof -
  have ms: "rd_list_modules demo_reader = Inr [(''geo'', [])]" by (simp add: demo_reader_def)
  have "sx_results \<lparr>sx_results = [], sx_total = 0, sx_query = ''Geo''\<rparr> = []" by (rule search_results.select_convs)
  then show ?thesis using conjunct1 [OF engine_search_exact [OF demo_search_fields ms]] by (simp only:)
qed

end
