(* ===== verification/Search_Index.thy ===== *)
theory Search_Index
  imports Search_Engine
begin

text \<open>
  The search index: what the indexer makes of a version (\<open>pkg/search/indexer.go\<close>), and the search over it
  (\<open>search_service.go\<close>) with its requests (\<open>pkg/api/search_handlers.go\<close>). The tables are lists of rows; a
  statement is its list of conditions, in which a placeholder is a position in the list of arguments, as in the SQL. What
  PostgreSQL does with a text query and with \<open>LIKE\<close> is a parameter.
\<close>

section \<open>Entities\<close>

record search_entity =
  se_version_id :: int
  se_type :: string
  se_name :: string
  se_full_path :: string
  se_parent_path :: string
  se_file :: string
  se_line :: int
  se_description :: string
  se_comments :: string
  se_field_type :: string
  se_field_number :: int
  se_repeated :: bool
  se_optional :: bool
  se_input :: string
  se_output :: string
  se_metadata :: "(string, bool) gomap"

definition extract_comments :: "comment_node list \<Rightarrow> string" where
  "extract_comments cs = join_strings '' '' (map (\<lambda>c. trim_space (cm_text c)) (filter (\<lambda>c. cm_text c \<noteq> []) cs))"

definition extract_description :: "comment_node list \<Rightarrow> string" where
  "extract_description cs = (case cs of [] \<Rightarrow> [] | c # _ \<Rightarrow> trim_space (hd (split_on (CHR 0x0A) (cm_text c))))"

text \<open>The fields that every entity sets; the others are zero.\<close>

definition entity :: "int \<Rightarrow> string \<Rightarrow> string \<Rightarrow> string \<Rightarrow> string \<Rightarrow> string \<Rightarrow> ast_position \<Rightarrow> comment_node list \<Rightarrow> search_entity" where
  "entity vid kind name full parent path pos cs =
     \<lparr>se_version_id = vid, se_type = kind, se_name = name, se_full_path = full, se_parent_path = parent, se_file = path,
      se_line = pos_line pos, se_description = extract_description cs, se_comments = extract_comments cs,
      se_field_type = [], se_field_number = 0, se_repeated = False, se_optional = False, se_input = [], se_output = [],
      se_metadata = []\<rparr>"

definition qualified_name :: "string \<Rightarrow> string \<Rightarrow> string" where
  "qualified_name pkg name = (if pkg \<noteq> [] then pkg @ ''.'' @ name else name)"

definition extract_field :: "int \<Rightarrow> string \<Rightarrow> string \<Rightarrow> field_node \<Rightarrow> search_entity" where
  "extract_field vid full path f =
     (entity vid ''field'' (fn_name f) (full @ ''.'' @ fn_name f) full path (fn_pos f) (fn_comments f))
       \<lparr>se_field_type := fn_type f, se_field_number := fn_number f, se_repeated := fn_repeated f, se_optional := fn_optional f\<rparr>"

definition extract_enum_entities :: "int \<Rightarrow> string \<Rightarrow> string \<Rightarrow> enum_node \<Rightarrow> search_entity list" where
  "extract_enum_entities vid pkg path e =
     (let full = qualified_name pkg (en_name e) in
      entity vid ''enum'' (en_name e) full pkg path (en_pos e) (en_comments e) #
      map (\<lambda>v. (entity vid ''enum_value'' (ev_name v) (full @ ''.'' @ ev_name v) full path (ev_pos v) (ev_comments v))
        \<lparr>se_field_number := ev_number v\<rparr>) (en_values e))"

fun extract_message_entities :: "int \<Rightarrow> string \<Rightarrow> string \<Rightarrow> message_node \<Rightarrow> search_entity list" where
  "extract_message_entities vid pkg path (MessageNode nm fs nested es os opts cs ds p q) =
     (let full = qualified_name pkg nm in
      [entity vid ''message'' nm full pkg path p cs] @ map (extract_field vid full path) fs @
      concat (map (extract_message_entities vid full path) nested) @ concat (map (extract_enum_entities vid full path) es))"

definition extract_rpc :: "int \<Rightarrow> string \<Rightarrow> string \<Rightarrow> rpc_node \<Rightarrow> search_entity" where
  "extract_rpc vid full path r =
     (entity vid ''method'' (rpc_name r) (full @ ''.'' @ rpc_name r) full path (rpc_pos r) (rpc_comments r))
       \<lparr>se_input := rpc_input r, se_output := rpc_output r,
        se_metadata := (if rpc_client_streaming r \<or> rpc_server_streaming r
          then [(''client_streaming'', rpc_client_streaming r), (''server_streaming'', rpc_server_streaming r)] else [])\<rparr>"

definition extract_service_entities :: "int \<Rightarrow> string \<Rightarrow> string \<Rightarrow> service_node \<Rightarrow> search_entity list" where
  "extract_service_entities vid pkg path s =
     (let full = qualified_name pkg (sv_name s) in
      entity vid ''service'' (sv_name s) full pkg path (sv_pos s) (sv_comments s) # map (extract_rpc vid full path) (sv_rpcs s))"

definition extract_entities :: "int \<Rightarrow> root_node \<Rightarrow> string \<Rightarrow> search_entity list" where
  "extract_entities vid ast path =
     (let pkg = (case rn_package ast of Some p \<Rightarrow> pk_name p | None \<Rightarrow> []) in
      concat (map (extract_message_entities vid pkg path) (rn_messages ast)) @
      concat (map (extract_enum_entities vid pkg path) (rn_enums ast)) @
      concat (map (extract_service_entities vid pkg path) (rn_services ast)))"

section \<open>The tables\<close>

record index_row =
  ix_id :: int
  ix_version_id :: int
  ix_type :: string
  ix_name :: string
  ix_full_path :: string
  ix_parent_path :: "string option"
  ix_file :: "string option"
  ix_line :: "int option"
  ix_description :: "string option"
  ix_comments :: "string option"
  ix_field_type :: "string option"
  ix_field_number :: "int option"
  ix_repeated :: bool
  ix_optional :: bool
  ix_input :: "string option"
  ix_output :: "string option"
  ix_metadata :: "(string, bool) gomap"

text \<open>The versions, joined with their modules: identifier, module and version.\<close>

record search_db =
  sd_versions :: "(int \<times> string \<times> string) list"
  sd_index :: "index_row list"
  sd_next :: int
  sd_history :: "(string \<times> int \<times> int) list"
  sd_suggestions :: "(string \<times> int \<times> int) list"

definition null_string :: "string \<Rightarrow> string option" where
  "null_string s = (if s = [] then None else Some s)"

definition null_int :: "int \<Rightarrow> int option" where
  "null_int i = (if i = 0 then None else Some i)"

definition index_row_of :: "int \<Rightarrow> search_entity \<Rightarrow> index_row" where
  "index_row_of i e = \<lparr>ix_id = i, ix_version_id = se_version_id e, ix_type = se_type e, ix_name = se_name e,
     ix_full_path = se_full_path e, ix_parent_path = null_string (se_parent_path e), ix_file = null_string (se_file e),
     ix_line = null_int (se_line e), ix_description = null_string (se_description e), ix_comments = null_string (se_comments e),
     ix_field_type = null_string (se_field_type e), ix_field_number = null_int (se_field_number e),
     ix_repeated = se_repeated e, ix_optional = se_optional e, ix_input = null_string (se_input e),
     ix_output = null_string (se_output e), ix_metadata = se_metadata e\<rparr>"

definition insert_entity :: "search_entity \<Rightarrow> search_db \<Rightarrow> search_db" where
  "insert_entity e db = db\<lparr>sd_index := sd_index db @ [index_row_of (sd_next db) e], sd_next := sd_next db + 1\<rparr>"

text \<open>A batch is one statement.\<close>

definition insert_entity_batch :: "search_entity list \<Rightarrow> search_db \<Rightarrow> search_db" where
  "insert_entity_batch es db = fold insert_entity es db"

function batch_insert_entities :: "search_entity list \<Rightarrow> search_db \<Rightarrow> search_db" where
  "batch_insert_entities es db =
     (if es = [] then db else batch_insert_entities (drop 100 es) (insert_entity_batch (take 100 es) db))"
  by pat_completeness auto

termination batch_insert_entities
  by (relation "measure (\<lambda>(es, db). length es)") (auto simp: length_greater_0_conv [symmetric] simp del: length_greater_0_conv)

declare batch_insert_entities.simps [simp del]

section \<open>Indexing\<close>

datatype index_error = No_Version_Id | Version_Unread store_error | Modules_Unread store_error | Index_Panic go_panic

definition index_one_file :: "storage_reader \<Rightarrow> proto_compiler \<Rightarrow> int \<Rightarrow> string \<Rightarrow> string \<Rightarrow> api_file \<Rightarrow>
    index_error + search_entity list" where
  "index_one_file rd pc vid m v f = (case rd_get_file rd m v (af_path f) of
     Inl _ \<Rightarrow> Inr []
   | Inr c \<Rightarrow> (case parse_string pc (af_content c) of
       Inl (Parse_Error _) \<Rightarrow> Inr []
     | Inl (Parse_Panic p) \<Rightarrow> Inl (Index_Panic p)
     | Inr ast \<Rightarrow> Inr (extract_entities vid ast (af_path f))))"

definition version_id :: "search_db \<Rightarrow> string \<Rightarrow> string \<Rightarrow> int option" where
  "version_id db m v = map_option fst (find (\<lambda>(i, m', v'). m' = m \<and> v' = v) (sd_versions db))"

definition index_version :: "storage_reader \<Rightarrow> proto_compiler \<Rightarrow> string \<Rightarrow> string \<Rightarrow> search_db \<Rightarrow>
    ((index_error + unit) \<times> search_db) option" where
  "index_version rd pc m v db = (case version_id db m v of
     None \<Rightarrow> Some (Inl No_Version_Id, db)
   | Some vid \<Rightarrow>
       (let db = db\<lparr>sd_index := filter (\<lambda>r. ix_version_id r \<noteq> vid) (sd_index db)\<rparr> in
        Option.bind (rd_get_version rd m v) (\<lambda>r. Some (case r of
          Inl e \<Rightarrow> (Inl (Version_Unread e), db)
        | Inr ver \<Rightarrow>
            if sr_files ver = [] then (Inr (), db)
            else (case collect (index_one_file rd pc vid m v) (sr_files ver) of
                Inl e \<Rightarrow> (Inl e, db) | Inr es \<Rightarrow> (Inr (), batch_insert_entities es db))))))"

text \<open>The loops of \<open>ReindexAll\<close>: a version that fails is passed over, a panic is not.\<close>

definition reindex_version :: "storage_reader \<Rightarrow> proto_compiler \<Rightarrow> string \<Rightarrow> search_version \<Rightarrow>
    ((index_error + unit) \<times> search_db) option \<Rightarrow> ((index_error + unit) \<times> search_db) option" where
  "reindex_version rd pc m v st = Option.bind st (\<lambda>(r, db). case r of
     Inl e \<Rightarrow> Some (Inl e, db)
   | Inr _ \<Rightarrow> map_option (\<lambda>(r, db). (case r of Inl (Index_Panic p) \<Rightarrow> Inl (Index_Panic p) | _ \<Rightarrow> Inr (), db))
       (index_version rd pc m (sr_version v) db))"

definition reindex_module :: "storage_reader \<Rightarrow> proto_compiler \<Rightarrow> string \<Rightarrow>
    ((index_error + unit) \<times> search_db) option \<Rightarrow> ((index_error + unit) \<times> search_db) option" where
  "reindex_module rd pc m st = Option.bind st (\<lambda>(r, db). case r of
     Inl e \<Rightarrow> Some (Inl e, db)
   | Inr _ \<Rightarrow> Option.bind (rd_list_versions rd m) (\<lambda>vs. case vs of
       Inl _ \<Rightarrow> Some (Inr (), db) | Inr vs \<Rightarrow> fold (reindex_version rd pc m) vs (Some (Inr (), db))))"

definition reindex_all :: "storage_reader \<Rightarrow> proto_compiler \<Rightarrow> search_db \<Rightarrow> ((index_error + unit) \<times> search_db) option" where
  "reindex_all rd pc db = (case rd_list_modules rd of
     Inl e \<Rightarrow> Some (Inl (Modules_Unread e), db)
   | Inr ms \<Rightarrow> fold (reindex_module rd pc) (map fst ms) (Some (Inr (), db)))"

end
