(* ===== verification/Search_Service.thy ===== *)
theory Search_Service
  imports Search_Index
begin

text \<open>
  The search over the index (\<open>pkg/search/search_service.go\<close>) and its requests (\<open>pkg/api/search_handlers.go\<close>). A
  statement is its list of conditions; a placeholder is a position, from one, in the list of arguments.
\<close>

section \<open>Statements\<close>

datatype sql_arg = Arg_Text string | Arg_Int int

datatype sql_cond =
    Text_Matches nat
  | Type_In "nat list"
  | Field_Type_In "nat list"
  | Module_Like nat
  | Module_Eq nat
  | Version_Eq nat
  | Has_Comments

text \<open>The conditions and arguments so far, and the next placeholder.\<close>

type_synonym sql_state = "sql_cond list \<times> sql_arg list \<times> nat"

definition add_condition :: "(nat \<Rightarrow> sql_cond) \<Rightarrow> string \<Rightarrow> sql_state \<Rightarrow> sql_state" where
  "add_condition cond a = (\<lambda>(cs, as, i). (cs @ [cond i], as @ [Arg_Text a], i + 1))"

definition add_text_condition :: "parsed_query \<Rightarrow> sql_state \<Rightarrow> sql_state" where
  "add_text_condition q st = (if pq_terms q \<noteq> [] then add_condition Text_Matches (to_ts_query q) st else st)"

definition add_in_condition :: "(nat list \<Rightarrow> sql_cond) \<Rightarrow> string list \<Rightarrow> sql_state \<Rightarrow> sql_state" where
  "add_in_condition cond xs = (\<lambda>(cs, as, i).
     if xs = [] then (cs, as, i) else (cs @ [cond [i..<i + length xs]], as @ map Arg_Text xs, i + length xs))"

definition wildcard_pattern :: "string \<Rightarrow> bool" where
  "wildcard_pattern p \<longleftrightarrow> CHR ''*'' \<in> set p \<or> CHR ''%'' \<in> set p"

definition like_pattern :: "string \<Rightarrow> string" where
  "like_pattern p = map (\<lambda>c. if c = CHR ''*'' then CHR ''%'' else c) p"

definition add_module_condition :: "string \<Rightarrow> sql_state \<Rightarrow> sql_state" where
  "add_module_condition p st =
     (if p = [] then st
      else if wildcard_pattern p then add_condition Module_Like (like_pattern p) st
      else add_condition Module_Eq p st)"

definition add_version_condition :: "string \<Rightarrow> sql_state \<Rightarrow> sql_state" where
  "add_version_condition v st = (if v = [] then st else add_condition Version_Eq v st)"

definition add_comment_condition :: "bool \<Rightarrow> sql_state \<Rightarrow> sql_state" where
  "add_comment_condition b = (\<lambda>(cs, as, i). (if b then cs @ [Has_Comments] else cs, as, i))"

definition search_conditions :: "parsed_query \<Rightarrow> sql_state" where
  "search_conditions q =
     (let st = ([], [], 1);
          st = add_text_condition q st;
          st = add_in_condition Type_In (pq_entity_types q) st;
          st = add_in_condition Field_Type_In (pq_field_types q) st;
          st = add_module_condition (pq_module_pattern q) st;
          st = add_version_condition (pq_version_constraint q) st
      in add_comment_condition (pq_has_comment q) st)"

record search_sql =
  ss_rank :: "nat option"
  ss_conds :: "sql_cond list"
  ss_limit :: nat
  ss_offset :: nat

definition build_search_query :: "parsed_query \<Rightarrow> int \<Rightarrow> int \<Rightarrow> search_sql \<times> sql_arg list" where
  "build_search_query q limit offset =
     (let (cs, as, i) = search_conditions q in
      (\<lparr>ss_rank = (if pq_terms q \<noteq> [] then Some 1 else None), ss_conds = cs, ss_limit = i, ss_offset = i + 1\<rparr>,
       as @ [Arg_Int limit, Arg_Int offset]))"

section \<open>What the database does with them\<close>

text \<open>Text queries: whether one has the right syntax, the rows it matches and their rank; and \<open>LIKE\<close>.\<close>

record text_search =
  tx_valid :: "string \<Rightarrow> bool"
  tx_matches :: "string \<Rightarrow> index_row \<Rightarrow> bool"
  tx_rank :: "string \<Rightarrow> index_row \<Rightarrow> rat"
  tx_like :: "string \<Rightarrow> string \<Rightarrow> bool"

type_synonym joined_row = "index_row \<times> string \<times> string"

definition joined_rows :: "search_db \<Rightarrow> joined_row list" where
  "joined_rows db = concat (map (\<lambda>r. map (\<lambda>(i, m, v). (r, m, v)) (filter (\<lambda>(i, m, v). i = ix_version_id r) (sd_versions db))) (sd_index db))"

definition text_arg :: "sql_arg list \<Rightarrow> nat \<Rightarrow> string" where
  "text_arg as i = (case as ! (i - 1) of Arg_Text s \<Rightarrow> s | Arg_Int n \<Rightarrow> [])"

definition int_arg :: "sql_arg list \<Rightarrow> nat \<Rightarrow> int" where
  "int_arg as i = (case as ! (i - 1) of Arg_Text s \<Rightarrow> 0 | Arg_Int n \<Rightarrow> n)"

fun cond_holds :: "text_search \<Rightarrow> sql_arg list \<Rightarrow> joined_row \<Rightarrow> sql_cond \<Rightarrow> bool" where
  "cond_holds tx as (r, m, v) (Text_Matches i) \<longleftrightarrow> tx_matches tx (text_arg as i) r"
| "cond_holds tx as (r, m, v) (Type_In is) \<longleftrightarrow> list_ex (\<lambda>i. ix_type r = text_arg as i) is"
| "cond_holds tx as (r, m, v) (Field_Type_In is) \<longleftrightarrow> list_ex (\<lambda>i. ix_field_type r = Some (text_arg as i)) is"
| "cond_holds tx as (r, m, v) (Module_Like i) \<longleftrightarrow> tx_like tx m (text_arg as i)"
| "cond_holds tx as (r, m, v) (Module_Eq i) \<longleftrightarrow> m = text_arg as i"
| "cond_holds tx as (r, m, v) (Version_Eq i) \<longleftrightarrow> v = text_arg as i"
| "cond_holds tx as (r, m, v) Has_Comments \<longleftrightarrow> ix_comments r \<noteq> None \<and> ix_comments r \<noteq> Some []"

definition selected_rows :: "text_search \<Rightarrow> search_db \<Rightarrow> sql_cond list \<Rightarrow> sql_arg list \<Rightarrow> joined_row list" where
  "selected_rows tx db cs as = filter (\<lambda>x. list_all (cond_holds tx as x) cs) (joined_rows db)"

definition row_rank :: "text_search \<Rightarrow> search_sql \<Rightarrow> sql_arg list \<Rightarrow> index_row \<Rightarrow> rat" where
  "row_rank tx s as r = (case ss_rank s of Some i \<Rightarrow> tx_rank tx (text_arg as i) r | None \<Rightarrow> 0)"

definition ordered_rows :: "text_search \<Rightarrow> search_sql \<Rightarrow> sql_arg list \<Rightarrow> joined_row list \<Rightarrow> joined_row list" where
  "ordered_rows tx s as rows =
     (if ss_rank s \<noteq> None then sort_key (\<lambda>(r, m, v). - row_rank tx s as r) (sort_key (\<lambda>(r, m, v). ix_name r) rows)
      else sort_key (\<lambda>(r, m, v). ix_name r) (sort_key (\<lambda>(r, m, v). m) rows))"

record entity_result =
  er_id :: int
  er_type :: string
  er_name :: string
  er_full_path :: string
  er_parent_path :: string
  er_module :: string
  er_version :: string
  er_file :: string
  er_line :: int
  er_description :: string
  er_comments :: string
  er_field_type :: string
  er_field_number :: int
  er_repeated :: bool
  er_optional :: bool
  er_input :: string
  er_output :: string
  er_rank :: rat

text \<open>\<open>COALESCE\<close>.\<close>

definition or_else :: "'a \<Rightarrow> 'a option \<Rightarrow> 'a" where
  "or_else d x = (case x of Some a \<Rightarrow> a | None \<Rightarrow> d)"

definition result_of_row :: "rat \<Rightarrow> joined_row \<Rightarrow> entity_result" where
  "result_of_row rank = (\<lambda>(r, m, v).
     \<lparr>er_id = ix_id r, er_type = ix_type r, er_name = ix_name r, er_full_path = ix_full_path r,
      er_parent_path = or_else [] (ix_parent_path r), er_module = m, er_version = v, er_file = or_else [] (ix_file r),
      er_line = or_else 0 (ix_line r), er_description = or_else [] (ix_description r), er_comments = or_else [] (ix_comments r),
      er_field_type = or_else [] (ix_field_type r), er_field_number = or_else 0 (ix_field_number r),
      er_repeated = ix_repeated r, er_optional = ix_optional r, er_input = or_else [] (ix_input r),
      er_output = or_else [] (ix_output r), er_rank = rank\<rparr>)"

text \<open>A text query with a wrong syntax, and a negative offset, are errors.\<close>

definition valid_statement :: "text_search \<Rightarrow> sql_cond list \<Rightarrow> sql_arg list \<Rightarrow> bool" where
  "valid_statement tx cs as \<longleftrightarrow> list_all (\<lambda>c. case c of Text_Matches i \<Rightarrow> tx_valid tx (text_arg as i) | _ \<Rightarrow> True) cs"

definition execute_search :: "text_search \<Rightarrow> search_db \<Rightarrow> search_sql \<Rightarrow> sql_arg list \<Rightarrow> string + entity_result list" where
  "execute_search tx db s as =
     (if \<not> valid_statement tx (ss_conds s) as then Inl ''syntax error in tsquery''
      else if int_arg as (ss_offset s) < 0 then Inl ''OFFSET must not be negative''
      else Inr (map (\<lambda>(r, m, v). result_of_row (row_rank tx s as r) (r, m, v))
        (take (nat (int_arg as (ss_limit s))) (drop (nat (int_arg as (ss_offset s)))
          (ordered_rows tx s as (selected_rows tx db (ss_conds s) as))))))"

section \<open>The service\<close>

record search_request =
  rq_query :: string
  rq_limit :: int
  rq_offset :: int

record search_response =
  sn_results :: "entity_result list"
  sn_total :: int
  sn_query :: string
  sn_parsed :: parsed_query

datatype service_error = Query_Invalid query_error | Search_Failure string | Count_Failure string

definition get_total_count :: "text_search \<Rightarrow> search_db \<Rightarrow> parsed_query \<Rightarrow> service_error + int" where
  "get_total_count tx db q =
     (let (cs, as, i) = search_conditions q in
      if \<not> valid_statement tx cs as then Inl (Count_Failure ''syntax error in tsquery'')
      else Inr (int (length (selected_rows tx db cs as))))"

definition service_search :: "text_search \<Rightarrow> search_db \<Rightarrow> search_request \<Rightarrow> service_error + search_response" where
  "service_search tx db req =
     (let limit = (if rq_limit req \<le> 0 then 50 else rq_limit req); limit = (if limit > 1000 then 1000 else limit) in
      case parse_query (rq_query req) of
        Inl e \<Rightarrow> Inl (Query_Invalid e)
      | Inr q \<Rightarrow>
          (let (s, as) = build_search_query q limit (rq_offset req) in
           case execute_search tx db s as of
             Inl e \<Rightarrow> Inl (Search_Failure e)
           | Inr results \<Rightarrow> Inr \<lparr>sn_results = results,
               sn_total = (case get_total_count tx db q of Inl e \<Rightarrow> int (length results) | Inr n \<Rightarrow> n),
               sn_query = rq_query req, sn_parsed = q\<rparr>))"

definition get_suggestions :: "text_search \<Rightarrow> search_db \<Rightarrow> string \<Rightarrow> int \<Rightarrow> string list" where
  "get_suggestions tx db prefix' limit =
     (let limit = (if limit \<le> 0 then 5 else limit); limit = (if limit > 20 then 20 else limit) in
      take (nat limit) (map fst (sort_key (\<lambda>(q, n, t). - n) (sort_key (\<lambda>(q, n, t). - t)
        (filter (\<lambda>(q, n, t). tx_like tx q (prefix' @ ''%'')) (sd_suggestions db))))))"

definition record_search :: "string \<Rightarrow> int \<Rightarrow> int \<Rightarrow> search_db \<Rightarrow> search_db" where
  "record_search query results ms db = db\<lparr>sd_history := sd_history db @ [(query, results, ms)]\<rparr>"

section \<open>The requests\<close>

datatype enhanced_reply =
    Bad_Search string
  | Search_Error service_error
  | Search_Response search_response
  | Suggestions_Json string "string list"

text \<open>With the status, the search that is recorded afterwards: the query and the number of its results.\<close>

definition handle_enhanced_search :: "text_search \<Rightarrow> search_db \<Rightarrow> unit web_request \<Rightarrow> nat \<times> enhanced_reply \<times> (string \<times> int) option" where
  "handle_enhanced_search tx db r =
     (let query = parse_query_string r ''q'' [] in
      if query = [] then (400, Bad_Search (''missing query parameter '' @ in_quotes ''q''), None)
      else (case parse_query_int r ''limit'' 50 of
        Inl e \<Rightarrow> (400, Bad_Search e, None)
      | Inr limit \<Rightarrow> (case parse_query_int r ''offset'' 0 of
          Inl e \<Rightarrow> (400, Bad_Search e, None)
        | Inr offset \<Rightarrow> (case service_search tx db \<lparr>rq_query = query, rq_limit = limit, rq_offset = offset\<rparr> of
            Inl e \<Rightarrow> (500, Search_Error e, None)
          | Inr resp \<Rightarrow> (200, Search_Response resp, Some (query, sn_total resp))))))"

definition handle_get_suggestions :: "text_search \<Rightarrow> search_db \<Rightarrow> unit web_request \<Rightarrow> nat \<times> enhanced_reply" where
  "handle_get_suggestions tx db r =
     (let prefix' = parse_query_string r ''prefix'' [] in
      if prefix' = [] then (400, Bad_Search (''missing query parameter '' @ in_quotes ''prefix''))
      else (case parse_query_int r ''limit'' 5 of
        Inl e \<Rightarrow> (400, Bad_Search e)
      | Inr limit \<Rightarrow> (200, Suggestions_Json prefix' (get_suggestions tx db prefix' limit))))"

end
