(* ===== verification/Search_Service_Props.thy ===== *)
theory Search_Service_Props
  imports Search_Service Serialize_Props
begin

text \<open>What a search over the index answers, and what indexing a version makes of it.\<close>

section \<open>Statements\<close>

text \<open>
  A state of the statement under construction means a condition on rows, whatever arguments are added after those it has.
\<close>

definition state_means :: "(sql_arg list \<Rightarrow> sql_cond \<Rightarrow> bool) \<Rightarrow> sql_state \<Rightarrow> bool \<Rightarrow> bool" where
  "state_means ev st P \<longleftrightarrow> (case st of (cs, as, i) \<Rightarrow> i = length as + 1 \<and> (\<forall>as'. list_all (ev (as @ as')) cs = P))"

lemma state_means_condition:
  assumes "state_means ev st P" and "\<And>as i. text_arg as i = a \<Longrightarrow> ev as (cond i) = Q"
  shows "state_means ev (add_condition cond a st) (P \<and> Q)"
proof -
  obtain cs as i where st: "st = (cs, as, i)" by (cases st)
  have "text_arg (as @ Arg_Text a # as') (length as + 1) = a" for as' by (simp add: text_arg_def)
  then have "ev (as @ Arg_Text a # as') (cond (length as + 1)) = Q" for as' by (rule assms(2))
  then show ?thesis using assms(1) by (simp add: st state_means_def add_condition_def)
qed

lemma state_means_in:
  assumes "state_means ev st P" and "\<And>as is. map (text_arg as) is = xs \<Longrightarrow> ev as (cond is) = Q"
  shows "state_means ev (add_in_condition cond xs st) (P \<and> (xs \<noteq> [] \<longrightarrow> Q))"
proof -
  obtain cs as i where st: "st = (cs, as, i)" by (cases st)
  have arg: "text_arg (as @ map Arg_Text xs @ as') (Suc (length as + k)) = xs ! k" if "k < length xs" for as' k
    using that by (simp add: text_arg_def nth_append)
  have args: "map (text_arg (as @ map Arg_Text xs @ as')) [length as + 1..<length as + 1 + length xs] = xs" for as'
    by (rule nth_equalityI) (simp_all add: arg del: upt_Suc)
  have "ev (as @ map Arg_Text xs @ as') (cond [length as + 1..<length as + 1 + length xs]) = Q" for as'
    by (rule assms(2)) (rule args)
  then show ?thesis using assms(1) by (cases "xs = []") (simp_all add: st state_means_def add_in_condition_def)
qed

lemma list_ex_args: "map f is = xs \<Longrightarrow> list_ex (\<lambda>i. a = f i) is = (a \<in> set xs)"
  by (induction "is" arbitrary: xs) auto

lemma list_ex_args_some: "map f is = xs \<Longrightarrow> list_ex (\<lambda>i. a = Some (f i)) is = (a \<in> Some ` set xs)"
  by (induction "is" arbitrary: xs) auto

lemma state_means_if: "(B \<Longrightarrow> state_means ev st P) \<Longrightarrow> (\<not> B \<Longrightarrow> state_means ev st' P') \<Longrightarrow>
    state_means ev (if B then st else st') (if B then P else P')"
  by simp

text \<open>What a query asks of a row.\<close>

definition wanted :: "text_search \<Rightarrow> parsed_query \<Rightarrow> joined_row \<Rightarrow> bool" where
  "wanted tx q = (\<lambda>(r, m, v).
     (pq_terms q \<noteq> [] \<longrightarrow> tx_matches tx (to_ts_query q) r) \<and>
     (pq_entity_types q \<noteq> [] \<longrightarrow> ix_type r \<in> set (pq_entity_types q)) \<and>
     (pq_field_types q \<noteq> [] \<longrightarrow> ix_field_type r \<in> Some ` set (pq_field_types q)) \<and>
     (pq_module_pattern q \<noteq> [] \<longrightarrow> (if wildcard_pattern (pq_module_pattern q) then tx_like tx m (like_pattern (pq_module_pattern q))
        else m = pq_module_pattern q)) \<and>
     (pq_version_constraint q \<noteq> [] \<longrightarrow> v = pq_version_constraint q) \<and>
     (pq_has_comment q \<longrightarrow> ix_comments r \<notin> {None, Some []}))"

lemma state_means_cong: "state_means ev st P \<Longrightarrow> P = Q \<Longrightarrow> state_means ev st Q"
  by simp

lemma search_conditions_mean: "state_means (\<lambda>as. cond_holds tx as (r, m, v)) (search_conditions q) (wanted tx q (r, m, v))"
proof -
  let ?ev = "\<lambda>as. cond_holds tx as (r, m, v)"
  define st1 where "st1 = add_text_condition q ([], [], 1)"
  define st2 where "st2 = add_in_condition Type_In (pq_entity_types q) st1"
  define st3 where "st3 = add_in_condition Field_Type_In (pq_field_types q) st2"
  define st4 where "st4 = add_module_condition (pq_module_pattern q) st3"
  define st5 where "st5 = add_version_condition (pq_version_constraint q) st4"
  have "state_means ?ev ([], [], 1) True" by (simp add: state_means_def)
  then have "state_means ?ev st1 (pq_terms q \<noteq> [] \<longrightarrow> tx_matches tx (to_ts_query q) r)" (is "state_means _ _ ?P1")
    unfolding st1_def add_text_condition_def
    using state_means_condition [of ?ev "([], [], 1)" True "to_ts_query q" Text_Matches "tx_matches tx (to_ts_query q) r"] by auto
  then have "state_means ?ev st2 (?P1 \<and> (pq_entity_types q \<noteq> [] \<longrightarrow> ix_type r \<in> set (pq_entity_types q)))" (is "state_means _ _ ?P2")
    unfolding st2_def by (rule state_means_in) (simp add: list_ex_args)
  then have "state_means ?ev st3 (?P2 \<and> (pq_field_types q \<noteq> [] \<longrightarrow> ix_field_type r \<in> Some ` set (pq_field_types q)))" (is "state_means _ _ ?P3")
    unfolding st3_def by (rule state_means_in) (simp add: list_ex_args_some)
  then have "state_means ?ev st4 (?P3 \<and> (pq_module_pattern q \<noteq> [] \<longrightarrow>
      (if wildcard_pattern (pq_module_pattern q) then tx_like tx m (like_pattern (pq_module_pattern q)) else m = pq_module_pattern q)))"
      (is "state_means _ _ ?P4")
    using state_means_condition [of ?ev st3 ?P3 "like_pattern (pq_module_pattern q)" Module_Like "tx_like tx m (like_pattern (pq_module_pattern q))"]
      state_means_condition [of ?ev st3 ?P3 "pq_module_pattern q" Module_Eq "m = pq_module_pattern q"]
    unfolding st4_def add_module_condition_def by (cases "pq_module_pattern q = []"; cases "wildcard_pattern (pq_module_pattern q)") simp_all
  then have "state_means ?ev st5 (?P4 \<and> (pq_version_constraint q \<noteq> [] \<longrightarrow> v = pq_version_constraint q))" (is "state_means _ _ ?P5")
    using state_means_condition [of ?ev st4 ?P4 "pq_version_constraint q" Version_Eq "v = pq_version_constraint q"]
    unfolding st5_def add_version_condition_def by (cases "pq_version_constraint q = []") simp_all
  then have "state_means ?ev (add_comment_condition (pq_has_comment q) st5) (?P5 \<and> (pq_has_comment q \<longrightarrow> ix_comments r \<notin> {None, Some []}))"
    by (cases st5) (auto simp: state_means_def add_comment_condition_def)
  then show ?thesis
    unfolding search_conditions_def Let_def st1_def [symmetric] st2_def [symmetric] st3_def [symmetric] st4_def [symmetric] st5_def [symmetric]
    by (rule state_means_cong) (simp only: wanted_def prod.case conj_assoc)
qed

text \<open>Added arguments change nothing, and no other statement than one with a bad text query is invalid.\<close>

lemma selected_rows_wanted:
  assumes "search_conditions q = (cs, as, i)"
  shows "selected_rows tx db cs (as @ as') = filter (wanted tx q) (joined_rows db)"
proof -
  have "list_all (cond_holds tx (as @ as') (r, m, v)) cs = wanted tx q (r, m, v)" for r m v
    using search_conditions_mean [of tx r m v q] unfolding assms state_means_def prod.case by blast
  then show ?thesis unfolding selected_rows_def by (intro filter_cong) auto
qed

lemma placeholder_next: "search_conditions q = (cs, as, i) \<Longrightarrow> i = length as + 1"
  using search_conditions_mean [of undefined undefined undefined undefined q] by (simp add: state_means_def)

definition text_valid :: "text_search \<Rightarrow> parsed_query \<Rightarrow> bool" where
  "text_valid tx q \<longleftrightarrow> (pq_terms q \<noteq> [] \<longrightarrow> tx_valid tx (to_ts_query q))"

definition cond_valid :: "text_search \<Rightarrow> sql_arg list \<Rightarrow> sql_cond \<Rightarrow> bool" where
  "cond_valid tx as c = (case c of Text_Matches i \<Rightarrow> tx_valid tx (text_arg as i) | _ \<Rightarrow> True)"

lemma search_conditions_valid: "state_means (cond_valid tx) (search_conditions q) (text_valid tx q)"
proof -
  let ?ev = "cond_valid tx"
  have "state_means ?ev ([], [], 1) True" by (simp add: state_means_def)
  then have "state_means ?ev (add_text_condition q ([], [], 1)) (text_valid tx q)"
    unfolding add_text_condition_def text_valid_def
    using state_means_condition [of ?ev "([], [], 1)" True "to_ts_query q" Text_Matches "tx_valid tx (to_ts_query q)"]
    by (auto simp: cond_valid_def)
  then have "state_means ?ev (add_in_condition Type_In (pq_entity_types q) (add_text_condition q ([], [], 1)))
      (text_valid tx q \<and> (pq_entity_types q \<noteq> [] \<longrightarrow> True))"
    by (rule state_means_in) (simp add: cond_valid_def)
  then have "state_means ?ev (add_in_condition Field_Type_In (pq_field_types q)
      (add_in_condition Type_In (pq_entity_types q) (add_text_condition q ([], [], 1))))
      ((text_valid tx q \<and> (pq_entity_types q \<noteq> [] \<longrightarrow> True)) \<and> (pq_field_types q \<noteq> [] \<longrightarrow> True))"
    (is "state_means _ ?st _") by (rule state_means_in) (simp add: cond_valid_def)
  then have "state_means ?ev ?st (text_valid tx q)" by simp
  then have "state_means ?ev (add_module_condition (pq_module_pattern q) ?st) (text_valid tx q)" (is "state_means _ ?st' _")
    using state_means_condition [of ?ev ?st "text_valid tx q" "like_pattern (pq_module_pattern q)" Module_Like True]
      state_means_condition [of ?ev ?st "text_valid tx q" "pq_module_pattern q" Module_Eq True]
    unfolding add_module_condition_def by (simp add: cond_valid_def)
  then have "state_means ?ev (add_version_condition (pq_version_constraint q) ?st') (text_valid tx q)" (is "state_means _ ?st'' _")
    using state_means_condition [of ?ev ?st' "text_valid tx q" "pq_version_constraint q" Version_Eq True]
    unfolding add_version_condition_def by (simp add: cond_valid_def)
  then have "state_means ?ev (add_comment_condition (pq_has_comment q) ?st'') (text_valid tx q)"
    by (cases ?st'') (auto simp: state_means_def add_comment_condition_def cond_valid_def)
  then show ?thesis unfolding search_conditions_def Let_def .
qed

lemma valid_statement_text:
  assumes "search_conditions q = (cs, as, i)"
  shows "valid_statement tx cs (as @ as') = text_valid tx q"
  using search_conditions_valid [of tx q] unfolding assms state_means_def prod.case valid_statement_def cond_valid_def [symmetric]
  by blast

section \<open>Responses\<close>

lemma lex_sorted:
  fixes f :: "'a \<Rightarrow> 'k :: linorder" and g :: "'a \<Rightarrow> 'l :: linorder"
  shows "sorted (map f l) \<Longrightarrow> (\<And>k. sorted (map g (filter (\<lambda>x. f x = k) l))) \<Longrightarrow>
    sorted_wrt (\<lambda>x y. f x < f y \<or> f x = f y \<and> g x \<le> g y) l"
proof (induction l)
  case (Cons x l)
  have "f x < f y \<or> f x = f y \<and> g x \<le> g y" if "y \<in> set l" for y
    using Cons.prems(1) Cons.prems(2) [of "f x"] that by auto
  moreover have "sorted (map g (filter (\<lambda>x. f x = k) l))" for k
    using Cons.prems(2) [of k] by (auto split: if_splits)
  ultimately show ?case using Cons by simp
qed simp

lemma two_keys: "sorted_wrt (\<lambda>x y. f x < f y \<or> f x = f y \<and> g x \<le> g y) (sort_key f (sort_key g l))"
proof (rule lex_sorted)
  show "sorted (map g (filter (\<lambda>x. f x = k) (sort_key f (sort_key g l))))" for k
    by (subst sort_key_stable) (simp only: filter_sort sorted_sort_key)
qed simp

definition ranked :: "text_search \<Rightarrow> parsed_query \<Rightarrow> joined_row \<Rightarrow> rat" where
  "ranked tx q = (\<lambda>(r, m, v). if pq_terms q \<noteq> [] then tx_rank tx (to_ts_query q) r else 0)"

definition in_order :: "text_search \<Rightarrow> parsed_query \<Rightarrow> joined_row \<Rightarrow> joined_row \<Rightarrow> bool" where
  "in_order tx q x y \<longleftrightarrow>
     (if pq_terms q \<noteq> [] then ranked tx q y < ranked tx q x \<or> ranked tx q x = ranked tx q y \<and> ix_name (fst x) \<le> ix_name (fst y)
      else ix_name (fst x) < ix_name (fst y) \<or> ix_name (fst x) = ix_name (fst y) \<and> fst (snd x) \<le> fst (snd y))"

definition page_limit :: "int \<Rightarrow> int" where
  "page_limit n = (if n \<le> 0 then 50 else min n 1000)"

text \<open>The text query, where there is one, is the first argument.\<close>

lemma arguments_kept:
  "prefix (fst (snd st)) (fst (snd (add_in_condition c xs st)))"
  "prefix (fst (snd st)) (fst (snd (add_module_condition p st)))"
  "prefix (fst (snd st)) (fst (snd (add_version_condition v st)))"
  "prefix (fst (snd st)) (fst (snd (add_comment_condition b st)))"
  by (cases st; simp add: add_in_condition_def add_module_condition_def add_version_condition_def add_comment_condition_def
    add_condition_def)+

lemma text_query_first:
  assumes "pq_terms q \<noteq> []" "search_conditions q = (cs, as, i)"
  shows "text_arg (as @ as') 1 = to_ts_query q"
proof -
  have "prefix [Arg_Text (to_ts_query q)] (fst (snd (search_conditions q)))"
    unfolding search_conditions_def Let_def
    by (intro prefix_order.trans [OF _ arguments_kept(1)] prefix_order.trans [OF _ arguments_kept(2)]
      prefix_order.trans [OF _ arguments_kept(3)] prefix_order.trans [OF _ arguments_kept(4)])
      (simp add: add_text_condition_def add_condition_def assms(1))
  then show ?thesis by (auto simp: assms(2) prefix_def text_arg_def)
qed

lemma ordered_rows_spec:
  assumes "build_search_query q limit offset = (s, as)"
  shows "mset (ordered_rows tx s as rows) = mset rows" and "sorted_wrt (in_order tx q) (ordered_rows tx s as rows)"
    and "row_rank tx s as (fst x) = ranked tx q x"
proof -
  obtain cs bs i where q: "search_conditions q = (cs, bs, i)" by (cases "search_conditions q")
  have s: "ss_rank s = (if pq_terms q \<noteq> [] then Some 1 else None)" "as = bs @ [Arg_Int limit, Arg_Int offset]"
    using assms by (auto simp: build_search_query_def q)
  have rank: "row_rank tx s as r = (if pq_terms q \<noteq> [] then tx_rank tx (to_ts_query q) r else 0)" for r
    using text_query_first [OF _ q] by (simp add: row_rank_def s)
  show "row_rank tx s as (fst x) = ranked tx q x" by (cases x) (simp add: rank ranked_def)
  show "mset (ordered_rows tx s as rows) = mset rows" by (simp add: ordered_rows_def)
  show "sorted_wrt (in_order tx q) (ordered_rows tx s as rows)"
    unfolding ordered_rows_def
    by (split if_split, intro conjI impI; rule sorted_wrt_mono_rel [OF _ two_keys])
      (auto simp: in_order_def ranked_def rank s(1))
qed

lemma build_search_query_args:
  assumes "search_conditions q = (cs, as, i)" "build_search_query q limit offset = (s, bs)"
  shows "ss_conds s = cs" "bs = as @ [Arg_Int limit, Arg_Int offset]" "int_arg bs (ss_limit s) = limit" "int_arg bs (ss_offset s) = offset"
  using assms(2) placeholder_next [OF assms(1)] by (auto simp: build_search_query_def assms(1) int_arg_def nth_append)

lemma get_total_count_wanted:
  "get_total_count tx db q = (if text_valid tx q then Inr (int (length (filter (wanted tx q) (joined_rows db))))
     else Inl (Count_Failure ''syntax error in tsquery''))"
proof -
  obtain cs as i where q: "search_conditions q = (cs, as, i)" by (cases "search_conditions q")
  show ?thesis
    using selected_rows_wanted [OF q, of tx db "[]"] valid_statement_text [OF q, of tx "[]"]
    by (simp only: get_total_count_def q Let_def prod.case append_Nil2 if_not_P if_P split: if_split) simp
qed

lemma execute_search_wanted:
  assumes "build_search_query q limit offset = (s, as)"
  shows "execute_search tx db s as =
    (if \<not> text_valid tx q then Inl ''syntax error in tsquery''
     else if offset < 0 then Inl ''OFFSET must not be negative''
     else Inr (map (\<lambda>x. result_of_row (ranked tx q x) x)
       (take (nat limit) (drop (nat offset) (ordered_rows tx s as (filter (wanted tx q) (joined_rows db)))))))"
proof -
  obtain cs bs i where q: "search_conditions q = (cs, bs, i)" by (cases "search_conditions q")
  note args = build_search_query_args [OF q assms]
  have rank: "row_rank tx s as r = ranked tx q (r, m, v)" for r m v
    using ordered_rows_spec(3) [OF assms, of tx "(r, m, v)"] by (simp only: fst_conv)
  have f: "(\<lambda>(r, m, v). result_of_row (row_rank tx s as r) (r, m, v)) = (\<lambda>x. result_of_row (ranked tx q x) x)"
    by (rule ext) (simp only: split_paired_all prod.case rank [symmetric])
  have rows: "selected_rows tx db (ss_conds s) as = filter (wanted tx q) (joined_rows db)"
    unfolding args(1,2) by (rule selected_rows_wanted [OF q])
  have valid: "valid_statement tx (ss_conds s) as = text_valid tx q"
    unfolding args(1,2) by (rule valid_statement_text [OF q])
  show ?thesis unfolding execute_search_def valid args(3,4) rows f ..
qed


section \<open>Indexing\<close>

text \<open>What a search shows of an entity that was indexed under an identifier.\<close>

definition shown_entity :: "string \<Rightarrow> string \<Rightarrow> rat \<Rightarrow> int \<Rightarrow> search_entity \<Rightarrow> entity_result" where
  "shown_entity m v rank i e =
     \<lparr>er_id = i, er_type = se_type e, er_name = se_name e, er_full_path = se_full_path e, er_parent_path = se_parent_path e,
      er_module = m, er_version = v, er_file = se_file e, er_line = se_line e, er_description = se_description e,
      er_comments = se_comments e, er_field_type = se_field_type e, er_field_number = se_field_number e,
      er_repeated = se_repeated e, er_optional = se_optional e, er_input = se_input e, er_output = se_output e, er_rank = rank\<rparr>"

lemma null_round_trip: "or_else [] (null_string s) = s" "or_else 0 (null_int n) = n"
  by (simp_all add: or_else_def null_string_def null_int_def)

lemma result_of_index_row: "result_of_row rank (index_row_of i e, m, v) = shown_entity m v rank i e"
  by (simp add: result_of_row_def index_row_of_def shown_entity_def null_round_trip)

fun numbered_rows :: "int \<Rightarrow> search_entity list \<Rightarrow> index_row list" where
  "numbered_rows n [] = []"
| "numbered_rows n (e # es) = index_row_of n e # numbered_rows (n + 1) es"

fun numbered_entities :: "string \<Rightarrow> string \<Rightarrow> int \<Rightarrow> search_entity list \<Rightarrow> entity_result list" where
  "numbered_entities m v n [] = []"
| "numbered_entities m v n (e # es) = shown_entity m v 0 n e # numbered_entities m v (n + 1) es"

lemma numbered_rows_shown: "map (\<lambda>r. result_of_row 0 (r, m, v)) (numbered_rows n es) = numbered_entities m v n es"
  by (induction es arbitrary: n) (simp_all add: result_of_index_row)

lemma insert_entities: "fold insert_entity es db =
    db\<lparr>sd_index := sd_index db @ numbered_rows (sd_next db) es, sd_next := sd_next db + int (length es)\<rparr>"
  by (induction es arbitrary: db) (simp_all add: insert_entity_def)

lemma batches_insert_all: "batch_insert_entities es db = fold insert_entity es db"
proof (induction es db rule: batch_insert_entities.induct)
  case (1 es db)
  have "fold insert_entity (drop 100 es) (fold insert_entity (take 100 es) db) = fold insert_entity es db"
    using fold_append [of insert_entity "take 100 es" "drop 100 es"] by (simp add: append_take_drop_id)
  then show ?case using 1 by (subst batch_insert_entities.simps) (simp add: insert_entity_batch_def)
qed

lemma numbered_rows_version: "(\<And>e. e \<in> set es \<Longrightarrow> se_version_id e = vid) \<Longrightarrow> r \<in> set (numbered_rows n es) \<Longrightarrow> ix_version_id r = vid"
  by (induction es arbitrary: n) (auto simp: index_row_of_def)

lemma entity_version: "se_version_id (entity vid k n f p path pos cs) = vid" by (simp add: entity_def)

lemma enum_entities_version: "x \<in> set (extract_enum_entities vid pkg path e) \<Longrightarrow> se_version_id x = vid"
  by (auto simp: extract_enum_entities_def Let_def entity_version)

lemma message_entities_version: "x \<in> set (extract_message_entities vid pkg path msg) \<Longrightarrow> se_version_id x = vid"
proof (induction vid pkg path msg arbitrary: x rule: extract_message_entities.induct)
  case (1 vid pkg path nm fs nested es os opts cs ds p q)
  then show ?case by (auto simp: Let_def entity_version extract_field_def dest: enum_entities_version)
qed

lemma extracted_version: "x \<in> set (extract_entities vid ast path) \<Longrightarrow> se_version_id x = vid"
  by (auto simp: extract_entities_def extract_service_entities_def extract_rpc_def Let_def entity_version
    dest: enum_entities_version message_entities_version)

text \<open>The entities of a version: those of its files that can be read and parsed.\<close>

definition file_entities :: "storage_reader \<Rightarrow> proto_compiler \<Rightarrow> int \<Rightarrow> string \<Rightarrow> string \<Rightarrow> string \<Rightarrow> search_entity list" where
  "file_entities rd pc vid m v path = (case rd_get_file rd m v path of
     Inl e \<Rightarrow> []
   | Inr c \<Rightarrow> (case parse_string pc (af_content c) of Inl e \<Rightarrow> [] | Inr ast \<Rightarrow> extract_entities vid ast path))"

definition version_entities :: "storage_reader \<Rightarrow> proto_compiler \<Rightarrow> int \<Rightarrow> string \<Rightarrow> string \<Rightarrow> api_file list \<Rightarrow> search_entity list" where
  "version_entities rd pc vid m v fs = concat (map (\<lambda>f. file_entities rd pc vid m v (af_path f)) fs)"

lemma version_entities_version: "x \<in> set (version_entities rd pc vid m v fs) \<Longrightarrow> se_version_id x = vid"
  by (auto simp: version_entities_def file_entities_def split: sum.splits dest: extracted_version)

lemma index_one_file_entities: "index_one_file rd pc vid m v f = Inr es \<Longrightarrow> es = file_entities rd pc vid m v (af_path f)"
  by (auto simp: index_one_file_def file_entities_def split: sum.splits parse_stop.splits)

lemma collect_entities: "collect (index_one_file rd pc vid m v) fs = Inr es \<Longrightarrow> es = version_entities rd pc vid m v fs"
  by (induction fs arbitrary: es) (auto simp: version_entities_def rbind_Inr_iff dest: index_one_file_entities)

lemma index_version_ok:
  assumes "index_version rd pc m v db = Some (Inr (), db')"
  obtains vid ver where "version_id db m v = Some vid" "rd_get_version rd m v = Some (Inr ver)"
    "db' = fold insert_entity (version_entities rd pc vid m v (sr_files ver))
       (db\<lparr>sd_index := filter (\<lambda>r. ix_version_id r \<noteq> vid) (sd_index db)\<rparr>)"
proof -
  obtain vid where vid: "version_id db m v = Some vid"
    using assms by (cases "version_id db m v") (auto simp: index_version_def)
  obtain ver where ver: "rd_get_version rd m v = Some (Inr ver)"
    using assms by (cases "rd_get_version rd m v"; cases "the (rd_get_version rd m v)") (auto simp: index_version_def vid Let_def)
  have "db' = fold insert_entity (version_entities rd pc vid m v (sr_files ver))
       (db\<lparr>sd_index := filter (\<lambda>r. ix_version_id r \<noteq> vid) (sd_index db)\<rparr>)"
    using assms collect_entities [of rd pc vid m v "sr_files ver"]
    by (auto simp: index_version_def vid ver Let_def batches_insert_all version_entities_def split: if_splits sum.splits)
  with vid ver show thesis by (rule that)
qed

text \<open>
  C32. Indexing is a round trip: when indexing a version succeeds, the rows of every other version are as before, and the rows
  of the version, read back through the null columns of the table as a search reads them, are exactly the entities of its
  files that can be read and parsed, in the order of the files and under consecutive new identifiers, however many
  batches the insertion took; indexing the same version again replaces them.
\<close>

theorem index_version_round_trip:
  assumes "index_version rd pc m v db = Some (Inr (), db')"
  shows "\<exists>vid ver. version_id db m v = Some vid \<and> rd_get_version rd m v = Some (Inr ver) \<and>
    filter (\<lambda>r. ix_version_id r \<noteq> vid) (sd_index db') = filter (\<lambda>r. ix_version_id r \<noteq> vid) (sd_index db) \<and>
    map (\<lambda>r. result_of_row 0 (r, m, v)) (filter (\<lambda>r. ix_version_id r = vid) (sd_index db')) =
       numbered_entities m v (sd_next db) (version_entities rd pc vid m v (sr_files ver))"
proof -
  obtain vid ver where i: "version_id db m v = Some vid" "rd_get_version rd m v = Some (Inr ver)"
    and db': "db' = fold insert_entity (version_entities rd pc vid m v (sr_files ver))
       (db\<lparr>sd_index := filter (\<lambda>r. ix_version_id r \<noteq> vid) (sd_index db)\<rparr>)"
    using assms by (rule index_version_ok)
  define rows where "rows = numbered_rows (sd_next db) (version_entities rd pc vid m v (sr_files ver))"
  have "ix_version_id r = vid" if "r \<in> set rows" for r
    using that version_entities_version unfolding rows_def by (rule numbered_rows_version [rotated])
  then have "filter (\<lambda>r. ix_version_id r = vid) rows = rows" "filter (\<lambda>r. ix_version_id r \<noteq> vid) rows = []"
    by (auto simp: filter_empty_conv)
  moreover have "sd_index db' = filter (\<lambda>r. ix_version_id r \<noteq> vid) (sd_index db) @ rows"
    by (simp add: db' insert_entities rows_def)
  ultimately have "filter (\<lambda>r. ix_version_id r \<noteq> vid) (sd_index db') = filter (\<lambda>r. ix_version_id r \<noteq> vid) (sd_index db)"
    "map (\<lambda>r. result_of_row 0 (r, m, v)) (filter (\<lambda>r. ix_version_id r = vid) (sd_index db')) =
       numbered_entities m v (sd_next db) (version_entities rd pc vid m v (sr_files ver))"
    by (simp_all add: numbered_rows_shown [symmetric] rows_def [symmetric])
  with i show ?thesis by (intro exI conjI)
qed

definition indexed_reader :: storage_reader where
  "indexed_reader = \<lparr>rd_get_version = (\<lambda>m v. Some (Inr \<lparr>sr_version = v, sr_module = m,
       sr_files = [\<lparr>af_path = ''geo.proto'', af_content = ''a''\<rparr>], sr_dependencies = []\<rparr>)),
     rd_get_file = (\<lambda>_ _ p. Inr \<lparr>af_path = p, af_content = ''a''\<rparr>),
     rd_list_modules = Inr [(''geo'', [])], rd_list_versions = (\<lambda>_. Some (Inr []))\<rparr>"

definition indexed_db :: search_db where
  "indexed_db = \<lparr>sd_versions = [(1, ''geo'', ''1''), (2, ''geo'', ''2'')], sd_index = [], sd_next = 1, sd_history = [],
     sd_suggestions = []\<rparr>"

theorem index_version_round_trip_witness:
  defines "pc \<equiv> \<lambda>_ _. Inr [plain_file [Message_Descriptor ''M'' [] [] [] []]]"
  defines "db \<equiv> snd (the (index_version indexed_reader (\<lambda>_ _. Inr [plain_file [Message_Descriptor ''M'' [] [] [] []]]) ''geo'' ''2'' indexed_db))"
  shows "\<exists>vid ver. version_id indexed_db ''geo'' ''2'' = Some vid \<and> rd_get_version indexed_reader ''geo'' ''2'' = Some (Inr ver) \<and>
    filter (\<lambda>r. ix_version_id r \<noteq> vid) (sd_index db) = filter (\<lambda>r. ix_version_id r \<noteq> vid) (sd_index indexed_db) \<and>
    map (\<lambda>r. result_of_row 0 (r, ''geo'', ''2'')) (filter (\<lambda>r. ix_version_id r = vid) (sd_index db)) =
       numbered_entities ''geo'' ''2'' (sd_next indexed_db) (version_entities indexed_reader pc vid ''geo'' ''2'' (sr_files ver))"
proof -
  have parse: "parse_string pc ''a'' =
      Inr (finish_root (convert_descriptor (protodescriptor_to_proto (plain_file [Message_Descriptor ''M'' [] [] [] []])) ''a''))"
    unfolding pc_def by (rule parse_plain) simp_all
  have vid: "version_id indexed_db ''geo'' ''2'' = Some 2" by (simp add: version_id_def indexed_db_def)
  have "\<exists>db'. index_version indexed_reader pc ''geo'' ''2'' indexed_db = Some (Inr (), db')"
    by (simp add: index_version_def vid Let_def) (simp add: indexed_reader_def index_one_file_def parse)
  then have "index_version indexed_reader pc ''geo'' ''2'' indexed_db = Some (Inr (), db)"
    unfolding db_def pc_def [symmetric] by (elim exE) simp
  then show ?thesis by (rule index_version_round_trip)
qed

text \<open>The old entries go before the version is read, and outside a transaction.\<close>

lemma failed_index_loses_entries:
  assumes "version_id db m v = Some vid" "rd_get_version rd m v = Some (Inl e)"
  shows "index_version rd pc m v db = Some (Inl (Version_Unread e), db\<lparr>sd_index := filter (\<lambda>r. ix_version_id r \<noteq> vid) (sd_index db)\<rparr>)"
  by (simp add: index_version_def assms)

text \<open>Filters on imports and dependencies are parsed and ignored.\<close>

lemma import_filters_ignored:
  "search_conditions (q\<lparr>pq_imports := xs, pq_depends_on := ys\<rparr>) = search_conditions q"
  by (simp add: search_conditions_def add_text_condition_def to_ts_query_def Let_def)

end
