(* ===== verification/Storage_Postgres.thy ===== *)
theory Storage_Postgres
  imports Storage_Versions Codegen_Keys "HOL-Library.Word"
begin

text \<open>
  The storage in PostgreSQL, S3 and Redis (\<open>pkg/storage/postgres\<close>): its tables with the constraints of
  \<open>migrations\<close> 001 and 005, the objects of the bucket, and the keys in Redis. The database answers every
  statement that its schema accepts, S3 and Redis answer every request; a key of Redis may expire between two
  operations. The schema is a parameter, so that the code can be read with the tables it expects and with those
  the migrations make; \<open>migrated_schema\<close> is the latter.
\<close>

section \<open>Schemas\<close>

text \<open>A column has a name and has to be given a value if it is \<open>NOT NULL\<close> without a default.\<close>

type_synonym pg_columns = "(string \<times> bool) list"

record pg_schema =
  sc_modules :: pg_columns
  sc_versions :: pg_columns
  sc_files :: pg_columns

definition migrated_schema :: pg_schema where
  "migrated_schema =
     \<lparr>sc_modules = [(''id'', False), (''name'', True), (''description'', False), (''created_at'', False), (''updated_at'', False),
        (''metadata'', False), (''org_id'', True), (''is_public'', False), (''owner_id'', False)],
      sc_versions = [(''id'', False), (''module_id'', True), (''version'', True), (''created_at'', False),
        (''source_repository'', False), (''source_commit_sha'', False), (''source_branch'', False), (''dependencies'', False),
        (''proto_files_object_key'', False), (''proto_files_checksum'', False), (''metadata'', False)],
      sc_files = [(''id'', False), (''version_id'', True), (''file_path'', True), (''content_hash'', True), (''object_key'', True),
        (''file_size'', True), (''created_at'', False)]\<rparr>"

definition can_select :: "pg_columns \<Rightarrow> string list \<Rightarrow> bool" where
  "can_select cols names \<longleftrightarrow> list_all (\<lambda>n. n \<in> fst ` set cols) names"

definition can_insert :: "pg_columns \<Rightarrow> string list \<Rightarrow> bool" where
  "can_insert cols names \<longleftrightarrow> can_select cols names \<and> list_all (\<lambda>(n, required). required \<longrightarrow> n \<in> set names) cols"

text \<open>The checks on names and versions: \<open>^[a-z][a-z0-9_-]*$\<close> and \<open>^v?[0-9]+\.[0-9]+\.[0-9]+.*\<close>.\<close>

definition ascii_digit :: "char \<Rightarrow> bool" where
  "ascii_digit c \<longleftrightarrow> CHR ''0'' \<le> c \<and> c \<le> CHR ''9''"

definition name_char :: "char \<Rightarrow> bool" where
  "name_char c \<longleftrightarrow> CHR ''a'' \<le> c \<and> c \<le> CHR ''z'' \<or> ascii_digit c \<or> c = CHR ''_'' \<or> c = CHR ''-''"

definition valid_module_name :: "string \<Rightarrow> bool" where
  "valid_module_name s \<longleftrightarrow> s \<noteq> [] \<and> CHR ''a'' \<le> hd s \<and> hd s \<le> CHR ''z'' \<and> list_all name_char s"

definition after_number :: "string \<Rightarrow> string option" where
  "after_number s = (if s \<noteq> [] \<and> ascii_digit (hd s) then Some (dropWhile ascii_digit s) else None)"

definition after_dot :: "string \<Rightarrow> string option" where
  "after_dot s = (if s \<noteq> [] \<and> hd s = CHR ''.'' then Some (tl s) else None)"

definition valid_version_name :: "string \<Rightarrow> bool" where
  "valid_version_name s \<longleftrightarrow>
     (let s = (if has_prefix s ''v'' then tl s else s) in
      Option.bind (after_number s) (\<lambda>s. Option.bind (after_dot s) (\<lambda>s. Option.bind (after_number s) (\<lambda>s.
        Option.bind (after_dot s) after_number))) \<noteq> None)"

section \<open>State\<close>

record module_row =
  mo_id :: int
  mo_name :: string
  mo_description :: string
  mo_created :: int
  mo_updated :: int

record version_row =
  ve_id :: int
  ve_module :: int
  ve_version :: string
  ve_dependencies :: string
  ve_created :: int

record file_row =
  fl_version :: int
  fl_path :: string
  fl_hash :: string
  fl_key :: string
  fl_size :: int

record pg_db =
  pd_modules :: "module_row list"
  pd_versions :: "version_row list"
  pd_files :: "file_row list"

text \<open>
  Sequences are not rolled back with a transaction. The replicas lag behind the primary in a way that is left open;
  \<open>pg_current\<close> is the counter that selects one.
\<close>

record pg_state =
  pg_primary :: pg_db
  pg_module_seq :: int
  pg_version_seq :: int
  pg_objects :: "(string, string) gomap"
  pg_redis :: "(string, string) gomap"
  pg_replicas :: "pg_db list"
  pg_current :: "32 word"

text \<open>
  The configuration, and the parameters: SHA-256, which texts fit \<open>VARCHAR\<close> of a length, the text that
  \<open>JSONB\<close> makes of valid JSON, the decoding of a list of strings, the codec of Redis' values, and the patterns of \<open>SCAN\<close>.
\<close>

record pg_env =
  pe_schema :: pg_schema
  pe_s3 :: bool
  pe_cached :: bool
  pe_sha :: sha_fun
  pe_varchar :: "nat \<Rightarrow> string \<Rightarrow> bool"
  pe_jsonb :: "string \<Rightarrow> string option"
  pe_strings :: "string \<Rightarrow> string list option"
  pe_codec :: json_codec
  pe_glob :: "string \<Rightarrow> string \<Rightarrow> bool"

datatype pg_error =
    Pg_Context string pg_error
  | Pg_Statement string
  | Pg_Scan
  | Pg_Missing string
  | Pg_Object
  | Pg_Json
  | Pg_No_S3
  | Pg_Not_Implemented
  | Pg_Slice

type_synonym 'a pg_result = "(pg_error + 'a) \<times> pg_state"

text \<open>\<open>Scan\<close> wants as many destinations as there are columns.\<close>

definition scan_fits :: "string list \<Rightarrow> nat \<Rightarrow> bool" where
  "scan_fits cols destinations \<longleftrightarrow> length cols = destinations"

section \<open>Redis and S3\<close>

definition redis_module_key :: "string \<Rightarrow> string" where
  "redis_module_key name = ''module:'' @ name"

definition redis_version_key :: "string \<Rightarrow> string \<Rightarrow> string" where
  "redis_version_key m v = ''version:'' @ m @ '':'' @ v"

text \<open>A key that cannot be decoded is deleted and is a miss to the caller, as an error is.\<close>

definition redis_get :: "(string \<Rightarrow> 'a option) \<Rightarrow> string \<Rightarrow> (string, string) gomap \<Rightarrow> 'a option \<times> (string, string) gomap" where
  "redis_get decode key r = (case gm_get r key of
     None \<Rightarrow> (None, r)
   | Some data \<Rightarrow> (case decode data of Some x \<Rightarrow> (Some x, r) | None \<Rightarrow> (None, gm_del key r)))"

definition redis_set :: "pg_env \<Rightarrow> string \<Rightarrow> string \<Rightarrow> pg_state \<Rightarrow> pg_state" where
  "redis_set e key data st = (if pe_cached e then st\<lparr>pg_redis := gm_put key data (pg_redis st)\<rparr> else st)"

definition redis_del :: "pg_env \<Rightarrow> string \<Rightarrow> pg_state \<Rightarrow> pg_state" where
  "redis_del e key st = (if pe_cached e then st\<lparr>pg_redis := gm_del key (pg_redis st)\<rparr> else st)"

definition invalidate_patterns :: "pg_env \<Rightarrow> string list \<Rightarrow> pg_state \<Rightarrow> pg_state" where
  "invalidate_patterns e ps st =
     fold (\<lambda>p st. st\<lparr>pg_redis := filter (\<lambda>(k, d). \<not> pe_glob e p k) (pg_redis st)\<rparr>) ps st"

definition pg_invalidate_cache :: "pg_env \<Rightarrow> string list \<Rightarrow> pg_state \<Rightarrow> pg_state" where
  "pg_invalidate_cache e ps st = (if pe_cached e then invalidate_patterns e ps st else st)"

text \<open>The key of content with a given hash, in hexadecimal.\<close>

definition content_key :: "string \<Rightarrow> string" where
  "content_key h = ''proto-files/sha256/'' @ take 2 h @ ''/'' @ drop 2 h"

definition get_object :: "string \<Rightarrow> pg_state \<Rightarrow> pg_error + string" where
  "get_object key st = (case gm_get (pg_objects st) key of None \<Rightarrow> Inl Pg_Object | Some c \<Rightarrow> Inr c)"

definition put_object_with_hash :: "pg_env \<Rightarrow> string \<Rightarrow> pg_state \<Rightarrow> string \<times> pg_state" where
  "put_object_with_hash e content st =
     (let h = hex_encode (pe_sha e content); key = content_key h in
      (h, if gm_get (pg_objects st) key \<noteq> None then st else st\<lparr>pg_objects := gm_put key content (pg_objects st)\<rparr>))"

section \<open>Modules\<close>

definition insert_module :: "pg_env \<Rightarrow> int \<Rightarrow> api_module \<Rightarrow> pg_state \<Rightarrow> pg_state option" where
  "insert_module e now m st =
     (if can_insert (sc_modules (pe_schema e)) [''name'', ''description'', ''metadata''] \<and> valid_module_name (am_name m) \<and>
         pe_varchar e 255 (am_name m) \<and> list_all (\<lambda>r. mo_name r \<noteq> am_name m) (pd_modules (pg_primary st))
      then Some (st\<lparr>pg_primary := (pg_primary st)\<lparr>pd_modules := pd_modules (pg_primary st) @
          [\<lparr>mo_id = pg_module_seq st, mo_name = am_name m, mo_description = am_description m, mo_created = now, mo_updated = now\<rparr>]\<rparr>,
        pg_module_seq := pg_module_seq st + 1\<rparr>)
      else None)"

text \<open>\<open>CreateModuleContext\<close>. A statement outside a transaction is committed before its result is scanned.\<close>

definition pg_create_module :: "pg_env \<Rightarrow> int \<Rightarrow> api_module \<Rightarrow> pg_state \<Rightarrow> unit pg_result" where
  "pg_create_module e now m st = (case insert_module e now m st of
     None \<Rightarrow> (Inl (Pg_Context ''failed to create module'' (Pg_Statement ''modules'')), st)
   | Some st' \<Rightarrow>
       if \<not> scan_fits [''id'', ''created_at'', ''updated_at''] 2 then (Inl (Pg_Context ''failed to create module'' Pg_Scan), st')
       else (Inr (), redis_del e (redis_module_key (am_name m)) st'))"

definition module_of_row :: "module_row \<Rightarrow> api_module" where
  "module_of_row r = \<lparr>am_name = mo_name r, am_description = mo_description r, am_created = mo_created r, am_updated = mo_updated r\<rparr>"

definition find_module :: "pg_db \<Rightarrow> string \<Rightarrow> module_row option" where
  "find_module db name = find (\<lambda>r. mo_name r = name) (pd_modules db)"

definition cached_module :: "pg_env \<Rightarrow> string \<Rightarrow> pg_state \<Rightarrow> api_module option \<times> pg_state" where
  "cached_module e name st =
     (if pe_cached e then
        (let (x, r) = redis_get (jc_get_module (pe_codec e)) (redis_module_key name) (pg_redis st) in (x, st\<lparr>pg_redis := r\<rparr>))
      else (None, st))"

definition pg_get_module :: "pg_env \<Rightarrow> string \<Rightarrow> pg_state \<Rightarrow> api_module pg_result" where
  "pg_get_module e name st = (case cached_module e name st of
     (Some m, st) \<Rightarrow> (Inr m, st)
   | (None, st) \<Rightarrow>
       if \<not> can_select (sc_modules (pe_schema e)) [''name'', ''description'', ''created_at'', ''updated_at''] then
         (Inl (Pg_Context ''failed to get module'' (Pg_Statement ''modules'')), st)
       else (case find_module (pg_primary st) name of
           None \<Rightarrow> (Inl (Pg_Missing (''module not found: '' @ name)), st)
         | Some r \<Rightarrow> (Inr (module_of_row r),
             redis_set e (redis_module_key (mo_name r)) (jc_put_module (pe_codec e) (module_of_row r)) st)))"

definition pg_list_modules_paginated :: "pg_env \<Rightarrow> int \<Rightarrow> int \<Rightarrow> pg_state \<Rightarrow> pg_error + api_module list \<times> int" where
  "pg_list_modules_paginated e limit offset st =
     (let rows = pd_modules (pg_primary st) in
      if \<not> can_select (sc_modules (pe_schema e)) [''name'', ''description'', ''created_at'', ''updated_at''] \<or> limit < 0 \<or> offset < 0 then
        Inl (Pg_Context ''failed to list modules'' (Pg_Statement ''modules''))
      else Inr (map module_of_row (take (nat limit) (drop (nat offset) (sort_key (\<lambda>r. - mo_created r) rows))), int (length rows)))"

definition pg_list_modules :: "pg_env \<Rightarrow> pg_state \<Rightarrow> pg_error + api_module list" where
  "pg_list_modules e st = rbind (pg_list_modules_paginated e 1000 0 st) (\<lambda>(ms, total). Inr ms)"

section \<open>Creating versions\<close>

definition dquote :: string where
  "dquote = [CHR 0x22]"

text \<open>The dependencies as a JSON array, with nothing escaped.\<close>

definition deps_json :: "string list \<Rightarrow> string" where
  "deps_json ds = (case ds of [] \<Rightarrow> ''[]''
     | d # ds \<Rightarrow> foldl (\<lambda>s d. butlast s @ '', '' @ dquote @ d @ dquote @ '']'') (''['' @ dquote @ d @ dquote @ '']'') ds)"

definition version_columns :: "string list" where
  "version_columns = [''module_id'', ''version'', ''dependencies'', ''created_at'', ''updated_at'']"

definition insert_version :: "pg_env \<Rightarrow> int \<Rightarrow> api_version \<Rightarrow> int \<Rightarrow> pg_state \<Rightarrow> (int \<times> pg_state) option" where
  "insert_version e mid v created st = (case pe_jsonb e (deps_json (av_dependencies v)) of
     None \<Rightarrow> None
   | Some deps \<Rightarrow>
       if can_insert (sc_versions (pe_schema e)) version_columns \<and> valid_version_name (av_version v) \<and> pe_varchar e 100 (av_version v) \<and>
          list_all (\<lambda>r. \<not> (ve_module r = mid \<and> ve_version r = av_version v)) (pd_versions (pg_primary st))
       then Some (pg_version_seq st, st\<lparr>pg_primary := (pg_primary st)\<lparr>pd_versions := pd_versions (pg_primary st) @
           [\<lparr>ve_id = pg_version_seq st, ve_module = mid, ve_version = av_version v, ve_dependencies = deps, ve_created = created\<rparr>]\<rparr>,
         pg_version_seq := pg_version_seq st + 1\<rparr>)
       else None)"

definition insert_file :: "pg_env \<Rightarrow> int \<Rightarrow> string \<Rightarrow> string \<Rightarrow> string \<Rightarrow> pg_state \<Rightarrow> pg_state option" where
  "insert_file e vid path h content st =
     (if can_insert (sc_files (pe_schema e)) [''version_id'', ''file_path'', ''content_hash'', ''object_key'', ''file_size'', ''created_at''] \<and>
         pe_varchar e 512 path \<and> pe_varchar e 64 h \<and> pe_varchar e 512 (content_key h) \<and>
         list_all (\<lambda>r. \<not> (fl_version r = vid \<and> fl_path r = path)) (pd_files (pg_primary st))
      then Some (st\<lparr>pg_primary := (pg_primary st)\<lparr>pd_files := pd_files (pg_primary st) @
        [\<lparr>fl_version = vid, fl_path = path, fl_hash = h, fl_key = content_key h, fl_size = int (length content)\<rparr>]\<rparr>\<rparr>)
      else None)"

text \<open>The loop over the files: an upload and a row for each.\<close>

fun upload_files :: "pg_env \<Rightarrow> int \<Rightarrow> api_file list \<Rightarrow> pg_state \<Rightarrow> unit pg_result" where
  "upload_files e vid [] st = (Inr (), st)"
| "upload_files e vid (f # fs) st =
     (let (h, st') = put_object_with_hash e (af_content f) st in
      case insert_file e vid (af_path f) h (af_content f) st' of
        None \<Rightarrow> (Inl (Pg_Context (''failed to insert file metadata for '' @ af_path f) (Pg_Statement ''proto_files'')), st')
      | Some st'' \<Rightarrow> upload_files e vid fs st'')"

text \<open>\<open>CreateVersionContext\<close>: a transaction that is rolled back at an error, with the objects left in the bucket.\<close>

definition created_at :: "int \<Rightarrow> api_version \<Rightarrow> int" where
  "created_at now v = (if av_created v = 0 then now else av_created v)"

definition pg_create_version :: "pg_env \<Rightarrow> int \<Rightarrow> api_version \<Rightarrow> pg_state \<Rightarrow> unit pg_result" where
  "pg_create_version e now v st =
     (if \<not> pe_s3 e then (Inl Pg_No_S3, st)
      else if \<not> can_select (sc_modules (pe_schema e)) [''id'', ''name''] then (Inl (Pg_Context ''failed to get module'' (Pg_Statement ''modules'')), st)
      else (case find_module (pg_primary st) (av_module v) of
          None \<Rightarrow> (Inl (Pg_Missing (''module not found: '' @ av_module v)), st)
        | Some m \<Rightarrow> (case insert_version e (mo_id m) v (created_at now v) st of
            None \<Rightarrow> (Inl (Pg_Context ''failed to insert version'' (Pg_Statement ''versions'')), st)
          | Some (vid, st1) \<Rightarrow> (case upload_files e vid (av_files v) st1 of
              (Inl err, st2) \<Rightarrow> (Inl err, st2\<lparr>pg_primary := pg_primary st\<rparr>)
            | (Inr _, st2) \<Rightarrow> (Inr (), redis_del e (redis_version_key (av_module v) (av_version v)) st2)))))"

section \<open>Reading versions\<close>

definition find_version :: "pg_db \<Rightarrow> string \<Rightarrow> string \<Rightarrow> version_row option" where
  "find_version db m v =
     find (\<lambda>r. ve_version r = v \<and> list_ex (\<lambda>o'. mo_id o' = ve_module r \<and> mo_name o' = m) (pd_modules db)) (pd_versions db)"

definition parse_dependencies :: "pg_env \<Rightarrow> string \<Rightarrow> pg_error + string list" where
  "parse_dependencies e s =
     (if s \<noteq> [] \<and> s \<noteq> ''[]'' then (case pe_strings e s of Some ds \<Rightarrow> Inr ds | None \<Rightarrow> Inl (Pg_Context ''failed to parse dependencies'' Pg_Json))
      else Inr [])"

definition download_file :: "pg_state \<Rightarrow> file_row \<Rightarrow> pg_error + api_file list" where
  "download_file st r = (case get_object (fl_key r) st of
     Inl err \<Rightarrow> Inl (Pg_Context (''failed to download file '' @ fl_path r @ '' from s3'') err)
   | Inr c \<Rightarrow> Inr [\<lparr>af_path = fl_path r, af_content = c\<rparr>])"

definition version_files :: "pg_state \<Rightarrow> int \<Rightarrow> pg_error + api_file list" where
  "version_files st vid = collect (download_file st) (sort_key fl_path (filter (\<lambda>r. fl_version r = vid) (pd_files (pg_primary st))))"

definition no_source :: source_info where
  "no_source = \<lparr>si_repository = [], si_commit = [], si_branch = []\<rparr>"

definition pg_read_version :: "pg_env \<Rightarrow> string \<Rightarrow> string \<Rightarrow> pg_state \<Rightarrow> pg_error + api_version" where
  "pg_read_version e m v st =
     (if \<not> (can_select (sc_versions (pe_schema e)) [''id'', ''version'', ''dependencies'', ''created_at'', ''updated_at''] \<and>
            can_select (sc_modules (pe_schema e)) [''id'', ''name'']) then
        Inl (Pg_Context ''failed to get version'' (Pg_Statement ''versions''))
      else (case find_version (pg_primary st) m v of
          None \<Rightarrow> Inl (Pg_Missing (''version not found: '' @ m @ ''@'' @ v))
        | Some r \<Rightarrow> rbind (parse_dependencies e (ve_dependencies r)) (\<lambda>deps.
            if \<not> can_select (sc_files (pe_schema e)) [''file_path'', ''content_hash'', ''object_key''] then
              Inl (Pg_Context ''failed to query files'' (Pg_Statement ''proto_files''))
            else rbind (version_files st (ve_id r)) (\<lambda>fs.
              Inr \<lparr>av_module = m, av_version = ve_version r, av_files = fs, av_created = ve_created r, av_dependencies = deps,
                   av_source = no_source, av_compilation = []\<rparr>))))"

definition cached_version :: "pg_env \<Rightarrow> string \<Rightarrow> string \<Rightarrow> pg_state \<Rightarrow> api_version option \<times> pg_state" where
  "cached_version e m v st =
     (if pe_cached e then
        (let (x, r) = redis_get (jc_get_version (pe_codec e)) (redis_version_key m v) (pg_redis st) in (x, st\<lparr>pg_redis := r\<rparr>))
      else (None, st))"

definition pg_get_version :: "pg_env \<Rightarrow> string \<Rightarrow> string \<Rightarrow> pg_state \<Rightarrow> api_version pg_result" where
  "pg_get_version e m v st =
     (if \<not> pe_s3 e then (Inl Pg_No_S3, st)
      else (case cached_version e m v st of
          (Some x, st) \<Rightarrow> (Inr x, st)
        | (None, st) \<Rightarrow> (case pg_read_version e m v st of
            Inl err \<Rightarrow> (Inl err, st)
          | Inr x \<Rightarrow> (Inr x, redis_set e (redis_version_key (av_module x) (av_version x)) (jc_put_version (pe_codec e) x) st))))"

text \<open>Round robin over the replicas, and the listing of versions from the one it selects.\<close>

definition next_replica :: "pg_state \<Rightarrow> pg_db \<times> pg_state" where
  "next_replica st =
     (if pg_replicas st = [] then (pg_primary st, st)
      else (let i = pg_current st + 1 in
            (pg_replicas st ! unat (i mod word_of_nat (length (pg_replicas st))), st\<lparr>pg_current := i\<rparr>)))"

definition listed_version :: "pg_env \<Rightarrow> string \<Rightarrow> version_row \<Rightarrow> pg_error + api_version list" where
  "listed_version e m r = (case parse_dependencies e (ve_dependencies r) of
     Inl err \<Rightarrow> Inl (Pg_Context (''failed to parse dependencies for version '' @ ve_version r) Pg_Json)
   | Inr deps \<Rightarrow> Inr [\<lparr>av_module = m, av_version = ve_version r, av_files = [], av_created = ve_created r,
       av_dependencies = deps, av_source = no_source, av_compilation = []\<rparr>])"

definition module_versions :: "pg_db \<Rightarrow> string \<Rightarrow> version_row list" where
  "module_versions db m = filter (\<lambda>r. list_ex (\<lambda>o'. mo_id o' = ve_module r \<and> mo_name o' = m) (pd_modules db)) (pd_versions db)"

definition pg_list_versions :: "pg_env \<Rightarrow> string \<Rightarrow> pg_state \<Rightarrow> api_version list pg_result" where
  "pg_list_versions e m st =
     (let (db, st) = next_replica st in
      (if \<not> (can_select (sc_versions (pe_schema e)) [''version'', ''dependencies'', ''created_at'', ''module_id''] \<and>
             can_select (sc_modules (pe_schema e)) [''id'', ''name'']) then Inl (Pg_Context ''failed to list versions'' (Pg_Statement ''versions''))
       else collect (listed_version e m) (sort_key (\<lambda>r. - ve_created r) (module_versions db m)), st))"

definition pg_update_version :: "api_version \<Rightarrow> pg_state \<Rightarrow> unit pg_result" where
  "pg_update_version v st = (Inl Pg_Not_Implemented, st)"

definition pg_list_versions_paginated :: "string \<Rightarrow> int \<Rightarrow> int \<Rightarrow> pg_state \<Rightarrow> (api_version list \<times> int) pg_result" where
  "pg_list_versions_paginated m limit offset st = (Inl Pg_Not_Implemented, st)"

definition pg_get_compiled_artifact :: "string \<Rightarrow> string \<Rightarrow> string \<Rightarrow> pg_state \<Rightarrow> string pg_result" where
  "pg_get_compiled_artifact m v language st = (Inl Pg_Not_Implemented, st)"

definition pg_put_compiled_artifact :: "string \<Rightarrow> string \<Rightarrow> string \<Rightarrow> string \<Rightarrow> pg_state \<Rightarrow> unit pg_result" where
  "pg_put_compiled_artifact m v language artifact st = (Inl Pg_Not_Implemented, st)"

section \<open>Files\<close>

definition pg_get_file :: "pg_env \<Rightarrow> string \<Rightarrow> string \<Rightarrow> string \<Rightarrow> pg_state \<Rightarrow> pg_error + api_file" where
  "pg_get_file e m v path st =
     (if \<not> pe_s3 e then Inl Pg_No_S3
      else if \<not> (can_select (sc_files (pe_schema e)) [''content_hash'', ''object_key'', ''version_id'', ''file_path''] \<and>
                 can_select (sc_versions (pe_schema e)) [''id'', ''module_id'', ''version''] \<and>
                 can_select (sc_modules (pe_schema e)) [''id'', ''name'']) then
        Inl (Pg_Context ''failed to query file'' (Pg_Statement ''proto_files''))
      else (case find (\<lambda>r. fl_path r = path \<and> list_ex (\<lambda>x. ve_id x = fl_version r \<and> ve_version x = v)
                  (module_versions (pg_primary st) m)) (pd_files (pg_primary st)) of
          None \<Rightarrow> Inl (Pg_Missing (''file not found: '' @ m @ ''@'' @ v @ '':'' @ path))
        | Some r \<Rightarrow> (case get_object (fl_key r) st of
            Inl err \<Rightarrow> Inl (Pg_Context ''failed to download file from s3'' err)
          | Inr c \<Rightarrow> Inr \<lparr>af_path = path, af_content = c\<rparr>)))"

text \<open>Slicing a hash of fewer than two characters panics.\<close>

definition pg_get_file_content :: "pg_env \<Rightarrow> string \<Rightarrow> pg_state \<Rightarrow> pg_error + string" where
  "pg_get_file_content e h st =
     (if \<not> pe_s3 e then Inl Pg_No_S3 else if length h < 2 then Inl Pg_Slice else get_object (content_key h) st)"

definition pg_put_file_content :: "pg_env \<Rightarrow> string \<Rightarrow> pg_state \<Rightarrow> string pg_result" where
  "pg_put_file_content e content st =
     (if \<not> pe_s3 e then (Inl Pg_No_S3, st)
      else (let (h, st') = put_object_with_hash e content st in (Inr h, st')))"

section \<open>Replicas\<close>

definition parse_replica_urls :: "string \<Rightarrow> string list" where
  "parse_replica_urls s = (if s = [] then [] else filter (\<lambda>u. u \<noteq> []) (map trim_space (split_on (CHR '','') s)))"

text \<open>\<open>RemoveUnhealthyReplicas\<close>, with the number of replicas removed.\<close>

definition remove_unhealthy_replicas :: "(pg_db \<Rightarrow> bool) \<Rightarrow> pg_state \<Rightarrow> nat \<times> pg_state" where
  "remove_unhealthy_replicas healthy st =
     (length (filter (\<lambda>r. \<not> healthy r) (pg_replicas st)), st\<lparr>pg_replicas := filter healthy (pg_replicas st)\<rparr>)"

definition add_replica :: "bool \<Rightarrow> pg_db \<Rightarrow> pg_state \<Rightarrow> bool \<times> pg_state" where
  "add_replica reachable db st = (if reachable then (True, st\<lparr>pg_replicas := pg_replicas st @ [db]\<rparr>) else (False, st))"

end
