(* ===== verification/Storage_Layer.thy ===== *)
theory Storage_Layer
  imports Storage_Postgres
begin

text \<open>
  The layer of caching around the storage in PostgreSQL (\<open>pkg/storage/postgres/cache.go\<close>), with a Redis of its own.
  Its requests to Redis are answered, encoding succeeds, and what is stored may expire at any time.
\<close>

record list_codec =
  lc_put_modules :: "api_module list \<Rightarrow> string"
  lc_get_modules :: "string \<Rightarrow> api_module list option"
  lc_put_versions :: "api_version list \<Rightarrow> string"
  lc_get_versions :: "string \<Rightarrow> api_version list option"
  lc_put_file :: "api_file \<Rightarrow> string"
  lc_get_file :: "string \<Rightarrow> api_file option"

record layer_env =
  le_pg :: pg_env
  le_codec :: list_codec

record cache_layer =
  cl_storage :: pg_state
  cl_redis :: "(string, string) gomap"
  cl_ttl :: "(string, int) gomap"

definition cache_minute :: int where
  "cache_minute = 60 * 1000000000"

definition new_redis_cache :: "pg_state \<Rightarrow> (string, string) gomap \<Rightarrow> cache_layer" where
  "new_redis_cache st redis = \<lparr>cl_storage = st, cl_redis = redis,
     cl_ttl = [(''module'', 15 * cache_minute), (''version'', 30 * cache_minute), (''file'', 60 * cache_minute), (''list'', 5 * cache_minute)]\<rparr>"

type_synonym 'a layer_result = "(pg_error + 'a) \<times> cache_layer"

definition list_key :: string where
  "list_key = ''modules:list''"

definition versions_key :: "string \<Rightarrow> string" where
  "versions_key m = ''versions:'' @ m @ '':list''"

definition file_cache_key :: "string \<Rightarrow> string \<Rightarrow> string \<Rightarrow> string" where
  "file_cache_key m v path = ''file:'' @ m @ '':'' @ v @ '':'' @ path"

definition layer_del :: "string list \<Rightarrow> cache_layer \<Rightarrow> cache_layer" where
  "layer_del keys l = l\<lparr>cl_redis := fold gm_del keys (cl_redis l)\<rparr>"

definition layer_set :: "string \<Rightarrow> string \<Rightarrow> cache_layer \<Rightarrow> cache_layer" where
  "layer_set key data l = l\<lparr>cl_redis := gm_put key data (cl_redis l)\<rparr>"

text \<open>A call of the storage behind the layer, and a read through the cache.\<close>

definition on_storage :: "(pg_state \<Rightarrow> 'a pg_result) \<Rightarrow> cache_layer \<Rightarrow> 'a layer_result" where
  "on_storage f l = (let (r, st) = f (cl_storage l) in (r, l\<lparr>cl_storage := st\<rparr>))"

definition through_cache :: "string \<Rightarrow> (string \<Rightarrow> 'a option) \<Rightarrow> ('a \<Rightarrow> string) \<Rightarrow> (pg_state \<Rightarrow> 'a pg_result) \<Rightarrow>
    cache_layer \<Rightarrow> 'a layer_result" where
  "through_cache key decode encode f l = (case Option.bind (gm_get (cl_redis l) key) decode of
     Some x \<Rightarrow> (Inr x, l)
   | None \<Rightarrow> (case on_storage f l of
       (Inl e, l) \<Rightarrow> (Inl e, l)
     | (Inr x, l) \<Rightarrow> (Inr x, layer_set key (encode x) l)))"

definition layer_create_module :: "layer_env \<Rightarrow> int \<Rightarrow> api_module \<Rightarrow> cache_layer \<Rightarrow> unit layer_result" where
  "layer_create_module e now m l = (case on_storage (pg_create_module (le_pg e) now m) l of
     (Inl err, l) \<Rightarrow> (Inl err, l) | (Inr _, l) \<Rightarrow> (Inr (), layer_del [list_key] l))"

definition layer_get_module :: "layer_env \<Rightarrow> string \<Rightarrow> cache_layer \<Rightarrow> api_module layer_result" where
  "layer_get_module e name = through_cache (redis_module_key name) (jc_get_module (pe_codec (le_pg e))) (jc_put_module (pe_codec (le_pg e)))
     (pg_get_module (le_pg e) name)"

definition layer_list_modules :: "layer_env \<Rightarrow> cache_layer \<Rightarrow> api_module list layer_result" where
  "layer_list_modules e = through_cache list_key (lc_get_modules (le_codec e)) (lc_put_modules (le_codec e))
     (\<lambda>st. (pg_list_modules (le_pg e) st, st))"

definition layer_create_version :: "layer_env \<Rightarrow> int \<Rightarrow> api_version \<Rightarrow> cache_layer \<Rightarrow> unit layer_result" where
  "layer_create_version e now v l = (case on_storage (pg_create_version (le_pg e) now v) l of
     (Inl err, l) \<Rightarrow> (Inl err, l)
   | (Inr _, l) \<Rightarrow> (Inr (), layer_del [versions_key (av_module v), redis_module_key (av_module v), list_key] l))"

definition layer_get_version :: "layer_env \<Rightarrow> string \<Rightarrow> string \<Rightarrow> cache_layer \<Rightarrow> api_version layer_result" where
  "layer_get_version e m v = through_cache (redis_version_key m v) (jc_get_version (pe_codec (le_pg e))) (jc_put_version (pe_codec (le_pg e)))
     (pg_get_version (le_pg e) m v)"

definition layer_list_versions :: "layer_env \<Rightarrow> string \<Rightarrow> cache_layer \<Rightarrow> api_version list layer_result" where
  "layer_list_versions e m = through_cache (versions_key m) (lc_get_versions (le_codec e)) (lc_put_versions (le_codec e))
     (pg_list_versions (le_pg e) m)"

definition layer_get_file :: "layer_env \<Rightarrow> string \<Rightarrow> string \<Rightarrow> string \<Rightarrow> cache_layer \<Rightarrow> api_file layer_result" where
  "layer_get_file e m v path = through_cache (file_cache_key m v path) (lc_get_file (le_codec e)) (lc_put_file (le_codec e))
     (\<lambda>st. (pg_get_file (le_pg e) m v path st, st))"

definition layer_invalidate_module :: "string \<Rightarrow> cache_layer \<Rightarrow> cache_layer" where
  "layer_invalidate_module name = layer_del [redis_module_key name]"

definition layer_invalidate_version :: "string \<Rightarrow> string \<Rightarrow> cache_layer \<Rightarrow> cache_layer" where
  "layer_invalidate_version m v = layer_del [redis_version_key m v, versions_key m]"

definition layer_invalidate_all :: "cache_layer \<Rightarrow> cache_layer" where
  "layer_invalidate_all l = l\<lparr>cl_redis := []\<rparr>"

definition get_ttl :: "string \<Rightarrow> cache_layer \<Rightarrow> int" where
  "get_ttl kind l = (case gm_get (cl_ttl l) kind of Some t \<Rightarrow> t | None \<Rightarrow> 0)"

definition set_ttl :: "string \<Rightarrow> int \<Rightarrow> cache_layer \<Rightarrow> cache_layer" where
  "set_ttl kind t l = l\<lparr>cl_ttl := gm_put kind t (cl_ttl l)\<rparr>"

section \<open>Warming up\<close>

definition warm_version :: "layer_env \<Rightarrow> api_version \<Rightarrow> cache_layer \<Rightarrow> cache_layer" where
  "warm_version e v = layer_set (redis_version_key (av_module v) (av_version v)) (jc_put_version (pe_codec (le_pg e)) v)"

text \<open>A module, the list of its versions, and the first five of them; a listing that fails is passed over.\<close>

definition warm_module :: "layer_env \<Rightarrow> api_module \<Rightarrow> cache_layer \<Rightarrow> cache_layer" where
  "warm_module e m l =
     (let l = layer_set (redis_module_key (am_name m)) (jc_put_module (pe_codec (le_pg e)) m) l in
      case on_storage (pg_list_versions (le_pg e) (am_name m)) l of
        (Inl err, l) \<Rightarrow> l
      | (Inr vs, l) \<Rightarrow> fold (warm_version e) (take 5 vs) (layer_set (versions_key (am_name m)) (lc_put_versions (le_codec e) vs) l))"

definition warmup_cache :: "layer_env \<Rightarrow> cache_layer \<Rightarrow> unit layer_result" where
  "warmup_cache e l = (case pg_list_modules (le_pg e) (cl_storage l) of
     Inl err \<Rightarrow> (Inl (Pg_Context ''failed to load modules'' err), l)
   | Inr ms \<Rightarrow> (Inr (), layer_set list_key (lc_put_modules (le_codec e) ms) (fold (warm_module e) ms l)))"

end
