(* ===== verification/Storage_Postgres_Props.thy ===== *)
theory Storage_Postgres_Props
  imports Storage_Layer "HOL-Library.Countable"
begin

text \<open>
  What the storage in PostgreSQL keeps: the cache never changes an answer, a version that was created is read back with
  its files, and what becomes of all this under the schema of the migrations.
\<close>

section \<open>Operations\<close>

datatype pg_op =
    Create_Module int api_module
  | Get_Module string
  | Create_Version int api_version
  | Get_Version string string
  | List_Versions string
  | Put_Content string
  | Invalidate "string list"
  | Expire string
  | Replicate nat

definition run_pg_op :: "pg_env \<Rightarrow> pg_op \<Rightarrow> pg_state \<Rightarrow> pg_state" where
  "run_pg_op e op st = (case op of
     Create_Module now m \<Rightarrow> snd (pg_create_module e now m st)
   | Get_Module name \<Rightarrow> snd (pg_get_module e name st)
   | Create_Version now v \<Rightarrow> snd (pg_create_version e now v st)
   | Get_Version m v \<Rightarrow> snd (pg_get_version e m v st)
   | List_Versions m \<Rightarrow> snd (pg_list_versions e m st)
   | Put_Content c \<Rightarrow> snd (pg_put_file_content e c st)
   | Invalidate ps \<Rightarrow> pg_invalidate_cache e ps st
   | Expire k \<Rightarrow> st\<lparr>pg_redis := gm_del k (pg_redis st)\<rparr>
   | Replicate i \<Rightarrow> st\<lparr>pg_replicas := (pg_replicas st)[i := pg_primary st]\<rparr>)"

definition fresh_pg :: pg_state where
  "fresh_pg = \<lparr>pg_primary = \<lparr>pd_modules = [], pd_versions = [], pd_files = []\<rparr>, pg_module_seq = 1, pg_version_seq = 1,
     pg_objects = [], pg_redis = [], pg_replicas = [], pg_current = 0\<rparr>"

definition run_pg :: "pg_env \<Rightarrow> pg_op list \<Rightarrow> pg_state \<Rightarrow> pg_state" where
  "run_pg e ops = fold (run_pg_op e) ops"

section \<open>Growth\<close>

text \<open>The tables only grow, under fresh identifiers, and objects are kept.\<close>

definition grows :: "pg_state \<Rightarrow> pg_state \<Rightarrow> bool" where
  "grows st st' \<longleftrightarrow> (\<exists>ms vs fs.
     pd_modules (pg_primary st') = pd_modules (pg_primary st) @ ms \<and> (\<forall>r \<in> set ms. pg_module_seq st \<le> mo_id r) \<and>
     pd_versions (pg_primary st') = pd_versions (pg_primary st) @ vs \<and>
     pd_files (pg_primary st') = pd_files (pg_primary st) @ fs \<and> (\<forall>r \<in> set fs. pg_version_seq st \<le> fl_version r)) \<and>
   pg_module_seq st \<le> pg_module_seq st' \<and> pg_version_seq st \<le> pg_version_seq st' \<and>
   (\<forall>k c. gm_get (pg_objects st) k = Some c \<longrightarrow> gm_get (pg_objects st') k = Some c)"

lemma grows_refl: "grows st st"
  by (simp add: grows_def)

lemma grows_same:
  assumes "pg_primary st' = pg_primary st" "pg_module_seq st' = pg_module_seq st" "pg_version_seq st \<le> pg_version_seq st'"
    "\<And>k c. gm_get (pg_objects st) k = Some c \<Longrightarrow> gm_get (pg_objects st') k = Some c"
  shows "grows st st'"
  using assms by (simp add: grows_def)

definition tables_ok :: "pg_env \<Rightarrow> pg_state \<Rightarrow> bool" where
  "tables_ok e st \<longleftrightarrow>
     distinct (map mo_name (pd_modules (pg_primary st))) \<and>
     (\<forall>r \<in> set (pd_modules (pg_primary st)). mo_id r < pg_module_seq st \<and> CHR '':'' \<notin> set (mo_name r)) \<and>
     (\<forall>r \<in> set (pd_versions (pg_primary st)). ve_id r < pg_version_seq st \<and> ve_module r < pg_module_seq st) \<and>
     (\<forall>r \<in> set (pd_files (pg_primary st)). fl_version r < pg_version_seq st) \<and>
     (\<forall>k c. gm_get (pg_objects st) k = Some c \<longrightarrow> k = content_key (hex_encode (pe_sha e c)))"

lemma find_append: "find P (xs @ ys) = (case find P xs of Some x \<Rightarrow> Some x | None \<Rightarrow> find P ys)"
  by (induction xs) simp_all

lemma find_module_grows: "grows st st' \<Longrightarrow> find_module (pg_primary st) n = Some r \<Longrightarrow> find_module (pg_primary st') n = Some r"
  by (auto simp: grows_def find_module_def find_append)

lemma find_version_grows:
  assumes "tables_ok e st" "grows st st'" "find_version (pg_primary st) m v = Some r"
  shows "find_version (pg_primary st') m v = Some r"
proof -
  obtain ms vs where g: "pd_modules (pg_primary st') = pd_modules (pg_primary st) @ ms" "\<forall>r \<in> set ms. pg_module_seq st \<le> mo_id r"
    "pd_versions (pg_primary st') = pd_versions (pg_primary st) @ vs"
    using assms(2) by (auto simp: grows_def)
  let ?P = "\<lambda>mods r. ve_version r = v \<and> list_ex (\<lambda>o'. mo_id o' = ve_module r \<and> mo_name o' = m) mods"
  have "?P (pd_modules (pg_primary st) @ ms) r = ?P (pd_modules (pg_primary st)) r" if "r \<in> set (pd_versions (pg_primary st))" for r
  proof -
    have "ve_module r < pg_module_seq st" using assms(1) that by (simp add: tables_ok_def)
    then have "\<not> list_ex (\<lambda>o'. mo_id o' = ve_module r \<and> mo_name o' = m) ms" using g(2) by (fastforce simp: list_ex_iff)
    then show ?thesis by simp
  qed
  then have "find (?P (pd_modules (pg_primary st) @ ms)) (pd_versions (pg_primary st)) = find (?P (pd_modules (pg_primary st))) (pd_versions (pg_primary st))"
    by (intro find_cong refl) blast
  then show ?thesis using assms(3) by (simp only: find_version_def g find_append option.case)
qed

lemma download_grows:
  "grows st st' \<Longrightarrow> download_file st r = Inr fs \<Longrightarrow> download_file st' r = Inr fs"
  by (auto simp: grows_def download_file_def get_object_def split: option.splits)

lemma collect_Inr_mono:
  "(\<And>x ys. x \<in> set xs \<Longrightarrow> f x = Inr ys \<Longrightarrow> g x = Inr ys) \<Longrightarrow> collect f xs = Inr zs \<Longrightarrow> collect g xs = Inr zs"
  by (induction xs arbitrary: zs) (auto simp: rbind_Inr_iff)

lemma version_files_grows:
  assumes "grows st st'" "vid < pg_version_seq st" "version_files st vid = Inr fs"
  shows "version_files st' vid = Inr fs"
proof -
  obtain rs where rs: "pd_files (pg_primary st') = pd_files (pg_primary st) @ rs" "\<forall>r \<in> set rs. pg_version_seq st \<le> fl_version r"
    using assms(1) by (auto simp: grows_def)
  then have "filter (\<lambda>r. fl_version r = vid) rs = []" using assms(2) by (auto simp: filter_empty_conv)
  then have "filter (\<lambda>r. fl_version r = vid) (pd_files (pg_primary st')) = filter (\<lambda>r. fl_version r = vid) (pd_files (pg_primary st))"
    by (simp add: rs(1))
  then show ?thesis using assms(3) collect_Inr_mono [of _ "download_file st" "download_file st'"] download_grows [OF assms(1)]
    by (simp add: version_files_def)
qed

lemma find_elem: "find P xs = Some x \<Longrightarrow> x \<in> set xs \<and> P x"
  by (auto simp: find_Some_iff)

lemma pg_read_version_grows:
  assumes "tables_ok e st" "grows st st'" "pg_read_version e m v st = Inr x"
  shows "pg_read_version e m v st' = Inr x"
proof -
  obtain r where r: "find_version (pg_primary st) m v = Some r"
    using assms(3) by (auto simp: pg_read_version_def split: if_splits option.splits)
  have "r \<in> set (pd_versions (pg_primary st))" using find_elem [OF r [unfolded find_version_def]] by simp
  then have "ve_id r < pg_version_seq st" using assms(1) by (simp add: tables_ok_def)
  then show ?thesis
    using assms(3) version_files_grows [OF assms(2), of "ve_id r"]
    by (auto simp: pg_read_version_def r find_version_grows [OF assms(1,2) r] rbind_Inr_iff split: if_splits)
qed

text \<open>A module as the tables have it.\<close>

definition read_module :: "pg_env \<Rightarrow> string \<Rightarrow> pg_state \<Rightarrow> pg_error + api_module" where
  "read_module e name st =
     (if \<not> can_select (sc_modules (pe_schema e)) [''name'', ''description'', ''created_at'', ''updated_at''] then
        Inl (Pg_Context ''failed to get module'' (Pg_Statement ''modules''))
      else (case find_module (pg_primary st) name of
          None \<Rightarrow> Inl (Pg_Missing (''module not found: '' @ name)) | Some r \<Rightarrow> Inr (module_of_row r)))"

lemma read_module_grows: "grows st st' \<Longrightarrow> read_module e n st = Inr x \<Longrightarrow> read_module e n st' = Inr x"
  using find_module_grows [of st st' n] by (auto simp: read_module_def split: if_splits option.splits)

section \<open>What operations keep\<close>

text \<open>The cache holds what the tables hold, under module names that contain no colon.\<close>

definition cache_agrees :: "pg_env \<Rightarrow> pg_state \<Rightarrow> bool" where
  "cache_agrees e st \<longleftrightarrow>
     (\<forall>n d. gm_get (pg_redis st) (redis_module_key n) = Some d \<longrightarrow>
        (\<exists>x. jc_get_module (pe_codec e) d = Some x \<and> read_module e n st = Inr x)) \<and>
     (\<forall>m v d. CHR '':'' \<notin> set m \<longrightarrow> gm_get (pg_redis st) (redis_version_key m v) = Some d \<longrightarrow>
        (\<exists>x. jc_get_version (pe_codec e) d = Some x \<and> pg_read_version e m v st = Inr x))"

lemma redis_keys [simp]:
  "redis_module_key n = redis_module_key n' \<longleftrightarrow> n = n'" "redis_module_key n \<noteq> redis_version_key m v" "redis_version_key m v \<noteq> redis_module_key n"
  by (simp_all add: redis_module_key_def redis_version_key_def)

lemma colon_split:
  "CHR '':'' \<notin> set m \<Longrightarrow> CHR '':'' \<notin> set m' \<Longrightarrow> m @ CHR '':'' # v = m' @ CHR '':'' # v' \<longleftrightarrow> m = m' \<and> v = v'"
proof (induction m arbitrary: m')
  case Nil
  then show ?case by (cases m') auto
next
  case (Cons c m)
  then show ?case by (cases m') auto
qed

lemma redis_version_keys:
  "CHR '':'' \<notin> set m \<Longrightarrow> CHR '':'' \<notin> set m' \<Longrightarrow> redis_version_key m v = redis_version_key m' v' \<longleftrightarrow> m = m' \<and> v = v'"
  by (simp add: redis_version_key_def colon_split)

lemma cache_agrees_grows:
  assumes "tables_ok e st" "grows st st'" "cache_agrees e st"
    "\<And>k d. gm_get (pg_redis st') k = Some d \<Longrightarrow> gm_get (pg_redis st) k = Some d"
  shows "cache_agrees e st'"
  unfolding cache_agrees_def
proof (intro conjI allI impI)
  fix n d
  assume "gm_get (pg_redis st') (redis_module_key n) = Some d"
  then obtain x where "jc_get_module (pe_codec e) d = Some x" "read_module e n st = Inr x"
    using assms(3) assms(4) unfolding cache_agrees_def by blast
  then show "\<exists>x. jc_get_module (pe_codec e) d = Some x \<and> read_module e n st' = Inr x"
    using read_module_grows [OF assms(2)] by blast
next
  fix m v d
  assume "CHR '':'' \<notin> set m" "gm_get (pg_redis st') (redis_version_key m v) = Some d"
  then obtain x where "jc_get_version (pe_codec e) d = Some x" "pg_read_version e m v st = Inr x"
    using assms(3) assms(4) unfolding cache_agrees_def by blast
  then show "\<exists>x. jc_get_version (pe_codec e) d = Some x \<and> pg_read_version e m v st' = Inr x"
    using pg_read_version_grows [OF assms(1,2)] by blast
qed

text \<open>An operation keeps what was there, and what the invariants say.\<close>

definition pg_ok :: "pg_env \<Rightarrow> pg_state \<Rightarrow> bool" where
  "pg_ok e st \<longleftrightarrow> tables_ok e st \<and> cache_agrees e st"

definition keeps :: "pg_env \<Rightarrow> pg_state \<Rightarrow> pg_state \<Rightarrow> bool" where
  "keeps e st st' \<longleftrightarrow> grows st st' \<and> (pg_ok e st \<longrightarrow> pg_ok e st')"

lemma keeps_refl: "keeps e st st"
  by (simp add: keeps_def grows_refl)

lemma grows_trans: "grows st st' \<Longrightarrow> grows st' st'' \<Longrightarrow> grows st st''"
  unfolding grows_def by (elim exE conjE, intro conjI exI) (force intro: append_assoc)+

lemma keeps_trans: "keeps e st st' \<Longrightarrow> keeps e st' st'' \<Longrightarrow> keeps e st st''"
  unfolding keeps_def using grows_trans by blast

text \<open>Losing keys, and writing ones that agree.\<close>

lemma keeps_fewer_keys:
  assumes "\<And>k d. gm_get r k = Some d \<Longrightarrow> gm_get (pg_redis st) k = Some d"
  shows "keeps e st (st\<lparr>pg_redis := r\<rparr>)"
proof -
  have g: "grows st (st\<lparr>pg_redis := r\<rparr>)" by (rule grows_same) simp_all
  moreover have "tables_ok e (st\<lparr>pg_redis := r\<rparr>) = tables_ok e st" by (simp add: tables_ok_def)
  ultimately show ?thesis using cache_agrees_grows [OF _ g] assms by (auto simp: keeps_def pg_ok_def)
qed

lemma keeps_del: "keeps e st (redis_del e' k st)"
  unfolding redis_del_def by (auto simp: keeps_refl gm_get_del split: if_splits intro!: keeps_fewer_keys)

lemma gm_get_filter_key: "gm_get (filter (\<lambda>(k, d). P k) m) k = (if P k then gm_get m k else None)"
  by (induction m) auto

lemma keeps_invalidate: "keeps e st (invalidate_patterns e' ps st)"
proof (induction ps arbitrary: st)
  case (Cons p ps)
  have "keeps e st (st\<lparr>pg_redis := filter (\<lambda>(k, d). \<not> pe_glob e' p k) (pg_redis st)\<rparr>)"
    by (rule keeps_fewer_keys) (simp add: gm_get_filter_key split: if_splits)
  then show ?case using Cons keeps_trans by (fastforce simp: invalidate_patterns_def)
qed (simp add: invalidate_patterns_def keeps_refl)

lemma keeps_same_redis:
  assumes "grows st st'" "tables_ok e st \<Longrightarrow> tables_ok e st'" "pg_redis st' = pg_redis st"
  shows "keeps e st st'"
  using assms cache_agrees_grows [OF _ assms(1)] by (auto simp: keeps_def pg_ok_def)

lemma put_object_kept:
  assumes "put_object_with_hash e content st = (h, st')"
  shows "h = hex_encode (pe_sha e content)" "grows st st'" "tables_ok e st \<Longrightarrow> tables_ok e st'" "pg_redis st' = pg_redis st"
    "pg_primary st' = pg_primary st" "pg_version_seq st' = pg_version_seq st" "pg_module_seq st' = pg_module_seq st"
    "gm_get (pg_objects st') (content_key h) \<noteq> None"
  using assms by (auto simp: put_object_with_hash_def Let_def grows_def tables_ok_def gm_get_put split: if_splits)

lemma insert_module_kept:
  assumes "insert_module e now m st = Some st'"
  shows "keeps e st st'"
proof (rule keeps_same_redis)
  have name: "CHR '':'' \<notin> set (am_name m)"
    using assms by (auto simp: insert_module_def valid_module_name_def list_all_iff name_char_def ascii_digit_def split: if_splits)
  show "grows st st'" using assms by (auto simp: insert_module_def grows_def split: if_splits)
  show "tables_ok e st \<Longrightarrow> tables_ok e st'"
    using assms name by (auto simp: insert_module_def tables_ok_def list_all_iff split: if_splits) fastforce+
  show "pg_redis st' = pg_redis st" using assms by (auto simp: insert_module_def split: if_splits)
qed

lemma create_module_kept: "keeps e st (snd (pg_create_module e now m st))"
  using insert_module_kept [of e now m st] keeps_trans [OF _ keeps_del]
  by (auto simp: pg_create_module_def keeps_refl split: option.split)

definition codec_ok :: "pg_env \<Rightarrow> bool" where
  "codec_ok e \<longleftrightarrow> (\<forall>x. jc_get_module (pe_codec e) (jc_put_module (pe_codec e) x) = Some x) \<and>
     (\<forall>x. jc_get_version (pe_codec e) (jc_put_version (pe_codec e) x) = Some x)"

lemma redis_get_fewer: "redis_get decode key r = (x, r') \<Longrightarrow> gm_get r' k = Some d \<Longrightarrow> gm_get r k = Some d"
  by (auto simp: redis_get_def gm_get_del split: option.splits if_splits)

lemma cached_module_kept: "cached_module e n st = (x, st') \<Longrightarrow> keeps e st st'"
  by (auto simp: cached_module_def keeps_refl split: if_splits prod.splits dest: redis_get_fewer intro!: keeps_fewer_keys)

lemma cached_version_kept: "cached_version e m v st = (x, st') \<Longrightarrow> keeps e st st'"
  by (auto simp: cached_version_def keeps_refl split: if_splits prod.splits dest: redis_get_fewer intro!: keeps_fewer_keys)

lemma reads_ignore_redis:
  "read_module e n (st\<lparr>pg_redis := r\<rparr>) = read_module e n st"
  "pg_read_version e m v (st\<lparr>pg_redis := r\<rparr>) = pg_read_version e m v st"
proof -
  have "download_file (st\<lparr>pg_redis := r\<rparr>) = download_file st" by (rule ext) (simp add: download_file_def get_object_def)
  then have "version_files (st\<lparr>pg_redis := r\<rparr>) = version_files st" by (intro ext) (simp add: version_files_def)
  moreover have "pg_primary (st\<lparr>pg_redis := r\<rparr>) = pg_primary st" by simp
  ultimately show "pg_read_version e m v (st\<lparr>pg_redis := r\<rparr>) = pg_read_version e m v st"
    unfolding pg_read_version_def by (simp only:)
qed (simp add: read_module_def)

lemma set_module_kept:
  assumes "codec_ok e" "read_module e n st = Inr x"
  shows "keeps e st (redis_set e (redis_module_key n) (jc_put_module (pe_codec e) x) st)"
proof (cases "pe_cached e")
  case True
  let ?st = "redis_set e (redis_module_key n) (jc_put_module (pe_codec e) x) st"
  have g: "grows st ?st" using True by (simp add: redis_set_def grows_def)
  have "tables_ok e ?st = tables_ok e st" using True by (simp add: redis_set_def tables_ok_def)
  moreover have "read_module e n' ?st = read_module e n' st" "pg_read_version e m v ?st = pg_read_version e m v st" for n' m v
    using True by (simp_all add: redis_set_def reads_ignore_redis)
  ultimately show ?thesis
    using True assms g by (simp add: keeps_def pg_ok_def cache_agrees_def) (simp add: redis_set_def gm_get_put codec_ok_def)
qed (simp add: redis_set_def keeps_refl)

lemma read_version_found: "pg_read_version e m v st = Inr x \<Longrightarrow> tables_ok e st \<Longrightarrow> CHR '':'' \<notin> set m \<and> av_module x = m \<and> av_version x = v"
proof -
  assume read: "pg_read_version e m v st = Inr x" and ok: "tables_ok e st"
  then obtain r where r: "find_version (pg_primary st) m v = Some r"
    by (auto simp: pg_read_version_def split: if_splits option.splits)
  then obtain o' where "o' \<in> set (pd_modules (pg_primary st))" "mo_name o' = m" "ve_version r = v"
    using find_elem [OF r [unfolded find_version_def]] by (auto simp: list_ex_iff)
  then show ?thesis using read ok r by (auto simp: pg_read_version_def rbind_Inr_iff tables_ok_def split: if_splits)
qed

lemma set_version_kept:
  assumes "codec_ok e" "pg_read_version e m v st = Inr x"
  shows "keeps e st (redis_set e (redis_version_key (av_module x) (av_version x)) (jc_put_version (pe_codec e) x) st)"
proof (cases "pe_cached e")
  case True
  let ?st = "redis_set e (redis_version_key (av_module x) (av_version x)) (jc_put_version (pe_codec e) x) st"
  have g: "grows st ?st" using True by (simp add: redis_set_def grows_def)
  have same: "read_module e n' ?st = read_module e n' st" "pg_read_version e m' v' ?st = pg_read_version e m' v' st" for n' m' v'
    using True by (simp_all add: redis_set_def reads_ignore_redis)
  have "pg_ok e ?st" if ok: "pg_ok e st"
  proof -
    have t: "tables_ok e st" using ok by (simp add: pg_ok_def)
    note found = read_version_found [OF assms(2) t]
    have "tables_ok e ?st" using True t by (simp add: redis_set_def tables_ok_def)
    moreover have "cache_agrees e ?st"
      unfolding cache_agrees_def same
    proof (intro conjI allI impI)
      fix n d
      assume "gm_get (pg_redis ?st) (redis_module_key n) = Some d"
      then have "gm_get (pg_redis st) (redis_module_key n) = Some d" using True by (simp add: redis_set_def gm_get_put)
      then show "\<exists>x. jc_get_module (pe_codec e) d = Some x \<and> read_module e n st = Inr x"
        using ok unfolding pg_ok_def cache_agrees_def by blast
    next
      fix m' v' d
      assume colon: "CHR '':'' \<notin> set m'" and get: "gm_get (pg_redis ?st) (redis_version_key m' v') = Some d"
      show "\<exists>x. jc_get_version (pe_codec e) d = Some x \<and> pg_read_version e m' v' st = Inr x"
      proof (cases "m' = m \<and> v' = v")
        case True
        then have "d = jc_put_version (pe_codec e) x" using get found \<open>pe_cached e\<close> by (simp add: redis_set_def gm_get_put)
        then show ?thesis using True assms by (simp add: codec_ok_def)
      next
        case False
        then have "gm_get (pg_redis st) (redis_version_key m' v') = Some d"
          using get found colon redis_version_keys [OF colon, of m] \<open>pe_cached e\<close> by (simp add: redis_set_def gm_get_put split: if_splits)
        then show ?thesis using ok colon unfolding pg_ok_def cache_agrees_def by blast
      qed
    qed
    ultimately show ?thesis by (simp add: pg_ok_def)
  qed
  then show ?thesis using g by (simp add: keeps_def)
qed (simp add: redis_set_def keeps_refl)

lemma get_module_kept:
  assumes "codec_ok e"
  shows "keeps e st (snd (pg_get_module e n st))"
proof -
  obtain x st' where c: "cached_module e n st = (x, st')" by (cases "cached_module e n st")
  note kept = cached_module_kept [OF c]
  show ?thesis
  proof (cases "x = None \<and> (\<exists>m. read_module e n st' = Inr m)")
    case True
    then obtain m where m: "read_module e n st' = Inr m" by blast
    then have "am_name m = n" by (auto simp: read_module_def module_of_row_def find_module_def dest!: find_elem split: if_splits option.splits)
    then have "snd (pg_get_module e n st) = redis_set e (redis_module_key n) (jc_put_module (pe_codec e) m) st'"
      using True c m by (auto simp: pg_get_module_def read_module_def module_of_row_def split: if_splits option.splits)
    then show ?thesis using keeps_trans [OF kept set_module_kept [OF assms m]] by simp
  next
    case False
    then have "snd (pg_get_module e n st) = st'"
      using c by (auto simp: pg_get_module_def read_module_def split: if_splits option.splits)
    then show ?thesis using kept by simp
  qed
qed

lemma get_version_kept:
  assumes "codec_ok e"
  shows "keeps e st (snd (pg_get_version e m v st))"
proof -
  obtain x st' where c: "cached_version e m v st = (x, st')" by (cases "cached_version e m v st")
  note kept = cached_version_kept [OF c]
  show ?thesis
    using c kept keeps_trans [OF kept set_version_kept [OF assms]]
    by (auto simp: pg_get_version_def keeps_refl split: option.splits sum.splits)
qed

text \<open>The files of a version, one row and one object for each.\<close>

lemma insert_file_rows:
  "insert_file e vid path h content st = Some st' \<Longrightarrow>
    st' = st\<lparr>pg_primary := (pg_primary st)\<lparr>pd_files := pd_files (pg_primary st) @
      [\<lparr>fl_version = vid, fl_path = path, fl_hash = h, fl_key = content_key h, fl_size = int (length content)\<rparr>]\<rparr>\<rparr>"
  by (simp add: insert_file_def split: if_splits)

definition file_row_of :: "pg_env \<Rightarrow> int \<Rightarrow> api_file \<Rightarrow> file_row" where
  "file_row_of e vid f = (let h = hex_encode (pe_sha e (af_content f)) in
     \<lparr>fl_version = vid, fl_path = af_path f, fl_hash = h, fl_key = content_key h, fl_size = int (length (af_content f))\<rparr>)"

definition objects_kept :: "pg_env \<Rightarrow> pg_state \<Rightarrow> pg_state \<Rightarrow> bool" where
  "objects_kept e st st' \<longleftrightarrow>
     pg_module_seq st' = pg_module_seq st \<and> pg_version_seq st' = pg_version_seq st \<and> pg_redis st' = pg_redis st \<and>
     pg_replicas st' = pg_replicas st \<and>
     (\<forall>k c. gm_get (pg_objects st) k = Some c \<longrightarrow> gm_get (pg_objects st') k = Some c) \<and>
     (\<forall>k c. gm_get (pg_objects st') k = Some c \<longrightarrow> gm_get (pg_objects st) k = Some c \<or> k = content_key (hex_encode (pe_sha e c)))"

lemma objects_kept_refl: "objects_kept e st st"
  by (simp add: objects_kept_def)

lemma objects_kept_trans: "objects_kept e st st' \<Longrightarrow> objects_kept e st' st'' \<Longrightarrow> objects_kept e st st''"
  by (simp add: objects_kept_def) blast

lemma put_object_objects: "put_object_with_hash e content st = (h, st') \<Longrightarrow> objects_kept e st st'"
  by (auto simp: put_object_with_hash_def Let_def objects_kept_def gm_get_put split: if_splits)

lemma upload_files_rows:
  assumes "upload_files e vid fs st = (r, st')"
  shows "objects_kept e st st' \<and> (\<exists>rows. pg_primary st' = (pg_primary st)\<lparr>pd_files := pd_files (pg_primary st) @ rows\<rparr> \<and>
      (\<forall>x \<in> set rows. fl_version x = vid)) \<and>
    (r = Inr () \<longrightarrow> pg_primary st' = (pg_primary st)\<lparr>pd_files := pd_files (pg_primary st) @ map (file_row_of e vid) fs\<rparr> \<and>
      (\<forall>f \<in> set fs. gm_get (pg_objects st') (content_key (hex_encode (pe_sha e (af_content f)))) \<noteq> None))"
  using assms
proof (induction fs arbitrary: st)
  case Nil
  then show ?case by (auto simp: objects_kept_refl intro: exI [of _ "[]"])
next
  case (Cons f fs)
  obtain h st1 where put: "put_object_with_hash e (af_content f) st = (h, st1)" by (cases "put_object_with_hash e (af_content f) st")
  note st1 = put_object_kept [OF put] put_object_objects [OF put]
  show ?case
  proof (cases "insert_file e vid (af_path f) h (af_content f) st1")
    case None
    then have "r \<noteq> Inr ()" "st' = st1" using Cons.prems put by auto
    then show ?thesis using st1 by (auto intro: exI [of _ "[]"])
  next
    case (Some st2)
    note st2 = insert_file_rows [OF Some]
    have ok: "objects_kept e st st2" using st1(9) by (simp add: st2 objects_kept_def)
    have row: "pd_files (pg_primary st2) = pd_files (pg_primary st) @ [file_row_of e vid f]"
      "pg_primary st2 = (pg_primary st)\<lparr>pd_files := pd_files (pg_primary st) @ [file_row_of e vid f]\<rparr>"
      using st1 by (simp_all add: st2 file_row_of_def Let_def)
    have up: "upload_files e vid fs st2 = (r, st')" using Cons.prems put Some by simp
    note IH = Cons.IH [OF up]
    have "gm_get (pg_objects st') (content_key h) \<noteq> None"
      using st1(8) IH by (auto simp: st2 objects_kept_def)
    note here = this
    from IH obtain rows where rows: "pg_primary st' = (pg_primary st2)\<lparr>pd_files := pd_files (pg_primary st2) @ rows\<rparr>"
      "\<forall>x \<in> set rows. fl_version x = vid" by blast
    have "objects_kept e st st'" using IH objects_kept_trans [OF ok] by blast
    moreover have "pg_primary st' = (pg_primary st)\<lparr>pd_files := pd_files (pg_primary st) @ (file_row_of e vid f # rows)\<rparr>"
      unfolding rows(1) row(2) by simp
    moreover have "\<forall>x \<in> set (file_row_of e vid f # rows). fl_version x = vid" using rows(2) by (simp add: file_row_of_def Let_def)
    moreover have "r = Inr () \<longrightarrow> pg_primary st' = (pg_primary st)\<lparr>pd_files := pd_files (pg_primary st) @ map (file_row_of e vid) (f # fs)\<rparr> \<and>
      (\<forall>f \<in> set (f # fs). gm_get (pg_objects st') (content_key (hex_encode (pe_sha e (af_content f)))) \<noteq> None)"
      using IH here st1(1) unfolding row(2) by simp
    ultimately show ?thesis by blast
  qed
qed

lemma create_version_steps:
  assumes "pg_create_version e now v st = (r, st')"
  shows "r \<noteq> Inr () \<and> st' = st \<or> (\<exists>m deps st1 st2 res. find_module (pg_primary st) (av_module v) = Some m \<and>
      pe_jsonb e (deps_json (av_dependencies v)) = Some deps \<and>
      (\<forall>x \<in> set (pd_versions (pg_primary st)). \<not> (ve_module x = mo_id m \<and> ve_version x = av_version v)) \<and>
      st1 = st\<lparr>pg_primary := (pg_primary st)\<lparr>pd_versions := pd_versions (pg_primary st) @
          [\<lparr>ve_id = pg_version_seq st, ve_module = mo_id m, ve_version = av_version v, ve_dependencies = deps, ve_created = created_at now v\<rparr>]\<rparr>,
        pg_version_seq := pg_version_seq st + 1\<rparr> \<and>
      upload_files e (pg_version_seq st) (av_files v) st1 = (res, st2) \<and>
      (case res of Inl err \<Rightarrow> r = Inl err \<and> st' = st2\<lparr>pg_primary := pg_primary st\<rparr>
       | Inr _ \<Rightarrow> r = Inr () \<and> st' = redis_del e (redis_version_key (av_module v) (av_version v)) st2))"
proof (cases "r \<noteq> Inr () \<and> st' = st")
  case False
  then obtain m where m: "find_module (pg_primary st) (av_module v) = Some m"
    using assms by (auto simp: pg_create_version_def split: if_splits option.splits)
  obtain vid st1 where i: "insert_version e (mo_id m) v (created_at now v) st = Some (vid, st1)"
    using assms False m by (auto simp: pg_create_version_def split: if_splits option.splits)
  obtain res st2 where u: "upload_files e vid (av_files v) st1 = (res, st2)" by (cases "upload_files e vid (av_files v) st1")
  have "case res of Inl err \<Rightarrow> r = Inl err \<and> st' = st2\<lparr>pg_primary := pg_primary st\<rparr>
       | Inr _ \<Rightarrow> r = Inr () \<and> st' = redis_del e (redis_version_key (av_module v) (av_version v)) st2"
    using assms False m i u by (auto simp: pg_create_version_def split: if_splits sum.splits)
  moreover obtain deps where "pe_jsonb e (deps_json (av_dependencies v)) = Some deps"
    using i by (auto simp: insert_version_def split: option.splits)
  ultimately show ?thesis
    using i m u by (auto simp: insert_version_def list_all_iff split: if_splits)
qed simp

lemma create_version_kept: "keeps e st (snd (pg_create_version e now v st))"
proof -
  obtain r st' where c: "pg_create_version e now v st = (r, st')" by (cases "pg_create_version e now v st")
  show ?thesis
  proof (cases "st' = st")
    case False
    then obtain m deps st1 st2 res where s: "find_module (pg_primary st) (av_module v) = Some m"
      "st1 = st\<lparr>pg_primary := (pg_primary st)\<lparr>pd_versions := pd_versions (pg_primary st) @
          [\<lparr>ve_id = pg_version_seq st, ve_module = mo_id m, ve_version = av_version v, ve_dependencies = deps, ve_created = created_at now v\<rparr>]\<rparr>,
        pg_version_seq := pg_version_seq st + 1\<rparr>"
      "upload_files e (pg_version_seq st) (av_files v) st1 = (res, st2)"
      "case res of Inl err \<Rightarrow> r = Inl err \<and> st' = st2\<lparr>pg_primary := pg_primary st\<rparr>
       | Inr _ \<Rightarrow> r = Inr () \<and> st' = redis_del e (redis_version_key (av_module v) (av_version v)) st2"
      using create_version_steps [OF c] by (elim disjE conjE exE) (simp, rule that, assumption+)
    obtain rows where rows: "objects_kept e st1 st2" "pg_primary st2 = (pg_primary st1)\<lparr>pd_files := pd_files (pg_primary st1) @ rows\<rparr>"
      "\<forall>x \<in> set rows. fl_version x = pg_version_seq st" using upload_files_rows [OF s(3)] by blast
    have "m \<in> set (pd_modules (pg_primary st))" using s(1) find_elem by (fastforce simp: find_module_def)
    then have t2: "tables_ok e st2" if "tables_ok e st"
      using that rows by (fastforce simp: tables_ok_def objects_kept_def s(2))
    have g2: "grows st st2" using rows by (auto simp: grows_def objects_kept_def s(2))
    have k2: "keeps e st st2" by (rule keeps_same_redis [OF g2 t2]) (use rows in \<open>auto simp: objects_kept_def s(2)\<close>)
    have "keeps e st (st2\<lparr>pg_primary := pg_primary st\<rparr>)"
    proof (rule keeps_same_redis)
      show "grows st (st2\<lparr>pg_primary := pg_primary st\<rparr>)" using rows(1) by (auto simp: grows_def objects_kept_def s(2))
      show "tables_ok e (st2\<lparr>pg_primary := pg_primary st\<rparr>)" if "tables_ok e st"
        using that rows(1) by (fastforce simp: tables_ok_def objects_kept_def s(2))
      show "pg_redis (st2\<lparr>pg_primary := pg_primary st\<rparr>) = pg_redis st" using rows(1) by (simp add: objects_kept_def s(2))
    qed
    then show ?thesis using s(4) keeps_trans [OF k2 keeps_del] c by (auto split: sum.splits)
  qed (simp add: c keeps_refl)
qed

lemma next_replica_kept: "keeps e st (snd (next_replica st))"
  by (simp add: next_replica_def Let_def keeps_refl) (auto intro!: keeps_same_redis simp: grows_def tables_ok_def)

lemma run_pg_op_kept:
  assumes "codec_ok e"
  shows "keeps e st (run_pg_op e op st)"
proof (cases op)
  case (List_Versions m)
  then have "run_pg_op e op st = snd (next_replica st)" by (simp add: run_pg_op_def pg_list_versions_def split: prod.splits)
  then show ?thesis using next_replica_kept by simp
next
  case (Put_Content c)
  obtain h st' where put: "put_object_with_hash e c st = (h, st')" by (cases "put_object_with_hash e c st")
  have "keeps e st st'" using put_object_kept(2-4) [OF put] by (rule keeps_same_redis)
  then show ?thesis by (simp add: Put_Content run_pg_op_def pg_put_file_content_def put keeps_refl)
next
  case (Expire k)
  have "keeps e st (st\<lparr>pg_redis := gm_del k (pg_redis st)\<rparr>)" by (rule keeps_fewer_keys) (simp add: gm_get_del split: if_splits)
  then show ?thesis by (simp add: Expire run_pg_op_def)
next
  case (Replicate i)
  have "keeps e st (st\<lparr>pg_replicas := (pg_replicas st)[i := pg_primary st]\<rparr>)"
    by (rule keeps_same_redis) (simp_all add: grows_def tables_ok_def)
  then show ?thesis by (simp add: Replicate run_pg_op_def)
qed (simp_all add: run_pg_op_def create_module_kept get_module_kept get_version_kept create_version_kept keeps_invalidate
  pg_invalidate_cache_def keeps_refl assms)

lemma run_pg_kept: "codec_ok e \<Longrightarrow> keeps e st (run_pg e ops st)"
  unfolding run_pg_def by (induction ops arbitrary: st) (auto simp: keeps_refl intro: keeps_trans [OF run_pg_op_kept])

lemma fresh_pg_ok: "pg_ok e fresh_pg"
  by (simp add: pg_ok_def tables_ok_def cache_agrees_def fresh_pg_def)

lemma run_pg_ok: "codec_ok e \<Longrightarrow> pg_ok e (run_pg e ops fresh_pg)"
  using run_pg_kept [of e fresh_pg ops] fresh_pg_ok [of e] by (simp add: keeps_def)

section \<open>Reading back\<close>

lemma hex_digit_inj: "a < 16 \<Longrightarrow> b < 16 \<Longrightarrow> hex_digit a = hex_digit b \<longleftrightarrow> a = b"
proof -
  have code: "(of_char (hex_digit n) :: nat) = (if n < 10 then 48 + n else 87 + n)" if "n < 16" for n
  proof -
    have "(48 + n) mod 256 = 48 + n" "(87 + n) mod 256 = 87 + n" by (rule mod_less, use that in linarith)+
    then show ?thesis unfolding hex_digit_def by (simp only: of_char_of if_distrib [of of_char])
  qed
  assume "a < 16" "b < 16"
  have "a = b" if "hex_digit a = hex_digit b"
  proof -
    have "(if a < 10 then 48 + a else 87 + a) = (if b < 10 then 48 + b else 87 + b)"
      using code [OF \<open>a < 16\<close>] code [OF \<open>b < 16\<close>] by (simp only: that)
    then show ?thesis using \<open>a < 16\<close> \<open>b < 16\<close> by (simp split: if_splits)
  qed
  then show "hex_digit a = hex_digit b \<longleftrightarrow> a = b" by blast
qed

lemma hex_encode_inj: "hex_encode s = hex_encode t \<longleftrightarrow> s = t"
proof (induction s arbitrary: t)
  case Nil
  then show ?case by (cases t) (simp_all add: hex_encode_def)
next
  case (Cons c s)
  have char: "of_char c div 16 = (of_char d div 16 :: nat) \<and> of_char c mod 16 = (of_char d mod 16 :: nat) \<longleftrightarrow> c = d" for d
    by (metis div_mult_mod_eq of_char_eq_iff)
  have small: "(of_char x :: nat) div 16 < 16" for x
    using nat_of_char_less_256 [of x] by (simp add: less_mult_imp_div_less)
  show ?case
  proof (cases t)
    case (Cons d t')
    then have "hex_encode (c # s) = hex_encode t \<longleftrightarrow> c = d \<and> hex_encode s = hex_encode t'"
      using char [of d] by (auto simp: hex_encode_def hex_digit_inj small)
    then show ?thesis using Cons.IH Cons by simp
  qed (simp add: hex_encode_def)
qed

lemma content_key_inj: "content_key a = content_key b \<longleftrightarrow> a = b"
proof
  assume key: "content_key a = content_key b"
  then have "length (content_key a) = length (content_key b)" by simp
  then have len: "length a = length b" by (simp add: content_key_def)
  have "take 2 a @ ''/'' @ drop 2 a = take 2 b @ ''/'' @ drop 2 b" using key by (simp add: content_key_def)
  then have "take 2 a = take 2 b \<and> ''/'' @ drop 2 a = ''/'' @ drop 2 b" by (subst (asm) append_eq_append_conv) (simp_all add: len)
  then have "take 2 a = take 2 b \<and> drop 2 a = drop 2 b" by simp
  then show "a = b" by (metis append_take_drop_id)
qed simp

lemma uploaded_objects:
  "upload_files e vid fs st = (r, st') \<Longrightarrow> gm_get (pg_objects st') k = Some c \<Longrightarrow>
    gm_get (pg_objects st) k = Some c \<or> c \<in> af_content ` set fs"
proof (induction fs arbitrary: st)
  case (Cons f fs)
  obtain h st1 where put: "put_object_with_hash e (af_content f) st = (h, st1)" by (cases "put_object_with_hash e (af_content f) st")
  have one: "gm_get (pg_objects st1) k = Some c \<Longrightarrow> gm_get (pg_objects st) k = Some c \<or> c = af_content f"
    using put by (auto simp: put_object_with_hash_def Let_def gm_get_put split: if_splits)
  show ?case
  proof (cases "insert_file e vid (af_path f) h (af_content f) st1")
    case None
    then show ?thesis using Cons.prems put one by auto
  next
    case (Some st2)
    then have "pg_objects st2 = pg_objects st1" using insert_file_rows by fastforce
    then show ?thesis using Cons.prems Cons.IH [of st2] put Some one by auto
  qed
qed simp

text \<open>No two contents among the new files and the stored objects have the same hash.\<close>

definition no_collision :: "pg_env \<Rightarrow> pg_state \<Rightarrow> api_file list \<Rightarrow> bool" where
  "no_collision e st fs \<longleftrightarrow> inj_on (pe_sha e) (af_content ` set fs \<union> ran (map_of (pg_objects st)))"

text \<open>The columns that a reader asks for.\<close>

definition readable_schema :: "pg_schema \<Rightarrow> bool" where
  "readable_schema s \<longleftrightarrow> can_select (sc_versions s) [''id'', ''version'', ''dependencies'', ''created_at'', ''updated_at''] \<and>
     can_select (sc_modules s) [''id'', ''name''] \<and> can_select (sc_files s) [''file_path'', ''content_hash'', ''object_key'']"

lemma sorted_rows_download:
  assumes "\<And>f. f \<in> set fs \<Longrightarrow> gm_get (pg_objects st) (content_key (hex_encode (pe_sha e (af_content f)))) = Some (af_content f)"
  shows "collect (download_file st) (sort_key fl_path (map (file_row_of e vid) fs)) = Inr (sort_key af_path fs)"
proof -
  have path: "fl_path (file_row_of e vid f) = af_path f" for f by (simp add: file_row_of_def Let_def)
  have "sort_key fl_path (map (file_row_of e vid) gs) = map (file_row_of e vid) (sort_key af_path gs)" for gs
  proof -
    have ins: "insort_key fl_path (file_row_of e vid f) (map (file_row_of e vid) gs) = map (file_row_of e vid) (insort_key af_path f gs)" for f gs
      by (induction gs) (simp_all add: path)
    show ?thesis by (induction gs) (simp_all add: ins sort_key_def)
  qed
  moreover have "collect (download_file st) (map (file_row_of e vid) gs) = Inr gs" if "set gs \<subseteq> set fs" for gs
    using that by (induction gs) (simp_all add: download_file_def get_object_def file_row_of_def Let_def assms)
  ultimately show ?thesis by simp
qed

lemma find_fresh: "(\<And>x. x \<in> set xs \<Longrightarrow> \<not> P x) \<Longrightarrow> P y \<Longrightarrow> find P (xs @ [y]) = Some y"
  by (induction xs) auto

lemma module_id_unique:
  assumes "distinct (map mo_name (pd_modules db))" "find_module db m = Some r"
  shows "list_ex (\<lambda>o'. mo_id o' = i \<and> mo_name o' = m) (pd_modules db) \<longleftrightarrow> i = mo_id r"
proof -
  have r: "r \<in> set (pd_modules db)" "mo_name r = m" using find_elem [OF assms(2) [unfolded find_module_def]] by simp_all
  have "o' = r" if "o' \<in> set (pd_modules db)" "mo_name o' = m" for o'
    using that r assms(1) by (metis distinct_map inj_onD)
  then show ?thesis using r unfolding list_ex_iff by blast
qed

text \<open>What is stored of a version: its source and its compilations are not.\<close>

definition stored_version :: "int \<Rightarrow> api_version \<Rightarrow> api_version" where
  "stored_version now v = v\<lparr>av_files := sort_key af_path (av_files v), av_created := created_at now v,
     av_source := no_source, av_compilation := []\<rparr>"

lemma created_version_stored:
  assumes create: "pg_create_version e now v st = (Inr (), st')" and ok: "tables_ok e st"
    and schema: "readable_schema (pe_schema e)" and coll: "no_collision e st (av_files v)"
    and deps: "\<And>t. pe_jsonb e (deps_json (av_dependencies v)) = Some t \<Longrightarrow> parse_dependencies e t = Inr (av_dependencies v)"
  shows "pg_read_version e (av_module v) (av_version v) st' = Inr (stored_version now v)"
proof -
  obtain m t st1 st2 res where s: "find_module (pg_primary st) (av_module v) = Some m"
    "pe_jsonb e (deps_json (av_dependencies v)) = Some t"
    "\<forall>x \<in> set (pd_versions (pg_primary st)). \<not> (ve_module x = mo_id m \<and> ve_version x = av_version v)"
    "st1 = st\<lparr>pg_primary := (pg_primary st)\<lparr>pd_versions := pd_versions (pg_primary st) @
        [\<lparr>ve_id = pg_version_seq st, ve_module = mo_id m, ve_version = av_version v, ve_dependencies = t, ve_created = created_at now v\<rparr>]\<rparr>,
      pg_version_seq := pg_version_seq st + 1\<rparr>"
    "upload_files e (pg_version_seq st) (av_files v) st1 = (res, st2)"
    "case res of Inl err \<Rightarrow> False | Inr _ \<Rightarrow> st' = redis_del e (redis_version_key (av_module v) (av_version v)) st2"
    using create_version_steps [OF create] by (elim disjE conjE exE) (simp, rule that, assumption+, simp split: sum.splits)
  let ?row = "\<lparr>ve_id = pg_version_seq st, ve_module = mo_id m, ve_version = av_version v, ve_dependencies = t, ve_created = created_at now v\<rparr>"
  have res: "res = Inr ()" and st': "st' = redis_del e (redis_version_key (av_module v) (av_version v)) st2"
    using s(6) by (auto split: sum.splits)
  note up = upload_files_rows [OF s(5)] and objs = uploaded_objects [OF s(5)]
  have db: "pg_primary st2 = (pg_primary st1)\<lparr>pd_files := pd_files (pg_primary st1) @ map (file_row_of e (pg_version_seq st)) (av_files v)\<rparr>"
    and there: "f \<in> set (av_files v) \<Longrightarrow> gm_get (pg_objects st2) (content_key (hex_encode (pe_sha e (af_content f)))) \<noteq> None" for f
    using up res by blast+
  have content: "gm_get (pg_objects st2) (content_key (hex_encode (pe_sha e (af_content f)))) = Some (af_content f)"
    if f: "f \<in> set (av_files v)" for f
  proof -
    obtain c where c: "gm_get (pg_objects st2) (content_key (hex_encode (pe_sha e (af_content f)))) = Some c" using there [OF f] by blast
    then have "content_key (hex_encode (pe_sha e c)) = content_key (hex_encode (pe_sha e (af_content f)))"
      using up ok unfolding objects_kept_def tables_ok_def s(4) by fastforce
    then have "pe_sha e c = pe_sha e (af_content f)" by (simp add: content_key_inj hex_encode_inj)
    moreover have "c \<in> af_content ` set (av_files v) \<union> ran (map_of (pg_objects st))"
      using objs [OF c] by (auto simp: s(4) ran_def)
    ultimately have "c = af_content f" using coll f unfolding no_collision_def inj_on_def by blast
    then show ?thesis using c by simp
  qed
  have mods: "pd_modules (pg_primary st2) = pd_modules (pg_primary st)" and vers: "pd_versions (pg_primary st2) = pd_versions (pg_primary st) @ [?row]"
    by (simp_all add: db s(4))
  have found: "find_version (pg_primary st2) (av_module v) (av_version v) = Some ?row"
    unfolding find_version_def mods vers
    by (rule find_fresh) (use s(3) module_id_unique [OF _ s(1)] ok in \<open>auto simp: tables_ok_def\<close>)
  have "filter (\<lambda>r. fl_version r = pg_version_seq st) (pd_files (pg_primary st)) = []"
    using ok by (auto simp: tables_ok_def filter_empty_conv)
  then have "filter (\<lambda>r. fl_version r = pg_version_seq st) (pd_files (pg_primary st2)) = map (file_row_of e (pg_version_seq st)) (av_files v)"
    by (simp add: db s(4)) (simp add: file_row_of_def Let_def filter_map o_def)
  then have files: "version_files st2 (pg_version_seq st) = Inr (sort_key af_path (av_files v))"
    using sorted_rows_download [OF content] by (simp add: version_files_def)
  have "pg_read_version e (av_module v) (av_version v) st2 = Inr (stored_version now v)"
    using schema unfolding pg_read_version_def found
    by (simp add: readable_schema_def deps [OF s(2)] files stored_version_def)
  then show ?thesis by (simp add: st' redis_del_def reads_ignore_redis)
qed

lemma cached_answer:
  assumes "cache_agrees e st" "CHR '':'' \<notin> set m" "pe_s3 e"
  shows "fst (pg_get_version e m v st) = pg_read_version e m v st"
proof -
  obtain x st' where c: "cached_version e m v st = (x, st')" by (cases "cached_version e m v st")
  obtain r where st': "st' = st\<lparr>pg_redis := r\<rparr>"
    using c by (auto simp: cached_version_def split: if_splits prod.splits intro: that [of "pg_redis st"])
  show ?thesis
  proof (cases x)
    case None
    then show ?thesis using assms(3) c by (simp add: pg_get_version_def st' reads_ignore_redis split: sum.split)
  next
    case (Some y)
    then obtain d where "gm_get (pg_redis st) (redis_version_key m v) = Some d" "jc_get_version (pe_codec e) d = Some y"
      using c by (auto simp: cached_version_def redis_get_def split: if_splits option.splits)
    then have "pg_read_version e m v st = Inr y" using assms(1,2) unfolding cache_agrees_def by fastforce
    then show ?thesis using assms(3) c Some by (simp add: pg_get_version_def)
  qed
qed

lemma cached_module_answer:
  assumes "cache_agrees e st"
  shows "fst (pg_get_module e n st) = read_module e n st"
proof -
  obtain x st' where c: "cached_module e n st = (x, st')" by (cases "cached_module e n st")
  obtain r where st': "st' = st\<lparr>pg_redis := r\<rparr>"
    using c by (auto simp: cached_module_def split: if_splits prod.splits intro: that [of "pg_redis st"])
  show ?thesis
  proof (cases x)
    case None
    then show ?thesis using c by (simp add: pg_get_module_def read_module_def st' split: option.split)
  next
    case (Some y)
    then obtain d where "gm_get (pg_redis st) (redis_module_key n) = Some d" "jc_get_module (pe_codec e) d = Some y"
      using c by (auto simp: cached_module_def redis_get_def split: if_splits option.splits)
    then have "read_module e n st = Inr y" using assms unfolding cache_agrees_def by fastforce
    then show ?thesis using c Some by (simp add: pg_get_module_def)
  qed
qed



section \<open>The schema of the migrations\<close>

lemma create_module_never_ok: "\<not> is_ok (fst (pg_create_module e now m st))"
  by (simp add: pg_create_module_def scan_fits_def split: option.split)

definition untouched :: "pg_state \<Rightarrow> bool" where
  "untouched st \<longleftrightarrow> pg_primary st = pg_primary fresh_pg \<and> pg_redis st = []"

lemma migrated_columns:
  "\<not> can_insert (sc_modules migrated_schema) [''name'', ''description'', ''metadata'']"
  "\<not> can_insert (sc_versions migrated_schema) version_columns"
  "\<not> can_select (sc_versions migrated_schema) [''id'', ''version'', ''dependencies'', ''created_at'', ''updated_at'']"
  by code_simp+

lemma migrated_create:
  assumes "pe_schema e = migrated_schema"
  shows "\<exists>err. pg_create_module e now m st = (Inl err, st)" "\<exists>err. pg_create_version e now v st = (Inl err, st)"
proof -
  have "insert_module e now m st = None" using assms by (simp add: insert_module_def migrated_columns)
  then show "\<exists>err. pg_create_module e now m st = (Inl err, st)" by (simp add: pg_create_module_def)
  have "insert_version e i v c st = None" for i c
    using assms by (simp add: insert_version_def migrated_columns split: option.split)
  then show "\<exists>err. pg_create_version e now v st = (Inl err, st)" by (simp add: pg_create_version_def split: option.split)
qed

lemma migrated_reads:
  assumes "pe_schema e = migrated_schema" "untouched st"
  shows "\<exists>err. pg_get_module e n st = (Inl err, st)" "\<exists>err. pg_get_version e n w st = (Inl err, st)"
proof -
  have m: "cached_module e n st = (None, st)" and v: "cached_version e n w st = (None, st)"
    using assms(2) by (simp_all add: cached_module_def cached_version_def redis_get_def untouched_def)
  have "find_module (pg_primary st) n = None" using assms(2) by (simp add: untouched_def find_module_def fresh_pg_def)
  then show "\<exists>err. pg_get_module e n st = (Inl err, st)" by (simp add: pg_get_module_def m)
  have "pg_read_version e n w st = Inl (Pg_Context ''failed to get version'' (Pg_Statement ''versions''))"
    unfolding pg_read_version_def using assms(1) migrated_columns(3) by simp
  then show "\<exists>err. pg_get_version e n w st = (Inl err, st)" by (simp add: pg_get_version_def v)
qed

lemma untouched_simps: "untouched (st\<lparr>pg_replicas := rs\<rparr>) = untouched st" "untouched (st\<lparr>pg_current := i\<rparr>) = untouched st"
  "untouched (st\<lparr>pg_objects := o'\<rparr>) = untouched st" "untouched st \<Longrightarrow> untouched (st\<lparr>pg_redis := []\<rparr>)"
  by (simp_all add: untouched_def)

lemma untouched_invalidate: "untouched st \<Longrightarrow> untouched (invalidate_patterns e ps st)"
  unfolding invalidate_patterns_def by (induction ps arbitrary: st) (simp_all add: untouched_def)

lemma run_pg_op_untouched:
  assumes "pe_schema e = migrated_schema" "untouched st"
  shows "untouched (run_pg_op e op st)"
proof (cases op)
  case (Create_Module now m)
  then show ?thesis using migrated_create(1) [OF assms(1), of now m st] assms(2) by (auto simp: run_pg_op_def)
next
  case (Create_Version now v)
  then show ?thesis using migrated_create(2) [OF assms(1), of now v st] assms(2) by (auto simp: run_pg_op_def)
next
  case (Get_Module n)
  then show ?thesis using migrated_reads(1) [OF assms, of n] assms(2) by (auto simp: run_pg_op_def)
next
  case (Get_Version m v)
  then show ?thesis using migrated_reads(2) [OF assms, of m v] assms(2) by (auto simp: run_pg_op_def)
next
  case (Expire k)
  then show ?thesis using assms(2) by (simp add: run_pg_op_def untouched_def)
qed (use assms(2) in \<open>auto simp: run_pg_op_def pg_list_versions_def next_replica_def Let_def pg_put_file_content_def
  put_object_with_hash_def pg_invalidate_cache_def untouched_simps untouched_invalidate split: prod.splits if_splits\<close>)


section \<open>Examples\<close>

text \<open>A codec that numbers modules and versions, and the schema that the code expects.\<close>

definition module_parts :: "api_module \<Rightarrow> string \<times> string \<times> int \<times> int" where
  "module_parts m = (am_name m, am_description m, am_created m, am_updated m)"

definition version_parts :: "api_version \<Rightarrow> string \<times> string \<times> (string \<times> string) list \<times> int \<times> string list \<times>
    (string \<times> string \<times> string) \<times> (string \<times> string \<times> string \<times> (string \<times> string) list) list" where
  "version_parts v = (av_module v, av_version v, map (\<lambda>f. (af_path f, af_content f)) (av_files v), av_created v, av_dependencies v,
     (si_repository (av_source v), si_commit (av_source v), si_branch (av_source v)),
     map (\<lambda>c. (ci_language c, ci_package c, ci_version c, map (\<lambda>f. (af_path f, af_content f)) (ci_files c))) (av_compilation v))"

definition module_of_parts :: "string \<times> string \<times> int \<times> int \<Rightarrow> api_module" where
  "module_of_parts = (\<lambda>(n, d, c, u). \<lparr>am_name = n, am_description = d, am_created = c, am_updated = u\<rparr>)"

definition files_of_parts :: "(string \<times> string) list \<Rightarrow> api_file list" where
  "files_of_parts = map (\<lambda>(p, c). \<lparr>af_path = p, af_content = c\<rparr>)"

definition version_of_parts :: "string \<times> string \<times> (string \<times> string) list \<times> int \<times> string list \<times>
    (string \<times> string \<times> string) \<times> (string \<times> string \<times> string \<times> (string \<times> string) list) list \<Rightarrow> api_version" where
  "version_of_parts = (\<lambda>(m, v, fs, c, ds, (r, h, b), cs).
     \<lparr>av_module = m, av_version = v, av_files = files_of_parts fs, av_created = c, av_dependencies = ds,
      av_source = \<lparr>si_repository = r, si_commit = h, si_branch = b\<rparr>,
      av_compilation = map (\<lambda>(l, p, w, fs). \<lparr>ci_language = l, ci_package = p, ci_version = w, ci_files = files_of_parts fs\<rparr>) cs\<rparr>)"

lemma parts_back: "module_of_parts (module_parts m) = m" "files_of_parts (map (\<lambda>f. (af_path f, af_content f)) fs) = fs"
  "version_of_parts (version_parts v) = v"
proof -
  show files: "files_of_parts (map (\<lambda>f. (af_path f, af_content f)) fs) = fs" for fs
    by (induction fs) (simp_all add: files_of_parts_def)
  have "map (\<lambda>c. \<lparr>ci_language = ci_language c, ci_package = ci_package c, ci_version = ci_version c, ci_files = ci_files c\<rparr>) cs = cs" for cs
    by (induction cs) simp_all
  then show "version_of_parts (version_parts v) = v" by (simp add: version_of_parts_def version_parts_def files o_def)
  show "module_of_parts (module_parts m) = m" by (simp add: module_of_parts_def module_parts_def)
qed

definition numbering_codec :: json_codec where
  "numbering_codec =
     \<lparr>jc_put_module = (\<lambda>m. replicate (to_nat (module_parts m)) (CHR ''1'')),
      jc_get_module = (\<lambda>s. Some (module_of_parts (from_nat (length s)))),
      jc_put_version = (\<lambda>v. replicate (to_nat (version_parts v)) (CHR ''1'')),
      jc_get_version = (\<lambda>s. Some (version_of_parts (from_nat (length s))))\<rparr>"

definition expected_env :: pg_env where
  "expected_env =
     \<lparr>pe_schema = migrated_schema\<lparr>sc_modules := [(''id'', False), (''name'', True), (''description'', False), (''created_at'', False),
          (''updated_at'', False), (''metadata'', False)],
        sc_versions := (''updated_at'', False) # sc_versions migrated_schema\<rparr>,
      pe_s3 = True, pe_cached = True, pe_sha = (\<lambda>s. s), pe_varchar = (\<lambda>n s. length s \<le> n), pe_jsonb = Some,
      pe_strings = (\<lambda>_. None), pe_codec = numbering_codec, pe_glob = (\<lambda>p k. p = k)\<rparr>"

lemma expected_codec: "codec_ok expected_env"
  by (simp add: codec_ok_def expected_env_def numbering_codec_def parts_back)


definition small_version :: api_version where
  "small_version = \<lparr>av_module = ''geo'', av_version = ''1.0.0'', av_files = [\<lparr>af_path = ''b.proto'', af_content = ''x''\<rparr>,
     \<lparr>af_path = ''a.proto'', af_content = ''y''\<rparr>], av_created = 5, av_dependencies = [], av_source = no_source, av_compilation = []\<rparr>"

definition geo_module :: api_module where
  "geo_module = \<lparr>am_name = ''geo'', am_description = [], am_created = 0, am_updated = 0\<rparr>"

lemma geo_state: "run_pg expected_env [Create_Module 1 geo_module] fresh_pg = fresh_pg
    \<lparr>pg_primary := \<lparr>pd_modules = [\<lparr>mo_id = 1, mo_name = ''geo'', mo_description = [], mo_created = 1, mo_updated = 1\<rparr>],
       pd_versions = [], pd_files = []\<rparr>, pg_module_seq := 2\<rparr>"
proof -
  have "valid_module_name ''geo''" by code_simp
  then show ?thesis
    by (simp add: run_pg_def run_pg_op_def pg_create_module_def insert_module_def can_insert_def can_select_def expected_env_def
      geo_module_def fresh_pg_def scan_fits_def)
qed

lemma small_version_accepted:
  "\<exists>st. pg_create_version expected_env 9 small_version (run_pg expected_env [Create_Module 1 geo_module] fresh_pg) = (Inr (), st)"
proof -
  have "valid_version_name ''1.0.0''" by code_simp
  moreover have "deps_json [] = ''[]''" by (simp add: deps_json_def)
  moreover have "can_insert (sc_versions (pe_schema expected_env)) version_columns"
    "can_select (sc_modules (pe_schema expected_env)) [''id'', ''name'']"
    "can_insert (sc_files (pe_schema expected_env)) [''version_id'', ''file_path'', ''content_hash'', ''object_key'', ''file_size'', ''created_at'']"
    by (simp_all add: expected_env_def can_insert_def can_select_def version_columns_def migrated_schema_def)
  moreover have "pe_s3 expected_env" "pe_cached expected_env" "pe_sha expected_env = (\<lambda>s. s)"
    "pe_varchar expected_env = (\<lambda>n s. length s \<le> n)" "pe_jsonb expected_env = Some" by (simp_all add: expected_env_def)
  moreover have "hex_encode ''x'' = ''78''" "hex_encode ''y'' = ''79''" by code_simp+
  ultimately show ?thesis
    unfolding geo_state
    by (simp add: pg_create_version_def small_version_def find_module_def insert_version_def insert_file_def
      put_object_with_hash_def Let_def fresh_pg_def content_key_def)
qed



end
