(* ===== verification/Storage_Layer_Props.thy ===== *)
theory Storage_Layer_Props
  imports Storage_Postgres_Props
begin

text \<open>What warming up the cache around the storage in PostgreSQL does to later reads of versions.\<close>

text \<open>A version that is in the cache without files.\<close>

definition bare_in_cache :: "layer_env \<Rightarrow> string \<Rightarrow> string \<Rightarrow> cache_layer \<Rightarrow> bool" where
  "bare_in_cache e m v l \<longleftrightarrow> (\<exists>d x. gm_get (cl_redis l) (redis_version_key m v) = Some d \<and>
     jc_get_version (pe_codec (le_pg e)) d = Some x \<and> av_files x = [])"

lemma other_keys: "redis_version_key m v \<noteq> versions_key n" "redis_version_key m v \<noteq> list_key"
  by (simp_all add: redis_version_key_def versions_key_def list_key_def)

lemma bare_other_key: "k \<noteq> redis_version_key m v \<Longrightarrow> bare_in_cache e m v (layer_set k d l) = bare_in_cache e m v l"
  by (auto simp: bare_in_cache_def layer_set_def gm_get_put)

lemma bare_on_storage: "on_storage f l = (r, l') \<Longrightarrow> cl_redis l' = cl_redis l"
  by (auto simp: on_storage_def split: prod.splits)

lemma bare_warm_version:
  assumes "codec_ok (le_pg e)" "av_files x = []"
  shows "bare_in_cache e m v (warm_version e x l) \<longleftrightarrow>
    redis_version_key m v = redis_version_key (av_module x) (av_version x) \<or> bare_in_cache e m v l"
  using assms by (auto simp: bare_in_cache_def warm_version_def layer_set_def gm_get_put codec_ok_def)

lemma bare_warm_versions:
  assumes "codec_ok (le_pg e)" "\<And>x. x \<in> set xs \<Longrightarrow> av_files x = []"
  shows "bare_in_cache e m v (fold (warm_version e) xs l) \<longleftrightarrow>
    (\<exists>x \<in> set xs. redis_version_key m v = redis_version_key (av_module x) (av_version x)) \<or> bare_in_cache e m v l"
  using assms(2) by (induction xs arbitrary: l) (auto simp: bare_warm_version [OF assms(1)])

lemma collect_elems: "collect f xs = Inr ys \<Longrightarrow> y \<in> set ys \<Longrightarrow> \<exists>x \<in> set xs. \<exists>zs. f x = Inr zs \<and> y \<in> set zs"
  by (induction xs arbitrary: ys) (auto simp: rbind_Inr_iff)

lemma listed_bare:
  assumes "pg_list_versions e n st = (Inr vs, st')" "x \<in> set vs"
  shows "av_files x = []" "av_module x = n"
proof -
  obtain db st1 where r: "next_replica st = (db, st1)" by (cases "next_replica st")
  have "collect (listed_version e n) (sort_key (\<lambda>r. - ve_created r) (module_versions db n)) = Inr vs"
    using assms(1) by (auto simp: pg_list_versions_def r split: if_splits)
  from collect_elems [OF this assms(2)] obtain r zs where "listed_version e n r = Inr zs" "x \<in> set zs" by blast
  then show "av_files x = []" "av_module x = n" by (auto simp: listed_version_def split: sum.splits)
qed

lemma warm_module_bare:
  assumes "codec_ok (le_pg e)"
  shows "bare_in_cache e m v l \<Longrightarrow> bare_in_cache e m v (warm_module e x l)"
    and "pg_list_versions (le_pg e) (am_name x) (cl_storage l) = (Inr vs, st) \<Longrightarrow> y \<in> set (take 5 vs) \<Longrightarrow>
      bare_in_cache e (am_name x) (av_version y) (warm_module e x l)"
proof -
  let ?l = "layer_set (redis_module_key (am_name x)) (jc_put_module (pe_codec (le_pg e)) x) l"
  obtain r l1 where c: "on_storage (pg_list_versions (le_pg e) (am_name x)) ?l = (r, l1)" by (cases "on_storage (pg_list_versions (le_pg e) (am_name x)) ?l")
  have l1: "cl_redis l1 = cl_redis ?l" using bare_on_storage [OF c] .
  have here: "bare_in_cache e m v l1 = bare_in_cache e m v l" for m v
    using bare_other_key [of "redis_module_key (am_name x)" m v e] l1 by (simp add: bare_in_cache_def)
  have bare: "z \<in> set (take 5 ws) \<Longrightarrow> av_files z = [] \<and> av_module z = am_name x" if "r = Inr ws" for z ws
    using that c listed_bare [of "le_pg e" "am_name x" "cl_storage ?l" ws _ z] in_set_takeD [of z 5 ws]
    by (auto simp: on_storage_def split: prod.splits)
  have warm: "bare_in_cache e m v (warm_module e x l) \<longleftrightarrow>
      (\<exists>z \<in> set (take 5 ws). redis_version_key m v = redis_version_key (av_module z) (av_version z)) \<or> bare_in_cache e m v l" if "r = Inr ws" for m v ws
    using bare_warm_versions [OF assms, of "take 5 ws" m v] bare [OF that] bare_other_key [of "versions_key (am_name x)" m v e, OF other_keys(1) [symmetric]]
    by (simp add: warm_module_def c that here)
  show "bare_in_cache e m v (warm_module e x l)" if "bare_in_cache e m v l"
  proof (cases r)
    case (Inl err)
    then show ?thesis using that here by (simp add: warm_module_def c)
  qed (use warm that in simp)
  show "bare_in_cache e (am_name x) (av_version y) (warm_module e x l)"
    if vs: "pg_list_versions (le_pg e) (am_name x) (cl_storage l) = (Inr vs, st)" and y: "y \<in> set (take 5 vs)"
  proof -
    have "r = Inr vs" using c vs by (simp add: on_storage_def layer_set_def)
    then show ?thesis using warm [of vs] bare [of vs y] y by force
  qed
qed

lemma next_replica_alone: "pg_replicas st = [] \<Longrightarrow> snd (pg_list_versions e n st) = st"
  by (simp add: pg_list_versions_def next_replica_def)

lemma warm_module_storage:
  assumes "pg_replicas (cl_storage l) = []"
  shows "cl_storage (warm_module e x l) = cl_storage l"
proof -
  have fold: "cl_storage (fold (warm_version e) xs l) = cl_storage l" for xs l
    by (induction xs arbitrary: l) (simp_all add: warm_version_def layer_set_def)
  show ?thesis using next_replica_alone [OF assms, of "le_pg e" "am_name x"]
    by (auto simp: warm_module_def on_storage_def fold layer_set_def split: prod.splits sum.splits)
qed

lemma warm_modules_bare:
  assumes "codec_ok (le_pg e)"
  shows "bare_in_cache e m v l \<Longrightarrow> bare_in_cache e m v (fold (warm_module e) xs l)"
  by (induction xs arbitrary: l) (simp_all add: warm_module_bare(1) [OF assms])

text \<open>
  C37. Warming up the cache hides the files of versions: after \<open>WarmupCache\<close>, reading any of the five latest versions of a
  listed module through the cache succeeds with a version that has no files, whatever files it was created with, because the
  versions that are put into the cache are those of a listing, which reads no files.
\<close>

theorem warm_cache_hides_files:
  assumes "codec_ok (le_pg e)" "pg_replicas (cl_storage l) = []"
    and "warmup_cache e l = (Inr (), l')"
    and "pg_list_modules (le_pg e) (cl_storage l) = Inr ms" "x \<in> set ms"
    and "pg_list_versions (le_pg e) (am_name x) (cl_storage l) = (Inr vs, st)" "y \<in> set (take 5 vs)"
  shows "\<exists>z. layer_get_version e (am_name x) (av_version y) l' = (Inr z, l') \<and> av_files z = []"
proof -
  have l': "l' = layer_set list_key (lc_put_modules (le_codec e) ms) (fold (warm_module e) ms l)"
    using assms(3,4) by (simp add: warmup_cache_def)
  have storage: "cl_storage (fold (warm_module e) xs l) = cl_storage l" for xs
    using assms(2) by (induction xs rule: rev_induct) (simp_all add: warm_module_storage)
  obtain as bs where ms: "ms = as @ x # bs" using assms(5) by (meson split_list)
  have "bare_in_cache e (am_name x) (av_version y) (warm_module e x (fold (warm_module e) as l))"
    using warm_module_bare(2) [OF assms(1)] assms(6,7) storage by simp
  then have "bare_in_cache e (am_name x) (av_version y) l'"
    using warm_modules_bare [OF assms(1)] bare_other_key [OF other_keys(2) [symmetric]] by (simp add: l' ms)
  then show ?thesis by (auto simp: bare_in_cache_def layer_get_version_def through_cache_def)
qed

definition geo_layer :: cache_layer where
  "geo_layer = new_redis_cache (fresh_pg\<lparr>pg_primary :=
     \<lparr>pd_modules = [\<lparr>mo_id = 1, mo_name = ''geo'', mo_description = [], mo_created = 1, mo_updated = 1\<rparr>],
      pd_versions = [\<lparr>ve_id = 1, ve_module = 1, ve_version = ''1.0.0'', ve_dependencies = ''[]'', ve_created = 2\<rparr>],
      pd_files = [\<lparr>fl_version = 1, fl_path = ''a.proto'', fl_hash = ''78'', fl_key = content_key ''78'', fl_size = 1\<rparr>]\<rparr>\<rparr>) []"

definition geo_layer_env :: layer_env where
  "geo_layer_env = \<lparr>le_pg = expected_env, le_codec = \<lparr>lc_put_modules = (\<lambda>_. []), lc_get_modules = (\<lambda>_. None),
     lc_put_versions = (\<lambda>_. []), lc_get_versions = (\<lambda>_. None), lc_put_file = (\<lambda>_. []), lc_get_file = (\<lambda>_. None)\<rparr>\<rparr>"

theorem warm_cache_hides_files_witness:
  "\<exists>l'. warmup_cache geo_layer_env geo_layer = (Inr (), l') \<and>
    (\<exists>z. layer_get_version geo_layer_env ''geo'' ''1.0.0'' l' = (Inr z, l') \<and> av_files z = [])"
proof -
  let ?m = "\<lparr>am_name = ''geo'', am_description = [], am_created = 1, am_updated = 1\<rparr>"
  let ?v = "\<lparr>av_module = ''geo'', av_version = ''1.0.0'', av_files = [], av_created = 2, av_dependencies = [],
    av_source = no_source, av_compilation = []\<rparr>"
  have env: "le_pg geo_layer_env = expected_env" by (simp add: geo_layer_env_def)
  have select: "can_select (sc_modules (pe_schema expected_env)) [''name'', ''description'', ''created_at'', ''updated_at'']"
    "can_select (sc_versions (pe_schema expected_env)) [''version'', ''dependencies'', ''created_at'', ''module_id'']"
    "can_select (sc_modules (pe_schema expected_env)) [''id'', ''name'']"
    by (simp_all add: expected_env_def can_select_def migrated_schema_def)
  have modules: "pg_list_modules (le_pg geo_layer_env) (cl_storage geo_layer) = Inr [?m]"
    using select by (simp add: env pg_list_modules_def pg_list_modules_paginated_def geo_layer_def new_redis_cache_def module_of_row_def)
  have versions: "pg_list_versions (le_pg geo_layer_env) (am_name ?m) (cl_storage geo_layer) = (Inr [?v], cl_storage geo_layer)"
    using select by (simp add: env pg_list_versions_def next_replica_def geo_layer_def new_redis_cache_def fresh_pg_def module_versions_def
      listed_version_def parse_dependencies_def)
  obtain l' where l': "warmup_cache geo_layer_env geo_layer = (Inr (), l')" using modules by (simp add: warmup_cache_def)
  have "pg_replicas (cl_storage geo_layer) = []" by (simp add: geo_layer_def new_redis_cache_def fresh_pg_def)
  from warm_cache_hides_files [OF _ this l' modules _ versions, of ?v] expected_codec
  have "\<exists>z. layer_get_version geo_layer_env (am_name ?m) (av_version ?v) l' = (Inr z, l') \<and> av_files z = []" by (simp add: env)
  then show ?thesis using l' by simp
qed

end
