(* ===== verification/Codegen_Languages.thy ===== *)
theory Codegen_Languages
  imports Codegen_Generator
begin

text \<open>
  The languages that the orchestrator compiles to (\<open>pkg/codegen/languages\<close>): their registry and the ones it starts with.
  A registry keeps the specification it is given, not a copy; here it has the value, so a caller that goes on changing
  a specification after registering it is left out.
\<close>

section \<open>Specifications\<close>

record lang_packages =
  lp_name :: string
  lp_files :: "string list"
  lp_templates :: string
  lp_dependencies :: "(string, string) gomap"
  lp_versions :: "(string, string) gomap"

record lang_spec =
  lg_id :: string
  lg_name :: string
  lg_display :: string
  lg_plugin :: string
  lg_plugin_version :: string
  lg_protoc_flags :: "string list"
  lg_image :: string
  lg_tag :: string
  lg_grpc :: bool
  lg_grpc_plugin :: string
  lg_grpc_plugin_version :: string
  lg_grpc_flags :: "string list"
  lg_packages :: "lang_packages option"
  lg_extensions :: "string list"
  lg_enabled :: bool
  lg_stable :: bool
  lg_experimental :: bool
  lg_description :: string
  lg_url :: string

datatype lang_error =
    Lang_Not_Found
  | Lang_Already_Exists
  | Invalid_Lang_Id
  | Invalid_Lang_Name
  | Invalid_Docker_Image
  | Invalid_Protoc_Plugin

definition validate_lang :: "lang_spec \<Rightarrow> lang_error option" where
  "validate_lang s =
     (if lg_id s = [] then Some Invalid_Lang_Id
      else if lg_name s = [] then Some Invalid_Lang_Name
      else if lg_image s = [] then Some Invalid_Docker_Image
      else if lg_plugin s = [] then Some Invalid_Protoc_Plugin
      else None)"

definition full_docker_image :: "lang_spec \<Rightarrow> string" where
  "full_docker_image s = (if lg_tag s \<noteq> [] then lg_image s @ '':'' @ lg_tag s else lg_image s)"

section \<open>The registry\<close>

type_synonym lang_registry = "(string, lang_spec) gomap"

definition register_lang :: "lang_spec \<Rightarrow> lang_registry \<Rightarrow> lang_error + lang_registry" where
  "register_lang s r = (case validate_lang s of
     Some e \<Rightarrow> Inl e
   | None \<Rightarrow> if gm_get r (lg_id s) \<noteq> None then Inl Lang_Already_Exists else Inr (gm_put (lg_id s) s r))"

definition get_lang :: "lang_registry \<Rightarrow> string \<Rightarrow> lang_error + lang_spec" where
  "get_lang r i = (case gm_get r i of None \<Rightarrow> Inl Lang_Not_Found | Some s \<Rightarrow> Inr s)"

definition list_langs :: "lang_registry \<Rightarrow> lang_spec list" where
  "list_langs r = map snd r"

definition list_enabled_langs :: "lang_registry \<Rightarrow> lang_spec list" where
  "list_enabled_langs r = filter lg_enabled (map snd r)"

definition update_lang :: "lang_spec \<Rightarrow> lang_registry \<Rightarrow> lang_error + lang_registry" where
  "update_lang s r = (case validate_lang s of
     Some e \<Rightarrow> Inl e
   | None \<Rightarrow> if gm_get r (lg_id s) = None then Inl Lang_Not_Found else Inr (gm_put (lg_id s) s r))"

definition delete_lang :: "string \<Rightarrow> lang_registry \<Rightarrow> lang_error + lang_registry" where
  "delete_lang i r = (if gm_get r i = None then Inl Lang_Not_Found else Inr (gm_del i r))"

definition lang_is_enabled :: "lang_registry \<Rightarrow> string \<Rightarrow> bool" where
  "lang_is_enabled r i = (case gm_get r i of None \<Rightarrow> False | Some s \<Rightarrow> lg_enabled s)"

definition count_langs :: "lang_registry \<Rightarrow> int" where
  "count_langs r = int (length r)"

definition set_lang_enabled :: "bool \<Rightarrow> string \<Rightarrow> lang_registry \<Rightarrow> lang_error + lang_registry" where
  "set_lang_enabled b i r = (case gm_get r i of
     None \<Rightarrow> Inl Lang_Not_Found | Some s \<Rightarrow> Inr (gm_put i (s\<lparr>lg_enabled := b\<rparr>) r))"

definition enable_lang :: "string \<Rightarrow> lang_registry \<Rightarrow> lang_error + lang_registry" where
  "enable_lang = set_lang_enabled True"

definition disable_lang :: "string \<Rightarrow> lang_registry \<Rightarrow> lang_error + lang_registry" where
  "disable_lang = set_lang_enabled False"

section \<open>The default languages\<close>

definition lang_go :: lang_spec where
  "lang_go =
     \<lparr>lg_id = ''go'', lg_name = ''Go'', lg_display = ''Go (Protocol Buffers)'', lg_plugin = ''protoc-gen-go'',
      lg_plugin_version = ''v1.31.0'', lg_protoc_flags = [''--go_opt=paths=source_relative''],
      lg_image = ''spoke/compiler-go'', lg_tag = ''1.31.0'', lg_grpc = True,
      lg_grpc_plugin = ''protoc-gen-go-grpc'', lg_grpc_plugin_version = ''v1.3.0'',
      lg_grpc_flags = [''--go-grpc_opt=paths=source_relative''],
      lg_packages = Some \<lparr>lp_name = ''go-modules'', lp_files = [''go.mod'', ''README.md''], lp_templates = [], lp_dependencies = [],
        lp_versions = [(''google.golang.org/protobuf'', ''v1.31.0''), (''google.golang.org/grpc'', ''v1.60.0'')]\<rparr>,
      lg_extensions = [''.pb.go''], lg_enabled = True, lg_stable = True, lg_experimental = False,
      lg_description = ''Go language support with protoc-gen-go'',
      lg_url = ''https://protobuf.dev/reference/go/go-generated/''\<rparr>"

definition lang_python :: lang_spec where
  "lang_python =
     \<lparr>lg_id = ''python'', lg_name = ''Python'', lg_display = ''Python (Protocol Buffers)'',
      lg_plugin = ''protoc-gen-python'', lg_plugin_version = ''4.24.0'', lg_protoc_flags = [],
      lg_image = ''spoke/compiler-python'', lg_tag = ''4.24.0'', lg_grpc = True,
      lg_grpc_plugin = ''grpc_python_plugin'', lg_grpc_plugin_version = ''1.59.0'', lg_grpc_flags = [],
      lg_packages = Some \<lparr>lp_name = ''pip'', lp_files = [''setup.py'', ''pyproject.toml'', ''README.md''], lp_templates = [], lp_dependencies = [],
        lp_versions = [(''protobuf'', ''4.24.0''), (''grpcio'', ''1.59.0''), (''grpcio-tools'', ''1.59.0'')]\<rparr>,
      lg_extensions = [''_pb2.py'', ''_pb2_grpc.py''], lg_enabled = True, lg_stable = True,
      lg_experimental = False, lg_description = ''Python language support with protobuf and grpcio'',
      lg_url = ''https://protobuf.dev/reference/python/python-generated/''\<rparr>"

definition lang_java :: lang_spec where
  "lang_java =
     \<lparr>lg_id = ''java'', lg_name = ''Java'', lg_display = ''Java (Protocol Buffers)'',
      lg_plugin = ''protoc-gen-java'', lg_plugin_version = ''3.21.0'', lg_protoc_flags = [],
      lg_image = ''spoke/compiler-java'', lg_tag = ''3.21.0'', lg_grpc = True,
      lg_grpc_plugin = ''protoc-gen-grpc-java'', lg_grpc_plugin_version = ''1.59.0'', lg_grpc_flags = [],
      lg_packages = Some \<lparr>lp_name = ''maven'', lp_files = [''pom.xml'', ''README.md''], lp_templates = [], lp_dependencies = [],
        lp_versions = [(''com.google.protobuf:protobuf-java'', ''3.21.0''), (''io.grpc:grpc-protobuf'', ''1.59.0''), (''io.grpc:grpc-stub'', ''1.59.0'')]\<rparr>,
      lg_extensions = [''.java''], lg_enabled = True, lg_stable = True, lg_experimental = False,
      lg_description = ''Java language support with protobuf and gRPC'',
      lg_url = ''https://protobuf.dev/reference/java/java-generated/''\<rparr>"

definition lang_cpp :: lang_spec where
  "lang_cpp =
     \<lparr>lg_id = ''cpp'', lg_name = ''C++'', lg_display = ''C++ (Protocol Buffers)'',
      lg_plugin = ''protoc-gen-cpp'', lg_plugin_version = ''3.21.0'', lg_protoc_flags = [],
      lg_image = ''spoke/compiler-cpp'', lg_tag = ''3.21.0'', lg_grpc = True,
      lg_grpc_plugin = ''grpc_cpp_plugin'', lg_grpc_plugin_version = ''1.59.0'', lg_grpc_flags = [],
      lg_packages = None, lg_extensions = [''.pb.h'', ''.pb.cc''], lg_enabled = True, lg_stable = True,
      lg_experimental = False, lg_description = ''C++ language support with protobuf and gRPC'',
      lg_url = ''https://protobuf.dev/reference/cpp/cpp-generated/''\<rparr>"

definition lang_csharp :: lang_spec where
  "lang_csharp =
     \<lparr>lg_id = ''csharp'', lg_name = ''C#'', lg_display = ''C# (Protocol Buffers)'',
      lg_plugin = ''protoc-gen-csharp'', lg_plugin_version = ''3.21.0'', lg_protoc_flags = [],
      lg_image = ''spoke/compiler-csharp'', lg_tag = ''3.21.0'', lg_grpc = True,
      lg_grpc_plugin = ''grpc_csharp_plugin'', lg_grpc_plugin_version = ''2.59.0'', lg_grpc_flags = [],
      lg_packages = Some \<lparr>lp_name = ''nuget'', lp_files = [''Package.csproj'', ''README.md''], lp_templates = [], lp_dependencies = [],
        lp_versions = [(''Google.Protobuf'', ''3.21.0''), (''Grpc.Core'', ''2.59.0''), (''Grpc.Tools'', ''2.59.0'')]\<rparr>,
      lg_extensions = [''.cs''], lg_enabled = True, lg_stable = True, lg_experimental = False,
      lg_description = ''C# language support with protobuf and gRPC'',
      lg_url = ''https://protobuf.dev/reference/csharp/csharp-generated/''\<rparr>"

definition lang_rust :: lang_spec where
  "lang_rust =
     \<lparr>lg_id = ''rust'', lg_name = ''Rust'', lg_display = ''Rust (Protocol Buffers)'',
      lg_plugin = ''protoc-gen-rust'', lg_plugin_version = ''3.2.0'', lg_protoc_flags = [],
      lg_image = ''spoke/compiler-rust'', lg_tag = ''3.2.0'', lg_grpc = True,
      lg_grpc_plugin = ''protoc-gen-tonic'', lg_grpc_plugin_version = ''0.10.0'', lg_grpc_flags = [],
      lg_packages = Some \<lparr>lp_name = ''cargo'', lp_files = [''Cargo.toml'', ''README.md''], lp_templates = [], lp_dependencies = [],
        lp_versions = [(''prost'', ''0.12.0''), (''prost-types'', ''0.12.0''), (''tonic'', ''0.10.0'')]\<rparr>,
      lg_extensions = [''.rs''], lg_enabled = True, lg_stable = True, lg_experimental = False,
      lg_description = ''Rust language support with prost and tonic'',
      lg_url = ''https://github.com/tokio-rs/prost''\<rparr>"

definition lang_typescript :: lang_spec where
  "lang_typescript =
     \<lparr>lg_id = ''typescript'', lg_name = ''TypeScript'', lg_display = ''TypeScript (Protocol Buffers)'',
      lg_plugin = ''protoc-gen-ts'', lg_plugin_version = ''5.0.1'', lg_protoc_flags = [],
      lg_image = ''spoke/compiler-typescript'', lg_tag = ''5.0.1'', lg_grpc = True,
      lg_grpc_plugin = ''protoc-gen-grpc-web'', lg_grpc_plugin_version = ''1.4.2'', lg_grpc_flags = [],
      lg_packages = Some \<lparr>lp_name = ''npm'', lp_files = [''package.json'', ''tsconfig.json'', ''README.md''], lp_templates = [], lp_dependencies = [],
        lp_versions = [(''google-protobuf'', ''^3.21.0''), (''@grpc/grpc-js'', ''^1.9.0''), (''@types/google-protobuf'', ''^3.15.0'')]\<rparr>,
      lg_extensions = [''.ts'', ''_pb.ts''], lg_enabled = True, lg_stable = True, lg_experimental = False,
      lg_description = ''TypeScript language support with ts-proto'',
      lg_url = ''https://github.com/stephenh/ts-proto''\<rparr>"

definition lang_javascript :: lang_spec where
  "lang_javascript =
     \<lparr>lg_id = ''javascript'', lg_name = ''JavaScript'', lg_display = ''JavaScript (Protocol Buffers)'',
      lg_plugin = ''protoc-gen-js'', lg_plugin_version = ''3.21.0'',
      lg_protoc_flags = [''--js_opt=import_style=commonjs''], lg_image = ''spoke/compiler-javascript'',
      lg_tag = ''3.21.0'', lg_grpc = True, lg_grpc_plugin = ''protoc-gen-grpc-web'',
      lg_grpc_plugin_version = ''1.4.2'', lg_grpc_flags = [],
      lg_packages = Some \<lparr>lp_name = ''npm'', lp_files = [''package.json'', ''README.md''], lp_templates = [], lp_dependencies = [],
        lp_versions = [(''google-protobuf'', ''^3.21.0''), (''@grpc/grpc-js'', ''^1.9.0'')]\<rparr>,
      lg_extensions = [''_pb.js''], lg_enabled = True, lg_stable = True, lg_experimental = False,
      lg_description = ''JavaScript language support with protobufjs'',
      lg_url = ''https://protobuf.dev/reference/javascript/javascript-generated/''\<rparr>"

definition lang_dart :: lang_spec where
  "lang_dart =
     \<lparr>lg_id = ''dart'', lg_name = ''Dart'', lg_display = ''Dart (Protocol Buffers)'',
      lg_plugin = ''protoc-gen-dart'', lg_plugin_version = ''3.1.0'', lg_protoc_flags = [],
      lg_image = ''spoke/compiler-dart'', lg_tag = ''3.1.0'', lg_grpc = True,
      lg_grpc_plugin = ''protoc-gen-dart'', lg_grpc_plugin_version = ''3.1.0'',
      lg_grpc_flags = [''--dart_opt=grpc''],
      lg_packages = Some \<lparr>lp_name = ''pub'', lp_files = [''pubspec.yaml'', ''README.md''], lp_templates = [], lp_dependencies = [],
        lp_versions = [(''protobuf'', ''^3.1.0''), (''grpc'', ''^3.2.0'')]\<rparr>,
      lg_extensions = [''.pb.dart'', ''.pbgrpc.dart''], lg_enabled = True, lg_stable = True,
      lg_experimental = False, lg_description = ''Dart language support with protobuf and gRPC'',
      lg_url = ''https://pub.dev/packages/protobuf''\<rparr>"

definition lang_swift :: lang_spec where
  "lang_swift =
     \<lparr>lg_id = ''swift'', lg_name = ''Swift'', lg_display = ''Swift (Protocol Buffers)'',
      lg_plugin = ''protoc-gen-swift'', lg_plugin_version = ''1.25.0'', lg_protoc_flags = [],
      lg_image = ''spoke/compiler-swift'', lg_tag = ''1.25.0'', lg_grpc = True,
      lg_grpc_plugin = ''protoc-gen-grpc-swift'', lg_grpc_plugin_version = ''1.21.0'', lg_grpc_flags = [],
      lg_packages = Some \<lparr>lp_name = ''swift-package'', lp_files = [''Package.swift'', ''README.md''], lp_templates = [], lp_dependencies = [],
        lp_versions = [(''swift-protobuf'', ''1.25.0''), (''grpc-swift'', ''1.21.0'')]\<rparr>,
      lg_extensions = [''.pb.swift'', ''.grpc.swift''], lg_enabled = True, lg_stable = True,
      lg_experimental = False, lg_description = ''Swift language support with SwiftProtobuf and gRPC-Swift'',
      lg_url = ''https://github.com/apple/swift-protobuf''\<rparr>"

definition lang_kotlin :: lang_spec where
  "lang_kotlin =
     \<lparr>lg_id = ''kotlin'', lg_name = ''Kotlin'', lg_display = ''Kotlin (Protocol Buffers)'',
      lg_plugin = ''protoc-gen-kotlin'', lg_plugin_version = ''3.21.0'', lg_protoc_flags = [],
      lg_image = ''spoke/compiler-kotlin'', lg_tag = ''3.21.0'', lg_grpc = True,
      lg_grpc_plugin = ''protoc-gen-grpc-kotlin'', lg_grpc_plugin_version = ''1.4.0'', lg_grpc_flags = [],
      lg_packages = Some \<lparr>lp_name = ''gradle'', lp_files = [''build.gradle.kts'', ''README.md''], lp_templates = [], lp_dependencies = [],
        lp_versions = [(''com.google.protobuf:protobuf-kotlin'', ''3.21.0''), (''io.grpc:grpc-kotlin-stub'', ''1.4.0''), (''io.grpc:grpc-protobuf'', ''1.59.0'')]\<rparr>,
      lg_extensions = [''.kt''], lg_enabled = True, lg_stable = True, lg_experimental = False,
      lg_description = ''Kotlin language support with protobuf-kotlin and gRPC-Kotlin'',
      lg_url = ''https://github.com/grpc/grpc-kotlin''\<rparr>"

definition lang_objc :: lang_spec where
  "lang_objc =
     \<lparr>lg_id = ''objc'', lg_name = ''Objective-C'', lg_display = ''Objective-C (Protocol Buffers)'',
      lg_plugin = ''protoc-gen-objc'', lg_plugin_version = ''3.21.0'', lg_protoc_flags = [],
      lg_image = ''spoke/compiler-objc'', lg_tag = ''3.21.0'', lg_grpc = True,
      lg_grpc_plugin = ''grpc_objective_c_plugin'', lg_grpc_plugin_version = ''1.59.0'', lg_grpc_flags = [],
      lg_packages = Some \<lparr>lp_name = ''cocoapods'', lp_files = [''Podspec'', ''README.md''], lp_templates = [], lp_dependencies = [],
        lp_versions = [(''Protobuf'', ''3.21.0''), (''gRPC-ProtoRPC'', ''1.59.0'')]\<rparr>,
      lg_extensions = [''.pbobjc.h'', ''.pbobjc.m''], lg_enabled = True, lg_stable = True,
      lg_experimental = False, lg_description = ''Objective-C language support with protobuf and gRPC'',
      lg_url = ''https://protobuf.dev/reference/objective-c/objective-c-generated/''\<rparr>"

definition lang_ruby :: lang_spec where
  "lang_ruby =
     \<lparr>lg_id = ''ruby'', lg_name = ''Ruby'', lg_display = ''Ruby (Protocol Buffers)'',
      lg_plugin = ''protoc-gen-ruby'', lg_plugin_version = ''3.21.0'', lg_protoc_flags = [],
      lg_image = ''spoke/compiler-ruby'', lg_tag = ''3.21.0'', lg_grpc = True,
      lg_grpc_plugin = ''grpc_ruby_plugin'', lg_grpc_plugin_version = ''1.59.0'', lg_grpc_flags = [],
      lg_packages = Some \<lparr>lp_name = ''gem'', lp_files = [''gemspec'', ''README.md''], lp_templates = [], lp_dependencies = [],
        lp_versions = [(''google-protobuf'', ''3.21.0''), (''grpc'', ''1.59.0'')]\<rparr>,
      lg_extensions = [''_pb.rb''], lg_enabled = True, lg_stable = True, lg_experimental = False,
      lg_description = ''Ruby language support with protobuf and gRPC'',
      lg_url = ''https://protobuf.dev/reference/ruby/ruby-generated/''\<rparr>"

definition lang_php :: lang_spec where
  "lang_php =
     \<lparr>lg_id = ''php'', lg_name = ''PHP'', lg_display = ''PHP (Protocol Buffers)'',
      lg_plugin = ''protoc-gen-php'', lg_plugin_version = ''3.21.0'', lg_protoc_flags = [],
      lg_image = ''spoke/compiler-php'', lg_tag = ''3.21.0'', lg_grpc = True,
      lg_grpc_plugin = ''grpc_php_plugin'', lg_grpc_plugin_version = ''1.59.0'', lg_grpc_flags = [],
      lg_packages = Some \<lparr>lp_name = ''composer'', lp_files = [''composer.json'', ''README.md''], lp_templates = [], lp_dependencies = [],
        lp_versions = [(''google/protobuf'', ''^3.21''), (''grpc/grpc'', ''^1.59'')]\<rparr>,
      lg_extensions = [''.php''], lg_enabled = True, lg_stable = True, lg_experimental = False,
      lg_description = ''PHP language support with protobuf and gRPC'',
      lg_url = ''https://protobuf.dev/reference/php/php-generated/''\<rparr>"

definition lang_scala :: lang_spec where
  "lang_scala =
     \<lparr>lg_id = ''scala'', lg_name = ''Scala'', lg_display = ''Scala (Protocol Buffers)'',
      lg_plugin = ''protoc-gen-scala'', lg_plugin_version = ''0.11.13'', lg_protoc_flags = [],
      lg_image = ''spoke/compiler-scala'', lg_tag = ''0.11.13'', lg_grpc = True,
      lg_grpc_plugin = ''protoc-gen-scala'', lg_grpc_plugin_version = ''0.11.13'',
      lg_grpc_flags = [''--scala_opt=grpc''],
      lg_packages = Some \<lparr>lp_name = ''sbt'', lp_files = [''build.sbt'', ''README.md''], lp_templates = [], lp_dependencies = [],
        lp_versions = [(''com.thesamet.scalapb::scalapb-runtime'', ''0.11.13''), (''io.grpc:grpc-netty'', ''1.59.0'')]\<rparr>,
      lg_extensions = [''.scala''], lg_enabled = True, lg_stable = True, lg_experimental = False,
      lg_description = ''Scala language support with ScalaPB'', lg_url = ''https://scalapb.github.io/''\<rparr>"

definition get_default_languages :: "lang_spec list" where
  "get_default_languages =
     [lang_go, lang_python, lang_java, lang_cpp, lang_csharp,
      lang_rust, lang_typescript, lang_javascript, lang_dart, lang_swift,
      lang_kotlin, lang_objc, lang_ruby, lang_php, lang_scala]"

definition initialize_default_registry :: "lang_error + lang_registry" where
  "initialize_default_registry = fold (\<lambda>s r. rbind r (register_lang s)) get_default_languages (Inr [])"

end
