(* ===== verification/Codegen_Orchestrator.thy ===== *)
theory Codegen_Orchestrator
  imports Codegen_Languages "HOL-Library.Word"
begin

text \<open>
  The orchestrator of compilations (\<open>pkg/codegen/orchestrator\<close>). As in the generator, results live in a list indexed
  by address, because the cache keeps the pointer that callers get. Docker, the artifact store and the LRU behind the
  cache are parameters; an interface that holds a nil pointer is not a nil interface. Log lines and the clock
  are left out, and a range over the options of a request takes the order of the list that stands for them.
\<close>

section \<open>Requests and configuration\<close>

record orch_request =
  cq_module :: string
  cq_version :: string
  cq_version_id :: int
  cq_proto_files :: "proto_file list"
  cq_dependencies :: "cg_dependency list"
  cq_language :: string
  cq_grpc :: bool
  cq_options :: "(string, string) gomap"
  cq_storage_dir :: string
  cq_bucket :: string

text \<open>The timeout is a \<open>time.Duration\<close>, a 64-bit number of nanoseconds.\<close>

record orch_config =
  oc_workers :: int
  oc_cache :: bool
  oc_timeout :: "64 word"
  oc_bucket :: string
  oc_prefix :: string
  oc_region :: string

definition default_orch_config :: orch_config where
  "default_orch_config = \<lparr>oc_workers = 5, oc_cache = True, oc_timeout = 300 * 10 ^ 9, oc_bucket = [], oc_prefix = [], oc_region = []\<rparr>"

record store_request =
  ak_module :: string
  ak_version :: string
  ak_language :: string
  ak_files :: "generated_file list"
  ak_metadata :: "(string, string) gomap"
  ak_format :: string

record store_result =
  ao_key :: string
  ao_bucket :: string
  ao_hash :: string

datatype job_status = Job_Pending | Job_Running | Job_Completed | Job_Failed

record compilation_job =
  jb_id :: string
  jb_version_id :: int
  jb_language :: string
  jb_status :: job_status
  jb_started :: "int option"
  jb_completed :: "int option"
  jb_error :: string
  jb_result :: "nat option"

datatype orch_error =
    Orch_Problem string
  | Orch_No_Proto_Files
  | Orch_Not_Supported string
  | Orch_Job_Not_Found
  | Orch_Docker string
  | Orch_Lang lang_error
  | Orch_Several nat orch_error
  | Orch_Close "string list"

section \<open>State\<close>

record 'l addr_lru =
  al_new :: 'l
  al_get :: "'l \<Rightarrow> string \<Rightarrow> nat option \<times> 'l"
  al_add :: "'l \<Rightarrow> string \<Rightarrow> nat \<Rightarrow> 'l"
  al_purge :: "'l \<Rightarrow> 'l"

text \<open>The field \<open>cache\<close>, of an interface type: with no value, with a nil \<open>*MemoryCache\<close>, or with a cache.\<close>

datatype 'l cache_slot = No_Cache | Nil_Cache | Live_Cache 'l

record 'l orchestrator =
  or_heap :: "compilation_result list"
  or_cache :: "'l cache_slot"
  or_jobs :: "(string, compilation_job) gomap"

record 'l orch_env =
  oe_config :: orch_config
  oe_langs :: lang_registry
  oe_packages :: "(string, package_request \<Rightarrow> string + generated_file list) gomap"
  oe_docker :: "docker_request \<Rightarrow> string + generated_file list \<times> int"
  oe_artifacts :: "(store_request \<Rightarrow> string + store_result) option"
  oe_lru :: "'l addr_lru"
  oe_sha :: sha_fun
  oe_since :: int

text \<open>\<open>NewOrchestrator\<close>: the Docker runner or its error, and the artifact store if connecting to it succeeds.\<close>

definition new_orchestrator :: "orch_config option \<Rightarrow> (string + (docker_request \<Rightarrow> string + generated_file list \<times> int)) \<Rightarrow>
    (store_request \<Rightarrow> string + store_result) option \<Rightarrow> 'l addr_lru \<Rightarrow> sha_fun \<Rightarrow> int \<Rightarrow> orch_error + 'l orch_env \<times> 'l orchestrator" where
  "new_orchestrator config docker s3 lru sha since =
     (let cfg = (case config of None \<Rightarrow> default_orch_config | Some c \<Rightarrow> c) in
      case initialize_default_registry of
        Inl e \<Rightarrow> Inl (Orch_Lang e)
      | Inr langs \<Rightarrow> (case docker of
          Inl e \<Rightarrow> Inl (Orch_Problem (''failed to initialize Docker runner: '' @ e))
        | Inr run \<Rightarrow> Inr
            (\<lparr>oe_config = cfg, oe_langs = langs, oe_packages = [], oe_docker = run,
              oe_artifacts = (if oc_bucket cfg \<noteq> [] then s3 else None), oe_lru = lru, oe_sha = sha, oe_since = since\<rparr>,
             \<lparr>or_heap = [], or_cache = (if oc_cache cfg then Live_Cache (al_new lru) else Nil_Cache), or_jobs = []\<rparr>)))"

section \<open>One language\<close>

definition validate_orch_request :: "'l orch_env \<Rightarrow> orch_request option \<Rightarrow> orch_error + orch_request" where
  "validate_orch_request e req = (case req of
     None \<Rightarrow> Inl (Orch_Problem ''request cannot be nil'')
   | Some r \<Rightarrow>
       if cq_module r = [] then Inl (Orch_Problem ''module name is required'')
       else if cq_version r = [] then Inl (Orch_Problem ''version is required'')
       else if cq_proto_files r = [] then Inl Orch_No_Proto_Files
       else if cq_language r \<noteq> [] \<and> gm_get (oe_langs e) (cq_language r) = None then Inl (Orch_Not_Supported (cq_language r))
       else Inr r)"

definition orch_protoc_flags :: "lang_spec \<Rightarrow> orch_request \<Rightarrow> string list" where
  "orch_protoc_flags s r =
     (let grpc = cq_grpc r \<and> lg_grpc s in
      if lg_id s = ''go'' then
        ''--go_out=/output'' # lg_protoc_flags s @ (if grpc then ''--go-grpc_out=/output'' # lg_grpc_flags s else [])
      else if lg_id s = ''python'' then
        ''--python_out=/output'' # (if grpc then [''--grpc_python_out=/output''] else [])
      else if lg_id s = ''java'' then
        ''--java_out=/output'' # (if grpc then [''--grpc-java_out=/output''] else [])
      else (''--'' @ lg_id s @ ''_out=/output'') # lg_protoc_flags s)"

definition orch_docker_request :: "'l orch_env \<Rightarrow> lang_spec \<Rightarrow> orch_request \<Rightarrow> docker_request" where
  "orch_docker_request e s r =
     \<lparr>dr_image = lg_image s, dr_tag = lg_tag s, dr_proto_files = cq_proto_files r, dr_flags = orch_protoc_flags s r,
      dr_timeout = sint (oc_timeout (oe_config e) * 10 ^ 9)\<rparr>"

definition orch_package_files :: "'l orch_env \<Rightarrow> lang_spec \<Rightarrow> orch_request \<Rightarrow> string + generated_file list" where
  "orch_package_files e s r = (case lg_packages s of
     None \<Rightarrow> Inr []
   | Some pm \<Rightarrow> (case gm_get (oe_packages e) (lp_name pm) of
       None \<Rightarrow> Inl (''package generator not found: '' @ lp_name pm)
     | Some gen \<Rightarrow> gen \<lparr>pr_module = cq_module r, pr_version = cq_version r, pr_language = lg_id s, pr_include_grpc = cq_grpc r,
         pr_options = cq_options r\<rparr>))"

definition orch_add_packages :: "'l orch_env \<Rightarrow> lang_spec \<Rightarrow> orch_request \<Rightarrow> compilation_result \<Rightarrow> compilation_result" where
  "orch_add_packages e s r res = (case lg_packages s of
     None \<Rightarrow> res
   | Some _ \<Rightarrow> (case orch_package_files e s r of
       Inl err \<Rightarrow> res\<lparr>cr_error := ''package generation warning: '' @ err\<rparr> | Inr fs \<Rightarrow> res\<lparr>cr_packages := fs\<rparr>))"

definition orch_store :: "'l orch_env \<Rightarrow> lang_spec \<Rightarrow> orch_request \<Rightarrow> compilation_result \<Rightarrow> compilation_result" where
  "orch_store e s r res = (case oe_artifacts e of
     None \<Rightarrow> res
   | Some store \<Rightarrow> (case store \<lparr>ak_module = cq_module r, ak_version = cq_version r, ak_language = cq_language r,
         ak_files = cr_generated res, ak_metadata = [(''plugin_version'', lg_plugin_version s),
           (''include_grpc'', if cq_grpc r then ''true'' else ''false'')], ak_format = ''tar.gz''\<rparr> of
       Inl _ \<Rightarrow> res
     | Inr o' \<Rightarrow> res\<lparr>cr_s3_key := ao_key o', cr_s3_bucket := ao_bucket o', cr_artifact_hash := ao_hash o'\<rparr>))"

definition orch_cache_key :: "'l orch_env \<Rightarrow> lang_spec \<Rightarrow> orch_request \<Rightarrow> string" where
  "orch_cache_key e s r = cache_key_string (generate_cache_key (oe_sha e) (cq_module r) (cq_version r) (cq_language r)
     (lg_plugin_version s) (cq_proto_files r) (cq_dependencies r) (cq_options r))"

text \<open>A call ends with a result, an error or both, or panics.\<close>

type_synonym 'l orch_outcome = "'l orchestrator \<times> (go_panic + nat option \<times> orch_error option)"

definition orch_lookup :: "'l orch_env \<Rightarrow> string \<Rightarrow> 'l orchestrator \<Rightarrow> go_panic + nat option \<times> 'l orchestrator" where
  "orch_lookup e key st =
     (if or_cache st \<noteq> No_Cache \<and> oc_cache (oe_config e) then
        (case or_cache st of
           Live_Cache l \<Rightarrow> (let (a, l') = al_get (oe_lru e) l key in Inr (a, st\<lparr>or_cache := Live_Cache l'\<rparr>))
         | _ \<Rightarrow> Inl NilDereference)
      else Inr (None, st))"

definition orch_remember :: "'l orch_env \<Rightarrow> string \<Rightarrow> nat \<Rightarrow> 'l orchestrator \<Rightarrow> go_panic + 'l orchestrator" where
  "orch_remember e key a st =
     (if or_cache st \<noteq> No_Cache \<and> oc_cache (oe_config e) then
        (case or_cache st of
           Live_Cache l \<Rightarrow> Inr (st\<lparr>or_cache := Live_Cache (al_add (oe_lru e) l key a)\<rparr>)
         | _ \<Rightarrow> Inl NilDereference)
      else Inr st)"

definition orch_compile :: "'l orch_env \<Rightarrow> lang_spec \<Rightarrow> orch_request \<Rightarrow> 'l orchestrator \<Rightarrow> 'l orch_outcome" where
  "orch_compile e s r st =
     (let res = empty_result (cq_language r); a = length (or_heap st) in
      case oe_docker e (orch_docker_request e s r) of
        Inl err \<Rightarrow> (st\<lparr>or_heap := or_heap st @ [res\<lparr>cr_error := ''compilation failed: '' @ err, cr_duration := oe_since e\<rparr>]\<rparr>,
          Inr (Some a, Some (Orch_Docker err)))
      | Inr (files, d) \<Rightarrow>
          (let res = orch_store e s r ((orch_add_packages e s r (res\<lparr>cr_generated := files, cr_duration := d\<rparr>))\<lparr>cr_success := True\<rparr>);
               st = st\<lparr>or_heap := or_heap st @ [res]\<rparr>
           in case orch_remember e (orch_cache_key e s r) a st of
                Inl p \<Rightarrow> (st, Inl p) | Inr st \<Rightarrow> (st, Inr (Some a, None))))"

definition orch_hit :: "'l orch_env \<Rightarrow> nat \<Rightarrow> 'l orchestrator \<Rightarrow> 'l orchestrator" where
  "orch_hit e a st = st\<lparr>or_heap := (or_heap st)[a := (or_heap st ! a)\<lparr>cr_cache_hit := True, cr_duration := oe_since e\<rparr>]\<rparr>"

definition compile_single :: "'l orch_env \<Rightarrow> orch_request option \<Rightarrow> 'l orchestrator \<Rightarrow> 'l orch_outcome" where
  "compile_single e req st = (case validate_orch_request e req of
     Inl err \<Rightarrow> (st, Inr (None, Some err))
   | Inr r \<Rightarrow> (case get_lang (oe_langs e) (cq_language r) of
       Inl _ \<Rightarrow> (st, Inr (None, Some (Orch_Not_Supported (cq_language r))))
     | Inr s \<Rightarrow>
         if \<not> lg_enabled s then (st, Inr (None, Some (Orch_Problem (''language '' @ cq_language r @ '' is disabled''))))
         else (case orch_lookup e (orch_cache_key e s r) st of
             Inl p \<Rightarrow> (st, Inl p)
           | Inr (Some a, st) \<Rightarrow> (orch_hit e a st, Inr (Some a, None))
           | Inr (None, st) \<Rightarrow> orch_compile e s r st)))"

section \<open>Several languages\<close>

definition orch_workers :: "orch_config \<Rightarrow> string list \<Rightarrow> nat" where
  "orch_workers cfg languages =
     (let n = (if oc_workers cfg \<le> 0 then 5 else oc_workers cfg) in nat (if n > int (length languages) then int (length languages) else n))"

definition check_languages :: "'l orch_env \<Rightarrow> string list \<Rightarrow> orch_error option" where
  "check_languages e languages =
     map_option (\<lambda>l. case gm_get (oe_langs e) l of None \<Rightarrow> Orch_Not_Supported l | Some s \<Rightarrow> Orch_Problem (''language '' @ l @ '' is disabled''))
       (find (\<lambda>l. case gm_get (oe_langs e) l of None \<Rightarrow> True | Some s \<Rightarrow> \<not> lg_enabled s) languages)"

text \<open>
  The workers still running, the results in the order of the languages, and the errors in the order of their
  arrival. A worker that panics recovers and stops, with nothing sent; when none is left the rest is not compiled.
\<close>

type_synonym 'l orch_progress = "'l orchestrator \<times> nat \<times> nat option list \<times> orch_error list"

definition compile_item :: "'l orch_env \<Rightarrow> orch_request \<Rightarrow> string list \<Rightarrow> nat \<Rightarrow> 'l orch_progress \<Rightarrow> 'l orch_progress" where
  "compile_item e req languages i = (\<lambda>(st, workers, results, errs).
     if workers = 0 then (st, workers, results, errs)
     else (case compile_single e (Some (req\<lparr>cq_language := languages ! i\<rparr>)) st of
         (st, Inl p) \<Rightarrow> (st, workers - 1, results, errs)
       | (st, Inr (a, err)) \<Rightarrow> (st, workers, results[i := a], errs @ (case err of None \<Rightarrow> [] | Some x \<Rightarrow> [x]))))"

text \<open>The calls take effect one after the other, in an order of their positions that is an argument.\<close>

definition compile_all :: "'l orch_env \<Rightarrow> orch_request \<Rightarrow> string list \<Rightarrow> nat list \<Rightarrow> 'l orchestrator \<Rightarrow>
    'l orchestrator \<times> nat option list \<times> orch_error option" where
  "compile_all e req languages order st =
     (if languages = [] then (st, [], Some (Orch_Problem ''no languages specified''))
      else (case check_languages e languages of
          Some err \<Rightarrow> (st, [], Some err)
        | None \<Rightarrow>
            (let (st, workers, results, errs) = fold (compile_item e req languages) order
                   (st, orch_workers (oe_config e) languages, replicate (length languages) None, [])
             in (st, results, if errs = [] then None else Some (Orch_Several (length errs) (hd errs))))))"

section \<open>Jobs and closing\<close>

definition get_job_status :: "string \<Rightarrow> 'l orchestrator \<Rightarrow> orch_error + compilation_job" where
  "get_job_status i st = (case gm_get (or_jobs st) i of None \<Rightarrow> Inl Orch_Job_Not_Found | Some j \<Rightarrow> Inr j)"

definition create_job :: "string \<Rightarrow> int \<Rightarrow> int \<Rightarrow> string \<Rightarrow> 'l orchestrator \<Rightarrow> compilation_job \<times> 'l orchestrator" where
  "create_job uuid now vid language st =
     (let j = \<lparr>jb_id = uuid, jb_version_id = vid, jb_language = language, jb_status = Job_Pending, jb_started = Some now,
        jb_completed = None, jb_error = [], jb_result = None\<rparr> in (j, st\<lparr>or_jobs := gm_put uuid j (or_jobs st)\<rparr>))"

definition update_job :: "int \<Rightarrow> string \<Rightarrow> job_status \<Rightarrow> nat option \<Rightarrow> string option \<Rightarrow> 'l orchestrator \<Rightarrow> 'l orchestrator" where
  "update_job now i status result err st = (case gm_get (or_jobs st) i of
     None \<Rightarrow> st
   | Some j \<Rightarrow> st\<lparr>or_jobs := gm_put i (j\<lparr>jb_status := status, jb_completed := Some now, jb_result := result,
       jb_error := (case err of None \<Rightarrow> jb_error j | Some x \<Rightarrow> x)\<rparr>) (or_jobs st)\<rparr>)"

text \<open>With the error of closing the Docker runner; the artifact store closes without one.\<close>

definition close_orchestrator :: "'l orch_env \<Rightarrow> string option \<Rightarrow> 'l orchestrator \<Rightarrow> 'l orchestrator \<times> (go_panic + orch_error option)" where
  "close_orchestrator e docker st =
     (let failed = (case docker of None \<Rightarrow> None | Some x \<Rightarrow> Some (Orch_Close [''docker runner: '' @ x])) in
      case or_cache st of
        No_Cache \<Rightarrow> (st, Inr failed)
      | Nil_Cache \<Rightarrow> (st, Inl NilDereference)
      | Live_Cache l \<Rightarrow> (st\<lparr>or_cache := Live_Cache (al_purge (oe_lru e) l)\<rparr>, Inr failed))"

end
