(* ===== verification/Codegen_Orchestrator_Props.thy ===== *)
theory Codegen_Orchestrator_Props
  imports Codegen_Orchestrator
begin

text \<open>What the orchestrator starts with, and what its timeout, its cache and its package generators come to.\<close>

section \<open>Timeouts\<close>

lemma nanos_unit: "(999999999 :: 64 word) * 9340617356365346303 = 1"
  by simp

lemma nanos_fixed: "(t :: 64 word) * 10 ^ 9 = t \<longleftrightarrow> t = 0"
proof
  assume t: "t * 10 ^ 9 = t"
  have "(10 :: 64 word) ^ 9 = 999999999 + 1" by simp
  then have "t * 10 ^ 9 = t * 999999999 + t" by (simp only: distrib_left mult_1_right)
  then have "t * 999999999 + t = 0 + t" using t by (simp only: add_0_left)
  then have zero: "t * 999999999 = 0" by (rule add_right_imp_eq)
  have "t = t * (999999999 * 9340617356365346303)" by (simp only: nanos_unit mult_1_right)
  also have "\<dots> = t * 999999999 * 9340617356365346303" by (simp only: mult.assoc)
  also have "\<dots> = 0" by (simp only: zero mult_zero_left)
  finally show "t = 0" .
qed simp

lemma nanos_sint: "sint ((t :: 64 word) * 1000000000) = sint t \<longleftrightarrow> t = 0"
  using nanos_fixed [of t] by (simp add: word_eq_iff_signed [symmetric])

text \<open>
  C38. The limit handed to Docker is the configured duration, already in nanoseconds, multiplied by \<open>time.Second\<close> once
  more: it is what was configured only when that is zero, which Docker replaces by its own default. The default of five minutes overflows to more than 153 years,
  and thirty seconds become a negative limit, a context that has expired before Docker starts.
\<close>

theorem docker_timeout_rescaled:
  "(dr_timeout (orch_docker_request e s r) = sint (oc_timeout (oe_config e)) \<longleftrightarrow> oc_timeout (oe_config e) = 0) \<and>
   dr_timeout (orch_docker_request (e\<lparr>oe_config := default_orch_config\<rparr>) s r) = 4852094820647174144 \<and>
   dr_timeout (orch_docker_request (e\<lparr>oe_config := default_orch_config\<lparr>oc_timeout := 30 * 10 ^ 9\<rparr>\<rparr>) s r) < 0"
  by (simp add: orch_docker_request_def default_orch_config_def nanos_sint)

section \<open>The cache\<close>

lemma map_keeps_field: "f x = f (xs ! a) \<Longrightarrow> map f (xs[a := x]) = map f xs"
  by (cases "a < length xs") (simp_all add: map_update list_update_beyond, metis list_update_id nth_map)

lemma cache_key_without_grpc: "orch_cache_key e s (r\<lparr>cq_grpc := g\<rparr>) = orch_cache_key e s r"
  by (simp add: orch_cache_key_def)

lemma validate_without_grpc:
  "validate_orch_request e (Some r) = Inr x \<Longrightarrow> x = r \<and> validate_orch_request e (Some (r\<lparr>cq_grpc := g\<rparr>)) = Inr (r\<lparr>cq_grpc := g\<rparr>)"
  by (simp add: validate_orch_request_def split: if_splits)

text \<open>A call that ends with a result and no error leaves its address in the cache, under the key of the request.\<close>

lemma compile_single_cached:
  assumes after_add: "\<And>l k a. fst (al_get (oe_lru e) (al_add (oe_lru e) l k a) k) = Some a"
      and after_get: "\<And>l k. fst (al_get (oe_lru e) (snd (al_get (oe_lru e) l k)) k) = fst (al_get (oe_lru e) l k)"
      and on: "oc_cache (oe_config e)" and live: "or_cache st = Live_Cache l"
      and ends: "compile_single e (Some r) st = (st', Inr (Some a, None))"
  obtains s l' where "validate_orch_request e (Some r) = Inr r" "get_lang (oe_langs e) (cq_language r) = Inr s" "lg_enabled s"
    "or_cache st' = Live_Cache l'" "fst (al_get (oe_lru e) l' (orch_cache_key e s r)) = Some a"
proof -
  obtain x where x: "validate_orch_request e (Some r) = Inr x"
    using ends by (auto simp: compile_single_def split: sum.splits)
  then have valid: "validate_orch_request e (Some r) = Inr r" using validate_without_grpc by blast
  then obtain s where s: "get_lang (oe_langs e) (cq_language r) = Inr s" and enabled: "lg_enabled s"
    using ends by (auto simp: compile_single_def split: sum.splits if_splits)
  let ?key = "orch_cache_key e s r"
  obtain b m where got: "al_get (oe_lru e) l ?key = (b, m)" by fastforce
  have call: "compile_single e (Some r) st = (case b of
      Some a \<Rightarrow> (orch_hit e a (st\<lparr>or_cache := Live_Cache m\<rparr>), Inr (Some a, None))
    | None \<Rightarrow> orch_compile e s r (st\<lparr>or_cache := Live_Cache m\<rparr>))"
    using valid s enabled on live got by (simp add: compile_single_def orch_lookup_def split: option.splits)
  have "\<exists>l'. or_cache st' = Live_Cache l' \<and> fst (al_get (oe_lru e) l' ?key) = Some a"
  proof (cases b)
    case (Some c)
    then have "c = a" "or_cache st' = Live_Cache m" using call ends by (auto simp: orch_hit_def)
    then show ?thesis using Some got after_get [of l ?key] by simp
  next
    case None
    then have "orch_compile e s r (st\<lparr>or_cache := Live_Cache m\<rparr>) = (st', Inr (Some a, None))" using call ends by simp
    then have "or_cache st' = Live_Cache (al_add (oe_lru e) m ?key a)"
      using on by (auto simp: orch_compile_def orch_remember_def Let_def split: sum.splits prod.splits)
    then show ?thesis using after_add by simp
  qed
  then show ?thesis using that [OF valid s enabled] by blast
qed

text \<open>
  C39. The cache answers for the wrong request. The key does not say whether gRPC code was asked for, so after a call
  that succeeded, the same request with any other choice about gRPC is given the very pointer of the first, without a
  run of Docker: the generated files are those of the first choice. What is asked of the LRU is that it finds what
  was just added, or just found; the options of a request are ranged over in the same order by both calls, as they are
  when there is at most one.
\<close>

theorem grpc_choice_ignored:
  assumes "\<forall>l k a. fst (al_get (oe_lru e) (al_add (oe_lru e) l k a) k) = Some a"
      and "\<forall>l k. fst (al_get (oe_lru e) (snd (al_get (oe_lru e) l k)) k) = fst (al_get (oe_lru e) l k)"
      and "oc_cache (oe_config e)" and "or_cache st = Live_Cache l"
      and "compile_single e (Some r) st = (st', Inr (Some a, None))"
  shows "\<exists>st''. compile_single e (Some (r\<lparr>cq_grpc := g\<rparr>)) st' = (st'', Inr (Some a, None)) \<and>
    length (or_heap st'') = length (or_heap st') \<and> map cr_generated (or_heap st'') = map cr_generated (or_heap st')"
proof -
  obtain s l' where valid: "validate_orch_request e (Some r) = Inr r" and s: "get_lang (oe_langs e) (cq_language r) = Inr s"
      and enabled: "lg_enabled s" and live: "or_cache st' = Live_Cache l'"
      and found: "fst (al_get (oe_lru e) l' (orch_cache_key e s r)) = Some a"
    by (rule compile_single_cached [of e st l r st' a]) (use assms in simp_all)
  obtain m where got: "al_get (oe_lru e) l' (orch_cache_key e s r) = (Some a, m)"
    using found by (cases "al_get (oe_lru e) l' (orch_cache_key e s r)") simp
  have "compile_single e (Some (r\<lparr>cq_grpc := g\<rparr>)) st' = (orch_hit e a (st'\<lparr>or_cache := Live_Cache m\<rparr>), Inr (Some a, None))"
    using valid s enabled live got assms(3) validate_without_grpc [OF valid, of g]
    by (simp add: compile_single_def orch_lookup_def cache_key_without_grpc)
  moreover have "map cr_generated ((or_heap st')[a := (or_heap st' ! a)\<lparr>cr_cache_hit := True, cr_duration := oe_since e\<rparr>]) =
      map cr_generated (or_heap st')"
    by (rule map_keeps_field) simp
  ultimately show ?thesis by (simp add: orch_hit_def)
qed

text \<open>A tiny orchestrator: a cache that keeps everything, and a Docker that answers one file with its number of flags as name.\<close>

definition tiny_orch_env :: "(string \<Rightarrow> nat option) orch_env" where
  "tiny_orch_env =
     \<lparr>oe_config = default_orch_config, oe_langs = [(''go'', lang_go)], oe_packages = [],
      oe_docker = (\<lambda>d. Inr ([\<lparr>gf_path = replicate (length (dr_flags d)) CHR ''x'', gf_content = [], gf_size = 0\<rparr>], 1)),
      oe_artifacts = None,
      oe_lru = \<lparr>al_new = Map.empty, al_get = (\<lambda>l k. (l k, l)), al_add = (\<lambda>l k a. l(k \<mapsto> a)), al_purge = (\<lambda>l. Map.empty)\<rparr>,
      oe_sha = (\<lambda>_. []), oe_since = 0\<rparr>"

definition tiny_orch_request :: orch_request where
  "tiny_orch_request =
     \<lparr>cq_module = ''m'', cq_version = ''v1'', cq_version_id = 1, cq_proto_files = [\<lparr>pf_path = ''a.proto'', pf_content = ''x'', pf_hash = []\<rparr>], cq_dependencies = [],
      cq_language = ''go'', cq_grpc = False, cq_options = [], cq_storage_dir = [], cq_bucket = []\<rparr>"

definition tiny_orchestrator :: "(string \<Rightarrow> nat option) orchestrator" where
  "tiny_orchestrator = \<lparr>or_heap = [], or_cache = Live_Cache Map.empty, or_jobs = []\<rparr>"

lemma tiny_first_call: "\<exists>st. compile_single tiny_orch_env (Some tiny_orch_request) tiny_orchestrator = (st, Inr (Some 0, None))"
  by (simp add: compile_single_def validate_orch_request_def get_lang_def orch_lookup_def orch_compile_def orch_remember_def
      tiny_orch_env_def tiny_orch_request_def tiny_orchestrator_def default_orch_config_def lang_go_def Let_def)

lemma tiny_flags_differ: "orch_protoc_flags lang_go (tiny_orch_request\<lparr>cq_grpc := True\<rparr>) \<noteq> orch_protoc_flags lang_go tiny_orch_request"
  by (simp add: orch_protoc_flags_def lang_go_def tiny_orch_request_def)

theorem grpc_choice_ignored_witness:
  "\<exists>st st'. compile_single tiny_orch_env (Some tiny_orch_request) tiny_orchestrator = (st, Inr (Some 0, None)) \<and>
     compile_single tiny_orch_env (Some (tiny_orch_request\<lparr>cq_grpc := True\<rparr>)) st = (st', Inr (Some 0, None)) \<and>
     map cr_generated (or_heap st') = map cr_generated (or_heap st) \<and>
     orch_protoc_flags lang_go (tiny_orch_request\<lparr>cq_grpc := True\<rparr>) \<noteq> orch_protoc_flags lang_go tiny_orch_request"
proof -
  obtain st where first: "compile_single tiny_orch_env (Some tiny_orch_request) tiny_orchestrator = (st, Inr (Some 0, None))"
    using tiny_first_call by (elim exE)
  have "\<exists>st'. compile_single tiny_orch_env (Some (tiny_orch_request\<lparr>cq_grpc := True\<rparr>)) st = (st', Inr (Some 0, None)) \<and>
      length (or_heap st') = length (or_heap st) \<and> map cr_generated (or_heap st') = map cr_generated (or_heap st)"
    by (rule grpc_choice_ignored [OF _ _ _ _ first])
      (simp_all add: tiny_orch_env_def tiny_orchestrator_def default_orch_config_def)
  then show ?thesis using first tiny_flags_differ by blast
qed

section \<open>Without a cache\<close>

text \<open>
  An orchestrator that is configured without a cache holds a nil \<open>*MemoryCache\<close> in the field of an interface type. Its
  comparison with nil is false, and closing the orchestrator calls \<open>Purge\<close> through the nil pointer.
\<close>

lemma compile_single_cache_off:
  assumes "\<not> oc_cache (oe_config e)"
  shows "or_cache (fst (compile_single e req st)) = or_cache st"
  using assms by (auto simp: compile_single_def orch_compile_def orch_lookup_def orch_remember_def Let_def split: sum.splits prod.splits)

lemma close_without_cache_panics:
  assumes new: "new_orchestrator (Some c) docker s3 lru sha since = Inr (e, st)" and off: "\<not> oc_cache c"
  shows "snd (close_orchestrator e failed (fold (\<lambda>r st. fst (compile_single e r st)) reqs st)) = Inl NilDereference"
proof -
  have "\<not> oc_cache (oe_config e)" and start: "or_cache st = Nil_Cache"
    using new off by (auto simp: new_orchestrator_def Let_def split: sum.splits)
  then have "or_cache (fold (\<lambda>r st. fst (compile_single e r st)) reqs st) = or_cache st"
    by (induction reqs arbitrary: st) (simp_all add: compile_single_cache_off)
  then show ?thesis using start by (simp add: close_orchestrator_def Let_def)
qed

section \<open>Package generators\<close>

text \<open>
  No generator of package files is ever registered: what a language with a package manager compiles to is a
  success with an error text and without package files.
\<close>

lemma orch_add_packages_bare:
  assumes "oe_packages e = []" and "cr_packages res = []"
  shows "cr_packages (orch_add_packages e s r res) = []"
    "lg_packages s = Some pm \<Longrightarrow> cr_error (orch_add_packages e s r res) = ''package generation warning: package generator not found: '' @ lp_name pm"
  using assms by (auto simp: orch_add_packages_def orch_package_files_def split: option.splits)

lemma orch_store_packages: "cr_packages (orch_store e s r res) = cr_packages res"
  by (simp add: orch_store_def split: option.splits sum.splits)

lemma orch_lookup_heap: "orch_lookup e k st = Inr (x, st') \<Longrightarrow> or_heap st' = or_heap st"
  by (auto simp: orch_lookup_def split: if_splits cache_slot.splits prod.splits)

lemma compile_single_outcomes:
  "or_heap (fst (compile_single e req st)) = or_heap st \<or>
   (\<exists>a st'. or_heap st' = or_heap st \<and> fst (compile_single e req st) = orch_hit e a st') \<or>
   (\<exists>s r st'. or_heap st' = or_heap st \<and> fst (compile_single e req st) = fst (orch_compile e s r st'))"
  unfolding compile_single_def using orch_lookup_heap
  by (simp split: sum.splits prod.splits option.splits) blast

lemma compile_single_bare:
  assumes "oe_packages e = []" and "set (map cr_packages (or_heap st)) \<subseteq> {[]}"
  shows "set (map cr_packages (or_heap (fst (compile_single e req st)))) \<subseteq> {[]}"
proof -
  have keep: "map cr_packages (or_heap (orch_hit e a st)) = map cr_packages (or_heap st)" for a st
    by (simp add: orch_hit_def map_keeps_field del: map_update)
  have add: "set (map cr_packages (or_heap (fst (orch_compile e s r st)))) \<subseteq> insert [] (set (map cr_packages (or_heap st)))" for s r st
    using assms(1) by (auto simp: orch_compile_def orch_remember_def Let_def orch_store_packages orch_add_packages_bare empty_result_def
        split: sum.splits prod.splits if_splits cache_slot.splits)
  note compile_single_outcomes [of e req st]
  then show ?thesis
  proof (elim disjE exE conjE)
    assume "or_heap (fst (compile_single e req st)) = or_heap st"
    then show ?thesis using assms(2) by (simp only:)
  next
    fix a st' assume "or_heap st' = or_heap st" "fst (compile_single e req st) = orch_hit e a st'"
    then show ?thesis using assms(2) by (simp only: keep)
  next
    fix s r st' assume "or_heap st' = or_heap st" "fst (compile_single e req st) = fst (orch_compile e s r st')"
    then show ?thesis using assms(2) add [of s r st'] by (simp only:) blast
  qed
qed

lemma no_package_files:
  assumes "new_orchestrator config docker s3 lru sha since = Inr (e, st)"
    and "res \<in> set (or_heap (fold (\<lambda>r st. fst (compile_single e r st)) reqs st))"
  shows "cr_packages res = []"
proof -
  have none: "oe_packages e = []" and start: "or_heap st = []"
    using assms(1) by (auto simp: new_orchestrator_def Let_def split: sum.splits)
  have "set (map cr_packages (or_heap (fold (\<lambda>r st. fst (compile_single e r st)) reqs st))) \<subseteq> {[]}"
    if "set (map cr_packages (or_heap st)) \<subseteq> {[]}" for st
    using that by (induction reqs arbitrary: st) (simp_all add: compile_single_bare [OF none] del: set_map)
  from this [of st] show ?thesis using start assms(2) by auto
qed

section \<open>Default languages\<close>

lemma default_languages_load:
  "initialize_default_registry = Inr (map (\<lambda>s. (lg_id s, s)) get_default_languages)"
  by code_simp

lemma default_languages_enabled: "list_all lg_enabled get_default_languages \<and> length get_default_languages = 15"
  by code_simp

end
