(* ===== verification/Org_Web.thy ===== *)
theory Org_Web
  imports Org_Service Middleware_Chain
begin

text \<open>
  The requests about organizations (\<open>pkg/api/org_handlers.go\<close>). Each handler takes the decoded request and the
  tables, and answers with a status and a payload; reading the usage of an organization need not return.
\<close>

section \<open>Answers\<close>

datatype org_payload =
    Org_Empty
  | Org_Error_Text string
  | Org_Failed org_error
  | Org_Json organization
  | Orgs_Json "organization list"
  | Quotas_Json org_quotas
  | Usage_Json org_usage
  | History_Json "org_usage list"
  | Members_Json "org_member list"
  | Invitation_Json org_invitation
  | Invitations_Json "org_invitation list"

type_synonym org_reply = "nat \<times> org_payload"

type_synonym 'a org_answer = "'a \<Rightarrow> org_db \<Rightarrow> org_db \<times> org_reply"

text \<open>\<open>getAuthContext\<close> looks the context up under the string \<open>auth\<close>.\<close>

definition org_auth_user :: "'b web_request \<Rightarrow> auth_user option" where
  "org_auth_user r = (case map_of (rq_ctx (wq_http r)) (Plain_Key ''auth'') of
     Some (Auth_Value a) \<Rightarrow> ac_user a | _ \<Rightarrow> None)"

definition org_unauthorized :: org_reply where
  "org_unauthorized = (401, Org_Error_Text ''Unauthorized'')"

text \<open>\<open>ParsePathInt64OrError\<close> and \<open>ParseJSONOrError\<close>: what goes on with the value, or the answer 400.\<close>

definition path_int_or :: "'b web_request \<Rightarrow> string \<Rightarrow> (org_reply \<Rightarrow> 'c) \<Rightarrow> (int \<Rightarrow> 'c) \<Rightarrow> 'c" where
  "path_int_or r key bad k =
     (let s = path_var r key in
      if s = [] then bad (400, Org_Error_Text (''missing path parameter: '' @ key))
      else (case atoi s of
          None \<Rightarrow> bad (400, Org_Error_Text (''invalid integer for '' @ key @ '': '' @ s))
        | Some i \<Rightarrow> k i))"

definition json_or :: "'b web_request \<Rightarrow> org_db \<Rightarrow> ('b \<Rightarrow> org_db \<times> org_reply) \<Rightarrow> org_db \<times> org_reply" where
  "json_or r db k = (case wq_body r of
     None \<Rightarrow> (db, 400, Org_Error_Text ''failed to parse JSON'') | Some b \<Rightarrow> k b)"

definition answer :: "nat \<Rightarrow> nat \<Rightarrow> ('a \<Rightarrow> org_payload) \<Rightarrow> org_error + 'a \<Rightarrow> org_reply" where
  "answer failed ok f x = (case x of Inl e \<Rightarrow> (failed, Org_Failed e) | Inr a \<Rightarrow> (ok, f a))"

section \<open>Organizations\<close>

record create_org_body =
  cb_name :: string
  cb_display_name :: string
  cb_description :: string
  cb_tier :: string
  cb_settings :: string

definition org_of_body :: "int \<Rightarrow> create_org_body \<Rightarrow> organization" where
  "org_of_body owner b =
     \<lparr>og_id = 0, og_name = cb_name b, og_slug = [], og_display_name = cb_display_name b, og_description = cb_description b,
      og_owner = Some owner, og_tier = cb_tier b, og_status = [], og_active = False, og_settings = cb_settings b,
      og_created = 0, og_updated = 0\<rparr>"

definition web_create_org :: "org_clock \<Rightarrow> create_org_body web_request org_answer" where
  "web_create_org ck r db = (case org_auth_user r of
     None \<Rightarrow> (db, org_unauthorized)
   | Some u \<Rightarrow> json_or r db (\<lambda>b. case create_organization ck (org_of_body (au_id u) b) db of
       (db, Inl e) \<Rightarrow> (db, 500, Org_Failed e)
     | (db, Inr g) \<Rightarrow> (case add_member ck (og_id g) (au_id u) ''admin'' None db of
         (db, Inl e) \<Rightarrow> (db, 500, Org_Failed e)
       | (db, Inr _) \<Rightarrow> (db, 201, Org_Json g))))"

definition web_list_orgs :: "unit web_request org_answer" where
  "web_list_orgs r db = (db, case org_auth_user r of
     None \<Rightarrow> org_unauthorized | Some u \<Rightarrow> (200, Orgs_Json (list_organizations (au_id u) db)))"

definition web_get_org :: "unit web_request org_answer" where
  "web_get_org r db = path_int_or r ''id'' (Pair db) (\<lambda>i. (db, answer 404 200 Org_Json (get_organization i db)))"

definition web_update_org :: "org_clock \<Rightarrow> update_org_request web_request org_answer" where
  "web_update_org ck r db = path_int_or r ''id'' (Pair db) (\<lambda>i. json_or r db (\<lambda>b. case update_organization ck i b db of
     (db, Inl e) \<Rightarrow> (db, 500, Org_Failed e)
   | (db, Inr _) \<Rightarrow> (db, answer 500 200 Org_Json (get_organization i db))))"

text \<open>A change that is answered with 204 and no payload when it succeeds.\<close>

definition no_content :: "org_db \<times> (org_error + unit) \<Rightarrow> org_db \<times> org_reply" where
  "no_content x = (case x of (db, y) \<Rightarrow> (db, answer 500 204 (\<lambda>_. Org_Empty) y))"

definition web_delete_org :: "org_clock \<Rightarrow> unit web_request org_answer" where
  "web_delete_org ck r db = path_int_or r ''id'' (Pair db) (\<lambda>i. no_content (delete_organization ck i db))"

section \<open>Quotas and usage\<close>

definition web_get_quotas :: "unit web_request org_answer" where
  "web_get_quotas r db = path_int_or r ''id'' (Pair db) (\<lambda>i. (db, answer 404 200 Quotas_Json (get_quotas i db)))"

definition web_update_quotas :: "org_clock \<Rightarrow> org_quotas web_request org_answer" where
  "web_update_quotas ck r db = path_int_or r ''id'' (Pair db) (\<lambda>i. json_or r db (\<lambda>q. case update_quotas ck i q db of
     (db, Inl e) \<Rightarrow> (db, 500, Org_Failed e)
   | (db, Inr _) \<Rightarrow> (db, answer 500 200 Quotas_Json (get_quotas i db))))"

definition web_get_usage :: "org_clock \<Rightarrow> unit web_request \<Rightarrow> org_db \<Rightarrow> (org_db \<times> org_reply) option" where
  "web_get_usage ck r db = path_int_or r ''id'' (\<lambda>e. Some (db, e)) (\<lambda>i.
     Option.bind (get_usage ck i db) (\<lambda>(db, x). Some (db, answer 404 200 Usage_Json x)))"

text \<open>A negative \<open>LIMIT\<close> is an error of PostgreSQL.\<close>

definition web_get_usage_history :: "unit web_request org_answer" where
  "web_get_usage_history r db = path_int_or r ''id'' (Pair db) (\<lambda>i.
     let s = query_value r ''limit'' in
     case (if s = [] then Some 12 else atoi s) of
       None \<Rightarrow> (db, 400, Org_Error_Text (''invalid integer for query param limit: '' @ s))
     | Some limit \<Rightarrow>
         if limit < 0 then (db, 500, Org_Failed (Org_Wrap ''failed to get usage history'' (Org_Text ''LIMIT must not be negative'')))
         else (db, 200, History_Json (get_usage_history i (nat limit) db)))"

section \<open>Members\<close>

record add_member_body =
  ab_user :: int
  ab_role :: string

definition web_list_members :: "unit web_request org_answer" where
  "web_list_members r db = path_int_or r ''id'' (Pair db) (\<lambda>i. (db, 200, Members_Json (list_members i db)))"

definition web_add_member :: "org_clock \<Rightarrow> add_member_body web_request org_answer" where
  "web_add_member ck r db = path_int_or r ''id'' (Pair db) (\<lambda>i. case org_auth_user r of
     None \<Rightarrow> (db, org_unauthorized)
   | Some u \<Rightarrow> json_or r db (\<lambda>b. case add_member ck i (ab_user b) (ab_role b) (Some (au_id u)) db of
       (db, x) \<Rightarrow> (db, answer 500 201 (\<lambda>_. Org_Empty) x)))"

definition web_update_member :: "string web_request org_answer" where
  "web_update_member r db = path_int_or r ''id'' (Pair db) (\<lambda>i. path_int_or r ''user_id'' (Pair db) (\<lambda>u.
     json_or r db (\<lambda>role. no_content (update_member_role i u role db))))"

definition web_remove_member :: "unit web_request org_answer" where
  "web_remove_member r db = path_int_or r ''id'' (Pair db) (\<lambda>i. path_int_or r ''user_id'' (Pair db) (\<lambda>u. no_content (remove_member i u db)))"

section \<open>Invitations\<close>

record invite_body =
  ib_email :: string
  ib_role :: string

definition web_create_invitation :: "org_clock \<Rightarrow> string \<Rightarrow> invite_body web_request org_answer" where
  "web_create_invitation ck token r db = path_int_or r ''id'' (Pair db) (\<lambda>i. case org_auth_user r of
     None \<Rightarrow> (db, org_unauthorized)
   | Some u \<Rightarrow> json_or r db (\<lambda>b. case create_invitation ck token
         \<lparr>ir_org = i, ir_email = ib_email b, ir_role = ib_role b, ir_invited_by = au_id u, ir_invited_at = None,
          ir_expires_at = None\<rparr> db of
       (db, x) \<Rightarrow> (db, answer 500 201 Invitation_Json x)))"

definition web_list_invitations :: "unit web_request org_answer" where
  "web_list_invitations r db = path_int_or r ''id'' (Pair db) (\<lambda>i. (db, 200, Invitations_Json (list_invitations i db)))"

definition web_revoke_invitation :: "unit web_request org_answer" where
  "web_revoke_invitation r db = path_int_or r ''invitation_id'' (Pair db) (\<lambda>i. no_content (revoke_invitation i db))"

definition web_accept_invitation :: "org_clock \<Rightarrow> unit web_request org_answer" where
  "web_accept_invitation ck r db = (case org_auth_user r of
     None \<Rightarrow> (db, org_unauthorized)
   | Some u \<Rightarrow> (case accept_invitation ck (path_var r ''token'') (au_id u) db of
       (db, x) \<Rightarrow> (db, answer 400 204 (\<lambda>_. Org_Empty) x)))"

section \<open>Routes\<close>

datatype org_request =
    Create_Org "create_org_body web_request"
  | List_Orgs "unit web_request"
  | Get_Org "unit web_request"
  | Update_Org "update_org_request web_request"
  | Delete_Org "unit web_request"
  | Get_Quotas "unit web_request"
  | Update_Quotas "org_quotas web_request"
  | Get_Usage "unit web_request"
  | Get_Usage_History "unit web_request"
  | List_Members "unit web_request"
  | Add_Member "add_member_body web_request"
  | Update_Member "string web_request"
  | Remove_Member "unit web_request"
  | Create_Invitation "invite_body web_request"
  | List_Invitations "unit web_request"
  | Revoke_Invitation "unit web_request"
  | Accept_Invitation "unit web_request"

text \<open>Each call comes with the time and a random token. What a call that does not
  return has done by then, opening a usage period, is left out.\<close>

fun org_call :: "org_clock \<Rightarrow> string \<Rightarrow> org_request \<Rightarrow> org_db \<Rightarrow> (org_db \<times> org_reply) option" where
  "org_call ck token (Create_Org r) db = Some (web_create_org ck r db)"
| "org_call ck token (List_Orgs r) db = Some (web_list_orgs r db)"
| "org_call ck token (Get_Org r) db = Some (web_get_org r db)"
| "org_call ck token (Update_Org r) db = Some (web_update_org ck r db)"
| "org_call ck token (Delete_Org r) db = Some (web_delete_org ck r db)"
| "org_call ck token (Get_Quotas r) db = Some (web_get_quotas r db)"
| "org_call ck token (Update_Quotas r) db = Some (web_update_quotas ck r db)"
| "org_call ck token (Get_Usage r) db = web_get_usage ck r db"
| "org_call ck token (Get_Usage_History r) db = Some (web_get_usage_history r db)"
| "org_call ck token (List_Members r) db = Some (web_list_members r db)"
| "org_call ck token (Add_Member r) db = Some (web_add_member ck r db)"
| "org_call ck token (Update_Member r) db = Some (web_update_member r db)"
| "org_call ck token (Remove_Member r) db = Some (web_remove_member r db)"
| "org_call ck token (Create_Invitation r) db = Some (web_create_invitation ck token r db)"
| "org_call ck token (List_Invitations r) db = Some (web_list_invitations r db)"
| "org_call ck token (Revoke_Invitation r) db = Some (web_revoke_invitation r db)"
| "org_call ck token (Accept_Invitation r) db = Some (web_accept_invitation ck r db)"

definition org_serve :: "org_clock \<times> string \<times> org_request \<Rightarrow> org_db \<Rightarrow> org_db" where
  "org_serve x db = (case x of (ck, token, c) \<Rightarrow> (case org_call ck token c db of None \<Rightarrow> db | Some (db, _) \<Rightarrow> db))"

end
