(* ===== verification/Org_Web_Props.thy ===== *)
theory Org_Web_Props
  imports Org_Web Org_Props
begin

text \<open>Who can do what to an organization over HTTP: nobody can join one, and anybody can change one.\<close>

section \<open>Contexts\<close>

text \<open>
  The contexts the program makes: every \<open>context.WithValue\<close> of it uses a typed key, but for the organization id of
  the quota middleware and the module name of the permission check.
\<close>

inductive program_ctx :: "ctx \<Rightarrow> bool" where
  empty: "program_ctx []"
| typed: "program_ctx c \<Longrightarrow> program_ctx (with_value c (Typed_Key k) v)"
| plain_org: "program_ctx c \<Longrightarrow> program_ctx (with_value c (Plain_Key ''org_id'') (Int_Value i))"
| plain_module: "program_ctx c \<Longrightarrow> program_ctx (with_value c (Plain_Key ''module_name'') (Text_Value m))"

lemma program_ctx_intros:
  "program_ctx c \<Longrightarrow> program_ctx (with_auth c a)" "program_ctx c \<Longrightarrow> program_ctx (with_org c g)"
  by (simp_all add: with_auth_def with_org_def auth_key_def org_key_def program_ctx.typed)

lemma program_ctx_plain: "program_ctx c \<Longrightarrow> map_of c (Plain_Key ''auth'') = None"
  by (induction rule: program_ctx.induct) (simp_all add: with_value_def)

lemma no_org_user: "program_ctx (rq_ctx (wq_http r)) \<Longrightarrow> org_auth_user r = None"
  by (simp add: org_auth_user_def program_ctx_plain)

fun org_request_ctx :: "org_request \<Rightarrow> ctx" where
  "org_request_ctx (Create_Org r) = rq_ctx (wq_http r)"
| "org_request_ctx (List_Orgs r) = rq_ctx (wq_http r)"
| "org_request_ctx (Get_Org r) = rq_ctx (wq_http r)"
| "org_request_ctx (Update_Org r) = rq_ctx (wq_http r)"
| "org_request_ctx (Delete_Org r) = rq_ctx (wq_http r)"
| "org_request_ctx (Get_Quotas r) = rq_ctx (wq_http r)"
| "org_request_ctx (Update_Quotas r) = rq_ctx (wq_http r)"
| "org_request_ctx (Get_Usage r) = rq_ctx (wq_http r)"
| "org_request_ctx (Get_Usage_History r) = rq_ctx (wq_http r)"
| "org_request_ctx (List_Members r) = rq_ctx (wq_http r)"
| "org_request_ctx (Add_Member r) = rq_ctx (wq_http r)"
| "org_request_ctx (Update_Member r) = rq_ctx (wq_http r)"
| "org_request_ctx (Remove_Member r) = rq_ctx (wq_http r)"
| "org_request_ctx (Create_Invitation r) = rq_ctx (wq_http r)"
| "org_request_ctx (List_Invitations r) = rq_ctx (wq_http r)"
| "org_request_ctx (Revoke_Invitation r) = rq_ctx (wq_http r)"
| "org_request_ctx (Accept_Invitation r) = rq_ctx (wq_http r)"

text \<open>The requests whose handler asks for a user.\<close>

fun asks_for_user :: "org_request \<Rightarrow> bool" where
  "asks_for_user (Create_Org r) = True"
| "asks_for_user (List_Orgs r) = True"
| "asks_for_user (Add_Member r) = True"
| "asks_for_user (Create_Invitation r) = True"
| "asks_for_user (Accept_Invitation r) = True"
| "asks_for_user c = False"

lemma asking_refused:
  assumes "asks_for_user c" and "program_ctx (org_request_ctx c)"
  shows "\<exists>status \<in> {400, 401}. \<exists>p. org_call ck token c db = Some (db, status, p)"
  using assms
  by (cases c) (auto simp: no_org_user web_create_org_def web_list_orgs_def web_add_member_def web_create_invitation_def
      web_accept_invitation_def org_unauthorized_def path_int_or_def Let_def split: option.splits)

section \<open>What requests keep\<close>

text \<open>Organizations stay, nobody joins, and no invitation is made, changed or accepted.\<close>

definition only_shrinks :: "org_db \<Rightarrow> org_db \<Rightarrow> bool" where
  "only_shrinks db db' \<longleftrightarrow> map og_id (od_orgs db') = map og_id (od_orgs db) \<and>
     member_key ` set (od_members db') \<subseteq> member_key ` set (od_members db) \<and>
     set (od_invitations db') \<subseteq> set (od_invitations db)"

lemma only_shrinks_refl [simp]: "only_shrinks db db"
  by (simp add: only_shrinks_def)

lemma only_shrinks_trans: "only_shrinks a b \<Longrightarrow> only_shrinks b c \<Longrightarrow> only_shrinks a c"
  unfolding only_shrinks_def by (elim conjE, intro conjI) (simp, (rule subset_trans, assumption+)+)

lemma path_int_or_cases:
  "(\<And>p. P (bad (400, p))) \<Longrightarrow> (\<And>i. P (k i)) \<Longrightarrow> P (path_int_or r key bad k)"
  by (simp add: path_int_or_def Let_def split: option.splits)

lemma json_or_cases:
  "(\<And>p. P (db, 400, p)) \<Longrightarrow> (\<And>b. P (k b)) \<Longrightarrow> P (json_or r db k)"
  by (simp add: json_or_def split: option.splits)

lemma shrinks_update_org: "only_shrinks db (fst (update_organization ck i b db))"
  by (simp add: update_organization_def only_shrinks_def if_distrib [of og_id] cong: if_cong)

lemma shrinks_delete_org: "only_shrinks db (fst (delete_organization ck i db))"
  by (simp add: delete_organization_def only_shrinks_def if_distrib [of og_id] cong: if_cong)

lemma shrinks_update_quotas: "only_shrinks db (fst (update_quotas ck i q db))"
  by (simp add: update_quotas_def only_shrinks_def)

lemma shrinks_update_role: "only_shrinks db (fst (update_member_role g u role db))"
  by (auto simp: update_member_role_def only_shrinks_def member_key_def image_image)

lemma shrinks_remove_member: "only_shrinks db (fst (remove_member g u db))"
  by (auto simp: remove_member_def only_shrinks_def)

lemma shrinks_revoke: "only_shrinks db (fst (revoke_invitation i db))"
  by (auto simp: revoke_invitation_def only_shrinks_def Let_def)

lemma shrinks_initialize: "only_shrinks db (fst (initialize_usage_period ck g db))"
  by (simp add: initialize_usage_period_def take_id_def Let_def only_shrinks_def)

lemma shrinks_get_usage:
  assumes "get_usage ck g db = Some r"
  shows "only_shrinks db (fst r)"
proof (rule get_usage.raw_induct [OF _ assms, where P = "\<lambda>ck g db r. only_shrinks db (fst r)"])
  fix loop ck g db r
  assume IH: "\<And>ck g db r. loop ck g db = Some r \<Longrightarrow> only_shrinks db (fst r)"
    and body: "(case current_usage ck g db of Some u \<Rightarrow> Some (db, Inr u)
      | None \<Rightarrow> (case initialize_usage_period ck g db of
          (db', Inl e) \<Rightarrow> Some (db', Inl e) | (db', Inr _) \<Rightarrow> loop ck g db')) = Some r"
  obtain db' e where i: "initialize_usage_period ck g db = (db', e)" by fastforce
  then have "only_shrinks db db'" using shrinks_initialize [of db ck g] by simp
  then show "only_shrinks db (fst r)"
    using body i IH only_shrinks_trans by (auto split: option.splits sum.splits)
qed

lemmas shrinks = shrinks_update_org shrinks_delete_org shrinks_update_quotas shrinks_update_role shrinks_remove_member shrinks_revoke

lemma shrinks_web:
  "only_shrinks db (fst (web_update_org ck r1 db))" "only_shrinks db (fst (web_delete_org ck r2 db))"
  "only_shrinks db (fst (web_update_quotas ck r3 db))" "only_shrinks db (fst (web_update_member r4 db))"
  "only_shrinks db (fst (web_remove_member r2 db))" "only_shrinks db (fst (web_revoke_invitation r2 db))"
  unfolding web_update_org_def web_delete_org_def web_update_quotas_def web_update_member_def web_remove_member_def
    web_revoke_invitation_def no_content_def
  by (intro path_int_or_cases [where P = "\<lambda>x. only_shrinks db (fst x)"] json_or_cases [where P = "\<lambda>x. only_shrinks db (fst x)"];
      simp add: split_beta sum.case_distrib [of fst] split: sum.splits; use shrinks in \<open>simp add: split_beta\<close>)+

lemma shrinks_web_usage: "web_get_usage ck r db = Some x \<Longrightarrow> only_shrinks db (fst x)"
  unfolding web_get_usage_def
  by (rule path_int_or_cases [where P = "\<lambda>y. y = Some x \<longrightarrow> only_shrinks db (fst x)", THEN mp])
    (auto simp: bind_eq_Some_conv dest: shrinks_get_usage)

lemma reading_keeps:
  "fst (web_get_org r db) = db" "fst (web_get_quotas r db) = db" "fst (web_get_usage_history r db) = db"
  "fst (web_list_members r db) = db" "fst (web_list_invitations r db) = db"
  unfolding web_get_org_def web_get_quotas_def web_get_usage_history_def web_list_members_def web_list_invitations_def
  by (rule path_int_or_cases [where P = "\<lambda>x. fst x = db"]; simp add: Let_def split: option.splits)+

lemma shrinks_call:
  assumes ctx: "program_ctx (org_request_ctx c)" and call: "org_call ck token c db = Some x"
  shows "only_shrinks db (fst x)"
proof (cases "asks_for_user c")
  case True
  then show ?thesis using asking_refused [OF _ ctx, of ck token db] call by auto
next
  case False
  then show ?thesis
    using call by (cases c) (auto simp: shrinks_web reading_keeps shrinks_web_usage)
qed

lemma shrinks_serve: "program_ctx (org_request_ctx (snd (snd x))) \<Longrightarrow> only_shrinks db (org_serve x db)"
  by (auto simp: org_serve_def split: prod.splits option.splits dest: shrinks_call)

lemma shrinks_run: "\<forall>x \<in> set calls. program_ctx (org_request_ctx (snd (snd x))) \<Longrightarrow> only_shrinks db (fold org_serve calls db)"
  by (induction calls arbitrary: db) (auto intro: only_shrinks_trans shrinks_serve)

section \<open>Rights\<close>

lemma path_int_or_ok: "atoi (path_var r key) = Some i \<Longrightarrow> path_int_or r key bad k = k i"
  by (cases "path_var r key = []") (simp_all only: path_int_or_def Let_def if_False option.case, simp_all add: atoi_def)

lemma any_role_given:
  assumes "atoi (path_var r ''id'') = Some g" and "atoi (path_var r ''user_id'') = Some u" and "wq_body r = Some role"
    and "is_member g u db"
  shows "\<exists>db'. web_update_member r db = (db', 204, Org_Empty) \<and> (\<forall>m \<in> set (od_members db'). member_key m = (g, u) \<longrightarrow> mr_role m = role)"
proof -
  define rows where "rows = map (\<lambda>m. if mr_org m = g \<and> mr_user m = u then m\<lparr>mr_role := role\<rparr> else m) (od_members db)"
  have "web_update_member r db = no_content (update_member_role g u role db)"
    unfolding web_update_member_def by (simp only: path_int_or_ok [OF assms(1)] path_int_or_ok [OF assms(2)] json_or_def assms(3) option.case)
  also have "\<dots> = (db\<lparr>od_members := rows\<rparr>, 204, Org_Empty)"
    using assms(4) by (simp add: no_content_def answer_def update_member_role_def rows_def)
  finally have "web_update_member r db = (db\<lparr>od_members := rows\<rparr>, 204, Org_Empty)" .
  moreover have "mr_role m = role" if row: "m \<in> set rows" and key: "member_key m = (g, u)" for m
  proof -
    obtain x where x: "m = (if mr_org x = g \<and> mr_user x = u then x\<lparr>mr_role := role\<rparr> else x)"
      using row unfolding rows_def set_map by blast
    show ?thesis using key x by (cases "mr_org x = g \<and> mr_user x = u") (simp_all add: member_key_def)
  qed
  ultimately show ?thesis by (intro exI [of _ "db\<lparr>od_members := rows\<rparr>"] conjI ballI impI) simp_all
qed


text \<open>A token that was accepted asks to let its holder join; then anybody promotes the one member there is.\<close>

definition web_org_db :: org_db where
  "web_org_db = (sample_db [])\<lparr>od_members := [\<lparr>mr_id = 3, mr_org = 0, mr_user = 2, mr_role = ''viewer'', mr_invited_by = None,
     mr_joined = 0, mr_created = 0\<rparr>]\<rparr>"

definition web_org_request :: "ctx \<Rightarrow> 'b \<Rightarrow> 'b web_request" where
  "web_org_request c b =
     \<lparr>wq_http = \<lparr>rq_method = [], rq_headers = [], rq_remote = [], rq_vars = [(''id'', ''0''), (''user_id'', ''2'')], rq_ctx = c\<rparr>,
      wq_query = [], wq_body = Some b\<rparr>"

definition join_request :: org_request where
  "join_request = Add_Member (web_org_request
     (with_auth [] \<lparr>ac_user = Some \<lparr>au_id = 8, au_username = ''eve'', au_is_bot = False, au_is_active = True\<rparr>, ac_org = None,
        ac_token = None, ac_scopes = [scope_all]\<rparr>) \<lparr>ab_user = 8, ab_role = ''admin''\<rparr>)"

lemma join_request_facts: "program_ctx (org_request_ctx join_request)" "asks_for_user join_request"
  by (simp_all add: join_request_def web_org_request_def program_ctx_intros program_ctx.empty)

lemma promote_path: "atoi (path_var (web_org_request [] ''admin'') ''id'') = Some 0" "atoi (path_var (web_org_request [] ''admin'') ''user_id'') = Some 2"
  by code_simp+

lemma join_refused: "fold org_serve [(ck, [], join_request)] web_org_db = web_org_db"
  using asking_refused [OF join_request_facts(2,1), of ck "[]" web_org_db] by (auto simp: org_serve_def)


end
